(* ===== verification/Prelude.thy ===== *)
theory Prelude
  imports Main
begin

text \<open>
  What every component of the model shares: the HTTP exceptions the services throw as a
  datatype, the outcome of a handler (an error or a value, together with the state it leaves
  behind, because an exception in the code undoes nothing outside a transaction), tables as
  lists of rows with the operations a query needs (\<open>find\<close>, \<open>update_where\<close>,
  \<open>delete_where\<close>, \<open>count_where\<close>, \<open>sum_where\<close>, \<open>latest\<close>), the collection
  \<open>tbl\<close> of their simplification rules, and the locale of systems whose invariant
  every step keeps.
\<close>

section \<open>Outcomes of handlers\<close>

text \<open>The exceptions of \<open>@nestjs/common\<close> that the services throw, with their message, the
  429 of \<open>RateLimitExceededException\<close> with its \<open>retryAfterSeconds\<close>, and \<open>Thrown\<close> for an
  exception of a library that a handler lets through (Nest answers 500).\<close>

datatype http_error =
    BadRequest string
  | Unauthorized string
  | Forbidden string
  | NotFound string
  | Conflict string
  | TooManyRequests string "int option"
  | InternalError string
  | Thrown string

type_synonym ('a, 'w) outcome = "(http_error + 'a) \<times> 'w"

text \<open>Milliseconds since the epoch, as \<open>Date.now()\<close> gives them.\<close>

type_synonym time = nat

definition is_ok :: "('a, 'w) outcome \<Rightarrow> bool" where
  "is_ok r = (case fst r of Inl _ \<Rightarrow> False | Inr _ \<Rightarrow> True)"

lemma is_ok_simps [simp]:
  "is_ok (Inl e, w) = False"
  "is_ok (Inr x, w) = True"
  by (simp_all add: is_ok_def)

text \<open>A loop \<open>for (const x of xs) await step(x)\<close>: the first exception leaves the loop and the
  state it left behind stays.\<close>

fun for_each :: "('w \<Rightarrow> 'a \<Rightarrow> (unit, 'w) outcome) \<Rightarrow> 'w \<Rightarrow> 'a list \<Rightarrow> (unit, 'w) outcome" where
  "for_each step w [] = (Inr (), w)"
| "for_each step w (x # xs) =
     (case step w x of
        (Inl e, w') \<Rightarrow> (Inl e, w')
      | (Inr _, w') \<Rightarrow> for_each step w' xs)"

lemma for_each_inv:
  assumes "I w"
    and "\<And>w x r w'. I w \<Longrightarrow> x \<in> set xs \<Longrightarrow> step w x = (r, w') \<Longrightarrow> I w'"
  shows "I (snd (for_each step w xs))"
  using assms
proof (induction xs arbitrary: w)
  case Nil
  then show ?case by simp
next
  case (Cons x xs)
  obtain r w' where s: "step w x = (r, w')" by fastforce
  have w': "I w'" by (rule Cons.prems(2) [OF Cons.prems(1) _ s]) simp
  have "I (snd (for_each step w' xs))"
    by (rule Cons.IH [OF w']) (use Cons.prems(2) in auto)
  with s w' show ?case by (auto split: sum.splits)
qed

text \<open>Where no step throws, the loop is the fold of the state changes.\<close>

lemma for_each_ok:
  assumes "\<And>w x. I w \<Longrightarrow> x \<in> set xs \<Longrightarrow> fst (step w x) = Inr () \<and> I (snd (step w x))"
    and "I w"
  shows "fst (for_each step w xs) = Inr () \<and> I (snd (for_each step w xs))"
  using assms
proof (induction xs arbitrary: w)
  case Nil
  then show ?case by simp
next
  case (Cons x xs)
  obtain r w' where s: "step w x = (r, w')" by fastforce
  have "r = Inr () \<and> I w'" using Cons.prems(1) [OF Cons.prems(2), of x] s by simp
  moreover from this have "fst (for_each step w' xs) = Inr () \<and> I (snd (for_each step w' xs))"
    by (intro Cons.IH) (use Cons.prems(1) in auto)
  ultimately show ?case using s by simp
qed

section \<open>Tables\<close>

named_theorems tbl "rewrite rules for queries over tables"

definition update_where :: "('a \<Rightarrow> bool) \<Rightarrow> ('a \<Rightarrow> 'a) \<Rightarrow> 'a list \<Rightarrow> 'a list" where
  "update_where p f xs = map (\<lambda>x. if p x then f x else x) xs"

definition delete_where :: "('a \<Rightarrow> bool) \<Rightarrow> 'a list \<Rightarrow> 'a list" where
  "delete_where p xs = filter (\<lambda>x. \<not> p x) xs"

definition count_where :: "('a \<Rightarrow> bool) \<Rightarrow> 'a list \<Rightarrow> nat" where
  "count_where p xs = length (filter p xs)"

definition sum_where :: "('a \<Rightarrow> bool) \<Rightarrow> ('a \<Rightarrow> nat) \<Rightarrow> 'a list \<Rightarrow> nat" where
  "sum_where p g xs = sum_list (map g (filter p xs))"

text \<open>\<open>orderBy: { key: 'desc' }\<close>; the order of rows with equal keys is the table's.\<close>

definition order_desc :: "('a \<Rightarrow> nat) \<Rightarrow> 'a list \<Rightarrow> 'a list" where
  "order_desc key xs = sort_key (\<lambda>x. - int (key x)) xs"

text \<open>\<open>findFirst\<close> with \<open>orderBy: { key: 'desc' }\<close>.\<close>

definition latest :: "('a \<Rightarrow> nat) \<Rightarrow> ('a \<Rightarrow> bool) \<Rightarrow> 'a list \<Rightarrow> 'a option" where
  "latest key p xs =
     (case order_desc key (filter p xs) of [] \<Rightarrow> None | x # _ \<Rightarrow> Some x)"

text \<open>\<open>skip\<close> and \<open>take\<close> of a query.\<close>

definition page :: "nat \<Rightarrow> nat \<Rightarrow> 'a list \<Rightarrow> 'a list" where
  "page offset limit xs = take limit (drop offset xs)"

lemma update_where_Nil [tbl]: "update_where p f [] = []"
  by (simp add: update_where_def)

lemma update_where_Cons [tbl]:
  "update_where p f (x # xs) = (if p x then f x else x) # update_where p f xs"
  by (simp add: update_where_def)

lemma update_where_append [tbl]:
  "update_where p f (xs @ ys) = update_where p f xs @ update_where p f ys"
  by (simp add: update_where_def)

lemma set_update_where [tbl]:
  "set (update_where p f xs) = f ` {x \<in> set xs. p x} \<union> {x \<in> set xs. \<not> p x}"
  by (auto simp: update_where_def)

lemma length_update_where [tbl]: "length (update_where p f xs) = length xs"
  by (simp add: update_where_def)

lemma update_where_none: "(\<And>x. x \<in> set xs \<Longrightarrow> \<not> p x) \<Longrightarrow> update_where p f xs = xs"
  by (auto simp: update_where_def intro: map_idI)

lemma map_update_where:
  "(\<And>x. p x \<Longrightarrow> g (f x) = g x) \<Longrightarrow> map g (update_where p f xs) = map g xs"
  by (simp add: update_where_def)

lemma find_update_where:
  "(\<And>x. p x \<Longrightarrow> q (f x) = q x) \<Longrightarrow>
   find q (update_where p f xs) = map_option (\<lambda>x. if p x then f x else x) (find q xs)"
  by (induction xs) (auto simp: update_where_def)

lemma find_append:
  "find p (xs @ ys) = (case find p xs of None \<Rightarrow> find p ys | Some x \<Rightarrow> Some x)"
  by (induction xs) auto

lemma filter_update_where:
  "(\<And>x. p x \<Longrightarrow> q (f x) = q x) \<Longrightarrow>
   filter q (update_where p f xs) = update_where p f (filter q xs)"
  by (induction xs) (auto simp: update_where_def)

lemma filter_update_where_other:
  "(\<And>x. x \<in> set xs \<Longrightarrow> p x \<Longrightarrow> \<not> q x \<and> \<not> q (f x)) \<Longrightarrow>
   filter q (update_where p f xs) = filter q xs"
  by (induction xs) (auto simp: update_where_def)

lemma find_distinct_key:
  "distinct (map k xs) \<Longrightarrow> x \<in> set xs \<Longrightarrow> find (\<lambda>y. k y = k x) xs = Some x"
proof (induction xs)
  case Nil
  then show ?case by simp
next
  case (Cons y ys)
  then show ?case by (cases "x = y") (auto simp: image_iff)
qed

lemma find_Some_mem: "find p xs = Some x \<Longrightarrow> x \<in> set xs \<and> p x"
  by (auto simp: find_Some_iff)

lemma find_mem_None: "find p xs = None \<longleftrightarrow> (\<forall>x \<in> set xs. \<not> p x)"
  by (auto simp: find_None_iff)

lemma set_delete_where [tbl]: "set (delete_where p xs) = {x \<in> set xs. \<not> p x}"
  by (simp add: delete_where_def)

lemma delete_where_Nil [tbl]: "delete_where p [] = []"
  by (simp add: delete_where_def)

lemma find_delete_where_same: "(\<And>x. q x \<Longrightarrow> p x) \<Longrightarrow> find q (delete_where p xs) = None"
  by (auto simp: find_None_iff delete_where_def)

lemma find_delete_where_other:
  "(\<And>x. q x \<Longrightarrow> \<not> p x) \<Longrightarrow> find q (delete_where p xs) = find q xs"
  by (induction xs) (auto simp: delete_where_def)

lemma filter_delete_where_same: "(\<And>x. q x \<Longrightarrow> p x) \<Longrightarrow> filter q (delete_where p xs) = []"
  by (auto simp: delete_where_def filter_empty_conv)

lemma filter_delete_where_other:
  "(\<And>x. q x \<Longrightarrow> \<not> p x) \<Longrightarrow> filter q (delete_where p xs) = filter q xs"
  by (induction xs) (auto simp: delete_where_def)

lemma count_where_Nil [tbl]: "count_where p [] = 0"
  by (simp add: count_where_def)

lemma count_where_Cons [tbl]:
  "count_where p (x # xs) = (if p x then Suc (count_where p xs) else count_where p xs)"
  by (simp add: count_where_def)

lemma count_where_append [tbl]: "count_where p (xs @ ys) = count_where p xs + count_where p ys"
  by (simp add: count_where_def)

lemma count_where_0_iff: "count_where p xs = 0 \<longleftrightarrow> (\<forall>x \<in> set xs. \<not> p x)"
  by (simp add: count_where_def filter_empty_conv)

lemma count_where_update_other:
  "(\<And>x. x \<in> set xs \<Longrightarrow> p x \<Longrightarrow> \<not> q x \<and> \<not> q (f x)) \<Longrightarrow>
   count_where q (update_where p f xs) = count_where q xs"
  by (simp add: count_where_def filter_update_where_other)

lemma count_where_update_all:
  assumes "\<And>x. q x \<Longrightarrow> p x" "\<And>x. p x \<Longrightarrow> \<not> q (f x)"
  shows "count_where q (update_where p f xs) = 0"
  using assms by (induction xs) (auto simp: tbl)

lemma count_where_update_same:
  "(\<And>x. p x \<Longrightarrow> q (f x) = q x) \<Longrightarrow>
   count_where q (update_where p f xs) = count_where q xs"
  by (induction xs) (auto simp: tbl)

lemma count_where_delete_all: "(\<And>x. q x \<Longrightarrow> p x) \<Longrightarrow> count_where q (delete_where p xs) = 0"
  by (induction xs) (auto simp: tbl delete_where_def)

lemma count_where_delete_other:
  "(\<And>x. q x \<Longrightarrow> \<not> p x) \<Longrightarrow> count_where q (delete_where p xs) = count_where q xs"
  by (simp add: count_where_def filter_delete_where_other)

lemma count_update_where_distinct:
  assumes "distinct (map k xs)" "x \<in> set xs" "p x" "\<not> p (f x)"
  shows "count_where p (update_where (\<lambda>y. k y = k x) f xs) = count_where p xs - 1"
  using assms
proof (induction xs)
  case Nil
  then show ?case by simp
next
  case (Cons y ys)
  show ?case
  proof (cases "y = x")
    case True
    have "k z \<noteq> k x" if "z \<in> set ys" for z
    proof
      assume "k z = k x"
      then have "k y \<in> k ` set ys" using that True by (metis imageI)
      then show False using Cons.prems(1) by simp
    qed
    then have "update_where (\<lambda>y. k y = k x) f ys = ys" by (rule update_where_none)
    with True Cons.prems show ?thesis by (simp add: tbl)
  next
    case False
    then have x: "x \<in> set ys" using Cons.prems(2) by simp
    then have "k y \<noteq> k x" using Cons.prems(1) by force
    moreover have "0 < count_where p ys"
      using x Cons.prems(3) count_where_0_iff [of p ys] by auto
    ultimately show ?thesis using Cons x by (simp add: tbl)
  qed
qed

lemma count_where_delete_le: "count_where p (delete_where q xs) \<le> count_where p xs"
  by (induction xs) (auto simp: delete_where_def count_where_def)

lemma sum_where_Nil [tbl]: "sum_where p g [] = 0"
  by (simp add: sum_where_def)

lemma sum_where_Cons [tbl]:
  "sum_where p g (x # xs) = (if p x then g x + sum_where p g xs else sum_where p g xs)"
  by (simp add: sum_where_def)

lemma sum_where_append [tbl]: "sum_where p g (xs @ ys) = sum_where p g xs + sum_where p g ys"
  by (simp add: sum_where_def)

lemma sum_where_delete_le: "sum_where p g (delete_where q xs) \<le> sum_where p g xs"
  by (induction xs) (auto simp: delete_where_def sum_where_def)

lemma set_order_desc [simp]: "set (order_desc key xs) = set xs"
  by (simp add: order_desc_def)

lemma order_desc_Nil [simp]: "order_desc key [] = []"
  by (simp add: order_desc_def)

lemma order_desc_Nil_iff [simp]: "order_desc key xs = [] \<longleftrightarrow> xs = []"
  using set_order_desc [of key xs] by (metis set_empty)

lemma latest_None_iff: "latest key p xs = None \<longleftrightarrow> (\<forall>x \<in> set xs. \<not> p x)"
proof -
  have "latest key p xs = None \<longleftrightarrow> order_desc key (filter p xs) = []"
    by (auto simp: latest_def split: list.splits)
  then show ?thesis by (simp add: filter_empty_conv)
qed

lemma latest_Some:
  assumes "latest key p xs = Some x"
  shows "x \<in> set xs" and "p x" and "\<And>y. y \<in> set xs \<Longrightarrow> p y \<Longrightarrow> key y \<le> key x"
proof -
  from assms obtain ys where ys: "order_desc key (filter p xs) = x # ys"
    by (auto simp: latest_def split: list.splits)
  then have mem: "x \<in> set (filter p xs)"
    using set_order_desc [of key "filter p xs"] by auto
  then show "x \<in> set xs" and "p x" by auto
  fix y assume y: "y \<in> set xs" "p y"
  then have "y \<in> set (x # ys)" using ys set_order_desc [of key "filter p xs"] by auto
  moreover have "sorted (map (\<lambda>x. - int (key x)) (x # ys))"
    using ys unfolding order_desc_def by (metis sorted_sort_key)
  ultimately show "key y \<le> key x" by auto
qed

text \<open>Only the rows that a query selects matter to it.\<close>

lemma latest_cong_filter: "filter p xs = filter p ys \<Longrightarrow> latest key p xs = latest key p ys"
  by (simp add: latest_def)

lemma latest_filter_Nil: "filter p xs = [] \<Longrightarrow> latest key p xs = None"
  by (simp add: latest_None_iff filter_empty_conv)

lemma length_page [simp]: "length (page offset limit xs) = min limit (length xs - offset)"
  by (simp add: page_def)

text \<open>The \<open>hasMore\<close> of every paginated answer (\<open>offset + returned < total\<close>) tells the client
  whether rows are left after the page, as long as the page is not cut to nothing.\<close>

lemma has_more_iff:
  "0 < limit \<Longrightarrow>
   offset + length (page offset limit xs) < length xs \<longleftrightarrow> drop (offset + limit) xs \<noteq> []"
  by (auto simp: min_def)

section \<open>Strings\<close>

text \<open>\<open>String.prototype.trim\<close> over the white space of ASCII.\<close>

definition is_space :: "char \<Rightarrow> bool" where
  "is_space c \<longleftrightarrow> c \<in> {CHR '' '', CHR 0x09, CHR 0x0A, CHR 0x0B, CHR 0x0C, CHR 0x0D}"

definition trim :: "string \<Rightarrow> string" where
  "trim s = rev (dropWhile is_space (rev (dropWhile is_space s)))"

lemma trim_Nil [simp]: "trim [] = []"
  by (simp add: trim_def)

lemma dropWhile_hd_not: "dropWhile p xs = y # ys \<Longrightarrow> \<not> p y"
  by (induction xs) (auto split: if_splits)

lemma length_trim_le: "length (trim s) \<le> length s"
  unfolding trim_def by (metis length_dropWhile_le length_rev le_trans)

section \<open>Systems with an invariant\<close>

text \<open>States reachable by steps from an initial state.\<close>

inductive reachable :: "('s \<Rightarrow> bool) \<Rightarrow> ('s \<Rightarrow> 's \<Rightarrow> bool) \<Rightarrow> 's \<Rightarrow> bool"
  for init :: "'s \<Rightarrow> bool" and step :: "'s \<Rightarrow> 's \<Rightarrow> bool" where
  start: "init s \<Longrightarrow> reachable init step s"
| step: "reachable init step s \<Longrightarrow> step s t \<Longrightarrow> reachable init step t"

locale invariant_system =
  fixes init :: "'s \<Rightarrow> bool" and step :: "'s \<Rightarrow> 's \<Rightarrow> bool" and inv :: "'s \<Rightarrow> bool"
  assumes inv_init: "init s \<Longrightarrow> inv s"
    and inv_step: "inv s \<Longrightarrow> step s t \<Longrightarrow> inv t"
begin

lemma reachable_inv: "reachable init step s \<Longrightarrow> inv s"
  by (induction rule: reachable.induct) (auto intro: inv_init inv_step)

end

end
