(* ===== verification/Schema.thy ===== *)
theory Schema
  imports Prelude
begin

text \<open>
  The relational data of the backend as \<^verbatim>\<open>apps/backend/prisma/schema.prisma\<close> declares
  it: one \<open>datatype\<close> per enum, one \<open>record\<close> per model (fields prefixed with the model's
  name, since HOL field names are global), one list of rows per table in \<open>db\<close>. A nullable
  column is an \<open>option\<close>, a \<open>DateTime\<close> a \<open>time\<close>. The \<open>onDelete\<close> actions the schema
  declares (\<open>Cascade\<close> of attachments, \<open>SetNull\<close> of report and delivery references) are
  the functions \<open>delete_files\<close>, \<open>delete_bins\<close> and \<open>delete_mails\<close>.
\<close>

section \<open>Enums\<close>

datatype UserStatus = ACTIVE | BANNED | LOCKED | PENDING | DELETED

datatype UserAvatar =
    DEFAULT_AVATAR
  | avatar_robot
  | avatar_mesh_r
  | avatar_mesh_y
  | avatar_mesh_p
  | avatar_jennifer

datatype UserRestrictionType = LOCK | BAN

datatype AuditActorType = ADMIN | USER | SYSTEM

datatype ReportedContentType = FILE | BIN

datatype InternalMailTargetType = BROADCAST | TO_USER

datatype BlogPostStatus = DRAFT | PUBLISHED | WITHDRAWN

datatype ServiceRuntimeName = MAIN_APP | ADMIN_BACKEND

datatype SystemNotificationCategory = INFO | WARNING | ERROR | SUCCESS | MAINTENANCE

text \<open>Values of a \<open>Json\<close> column. \<open>JDate\<close> stands for the text of \<open>toISOString()\<close>.\<close>

datatype json =
    JNull
  | JBool bool
  | JNum int
  | JStr string
  | JDate time
  | JList "json list"
  | JObj "(string \<times> json) list"

section \<open>Models\<close>

record user =
  user_id :: string
  user_username :: string
  user_password :: string
  user_avatar :: UserAvatar
  user_status :: UserStatus
  user_sessionKey :: string
  user_createdAt :: time
  user_issuedCodes :: nat
  user_encryptedMasterKey :: "string option"
  user_masterKeyIv :: "string option"
  user_masterKeySalt :: "string option"
  user_recoveryPhraseHash :: string
  user_recoveryEncryptedMasterKey :: string
  user_recoveryMasterKeyIv :: string
  user_recoveryMasterKeySalt :: string
  user_publicKey :: string
  user_encryptedPrivateKey :: string
  user_privateKeyIv :: string

record adminUser =
  adm_id :: string
  adm_username :: string
  adm_passwordHash :: string
  adm_sessionKey :: string

text \<open>\<open>usage\<close> is an \<open>Int\<close> column: nothing in the schema keeps it from falling below 0.\<close>

record inviteCode =
  invite_id :: string
  invite_code :: string
  invite_usage :: int
  invite_isValid :: bool
  invite_userId :: "string option"
  invite_createdByAdminUserId :: "string option"
  invite_isAdminCreated :: bool
  invite_createdAt :: time

record file_row =
  file_id :: string
  file_originalName :: string
  file_storageName :: string
  file_size :: nat
  file_mimetype :: string
  file_userId :: string
  file_createdAt :: time
  file_expiresAt :: time
  file_shareToken :: string
  file_passwordHash :: "string option"
  file_encryptedFileKey :: string
  file_fileKeyIv :: string

record link_row =
  link_id :: string
  link_originalUrl :: string
  link_shortCode :: string
  link_userId :: string
  link_createdAt :: time

record bin_row =
  bin_id :: string
  bin_title :: string
  bin_content :: string
  bin_size :: nat
  bin_userId :: string
  bin_createdAt :: time
  bin_expiresAt :: "time option"
  bin_shareToken :: string
  bin_passwordHash :: "string option"
  bin_encryptedBinKey :: string
  bin_binKeyIv :: string

record mail_row =
  mail_id :: string
  mail_subject :: string
  mail_from :: string
  mail_to :: string
  mail_storageKey :: string
  mail_contentSize :: nat
  mail_userId :: string
  mail_createdAt :: time
  mail_isRead :: bool
  mail_isArchived :: bool
  mail_isSpam :: bool
  mail_encryptedMailKey :: string
  mail_mailKeyIv :: string

record mailAttachment =
  att_id :: string
  att_filename :: string
  att_mimetype :: string
  att_size :: nat
  att_storageKey :: string
  att_mailId :: string

record blockedSender =
  blocked_id :: string
  blocked_email :: string
  blocked_userId :: string
  blocked_createdAt :: time

record userRestriction =
  restr_id :: string
  restr_userId :: string
  restr_type :: UserRestrictionType
  restr_reason :: string
  restr_isPermanent :: bool
  restr_expiresAt :: "time option"
  restr_createdByAdminUserId :: "string option"
  restr_createdAt :: time
  restr_resolvedAt :: "time option"

record userDeletionRequest =
  dreq_id :: string
  dreq_userId :: string
  dreq_requestedAt :: time
  dreq_deleteAfterAt :: time
  dreq_cancelledAt :: "time option"
  dreq_processedAt :: "time option"

record adminAuditLog =
  audit_actorType :: AuditActorType
  audit_adminUserId :: "string option"
  audit_targetUserId :: "string option"
  audit_action :: string
  audit_previousStatus :: "UserStatus option"
  audit_newStatus :: "UserStatus option"
  audit_reason :: "string option"
  audit_meta :: json
  audit_createdAt :: time

record contentReport =
  crep_id :: string
  crep_contentType :: ReportedContentType
  crep_reportedUserId :: string
  crep_fileId :: "string option"
  crep_binId :: "string option"
  crep_contentLink :: string
  crep_contentPasswordEncrypted :: "string option"
  crep_reason :: string
  crep_reporterEmail :: "string option"
  crep_createdAt :: time
  crep_resolvedAt :: "time option"
  crep_actionTaken :: "string option"
  crep_resolvedByAdminUserId :: "string option"

record bugReport =
  bug_id :: string
  bug_description :: string
  bug_contactEmail :: "string option"
  bug_createdAt :: time
  bug_resolvedAt :: "time option"
  bug_actionTaken :: "string option"
  bug_resolvedByAdminUserId :: "string option"

record bugReportAttachment =
  batt_id :: string
  batt_bugReportId :: string
  batt_filename :: string
  batt_mimetype :: string
  batt_size :: nat
  batt_storageKey :: string
  batt_createdAt :: time

record internalMail =
  imail_id :: string
  imail_createdByAdminUserId :: "string option"
  imail_senderId :: string
  imail_senderAddress :: string
  imail_senderLabel :: string
  imail_toAddress :: string
  imail_targetType :: InternalMailTargetType
  imail_targetUsername :: "string option"
  imail_subject :: string
  imail_body :: string
  imail_isHtml :: bool
  imail_template :: "string option"
  imail_createdAt :: time
  imail_recalledAt :: "time option"
  imail_recallReason :: "string option"
  imail_recalledByAdminUserId :: "string option"
  imail_deletedAt :: "time option"
  imail_deleteReason :: "string option"
  imail_deletedByAdminUserId :: "string option"

record internalMailDelivery =
  dlv_id :: string
  dlv_internalMailId :: string
  dlv_userId :: string
  dlv_mailId :: "string option"
  dlv_deliveredAt :: time
  dlv_recalledAt :: "time option"

record internalMailAttachment =
  iatt_id :: string
  iatt_internalMailId :: string
  iatt_name :: string
  iatt_size :: nat
  iatt_type :: string
  iatt_storageKey :: "string option"
  iatt_createdAt :: time

record blogPost =
  blog_id :: string
  blog_title :: "string option"
  blog_subtitle :: string
  blog_categories :: json
  blog_storageName :: string
  blog_contentSize :: nat
  blog_status :: BlogPostStatus
  blog_authorAdminUserId :: "string option"
  blog_authorName :: string
  blog_authorTitle :: "string option"
  blog_createdAt :: time
  blog_updatedAt :: time
  blog_publishedAt :: "time option"
  blog_withdrawnAt :: "time option"

record systemNotification =
  ntf_id :: string
  ntf_category :: SystemNotificationCategory
  ntf_message :: string
  ntf_createdByAdminUserId :: "string option"
  ntf_createdAt :: time
  ntf_expiresAt :: time

record serviceRuntime =
  srt_service :: ServiceRuntimeName
  srt_startedAt :: time
  srt_lastHeartbeatAt :: time

record storageSnapshot =
  snap_id :: string
  snap_uploadsBytes :: nat
  snap_mailBytes :: nat
  snap_binsBytes :: nat
  snap_totalUsedBytes :: nat
  snap_recordedAt :: time

record db =
  users :: "user list"
  adminUsers :: "adminUser list"
  inviteCodes :: "inviteCode list"
  files :: "file_row list"
  links :: "link_row list"
  bins :: "bin_row list"
  mails :: "mail_row list"
  mailAttachments :: "mailAttachment list"
  blockedSenders :: "blockedSender list"
  restrictions :: "userRestriction list"
  deletionRequests :: "userDeletionRequest list"
  auditLogs :: "adminAuditLog list"
  contentReports :: "contentReport list"
  bugReports :: "bugReport list"
  internalMails :: "internalMail list"
  deliveries :: "internalMailDelivery list"
  internalAttachments :: "internalMailAttachment list"
  blogPosts :: "blogPost list"
  notifications :: "systemNotification list"
  bugAttachments :: "bugReportAttachment list"
  serviceRuntimes :: "serviceRuntime list"
  storageSnapshots :: "storageSnapshot list"

section \<open>Lookups by key\<close>

definition user_by_id :: "db \<Rightarrow> string \<Rightarrow> user option" where
  "user_by_id d uid = find (\<lambda>u. user_id u = uid) (users d)"

definition user_by_name :: "db \<Rightarrow> string \<Rightarrow> user option" where
  "user_by_name d name = find (\<lambda>u. user_username u = name) (users d)"

lemma user_by_id_Some [dest]: "user_by_id d uid = Some u \<Longrightarrow> u \<in> set (users d) \<and> user_id u = uid"
  by (auto simp: user_by_id_def find_Some_iff)

lemma user_by_name_Some:
  "user_by_name d name = Some u \<Longrightarrow> u \<in> set (users d) \<and> user_username u = name"
  by (auto simp: user_by_name_def find_Some_iff)

lemma user_by_id_distinct:
  "distinct (map user_id (users d)) \<Longrightarrow> u \<in> set (users d) \<Longrightarrow> user_by_id d (user_id u) = Some u"
  by (simp add: user_by_id_def find_distinct_key)

section \<open>Referential actions of the schema\<close>

definition delete_files :: "(file_row \<Rightarrow> bool) \<Rightarrow> db \<Rightarrow> db" where
  "delete_files p d =
     (let gone = map file_id (filter p (files d)) in
      d\<lparr>files := delete_where p (files d),
        contentReports :=
          update_where (\<lambda>r. case crep_fileId r of None \<Rightarrow> False | Some i \<Rightarrow> i \<in> set gone)
            (\<lambda>r. r\<lparr>crep_fileId := None\<rparr>) (contentReports d)\<rparr>)"

definition delete_bins :: "(bin_row \<Rightarrow> bool) \<Rightarrow> db \<Rightarrow> db" where
  "delete_bins p d =
     (let gone = map bin_id (filter p (bins d)) in
      d\<lparr>bins := delete_where p (bins d),
        contentReports :=
          update_where (\<lambda>r. case crep_binId r of None \<Rightarrow> False | Some i \<Rightarrow> i \<in> set gone)
            (\<lambda>r. r\<lparr>crep_binId := None\<rparr>) (contentReports d)\<rparr>)"

definition delete_mails :: "(mail_row \<Rightarrow> bool) \<Rightarrow> db \<Rightarrow> db" where
  "delete_mails p d =
     (let gone = map mail_id (filter p (mails d)) in
      d\<lparr>mails := delete_where p (mails d),
        mailAttachments := delete_where (\<lambda>a. att_mailId a \<in> set gone) (mailAttachments d),
        deliveries :=
          update_where (\<lambda>v. case dlv_mailId v of None \<Rightarrow> False | Some i \<Rightarrow> i \<in> set gone)
            (\<lambda>v. v\<lparr>dlv_mailId := None\<rparr>) (deliveries d)\<rparr>)"

definition delete_internalMails :: "(internalMail \<Rightarrow> bool) \<Rightarrow> db \<Rightarrow> db" where
  "delete_internalMails p d =
     (let gone = map imail_id (filter p (internalMails d)) in
      d\<lparr>internalMails := delete_where p (internalMails d),
        deliveries := delete_where (\<lambda>v. dlv_internalMailId v \<in> set gone) (deliveries d),
        internalAttachments :=
          delete_where (\<lambda>a. iatt_internalMailId a \<in> set gone) (internalAttachments d)\<rparr>)"

lemma delete_files_frame [simp]:
  "files (delete_files p d) = delete_where p (files d)"
  "users (delete_files p d) = users d"
  "inviteCodes (delete_files p d) = inviteCodes d"
  "links (delete_files p d) = links d"
  "bins (delete_files p d) = bins d"
  "mails (delete_files p d) = mails d"
  "mailAttachments (delete_files p d) = mailAttachments d"
  "blockedSenders (delete_files p d) = blockedSenders d"
  "restrictions (delete_files p d) = restrictions d"
  "deletionRequests (delete_files p d) = deletionRequests d"
  "auditLogs (delete_files p d) = auditLogs d"
  by (simp_all add: delete_files_def Let_def)

lemma delete_bins_frame [simp]:
  "bins (delete_bins p d) = delete_where p (bins d)"
  "users (delete_bins p d) = users d"
  "inviteCodes (delete_bins p d) = inviteCodes d"
  "links (delete_bins p d) = links d"
  "files (delete_bins p d) = files d"
  "mails (delete_bins p d) = mails d"
  "mailAttachments (delete_bins p d) = mailAttachments d"
  "blockedSenders (delete_bins p d) = blockedSenders d"
  "restrictions (delete_bins p d) = restrictions d"
  "deletionRequests (delete_bins p d) = deletionRequests d"
  "auditLogs (delete_bins p d) = auditLogs d"
  by (simp_all add: delete_bins_def Let_def)

lemma delete_mails_frame [simp]:
  "mails (delete_mails p d) = delete_where p (mails d)"
  "users (delete_mails p d) = users d"
  "inviteCodes (delete_mails p d) = inviteCodes d"
  "links (delete_mails p d) = links d"
  "files (delete_mails p d) = files d"
  "bins (delete_mails p d) = bins d"
  "blockedSenders (delete_mails p d) = blockedSenders d"
  "restrictions (delete_mails p d) = restrictions d"
  "deletionRequests (delete_mails p d) = deletionRequests d"
  "auditLogs (delete_mails p d) = auditLogs d"
  by (simp_all add: delete_mails_def Let_def)

lemma user_by_id_cong: "users d = users e \<Longrightarrow> user_by_id d uid = user_by_id e uid"
  by (simp add: user_by_id_def)

end
