(* ===== verification/Redis_Store.thy ===== *)
theory Redis_Store
  imports Schema "HOL-Library.AList" "HOL-Library.Sublist"
begin

text \<open>
  Redis is a service outside the repository, so its commands are a parameter of the model: a
  record \<open>redis_api\<close> of the commands the code sends, over an arbitrary server state. The
  locale \<open>redis_server\<close> states the documented behaviour the code relies on, through two views of
  the state: \<open>strs\<close> gives the string entries with their remaining time to live, \<open>sets\<close>
  the members of the set entries (the code keeps the two kinds under different key prefixes).
  \<open>kv_api\<close> is an in-memory keyspace that obeys the laws; the witnesses run on it.
\<close>

section \<open>Values the backend stores\<close>

text \<open>\<open>UploadMeta\<close> and \<open>UploadStorageIndex\<close> of \<^verbatim>\<open>files.service.ts\<close>.\<close>

record upload_meta =
  meta_totalChunks :: nat
  meta_nextExpectedChunk :: nat
  meta_fileSize :: nat
  meta_passwordHash :: "string option"
  meta_expiresIn :: string
  meta_storageKey :: string
  meta_s3UploadId :: "string option"
  meta_parts :: "(nat \<times> string option) list"
  meta_createdAt :: "time option"
  meta_updatedAt :: "time option"

record upload_storage_index =
  idx_metaKey :: string
  idx_activeKey :: string
  idx_uploadId :: string

text \<open>The text under a key: plain text, the decimal text of a counter, or the text that
  \<open>JSON.stringify\<close> made of an upload's metadata or of a storage index.\<close>

datatype rtext =
    Plain string
  | Count int
  | MetaJson upload_meta
  | IndexJson upload_storage_index

text \<open>\<open>JSON.parse(text) as UploadMeta\<close>: \<open>None\<close> where it throws. A text that is not the JSON of
  the expected type is taken to be one that does not parse.\<close>

definition parse_meta :: "rtext \<Rightarrow> upload_meta option" where
  "parse_meta t = (case t of MetaJson m \<Rightarrow> Some m | _ \<Rightarrow> None)"

definition parse_index :: "rtext \<Rightarrow> upload_storage_index option" where
  "parse_index t = (case t of IndexJson i \<Rightarrow> Some i | _ \<Rightarrow> None)"

lemma parse_meta_simps [simp]:
  "parse_meta (MetaJson m) = Some m"
  "parse_meta (Plain s) = None"
  "parse_meta (Count n) = None"
  "parse_meta (IndexJson i) = None"
  by (simp_all add: parse_meta_def)

lemma parse_index_simps [simp]:
  "parse_index (IndexJson i) = Some i"
  "parse_index (Plain s) = None"
  "parse_index (Count n) = None"
  "parse_index (MetaJson m) = None"
  by (simp_all add: parse_index_def)

section \<open>The commands\<close>

record 'r redis_api =
  r_get :: "'r \<Rightarrow> string \<Rightarrow> rtext option"
  r_set :: "string \<Rightarrow> rtext \<Rightarrow> nat \<Rightarrow> 'r \<Rightarrow> 'r"        \<comment> \<open>\<open>SET k v EX n\<close>\<close>
  r_setnx :: "string \<Rightarrow> rtext \<Rightarrow> nat \<Rightarrow> 'r \<Rightarrow> bool \<times> 'r" \<comment> \<open>\<open>SET k v EX n NX\<close>\<close>
  r_del :: "string \<Rightarrow> 'r \<Rightarrow> 'r"
  r_expire :: "string \<Rightarrow> nat \<Rightarrow> 'r \<Rightarrow> 'r"
  r_ttl :: "'r \<Rightarrow> string \<Rightarrow> int"
  r_incr :: "string \<Rightarrow> 'r \<Rightarrow> int \<times> 'r"
  r_decr :: "string \<Rightarrow> 'r \<Rightarrow> int \<times> 'r"
  r_sadd :: "string \<Rightarrow> string \<Rightarrow> 'r \<Rightarrow> 'r"
  r_srem :: "string \<Rightarrow> string \<Rightarrow> 'r \<Rightarrow> 'r"
  r_smembers :: "'r \<Rightarrow> string \<Rightarrow> string list"
  r_scan :: "'r \<Rightarrow> string \<Rightarrow> string \<Rightarrow> string \<times> string list"  \<comment> \<open>\<open>SCAN cursor MATCH pattern\<close>\<close>

type_synonym entry = "(rtext \<times> nat option) option"

text \<open>The number a counter key stands for: an absent key counts as 0.\<close>

definition counter :: "entry \<Rightarrow> int option" where
  "counter e = (case e of None \<Rightarrow> Some 0 | Some (Count n, _) \<Rightarrow> Some n | Some _ \<Rightarrow> None)"

definition entry_ttl :: "entry \<Rightarrow> nat option" where
  "entry_ttl e = (case e of None \<Rightarrow> None | Some (_, t) \<Rightarrow> t)"

definition ttl_reply :: "entry \<Rightarrow> int" where
  "ttl_reply e =
     (case e of None \<Rightarrow> - 2 | Some (_, None) \<Rightarrow> - 1 | Some (_, Some n) \<Rightarrow> int n)"

definition with_ttl :: "nat \<Rightarrow> entry \<Rightarrow> entry" where
  "with_ttl n e = map_option (\<lambda>(v, _). (v, Some n)) e"

lemma counter_simps [simp]:
  "counter None = Some 0"
  "counter (Some (Count n, t)) = Some n"
  by (simp_all add: counter_def)

lemma entry_ttl_simps [simp]:
  "entry_ttl None = None"
  "entry_ttl (Some (v, t)) = t"
  by (simp_all add: entry_ttl_def)

lemma ttl_reply_simps [simp]:
  "ttl_reply None = - 2"
  "ttl_reply (Some (v, None)) = - 1"
  "ttl_reply (Some (v, Some n)) = int n"
  by (simp_all add: ttl_reply_def)

lemma with_ttl_simps [simp]:
  "with_ttl n None = None"
  "with_ttl n (Some (v, t)) = Some (v, Some n)"
  by (simp_all add: with_ttl_def)

lemma with_ttl_None_iff [simp]: "with_ttl n e = None \<longleftrightarrow> e = None"
  by (cases e) auto

text \<open>The loop every \<open>SCAN\<close> is called in: until the server answers with the cursor \<open>0\<close>
  again. A server may keep it going for ever, so the loop may have no result.\<close>

partial_function (option) scan_loop ::
    "'r redis_api \<Rightarrow> 'r \<Rightarrow> string \<Rightarrow> string \<Rightarrow> string list \<Rightarrow> string list option" where
  "scan_loop R s pattern cursor keys =
     (let (nextCursor, batch) = r_scan R s cursor pattern in
      if nextCursor = ''0'' then Some (keys @ batch)
      else scan_loop R s pattern nextCursor (keys @ batch))"

section \<open>The laws the code relies on\<close>

locale redis_server =
  fixes R :: "'r redis_api"
    and strs :: "'r \<Rightarrow> string \<Rightarrow> entry"
    and sets :: "'r \<Rightarrow> string \<Rightarrow> string set"
  assumes get: "r_get R s k = map_option fst (strs s k)"
    and strs_set: "strs (r_set R k v n s) = (strs s)(k \<mapsto> (v, Some n))"
    and sets_set: "sets (r_set R k v n s) = sets s"
    and setnx_absent: "strs s k = None \<Longrightarrow> r_setnx R k v n s = (True, r_set R k v n s)"
    and setnx_present: "strs s k \<noteq> None \<Longrightarrow> r_setnx R k v n s = (False, s)"
    and strs_del: "strs (r_del R k s) = (strs s)(k := None)"
    and sets_del: "sets (r_del R k s) = (sets s)(k := {})"
    and strs_expire: "strs (r_expire R k n s) = (strs s)(k := with_ttl n (strs s k))"
    and sets_expire: "sets (r_expire R k n s) = sets s"
    and ttl: "r_ttl R s k = ttl_reply (strs s k)"
    and incr_result: "counter (strs s k) = Some c \<Longrightarrow> fst (r_incr R k s) = c + 1"
    and strs_incr: "counter (strs s k) = Some c \<Longrightarrow>
      strs (snd (r_incr R k s)) = (strs s)(k \<mapsto> (Count (c + 1), entry_ttl (strs s k)))"
    and sets_incr: "sets (snd (r_incr R k s)) = sets s"
    and decr_result: "counter (strs s k) = Some c \<Longrightarrow> fst (r_decr R k s) = c - 1"
    and strs_decr: "counter (strs s k) = Some c \<Longrightarrow>
      strs (snd (r_decr R k s)) = (strs s)(k \<mapsto> (Count (c - 1), entry_ttl (strs s k)))"
    and sets_decr: "sets (snd (r_decr R k s)) = sets s"
    and sets_sadd: "sets (r_sadd R k m s) = (sets s)(k := insert m (sets s k))"
    and strs_sadd: "strs (r_sadd R k m s) = strs s"
    and sets_srem: "sets (r_srem R k m s) = (sets s)(k := sets s k - {m})"
    and strs_srem: "strs (r_srem R k m s) = strs s"
    and smembers: "set (r_smembers R s k) = sets s k"
    and distinct_smembers: "distinct (r_smembers R s k)"
    and scan: "\<exists>keys. scan_loop R s (p @ ''*'') ''0'' [] = Some keys \<and>
      set keys = {k. prefix p k \<and> (strs s k \<noteq> None \<or> sets s k \<noteq> {})}"
begin

lemmas redis_laws =
  get strs_set sets_set strs_del sets_del strs_expire sets_expire ttl
  sets_incr sets_decr sets_sadd strs_sadd sets_srem strs_srem smembers

lemma get_after_set: "r_get R (r_set R k v n s) k = Some v"
  by (simp add: redis_laws)

lemma get_after_set_other: "k \<noteq> k' \<Longrightarrow> r_get R (r_set R k v n s) k' = r_get R s k'"
  by (simp add: redis_laws)

lemma get_after_del: "r_get R (r_del R k s) k = None"
  by (simp add: redis_laws)

text \<open>\<open>SET NX\<close> is the mutual exclusion of the upload locks: of two calls in a row on a free
  key the first gets it and the second does not.\<close>

lemma setnx_exclusive:
  assumes "r_setnx R k v n s = (True, s')"
  shows "fst (r_setnx R k v' n' s') = False"
proof -
  from assms have "strs s k = None"
    using setnx_present [of s k v n] by (cases "strs s k") auto
  with assms have "s' = r_set R k v n s" by (simp add: setnx_absent)
  then have "strs s' k \<noteq> None" by (simp add: strs_set)
  then show ?thesis by (simp add: setnx_present)
qed

end

text \<open>\<open>EVAL\<close> of the script both locks are released with: delete the key if it still holds the
  caller's token.\<close>

definition compare_and_delete :: "'r redis_api \<Rightarrow> string \<Rightarrow> string \<Rightarrow> 'r \<Rightarrow> 'r" where
  "compare_and_delete R key token s =
     (if r_get R s key = Some (Plain token) then r_del R key s else s)"

context redis_server
begin

lemma strs_compare_and_delete:
  "strs (compare_and_delete R key token s) =
     (if map_option fst (strs s key) = Some (Plain token) then (strs s)(key := None) else strs s)"
  by (simp add: compare_and_delete_def redis_laws)

text \<open>A lock that another owner took over is not released by the old owner.\<close>

lemma compare_and_delete_foreign:
  "map_option fst (strs s key) = Some (Plain t) \<Longrightarrow> t \<noteq> token \<Longrightarrow>
   compare_and_delete R key token s = s"
  by (auto simp: compare_and_delete_def redis_laws)

end

section \<open>An in-memory keyspace\<close>

text \<open>Two association lists. \<open>SCAN\<close> answers in one batch.\<close>

record kv =
  kv_ents :: "(string \<times> rtext \<times> nat option) list"
  kv_mems :: "(string \<times> string list) list"

definition kv_empty :: kv where
  "kv_empty = \<lparr>kv_ents = [], kv_mems = []\<rparr>"

definition kv_strs :: "kv \<Rightarrow> string \<Rightarrow> entry" where
  "kv_strs s = map_of (kv_ents s)"

definition kv_list :: "kv \<Rightarrow> string \<Rightarrow> string list" where
  "kv_list s k = (case map_of (kv_mems s) k of None \<Rightarrow> [] | Some xs \<Rightarrow> xs)"

definition kv_sets :: "kv \<Rightarrow> string \<Rightarrow> string set" where
  "kv_sets s k = set (kv_list s k)"

definition kv_put :: "string \<Rightarrow> rtext \<times> nat option \<Rightarrow> kv \<Rightarrow> kv" where
  "kv_put k e s = s\<lparr>kv_ents := AList.update k e (kv_ents s)\<rparr>"

definition kv_put_set :: "string \<Rightarrow> string list \<Rightarrow> kv \<Rightarrow> kv" where
  "kv_put_set k xs s = s\<lparr>kv_mems := AList.update k xs (kv_mems s)\<rparr>"

definition kv_set :: "string \<Rightarrow> rtext \<Rightarrow> nat \<Rightarrow> kv \<Rightarrow> kv" where
  "kv_set k v n s = kv_put k (v, Some n) s"

definition kv_setnx :: "string \<Rightarrow> rtext \<Rightarrow> nat \<Rightarrow> kv \<Rightarrow> bool \<times> kv" where
  "kv_setnx k v n s =
     (case kv_strs s k of None \<Rightarrow> (True, kv_set k v n s) | Some _ \<Rightarrow> (False, s))"

definition kv_del :: "string \<Rightarrow> kv \<Rightarrow> kv" where
  "kv_del k s = s\<lparr>kv_ents := AList.delete k (kv_ents s), kv_mems := AList.delete k (kv_mems s)\<rparr>"

definition kv_expire :: "string \<Rightarrow> nat \<Rightarrow> kv \<Rightarrow> kv" where
  "kv_expire k n s =
     (case kv_strs s k of None \<Rightarrow> s | Some (v, _) \<Rightarrow> kv_put k (v, Some n) s)"

definition kv_add :: "int \<Rightarrow> string \<Rightarrow> kv \<Rightarrow> int \<times> kv" where
  "kv_add d k s =
     (case counter (kv_strs s k) of
        None \<Rightarrow> (0, s)
      | Some n \<Rightarrow> (n + d, kv_put k (Count (n + d), entry_ttl (kv_strs s k)) s))"

definition kv_scan :: "kv \<Rightarrow> string \<Rightarrow> string \<Rightarrow> string \<times> string list" where
  "kv_scan s cursor pattern =
     (''0'', filter (\<lambda>k. prefix (butlast pattern) k)
        (map fst (kv_ents s) @ map fst (filter (\<lambda>(k, _). kv_list s k \<noteq> []) (kv_mems s))))"

definition kv_api :: "kv redis_api" where
  "kv_api =
     \<lparr>r_get = (\<lambda>s k. map_option fst (kv_strs s k)),
      r_set = kv_set, r_setnx = kv_setnx, r_del = kv_del, r_expire = kv_expire,
      r_ttl = (\<lambda>s k. ttl_reply (kv_strs s k)),
      r_incr = kv_add 1, r_decr = kv_add (- 1),
      r_sadd = (\<lambda>k m s. kv_put_set k (List.insert m (kv_list s k)) s),
      r_srem = (\<lambda>k m s. kv_put_set k (filter (\<lambda>x. x \<noteq> m) (kv_list s k)) s),
      r_smembers = (\<lambda>s k. remdups (kv_list s k)),
      r_scan = kv_scan\<rparr>"

lemma kv_api_simps [simp]:
  "r_get kv_api s k = map_option fst (kv_strs s k)"
  "r_set kv_api = kv_set"
  "r_setnx kv_api = kv_setnx"
  "r_del kv_api = kv_del"
  "r_expire kv_api = kv_expire"
  "r_ttl kv_api s k = ttl_reply (kv_strs s k)"
  "r_incr kv_api = kv_add 1"
  "r_decr kv_api = kv_add (- 1)"
  "r_sadd kv_api k m s = kv_put_set k (List.insert m (kv_list s k)) s"
  "r_srem kv_api k m s = kv_put_set k (filter (\<lambda>x. x \<noteq> m) (kv_list s k)) s"
  "r_smembers kv_api s k = remdups (kv_list s k)"
  "r_scan kv_api = kv_scan"
  by (simp_all add: kv_api_def)

lemma kv_strs_simps [simp]:
  "kv_strs (kv_put k e s) = (kv_strs s)(k \<mapsto> e)"
  "kv_strs (kv_put_set k xs s) = kv_strs s"
  "kv_strs (kv_del k s) = (kv_strs s)(k := None)"
  "kv_strs (kv_set k v n s) = (kv_strs s)(k \<mapsto> (v, Some n))"
  "kv_strs (kv_expire k n s) = (kv_strs s)(k := with_ttl n (kv_strs s k))"
  "kv_strs kv_empty = (\<lambda>_. None)"
  by (auto simp: kv_strs_def kv_put_def kv_put_set_def kv_del_def kv_set_def kv_expire_def
      kv_empty_def update_conv' AList.delete_conv' fun_eq_iff split: option.splits prod.splits)

lemma kv_list_simps [simp]:
  "kv_list (kv_put k e s) = kv_list s"
  "kv_list (kv_put_set k xs s) = (kv_list s)(k := xs)"
  "kv_list (kv_del k s) = (kv_list s)(k := [])"
  "kv_list (kv_set k v n s) = kv_list s"
  "kv_list (kv_expire k n s) = kv_list s"
  "kv_list kv_empty = (\<lambda>_. [])"
  by (auto simp: kv_list_def kv_put_def kv_put_set_def kv_del_def kv_set_def kv_expire_def
      kv_empty_def update_conv' AList.delete_conv' fun_eq_iff split: option.splits prod.splits)

lemma kv_scan_loop:
  "\<exists>keys. scan_loop kv_api s (p @ ''*'') ''0'' [] = Some keys \<and>
     set keys = {k. prefix p k \<and> (kv_strs s k \<noteq> None \<or> kv_sets s k \<noteq> {})}"
proof -
  have "k \<in> fst ` set (filter (\<lambda>(k, _). kv_list s k \<noteq> []) (kv_mems s)) \<longleftrightarrow> kv_list s k \<noteq> []" for k
    by (force simp: kv_list_def image_iff split: option.splits dest: map_of_SomeD)
  moreover have "k \<in> fst ` set (kv_ents s) \<longleftrightarrow> kv_strs s k \<noteq> None" for k
    by (simp add: kv_strs_def map_of_eq_None_iff)
  ultimately show ?thesis
    by (subst scan_loop.simps) (auto simp: kv_scan_def kv_sets_def)
qed

interpretation kv: redis_server kv_api kv_strs kv_sets
proof unfold_locales
  show "\<exists>keys. scan_loop kv_api s (p @ ''*'') ''0'' [] = Some keys \<and>
     set keys = {k. prefix p k \<and> (kv_strs s k \<noteq> None \<or> kv_sets s k \<noteq> {})}" for s p
    by (rule kv_scan_loop)
qed (auto simp: kv_setnx_def kv_add_def kv_sets_def fun_eq_iff split: option.splits)

end
