(* ===== verification/Rate_Limit.thy ===== *)
theory Rate_Limit
  imports Redis_Store
begin

text \<open>
  \<^verbatim>\<open>RateLimitService\<close> (\<^verbatim>\<open>common/rate-limit/rate-limit.service.ts\<close>): fixed-window
  counters under hashed Redis keys, the attempt counters of the password checks, and the
  counters of open event streams. The hash is a parameter \<open>sha\<close> (the hex text of SHA-256).
  The lemmas are proved once in the locale \<open>redis_server\<close>, for every server that obeys its laws.
\<close>

section \<open>Keys\<close>

definition hash :: "(string \<Rightarrow> string) \<Rightarrow> string \<Rightarrow> string" where
  "hash sha v = take 32 (sha v)"

definition buildRateLimitKey :: "(string \<Rightarrow> string) \<Rightarrow> string \<Rightarrow> string \<Rightarrow> string" where
  "buildRateLimitKey sha ns subject = ''rl:'' @ hash sha ns @ '':'' @ hash sha subject"

definition buildConcurrencyKey ::
    "(string \<Rightarrow> string) \<Rightarrow> string \<Rightarrow> string \<Rightarrow> string \<Rightarrow> string" where
  "buildConcurrencyKey sha scope kind subject =
     ''rlcon:'' @ hash sha scope @ '':'' @ kind @ '':'' @ hash sha subject"

section \<open>Fixed-window counters\<close>

record rl_result =
  rl_key :: string
  rl_limit :: int
  rl_remaining :: int
  rl_ttlSeconds :: int

datatype rl_subject =
  Ip | User | Admin | Username_ip | Param_ip | Param_user | Mail_recipient

record rl_rule =
  rule_name :: string
  rule_limit :: int
  rule_windowSeconds :: nat
  rule_subject :: rl_subject
  rule_paramName :: "string option"
  rule_message :: "string option"

definition consume ::
    "'r redis_api \<Rightarrow> string \<Rightarrow> int \<Rightarrow> nat \<Rightarrow> 'r \<Rightarrow> rl_result \<times> 'r" where
  "consume R key limit windowSeconds s =
     (let (count, s1) = r_incr R key s;
          s2 = (if count = 1 then r_expire R key windowSeconds s1 else s1);
          t = r_ttl R s2 key
      in (\<lparr>rl_key = key, rl_limit = limit, rl_remaining = limit - count,
           rl_ttlSeconds = (if 0 < t then t else int windowSeconds)\<rparr>, s2))"

definition consumeRule ::
    "'r redis_api \<Rightarrow> (string \<Rightarrow> string) \<Rightarrow> rl_rule \<Rightarrow> string \<Rightarrow> 'r \<Rightarrow> rl_result \<times> 'r" where
  "consumeRule R sha rule subject s =
     consume R (buildRateLimitKey sha (rule_name rule) subject)
       (rule_limit rule) (rule_windowSeconds rule) s"

text \<open>\<open>Number(text)\<close> of a stored text: \<open>None\<close> for \<open>NaN\<close>, which no comparison accepts.\<close>

definition number :: "rtext \<Rightarrow> int option" where
  "number t = (case t of Count n \<Rightarrow> Some n | _ \<Rightarrow> None)"

definition too_many_attempts :: "int \<Rightarrow> http_error" where
  "too_many_attempts t =
     TooManyRequests ''Too many attempts. Please try again later.'' (Some t)"

definition assertAvailable ::
    "'r redis_api \<Rightarrow> (string \<Rightarrow> string) \<Rightarrow> string \<Rightarrow> string \<Rightarrow> int \<Rightarrow> nat \<Rightarrow> 'r \<Rightarrow> http_error + unit"
where
  "assertAvailable R sha ns subject limit windowSeconds s =
     (let key = buildRateLimitKey sha ns subject;
          rawCount = r_get R s key;
          t = r_ttl R s key;
          count = (case rawCount of None \<Rightarrow> Some 0 | Some v \<Rightarrow> number v)
      in (case count of
            None \<Rightarrow> Inr ()
          | Some c \<Rightarrow>
              if c \<ge> limit
              then Inl (too_many_attempts (if 0 < t then t else int windowSeconds))
              else Inr ()))"

definition consumeAttempt ::
    "'r redis_api \<Rightarrow> (string \<Rightarrow> string) \<Rightarrow> string \<Rightarrow> string \<Rightarrow> int \<Rightarrow> nat \<Rightarrow> 'r \<Rightarrow>
     (rl_result, 'r) outcome" where
  "consumeAttempt R sha ns subject limit windowSeconds s =
     (let (result, s') = consume R (buildRateLimitKey sha ns subject) limit windowSeconds s in
      if rl_remaining result < 0
      then (Inl (too_many_attempts (rl_ttlSeconds result)), s')
      else (Inr result, s'))"

definition clearAttempts ::
    "'r redis_api \<Rightarrow> (string \<Rightarrow> string) \<Rightarrow> string \<Rightarrow> string \<Rightarrow> 'r \<Rightarrow> 'r" where
  "clearAttempts R sha ns subject s = r_del R (buildRateLimitKey sha ns subject) s"

text \<open>A caller that asks for the same key again and again: the results in order.\<close>

fun consume_times ::
    "'r redis_api \<Rightarrow> string \<Rightarrow> int \<Rightarrow> nat \<Rightarrow> nat \<Rightarrow> 'r \<Rightarrow> rl_result list \<times> 'r" where
  "consume_times R key limit win 0 s = ([], s)"
| "consume_times R key limit win (Suc n) s =
     (let (r, s1) = consume R key limit win s;
          (rs, s2) = consume_times R key limit win n s1
      in (r # rs, s2))"

context redis_server
begin

text \<open>What one call does to the counter and to its time to live: the count goes up by one, and
  the window is set by the first call only.\<close>

lemma consume_strs:
  assumes "counter (strs s key) = Some c"
  shows "strs (snd (consume R key limit win s)) =
    (strs s)(key \<mapsto> (Count (c + 1), if c = 0 then Some win else entry_ttl (strs s key)))"
proof -
  obtain c' s1 where i: "r_incr R key s = (c', s1)" by fastforce
  have c': "c' = c + 1" using incr_result [OF assms] i by simp
  have s1: "strs s1 = (strs s)(key \<mapsto> (Count (c + 1), entry_ttl (strs s key)))"
    using strs_incr [OF assms] i by simp
  show ?thesis
    by (simp add: consume_def i c' s1 strs_expire Let_def)
qed

lemma consume_remaining:
  assumes "counter (strs s key) = Some c"
  shows "rl_remaining (fst (consume R key limit win s)) = limit - c - 1"
proof -
  obtain c' s1 where i: "r_incr R key s = (c', s1)" by fastforce
  have "c' = c + 1" using incr_result [OF assms] i by simp
  then show ?thesis by (simp add: consume_def i Let_def)
qed

lemma consume_sets: "sets (snd (consume R key limit win s)) = sets s"
proof -
  obtain c' s1 where i: "r_incr R key s = (c', s1)" by fastforce
  have "sets s1 = sets s" using sets_incr [of key s] i by simp
  then show ?thesis by (simp add: consume_def i sets_expire Let_def)
qed

lemma consume_other:
  assumes "counter (strs s key) \<noteq> None" "k \<noteq> key"
  shows "strs (snd (consume R key limit win s)) k = strs s k"
  using assms by (auto simp: consume_strs)

lemma consume_ttl:
  assumes "counter (strs s key) = Some c" and "0 < win"
    and "c \<noteq> 0 \<Longrightarrow> entry_ttl (strs s key) = Some t \<and> 0 < t"
  shows "rl_ttlSeconds (fst (consume R key limit win s)) = (if c = 0 then int win else int t)"
proof -
  obtain c' s1 where i: "r_incr R key s = (c', s1)" by fastforce
  have c': "c' = c + 1" using incr_result [OF assms(1)] i by simp
  have s1: "strs s1 = (strs s)(key \<mapsto> (Count (c + 1), entry_ttl (strs s key)))"
    using strs_incr [OF assms(1)] i by simp
  show ?thesis
    using assms(2,3) by (auto simp: consume_def i c' Let_def ttl strs_expire s1)
qed

lemma consume_times_remaining:
  assumes "counter (strs s key) = Some c"
  shows "map rl_remaining (fst (consume_times R key limit win n s)) =
    map (\<lambda>k. limit - c - 1 - int k) [0..<n]"
  using assms
proof (induction n arbitrary: s c)
  case 0
  then show ?case by simp
next
  case (Suc n)
  obtain r s1 where r: "consume R key limit win s = (r, s1)" by fastforce
  obtain rs s2 where rs: "consume_times R key limit win n s1 = (rs, s2)" by fastforce
  have "counter (strs s1 key) = Some (c + 1)"
    using consume_strs [OF Suc.prems, of limit win] r by simp
  from Suc.IH [OF this] rs
  have "map rl_remaining rs = map (\<lambda>k. limit - (c + 1) - 1 - int k) [0..<n]" by simp
  moreover have "rl_remaining r = limit - c - 1"
    using consume_remaining [OF Suc.prems, of limit win] r by simp
  moreover have "map (\<lambda>k. limit - c - 1 - int k) [0..<Suc n] =
      (limit - c - 1) # map (\<lambda>k. limit - (c + 1) - 1 - int k) [0..<n]"
    by (simp add: upt_conv_Cons map_Suc_upt [symmetric] comp_def algebra_simps
        del: upt_Suc map_Suc_upt)
  ultimately show ?case by (simp add: r rs del: upt_Suc)
qed

lemma consume_times_window:
  assumes "counter (strs s key) = Some c" "0 \<le> c" "0 < n"
  shows "strs (snd (consume_times R key limit win n s)) key =
    Some (Count (c + int n), if c = 0 then Some win else entry_ttl (strs s key))"
  using assms
proof (induction n arbitrary: s c)
  case 0
  then show ?case by simp
next
  case (Suc n)
  obtain r s1 where r: "consume R key limit win s = (r, s1)" by fastforce
  have s1: "strs s1 key =
      Some (Count (c + 1), if c = 0 then Some win else entry_ttl (strs s key))"
    using consume_strs [OF Suc.prems(1), of limit win] r by simp
  show ?case
  proof (cases n)
    case 0
    then show ?thesis using r s1 by simp
  next
    case (Suc m)
    then have "strs (snd (consume_times R key limit win n s1)) key =
        Some (Count (c + 1 + int n), if c + 1 = 0 then Some win else entry_ttl (strs s1 key))"
      using Suc.IH [of s1 "c + 1"] Suc.prems s1 by simp
    then show ?thesis using Suc.prems(2) s1 r by (simp add: case_prod_beta)
  qed
qed

lemma assertAvailable_iff:
  assumes "counter (strs s (buildRateLimitKey sha ns subject)) = Some c"
  shows "assertAvailable R sha ns subject limit win s = Inr () \<longleftrightarrow> c < limit"
  using assms
  by (auto simp: assertAvailable_def get number_def Let_def counter_def
      split: option.splits rtext.splits prod.splits if_splits)

lemma strs_clearAttempts:
  "strs (clearAttempts R sha ns subject s) =
     (strs s)(buildRateLimitKey sha ns subject := None)"
  by (simp add: clearAttempts_def strs_del)

end

section \<open>Counters of open streams\<close>

fun releaseConcurrentKeys :: "'r redis_api \<Rightarrow> string list \<Rightarrow> 'r \<Rightarrow> 'r" where
  "releaseConcurrentKeys R [] s = s"
| "releaseConcurrentKeys R (key # keys) s =
     (let (count, s1) = r_decr R key s;
          s2 = (if count \<le> 0 then r_del R key s1 else s1)
      in releaseConcurrentKeys R keys s2)"

definition too_many_streams :: http_error where
  "too_many_streams = TooManyRequests ''Too many open event streams'' None"

fun acquire_loop ::
    "'r redis_api \<Rightarrow> nat \<Rightarrow> string list \<Rightarrow> (string \<times> int) list \<Rightarrow> 'r \<Rightarrow> (unit, 'r) outcome" where
  "acquire_loop R ttlSeconds acquiredKeys [] s = (Inr (), s)"
| "acquire_loop R ttlSeconds acquiredKeys ((key, limit) # entries) s =
     (let (count, s1) = r_incr R key s;
          s2 = (if count = 1 then r_expire R key ttlSeconds s1 else s1)
      in if count > limit
         then (let s3 = snd (r_decr R key s2)
               in (Inl too_many_streams, releaseConcurrentKeys R acquiredKeys s3))
         else acquire_loop R ttlSeconds (acquiredKeys @ [key]) entries s2)"

definition acquireConcurrentKeys ::
    "'r redis_api \<Rightarrow> (string \<times> int) list \<Rightarrow> nat \<Rightarrow> 'r \<Rightarrow> (unit, 'r) outcome" where
  "acquireConcurrentKeys R entries ttlSeconds s = acquire_loop R ttlSeconds [] entries s"

text \<open>The number of streams a counter key accounts for.\<close>

definition streams_of :: "entry \<Rightarrow> int" where
  "streams_of e = (case counter e of None \<Rightarrow> 0 | Some n \<Rightarrow> n)"

lemma streams_of_simps [simp]:
  "streams_of None = 0"
  "streams_of (Some (Count n, t)) = n"
  by (simp_all add: streams_of_def)

definition counters :: "string set \<Rightarrow> (string \<Rightarrow> entry) \<Rightarrow> bool" where
  "counters K m \<longleftrightarrow> (\<forall>k \<in> K. \<exists>n. counter (m k) = Some n \<and> 0 \<le> n)"

lemma counters_cong: "(\<And>k. k \<in> K \<Longrightarrow> m k = m' k) \<Longrightarrow> counters K m = counters K m'"
  by (simp add: counters_def)

lemma countersD: "counters K m \<Longrightarrow> k \<in> K \<Longrightarrow> counter (m k) = Some (streams_of (m k)) \<and> 0 \<le> streams_of (m k)"
  by (auto simp: counters_def streams_of_def)

context redis_server
begin

lemma release_strs:
  assumes "counters (set keys) (strs s)" "distinct keys" "\<forall>k \<in> set keys. 0 < streams_of (strs s k)"
  shows "(\<forall>k. streams_of (strs (releaseConcurrentKeys R keys s) k) =
      streams_of (strs s k) - (if k \<in> set keys then 1 else 0)) \<and>
    (\<forall>k. k \<notin> set keys \<longrightarrow> strs (releaseConcurrentKeys R keys s) k = strs s k)"
  using assms
proof (induction keys arbitrary: s)
  case Nil
  then show ?case by simp
next
  case (Cons key keys)
  obtain c s1 where d: "r_decr R key s = (c, s1)" by fastforce
  define n where "n = streams_of (strs s key)"
  have n: "counter (strs s key) = Some n" "0 < n"
    using countersD [OF Cons.prems(1), of key] Cons.prems(3) by (auto simp: n_def)
  have c: "c = n - 1" using decr_result [OF n(1)] d by simp
  have s1: "strs s1 = (strs s)(key \<mapsto> (Count (n - 1), entry_ttl (strs s key)))"
    using strs_decr [OF n(1)] d by simp
  define s2 where "s2 = (if c \<le> 0 then r_del R key s1 else s1)"
  have s2: "strs s2 k = strs s k" if "k \<noteq> key" for k
    using that by (simp add: s2_def s1 strs_del)
  have s2key: "streams_of (strs s2 key) = n - 1"
    using n by (auto simp: s2_def s1 strs_del c)
  have same: "strs s2 k = strs s k" if "k \<in> set keys" for k
    using s2 [of k] that Cons.prems(2) by auto
  then have "counters (set keys) (strs s2)" "\<forall>k \<in> set keys. 0 < streams_of (strs s2 k)"
    using Cons.prems(1,3) by (auto simp: counters_def)
  from Cons.IH [OF this(1) _ this(2)] Cons.prems(2)
  have IH: "\<And>k. streams_of (strs (releaseConcurrentKeys R keys s2) k) =
      streams_of (strs s2 k) - (if k \<in> set keys then 1 else 0)"
    "\<And>k. k \<notin> set keys \<Longrightarrow> strs (releaseConcurrentKeys R keys s2) k = strs s2 k"
    by auto
  have "releaseConcurrentKeys R (key # keys) s = releaseConcurrentKeys R keys s2"
    by (simp add: d s2_def)
  with IH s2 s2key same Cons.prems(2) show ?case by (auto simp: n_def)
qed

text \<open>One stream's turn at one key: the counter goes up by one, or, when the limit is reached,
  stays as it was.\<close>

lemma acquire_step:
  fixes t :: nat and s :: 'r
  assumes "counter (strs s key) = Some n"
  defines "s2 \<equiv> (if n + 1 = 1 then r_expire R key t (snd (r_incr R key s)) else snd (r_incr R key s))"
  shows "fst (r_incr R key s) = n + 1"
    and "streams_of (strs s2 key) = n + 1"
    and "counter (strs s2 key) = Some (n + 1)"
    and "k \<noteq> key \<Longrightarrow> strs s2 k = strs s k"
    and "streams_of (strs (snd (r_decr R key s2)) key) = n"
    and "k \<noteq> key \<Longrightarrow> strs (snd (r_decr R key s2)) k = strs s k"
proof -
  show "fst (r_incr R key s) = n + 1" by (rule incr_result [OF assms(1)])
  have s2: "strs s2 = (strs s)(key \<mapsto> (Count (n + 1), if n = 0 then Some t else entry_ttl (strs s key)))"
    by (auto simp: s2_def strs_expire strs_incr [OF assms(1)])
  then show c: "counter (strs s2 key) = Some (n + 1)"
    and "streams_of (strs s2 key) = n + 1" and "k \<noteq> key \<Longrightarrow> strs s2 k = strs s k"
    by auto
  show "streams_of (strs (snd (r_decr R key s2)) key) = n"
    and "k \<noteq> key \<Longrightarrow> strs (snd (r_decr R key s2)) k = strs s k"
    by (auto simp: strs_decr [OF c] s2)
qed

lemma acquire_loop_strs:
  assumes "counters (set held \<union> fst ` set entries) (strs s)"
    and "distinct (held @ map fst entries)"
    and "\<forall>k \<in> set held. 0 < streams_of (strs s k)"
    and "acquire_loop R t held entries s = (r, s')"
  shows "case r of
      Inr _ \<Rightarrow> (\<forall>k. streams_of (strs s' k) =
          streams_of (strs s k) + (if k \<in> fst ` set entries then 1 else 0)) \<and>
        (\<forall>(k, limit) \<in> set entries. streams_of (strs s' k) \<le> limit)
    | Inl e \<Rightarrow> e = too_many_streams \<and>
        (\<forall>k. streams_of (strs s' k) = streams_of (strs s k) - (if k \<in> set held then 1 else 0)) \<and>
        (\<exists>(k, limit) \<in> set entries. limit \<le> streams_of (strs s k))"
  using assms
proof (induction entries arbitrary: held s)
  case Nil
  then show ?case by auto
next
  case (Cons entry entries)
  obtain key limit where e: "entry = (key, limit)" by fastforce
  define n where "n = streams_of (strs s key)"
  have n: "counter (strs s key) = Some n" "0 \<le> n"
    using countersD [OF Cons.prems(1), of key] by (auto simp: n_def e)
  define s2 where
    "s2 = (if n + 1 = 1 then r_expire R key t (snd (r_incr R key s)) else snd (r_incr R key s))"
  have st1: "fst (r_incr R key s) = n + 1" by (rule acquire_step(1) [OF n(1)])
  have st2: "streams_of (strs s2 key) = n + 1"
    unfolding s2_def by (rule acquire_step(2) [OF n(1)])
  have st3: "counter (strs s2 key) = Some (n + 1)"
    unfolding s2_def by (rule acquire_step(3) [OF n(1)])
  have s2: "strs s2 k = strs s k" if "k \<noteq> key" for k
    unfolding s2_def by (rule acquire_step(4) [OF n(1) that])
  have st5: "streams_of (strs (snd (r_decr R key s2)) key) = n"
    unfolding s2_def by (rule acquire_step(5) [OF n(1)])
  have st6: "strs (snd (r_decr R key s2)) k = strs s k" if "k \<noteq> key" for k
    unfolding s2_def by (rule acquire_step(6) [OF n(1) that])
  have key: "key \<notin> set held" "key \<notin> fst ` set entries" "distinct held"
    using Cons.prems(2) by (auto simp: e)
  have loop: "acquire_loop R t held (entry # entries) s =
      (if n + 1 > limit
       then (Inl too_many_streams, releaseConcurrentKeys R held (snd (r_decr R key s2)))
       else acquire_loop R t (held @ [key]) entries s2)"
    by (simp add: e case_prod_beta Let_def st1 s2_def)
  show ?case
  proof (cases "n + 1 > limit")
    case True
    define s3 where "s3 = snd (r_decr R key s2)"
    have s3: "streams_of (strs s3 k) = streams_of (strs s k)" for k
      using st5 st6 [of k] by (cases "k = key") (auto simp: s3_def n_def)
    have "strs s3 k = strs s k" if "k \<in> set held" for k
      using st6 [of k] that key by (auto simp: s3_def)
    then have "counters (set held) (strs s3)" "\<forall>k \<in> set held. 0 < streams_of (strs s3 k)"
      using Cons.prems(1,3) by (auto simp: counters_def)
    from release_strs [OF this(1) key(3) this(2)] True loop Cons.prems(4) s3
    show ?thesis by (auto simp: e n_def s3_def [symmetric])
  next
    case False
    have "\<exists>m. counter (strs s2 k) = Some m \<and> 0 \<le> m"
      if "k \<in> set (held @ [key]) \<union> fst ` set entries" for k
      using that Cons.prems(1) s2 [of k] st3 n(2)
      by (cases "k = key") (auto simp: counters_def e)
    then have "counters (set (held @ [key]) \<union> fst ` set entries) (strs s2)"
      by (simp add: counters_def)
    moreover have "distinct ((held @ [key]) @ map fst entries)"
      using Cons.prems(2) by (auto simp: e)
    moreover have "\<forall>k \<in> set (held @ [key]). 0 < streams_of (strs s2 k)"
    proof
      fix k assume k: "k \<in> set (held @ [key])"
      then show "0 < streams_of (strs s2 k)"
        using Cons.prems(3) s2 [of k] st2 n(2) by (cases "k = key") auto
    qed
    moreover have "acquire_loop R t (held @ [key]) entries s2 = (r, s')"
      using False loop Cons.prems(4) by simp
    ultimately have IH: "case r of
        Inr _ \<Rightarrow> (\<forall>k. streams_of (strs s' k) =
            streams_of (strs s2 k) + (if k \<in> fst ` set entries then 1 else 0)) \<and>
          (\<forall>(k, limit) \<in> set entries. streams_of (strs s' k) \<le> limit)
      | Inl e \<Rightarrow> e = too_many_streams \<and>
          (\<forall>k. streams_of (strs s' k) =
             streams_of (strs s2 k) - (if k \<in> set (held @ [key]) then 1 else 0)) \<and>
          (\<exists>(k, limit) \<in> set entries. limit \<le> streams_of (strs s2 k))"
      by (rule Cons.IH)
    have eq: "streams_of (strs s2 k) = streams_of (strs s k) + (if k = key then 1 else 0)" for k
      using st2 s2 by (auto simp: n_def)
    show ?thesis
    proof (cases r)
      case (Inl err)
      then obtain k l where kl: "(k, l) \<in> set entries" "l \<le> streams_of (strs s2 k)"
        using IH by auto
      with key have "k \<noteq> key" by force
      with kl s2 have "\<exists>(k, l) \<in> set (entry # entries). l \<le> streams_of (strs s k)" by force
      with IH Inl eq key show ?thesis by (auto simp: e)
    next
      case (Inr u)
      then show ?thesis using IH eq key False by (auto simp: e n_def)
    qed
  qed
qed

end

end
