(* ===== verification/Bytes.thy ===== *)
theory Bytes
  imports Prelude "HOL-Library.Word"
begin

text \<open>
  Byte strings as Node's \<open>Buffer\<close> holds them, and the two text encodings the code uses for
  them: lower-case hex (\<open>toString('hex')\<close>, \<open>Buffer.from(text, 'hex')\<close>) with its round trip.
\<close>

type_synonym bytes = "8 word list"

definition hexDigits :: string where
  "hexDigits = ''0123456789abcdef''"

definition hexDigit :: "nat \<Rightarrow> char" where
  "hexDigit n = hexDigits ! n"

text \<open>\<open>Buffer.from(_, 'hex')\<close> reads either case.\<close>

definition hexValue :: "char \<Rightarrow> nat option" where
  "hexValue c =
     map_of (zip hexDigits [0..<16] @ zip ''ABCDEF'' [10..<16]) c"

definition hex :: "bytes \<Rightarrow> string" where
  "hex bs = concat (map (\<lambda>b. [hexDigit (unat b div 16), hexDigit (unat b mod 16)]) bs)"

text \<open>Decoding stops at the first pair that is not hex, and drops a single last digit.\<close>

fun unhex :: "string \<Rightarrow> bytes" where
  "unhex (a # b # cs) =
     (case (hexValue a, hexValue b) of
        (Some x, Some y) \<Rightarrow> word_of_nat (16 * x + y) # unhex cs
      | _ \<Rightarrow> [])"
| "unhex _ = []"

definition upperHexDigit :: "nat \<Rightarrow> char" where
  "upperHexDigit n = ''0123456789ABCDEF'' ! n"

text \<open>\<open>toString('hex').toUpperCase()\<close>.\<close>

definition upperHex :: "bytes \<Rightarrow> string" where
  "upperHex bs = concat (map (\<lambda>b. [upperHexDigit (unat b div 16), upperHexDigit (unat b mod 16)]) bs)"

lemma hexValue_hexDigit:
  assumes "n < 16"
  shows "hexValue (hexDigit n) = Some n"
proof -
  have "list_all (\<lambda>n. hexValue (hexDigit n) = Some n) [0..<16]" by code_simp
  then show ?thesis using assms by (simp add: list_all_iff)
qed

lemma unat_byte_less: "unat (b :: 8 word) < 256"
  using unsigned_less [of b] by simp

lemma length_hex: "length (hex bs) = 2 * length bs"
  by (induction bs) (simp_all add: hex_def)

lemma unhex_hex [simp]: "unhex (hex bs) = bs"
proof (induction bs)
  case Nil
  then show ?case by (simp add: hex_def)
next
  case (Cons b bs)
  have "unat b div 16 < 16" using unat_byte_less [of b] by linarith
  moreover have "word_of_nat (16 * (unat b div 16) + unat b mod 16) = b"
    by (simp only: mult_div_mod_eq) simp
  ultimately show ?case using Cons by (simp add: hex_def hexValue_hexDigit)
qed

lemma hex_inj: "hex a = hex b \<Longrightarrow> a = b"
  by (metis unhex_hex)

end
