(* ===== verification/Platform.thy ===== *)
theory Platform
  imports Rate_Limit Bytes
begin

text \<open>
  Everything the services call that is not in the repository, as one record \<open>platform\<close> that
  each handler takes as an argument: Redis, the object store (S3/MinIO), random values,
  bcrypt, scrypt, AES-CBC, RSA, JWT, \<open>date-fns\<close>, the process environment. Nothing is assumed of
  a field but where a theorem names the hypothesis. \<open>world\<close> is the state a handler works on:
  the database, the state of Redis and of the object store, the clock, and the number of random
  values drawn so far (the \<open>i\<close>-th UUID drawn is \<open>uuid P i\<close>).
\<close>

section \<open>Object store\<close>

text \<open>The commands of the AWS SDK the code sends. A reply \<open>None\<close> is a rejected promise
  (\<open>False\<close> for commands whose reply is not read); inner options are optional reply fields.\<close>

record upload_page =
  up_uploads :: "(string option \<times> string option \<times> time option) list" \<comment> \<open>key, id, initiated\<close>
  up_isTruncated :: bool
  up_nextKeyMarker :: "string option"
  up_nextUploadIdMarker :: "string option"

record parts_page =
  pp_lastModified :: "time option list"
  pp_isTruncated :: bool
  pp_nextMarker :: "string option"

record 's s3_api =
  s3_createMultipart :: "string \<Rightarrow> string \<Rightarrow> 's \<Rightarrow> string option option \<times> 's"
  s3_uploadPart :: "string \<Rightarrow> string \<Rightarrow> string \<Rightarrow> nat \<Rightarrow> bytes \<Rightarrow> 's \<Rightarrow> string option option \<times> 's"
  s3_complete :: "string \<Rightarrow> string \<Rightarrow> string option \<Rightarrow> (nat \<times> string option) list \<Rightarrow> 's \<Rightarrow> bool \<times> 's"
  s3_abort :: "string \<Rightarrow> string \<Rightarrow> string option \<Rightarrow> 's \<Rightarrow> bool \<times> 's"
  s3_head :: "string \<Rightarrow> string \<Rightarrow> 's \<Rightarrow> nat option option \<times> 's"
  s3_put :: "string \<Rightarrow> string \<Rightarrow> bytes \<Rightarrow> 's \<Rightarrow> bool \<times> 's"
  s3_get :: "string \<Rightarrow> string \<Rightarrow> 's \<Rightarrow> (bytes option \<times> nat option) option \<times> 's"
  s3_missing :: "string \<Rightarrow> string \<Rightarrow> 's \<Rightarrow> bool"  \<comment> \<open>the rejected \<open>GET\<close> says: no such key\<close>
  s3_delete :: "string \<Rightarrow> string \<Rightarrow> 's \<Rightarrow> bool \<times> 's"
  s3_listUploads ::
    "string \<Rightarrow> string option \<Rightarrow> string option \<Rightarrow> 's \<Rightarrow> upload_page option \<times> 's"
  s3_listParts ::
    "string \<Rightarrow> string \<Rightarrow> string \<Rightarrow> string option \<Rightarrow> 's \<Rightarrow> parts_page option \<times> 's"

section \<open>Tokens\<close>

record jwt_payload =
  jwt_sub :: string
  jwt_username :: string
  jwt_sessionKey :: string
  jwt_deletionRequestId :: "string option"
  jwt_purpose :: "string option"

section \<open>The platform and the world\<close>

record ('r, 's) platform =
  rds :: "'r redis_api"
  store :: "'s s3_api"
  uuid :: "nat \<Rightarrow> string"
  randomBytes :: "nat \<Rightarrow> nat \<Rightarrow> bytes"            \<comment> \<open>draw, length\<close>
  sha256 :: "string \<Rightarrow> string"                      \<comment> \<open>hex digest\<close>
  bcrypt_hash :: "nat \<Rightarrow> string \<Rightarrow> nat \<Rightarrow> string"  \<comment> \<open>draw of the salt, password, cost\<close>
  bcrypt_compare :: "string \<Rightarrow> string \<Rightarrow> bool"
  scrypt :: "string \<Rightarrow> bytes \<Rightarrow> bytes"
  aes_cbc_encrypt :: "bytes \<Rightarrow> bytes \<Rightarrow> bytes \<Rightarrow> bytes"         \<comment> \<open>key, iv, data\<close>
  aes_cbc_decrypt :: "bytes \<Rightarrow> bytes \<Rightarrow> bytes \<Rightarrow> bytes option"  \<comment> \<open>\<open>None\<close>: \<open>final()\<close> throws\<close>
  rsa_keyPair :: "nat \<Rightarrow> string \<times> string"         \<comment> \<open>draw; public and private key as PEM\<close>
  rsa_encrypt :: "nat \<Rightarrow> string \<Rightarrow> bytes \<Rightarrow> bytes"
  rsa_decrypt :: "string \<Rightarrow> bytes \<Rightarrow> bytes option"
  jwt_sign :: "string \<Rightarrow> string \<Rightarrow> jwt_payload \<Rightarrow> time \<Rightarrow> string" \<comment> \<open>secret, \<open>expiresIn\<close>, payload, now\<close>
  jwt_verify :: "string \<Rightarrow> string \<Rightarrow> time \<Rightarrow> jwt_payload option"  \<comment> \<open>secret, token, now\<close>
  addDays :: "time \<Rightarrow> nat \<Rightarrow> time"
  addHours :: "time \<Rightarrow> nat \<Rightarrow> time"
  startOfDay :: "time \<Rightarrow> time"                     \<comment> \<open>\<open>setHours(0, 0, 0, 0)\<close>, server time zone\<close>
  db_contains :: "string \<Rightarrow> string \<Rightarrow> bool"         \<comment> \<open>needle, value: \<open>contains\<close> under the collation\<close>
  utf8 :: "string \<Rightarrow> bytes"
  utf8_text :: "bytes \<Rightarrow> string"
  iso :: "time \<Rightarrow> string"
  env :: "string \<Rightarrow> string option"

record ('r, 's) world =
  db :: db
  redis :: 'r
  objects :: 's
  now :: time
  draws :: nat

section \<open>Random values\<close>

definition randomUUID :: "('r, 's) platform \<Rightarrow> ('r, 's) world \<Rightarrow> string \<times> ('r, 's) world" where
  "randomUUID P w = (uuid P (draws w), w\<lparr>draws := Suc (draws w)\<rparr>)"

definition randomBytesOf ::
    "('r, 's) platform \<Rightarrow> nat \<Rightarrow> ('r, 's) world \<Rightarrow> bytes \<times> ('r, 's) world" where
  "randomBytesOf P n w = (randomBytes P (draws w) n, w\<lparr>draws := Suc (draws w)\<rparr>)"

section \<open>Environment\<close>

text \<open>\<open>process.env[name]?.trim()\<close>; \<open>optionalEnv\<close> and \<open>requireEnv\<close> of
  \<^verbatim>\<open>common/config/env.ts\<close>.\<close>

definition optionalEnv :: "('r, 's) platform \<Rightarrow> string \<Rightarrow> string option" where
  "optionalEnv P name =
     (case env P name of
        None \<Rightarrow> None
      | Some v \<Rightarrow> (let value = trim v in if value = [] then None else Some value))"

definition requireEnv :: "('r, 's) platform \<Rightarrow> string \<Rightarrow> http_error + string" where
  "requireEnv P name =
     (case optionalEnv P name of
        None \<Rightarrow> Inl (Thrown (''Missing required environment variable: '' @ name))
      | Some value \<Rightarrow> Inr value)"

section \<open>Effects shared by the services\<close>

definition masterKeyKey :: "string \<Rightarrow> string" where
  "masterKeyKey userId = ''masterkey:'' @ userId"

definition redis_del :: "('r, 's) platform \<Rightarrow> string \<Rightarrow> ('r, 's) world \<Rightarrow> ('r, 's) world" where
  "redis_del P key w = w\<lparr>redis := r_del (rds P) key (redis w)\<rparr>"

definition redis_get :: "('r, 's) platform \<Rightarrow> ('r, 's) world \<Rightarrow> string \<Rightarrow> rtext option" where
  "redis_get P w key = r_get (rds P) (redis w) key"

definition redis_set ::
    "('r, 's) platform \<Rightarrow> string \<Rightarrow> rtext \<Rightarrow> nat \<Rightarrow> ('r, 's) world \<Rightarrow> ('r, 's) world" where
  "redis_set P key v seconds w = w\<lparr>redis := r_set (rds P) key v seconds (redis w)\<rparr>"

text \<open>\<open>deleteS3Objects\<close>: the empty keys are skipped, a failed delete is logged and forgotten.\<close>

fun s3_delete_all :: "('r, 's) platform \<Rightarrow> string \<Rightarrow> string list \<Rightarrow> 's \<Rightarrow> 's" where
  "s3_delete_all P bucket [] st = st"
| "s3_delete_all P bucket (key # keys) st =
     s3_delete_all P bucket keys (snd (s3_delete (store P) bucket key st))"

definition deleteS3Objects ::
    "('r, 's) platform \<Rightarrow> string \<Rightarrow> string list \<Rightarrow> ('r, 's) world \<Rightarrow> ('r, 's) world" where
  "deleteS3Objects P bucket keys w =
     w\<lparr>objects := s3_delete_all P bucket (filter (\<lambda>k. k \<noteq> []) keys) (objects w)\<rparr>"

definition appendAudit :: "adminAuditLog \<Rightarrow> db \<Rightarrow> db" where
  "appendAudit a d = d\<lparr>auditLogs := auditLogs d @ [a]\<rparr>"

named_theorems world_frame "what the shared effects leave unchanged"

lemma deleteS3Objects_frame [world_frame, simp]:
  "db (deleteS3Objects P b ks w) = db w"
  "redis (deleteS3Objects P b ks w) = redis w"
  "now (deleteS3Objects P b ks w) = now w"
  "draws (deleteS3Objects P b ks w) = draws w"
  by (simp_all add: deleteS3Objects_def)

lemma redis_del_frame [world_frame, simp]:
  "db (redis_del P k w) = db w"
  "objects (redis_del P k w) = objects w"
  "now (redis_del P k w) = now w"
  "draws (redis_del P k w) = draws w"
  by (simp_all add: redis_del_def)

lemma redis_set_frame [world_frame, simp]:
  "db (redis_set P k v n w) = db w"
  "objects (redis_set P k v n w) = objects w"
  "now (redis_set P k v n w) = now w"
  "draws (redis_set P k v n w) = draws w"
  by (simp_all add: redis_set_def)

lemma appendAudit_frame [simp]:
  "auditLogs (appendAudit a d) = auditLogs d @ [a]"
  "users (appendAudit a d) = users d"
  "inviteCodes (appendAudit a d) = inviteCodes d"
  "files (appendAudit a d) = files d"
  "links (appendAudit a d) = links d"
  "bins (appendAudit a d) = bins d"
  "mails (appendAudit a d) = mails d"
  "mailAttachments (appendAudit a d) = mailAttachments d"
  "blockedSenders (appendAudit a d) = blockedSenders d"
  "restrictions (appendAudit a d) = restrictions d"
  "deletionRequests (appendAudit a d) = deletionRequests d"
  "contentReports (appendAudit a d) = contentReports d"
  "bugReports (appendAudit a d) = bugReports d"
  "internalMails (appendAudit a d) = internalMails d"
  "deliveries (appendAudit a d) = deliveries d"
  "internalAttachments (appendAudit a d) = internalAttachments d"
  "blogPosts (appendAudit a d) = blogPosts d"
  "notifications (appendAudit a d) = notifications d"
  by (simp_all add: appendAudit_def)

text \<open>A session key or row id drawn now is none of those drawn before.\<close>

definition fresh_uuids :: "('r, 's) platform \<Rightarrow> bool" where
  "fresh_uuids P \<longleftrightarrow> inj (uuid P)"

lemma fresh_uuids_neq: "fresh_uuids P \<Longrightarrow> i \<noteq> j \<Longrightarrow> uuid P i \<noteq> uuid P j"
  by (auto simp: fresh_uuids_def dest: injD)

section \<open>A concrete platform\<close>

text \<open>For the witnesses: the in-memory Redis, an object store that accepts everything and keeps
  the size of each object, and readable stand-ins for the cryptographic functions (a hash
  that prefixes, a cipher that prefixes the key and the IV).\<close>

definition unary :: "nat \<Rightarrow> string" where
  "unary n = replicate n CHR ''i''"

lemma inj_unary: "inj unary"
  by (rule injI) (simp add: unary_def replicate_eq_replicate)

definition demo_s3 :: "(string \<Rightarrow> nat option) s3_api" where
  "demo_s3 =
     \<lparr>s3_createMultipart = (\<lambda>b k st. (Some (Some (''mp-'' @ k)), st)),
      s3_uploadPart = (\<lambda>b k u n body st.
        (Some (Some ''etag''), st(k \<mapsto> (case st k of None \<Rightarrow> 0 | Some n \<Rightarrow> n) + length body))),
      s3_complete = (\<lambda>b k u parts st. (True, st)),
      s3_abort = (\<lambda>b k u st. (True, st(k := None))),
      s3_head = (\<lambda>b k st. (Some (st k), st)),
      s3_put = (\<lambda>b k body st. (True, st(k \<mapsto> length body))),
      s3_get = (\<lambda>b k st. (Some (Some [], st k), st)),
      s3_missing = (\<lambda>b k st. st k = None),
      s3_delete = (\<lambda>b k st. (True, st(k := None))),
      s3_listUploads = (\<lambda>b k u st.
        (Some \<lparr>up_uploads = [], up_isTruncated = False, up_nextKeyMarker = None,
               up_nextUploadIdMarker = None\<rparr>, st)),
      s3_listParts = (\<lambda>b k u m st.
        (Some \<lparr>pp_lastModified = [], pp_isTruncated = False, pp_nextMarker = None\<rparr>, st))\<rparr>"

definition demo_platform :: "(kv, string \<Rightarrow> nat option) platform" where
  "demo_platform =
     \<lparr>rds = kv_api, store = demo_s3, uuid = unary,
      randomBytes = (\<lambda>i n. replicate n (word_of_nat i)),
      sha256 = (\<lambda>s. s),
      bcrypt_hash = (\<lambda>i pw cost. ''$2'' @ pw),
      bcrypt_compare = (\<lambda>pw h. h = ''$2'' @ pw),
      scrypt = (\<lambda>pw salt. map (\<lambda>c. of_char c) pw @ salt),
      aes_cbc_encrypt = (\<lambda>key iv data. key @ iv @ data),
      aes_cbc_decrypt = (\<lambda>key iv data.
        if take (length (key @ iv)) data = key @ iv then Some (drop (length (key @ iv)) data) else None),
      rsa_keyPair = (\<lambda>i. (''pub'', ''priv'')),
      rsa_encrypt = (\<lambda>i k data. data),
      rsa_decrypt = (\<lambda>k data. Some data),
      jwt_sign = (\<lambda>secret ttl p t. secret @ jwt_sub p @ jwt_sessionKey p),
      jwt_verify = (\<lambda>secret token t. None),
      addDays = (\<lambda>t n. t + n * 86400000),
      addHours = (\<lambda>t n. t + n * 3600000),
      startOfDay = (\<lambda>t. t - t mod 86400000),
      db_contains = sublist,
      utf8 = map of_char, utf8_text = map (\<lambda>b. char_of (unat b)),
      iso = unary,
      env = (\<lambda>_. Some ''v'')\<rparr>"

lemma demo_platform_simps [simp]:
  "rds demo_platform = kv_api"
  "store demo_platform = demo_s3"
  "uuid demo_platform = unary"
  "sha256 demo_platform = (\<lambda>s. s)"
  "bcrypt_compare demo_platform pw h = (h = ''$2'' @ pw)"
  "bcrypt_hash demo_platform i pw c = ''$2'' @ pw"
  "addDays demo_platform t n = t + n * 86400000"
  "addHours demo_platform t n = t + n * 3600000"
  "env demo_platform = (\<lambda>_. Some ''v'')"
  "rsa_keyPair demo_platform i = (''pub'', ''priv'')"
  by (simp_all add: demo_platform_def)

lemma demo_fresh: "fresh_uuids demo_platform"
  by (simp add: fresh_uuids_def inj_unary)

end
