(* ===== verification/Mail_Address.thy ===== *)
theory Mail_Address
  imports Platform
begin

text \<open>
  \<^verbatim>\<open>common/mail/admin-mail-aliases.ts\<close>: the address in a header value (the three
  regular expressions of the file, each as the recursion its leftmost greedy match is), the
  administrator's forwarding aliases from the environment, and the mailbox an incoming mail goes
  to. Characters are those of ASCII, where \<open>toLowerCase\<close> and \<open>\\s\<close> are the functions below.
\<close>

section \<open>Characters\<close>

definition lower_char :: "char \<Rightarrow> char" where
  "lower_char c =
     (let n = (of_char c :: nat) in if 65 \<le> n \<and> n \<le> 90 then char_of (n + 32) else c)"

definition to_lower :: "string \<Rightarrow> string" where
  "to_lower s = map lower_char s"

definition is_letter :: "char \<Rightarrow> bool" where
  "is_letter c \<longleftrightarrow>
     (let n = (of_char c :: nat) in 65 \<le> n \<and> n \<le> 90 \<or> 97 \<le> n \<and> n \<le> 122)"

definition is_lower :: "char \<Rightarrow> bool" where
  "is_lower c \<longleftrightarrow> (let n = (of_char c :: nat) in 97 \<le> n \<and> n \<le> 122)"

definition is_digit :: "char \<Rightarrow> bool" where
  "is_digit c \<longleftrightarrow> (let n = (of_char c :: nat) in 48 \<le> n \<and> n \<le> 57)"

definition local_char :: "char \<Rightarrow> bool" where
  "local_char c \<longleftrightarrow> is_letter c \<or> is_digit c \<or> c \<in> set ''._%+-''"

definition domain_char :: "char \<Rightarrow> bool" where
  "domain_char c \<longleftrightarrow> is_letter c \<or> is_digit c \<or> c \<in> set ''.-''"

section \<open>The address in a header value\<close>

text \<open>\<open>/<([^>]+)>/\<close>, group 1.\<close>

fun angle_match :: "string \<Rightarrow> string option" where
  "angle_match [] = None"
| "angle_match (c # cs) =
     (if c = CHR ''<'' then
        (let run = takeWhile (\<lambda>d. d \<noteq> CHR ''>'') cs in
         if run \<noteq> [] \<and> length run < length cs then Some run else angle_match cs)
      else angle_match cs)"

text \<open>\<open>[A-Z0-9.-]+\\.[A-Z]{2,}\<close> at the start of the text: the greedy first part backs off to the
  last dot with two letters behind it.\<close>

definition tld_at :: "string \<Rightarrow> nat \<Rightarrow> bool" where
  "tld_at run k \<longleftrightarrow> 0 < k \<and> run ! k = CHR ''.'' \<and> 2 \<le> length (takeWhile is_letter (drop (Suc k) run))"

definition domain_match :: "string \<Rightarrow> string option" where
  "domain_match s =
     (let run = takeWhile domain_char s in
      case filter (tld_at run) (rev [0..<length run]) of
        [] \<Rightarrow> None
      | k # _ \<Rightarrow> Some (take (Suc k) run @ takeWhile is_letter (drop (Suc k) run)))"

text \<open>\<open>/[A-Z0-9._%+-]+@[A-Z0-9.-]+\\.[A-Z]{2,}/i\<close>.\<close>

fun email_match :: "string \<Rightarrow> string option" where
  "email_match [] = None"
| "email_match (c # cs) =
     (let run = takeWhile local_char (c # cs);
          rest = drop (length run) (c # cs)
      in if run \<noteq> [] \<and> rest \<noteq> [] \<and> hd rest = CHR ''@'' \<and> domain_match (tl rest) \<noteq> None
         then Some (run @ ''@'' @ the (domain_match (tl rest)))
         else email_match cs)"

text \<open>\<open>None\<close> stands for a value that is not a string.\<close>

definition extractMailAddress :: "string option \<Rightarrow> string" where
  "extractMailAddress value =
     (case value of
        None \<Rightarrow> []
      | Some v \<Rightarrow>
          (let trimmed = trim v;
               emailCandidate =
                 (case angle_match trimmed of
                    Some a \<Rightarrow> a
                  | None \<Rightarrow> (case email_match trimmed of Some e \<Rightarrow> e | None \<Rightarrow> trimmed))
           in trim (to_lower emailCandidate)))"

section \<open>Aliases of the administrator\<close>

text \<open>\<open>split(/[,\\s;]+/)\<close>; the empty pieces are dropped later anyway.\<close>

definition alias_sep :: "char \<Rightarrow> bool" where
  "alias_sep c \<longleftrightarrow> is_space c \<or> c \<in> set '',;''"

fun split_on :: "(char \<Rightarrow> bool) \<Rightarrow> string \<Rightarrow> string list" where
  "split_on p [] = [[]]"
| "split_on p (c # cs) =
     (if p c then [] # split_on p cs
      else (case split_on p cs of [] \<Rightarrow> [[c]] | x # xs \<Rightarrow> (c # x) # xs))"

definition getAdminForwardAliases :: "('r, 's) platform \<Rightarrow> string list" where
  "getAdminForwardAliases P =
     (let rawAliases = (case optionalEnv P ''MAIL_ADMIN_FORWARD_ALIASES'' of None \<Rightarrow> [] | Some v \<Rightarrow> v)
      in filter (\<lambda>a. a \<noteq> []) (map (\<lambda>a. extractMailAddress (Some a)) (split_on alias_sep rawAliases)))"

definition username_pattern :: "string \<Rightarrow> bool" where
  "username_pattern s \<longleftrightarrow> 3 \<le> length s \<and> length s \<le> 50 \<and>
     list_all (\<lambda>c. is_lower c \<or> is_digit c \<or> c \<in> set ''_-'') s"

definition getAdminForwardUsername :: "('r, 's) platform \<Rightarrow> http_error + string option" where
  "getAdminForwardUsername P =
     (case optionalEnv P ''MAIL_ADMIN_FORWARD_USERNAME'' of
        None \<Rightarrow> Inr None
      | Some username \<Rightarrow>
          if username_pattern username then Inr (Some username)
          else Inl (Thrown (''MAIL_ADMIN_FORWARD_USERNAME must be a lowercase username with '' @
            ''3-50 letters, numbers, underscores or hyphens'')))"

section \<open>Routing\<close>

text \<open>\<open>/^[^\\s@<>]+@[^\\s@<>]+\\.[^\\s@<>]+$/\<close>: one \<open>@\<close>, none of the other characters, and a dot
  inside the part behind it.\<close>

definition isFullEmailAddress :: "string \<Rightarrow> bool" where
  "isFullEmailAddress v =
     (let lp = takeWhile (\<lambda>c. c \<noteq> CHR ''@'') v;
          dom = drop (Suc (length lp)) v;
          ok = (\<lambda>c. \<not> is_space c \<and> c \<notin> set ''@<>'')
      in lp \<noteq> [] \<and> length lp < length v \<and> list_all ok lp \<and> list_all ok dom \<and>
         list_ex (\<lambda>k. 0 < k \<and> dom ! k = CHR ''.'' \<and> Suc k < length dom) [0..<length dom])"

fun first_some :: "'a option list \<Rightarrow> 'a option" where
  "first_some [] = None"
| "first_some (x # xs) = (case x of Some v \<Rightarrow> Some v | None \<Rightarrow> first_some xs)"

definition resolveIncomingRecipientAddress ::
    "('r, 's) platform \<Rightarrow> string option list \<Rightarrow> http_error + string" where
  "resolveIncomingRecipientAddress P rawRecipients =
     (let recipients = filter (\<lambda>r. r \<noteq> []) (map extractMailAddress rawRecipients) in
      case recipients of
        [] \<Rightarrow> Inr ''unknown''
      | first # _ \<Rightarrow>
          (case getAdminForwardUsername P of
             Inl e \<Rightarrow> Inl e
           | Inr username \<Rightarrow>
               (let adminAliases = getAdminForwardAliases P;
                    primary = map_option (\<lambda>u. u @ ''@redbox.cx'') username;
                    choice = first_some
                      [find (\<lambda>r. Some r \<noteq> primary \<and> r \<in> set adminAliases) recipients,
                       find (\<lambda>r. r \<in> set adminAliases) recipients,
                       find isFullEmailAddress recipients]
                in Inr (case choice of Some r \<Rightarrow> r | None \<Rightarrow> first))))"

definition resolveIncomingMailboxUsername ::
    "('r, 's) platform \<Rightarrow> string option \<Rightarrow> http_error + string" where
  "resolveIncomingMailboxUsername P rawRecipient =
     (let cleanEmail = extractMailAddress rawRecipient in
      if cleanEmail = [] then Inr ''unknown''
      else
        (case getAdminForwardUsername P of
           Inl e \<Rightarrow> Inl e
         | Inr adminName \<Rightarrow>
             (case adminName of
                Some name \<Rightarrow>
                  if cleanEmail \<in> set (getAdminForwardAliases P) then Inr name
                  else (let lp = trim (takeWhile (\<lambda>c. c \<noteq> CHR ''@'') cleanEmail)
                        in Inr (if lp = [] then ''unknown'' else lp))
              | None \<Rightarrow>
                  (let lp = trim (takeWhile (\<lambda>c. c \<noteq> CHR ''@'') cleanEmail)
                   in Inr (if lp = [] then ''unknown'' else lp)))))"

section \<open>Addresses are in lower case\<close>

lemma lower_char_idem [simp]: "lower_char (lower_char c) = lower_char c"
  by (auto simp: lower_char_def Let_def)

lemma to_lower_idem [simp]: "to_lower (to_lower s) = to_lower s"
  by (simp add: to_lower_def)

lemma lower_fixed_letters: "list_all (\<lambda>c. lower_char c = c) s \<longleftrightarrow> to_lower s = s"
  by (induction s) (auto simp: to_lower_def)

lemma list_all_dropWhile: "list_all p s \<Longrightarrow> list_all p (dropWhile q s)"
  by (induction s) auto

lemma list_all_trim: "list_all p s \<Longrightarrow> list_all p (trim s)"
  by (simp add: trim_def list_all_dropWhile)

lemma extractMailAddress_lower: "to_lower (extractMailAddress v) = extractMailAddress v"
proof (cases v)
  case None
  then show ?thesis by (simp add: extractMailAddress_def to_lower_def)
next
  case (Some s)
  have "list_all (\<lambda>c. lower_char c = c) (trim (to_lower t))" for t
    by (rule list_all_trim) (simp add: to_lower_def list_all_iff)
  then show ?thesis
    by (simp add: Some extractMailAddress_def Let_def lower_fixed_letters [symmetric])
qed

end
