(* ===== verification/File_Geometry.thy ===== *)
theory File_Geometry
  imports Mail_Address
begin

text \<open>
  Sizes of \<^verbatim>\<open>files/files.service.ts\<close>: the limits and quotas, the number of chunks of a
  file, the size each encrypted chunk must have, the size of the whole stored object, and the DTO
  bounds (\<^verbatim>\<open>files/dto\<close>) a request has passed before the service sees it. Sizes are
  \<open>nat\<close>; \<open>Math.ceil\<close> of a quotient of safe integers is the integer ceiling.
\<close>

definition MAX_ACTIVE_UPLOADS_PER_USER :: nat where
  "MAX_ACTIVE_UPLOADS_PER_USER = 1"

definition UPLOAD_META_TTL_SECONDS :: nat where
  "UPLOAD_META_TTL_SECONDS = 86400"

definition UPLOAD_INIT_LOCK_TTL_SECONDS :: nat where
  "UPLOAD_INIT_LOCK_TTL_SECONDS = 120"

definition INCOMPLETE_UPLOAD_STALE_MS :: nat where
  "INCOMPLETE_UPLOAD_STALE_MS = 60 * 60 * 1000"

definition DEFAULT_MAX_FILE_SIZE_BYTES :: nat where
  "DEFAULT_MAX_FILE_SIZE_BYTES = 2 * 1024 * 1024 * 1024 - 1"

definition ADMIN_MAX_FILE_SIZE_BYTES :: nat where
  "ADMIN_MAX_FILE_SIZE_BYTES = 50 * 1024 * 1024 * 1024"

definition DEFAULT_FILE_QUOTA_BYTES :: nat where
  "DEFAULT_FILE_QUOTA_BYTES = 2 * 1024 * 1024 * 1024"

definition ADMIN_FILE_QUOTA_BYTES :: nat where
  "ADMIN_FILE_QUOTA_BYTES = 50 * 1024 * 1024 * 1024"

definition PLAINTEXT_CHUNK_SIZE_BYTES :: nat where
  "PLAINTEXT_CHUNK_SIZE_BYTES = 50 * 1024 * 1024"

definition ENCRYPTED_CHUNK_OVERHEAD_BYTES :: nat where
  "ENCRYPTED_CHUNK_OVERHEAD_BYTES = 12 + 16"

lemmas size_constants =
  DEFAULT_MAX_FILE_SIZE_BYTES_def ADMIN_MAX_FILE_SIZE_BYTES_def DEFAULT_FILE_QUOTA_BYTES_def
  ADMIN_FILE_QUOTA_BYTES_def PLAINTEXT_CHUNK_SIZE_BYTES_def ENCRYPTED_CHUNK_OVERHEAD_BYTES_def

definition ceil_div :: "nat \<Rightarrow> nat \<Rightarrow> nat" where
  "ceil_div a b = (a + b - 1) div b"

definition chunk_count :: "nat \<Rightarrow> nat" where
  "chunk_count plaintextSize = ceil_div plaintextSize PLAINTEXT_CHUNK_SIZE_BYTES"

definition invalid_stored_size :: http_error where
  "invalid_stored_size = InternalError ''Invalid stored file size''"

definition getExpectedEncryptedSize :: "nat \<Rightarrow> http_error + nat" where
  "getExpectedEncryptedSize plaintextSize =
     (if plaintextSize < 1 \<or> plaintextSize > ADMIN_MAX_FILE_SIZE_BYTES then Inl invalid_stored_size
      else Inr (plaintextSize + chunk_count plaintextSize * ENCRYPTED_CHUNK_OVERHEAD_BYTES))"

text \<open>The size the chunk of an upload must have, in the integers: the last chunk takes the rest.\<close>

definition expectedPlaintextSize :: "upload_meta \<Rightarrow> nat \<Rightarrow> int" where
  "expectedPlaintextSize meta chunkIndex =
     (if int chunkIndex < int (meta_totalChunks meta) - 1 then int PLAINTEXT_CHUNK_SIZE_BYTES
      else int (meta_fileSize meta) -
        (int (meta_totalChunks meta) - 1) * int PLAINTEXT_CHUNK_SIZE_BYTES)"

definition expectedChunkSize :: "upload_meta \<Rightarrow> nat \<Rightarrow> int" where
  "expectedChunkSize meta chunkIndex =
     expectedPlaintextSize meta chunkIndex + int ENCRYPTED_CHUNK_OVERHEAD_BYTES"

record file_limits =
  lim_maxFileSize :: nat
  lim_quotaLimit :: nat

definition getFileLimitsForUsername ::
    "('r, 's) platform \<Rightarrow> string \<Rightarrow> http_error + file_limits" where
  "getFileLimitsForUsername P username =
     (case getAdminForwardUsername P of
        Inl e \<Rightarrow> Inl e
      | Inr adminUsername \<Rightarrow>
          if adminUsername = Some username
          then Inr \<lparr>lim_maxFileSize = ADMIN_MAX_FILE_SIZE_BYTES, lim_quotaLimit = ADMIN_FILE_QUOTA_BYTES\<rparr>
          else Inr \<lparr>lim_maxFileSize = DEFAULT_MAX_FILE_SIZE_BYTES,
                    lim_quotaLimit = DEFAULT_FILE_QUOTA_BYTES\<rparr>)"

definition calculateExpiration :: "('r, 's) platform \<Rightarrow> time \<Rightarrow> string \<Rightarrow> time" where
  "calculateExpiration P t expiresIn =
     (if expiresIn = ''1h'' then addHours P t 1
      else if expiresIn = ''24h'' then addHours P t 24
      else if expiresIn = ''7d'' then addDays P t 7
      else addDays P t 30)"

section \<open>Bounds the requests have passed\<close>

record init_upload_dto =
  iu_fileSize :: nat
  iu_totalChunks :: nat
  iu_password :: "string option"
  iu_expiresIn :: "string option"

definition valid_InitUploadDto :: "init_upload_dto \<Rightarrow> bool" where
  "valid_InitUploadDto dto \<longleftrightarrow>
     1 \<le> iu_fileSize dto \<and> iu_fileSize dto \<le> 53687091200 \<and>
     1 \<le> iu_totalChunks dto \<and> iu_totalChunks dto \<le> 1024 \<and>
     (case iu_password dto of None \<Rightarrow> True | Some p \<Rightarrow> 1 \<le> length p \<and> length p \<le> 100) \<and>
     (case iu_expiresIn dto of None \<Rightarrow> True | Some e \<Rightarrow> e \<in> set [''1h'', ''24h'', ''7d'', ''30d''])"

definition valid_UploadChunkDto :: "nat \<Rightarrow> bool" where
  "valid_UploadChunkDto chunkIndex \<longleftrightarrow> chunkIndex \<le> 204"

section \<open>Arithmetic of chunks\<close>

lemma ceil_div_bounds:
  assumes "0 < b" "0 < a"
  shows "(ceil_div a b - 1) * b < a" and "a \<le> ceil_div a b * b" and "0 < ceil_div a b"
proof -
  let ?q = "(a + b - 1) div b" and ?r = "(a + b - 1) mod b"
  have eq: "?q * b + ?r = a + b - 1" by (rule div_mult_mod_eq)
  have r: "?r < b" using assms(1) by simp
  have "b \<le> a + b - 1" using assms(2) by linarith
  then have q: "0 < ?q" using assms(1) by (simp add: div_greater_zero_iff)
  show "0 < ceil_div a b" using q by (simp add: ceil_div_def)
  have "(?q - 1) * b = ?q * b - b" by (simp add: diff_mult_distrib)
  then show "(ceil_div a b - 1) * b < a"
    unfolding ceil_div_def using eq r assms(2) by linarith
  show "a \<le> ceil_div a b * b" unfolding ceil_div_def using eq r by linarith
qed

lemma ceil_div_unique:
  assumes "0 < b" "(n - 1) * b < a" "a \<le> n * b"
  shows "ceil_div a b = n"
proof -
  have n: "0 < n" using assms by (cases n) auto
  then obtain m where m: "n = Suc m" by (cases n) auto
  have "a + b - 1 = (a - m * b - 1) + n * b"
    using assms n m by simp
  moreover have "a - m * b - 1 < b" using assms m by simp
  ultimately show ?thesis using assms(1) by (simp add: ceil_div_def)
qed

lemma chunk_count_bounds:
  assumes "0 < n"
  shows "(chunk_count n - 1) * PLAINTEXT_CHUNK_SIZE_BYTES < n"
    and "n \<le> chunk_count n * PLAINTEXT_CHUNK_SIZE_BYTES" and "0 < chunk_count n"
  using ceil_div_bounds [of PLAINTEXT_CHUNK_SIZE_BYTES n] assms
  by (simp_all add: chunk_count_def PLAINTEXT_CHUNK_SIZE_BYTES_def)

text \<open>An upload whose chunk count is the one of its size expects positive chunks, none larger than
  a full chunk, and in all the stored size.\<close>

definition meta_ok :: "upload_meta \<Rightarrow> bool" where
  "meta_ok meta \<longleftrightarrow> 0 < meta_fileSize meta \<and> meta_fileSize meta \<le> ADMIN_MAX_FILE_SIZE_BYTES \<and>
     meta_totalChunks meta = chunk_count (meta_fileSize meta)"

lemma expectedPlaintextSize_bounds:
  assumes "meta_ok meta" "i < meta_totalChunks meta"
  shows "0 < expectedPlaintextSize meta i"
    and "expectedPlaintextSize meta i \<le> int PLAINTEXT_CHUNK_SIZE_BYTES"
proof -
  have n: "0 < meta_fileSize meta" "meta_totalChunks meta = chunk_count (meta_fileSize meta)"
    using assms(1) by (simp_all add: meta_ok_def)
  note b = chunk_count_bounds [OF n(1)]
  let ?k = "chunk_count (meta_fileSize meta)" and ?c = "PLAINTEXT_CHUNK_SIZE_BYTES"
  have "int ((?k - 1) * ?c) < int (meta_fileSize meta)" using b(1) by (simp only: of_nat_less_iff)
  then have 1: "(int ?k - 1) * int ?c < int (meta_fileSize meta)"
    using b(3) by (simp add: of_nat_diff)
  have "int (meta_fileSize meta) \<le> int (?k * ?c)" using b(2) by (simp only: of_nat_le_iff)
  then have 2: "int (meta_fileSize meta) \<le> int ?k * int ?c" by simp
  have c: "0 < int ?c" by (simp add: PLAINTEXT_CHUNK_SIZE_BYTES_def)
  show "0 < expectedPlaintextSize meta i" using 1 c by (simp add: expectedPlaintextSize_def n(2))
  have "int (meta_fileSize meta) - (int ?k - 1) * int ?c \<le> int ?c"
    using 2 by (simp add: algebra_simps)
  then show "expectedPlaintextSize meta i \<le> int ?c" by (simp add: expectedPlaintextSize_def n(2))
qed

lemma sum_expectedPlaintextSize:
  assumes "0 < meta_totalChunks meta"
  shows "(\<Sum>i < meta_totalChunks meta. expectedPlaintextSize meta i) = int (meta_fileSize meta)"
proof -
  obtain k where k: "meta_totalChunks meta = Suc k" using assms by (cases "meta_totalChunks meta") auto
  have "(\<Sum>i < k. expectedPlaintextSize meta i) = (\<Sum>i < k. int PLAINTEXT_CHUNK_SIZE_BYTES)"
    by (rule sum.cong) (simp_all add: expectedPlaintextSize_def k)
  then show ?thesis by (simp add: k expectedPlaintextSize_def)
qed

lemma sum_expectedChunkSize:
  assumes "meta_ok meta"
  shows "getExpectedEncryptedSize (meta_fileSize meta) =
    Inr (nat (\<Sum>i < meta_totalChunks meta. expectedChunkSize meta i))"
proof -
  have n: "0 < meta_fileSize meta" "meta_totalChunks meta = chunk_count (meta_fileSize meta)"
    "meta_fileSize meta \<le> ADMIN_MAX_FILE_SIZE_BYTES"
    using assms by (simp_all add: meta_ok_def)
  have pos: "0 < meta_totalChunks meta" using chunk_count_bounds(3) [OF n(1)] n(2) by simp
  have "(\<Sum>i < meta_totalChunks meta. expectedChunkSize meta i) =
      int (meta_fileSize meta) + int (meta_totalChunks meta) * int ENCRYPTED_CHUNK_OVERHEAD_BYTES"
    using sum_expectedPlaintextSize [OF pos] by (simp add: expectedChunkSize_def sum.distrib)
  also have "\<dots> = int (meta_fileSize meta + meta_totalChunks meta * ENCRYPTED_CHUNK_OVERHEAD_BYTES)"
    by simp
  finally have "nat (\<Sum>i < meta_totalChunks meta. expectedChunkSize meta i) =
      meta_fileSize meta + meta_totalChunks meta * ENCRYPTED_CHUNK_OVERHEAD_BYTES"
    by (simp only: nat_int)
  then show ?thesis using n(1,3) by (simp add: getExpectedEncryptedSize_def n(2) [symmetric])
qed

end
