(* ===== verification/User_Lifecycle.thy ===== *)
theory User_Lifecycle
  imports Platform "HOL-Library.List_Lexorder" "HOL-Library.Char_ord"
begin

text \<open>
  \<^verbatim>\<open>UsersService\<close> (\<^verbatim>\<open>users/users.service.ts\<close>): profile and invite codes, the
  deletion request with its seven days of grace, reactivation, the login gate of locked, banned
  and pending accounts, the two hourly jobs, and the deletion of an account's data. A
  \<open>$transaction\<close> is one function on the database; what runs outside it (Redis, the object
  store) is threaded through the world in the code's order.
\<close>

section \<open>Rows and updates the service writes\<close>

definition update_user :: "string \<Rightarrow> (user \<Rightarrow> user) \<Rightarrow> db \<Rightarrow> db" where
  "update_user uid f d = d\<lparr>users := update_where (\<lambda>u. user_id u = uid) f (users d)\<rparr>"

record audit_params =
  ap_actorType :: AuditActorType
  ap_action :: string
  ap_targetUserId :: "string option"
  ap_adminUserId :: "string option"
  ap_previousStatus :: "UserStatus option"
  ap_newStatus :: "UserStatus option"
  ap_reason :: "string option"
  ap_meta :: json

definition createAuditLog :: "time \<Rightarrow> audit_params \<Rightarrow> db \<Rightarrow> db" where
  "createAuditLog t p d =
     appendAudit
       \<lparr>audit_actorType = ap_actorType p, audit_adminUserId = ap_adminUserId p,
        audit_targetUserId = ap_targetUserId p, audit_action = ap_action p,
        audit_previousStatus = ap_previousStatus p, audit_newStatus = ap_newStatus p,
        audit_reason = ap_reason p, audit_meta = ap_meta p, audit_createdAt = t\<rparr> d"

definition setInviteCodesValidity :: "string \<Rightarrow> bool \<Rightarrow> db \<Rightarrow> db" where
  "setInviteCodesValidity uid v d =
     d\<lparr>inviteCodes :=
         update_where (\<lambda>i. invite_userId i = Some uid \<and> 0 < invite_usage i)
           (\<lambda>i. i\<lparr>invite_isValid := v\<rparr>) (inviteCodes d)\<rparr>"

definition open_restriction :: "userRestriction \<Rightarrow> bool" where
  "open_restriction r \<longleftrightarrow> restr_resolvedAt r = None"

definition active_request :: "userDeletionRequest \<Rightarrow> bool" where
  "active_request r \<longleftrightarrow> dreq_cancelledAt r = None \<and> dreq_processedAt r = None"

definition resolveOpenRestrictions :: "time \<Rightarrow> string \<Rightarrow> db \<Rightarrow> db" where
  "resolveOpenRestrictions t uid d =
     d\<lparr>restrictions :=
         update_where (\<lambda>r. restr_userId r = uid \<and> open_restriction r)
           (\<lambda>r. r\<lparr>restr_resolvedAt := Some t\<rparr>) (restrictions d)\<rparr>"

definition cancelActiveDeletionRequests :: "time \<Rightarrow> string \<Rightarrow> db \<Rightarrow> db" where
  "cancelActiveDeletionRequests t uid d =
     d\<lparr>deletionRequests :=
         update_where (\<lambda>r. dreq_userId r = uid \<and> active_request r)
           (\<lambda>r. r\<lparr>dreq_cancelledAt := Some t\<rparr>) (deletionRequests d)\<rparr>"

definition getActiveDeletionRequest :: "db \<Rightarrow> string \<Rightarrow> userDeletionRequest option" where
  "getActiveDeletionRequest d uid =
     latest dreq_requestedAt (\<lambda>r. dreq_userId r = uid \<and> active_request r) (deletionRequests d)"

definition getActiveRestriction ::
    "db \<Rightarrow> string \<Rightarrow> UserRestrictionType \<Rightarrow> userRestriction option" where
  "getActiveRestriction d uid ty =
     latest restr_createdAt
       (\<lambda>r. restr_userId r = uid \<and> restr_type r = ty \<and> open_restriction r) (restrictions d)"

section \<open>Profile and invite codes\<close>

record profile =
  prof_username :: string
  prof_avatar :: UserAvatar
  prof_createdAt :: time
  prof_issuedCodes :: nat
  prof_status :: UserStatus

definition getProfile :: "db \<Rightarrow> string \<Rightarrow> profile option" where
  "getProfile d userId =
     map_option (\<lambda>u. \<lparr>prof_username = user_username u, prof_avatar = user_avatar u,
       prof_createdAt = user_createdAt u, prof_issuedCodes = user_issuedCodes u,
       prof_status = user_status u\<rparr>) (user_by_id d userId)"

text \<open>\<open>user.update\<close> of a missing row throws (Prisma's P2025).\<close>

definition record_not_found :: http_error where
  "record_not_found = Thrown ''P2025''"

definition updateAvatar :: "string \<Rightarrow> UserAvatar \<Rightarrow> db \<Rightarrow> (UserAvatar, db) outcome" where
  "updateAvatar userId avatar d =
     (case user_by_id d userId of
        None \<Rightarrow> (Inl record_not_found, d)
      | Some _ \<Rightarrow> (Inr avatar, update_user userId (\<lambda>u. u\<lparr>user_avatar := avatar\<rparr>) d))"

definition MAX_INVITES :: nat where
  "MAX_INVITES = 2"

definition unique_conflict :: http_error where
  "unique_conflict = Thrown ''P2002''"

text \<open>The guards run before the transaction, on a row read earlier; another request of the same
  user may come between the two parts.\<close>

definition inviteCheck :: "db \<Rightarrow> string \<Rightarrow> http_error + unit" where
  "inviteCheck d userId =
     (case user_by_id d userId of
        None \<Rightarrow> Inl (Forbidden ''User not found'')
      | Some user \<Rightarrow>
          if user_status user \<noteq> ACTIVE
          then Inl (Forbidden ''Only active users can generate invite codes'')
          else if user_issuedCodes user \<ge> MAX_INVITES
          then Inl (BadRequest ''Invite-Limit reached'')
          else Inr ())"

definition inviteCommit ::
    "('r, 's) platform \<Rightarrow> string \<Rightarrow> ('r, 's) world \<Rightarrow>
     (inviteCode, ('r, 's) world) outcome" where
  "inviteCommit P userId w =
     (let (raw, w1) = randomBytesOf P 8 w;
          newCodeString = ''RB-'' @ upperHex raw;
          (newId, w2) = randomUUID P w1;
          newInvite = \<lparr>invite_id = newId, invite_code = newCodeString, invite_usage = 1,
            invite_isValid = True, invite_userId = Some userId,
            invite_createdByAdminUserId = None, invite_isAdminCreated = False,
            invite_createdAt = now w\<rparr>
      in if newCodeString \<in> set (map invite_code (inviteCodes (db w)))
         then (Inl unique_conflict, w2)
         else (Inr newInvite,
               w2\<lparr>db := update_user userId (\<lambda>u. u\<lparr>user_issuedCodes := user_issuedCodes u + 1\<rparr>)
                         ((db w2)\<lparr>inviteCodes := inviteCodes (db w2) @ [newInvite]\<rparr>)\<rparr>))"

definition generateInviteCode ::
    "('r, 's) platform \<Rightarrow> string \<Rightarrow> ('r, 's) world \<Rightarrow>
     (inviteCode, ('r, 's) world) outcome" where
  "generateInviteCode P userId w =
     (case inviteCheck (db w) userId of
        Inl e \<Rightarrow> (Inl e, w)
      | Inr _ \<Rightarrow> inviteCommit P userId w)"

definition getMyInvites :: "db \<Rightarrow> string \<Rightarrow> (string \<times> int \<times> bool) list" where
  "getMyInvites d userId =
     map (\<lambda>i. (invite_code i, invite_usage i, invite_isValid i))
       (sort_key invite_code (filter (\<lambda>i. invite_userId i = Some userId) (inviteCodes d)))"

section \<open>Reactivation\<close>

record reactivate_options =
  ro_actorType :: AuditActorType
  ro_action :: string
  ro_reason :: "string option"
  ro_adminUserId :: "string option"

definition reactivate_tx ::
    "time \<Rightarrow> string \<Rightarrow> reactivate_options \<Rightarrow> UserStatus \<Rightarrow> string \<Rightarrow> db \<Rightarrow> db" where
  "reactivate_tx t newKey opts previous uid d =
     createAuditLog t
       \<lparr>ap_actorType = ro_actorType opts, ap_action = ro_action opts, ap_targetUserId = Some uid,
        ap_adminUserId = ro_adminUserId opts, ap_previousStatus = Some previous,
        ap_newStatus = Some ACTIVE, ap_reason = ro_reason opts, ap_meta = JNull\<rparr>
       (setInviteCodesValidity uid True
         (update_user uid (\<lambda>u. u\<lparr>user_status := ACTIVE, user_sessionKey := newKey\<rparr>)
           (cancelActiveDeletionRequests t uid
             (resolveOpenRestrictions t uid d))))"

definition reactivateUser ::
    "('r, 's) platform \<Rightarrow> string \<Rightarrow> reactivate_options \<Rightarrow> ('r, 's) world \<Rightarrow>
     (unit, ('r, 's) world) outcome" where
  "reactivateUser P userId opts w =
     (case user_by_id (db w) userId of
        None \<Rightarrow> (Inl (NotFound ''User not found''), w)
      | Some user \<Rightarrow>
          if user_status user = DELETED
          then (Inl (BadRequest ''Deleted users cannot be reactivated''), w)
          else
            (let (newKey, w1) = randomUUID P w;
                 w2 = w1\<lparr>db := reactivate_tx (now w) newKey opts (user_status user) userId (db w1)\<rparr>
             in (Inr (), redis_del P (masterKeyKey userId) w2)))"

section \<open>Deletion of an account's data\<close>

record deletion_options =
  do_actorType :: AuditActorType
  do_action :: string
  do_reason :: "string option"
  do_previousStatus :: UserStatus
  do_adminUserId :: "string option"
  do_deletionRequestId :: "string option"

definition mailStorageKeysOf :: "db \<Rightarrow> string \<Rightarrow> string list" where
  "mailStorageKeysOf d uid =
     concat (map (\<lambda>m. mail_storageKey m #
         map att_storageKey (filter (\<lambda>a. att_mailId a = mail_id m) (mailAttachments d)))
       (filter (\<lambda>m. mail_userId m = uid) (mails d)))"

definition fileStorageNamesOf :: "db \<Rightarrow> string \<Rightarrow> string list" where
  "fileStorageNamesOf d uid = map file_storageName (filter (\<lambda>f. file_userId f = uid) (files d))"

definition deleteContentRows :: "string \<Rightarrow> db \<Rightarrow> db" where
  "deleteContentRows uid d =
     delete_files (\<lambda>f. file_userId f = uid)
       (delete_mails (\<lambda>m. mail_userId m = uid)
         (delete_bins (\<lambda>b. bin_userId b = uid)
           (d\<lparr>blockedSenders := delete_where (\<lambda>b. blocked_userId b = uid) (blockedSenders d),
              links := delete_where (\<lambda>l. link_userId l = uid) (links d)\<rparr>)))"

definition deleteInviteRows :: "string \<Rightarrow> db \<Rightarrow> db" where
  "deleteInviteRows uid d =
     d\<lparr>inviteCodes := delete_where (\<lambda>i. invite_userId i = Some uid) (inviteCodes d)\<rparr>"

definition markProcessed :: "time \<Rightarrow> string \<Rightarrow> db \<Rightarrow> db" where
  "markProcessed t rid d =
     d\<lparr>deletionRequests := update_where (\<lambda>r. dreq_id r = rid)
         (\<lambda>r. r\<lparr>dreq_processedAt := Some t\<rparr>) (deletionRequests d)\<rparr>"

definition deletion_tx ::
    "time \<Rightarrow> string \<Rightarrow> deletion_options \<Rightarrow> string \<Rightarrow> db \<Rightarrow> db option" where
  "deletion_tx t newKey opts uid d =
     (let d1 = resolveOpenRestrictions t uid (deleteInviteRows uid (deleteContentRows uid d));
          d2 = (case do_deletionRequestId opts of
                  None \<Rightarrow> Some (cancelActiveDeletionRequests t uid d1)
                | Some rid \<Rightarrow>
                    if rid \<in> set (map dreq_id (deletionRequests d1))
                    then Some (markProcessed t rid d1) else None)
      in map_option (\<lambda>d.
           createAuditLog t
             \<lparr>ap_actorType = do_actorType opts, ap_action = do_action opts,
              ap_targetUserId = Some uid, ap_adminUserId = do_adminUserId opts,
              ap_previousStatus = Some (do_previousStatus opts), ap_newStatus = Some DELETED,
              ap_reason = do_reason opts, ap_meta = JNull\<rparr>
             (update_user uid
               (\<lambda>u. u\<lparr>user_status := DELETED, user_issuedCodes := 0, user_sessionKey := newKey\<rparr>) d)) d2)"

definition filesBucket :: string where
  "filesBucket = ''S3_BUCKET_FILES''"

definition mailsBucket :: string where
  "mailsBucket = ''S3_BUCKET_MAILS''"

definition deleteUserDataAndMarkDeleted ::
    "('r, 's) platform \<Rightarrow> string \<Rightarrow> deletion_options \<Rightarrow> ('r, 's) world \<Rightarrow>
     (unit, ('r, 's) world) outcome" where
  "deleteUserDataAndMarkDeleted P userId opts w =
     (let w1 = deleteS3Objects P filesBucket (fileStorageNamesOf (db w) userId) w;
          w2 = deleteS3Objects P mailsBucket (mailStorageKeysOf (db w) userId) w1;
          (newKey, w3) = randomUUID P w2
      in (case deletion_tx (now w) newKey opts userId (db w3) of
            None \<Rightarrow> (Inl record_not_found, w3)
          | Some d \<Rightarrow> (Inr (), redis_del P (masterKeyKey userId) (w3\<lparr>db := d\<rparr>))))"

definition finalizePendingDeletion ::
    "('r, 's) platform \<Rightarrow> string \<Rightarrow> string \<Rightarrow> ('r, 's) world \<Rightarrow> (unit, ('r, 's) world) outcome" where
  "finalizePendingDeletion P userId deletionRequestId w =
     (case user_by_id (db w) userId of
        None \<Rightarrow> (Inr (), w)
      | Some user \<Rightarrow>
          if user_status user = DELETED then (Inr (), w)
          else deleteUserDataAndMarkDeleted P userId
            \<lparr>do_actorType = SYSTEM, do_action = ''user_deletion_processed'', do_reason = None,
             do_previousStatus = user_status user, do_adminUserId = None,
             do_deletionRequestId = Some deletionRequestId\<rparr> w)"

section \<open>The deletion request and its grace period\<close>

definition requestAccountDeletion ::
    "('r, 's) platform \<Rightarrow> string \<Rightarrow> string \<Rightarrow> ('r, 's) world \<Rightarrow> (time, ('r, 's) world) outcome" where
  "requestAccountDeletion P userId password w =
     (case user_by_id (db w) userId of
        None \<Rightarrow> (Inl (NotFound ''User not found''), w)
      | Some user \<Rightarrow>
          if \<not> bcrypt_compare P password (user_password user)
          then (Inl (Unauthorized ''Invalid password''), w)
          else if user_status user = DELETED
          then (Inl (BadRequest ''This account has already been deleted''), w)
          else if getActiveDeletionRequest (db w) userId \<noteq> None
          then (Inl (BadRequest ''Account deletion has already been requested''), w)
          else
            (let deleteAfterAt = addDays P (now w) 7;
                 (newKey, w1) = randomUUID P w;
                 (newId, w2) = randomUUID P w1;
                 d1 = update_user userId
                   (\<lambda>u. u\<lparr>user_status := PENDING, user_sessionKey := newKey\<rparr>) (db w2);
                 d2 = d1\<lparr>deletionRequests := deletionRequests d1 @
                   [\<lparr>dreq_id = newId, dreq_userId = userId, dreq_requestedAt = now w,
                     dreq_deleteAfterAt = deleteAfterAt, dreq_cancelledAt = None,
                     dreq_processedAt = None\<rparr>]\<rparr>;
                 d3 = createAuditLog (now w)
                   \<lparr>ap_actorType = USER, ap_action = ''user_delete_requested'',
                    ap_targetUserId = Some userId, ap_adminUserId = None,
                    ap_previousStatus = Some (user_status user), ap_newStatus = Some PENDING,
                    ap_reason = None, ap_meta = JNull\<rparr> d2
             in (Inr deleteAfterAt, redis_del P (masterKeyKey userId) (w2\<lparr>db := d3\<rparr>))))"

definition account_deleted :: http_error where
  "account_deleted = Forbidden ''This account has been deleted.''"

definition preparePendingDeletionLogin ::
    "('r, 's) platform \<Rightarrow> string \<Rightarrow> ('r, 's) world \<Rightarrow>
     (userDeletionRequest option, ('r, 's) world) outcome" where
  "preparePendingDeletionLogin P userId w =
     (case user_by_id (db w) userId of
        None \<Rightarrow> (Inr None, w)
      | Some user \<Rightarrow>
          if user_status user \<noteq> PENDING then (Inr None, w)
          else
            (case getActiveDeletionRequest (db w) userId of
               Some req \<Rightarrow>
                 if dreq_deleteAfterAt req \<le> now w
                 then (case finalizePendingDeletion P userId (dreq_id req) w of
                         (Inl e, w') \<Rightarrow> (Inl e, w')
                       | (Inr _, w') \<Rightarrow> (Inl account_deleted, w'))
                 else (Inr (Some req), w)
             | None \<Rightarrow>
                 (case reactivateUser P userId
                    \<lparr>ro_actorType = SYSTEM, ro_action = ''user_status_normalized'',
                     ro_reason = Some ''Pending deletion request missing during login check'',
                     ro_adminUserId = None\<rparr> w of
                    (Inl e, w') \<Rightarrow> (Inl e, w')
                  | (Inr _, w') \<Rightarrow> (Inr None, w'))))"

definition reactivatePendingAccount ::
    "('r, 's) platform \<Rightarrow> string \<Rightarrow> string option \<Rightarrow> ('r, 's) world \<Rightarrow> (unit, ('r, 's) world) outcome" where
  "reactivatePendingAccount P userId deletionRequestId w =
     (case user_by_id (db w) userId of
        None \<Rightarrow> (Inl (NotFound ''User not found''), w)
      | Some user \<Rightarrow>
          if user_status user = DELETED
          then (Inl (BadRequest ''This account has already been deleted''), w)
          else if user_status user = ACTIVE then (Inr (), w)
          else if user_status user \<noteq> PENDING
          then (Inl (BadRequest ''No active deletion request found''), w)
          else
            (case getActiveDeletionRequest (db w) userId of
               None \<Rightarrow> (Inl (BadRequest ''No active deletion request found''), w)
             | Some req \<Rightarrow>
                 if deletionRequestId \<noteq> Some (dreq_id req)
                 then (Inl (BadRequest ''No active deletion request found''), w)
                 else if dreq_deleteAfterAt req \<le> now w
                 then (case finalizePendingDeletion P userId (dreq_id req) w of
                         (Inl e, w') \<Rightarrow> (Inl e, w')
                       | (Inr _, w') \<Rightarrow> (Inl account_deleted, w'))
                 else reactivateUser P userId
                   \<lparr>ro_actorType = USER, ro_action = ''user_delete_cancelled'', ro_reason = None,
                    ro_adminUserId = None\<rparr> w))"

section \<open>The login gate\<close>

definition restriction_reason :: "userRestriction option \<Rightarrow> string" where
  "restriction_reason r = (case r of None \<Rightarrow> ''administrative action'' | Some r \<Rightarrow> restr_reason r)"

definition ban_expired :: "time \<Rightarrow> userRestriction option \<Rightarrow> bool" where
  "ban_expired t restriction =
     (case restriction of
        None \<Rightarrow> False
      | Some r \<Rightarrow> \<not> restr_isPermanent r \<and>
          (case restr_expiresAt r of None \<Rightarrow> False | Some e \<Rightarrow> e \<le> t))"

definition ban_message :: "('r, 's) platform \<Rightarrow> userRestriction option \<Rightarrow> string" where
  "ban_message P restriction =
     (let reason = restriction_reason restriction in
      if (case restriction of None \<Rightarrow> False | Some r \<Rightarrow> restr_isPermanent r)
      then ''This user has been permanently banned due to '' @ reason @ ''.''
      else (case restriction of
              Some r \<Rightarrow>
                (case restr_expiresAt r of
                   Some e \<Rightarrow>
                     ''This user has been banned until '' @ iso P e @ '' due to '' @ reason @ ''.''
                 | None \<Rightarrow> ''This user has been banned due to '' @ reason @ ''.'')
            | None \<Rightarrow> ''This user has been banned due to '' @ reason @ ''.''))"

definition assertUserCanLogin ::
    "('r, 's) platform \<Rightarrow> string \<Rightarrow> UserStatus \<Rightarrow> ('r, 's) world \<Rightarrow> (unit, ('r, 's) world) outcome" where
  "assertUserCanLogin P uid status w =
     (case status of
        ACTIVE \<Rightarrow> (Inr (), w)
      | DELETED \<Rightarrow> (Inl account_deleted, w)
      | PENDING \<Rightarrow>
          (case preparePendingDeletionLogin P uid w of
             (Inl e, w') \<Rightarrow> (Inl e, w')
           | (Inr None, w') \<Rightarrow> (Inr (), w')
           | (Inr (Some req), w') \<Rightarrow>
               (Inl (Forbidden (''This account is pending deletion and will be deleted on '' @
                  iso P (dreq_deleteAfterAt req) @ ''.'')), w'))
      | LOCKED \<Rightarrow>
          (Inl (Forbidden (''This user has been locked due to '' @
             restriction_reason (getActiveRestriction (db w) uid LOCK) @ ''.'')), w)
      | BANNED \<Rightarrow>
          (let restriction = getActiveRestriction (db w) uid BAN in
           if ban_expired (now w) restriction
           then reactivateUser P uid
             \<lparr>ro_actorType = SYSTEM, ro_action = ''user_status_auto_reactivated'',
              ro_reason = Some ''Temporary ban expired'', ro_adminUserId = None\<rparr> w
           else (Inl (Forbidden (ban_message P restriction)), w)))"

section \<open>The hourly jobs\<close>

definition due_request :: "time \<Rightarrow> userDeletionRequest \<Rightarrow> bool" where
  "due_request t r \<longleftrightarrow> active_request r \<and> dreq_deleteAfterAt r \<le> t"

definition processPendingDeletionRequests ::
    "('r, 's) platform \<Rightarrow> ('r, 's) world \<Rightarrow> (unit, ('r, 's) world) outcome" where
  "processPendingDeletionRequests P w =
     (let requests = filter (due_request (now w)) (deletionRequests (db w)) in
      for_each (\<lambda>w r. finalizePendingDeletion P (dreq_userId r) (dreq_id r) w) w requests)"

definition expired_ban :: "time \<Rightarrow> userRestriction \<Rightarrow> bool" where
  "expired_ban t r \<longleftrightarrow> restr_type r = BAN \<and> open_restriction r \<and> \<not> restr_isPermanent r \<and>
     (case restr_expiresAt r of None \<Rightarrow> False | Some e \<Rightarrow> e \<le> t)"

definition processExpiredRestrictions ::
    "('r, 's) platform \<Rightarrow> ('r, 's) world \<Rightarrow> (unit, ('r, 's) world) outcome" where
  "processExpiredRestrictions P w =
     (let expiredBans = filter (expired_ban (now w)) (restrictions (db w)) in
      for_each (\<lambda>w r. reactivateUser P (restr_userId r)
          \<lparr>ro_actorType = SYSTEM, ro_action = ''user_status_auto_reactivated'',
           ro_reason = Some ''Temporary ban expired'', ro_adminUserId = None\<rparr> w) w expiredBans)"

end
