(* ===== verification/Lifecycle_Invariant.thy ===== *)
theory Lifecycle_Invariant
  imports User_Lifecycle
begin

text \<open>
  The invariant that ties an account's status to its deletion requests and restrictions, and the
  effect of each building block of the lifecycle operations on the three quantities it is about:
  the status of an account (\<open>has_status\<close>), the number of its active deletion requests
  (\<open>request_count\<close>) and of its open restrictions (\<open>restriction_count\<close>). The rules are in the
  collection \<open>lifecycle\<close>; an operation keeps the invariant by simplification with them.
\<close>

named_theorems lifecycle "effect of the building blocks on the counted quantities"

definition has_status :: "db \<Rightarrow> string \<Rightarrow> UserStatus \<Rightarrow> bool" where
  "has_status d uid s \<longleftrightarrow> (case user_by_id d uid of None \<Rightarrow> False | Some u \<Rightarrow> user_status u = s)"

definition request_count :: "db \<Rightarrow> string \<Rightarrow> nat" where
  "request_count d uid =
     count_where (\<lambda>r. dreq_userId r = uid \<and> active_request r) (deletionRequests d)"

definition restriction_count :: "db \<Rightarrow> string \<Rightarrow> UserRestrictionType \<Rightarrow> nat" where
  "restriction_count d uid ty =
     count_where (\<lambda>r. restr_userId r = uid \<and> restr_type r = ty \<and> open_restriction r) (restrictions d)"

fun status_of_type :: "UserRestrictionType \<Rightarrow> UserStatus" where
  "status_of_type LOCK = LOCKED"
| "status_of_type BAN = BANNED"

text \<open>Codes a user issued and still owns.\<close>

definition code_count :: "db \<Rightarrow> string \<Rightarrow> nat" where
  "code_count d uid = count_where (\<lambda>i. invite_userId i = Some uid) (inviteCodes d)"

definition issued :: "db \<Rightarrow> string \<Rightarrow> nat" where
  "issued d uid = (case user_by_id d uid of None \<Rightarrow> 0 | Some u \<Rightarrow> user_issuedCodes u)"

section \<open>The invariant\<close>

text \<open>Ids of requests come from the UUIDs drawn so far.\<close>

definition ids_drawn :: "('r, 's) platform \<Rightarrow> ('r, 's) world \<Rightarrow> bool" where
  "ids_drawn P w \<longleftrightarrow>
     (\<forall>r \<in> set (deletionRequests (db w)). dreq_id r \<in> uuid P ` {..<draws w}) \<and>
     (\<forall>u \<in> set (users (db w)). user_id u \<in> uuid P ` {..<draws w})"

definition account_inv :: "db \<Rightarrow> bool" where
  "account_inv d \<longleftrightarrow>
     distinct (map user_id (users d)) \<and>
     distinct (map dreq_id (deletionRequests d)) \<and>
     (\<forall>uid. request_count d uid = (if has_status d uid PENDING then 1 else 0)) \<and>
     (\<forall>uid ty. restriction_count d uid ty =
        (if has_status d uid (status_of_type ty) then 1 else 0)) \<and>
     (\<forall>uid. code_count d uid = issued d uid \<and> issued d uid \<le> MAX_INVITES)"

definition life_inv :: "('r, 's) platform \<Rightarrow> ('r, 's) world \<Rightarrow> bool" where
  "life_inv P w \<longleftrightarrow> account_inv (db w) \<and> ids_drawn P w"

lemma account_invD:
  assumes "account_inv d"
  shows "distinct (map user_id (users d))" "distinct (map dreq_id (deletionRequests d))"
    and "request_count d uid = (if has_status d uid PENDING then 1 else 0)"
    and "restriction_count d uid ty = (if has_status d uid (status_of_type ty) then 1 else 0)"
    and "code_count d uid = issued d uid \<and> issued d uid \<le> MAX_INVITES"
  using assms by (auto simp: account_inv_def)

section \<open>Building blocks\<close>

lemma user_by_id_update_user [lifecycle]:
  assumes "\<And>u. user_id (f u) = user_id u"
  shows "user_by_id (update_user uid f d) uid' =
    (if uid' = uid then map_option f (user_by_id d uid) else user_by_id d uid')"
proof -
  have "user_by_id (update_user uid f d) uid' =
      map_option (\<lambda>u. if user_id u = uid then f u else u) (user_by_id d uid')"
    unfolding user_by_id_def update_user_def
    by (simp add: find_update_where assms)
  then show ?thesis
    by (auto simp: user_by_id_def dest!: find_Some_mem split: option.splits intro: option.map_cong)
      (auto simp: option.map_comp map_option_case split: option.splits dest!: find_Some_mem)
qed

lemma map_user_id_update_user [lifecycle]:
  "(\<And>u. user_id (f u) = user_id u) \<Longrightarrow>
   map user_id (users (update_user uid f d)) = map user_id (users d)"
  by (simp add: update_user_def map_update_where)

lemma has_status_update_user [lifecycle]:
  "(\<And>u. user_id (f u) = user_id u) \<Longrightarrow>
   has_status (update_user uid f d) uid' s =
     (if uid' = uid then (case user_by_id d uid of None \<Rightarrow> False | Some u \<Rightarrow> user_status (f u) = s)
      else has_status d uid' s)"
  by (auto simp: has_status_def user_by_id_update_user split: option.splits)

lemma update_user_frame [lifecycle, simp]:
  "inviteCodes (update_user uid f d) = inviteCodes d"
  "files (update_user uid f d) = files d"
  "links (update_user uid f d) = links d"
  "bins (update_user uid f d) = bins d"
  "mails (update_user uid f d) = mails d"
  "mailAttachments (update_user uid f d) = mailAttachments d"
  "blockedSenders (update_user uid f d) = blockedSenders d"
  "restrictions (update_user uid f d) = restrictions d"
  "deletionRequests (update_user uid f d) = deletionRequests d"
  "auditLogs (update_user uid f d) = auditLogs d"
  by (simp_all add: update_user_def)

lemma createAuditLog_frame [simp]:
  "users (createAuditLog t p d) = users d"
  "inviteCodes (createAuditLog t p d) = inviteCodes d"
  "files (createAuditLog t p d) = files d"
  "links (createAuditLog t p d) = links d"
  "bins (createAuditLog t p d) = bins d"
  "mails (createAuditLog t p d) = mails d"
  "mailAttachments (createAuditLog t p d) = mailAttachments d"
  "blockedSenders (createAuditLog t p d) = blockedSenders d"
  "restrictions (createAuditLog t p d) = restrictions d"
  "deletionRequests (createAuditLog t p d) = deletionRequests d"
  by (simp_all add: createAuditLog_def)

lemma setInviteCodesValidity_frame [simp]:
  "users (setInviteCodesValidity uid v d) = users d"
  "files (setInviteCodesValidity uid v d) = files d"
  "links (setInviteCodesValidity uid v d) = links d"
  "bins (setInviteCodesValidity uid v d) = bins d"
  "mails (setInviteCodesValidity uid v d) = mails d"
  "blockedSenders (setInviteCodesValidity uid v d) = blockedSenders d"
  "restrictions (setInviteCodesValidity uid v d) = restrictions d"
  "deletionRequests (setInviteCodesValidity uid v d) = deletionRequests d"
  by (simp_all add: setInviteCodesValidity_def)

lemma resolveOpenRestrictions_frame [simp]:
  "users (resolveOpenRestrictions t uid d) = users d"
  "inviteCodes (resolveOpenRestrictions t uid d) = inviteCodes d"
  "files (resolveOpenRestrictions t uid d) = files d"
  "links (resolveOpenRestrictions t uid d) = links d"
  "bins (resolveOpenRestrictions t uid d) = bins d"
  "mails (resolveOpenRestrictions t uid d) = mails d"
  "blockedSenders (resolveOpenRestrictions t uid d) = blockedSenders d"
  "deletionRequests (resolveOpenRestrictions t uid d) = deletionRequests d"
  by (simp_all add: resolveOpenRestrictions_def)

lemma cancelActiveDeletionRequests_frame [simp]:
  "users (cancelActiveDeletionRequests t uid d) = users d"
  "inviteCodes (cancelActiveDeletionRequests t uid d) = inviteCodes d"
  "files (cancelActiveDeletionRequests t uid d) = files d"
  "links (cancelActiveDeletionRequests t uid d) = links d"
  "bins (cancelActiveDeletionRequests t uid d) = bins d"
  "mails (cancelActiveDeletionRequests t uid d) = mails d"
  "blockedSenders (cancelActiveDeletionRequests t uid d) = blockedSenders d"
  "restrictions (cancelActiveDeletionRequests t uid d) = restrictions d"
  "map dreq_id (deletionRequests (cancelActiveDeletionRequests t uid d)) =
     map dreq_id (deletionRequests d)"
  by (simp_all add: cancelActiveDeletionRequests_def map_update_where)

lemma markProcessed_frame [simp]:
  "users (markProcessed t rid d) = users d"
  "inviteCodes (markProcessed t rid d) = inviteCodes d"
  "files (markProcessed t rid d) = files d"
  "links (markProcessed t rid d) = links d"
  "bins (markProcessed t rid d) = bins d"
  "mails (markProcessed t rid d) = mails d"
  "blockedSenders (markProcessed t rid d) = blockedSenders d"
  "restrictions (markProcessed t rid d) = restrictions d"
  "map dreq_id (deletionRequests (markProcessed t rid d)) = map dreq_id (deletionRequests d)"
  by (simp_all add: markProcessed_def map_update_where)

lemma deleteContentRows_frame [simp]:
  "users (deleteContentRows uid d) = users d"
  "inviteCodes (deleteContentRows uid d) = inviteCodes d"
  "restrictions (deleteContentRows uid d) = restrictions d"
  "deletionRequests (deleteContentRows uid d) = deletionRequests d"
  "files (deleteContentRows uid d) = delete_where (\<lambda>f. file_userId f = uid) (files d)"
  "mails (deleteContentRows uid d) = delete_where (\<lambda>m. mail_userId m = uid) (mails d)"
  "bins (deleteContentRows uid d) = delete_where (\<lambda>b. bin_userId b = uid) (bins d)"
  "links (deleteContentRows uid d) = delete_where (\<lambda>l. link_userId l = uid) (links d)"
  "blockedSenders (deleteContentRows uid d) =
     delete_where (\<lambda>b. blocked_userId b = uid) (blockedSenders d)"
  by (simp_all add: deleteContentRows_def)

lemma deleteInviteRows_frame [simp]:
  "users (deleteInviteRows uid d) = users d"
  "restrictions (deleteInviteRows uid d) = restrictions d"
  "deletionRequests (deleteInviteRows uid d) = deletionRequests d"
  "files (deleteInviteRows uid d) = files d"
  "mails (deleteInviteRows uid d) = mails d"
  "bins (deleteInviteRows uid d) = bins d"
  "links (deleteInviteRows uid d) = links d"
  "blockedSenders (deleteInviteRows uid d) = blockedSenders d"
  "inviteCodes (deleteInviteRows uid d) =
     delete_where (\<lambda>i. invite_userId i = Some uid) (inviteCodes d)"
  by (simp_all add: deleteInviteRows_def)

text \<open>The counts depend on their own table only.\<close>

lemma counts_cong:
  "deletionRequests d = deletionRequests e \<Longrightarrow> request_count d uid = request_count e uid"
  "restrictions d = restrictions e \<Longrightarrow> restriction_count d uid ty = restriction_count e uid ty"
  "inviteCodes d = inviteCodes e \<Longrightarrow> code_count d uid = code_count e uid"
  "users d = users e \<Longrightarrow> has_status d uid s = has_status e uid s"
  "users d = users e \<Longrightarrow> issued d uid = issued e uid"
  by (simp_all add: request_count_def restriction_count_def code_count_def has_status_def
      issued_def user_by_id_def)

lemma request_count_cancel [lifecycle]:
  "request_count (cancelActiveDeletionRequests t uid d) uid' =
     (if uid' = uid then 0 else request_count d uid')"
proof (cases "uid' = uid")
  case True
  then show ?thesis
    unfolding request_count_def cancelActiveDeletionRequests_def
    by simp (rule count_where_update_all, auto simp: active_request_def)
next
  case False
  then show ?thesis
    unfolding request_count_def cancelActiveDeletionRequests_def
    by simp (rule count_where_update_other, auto)
qed

lemma restriction_count_resolve [lifecycle]:
  "restriction_count (resolveOpenRestrictions t uid d) uid' ty =
     (if uid' = uid then 0 else restriction_count d uid' ty)"
proof (cases "uid' = uid")
  case True
  then show ?thesis
    unfolding restriction_count_def resolveOpenRestrictions_def
    by simp (rule count_where_update_all, auto simp: open_restriction_def)
next
  case False
  then show ?thesis
    unfolding restriction_count_def resolveOpenRestrictions_def
    by simp (rule count_where_update_other, auto)
qed

lemma request_count_markProcessed [lifecycle]:
  assumes "distinct (map dreq_id (deletionRequests d))"
    and "r \<in> set (deletionRequests d)" "active_request r"
  shows "request_count (markProcessed t (dreq_id r) d) uid =
    (if uid = dreq_userId r then request_count d uid - 1 else request_count d uid)"
proof (cases "uid = dreq_userId r")
  case True
  then show ?thesis
    using count_update_where_distinct [OF assms(1,2), of "\<lambda>r. dreq_userId r = uid \<and> active_request r"
        "\<lambda>r. r\<lparr>dreq_processedAt := Some t\<rparr>"] assms(3)
    by (simp add: request_count_def markProcessed_def active_request_def)
next
  case False
  have "dreq_userId x \<noteq> uid" if "dreq_id x = dreq_id r" "x \<in> set (deletionRequests d)" for x
    using that assms(1,2) False by (metis distinct_map inj_onD)
  then show ?thesis using False
    unfolding request_count_def markProcessed_def
    by (simp add: count_where_update_other)
qed

lemma code_count_setValidity [lifecycle]:
  "code_count (setInviteCodesValidity uid v d) uid' = code_count d uid'"
  unfolding code_count_def setInviteCodesValidity_def by (simp add: count_where_update_same)

lemma code_count_deleteInviteRows [lifecycle]:
  "code_count (deleteInviteRows uid d) uid' = (if uid' = uid then 0 else code_count d uid')"
  unfolding code_count_def
  by (auto intro!: count_where_delete_all count_where_delete_other)

lemma issued_update_user [lifecycle]:
  "(\<And>u. user_id (f u) = user_id u) \<Longrightarrow>
   issued (update_user uid f d) uid' =
     (if uid' = uid then (case user_by_id d uid of None \<Rightarrow> 0 | Some u \<Rightarrow> user_issuedCodes (f u))
      else issued d uid')"
  by (auto simp: issued_def user_by_id_update_user split: option.splits)

lemma counts_frame [lifecycle]:
  "request_count (createAuditLog t p d) uid = request_count d uid"
  "request_count (setInviteCodesValidity i v d) uid = request_count d uid"
  "request_count (resolveOpenRestrictions t i d) uid = request_count d uid"
  "request_count (update_user i f d) uid = request_count d uid"
  "request_count (deleteContentRows i d) uid = request_count d uid"
  "request_count (deleteInviteRows i d) uid = request_count d uid"
  "restriction_count (createAuditLog t p d) uid ty = restriction_count d uid ty"
  "restriction_count (setInviteCodesValidity i v d) uid ty = restriction_count d uid ty"
  "restriction_count (cancelActiveDeletionRequests t i d) uid ty = restriction_count d uid ty"
  "restriction_count (markProcessed t i d) uid ty = restriction_count d uid ty"
  "restriction_count (update_user i f d) uid ty = restriction_count d uid ty"
  "restriction_count (deleteContentRows i d) uid ty = restriction_count d uid ty"
  "restriction_count (deleteInviteRows i d) uid ty = restriction_count d uid ty"
  "code_count (createAuditLog t p d) uid = code_count d uid"
  "code_count (resolveOpenRestrictions t i d) uid = code_count d uid"
  "code_count (cancelActiveDeletionRequests t i d) uid = code_count d uid"
  "code_count (markProcessed t i d) uid = code_count d uid"
  "code_count (update_user i f d) uid = code_count d uid"
  "code_count (deleteContentRows i d) uid = code_count d uid"
  by (simp_all add: request_count_def restriction_count_def code_count_def)

lemma users_frame [lifecycle]:
  "user_by_id (createAuditLog t p d) uid = user_by_id d uid"
  "user_by_id (setInviteCodesValidity i v d) uid = user_by_id d uid"
  "user_by_id (resolveOpenRestrictions t i d) uid = user_by_id d uid"
  "user_by_id (cancelActiveDeletionRequests t i d) uid = user_by_id d uid"
  "user_by_id (markProcessed t i d) uid = user_by_id d uid"
  "user_by_id (deleteContentRows i d) uid = user_by_id d uid"
  "user_by_id (deleteInviteRows i d) uid = user_by_id d uid"
  by (simp_all add: user_by_id_def)

lemma status_frame [lifecycle]:
  "has_status (createAuditLog t p d) uid s = has_status d uid s"
  "has_status (setInviteCodesValidity i v d) uid s = has_status d uid s"
  "has_status (resolveOpenRestrictions t i d) uid s = has_status d uid s"
  "has_status (cancelActiveDeletionRequests t i d) uid s = has_status d uid s"
  "has_status (markProcessed t i d) uid s = has_status d uid s"
  "has_status (deleteContentRows i d) uid s = has_status d uid s"
  "has_status (deleteInviteRows i d) uid s = has_status d uid s"
  "issued (createAuditLog t p d) uid = issued d uid"
  "issued (setInviteCodesValidity i v d) uid = issued d uid"
  "issued (resolveOpenRestrictions t i d) uid = issued d uid"
  "issued (cancelActiveDeletionRequests t i d) uid = issued d uid"
  "issued (markProcessed t i d) uid = issued d uid"
  "issued (deleteContentRows i d) uid = issued d uid"
  "issued (deleteInviteRows i d) uid = issued d uid"
  by (simp_all add: has_status_def issued_def lifecycle)

section \<open>Transitions of one account\<close>

text \<open>A transition is good when it keeps the keys, touches only the account \<open>uid\<close>, and leaves the
  counts of \<open>uid\<close> in step with its new status.\<close>

lemma account_inv_transition:
  assumes "account_inv d"
    and "map user_id (users d') = map user_id (users d)"
    and "distinct (map dreq_id (deletionRequests d'))"
    and "\<And>u s. u \<noteq> uid \<Longrightarrow> has_status d' u s = has_status d u s"
    and "\<And>u. u \<noteq> uid \<Longrightarrow> request_count d' u = request_count d u"
    and "\<And>u ty. u \<noteq> uid \<Longrightarrow> restriction_count d' u ty = restriction_count d u ty"
    and "\<And>u. u \<noteq> uid \<Longrightarrow> code_count d' u = code_count d u \<and> issued d' u = issued d u"
    and "request_count d' uid = (if has_status d' uid PENDING then 1 else 0)"
    and "\<And>ty. restriction_count d' uid ty = (if has_status d' uid (status_of_type ty) then 1 else 0)"
    and "code_count d' uid = issued d' uid \<and> issued d' uid \<le> MAX_INVITES"
  shows "account_inv d'"
  unfolding account_inv_def
proof (intro conjI allI)
  show "distinct (map user_id (users d'))" using assms(1,2) by (simp add: account_inv_def)
  show "distinct (map dreq_id (deletionRequests d'))" by (rule assms(3))
  fix u ty
  show "request_count d' u = (if has_status d' u PENDING then 1 else 0)"
    using assms(4) [of u PENDING] assms(5) [of u] assms(8) account_invD(3) [OF assms(1), of u]
    by (cases "u = uid") simp_all
  show "restriction_count d' u ty = (if has_status d' u (status_of_type ty) then 1 else 0)"
    using assms(4) [of u "status_of_type ty"] assms(6) [of u] assms(9)
      account_invD(4) [OF assms(1), of u ty]
    by (cases "u = uid") simp_all
  show "code_count d' u = issued d' u" and "issued d' u \<le> MAX_INVITES"
    using assms(7) [of u] assms(10) account_invD(5) [OF assms(1), of u]
    by (cases "u = uid"; simp)+
qed

lemma issued_Some: "user_by_id d uid = Some u \<Longrightarrow> issued d uid = user_issuedCodes u"
  by (simp add: issued_def)

lemma has_status_Some: "user_by_id d uid = Some u \<Longrightarrow> has_status d uid s \<longleftrightarrow> user_status u = s"
  by (simp add: has_status_def)

lemma status_of_type_neq [simp]:
  "status_of_type ty \<noteq> ACTIVE" "status_of_type ty \<noteq> PENDING" "status_of_type ty \<noteq> DELETED"
  "ACTIVE \<noteq> status_of_type ty" "PENDING \<noteq> status_of_type ty" "DELETED \<noteq> status_of_type ty"
  by (cases ty; simp)+

lemma account_inv_reactivate_tx:
  assumes "account_inv d" "user_by_id d uid = Some u"
  shows "account_inv (reactivate_tx t k opts prev uid d)"
  by (rule account_inv_transition [OF assms(1), of _ uid])
    (use assms account_invD(5) [OF assms(1), of uid] in
      \<open>auto simp: reactivate_tx_def lifecycle issued_Some account_invD(2)\<close>)

lemma reactivate_tx_user:
  "user_by_id (reactivate_tx t k opts prev uid d) uid' =
    (if uid' = uid
     then map_option (\<lambda>u. u\<lparr>user_status := ACTIVE, user_sessionKey := k\<rparr>) (user_by_id d uid)
     else user_by_id d uid')"
  by (simp add: reactivate_tx_def lifecycle)

lemma account_inv_deletion_tx:
  assumes "account_inv d" "user_by_id d uid = Some u"
    and "deletion_tx t k opts uid d = Some d'"
    and "\<And>rid. do_deletionRequestId opts = Some rid \<Longrightarrow>
      \<exists>r \<in> set (deletionRequests d). dreq_id r = rid \<and> dreq_userId r = uid \<and> active_request r"
  shows "account_inv d'"
proof (cases "do_deletionRequestId opts")
  case None
  then show ?thesis
    using assms
    by (intro account_inv_transition [OF assms(1), of _ uid])
      (auto simp: deletion_tx_def Let_def lifecycle account_invD(2))
next
  case (Some rid)
  then obtain r where r: "r \<in> set (deletionRequests d)" "dreq_id r = rid" "dreq_userId r = uid"
    "active_request r" using assms(4) by blast
  have "0 < request_count d uid"
    using r unfolding request_count_def
    by (metis (mono_tags, lifting) count_where_0_iff gr0I)
  then have one: "request_count d uid = 1"
    using account_invD(3) [OF assms(1), of uid] by (simp split: if_splits)
  define d1 where "d1 = resolveOpenRestrictions t uid (deleteInviteRows uid (deleteContentRows uid d))"
  have d1: "deletionRequests d1 = deletionRequests d" by (simp add: d1_def)
  have cnt: "request_count (markProcessed t rid d1) v =
      (if v = uid then request_count d1 v - 1 else request_count d1 v)" for v
    using request_count_markProcessed [of d1 r t v] r account_invD(2) [OF assms(1)]
    by (simp add: d1)
  have d': "d' = createAuditLog t
      \<lparr>ap_actorType = do_actorType opts, ap_action = do_action opts,
        ap_targetUserId = Some uid, ap_adminUserId = do_adminUserId opts,
        ap_previousStatus = Some (do_previousStatus opts), ap_newStatus = Some DELETED,
        ap_reason = do_reason opts, ap_meta = JNull\<rparr>
      (update_user uid
        (\<lambda>u. u\<lparr>user_status := DELETED, user_issuedCodes := 0, user_sessionKey := k\<rparr>)
        (markProcessed t rid d1))"
    using assms(3) Some by (auto simp: deletion_tx_def Let_def d1_def split: if_splits)
  show ?thesis
    by (rule account_inv_transition [OF assms(1), of _ uid])
      (use assms(1,2) one in
        \<open>auto simp: d' cnt [unfolded d1_def] lifecycle account_invD(2) d1_def\<close>)
qed

lemma deletion_tx_Some:
  "do_deletionRequestId opts = None \<or>
     (\<exists>r \<in> set (deletionRequests d). do_deletionRequestId opts = Some (dreq_id r)) \<Longrightarrow>
   \<exists>d'. deletion_tx t k opts uid d = Some d'"
  by (auto simp: deletion_tx_def Let_def)

end
