(* ===== verification/Admin_Users.thy ===== *)
theory Admin_Users
  imports Lifecycle_Invariant
begin

text \<open>
  \<^verbatim>\<open>AdminUsersService\<close> (\<^verbatim>\<open>admin/users/admin-users.service.ts\<close>): the
  administrator's side of the account lifecycle (lock, ban, delete, reactivate, log out, rename),
  the removal of a user's files or of all its data with the uploads still open in Redis, and the
  user list and statistics. The service has its own copies of the private helpers of
  \<^verbatim>\<open>UsersService\<close>; where the text is the same the definitions of \<open>User_Lifecycle\<close> are
  used, where it differs (\<open>admin_reactivateUser\<close>, \<open>admin_deleteUserDataAndMarkDeleted\<close>)
  the copy is modelled on its own.
\<close>

section \<open>Users as the administrator sees them\<close>

record minimalAdminUser =
  mau_id :: string
  mau_username :: string
  mau_avatar :: UserAvatar
  mau_accountCreationDate :: string
  mau_status :: string

fun toPublicStatus :: "UserStatus \<Rightarrow> string" where
  "toPublicStatus ACTIVE = ''active''"
| "toPublicStatus BANNED = ''banned''"
| "toPublicStatus LOCKED = ''locked''"
| "toPublicStatus PENDING = ''pending''"
| "toPublicStatus DELETED = ''deleted''"

datatype status_dto = Active | Locked | Banned | Deleted

fun toUserStatus :: "status_dto \<Rightarrow> UserStatus" where
  "toUserStatus Active = ACTIVE"
| "toUserStatus Locked = LOCKED"
| "toUserStatus Banned = BANNED"
| "toUserStatus Deleted = DELETED"

definition toMinimalAdminUser :: "('r, 's) platform \<Rightarrow> user \<Rightarrow> minimalAdminUser" where
  "toMinimalAdminUser P u =
     \<lparr>mau_id = user_id u, mau_username = user_username u, mau_avatar = user_avatar u,
      mau_accountCreationDate = iso P (user_createdAt u),
      mau_status = toPublicStatus (user_status u)\<rparr>"

definition user_not_found :: http_error where
  "user_not_found = NotFound ''User not found''"

definition findUserOrThrow :: "db \<Rightarrow> string \<Rightarrow> http_error + user" where
  "findUserOrThrow d uid =
     (case user_by_id d uid of None \<Rightarrow> Inl user_not_found | Some u \<Rightarrow> Inr u)"

definition getUserById ::
    "('r, 's) platform \<Rightarrow> db \<Rightarrow> string \<Rightarrow> http_error + minimalAdminUser" where
  "getUserById P d uid =
     (case user_by_id d uid of
        None \<Rightarrow> Inl user_not_found
      | Some u \<Rightarrow> Inr (toMinimalAdminUser P u))"

section \<open>Statistics\<close>

record user_stats =
  us_totalUsers :: nat
  us_newLast1d :: nat
  us_newLast7d :: nat
  us_newLast30d :: nat
  us_activeUsers :: nat
  us_lockedUsers :: nat
  us_bannedUsers :: nat
  us_pendingUsers :: nat

definition days_ms :: "nat \<Rightarrow> nat" where
  "days_ms n = n * 24 * 60 * 60 * 1000"

definition since :: "time \<Rightarrow> nat \<Rightarrow> time \<Rightarrow> bool" where
  "since t n created \<longleftrightarrow> int t - int (days_ms n) \<le> int created"

definition getUsersStats :: "db \<Rightarrow> time \<Rightarrow> user_stats" where
  "getUsersStats d t =
     (let alive = filter (\<lambda>u. user_status u \<noteq> DELETED) (users d);
          newSince = (\<lambda>n. count_where (\<lambda>u. since t n (user_createdAt u)) alive);
          ofStatus = (\<lambda>s. count_where (\<lambda>u. user_status u = s) alive)
      in \<lparr>us_totalUsers = length alive,
          us_newLast1d = newSince 1, us_newLast7d = newSince 7, us_newLast30d = newSince 30,
          us_activeUsers = ofStatus ACTIVE, us_lockedUsers = ofStatus LOCKED,
          us_bannedUsers = ofStatus BANNED, us_pendingUsers = ofStatus PENDING\<rparr>)"

definition getUserCountSummary :: "db \<Rightarrow> time \<Rightarrow> nat \<times> nat \<times> nat \<times> nat" where
  "getUserCountSummary d t =
     (let stats = getUsersStats d t in
      (us_totalUsers stats, us_newLast1d stats, us_newLast7d stats, us_newLast30d stats))"

record users_overview =
  uo_totalUsers :: nat
  uo_newLast7Days :: nat
  uo_activeBans :: nat
  uo_lockedUsers :: nat
  uo_pendingUsers :: nat
  uo_newToday :: nat
  uo_adminActions7d :: nat

definition getUsersOverviewStats :: "('r, 's) platform \<Rightarrow> db \<Rightarrow> time \<Rightarrow> users_overview" where
  "getUsersOverviewStats P d t =
     (let stats = getUsersStats d t;
          today = startOfDay P t
      in \<lparr>uo_totalUsers = us_totalUsers stats, uo_newLast7Days = us_newLast7d stats,
          uo_activeBans = us_bannedUsers stats, uo_lockedUsers = us_lockedUsers stats,
          uo_pendingUsers = us_pendingUsers stats,
          uo_newToday = count_where
            (\<lambda>u. user_status u \<noteq> DELETED \<and> today \<le> user_createdAt u) (users d),
          uo_adminActions7d = count_where
            (\<lambda>a. audit_actorType a = ADMIN \<and> since t 7 (audit_createdAt a)) (auditLogs d)\<rparr>)"

section \<open>The user list\<close>

record pagination =
  pg_limit :: nat
  pg_offset :: nat
  pg_returned :: nat
  pg_hasMore :: bool
  pg_total :: nat

datatype search_type = ByUsername | ById
datatype user_sort = AccountCreationDate | Username
datatype sort_order = Asc | Desc

record users_query =
  uq_search :: "string option"
  uq_searchType :: search_type
  uq_status :: "UserStatus option"
  uq_sort :: user_sort
  uq_order :: sort_order
  uq_limit :: nat
  uq_offset :: nat

text \<open>An empty search text is falsy; a \<open>status\<close> in the query replaces the filter that hides
  deleted accounts (the DTO admits no \<open>deleted\<close>).\<close>

definition users_where :: "('r, 's) platform \<Rightarrow> users_query \<Rightarrow> user \<Rightarrow> bool" where
  "users_where P q u \<longleftrightarrow>
     (case uq_status q of None \<Rightarrow> user_status u \<noteq> DELETED | Some s \<Rightarrow> user_status u = s) \<and>
     (case uq_search q of
        None \<Rightarrow> True
      | Some text \<Rightarrow>
          text = [] \<or>
          db_contains P (trim text)
            (case uq_searchType q of ById \<Rightarrow> user_id u | ByUsername \<Rightarrow> user_username u))"

definition order_users :: "user_sort \<Rightarrow> sort_order \<Rightarrow> user list \<Rightarrow> user list" where
  "order_users by order us =
     (let asc = (case by of
            Username \<Rightarrow> sort_key user_username us
          | AccountCreationDate \<Rightarrow> sort_key user_createdAt us)
      in (case order of Asc \<Rightarrow> asc | Desc \<Rightarrow> rev asc))"

definition getUsers ::
    "('r, 's) platform \<Rightarrow> users_query \<Rightarrow> db \<Rightarrow> minimalAdminUser list \<times> pagination" where
  "getUsers P q d =
     (let matching = filter (users_where P q) (users d);
          rows = page (uq_offset q) (uq_limit q) (order_users (uq_sort q) (uq_order q) matching);
          items = map (toMinimalAdminUser P) rows;
          total = length matching
      in (items,
          \<lparr>pg_limit = uq_limit q, pg_offset = uq_offset q, pg_returned = length items,
           pg_hasMore = uq_offset q + length items < total, pg_total = total\<rparr>))"

section \<open>Redis keys of a user's uploads\<close>

definition getActiveUploadKey :: "string \<Rightarrow> string" where
  "getActiveUploadKey userId = ''upload:active:'' @ userId"

definition getUploadMetaKey :: "string \<Rightarrow> string \<Rightarrow> string" where
  "getUploadMetaKey userId uploadId = ''upload:meta:'' @ userId @ '':'' @ uploadId"

definition getUploadMetaPattern :: "string \<Rightarrow> string" where
  "getUploadMetaPattern userId = getUploadMetaKey userId [] @ ''*''"

definition getActiveUploadMetaKeys ::
    "('r, 's) platform \<Rightarrow> string \<Rightarrow> ('r, 's) world \<Rightarrow> string list" where
  "getActiveUploadMetaKeys P userId w =
     map (getUploadMetaKey userId) (r_smembers (rds P) (redis w) (getActiveUploadKey userId))"

text \<open>The aborts run concurrently; here one after the other, in the order they are sent. A text
  that does not parse, a missing field or a rejected abort is logged and skipped.\<close>

fun abortRedisBackedUploads ::
    "('r, 's) platform \<Rightarrow> string list \<Rightarrow> ('r, 's) world \<Rightarrow> nat \<times> ('r, 's) world" where
  "abortRedisBackedUploads P [] w = (0, w)"
| "abortRedisBackedUploads P (key # keys) w =
     (case redis_get P w key of
        None \<Rightarrow> abortRedisBackedUploads P keys w
      | Some metaStr \<Rightarrow>
          (case parse_meta metaStr of
             None \<Rightarrow> abortRedisBackedUploads P keys w
           | Some meta \<Rightarrow>
               (case meta_s3UploadId meta of
                  None \<Rightarrow> abortRedisBackedUploads P keys w
                | Some uploadId \<Rightarrow>
                    if meta_storageKey meta = [] \<or> uploadId = []
                    then abortRedisBackedUploads P keys w
                    else
                      (let (ok, st) = s3_abort (store P) ''S3_BUCKET_FILES''
                             (meta_storageKey meta) (Some uploadId) (objects w);
                           (n, w') = abortRedisBackedUploads P keys (w\<lparr>objects := st\<rparr>)
                       in (if ok then n + 1 else n, w')))))"

fun redis_del_all :: "('r, 's) platform \<Rightarrow> string list \<Rightarrow> ('r, 's) world \<Rightarrow> ('r, 's) world" where
  "redis_del_all P [] w = w"
| "redis_del_all P (key # keys) w = redis_del_all P keys (redis_del P key w)"

text \<open>\<open>scanRedisKeys\<close> is the \<open>scan_loop\<close>; \<open>None\<close> when the server never ends the scan.
  The number of deleted keys that \<open>DEL\<close> replies is not modelled.\<close>

definition clearUserRedisData ::
    "('r, 's) platform \<Rightarrow> string \<Rightarrow> ('r, 's) world \<Rightarrow> (nat \<times> ('r, 's) world) option" where
  "clearUserRedisData P userId w =
     (case scan_loop (rds P) (redis w) (getUploadMetaPattern userId) ''0'' [] of
        None \<Rightarrow> None
      | Some scanned \<Rightarrow>
          (let metaKeys = remdups (getActiveUploadMetaKeys P userId w @ scanned);
               (aborted, w1) = abortRedisBackedUploads P metaKeys w;
               redisKeys = masterKeyKey userId # getActiveUploadKey userId # metaKeys
           in Some (aborted, redis_del_all P (remdups redisKeys) w1)))"

text \<open>The effect of the call on the world, where it returns.\<close>

definition cleared_redis :: "('r, 's) platform \<Rightarrow> string \<Rightarrow> ('r, 's) world \<Rightarrow> ('r, 's) world" where
  "cleared_redis P userId w =
     (case clearUserRedisData P userId w of None \<Rightarrow> w | Some (_, w') \<Rightarrow> w')"

section \<open>Changing an account's status\<close>

definition admin_reactivateUser ::
    "('r, 's) platform \<Rightarrow> string \<Rightarrow> reactivate_options \<Rightarrow> ('r, 's) world \<Rightarrow>
     (unit, ('r, 's) world) outcome" where
  "admin_reactivateUser P userId opts w =
     (case findUserOrThrow (db w) userId of
        Inl e \<Rightarrow> (Inl e, w)
      | Inr user \<Rightarrow>
          if user_status user = DELETED
          then (Inl (BadRequest ''Deleted users cannot be reactivated''), w)
          else
            (let (newKey, w1) = randomUUID P w;
                 d1 = resolveOpenRestrictions (now w) userId (db w1);
                 d2 = cancelActiveDeletionRequests (now w) userId d1;
                 d3 = update_user userId
                   (\<lambda>u. u\<lparr>user_status := ACTIVE, user_sessionKey := newKey\<rparr>) d2;
                 d4 = setInviteCodesValidity userId True d3;
                 d5 = createAuditLog (now w)
                   \<lparr>ap_actorType = ro_actorType opts, ap_action = ro_action opts,
                    ap_targetUserId = Some userId, ap_adminUserId = ro_adminUserId opts,
                    ap_previousStatus = Some (user_status user), ap_newStatus = Some ACTIVE,
                    ap_reason = ro_reason opts, ap_meta = JNull\<rparr> d4
             in (Inr (), redis_del P (masterKeyKey userId) (w1\<lparr>db := d5\<rparr>))))"

definition clearUserContentRecords :: "string \<Rightarrow> db \<Rightarrow> (nat \<times> nat \<times> nat \<times> nat) \<times> db" where
  "clearUserContentRecords uid d =
     (let deletedFiles = count_where (\<lambda>f. file_userId f = uid) (files d);
          deletedMails = count_where (\<lambda>m. mail_userId m = uid) (mails d);
          deletedBins = count_where (\<lambda>b. bin_userId b = uid) (bins d);
          deletedLinks = count_where (\<lambda>l. link_userId l = uid) (links d)
      in ((deletedFiles, deletedMails, deletedBins, deletedLinks),
          delete_files (\<lambda>f. file_userId f = uid)
            (delete_mails (\<lambda>m. mail_userId m = uid)
              (delete_bins (\<lambda>b. bin_userId b = uid)
                (d\<lparr>links := delete_where (\<lambda>l. link_userId l = uid) (links d)\<rparr>)))))"

definition counts_json :: "nat \<times> nat \<times> nat \<times> nat \<Rightarrow> json" where
  "counts_json c =
     (case c of (f, m, b, l) \<Rightarrow>
        JObj [(''deletedUploadsCount'', JNum (int f)), (''deletedMailsCount'', JNum (int m)),
              (''deletedBinsCount'', JNum (int b)), (''deletedLinksCount'', JNum (int l))])"

definition admin_deleteUserDataAndMarkDeleted ::
    "('r, 's) platform \<Rightarrow> string \<Rightarrow> deletion_options \<Rightarrow> ('r, 's) world \<Rightarrow>
     (unit, ('r, 's) world) outcome" where
  "admin_deleteUserDataAndMarkDeleted P userId opts w =
     (let w1 = deleteS3Objects P filesBucket (fileStorageNamesOf (db w) userId) w;
          w2 = deleteS3Objects P mailsBucket (mailStorageKeysOf (db w) userId) w1;
          (newKey, w3) = randomUUID P w2;
          (counts, d1) = clearUserContentRecords userId (db w3);
          d2 = d1\<lparr>blockedSenders := delete_where (\<lambda>b. blocked_userId b = userId) (blockedSenders d1)\<rparr>;
          d3 = resolveOpenRestrictions (now w) userId (deleteInviteRows userId d2);
          d4 = (case do_deletionRequestId opts of
                  None \<Rightarrow> Some (cancelActiveDeletionRequests (now w) userId d3)
                | Some rid \<Rightarrow>
                    if rid \<in> set (map dreq_id (deletionRequests d3))
                    then Some (markProcessed (now w) rid d3) else None)
      in (case d4 of
            None \<Rightarrow> (Inl record_not_found, w3)
          | Some d4 \<Rightarrow>
              (let d5 = update_user userId
                     (\<lambda>u. u\<lparr>user_status := DELETED, user_issuedCodes := 0, user_sessionKey := newKey\<rparr>) d4;
                   d6 = createAuditLog (now w)
                     \<lparr>ap_actorType = do_actorType opts, ap_action = do_action opts,
                      ap_targetUserId = Some userId, ap_adminUserId = do_adminUserId opts,
                      ap_previousStatus = Some (do_previousStatus opts), ap_newStatus = Some DELETED,
                      ap_reason = do_reason opts, ap_meta = counts_json counts\<rparr> d5
               in (Inr (), cleared_redis P userId (w3\<lparr>db := d6\<rparr>)))))"

record status_update =
  su_status :: status_dto
  su_reason :: string
  su_permanent :: "bool option"
  su_durationDays :: "nat option"

definition restrict_tx ::
    "time \<Rightarrow> string \<Rightarrow> userRestriction \<Rightarrow> string \<Rightarrow> UserStatus \<Rightarrow> UserStatus \<Rightarrow> json \<Rightarrow>
     string \<Rightarrow> db \<Rightarrow> db" where
  "restrict_tx t newKey restriction adminId previous next meta uid d =
     (let d1 = cancelActiveDeletionRequests t uid d;
          d2 = resolveOpenRestrictions t uid d1;
          d3 = update_user uid (\<lambda>u. u\<lparr>user_status := next, user_sessionKey := newKey\<rparr>) d2;
          d4 = d3\<lparr>restrictions := restrictions d3 @ [restriction]\<rparr>;
          d5 = setInviteCodesValidity uid False d4
      in createAuditLog t
           \<lparr>ap_actorType = ADMIN, ap_action = ''user_status_changed'', ap_targetUserId = Some uid,
            ap_adminUserId = Some adminId, ap_previousStatus = Some previous,
            ap_newStatus = Some next, ap_reason = Some (restr_reason restriction),
            ap_meta = meta\<rparr> d5)"

definition lockUser ::
    "('r, 's) platform \<Rightarrow> string \<Rightarrow> user \<Rightarrow> status_update \<Rightarrow> ('r, 's) world \<Rightarrow>
     (unit, ('r, 's) world) outcome" where
  "lockUser P adminUserId user dto w =
     (if su_reason dto = [] then (Inl (BadRequest ''Reason is required when locking a user''), w)
      else
        (let (newKey, w1) = randomUUID P w;
             (newId, w2) = randomUUID P w1;
             restriction = \<lparr>restr_id = newId, restr_userId = user_id user, restr_type = LOCK,
               restr_reason = su_reason dto, restr_isPermanent = False, restr_expiresAt = None,
               restr_createdByAdminUserId = Some adminUserId, restr_createdAt = now w,
               restr_resolvedAt = None\<rparr>
         in (Inr (), redis_del P (masterKeyKey (user_id user))
              (w2\<lparr>db := restrict_tx (now w) newKey restriction adminUserId (user_status user)
                           LOCKED (JObj []) (user_id user) (db w2)\<rparr>))))"

definition truthy_nat :: "nat option \<Rightarrow> bool" where
  "truthy_nat n \<longleftrightarrow> (case n of None \<Rightarrow> False | Some k \<Rightarrow> k \<noteq> 0)"

definition banUser ::
    "('r, 's) platform \<Rightarrow> string \<Rightarrow> user \<Rightarrow> status_update \<Rightarrow> ('r, 's) world \<Rightarrow>
     (unit, ('r, 's) world) outcome" where
  "banUser P adminUserId user dto w =
     (let permanent = (su_permanent dto = Some True) in
      if su_reason dto = [] then (Inl (BadRequest ''Reason is required when banning a user''), w)
      else if \<not> permanent \<and> \<not> truthy_nat (su_durationDays dto)
      then (Inl (BadRequest ''Duration days are required for temporary bans''), w)
      else
        (let expiresAt =
               (if permanent \<or> \<not> truthy_nat (su_durationDays dto) then None
                else map_option (addDays P (now w)) (su_durationDays dto));
             (newKey, w1) = randomUUID P w;
             (newId, w2) = randomUUID P w1;
             restriction = \<lparr>restr_id = newId, restr_userId = user_id user, restr_type = BAN,
               restr_reason = su_reason dto, restr_isPermanent = permanent,
               restr_expiresAt = expiresAt, restr_createdByAdminUserId = Some adminUserId,
               restr_createdAt = now w, restr_resolvedAt = None\<rparr>;
             meta = JObj
               [(''permanent'', JBool permanent),
                (''durationDays'',
                  case su_durationDays dto of None \<Rightarrow> JNull | Some n \<Rightarrow> JNum (int n)),
                (''expiresAt'', case expiresAt of None \<Rightarrow> JNull | Some e \<Rightarrow> JDate e)]
         in (Inr (), redis_del P (masterKeyKey (user_id user))
              (w2\<lparr>db := restrict_tx (now w) newKey restriction adminUserId (user_status user)
                           BANNED meta (user_id user) (db w2)\<rparr>))))"

definition removeUser ::
    "('r, 's) platform \<Rightarrow> string \<Rightarrow> user \<Rightarrow> status_update \<Rightarrow> ('r, 's) world \<Rightarrow>
     (unit, ('r, 's) world) outcome" where
  "removeUser P adminUserId user dto w =
     (if su_reason dto = [] then (Inl (BadRequest ''Reason is required when deleting a user''), w)
      else admin_deleteUserDataAndMarkDeleted P (user_id user)
        \<lparr>do_actorType = ADMIN, do_action = ''user_status_changed'', do_reason = Some (su_reason dto),
         do_previousStatus = user_status user, do_adminUserId = Some adminUserId,
         do_deletionRequestId = None\<rparr> w)"

definition changeStatus ::
    "('r, 's) platform \<Rightarrow> string \<Rightarrow> user \<Rightarrow> status_update \<Rightarrow> ('r, 's) world \<Rightarrow>
     (unit, ('r, 's) world) outcome" where
  "changeStatus P adminUserId user dto w =
     (case toUserStatus (su_status dto) of
        ACTIVE \<Rightarrow> admin_reactivateUser P (user_id user)
          \<lparr>ro_actorType = ADMIN, ro_action = ''user_status_changed'',
           ro_reason = Some (if su_reason dto = [] then ''Status set to active'' else su_reason dto),
           ro_adminUserId = Some adminUserId\<rparr> w
      | LOCKED \<Rightarrow> lockUser P adminUserId user dto w
      | BANNED \<Rightarrow> banUser P adminUserId user dto w
      | DELETED \<Rightarrow> removeUser P adminUserId user dto w
      | PENDING \<Rightarrow> (Inr (), w))"

definition updateUserStatus ::
    "('r, 's) platform \<Rightarrow> string \<Rightarrow> string \<Rightarrow> status_update \<Rightarrow> ('r, 's) world \<Rightarrow>
     (minimalAdminUser, ('r, 's) world) outcome" where
  "updateUserStatus P adminUserId userId dto w =
     (case user_by_id (db w) userId of
        None \<Rightarrow> (Inl user_not_found, w)
      | Some user \<Rightarrow>
          if user_status user = DELETED \<and> su_status dto \<noteq> Deleted
          then (Inl (BadRequest ''Deleted users cannot be reactivated''), w)
          else
            (case changeStatus P adminUserId user dto w of
               (Inl e, w') \<Rightarrow> (Inl e, w')
             | (Inr _, w') \<Rightarrow> (getUserById P (db w') userId, w')))"

section \<open>Sessions, names, content\<close>

definition rotateUserSession ::
    "('r, 's) platform \<Rightarrow> string \<Rightarrow> ('r, 's) world \<Rightarrow> ('r, 's) world" where
  "rotateUserSession P userId w =
     (let (newKey, w1) = randomUUID P w in
      redis_del P (masterKeyKey userId)
        (w1\<lparr>db := update_user userId (\<lambda>u. u\<lparr>user_sessionKey := newKey\<rparr>) (db w1)\<rparr>))"

definition admin_audit ::
    "time \<Rightarrow> string \<Rightarrow> string \<Rightarrow> string \<Rightarrow> UserStatus option \<Rightarrow> UserStatus option \<Rightarrow> string \<Rightarrow>
     json \<Rightarrow> db \<Rightarrow> db" where
  "admin_audit t adminId uid action prev next reason meta d =
     createAuditLog t
       \<lparr>ap_actorType = ADMIN, ap_action = action, ap_targetUserId = Some uid,
        ap_adminUserId = Some adminId, ap_previousStatus = prev, ap_newStatus = next,
        ap_reason = Some reason, ap_meta = meta\<rparr> d"

definition forceLogoutUser ::
    "('r, 's) platform \<Rightarrow> string \<Rightarrow> string \<Rightarrow> string \<Rightarrow> ('r, 's) world \<Rightarrow>
     (minimalAdminUser, ('r, 's) world) outcome" where
  "forceLogoutUser P adminUserId userId reason w =
     (case findUserOrThrow (db w) userId of
        Inl e \<Rightarrow> (Inl e, w)
      | Inr user \<Rightarrow>
          (let w1 = rotateUserSession P userId w;
               w2 = w1\<lparr>db := admin_audit (now w) adminUserId userId ''user_force_logout''
                      (Some (user_status user)) (Some (user_status user)) reason JNull (db w1)\<rparr>
           in (Inr (toMinimalAdminUser P user), w2)))"

definition changeUsername ::
    "('r, 's) platform \<Rightarrow> string \<Rightarrow> string \<Rightarrow> string \<Rightarrow> string \<Rightarrow> ('r, 's) world \<Rightarrow>
     (minimalAdminUser, ('r, 's) world) outcome" where
  "changeUsername P adminUserId userId newUsername reason w =
     (case findUserOrThrow (db w) userId of
        Inl e \<Rightarrow> (Inl e, w)
      | Inr user \<Rightarrow>
          (let (newKey, w1) = randomUUID P w in
           if \<exists>u \<in> set (users (db w1)). user_username u = newUsername \<and> user_id u \<noteq> userId
           then (Inl (Conflict ''Username already taken''), w1)
           else
             (let d1 = update_user userId
                    (\<lambda>u. u\<lparr>user_username := newUsername, user_sessionKey := newKey\<rparr>) (db w1);
                  d2 = admin_audit (now w) adminUserId userId ''user_username_changed''
                    (Some (user_status user)) (Some (user_status user)) reason
                    (JObj [(''previousUsername'', JStr (user_username user)),
                           (''newUsername'', JStr newUsername)]) d1;
                  w2 = redis_del P (masterKeyKey userId) (w1\<lparr>db := d2\<rparr>)
              in (Inr (toMinimalAdminUser P (user\<lparr>user_username := newUsername\<rparr>)), w2))))"

definition deleteUserFiles ::
    "('r, 's) platform \<Rightarrow> string \<Rightarrow> string \<Rightarrow> string list \<Rightarrow> string \<Rightarrow> ('r, 's) world \<Rightarrow>
     (string list, ('r, 's) world) outcome" where
  "deleteUserFiles P adminUserId userId fileIds reason w =
     (case findUserOrThrow (db w) userId of
        Inl e \<Rightarrow> (Inl e, w)
      | Inr _ \<Rightarrow>
          (let rows = filter (\<lambda>f. file_id f \<in> set fileIds \<and> file_userId f = userId) (files (db w)) in
           if rows = [] then (Inr [], w)
           else
             (let w1 = deleteS3Objects P filesBucket (map file_storageName rows) w;
                  deletedIds = map file_id rows;
                  d1 = delete_files
                    (\<lambda>f. file_id f \<in> set deletedIds \<and> file_userId f = userId) (db w1);
                  d2 = admin_audit (now w) adminUserId userId ''user_files_deleted'' None None reason
                    (JObj [(''fileIds'', JList (map JStr deletedIds))]) d1
              in (Inr deletedIds, w1\<lparr>db := d2\<rparr>))))"

definition clearUserData ::
    "('r, 's) platform \<Rightarrow> string \<Rightarrow> string \<Rightarrow> string \<Rightarrow> ('r, 's) world \<Rightarrow>
     (nat \<times> nat \<times> nat \<times> nat, ('r, 's) world) outcome" where
  "clearUserData P adminUserId userId reason w =
     (case findUserOrThrow (db w) userId of
        Inl e \<Rightarrow> (Inl e, w)
      | Inr _ \<Rightarrow>
          (let w1 = deleteS3Objects P filesBucket (fileStorageNamesOf (db w) userId) w;
               w2 = deleteS3Objects P mailsBucket (mailStorageKeysOf (db w) userId) w1;
               (counts, d1) = clearUserContentRecords userId (db w2);
               d2 = admin_audit (now w) adminUserId userId ''user_data_cleared'' None None reason
                 (counts_json counts) d1
           in (Inr counts, cleared_redis P userId (w2\<lparr>db := d2\<rparr>))))"

end
