(* ===== verification/Upload.thy ===== *)
theory Upload
  imports File_Geometry Admin_Users
begin

text \<open>
  \<^verbatim>\<open>FilesService\<close> (\<^verbatim>\<open>files/files.service.ts\<close>): the multipart upload (start,
  chunks, completion, cancellation, replacement of an older upload), downloads with their password
  gate, the user's file list, deletion and the two clean-up jobs; and the guard that lets one chunk
  request per upload through (\<^verbatim>\<open>files/upload-chunk-concurrency.guard.ts\<close>). The object
  store is arbitrary: every reply is what \<open>store P\<close> answers. A chunk request is modelled in the
  four parts between which others may run: reading the state, refreshing it, sending the part and
  recording it. \<open>redis.exists\<close> of a key is that \<open>GET\<close> finds it.
\<close>

section \<open>Redis state of an upload\<close>

definition getUploadStorageIndexKey :: "string \<Rightarrow> string" where
  "getUploadStorageIndexKey s3UploadId = ''upload:s3:'' @ s3UploadId"

definition initLockKey :: "string \<Rightarrow> string" where
  "initLockKey userId = ''upload:init-lock:'' @ userId"

definition redis_expire :: "('r, 's) platform \<Rightarrow> string \<Rightarrow> nat \<Rightarrow> ('r, 's) world \<Rightarrow> ('r, 's) world" where
  "redis_expire P key n w = w\<lparr>redis := r_expire (rds P) key n (redis w)\<rparr>"

definition redis_sadd :: "('r, 's) platform \<Rightarrow> string \<Rightarrow> string \<Rightarrow> ('r, 's) world \<Rightarrow> ('r, 's) world" where
  "redis_sadd P key m w = w\<lparr>redis := r_sadd (rds P) key m (redis w)\<rparr>"

definition redis_srem :: "('r, 's) platform \<Rightarrow> string \<Rightarrow> string \<Rightarrow> ('r, 's) world \<Rightarrow> ('r, 's) world" where
  "redis_srem P key m w = w\<lparr>redis := r_srem (rds P) key m (redis w)\<rparr>"

lemma redis_cmd_frame [world_frame, simp]:
  "db (redis_expire P k n w) = db w" "objects (redis_expire P k n w) = objects w"
  "now (redis_expire P k n w) = now w" "draws (redis_expire P k n w) = draws w"
  "db (redis_sadd P k m w) = db w" "objects (redis_sadd P k m w) = objects w"
  "now (redis_sadd P k m w) = now w" "draws (redis_sadd P k m w) = draws w"
  "db (redis_srem P k m w) = db w" "objects (redis_srem P k m w) = objects w"
  "now (redis_srem P k m w) = now w" "draws (redis_srem P k m w) = draws w"
  by (simp_all add: redis_expire_def redis_sadd_def redis_srem_def)

definition releaseActiveUpload :: "('r, 's) platform \<Rightarrow> string \<Rightarrow> string \<Rightarrow> ('r, 's) world \<Rightarrow> ('r, 's) world" where
  "releaseActiveUpload P userId uploadId w = redis_srem P (getActiveUploadKey userId) uploadId w"

definition setUploadStorageIndex ::
    "('r, 's) platform \<Rightarrow> string \<Rightarrow> upload_storage_index \<Rightarrow> ('r, 's) world \<Rightarrow> ('r, 's) world" where
  "setUploadStorageIndex P s3UploadId index w =
     redis_set P (getUploadStorageIndexKey s3UploadId) (IndexJson index) UPLOAD_META_TTL_SECONDS w"

definition refreshUploadState ::
    "('r, 's) platform \<Rightarrow> string \<Rightarrow> string \<Rightarrow> upload_meta \<Rightarrow> ('r, 's) world \<Rightarrow> ('r, 's) world" where
  "refreshUploadState P userId uploadId meta w =
     (let w1 = redis_set P (getUploadMetaKey userId uploadId) (MetaJson meta) UPLOAD_META_TTL_SECONDS w;
          w2 = redis_expire P (getActiveUploadKey userId) UPLOAD_META_TTL_SECONDS w1
      in case meta_s3UploadId meta of
           None \<Rightarrow> w2
         | Some sid \<Rightarrow>
             if sid = [] then w2
             else redis_expire P (getUploadStorageIndexKey sid) UPLOAD_META_TTL_SECONDS w2)"

definition session_expired :: http_error where
  "session_expired = Unauthorized ''Session expired''"

text \<open>The key is always written as hex (\<open>Plain\<close>); of any other text \<open>Buffer.from\<close> makes no use
  here. An empty text is falsy.\<close>

definition getMasterKeyForUser ::
    "('r, 's) platform \<Rightarrow> string \<Rightarrow> ('r, 's) world \<Rightarrow> http_error + bytes" where
  "getMasterKeyForUser P userId w =
     (case redis_get P w (masterKeyKey userId) of
        Some (Plain masterKeyHex) \<Rightarrow>
          if masterKeyHex = [] then Inl session_expired else Inr (unhex masterKeyHex)
      | Some _ \<Rightarrow> Inr []
      | None \<Rightarrow> Inl session_expired)"

section \<open>The lock of the start\<close>

definition acquireUploadInitLock ::
    "('r, 's) platform \<Rightarrow> string \<Rightarrow> ('r, 's) world \<Rightarrow> (string, ('r, 's) world) outcome" where
  "acquireUploadInitLock P userId w =
     (let (token, w1) = randomUUID P w;
          (acquired, r) = r_setnx (rds P) (initLockKey userId) (Plain token)
            UPLOAD_INIT_LOCK_TTL_SECONDS (redis w1);
          w2 = w1\<lparr>redis := r\<rparr>
      in if acquired then (Inr token, w2)
         else (Inl (Conflict ''Another upload is currently being initialized''), w2))"

definition releaseUploadInitLock ::
    "('r, 's) platform \<Rightarrow> string \<Rightarrow> string \<Rightarrow> ('r, 's) world \<Rightarrow> ('r, 's) world" where
  "releaseUploadInitLock P userId token w =
     w\<lparr>redis := compare_and_delete (rds P) (initLockKey userId) token (redis w)\<rparr>"

section \<open>Aborting\<close>

definition abort_failed :: http_error where
  "abort_failed = Thrown ''AbortMultipartUpload''"

definition abortMultipartUpload ::
    "('r, 's) platform \<Rightarrow> string \<Rightarrow> string \<Rightarrow> ('r, 's) world \<Rightarrow> (unit, ('r, 's) world) outcome" where
  "abortMultipartUpload P key uploadId w =
     (let (ok, st) = s3_abort (store P) filesBucket key (Some uploadId) (objects w);
          w1 = w\<lparr>objects := st\<rparr>
      in (if ok then Inr () else Inl abort_failed, w1))"

text \<open>An abort whose rejection is swallowed.\<close>

definition abort_quietly ::
    "('r, 's) platform \<Rightarrow> string \<Rightarrow> string option \<Rightarrow> ('r, 's) world \<Rightarrow> ('r, 's) world" where
  "abort_quietly P key uploadId w =
     w\<lparr>objects := snd (s3_abort (store P) filesBucket key uploadId (objects w))\<rparr>"

definition delete_quietly :: "('r, 's) platform \<Rightarrow> string \<Rightarrow> ('r, 's) world \<Rightarrow> ('r, 's) world" where
  "delete_quietly P key w =
     w\<lparr>objects := snd (s3_delete (store P) filesBucket key (objects w))\<rparr>"

definition has_storage :: "upload_meta \<Rightarrow> string option" where
  "has_storage meta =
     (case meta_s3UploadId meta of
        None \<Rightarrow> None
      | Some sid \<Rightarrow> if sid = [] \<or> meta_storageKey meta = [] then None else Some sid)"

definition abortActiveUpload ::
    "('r, 's) platform \<Rightarrow> string \<Rightarrow> ('r, 's) world \<Rightarrow> string \<times> upload_meta \<Rightarrow>
     (unit, ('r, 's) world) outcome" where
  "abortActiveUpload P userId w candidate =
     (case candidate of (uploadId, meta) \<Rightarrow>
        let finish = (\<lambda>w. (Inr (), releaseActiveUpload P userId uploadId
              (redis_del P (getUploadMetaKey userId uploadId) w)))
        in (case has_storage meta of
              None \<Rightarrow> finish w
            | Some sid \<Rightarrow>
                (case abortMultipartUpload P (meta_storageKey meta) sid w of
                   (Inl e, w1) \<Rightarrow> (Inl e, w1)
                 | (Inr _, w1) \<Rightarrow> finish (redis_del P (getUploadStorageIndexKey sid) w1))))"

section \<open>One active upload per user\<close>

fun redis_srem_all :: "('r, 's) platform \<Rightarrow> string \<Rightarrow> string list \<Rightarrow> ('r, 's) world \<Rightarrow> ('r, 's) world" where
  "redis_srem_all P key [] w = w"
| "redis_srem_all P key (m # ms) w = redis_srem_all P key ms (redis_srem P key m w)"

definition upload_candidates ::
    "('r, 's) platform \<Rightarrow> string \<Rightarrow> ('r, 's) world \<Rightarrow> string list \<Rightarrow> (string \<times> upload_meta) list" where
  "upload_candidates P userId w uploadIds =
     concat (map (\<lambda>i. case redis_get P w (getUploadMetaKey userId i) of
         None \<Rightarrow> []
       | Some t \<Rightarrow> (case parse_meta t of None \<Rightarrow> [] | Some meta \<Rightarrow> [(i, meta)])) uploadIds)"

definition candidate_createdAt :: "string \<times> upload_meta \<Rightarrow> nat" where
  "candidate_createdAt c = (case meta_createdAt (snd c) of None \<Rightarrow> 0 | Some t \<Rightarrow> t)"

definition makeRoomForActiveUpload ::
    "('r, 's) platform \<Rightarrow> string \<Rightarrow> ('r, 's) world \<Rightarrow> (unit, ('r, 's) world) outcome" where
  "makeRoomForActiveUpload P userId w =
     (let activeKey = getActiveUploadKey userId;
          uploadIds = r_smembers (rds P) (redis w) activeKey
      in if length uploadIds < MAX_ACTIVE_UPLOADS_PER_USER then (Inr (), w)
         else
           (let candidates = upload_candidates P userId w uploadIds;
                stale = filter (\<lambda>i. i \<notin> set (map fst candidates)) uploadIds;
                malformed = filter (\<lambda>i. redis_get P w (getUploadMetaKey userId i) \<noteq> None) stale;
                w1 = redis_srem_all P activeKey stale w;
                w2 = redis_del_all P (map (getUploadMetaKey userId) malformed) w1;
                uploadsToRemove = Suc (length candidates) - MAX_ACTIVE_UPLOADS_PER_USER
            in for_each (abortActiveUpload P userId) w2
                 (take uploadsToRemove (sort_key candidate_createdAt candidates))))"

definition reserveActiveUpload ::
    "('r, 's) platform \<Rightarrow> string \<Rightarrow> string \<Rightarrow> ('r, 's) world \<Rightarrow> (unit, ('r, 's) world) outcome" where
  "reserveActiveUpload P userId uploadId w =
     (case makeRoomForActiveUpload P userId w of
        (Inl e, w1) \<Rightarrow> (Inl e, w1)
      | (Inr _, w1) \<Rightarrow>
          (let activeKey = getActiveUploadKey userId in
           (Inr (), redis_expire P activeKey UPLOAD_META_TTL_SECONDS
              (redis_sadd P activeKey uploadId w1))))"

section \<open>Starting an upload\<close>

definition used_bytes :: "db \<Rightarrow> string \<Rightarrow> nat" where
  "used_bytes d userId = sum_where (\<lambda>f. file_userId f = userId) file_size (files d)"

text \<open>The checks of both transactions: the user, the largest file, the quota.\<close>

definition checkFileLimits ::
    "('r, 's) platform \<Rightarrow> string \<Rightarrow> nat \<Rightarrow> db \<Rightarrow> http_error + unit" where
  "checkFileLimits P userId fileSize d =
     (case user_by_id d userId of
        None \<Rightarrow> Inl (Unauthorized ''User not found'')
      | Some user \<Rightarrow>
          (case getFileLimitsForUsername P (user_username user) of
             Inl e \<Rightarrow> Inl e
           | Inr limits \<Rightarrow>
               if fileSize > lim_maxFileSize limits then Inl (BadRequest ''File too large'')
               else if used_bytes d userId + fileSize > lim_quotaLimit limits
               then Inl (BadRequest ''Quota exceeded'')
               else Inr ()))"

definition truthy :: "string option \<Rightarrow> bool" where
  "truthy s \<longleftrightarrow> (case s of None \<Rightarrow> False | Some t \<Rightarrow> t \<noteq> [])"

text \<open>What the \<open>try\<close> block of the start leaves: its result, the multipart upload it opened and
  whether it wrote the metadata; on success both are reserved.\<close>

definition openUpload ::
    "('r, 's) platform \<Rightarrow> string \<Rightarrow> string \<Rightarrow> upload_meta \<Rightarrow> ('r, 's) world \<Rightarrow>
     (http_error + unit) \<times> string option \<times> bool \<times> ('r, 's) world" where
  "openUpload P userId uploadId meta w =
     (case s3_createMultipart (store P) filesBucket (meta_storageKey meta) (objects w) of
        (None, st) \<Rightarrow> (Inl (Thrown ''CreateMultipartUpload''), None, False, w\<lparr>objects := st\<rparr>)
      | (Some sid, st) \<Rightarrow>
          (let w1 = w\<lparr>objects := st\<rparr> in
           if \<not> truthy sid
           then (Inl (InternalError ''Storage did not create a multipart upload''), None, False, w1)
           else
             (let s3UploadId = the sid;
                  metaKey = getUploadMetaKey userId uploadId;
                  w2 = redis_set P metaKey (MetaJson (meta\<lparr>meta_s3UploadId := Some s3UploadId\<rparr>))
                    UPLOAD_META_TTL_SECONDS w1;
                  w3 = setUploadStorageIndex P s3UploadId
                    \<lparr>idx_metaKey = metaKey, idx_activeKey = getActiveUploadKey userId,
                     idx_uploadId = uploadId\<rparr> w2
              in case reserveActiveUpload P userId uploadId w3 of
                   (Inl e, w4) \<Rightarrow> (Inl e, Some s3UploadId, True, w4)
                 | (Inr _, w4) \<Rightarrow> (Inr (), Some s3UploadId, True, w4))))"

definition undoOpen ::
    "('r, 's) platform \<Rightarrow> string \<Rightarrow> string \<Rightarrow> string \<Rightarrow> string option \<Rightarrow> bool \<Rightarrow> ('r, 's) world \<Rightarrow> ('r, 's) world"
where
  "undoOpen P userId uploadId storageKey s3UploadId uploadMetaCreated w =
     (let w1 = (case s3UploadId of None \<Rightarrow> w | Some sid \<Rightarrow> abort_quietly P storageKey (Some sid) w);
          w2 = (if uploadMetaCreated then redis_del P (getUploadMetaKey userId uploadId) w1 else w1)
      in case s3UploadId of None \<Rightarrow> w2 | Some sid \<Rightarrow> redis_del P (getUploadStorageIndexKey sid) w2)"

definition wrong_chunk_count :: http_error where
  "wrong_chunk_count = BadRequest ''Invalid chunk count''"

text \<open>The reservation under the user's lock.\<close>

definition startUpload ::
    "('r, 's) platform \<Rightarrow> string \<Rightarrow> string \<Rightarrow> upload_meta \<Rightarrow> ('r, 's) world \<Rightarrow>
     (string, ('r, 's) world) outcome" where
  "startUpload P userId uploadId meta w =
     (case acquireUploadInitLock P userId w of
        (Inl e, w1) \<Rightarrow> (Inl e, w1)
      | (Inr token, w1) \<Rightarrow>
          (case openUpload P userId uploadId meta w1 of
             (Inr _, _, _, w2) \<Rightarrow> (Inr uploadId, releaseUploadInitLock P userId token w2)
           | (Inl e, sid, created, w2) \<Rightarrow>
               (Inl e, releaseUploadInitLock P userId token
                  (undoOpen P userId uploadId (meta_storageKey meta) sid created w2))))"

definition newUploadMeta :: "init_upload_dto \<Rightarrow> string \<Rightarrow> string option \<Rightarrow> time \<Rightarrow> upload_meta" where
  "newUploadMeta dto storageKey passwordHash t =
     \<lparr>meta_totalChunks = iu_totalChunks dto, meta_nextExpectedChunk = 0,
      meta_fileSize = iu_fileSize dto, meta_passwordHash = passwordHash,
      meta_expiresIn = (case iu_expiresIn dto of None \<Rightarrow> ''30d'' | Some e \<Rightarrow> e),
      meta_storageKey = storageKey, meta_s3UploadId = None, meta_parts = [],
      meta_createdAt = Some t, meta_updatedAt = Some t\<rparr>"

definition hashUploadPassword ::
    "('r, 's) platform \<Rightarrow> string option \<Rightarrow> ('r, 's) world \<Rightarrow> string option \<times> ('r, 's) world" where
  "hashUploadPassword P password w =
     (if truthy password
      then (Some (bcrypt_hash P (draws w) (the password) 12), w\<lparr>draws := Suc (draws w)\<rparr>)
      else (None, w))"

definition initializeUpload ::
    "('r, 's) platform \<Rightarrow> string \<Rightarrow> init_upload_dto \<Rightarrow> ('r, 's) world \<Rightarrow>
     (string, ('r, 's) world) outcome" where
  "initializeUpload P userId dto w =
     (case getMasterKeyForUser P userId w of
        Inl e \<Rightarrow> (Inl e, w)
      | Inr _ \<Rightarrow>
          if iu_totalChunks dto \<noteq> chunk_count (iu_fileSize dto) then (Inl wrong_chunk_count, w)
          else
            (case checkFileLimits P userId (iu_fileSize dto) (db w) of
               Inl e \<Rightarrow> (Inl e, w)
             | Inr _ \<Rightarrow>
                 (let (uploadId, w1) = randomUUID P w;
                      (storageId, w2) = randomUUID P w1;
                      (passwordHash, w3) = hashUploadPassword P (iu_password dto) w2
                  in startUpload P userId uploadId
                       (newUploadMeta dto (storageId @ ''.bin'') passwordHash (now w)) w3)))"

section \<open>A chunk\<close>

definition invalid_upload_id :: http_error where
  "invalid_upload_id = BadRequest ''Invalid or expired Upload ID''"

text \<open>Reading the state and checking the request against it.\<close>

definition checkChunk ::
    "('r, 's) platform \<Rightarrow> string \<Rightarrow> string \<Rightarrow> bytes option \<Rightarrow> nat \<Rightarrow> ('r, 's) world \<Rightarrow>
     http_error + upload_meta" where
  "checkChunk P userId uploadId file chunkIndex w =
     (case file of
        None \<Rightarrow> Inl (BadRequest ''File data is missing'')
      | Some body \<Rightarrow>
          (case redis_get P w (getUploadMetaKey userId uploadId) of
             None \<Rightarrow> Inl invalid_upload_id
           | Some metaStr \<Rightarrow>
               (case parse_meta metaStr of
                  None \<Rightarrow> Inl (Thrown ''SyntaxError'')
                | Some meta \<Rightarrow>
                    if \<not> truthy (meta_s3UploadId meta) then Inl (BadRequest ''Invalid Upload ID'')
                    else if chunkIndex \<noteq> meta_nextExpectedChunk meta
                    then Inl (BadRequest ''Wrong chunk order'')
                    else if chunkIndex \<ge> meta_totalChunks meta
                    then Inl (BadRequest ''Invalid chunk index'')
                    else if int (length body) \<noteq> expectedChunkSize meta chunkIndex
                    then Inl (BadRequest ''Invalid chunk size'')
                    else Inr meta)))"

definition refreshChunk ::
    "('r, 's) platform \<Rightarrow> string \<Rightarrow> string \<Rightarrow> upload_meta \<Rightarrow> ('r, 's) world \<Rightarrow>
     upload_meta \<times> ('r, 's) world" where
  "refreshChunk P userId uploadId meta w =
     (let meta1 = meta\<lparr>meta_updatedAt := Some (now w)\<rparr>
      in (meta1, refreshUploadState P userId uploadId meta1 w))"

definition sendPart ::
    "('r, 's) platform \<Rightarrow> upload_meta \<Rightarrow> nat \<Rightarrow> bytes \<Rightarrow> ('r, 's) world \<Rightarrow>
     (string option, ('r, 's) world) outcome" where
  "sendPart P meta chunkIndex body w =
     (case s3_uploadPart (store P) filesBucket (meta_storageKey meta) (the (meta_s3UploadId meta))
         (chunkIndex + 1) body (objects w) of
        (None, st) \<Rightarrow> (Inl (Thrown ''UploadPart''), w\<lparr>objects := st\<rparr>)
      | (Some etag, st) \<Rightarrow> (Inr etag, w\<lparr>objects := st\<rparr>))"

definition upload_cancelled :: http_error where
  "upload_cancelled = BadRequest ''Upload was cancelled''"

definition recordPart ::
    "('r, 's) platform \<Rightarrow> string \<Rightarrow> string \<Rightarrow> upload_meta \<Rightarrow> nat \<Rightarrow> string option \<Rightarrow> ('r, 's) world \<Rightarrow>
     (unit, ('r, 's) world) outcome" where
  "recordPart P userId uploadId meta chunkIndex etag w =
     (if redis_get P w (getUploadMetaKey userId uploadId) = None
      then (Inl upload_cancelled, abort_quietly P (meta_storageKey meta) (meta_s3UploadId meta) w)
      else
        (let meta1 = meta\<lparr>meta_parts := meta_parts meta @ [(chunkIndex + 1, etag)],
               meta_nextExpectedChunk := Suc (meta_nextExpectedChunk meta),
               meta_updatedAt := Some (now w)\<rparr>
         in (Inr (), refreshUploadState P userId uploadId meta1 w)))"

definition handleChunk ::
    "('r, 's) platform \<Rightarrow> string \<Rightarrow> string \<Rightarrow> bytes option \<Rightarrow> nat \<Rightarrow> ('r, 's) world \<Rightarrow>
     (unit, ('r, 's) world) outcome" where
  "handleChunk P userId uploadId file chunkIndex w =
     (case checkChunk P userId uploadId file chunkIndex w of
        Inl e \<Rightarrow> (Inl e, w)
      | Inr meta \<Rightarrow>
          (let (meta1, w1) = refreshChunk P userId uploadId meta w in
           case sendPart P meta1 chunkIndex (the file) w1 of
             (Inl e, w2) \<Rightarrow> (Inl e, w2)
           | (Inr etag, w2) \<Rightarrow> recordPart P userId uploadId meta1 chunkIndex etag w2))"

section \<open>Completing an upload\<close>

record complete_upload_dto =
  cu_uploadId :: string
  cu_fileName :: string
  cu_mimetype :: string
  cu_fileKey :: string
  cu_totalChunks :: nat

text \<open>The transaction: the checks again, then the row. \<open>storageName\<close> is unique.\<close>

definition finalize_tx ::
    "('r, 's) platform \<Rightarrow> file_row \<Rightarrow> db \<Rightarrow> http_error + db" where
  "finalize_tx P row d =
     (case checkFileLimits P (file_userId row) (file_size row) d of
        Inl e \<Rightarrow> Inl e
      | Inr _ \<Rightarrow>
          if file_storageName row \<in> set (map file_storageName (files d)) then Inl unique_conflict
          else Inr (d\<lparr>files := files d @ [row]\<rparr>))"

text \<open>The \<open>try\<close> block: its result, and whether the multipart upload was completed.\<close>

definition completeUpload ::
    "('r, 's) platform \<Rightarrow> string \<Rightarrow> complete_upload_dto \<Rightarrow> string \<Rightarrow> string \<Rightarrow> upload_meta \<Rightarrow>
     ('r, 's) world \<Rightarrow> (http_error + file_row) \<times> bool \<times> ('r, 's) world" where
  "completeUpload P userId dto encryptedFileKey fileKeyIv meta w =
     (let (ok, st) = s3_complete (store P) filesBucket (meta_storageKey meta) (meta_s3UploadId meta)
            (sort_key fst (meta_parts meta)) (objects w);
          w1 = w\<lparr>objects := st\<rparr>
      in if \<not> ok then (Inl (Thrown ''CompleteMultipartUpload''), False, w1)
         else
           (let (reply, st2) = s3_head (store P) filesBucket (meta_storageKey meta) (objects w1);
                w2 = w1\<lparr>objects := st2\<rparr>
            in case reply of
                 None \<Rightarrow> (Inl (Thrown ''HeadObject''), True, w2)
               | Some contentLength \<Rightarrow>
                   (case getExpectedEncryptedSize (meta_fileSize meta) of
                      Inl e \<Rightarrow> (Inl e, True, w2)
                    | Inr expected \<Rightarrow>
                        if contentLength \<noteq> Some expected
                        then (Inl (InternalError ''Stored file size validation failed''), True, w2)
                        else
                          (let (fileId, w3) = randomUUID P w2;
                               (shareToken, w4) = randomUUID P w3;
                               row = \<lparr>file_id = fileId, file_originalName = cu_fileName dto,
                                 file_storageName = meta_storageKey meta,
                                 file_size = meta_fileSize meta, file_mimetype = cu_mimetype dto,
                                 file_userId = userId, file_createdAt = now w,
                                 file_expiresAt = calculateExpiration P (now w) (meta_expiresIn meta),
                                 file_shareToken = shareToken,
                                 file_passwordHash = meta_passwordHash meta,
                                 file_encryptedFileKey = encryptedFileKey,
                                 file_fileKeyIv = fileKeyIv\<rparr>
                           in case finalize_tx P row (db w4) of
                                Inl e \<Rightarrow> (Inl e, True, w4)
                              | Inr d \<Rightarrow> (Inr row, True, w4\<lparr>db := d\<rparr>)))))"

text \<open>The Redis state of an upload is dropped on either way out.\<close>

definition dropUploadState ::
    "('r, 's) platform \<Rightarrow> string \<Rightarrow> string \<Rightarrow> upload_meta \<Rightarrow> ('r, 's) world \<Rightarrow> ('r, 's) world" where
  "dropUploadState P userId uploadId meta w =
     (let w1 = redis_del P (getUploadMetaKey userId uploadId) w;
          w2 = (if truthy (meta_s3UploadId meta)
                then redis_del P (getUploadStorageIndexKey (the (meta_s3UploadId meta))) w1 else w1)
      in releaseActiveUpload P userId uploadId w2)"

definition finalize_error :: "http_error \<Rightarrow> http_error" where
  "finalize_error e =
     (case e of
        BadRequest m \<Rightarrow> BadRequest m
      | Unauthorized m \<Rightarrow> Unauthorized m
      | _ \<Rightarrow> InternalError ''Finalize failed'')"

definition finalizeUpload ::
    "('r, 's) platform \<Rightarrow> string \<Rightarrow> complete_upload_dto \<Rightarrow> ('r, 's) world \<Rightarrow>
     (file_row, ('r, 's) world) outcome" where
  "finalizeUpload P userId dto w =
     (case getMasterKeyForUser P userId w of
        Inl e \<Rightarrow> (Inl e, w)
      | Inr masterKey \<Rightarrow>
          (let (fileKeyIv, w1) = randomBytesOf P 16 w;
               encryptedFileKey = hex (aes_cbc_encrypt P masterKey fileKeyIv (utf8 P (cu_fileKey dto)));
               uploadId = cu_uploadId dto
           in case redis_get P w1 (getUploadMetaKey userId uploadId) of
                None \<Rightarrow> (Inl (BadRequest ''Metadata expired''), w1)
              | Some metaStr \<Rightarrow>
                  (case parse_meta metaStr of
                     None \<Rightarrow> (Inl (Thrown ''SyntaxError''), w1)
                   | Some meta \<Rightarrow>
                       if length (meta_parts meta) \<noteq> meta_totalChunks meta
                       then (Inl (BadRequest ''Not all chunks uploaded yet''), w1)
                       else if cu_totalChunks dto \<noteq> meta_totalChunks meta
                       then (Inl (BadRequest ''Chunk count does not match initialized upload''), w1)
                       else
                         (case completeUpload P userId dto encryptedFileKey (hex fileKeyIv) meta w1 of
                            (Inr row, _, w2) \<Rightarrow> (Inr row, dropUploadState P userId uploadId meta w2)
                          | (Inl e, completed, w2) \<Rightarrow>
                              (let w3 = (if completed then delete_quietly P (meta_storageKey meta) w2
                                 else abort_quietly P (meta_storageKey meta) (meta_s3UploadId meta) w2)
                               in (Inl (finalize_error e), dropUploadState P userId uploadId meta w3))))))"

definition cancelUpload ::
    "('r, 's) platform \<Rightarrow> string \<Rightarrow> string \<Rightarrow> ('r, 's) world \<Rightarrow> (unit, ('r, 's) world) outcome" where
  "cancelUpload P userId uploadId w =
     (let metaKey = getUploadMetaKey userId uploadId;
          finish = (\<lambda>w. (Inr (), releaseActiveUpload P userId uploadId (redis_del P metaKey w)))
      in case redis_get P w metaKey of
           None \<Rightarrow> (Inr (), releaseActiveUpload P userId uploadId w)
         | Some metaStr \<Rightarrow>
             (case parse_meta metaStr of
                None \<Rightarrow> finish w
              | Some meta \<Rightarrow>
                  (case has_storage meta of
                     None \<Rightarrow> finish w
                   | Some sid \<Rightarrow>
                       (case abortMultipartUpload P (meta_storageKey meta) sid w of
                          (Inl e, w1) \<Rightarrow> (Inl e, w1)
                        | (Inr _, w1) \<Rightarrow> finish (redis_del P (getUploadStorageIndexKey sid) w1)))))"

end
