(* ===== verification/File_Access.thy ===== *)
theory File_Access
  imports Upload
begin

text \<open>
  The rest of \<^verbatim>\<open>FilesService\<close>: downloads behind a share token and a password gate
  with a limit on failed attempts, the owner's list with the quota, deletion by the owner, the
  hourly removal of expired files and the clean-up of abandoned multipart uploads; and the guard of
  chunk requests.
\<close>

section \<open>Removal of a file\<close>

definition deleteFileInternal :: "('r, 's) platform \<Rightarrow> string \<Rightarrow> ('r, 's) world \<Rightarrow> ('r, 's) world" where
  "deleteFileInternal P fileId w =
     (case find (\<lambda>f. file_id f = fileId) (files (db w)) of
        None \<Rightarrow> w
      | Some file \<Rightarrow>
          (let w1 = delete_quietly P (file_storageName file) w
           in w1\<lparr>db := delete_files (\<lambda>f. file_id f = fileId) (db w1)\<rparr>))"

definition file_not_found :: http_error where
  "file_not_found = NotFound ''File not found''"

definition deleteFile ::
    "('r, 's) platform \<Rightarrow> string \<Rightarrow> string \<Rightarrow> ('r, 's) world \<Rightarrow> (unit, ('r, 's) world) outcome" where
  "deleteFile P userId fileId w =
     (case find (\<lambda>f. file_id f = fileId) (files (db w)) of
        None \<Rightarrow> (Inl file_not_found, w)
      | Some file \<Rightarrow>
          if file_userId file \<noteq> userId then (Inl file_not_found, w)
          else (Inr (), deleteFileInternal P fileId w))"

text \<open>The hourly job.\<close>

fun deleteEach :: "('r, 's) platform \<Rightarrow> string list \<Rightarrow> ('r, 's) world \<Rightarrow> ('r, 's) world" where
  "deleteEach P [] w = w"
| "deleteEach P (i # ids) w = deleteEach P ids (deleteFileInternal P i w)"

definition handleCleanup :: "('r, 's) platform \<Rightarrow> ('r, 's) world \<Rightarrow> ('r, 's) world" where
  "handleCleanup P w =
     deleteEach P (map file_id (filter (\<lambda>f. file_expiresAt f < now w) (files (db w)))) w"

section \<open>Downloads\<close>

definition getDownloadableFile ::
    "('r, 's) platform \<Rightarrow> string \<Rightarrow> string \<Rightarrow> ('r, 's) world \<Rightarrow>
     (file_row, ('r, 's) world) outcome" where
  "getDownloadableFile P fileId token w =
     (case find (\<lambda>f. file_id f = fileId) (files (db w)) of
        None \<Rightarrow> (Inl (NotFound ''File not found or invalid token''), w)
      | Some file \<Rightarrow>
          if file_shareToken file \<noteq> token
          then (Inl (NotFound ''File not found or invalid token''), w)
          else if file_expiresAt file < now w
          then (Inl (NotFound ''File has expired''), deleteFileInternal P (file_id file) w)
          else (Inr file, w))"

definition passwordFailureNs :: string where
  "passwordFailureNs = ''files:download:password-failure''"

definition attemptSubject :: "file_row \<Rightarrow> string \<Rightarrow> string" where
  "attemptSubject file clientIp = ''file:'' @ file_id file @ '':ip:'' @ clientIp"

definition assertDownloadPassword ::
    "('r, 's) platform \<Rightarrow> file_row \<Rightarrow> string option \<Rightarrow> string \<Rightarrow> ('r, 's) world \<Rightarrow>
     (unit, ('r, 's) world) outcome" where
  "assertDownloadPassword P file providedPassword clientIp w =
     (if \<not> truthy (file_passwordHash file) then (Inr (), w)
      else if \<not> truthy providedPassword
      then (Inl (Forbidden ''This file is password protected''), w)
      else
        (let subject = attemptSubject file clientIp in
         case assertAvailable (rds P) (sha256 P) passwordFailureNs subject 10 (15 * 60) (redis w) of
           Inl e \<Rightarrow> (Inl e, w)
         | Inr _ \<Rightarrow>
             if \<not> bcrypt_compare P (the providedPassword) (the (file_passwordHash file))
             then
               (case consumeAttempt (rds P) (sha256 P) passwordFailureNs subject 10 (15 * 60) (redis w) of
                  (Inl e, r) \<Rightarrow> (Inl e, w\<lparr>redis := r\<rparr>)
                | (Inr _, r) \<Rightarrow> (Inl (Forbidden ''Incorrect password''), w\<lparr>redis := r\<rparr>))
             else
               (Inr (), w\<lparr>redis := clearAttempts (rds P) (sha256 P) passwordFailureNs subject (redis w)\<rparr>)))"

record download_metadata =
  dm_fileName :: string
  dm_mimeType :: string
  dm_plaintextSize :: nat
  dm_encryptedSize :: nat
  dm_chunkSize :: nat
  dm_chunkCount :: nat
  dm_encryptionOverhead :: nat
  dm_format :: string
  dm_passwordProtected :: bool

definition FILE_ENCRYPTION_FORMAT :: string where
  "FILE_ENCRYPTION_FORMAT = ''aes-gcm-chunked-v1-or-aad-v2''"

definition metadataOf :: "file_row \<Rightarrow> http_error + download_metadata" where
  "metadataOf file =
     (case getExpectedEncryptedSize (file_size file) of
        Inl e \<Rightarrow> Inl e
      | Inr encryptedSize \<Rightarrow>
          Inr \<lparr>dm_fileName = file_originalName file, dm_mimeType = file_mimetype file,
               dm_plaintextSize = file_size file, dm_encryptedSize = encryptedSize,
               dm_chunkSize = PLAINTEXT_CHUNK_SIZE_BYTES,
               dm_chunkCount = chunk_count (file_size file),
               dm_encryptionOverhead = ENCRYPTED_CHUNK_OVERHEAD_BYTES,
               dm_format = FILE_ENCRYPTION_FORMAT,
               dm_passwordProtected = truthy (file_passwordHash file)\<rparr>)"

definition getDownloadMetadata ::
    "('r, 's) platform \<Rightarrow> string \<Rightarrow> string \<Rightarrow> string option \<Rightarrow> string \<Rightarrow> ('r, 's) world \<Rightarrow>
     (download_metadata, ('r, 's) world) outcome" where
  "getDownloadMetadata P fileId token providedPassword clientIp w =
     (case getDownloadableFile P fileId token w of
        (Inl e, w1) \<Rightarrow> (Inl e, w1)
      | (Inr file, w1) \<Rightarrow>
          (case assertDownloadPassword P file providedPassword clientIp w1 of
             (Inl e, w2) \<Rightarrow> (Inl e, w2)
           | (Inr _, w2) \<Rightarrow> (metadataOf file, w2)))"

text \<open>The stream is destroyed where the size does not match: nothing of it reaches the client.\<close>

definition downloadFile ::
    "('r, 's) platform \<Rightarrow> string \<Rightarrow> string \<Rightarrow> string option \<Rightarrow> string \<Rightarrow> ('r, 's) world \<Rightarrow>
     (bytes \<times> download_metadata, ('r, 's) world) outcome" where
  "downloadFile P fileId token providedPassword clientIp w =
     (case getDownloadableFile P fileId token w of
        (Inl e, w1) \<Rightarrow> (Inl e, w1)
      | (Inr file, w1) \<Rightarrow>
          (case assertDownloadPassword P file providedPassword clientIp w1 of
             (Inl e, w2) \<Rightarrow> (Inl e, w2)
           | (Inr _, w2) \<Rightarrow>
               (let (reply, st) = s3_get (store P) filesBucket (file_storageName file) (objects w2);
                    w3 = w2\<lparr>objects := st\<rparr>
                in case reply of
                     None \<Rightarrow> (Inl (Thrown ''GetObject''), w3)
                   | Some (None, _) \<Rightarrow> (Inl (InternalError ''File not found in storage''), w3)
                   | Some (Some stream, contentLength) \<Rightarrow>
                       (case metadataOf file of
                          Inl e \<Rightarrow> (Inl e, w3)
                        | Inr metadata \<Rightarrow>
                            if contentLength \<noteq> Some (dm_encryptedSize metadata)
                            then (Inl (InternalError ''Stored file size validation failed''), w3)
                            else (Inr (stream, metadata), w3)))))"

section \<open>The owner's list\<close>

record user_file =
  uf_id :: string
  uf_originalName :: string
  uf_size :: nat
  uf_mimetype :: string
  uf_createdAt :: time
  uf_expiresAt :: time
  uf_shareLink :: string

definition fileKeyOf :: "('r, 's) platform \<Rightarrow> bytes \<Rightarrow> file_row \<Rightarrow> string" where
  "fileKeyOf P masterKey file =
     (case aes_cbc_decrypt P masterKey (unhex (file_fileKeyIv file)) (unhex (file_encryptedFileKey file)) of
        None \<Rightarrow> ''error''
      | Some key \<Rightarrow> utf8_text P key)"

definition toUserFile :: "('r, 's) platform \<Rightarrow> bytes \<Rightarrow> file_row \<Rightarrow> user_file" where
  "toUserFile P masterKey file =
     \<lparr>uf_id = file_id file, uf_originalName = file_originalName file, uf_size = file_size file,
      uf_mimetype = file_mimetype file, uf_createdAt = file_createdAt file,
      uf_expiresAt = file_expiresAt file,
      uf_shareLink = ''/d/'' @ file_id file @ ''?token='' @ file_shareToken file @ ''#'' @
        fileKeyOf P masterKey file\<rparr>"

record files_overview =
  fo_files :: "user_file list"
  fo_totalUsed :: nat
  fo_quotaLimit :: nat
  fo_maxFileSize :: nat

definition getUserFilesWithQuota ::
    "('r, 's) platform \<Rightarrow> string \<Rightarrow> ('r, 's) world \<Rightarrow> http_error + files_overview" where
  "getUserFilesWithQuota P userId w =
     (case getMasterKeyForUser P userId w of
        Inl e \<Rightarrow> Inl e
      | Inr masterKey \<Rightarrow>
          (case user_by_id (db w) userId of
             None \<Rightarrow> Inl (Unauthorized ''User not found'')
           | Some user \<Rightarrow>
               (case getFileLimitsForUsername P (user_username user) of
                  Inl e \<Rightarrow> Inl e
                | Inr limits \<Rightarrow>
                    Inr \<lparr>fo_files = map (toUserFile P masterKey)
                           (order_desc file_createdAt (filter (\<lambda>f. file_userId f = userId) (files (db w)))),
                         fo_totalUsed = used_bytes (db w) userId,
                         fo_quotaLimit = lim_quotaLimit limits,
                         fo_maxFileSize = lim_maxFileSize limits\<rparr>)))"

section \<open>Abandoned multipart uploads\<close>

definition removeTrackedUploadState ::
    "('r, 's) platform \<Rightarrow> string \<Rightarrow> ('r, 's) world \<Rightarrow> ('r, 's) world" where
  "removeTrackedUploadState P s3UploadId w =
     (let indexKey = getUploadStorageIndexKey s3UploadId in
      case redis_get P w indexKey of
        None \<Rightarrow> w
      | Some indexStr \<Rightarrow>
          (case parse_index indexStr of
             None \<Rightarrow> redis_del P indexKey w
           | Some index \<Rightarrow>
               redis_del P indexKey
                 (redis_srem P (idx_activeKey index) (idx_uploadId index)
                   (redis_del P (idx_metaKey index) w))))"

text \<open>The activity that Redis knows of, where it knows any.\<close>

definition trackedActivity :: "('r, 's) platform \<Rightarrow> string \<Rightarrow> ('r, 's) world \<Rightarrow> time option" where
  "trackedActivity P uploadId w =
     (case redis_get P w (getUploadStorageIndexKey uploadId) of
        None \<Rightarrow> None
      | Some trackedState \<Rightarrow>
          (case parse_index trackedState of
             None \<Rightarrow> None
           | Some index \<Rightarrow>
               (case redis_get P w (idx_metaKey index) of
                  None \<Rightarrow> None
                | Some metaStr \<Rightarrow>
                    (case parse_meta metaStr of
                       None \<Rightarrow> None
                     | Some meta \<Rightarrow>
                         (case meta_updatedAt meta of
                            Some t \<Rightarrow> Some t
                          | None \<Rightarrow> meta_createdAt meta)))))"

text \<open>The pages of the parts; the store decides when they end. \<open>Inl\<close> of the result: a page was
  refused.\<close>

partial_function (option) partsActivity ::
    "('r, 's) platform \<Rightarrow> string \<Rightarrow> string \<Rightarrow> string option \<Rightarrow> time \<Rightarrow> 's \<Rightarrow>
     ((http_error + time) \<times> 's) option" where
  "partsActivity P key uploadId marker newest st =
     (case s3_listParts (store P) filesBucket key uploadId marker st of
        (None, st1) \<Rightarrow> Some (Inl (Thrown ''ListParts''), st1)
      | (Some listing, st1) \<Rightarrow>
          (let newest1 = fold (\<lambda>t m. max m (case t of None \<Rightarrow> 0 | Some x \<Rightarrow> x)) (pp_lastModified listing) newest;
               nextMarker = (if pp_isTruncated listing then pp_nextMarker listing else None)
           in if truthy nextMarker then partsActivity P key uploadId nextMarker newest1 st1
              else Some (Inr newest1, st1)))"

definition getMultipartLastActivity ::
    "('r, 's) platform \<Rightarrow> string \<Rightarrow> string \<Rightarrow> time option \<Rightarrow> ('r, 's) world \<Rightarrow>
     (time, ('r, 's) world) outcome option" where
  "getMultipartLastActivity P key uploadId initiated w =
     (case trackedActivity P uploadId w of
        Some t \<Rightarrow> Some (Inr t, w)
      | None \<Rightarrow>
          map_option (\<lambda>(r, st). (r, w\<lparr>objects := st\<rparr>))
            (partsActivity P key uploadId None (case initiated of None \<Rightarrow> 0 | Some t \<Rightarrow> t) (objects w)))"

text \<open>One listed upload; what goes wrong with it is logged and does not stop the others.\<close>

definition cleanOne ::
    "('r, 's) platform \<Rightarrow> int \<Rightarrow> string option \<times> string option \<times> time option \<Rightarrow> ('r, 's) world \<Rightarrow>
     (nat \<times> ('r, 's) world) option" where
  "cleanOne P cutoff upload w =
     (case upload of (key, uploadId, initiated) \<Rightarrow>
        if \<not> truthy key \<or> \<not> truthy uploadId then Some (0, w)
        else
          (case getMultipartLastActivity P (the key) (the uploadId) initiated w of
             None \<Rightarrow> None
           | Some (Inl _, w1) \<Rightarrow> Some (0, w1)
           | Some (Inr lastActivity, w1) \<Rightarrow>
               if int lastActivity > cutoff then Some (0, w1)
               else
                 (case abortMultipartUpload P (the key) (the uploadId) w1 of
                    (Inl _, w2) \<Rightarrow> Some (0, w2)
                  | (Inr _, w2) \<Rightarrow> Some (1, removeTrackedUploadState P (the uploadId) w2))))"

fun cleanPage ::
    "('r, 's) platform \<Rightarrow> int \<Rightarrow> (string option \<times> string option \<times> time option) list \<Rightarrow>
     nat \<Rightarrow> ('r, 's) world \<Rightarrow> (nat \<times> ('r, 's) world) option" where
  "cleanPage P cutoff [] n w = Some (n, w)"
| "cleanPage P cutoff (u # us) n w =
     (case cleanOne P cutoff u w of
        None \<Rightarrow> None
      | Some (k, w1) \<Rightarrow> cleanPage P cutoff us (n + k) w1)"

partial_function (option) cleanPages ::
    "('r, 's) platform \<Rightarrow> int \<Rightarrow> string option \<Rightarrow> string option \<Rightarrow> nat \<Rightarrow> ('r, 's) world \<Rightarrow>
     (nat \<times> ('r, 's) world) option" where
  "cleanPages P cutoff keyMarker uploadIdMarker n w =
     (case s3_listUploads (store P) filesBucket keyMarker uploadIdMarker (objects w) of
        (None, st) \<Rightarrow> Some (n, w\<lparr>objects := st\<rparr>)
      | (Some listing, st) \<Rightarrow>
          Option.bind (cleanPage P cutoff (up_uploads listing) n (w\<lparr>objects := st\<rparr>)) (\<lambda>(n1, w1).
            if \<not> up_isTruncated listing then Some (n1, w1)
            else if \<not> truthy (up_nextKeyMarker listing) then Some (n1, w1)
            else cleanPages P cutoff (up_nextKeyMarker listing) (up_nextUploadIdMarker listing) n1 w1))"

definition cleanupStaleMultipartUploads ::
    "('r, 's) platform \<Rightarrow> ('r, 's) world \<Rightarrow> (nat \<times> ('r, 's) world) option" where
  "cleanupStaleMultipartUploads P w =
     cleanPages P (int (now w) - int INCOMPLETE_UPLOAD_STALE_MS) None None 0 w"

section \<open>One chunk request at a time\<close>

definition UPLOAD_REQUEST_LOCK_SECONDS :: nat where
  "UPLOAD_REQUEST_LOCK_SECONDS = 60 * 60"

text \<open>\<open>/^[0-9a-f]{8}-[0-9a-f]{4}-[1-5][0-9a-f]{3}-[89ab][0-9a-f]{3}-[0-9a-f]{12}$/i\<close>.\<close>

definition uuid_pattern :: "string \<Rightarrow> bool" where
  "uuid_pattern s \<longleftrightarrow> length s = 36 \<and>
     list_all (\<lambda>i.
       if i \<in> {8, 13, 18, 23} then s ! i = CHR ''-''
       else if i = 14 then s ! i \<in> set ''12345''
       else if i = 19 then s ! i \<in> set ''89abAB''
       else hexValue (s ! i) \<noteq> None) [0..<36]"

definition requestLockKey :: "string \<Rightarrow> string \<Rightarrow> string" where
  "requestLockKey userId uploadId = ''upload:request-lock:'' @ userId @ '':'' @ uploadId"

text \<open>\<open>canActivate\<close>: on success the token the release will present.\<close>

definition chunkGuard ::
    "('r, 's) platform \<Rightarrow> string option \<Rightarrow> string \<Rightarrow> ('r, 's) world \<Rightarrow>
     (string, ('r, 's) world) outcome" where
  "chunkGuard P userId uploadId w =
     (if \<not> truthy userId then (Inl (BadRequest ''Authenticated user is missing''), w)
      else if \<not> uuid_pattern uploadId then (Inl (BadRequest ''Invalid Upload ID''), w)
      else
        (let (token, w1) = randomUUID P w;
             (acquired, r) = r_setnx (rds P) (requestLockKey (the userId) uploadId) (Plain token)
               UPLOAD_REQUEST_LOCK_SECONDS (redis w1);
             w2 = w1\<lparr>redis := r\<rparr>
         in if acquired then (Inr token, w2)
            else (Inl (Conflict ''Another chunk is already being uploaded''), w2)))"

definition releaseChunkGuard ::
    "('r, 's) platform \<Rightarrow> string \<Rightarrow> string \<Rightarrow> string \<Rightarrow> ('r, 's) world \<Rightarrow> ('r, 's) world" where
  "releaseChunkGuard P userId uploadId token w =
     w\<lparr>redis := compare_and_delete (rds P) (requestLockKey userId uploadId) token (redis w)\<rparr>"

end
