(* ===== verification/Auth.thy ===== *)
theory Auth
  imports Admin_Users
begin

text \<open>
  \<^verbatim>\<open>AuthService\<close> (\<^verbatim>\<open>auth/auth.service.ts\<close>), the internal and the
  administrator's counterparts (\<^verbatim>\<open>auth/internal/internal-auth.service.ts\<close>,
  \<^verbatim>\<open>admin/auth/admin-auth.service.ts\<close>) and the token strategies that gate every
  authenticated route: registration by invite code, login, token rotation, logout, password change
  and recovery with the master key wrapped under the password and under the recovery phrase.
\<close>

section \<open>Master key store\<close>

record mk_store =
  mk_encrypted :: string
  mk_iv :: string
  mk_salt :: string

definition generateMasterKeyStore ::
    "('r, 's) platform \<Rightarrow> string \<Rightarrow> bytes \<Rightarrow> ('r, 's) world \<Rightarrow> mk_store \<times> ('r, 's) world" where
  "generateMasterKeyStore P secret rawMasterKey w =
     (let (iv, w1) = randomBytesOf P 16 w;
          (salt, w2) = randomBytesOf P 16 w1;
          derivedKey = scrypt P secret salt
      in (\<lparr>mk_encrypted = hex (aes_cbc_encrypt P derivedKey iv rawMasterKey),
           mk_iv = hex iv, mk_salt = hex salt\<rparr>, w2))"

definition reEncryptMasterKey ::
    "('r, 's) platform \<Rightarrow> bytes \<Rightarrow> string \<Rightarrow> ('r, 's) world \<Rightarrow> mk_store \<times> ('r, 's) world" where
  "reEncryptMasterKey P rawMasterKey newPassword w =
     (let (iv, w1) = randomBytesOf P 16 w;
          (salt, w2) = randomBytesOf P 16 w1;
          derivedKey = scrypt P newPassword salt
      in (\<lparr>mk_encrypted = hex (aes_cbc_encrypt P derivedKey iv rawMasterKey),
           mk_iv = hex iv, mk_salt = hex salt\<rparr>, w2))"

definition decipher_failed :: http_error where
  "decipher_failed = Thrown ''bad decrypt''"

text \<open>\<open>Buffer.from(null, 'hex')\<close> throws a \<open>TypeError\<close>.\<close>

definition decryptMasterKey ::
    "('r, 's) platform \<Rightarrow> string \<Rightarrow> user \<Rightarrow> http_error + bytes" where
  "decryptMasterKey P password user =
     (case (user_encryptedMasterKey user, user_masterKeyIv user, user_masterKeySalt user) of
        (Some enc, Some iv, Some salt) \<Rightarrow>
          (case aes_cbc_decrypt P (scrypt P password (unhex salt)) (unhex iv) (unhex enc) of
             None \<Rightarrow> Inl decipher_failed
           | Some key \<Rightarrow> Inr key)
      | _ \<Rightarrow> Inl (Thrown ''TypeError''))"

section \<open>Recovery phrase\<close>

definition hashRecoveryPhrase ::
    "('r, 's) platform \<Rightarrow> string \<Rightarrow> ('r, 's) world \<Rightarrow> string \<times> ('r, 's) world" where
  "hashRecoveryPhrase P phrase w =
     (bcrypt_hash P (draws w) (sha256 P phrase) 13, w\<lparr>draws := Suc (draws w)\<rparr>)"

definition compareRecoveryPhrase :: "('r, 's) platform \<Rightarrow> string \<Rightarrow> string \<Rightarrow> bool" where
  "compareRecoveryPhrase P phrase h = bcrypt_compare P (sha256 P phrase) h"

definition hashPassword ::
    "('r, 's) platform \<Rightarrow> string \<Rightarrow> ('r, 's) world \<Rightarrow> string \<times> ('r, 's) world" where
  "hashPassword P password w = (bcrypt_hash P (draws w) password 13, w\<lparr>draws := Suc (draws w)\<rparr>)"

section \<open>Tokens\<close>

text \<open>\<open>process.env[name] || fallback\<close>: the raw value, where it is not empty.\<close>

definition env_or :: "('r, 's) platform \<Rightarrow> string \<Rightarrow> string \<Rightarrow> string" where
  "env_or P name fallback =
     (case env P name of None \<Rightarrow> fallback | Some v \<Rightarrow> if v = [] then fallback else v)"

definition signToken ::
    "('r, 's) platform \<Rightarrow> string \<Rightarrow> string \<Rightarrow> jwt_payload \<Rightarrow> ('r, 's) world \<Rightarrow> http_error + string" where
  "signToken P secretName ttl payload w =
     (case requireEnv P secretName of
        Inl e \<Rightarrow> Inl e
      | Inr secret \<Rightarrow> Inr (jwt_sign P secret ttl payload (now w)))"

definition session_payload :: "string \<Rightarrow> string \<Rightarrow> string \<Rightarrow> jwt_payload" where
  "session_payload userId username sessionKey =
     \<lparr>jwt_sub = userId, jwt_username = username, jwt_sessionKey = sessionKey,
      jwt_deletionRequestId = None, jwt_purpose = None\<rparr>"

definition getTokens ::
    "('r, 's) platform \<Rightarrow> string \<Rightarrow> string \<Rightarrow> string \<Rightarrow> ('r, 's) world \<Rightarrow>
     http_error + (string \<times> string)" where
  "getTokens P userId username sessionKey w =
     (let payload = session_payload userId username sessionKey in
      case signToken P ''JWT_ACCESS_SECRET'' (env_or P ''EXPIRES_IN_ACCESS'' ''5m'') payload w of
        Inl e \<Rightarrow> Inl e
      | Inr at \<Rightarrow>
          (case signToken P ''JWT_REFRESH_SECRET'' (env_or P ''EXPIRES_IN_REFRESH'' ''1d'') payload w of
             Inl e \<Rightarrow> Inl e
           | Inr rt \<Rightarrow> Inr (at, rt)))"

definition getReactivationToken ::
    "('r, 's) platform \<Rightarrow> user \<Rightarrow> string \<Rightarrow> ('r, 's) world \<Rightarrow> http_error + string" where
  "getReactivationToken P user deletionRequestId w =
     signToken P ''JWT_REACTIVATION_SECRET'' (env_or P ''EXPIRES_IN_REACTIVATION'' ''15m'')
       \<lparr>jwt_sub = user_id user, jwt_username = user_username user,
        jwt_sessionKey = user_sessionKey user, jwt_deletionRequestId = Some deletionRequestId,
        jwt_purpose = Some ''account_reactivation''\<rparr> w"

text \<open>\<open>verifyAsync\<close> throws where the secret is missing as where the token is bad.\<close>

definition verifyToken ::
    "('r, 's) platform \<Rightarrow> string \<Rightarrow> string \<Rightarrow> ('r, 's) world \<Rightarrow> jwt_payload option" where
  "verifyToken P secretName token w =
     (case requireEnv P secretName of
        Inl _ \<Rightarrow> None
      | Inr secret \<Rightarrow> jwt_verify P secret token (now w))"

text \<open>\<^verbatim>\<open>JwtStrategy.validate\<close>.\<close>

definition validateAccess :: "db \<Rightarrow> jwt_payload \<Rightarrow> http_error + user" where
  "validateAccess d payload =
     (case user_by_id d (jwt_sub payload) of
        None \<Rightarrow> Inl (Unauthorized ''Access Denied (Session Expired)'')
      | Some user \<Rightarrow>
          if user_sessionKey user \<noteq> jwt_sessionKey payload
          then Inl (Unauthorized ''Access Denied (Session Expired)'')
          else if user_status user \<noteq> ACTIVE
          then Inl (Unauthorized ''Access Denied (Account inactive)'')
          else Inr user)"

section \<open>Registration\<close>

record register_dto =
  reg_username :: string
  reg_password :: string
  reg_inviteCode :: string
  reg_recoveryPhrase :: string

definition invalid_invite :: http_error where
  "invalid_invite = Unauthorized ''Invalid or expired invite code''"

definition invite_by_code :: "db \<Rightarrow> string \<Rightarrow> inviteCode option" where
  "invite_by_code d code = find (\<lambda>i. invite_code i = code) (inviteCodes d)"

definition inviteUsable :: "db \<Rightarrow> string \<Rightarrow> http_error + inviteCode" where
  "inviteUsable d code =
     (case invite_by_code d code of
        None \<Rightarrow> Inl invalid_invite
      | Some invite \<Rightarrow>
          if \<not> invite_isValid invite \<or> invite_usage invite \<le> 0 then Inl invalid_invite
          else Inr invite)"

definition preValidate :: "db \<Rightarrow> string \<Rightarrow> string \<Rightarrow> http_error + unit" where
  "preValidate d username inviteCode =
     (case inviteUsable d inviteCode of
        Inl e \<Rightarrow> Inl e
      | Inr _ \<Rightarrow>
          (case user_by_name d username of
             Some _ \<Rightarrow> Inl (Conflict ''Username already taken'')
           | None \<Rightarrow> Inr ()))"

definition newUserRow ::
    "string \<Rightarrow> string \<Rightarrow> string \<Rightarrow> string \<Rightarrow> time \<Rightarrow> mk_store \<Rightarrow> mk_store \<Rightarrow> string \<Rightarrow>
     string \<Rightarrow> string \<Rightarrow> string \<Rightarrow> user" where
  "newUserRow uid username pwHash sessionKey t mkStore recoveryStore phraseHash publicKey
     encPrivateKey privIv =
     \<lparr>user_id = uid, user_username = username, user_password = pwHash,
      user_avatar = DEFAULT_AVATAR, user_status = ACTIVE, user_sessionKey = sessionKey,
      user_createdAt = t, user_issuedCodes = 0,
      user_encryptedMasterKey = Some (mk_encrypted mkStore), user_masterKeyIv = Some (mk_iv mkStore),
      user_masterKeySalt = Some (mk_salt mkStore), user_recoveryPhraseHash = phraseHash,
      user_recoveryEncryptedMasterKey = mk_encrypted recoveryStore,
      user_recoveryMasterKeyIv = mk_iv recoveryStore,
      user_recoveryMasterKeySalt = mk_salt recoveryStore,
      user_publicKey = publicKey, user_encryptedPrivateKey = encPrivateKey,
      user_privateKeyIv = privIv\<rparr>"

text \<open>The transaction: the new user, then the decrement of the invite's \<open>usage\<close>, which tests
  nothing. \<open>None\<close>: it throws, with \<open>P2002\<close> where the name is taken (the flag), and rolls back.\<close>

definition register_tx :: "user \<Rightarrow> string \<Rightarrow> db \<Rightarrow> bool + db" where
  "register_tx newUser inviteId d =
     (if user_by_name d (user_username newUser) \<noteq> None then Inl True
      else if inviteId \<notin> set (map invite_id (inviteCodes d)) then Inl False
      else Inr (d\<lparr>users := users d @ [newUser],
                  inviteCodes := update_where (\<lambda>i. invite_id i = inviteId)
                    (\<lambda>i. i\<lparr>invite_usage := invite_usage i - 1\<rparr>) (inviteCodes d)\<rparr>))"

definition masterKeyTtl :: nat where
  "masterKeyTtl = 86400"

definition cacheMasterKey ::
    "('r, 's) platform \<Rightarrow> string \<Rightarrow> bytes \<Rightarrow> ('r, 's) world \<Rightarrow> ('r, 's) world" where
  "cacheMasterKey P userId key w =
     redis_set P (masterKeyKey userId) (Plain (hex key)) masterKeyTtl w"

text \<open>What follows the check of the invite, in the code's order of draws. \<open>getTokens\<close> is
  returned without \<open>await\<close>, so the \<open>catch\<close> does not see its rejection.\<close>

definition registerCommit ::
    "('r, 's) platform \<Rightarrow> register_dto \<Rightarrow> string \<Rightarrow> ('r, 's) world \<Rightarrow>
     (string \<times> string, ('r, 's) world) outcome" where
  "registerCommit P dto inviteId w =
     (let (rawMasterKey, w1) = randomBytesOf P 32 w;
          (mkStore, w2) = generateMasterKeyStore P (reg_password dto) rawMasterKey w1;
          (recoveryStore, w3) = generateMasterKeyStore P (reg_recoveryPhrase dto) rawMasterKey w2;
          (phraseHash, w4) = hashRecoveryPhrase P (reg_recoveryPhrase dto) w3;
          (publicKey, privateKey) = rsa_keyPair P (draws w4);
          w5 = w4\<lparr>draws := Suc (draws w4)\<rparr>;
          (privIv, w6) = randomBytesOf P 16 w5;
          encPrivateKey = hex (aes_cbc_encrypt P rawMasterKey privIv (utf8 P privateKey));
          (pwHash, w7) = hashPassword P (reg_password dto) w6;
          (sessionKey, w8) = randomUUID P w7;
          (uid, w9) = randomUUID P w8;
          newUser = newUserRow uid (reg_username dto) pwHash sessionKey (now w) mkStore
            recoveryStore phraseHash publicKey encPrivateKey (hex privIv)
      in (case register_tx newUser inviteId (db w9) of
            Inl True \<Rightarrow> (Inl (Conflict ''Username already taken''), w9)
          | Inl False \<Rightarrow> (Inl (BadRequest ''Registration failed''), w9)
          | Inr d \<Rightarrow>
              (let w10 = cacheMasterKey P uid rawMasterKey (w9\<lparr>db := d\<rparr>)
               in (getTokens P uid (reg_username dto) sessionKey w10, w10))))"

definition register ::
    "('r, 's) platform \<Rightarrow> register_dto \<Rightarrow> ('r, 's) world \<Rightarrow>
     (string \<times> string, ('r, 's) world) outcome" where
  "register P dto w =
     (case inviteUsable (db w) (reg_inviteCode dto) of
        Inl e \<Rightarrow> (Inl e, w)
      | Inr invite \<Rightarrow> registerCommit P dto (invite_id invite) w)"

section \<open>Login\<close>

datatype login_result =
    Tokens string string
  | PendingDeletion time string

definition bad_credentials :: http_error where
  "bad_credentials = Unauthorized ''Invalid username or password''"

text \<open>The last part of a login: the session of the row read last.\<close>

definition openSession ::
    "('r, 's) platform \<Rightarrow> string \<Rightarrow> user \<Rightarrow> ('r, 's) world \<Rightarrow>
     (string \<times> string, ('r, 's) world) outcome" where
  "openSession P password user w =
     (case decryptMasterKey P password user of
        Inl e \<Rightarrow> (Inl e, w)
      | Inr masterKey \<Rightarrow>
          (let w1 = cacheMasterKey P (user_id user) masterKey w in
           (getTokens P (user_id user) (user_username user) (user_sessionKey user) w1, w1)))"

definition login ::
    "('r, 's) platform \<Rightarrow> string \<Rightarrow> string \<Rightarrow> ('r, 's) world \<Rightarrow>
     (login_result, ('r, 's) world) outcome" where
  "login P username password w =
     (case user_by_name (db w) username of
        None \<Rightarrow> (Inl bad_credentials, w)
      | Some user \<Rightarrow>
          if \<not> bcrypt_compare P password (user_password user) then (Inl bad_credentials, w)
          else
            (case preparePendingDeletionLogin P (user_id user) w of
               (Inl e, w1) \<Rightarrow> (Inl e, w1)
             | (Inr (Some req), w1) \<Rightarrow>
                 (case getReactivationToken P user (dreq_id req) w1 of
                    Inl e \<Rightarrow> (Inl e, w1)
                  | Inr token \<Rightarrow> (Inr (PendingDeletion (dreq_deleteAfterAt req) token), w1))
             | (Inr None, w1) \<Rightarrow>
                 (case user_by_id (db w1) (user_id user) of
                    None \<Rightarrow> (Inl bad_credentials, w1)
                  | Some current \<Rightarrow>
                      (case assertUserCanLogin P (user_id current) (user_status current) w1 of
                         (Inl e, w2) \<Rightarrow> (Inl e, w2)
                       | (Inr _, w2) \<Rightarrow>
                           (case user_by_id (db w2) (user_id user) of
                              None \<Rightarrow> (Inl bad_credentials, w2)
                            | Some authenticated \<Rightarrow>
                                (case openSession P password authenticated w2 of
                                   (Inl e, w3) \<Rightarrow> (Inl e, w3)
                                 | (Inr (at, rt), w3) \<Rightarrow> (Inr (Tokens at rt), w3)))))))"

section \<open>Token rotation, logout, passwords\<close>

definition refreshToken ::
    "('r, 's) platform \<Rightarrow> string \<Rightarrow> string \<Rightarrow> ('r, 's) world \<Rightarrow>
     (string \<times> string, ('r, 's) world) outcome" where
  "refreshToken P userId keyFromToken w =
     (case user_by_id (db w) userId of
        None \<Rightarrow> (Inl (Forbidden ''Access Denied (User not found)''), w)
      | Some user \<Rightarrow>
          (case assertUserCanLogin P (user_id user) (user_status user) w of
             (Inl e, w1) \<Rightarrow> (Inl e, w1)
           | (Inr _, w1) \<Rightarrow>
               (let (newSessionKey, w2) = randomUUID P w1;
                    matching = (\<lambda>u. user_id u = userId \<and> user_sessionKey u = keyFromToken);
                    hit = count_where matching (users (db w2));
                    w3 = w2\<lparr>db := (db w2)\<lparr>users := update_where matching
                      (\<lambda>u. u\<lparr>user_sessionKey := newSessionKey\<rparr>) (users (db w2))\<rparr>\<rparr>
                in if hit = 0 then (Inl (Forbidden ''Access Denied (Session invalid)''), w3)
                   else
                     (case user_by_id (db w3) userId of
                        None \<Rightarrow> (Inl (Thrown ''TypeError''), w3)
                      | Some updated \<Rightarrow>
                          (let w4 = w3\<lparr>redis := r_expire (rds P) (masterKeyKey userId) masterKeyTtl (redis w3)\<rparr>
                           in (getTokens P (user_id updated) (user_username updated)
                                (user_sessionKey updated) w4, w4))))))"

definition logout ::
    "('r, 's) platform \<Rightarrow> string \<Rightarrow> ('r, 's) world \<Rightarrow> (unit, ('r, 's) world) outcome" where
  "logout P userId w =
     (case user_by_id (db w) userId of
        None \<Rightarrow> (Inl record_not_found, w\<lparr>draws := Suc (draws w)\<rparr>)
      | Some _ \<Rightarrow> (Inr (), rotateUserSession P userId w))"

definition setCredentials :: "string \<Rightarrow> string \<Rightarrow> mk_store \<Rightarrow> user \<Rightarrow> user" where
  "setCredentials pwHash sessionKey st u =
     u\<lparr>user_password := pwHash, user_sessionKey := sessionKey,
       user_encryptedMasterKey := Some (mk_encrypted st), user_masterKeyIv := Some (mk_iv st),
       user_masterKeySalt := Some (mk_salt st)\<rparr>"

definition changePassword ::
    "('r, 's) platform \<Rightarrow> string \<Rightarrow> string \<Rightarrow> string \<Rightarrow> ('r, 's) world \<Rightarrow>
     (unit, ('r, 's) world) outcome" where
  "changePassword P userId oldPassword newPassword w =
     (case user_by_id (db w) userId of
        None \<Rightarrow> (Inl (Forbidden ''User not found''), w)
      | Some user \<Rightarrow>
          if \<not> bcrypt_compare P oldPassword (user_password user)
          then (Inl (Unauthorized ''Old password incorrect''), w)
          else
            (case decryptMasterKey P oldPassword user of
               Inl e \<Rightarrow> (Inl e, w)
             | Inr rawMasterKey \<Rightarrow>
                 (let (st, w1) = reEncryptMasterKey P rawMasterKey newPassword w;
                      (pwHash, w2) = hashPassword P newPassword w1;
                      (sessionKey, w3) = randomUUID P w2;
                      w4 = w3\<lparr>db := update_user userId (setCredentials pwHash sessionKey st) (db w3)\<rparr>
                  in (Inr (), redis_del P (masterKeyKey userId) w4))))"

definition recoverPassword ::
    "('r, 's) platform \<Rightarrow> string \<Rightarrow> string \<Rightarrow> string \<Rightarrow> ('r, 's) world \<Rightarrow>
     (unit, ('r, 's) world) outcome" where
  "recoverPassword P username recoveryPhrase newPassword w =
     (case user_by_name (db w) username of
        None \<Rightarrow> (Inl (Unauthorized ''Invalid credentials''), w)
      | Some user \<Rightarrow>
          if \<not> compareRecoveryPhrase P recoveryPhrase (user_recoveryPhraseHash user)
          then (Inl (Unauthorized ''Invalid credentials''), w)
          else
            (case aes_cbc_decrypt P
                    (scrypt P recoveryPhrase (unhex (user_recoveryMasterKeySalt user)))
                    (unhex (user_recoveryMasterKeyIv user))
                    (unhex (user_recoveryEncryptedMasterKey user)) of
               None \<Rightarrow> (Inl decipher_failed, w)
             | Some rawMasterKey \<Rightarrow>
                 (let (st, w1) = generateMasterKeyStore P newPassword rawMasterKey w;
                      (pwHash, w2) = hashPassword P newPassword w1;
                      (sessionKey, w3) = randomUUID P w2
                  in (Inr (), w3\<lparr>db := update_user (user_id user)
                                   (setCredentials pwHash sessionKey st) (db w3)\<rparr>))))"

definition reactivateAccount ::
    "('r, 's) platform \<Rightarrow> string \<Rightarrow> ('r, 's) world \<Rightarrow> (unit, ('r, 's) world) outcome" where
  "reactivateAccount P reactivationToken w =
     (case verifyToken P ''JWT_REACTIVATION_SECRET'' reactivationToken w of
        None \<Rightarrow> (Inl (Unauthorized ''Invalid or expired reactivation token''), w)
      | Some payload \<Rightarrow>
          if jwt_purpose payload \<noteq> Some ''account_reactivation''
          then (Inl (Unauthorized ''Invalid reactivation token''), w)
          else
            (case user_by_id (db w) (jwt_sub payload) of
               None \<Rightarrow> (Inl (Unauthorized ''Invalid or expired reactivation token''), w)
             | Some user \<Rightarrow>
                 if user_username user \<noteq> jwt_username payload \<or>
                    user_sessionKey user \<noteq> jwt_sessionKey payload
                 then (Inl (Unauthorized ''Invalid or expired reactivation token''), w)
                 else if user_status user = DELETED
                 then (Inl (Forbidden ''This account has already been deleted.''), w)
                 else if user_status user = ACTIVE then (Inr (), w)
                 else if user_status user \<noteq> PENDING
                 then (Inl (BadRequest ''This account is not pending deletion.''), w)
                 else reactivatePendingAccount P (user_id user)
                   (jwt_deletionRequestId payload) w))"

section \<open>Internal services\<close>

definition internal_decryptMasterKey ::
    "('r, 's) platform \<Rightarrow> string \<Rightarrow> user \<Rightarrow> http_error + bytes" where
  "internal_decryptMasterKey P password user =
     (let missing = (\<lambda>x. x = None \<or> x = Some '''') in
      if missing (user_encryptedMasterKey user) \<or> missing (user_masterKeyIv user) \<or>
         missing (user_masterKeySalt user)
      then Inl (Forbidden ''User master key unavailable'')
      else decryptMasterKey P password user)"

definition internal_login ::
    "('r, 's) platform \<Rightarrow> string \<Rightarrow> string \<Rightarrow> ('r, 's) world \<Rightarrow>
     (string \<times> string, ('r, 's) world) outcome" where
  "internal_login P username password w =
     (case user_by_name (db w) username of
        None \<Rightarrow> (Inl bad_credentials, w)
      | Some user \<Rightarrow>
          if \<not> bcrypt_compare P password (user_password user) then (Inl bad_credentials, w)
          else
            (case assertUserCanLogin P (user_id user) (user_status user) w of
               (Inl e, w1) \<Rightarrow> (Inl e, w1)
             | (Inr _, w1) \<Rightarrow>
                 (case user_by_id (db w1) (user_id user) of
                    None \<Rightarrow> (Inl bad_credentials, w1)
                  | Some authenticated \<Rightarrow>
                      (case assertUserCanLogin P (user_id authenticated) (user_status authenticated) w1 of
                         (Inl e, w2) \<Rightarrow> (Inl e, w2)
                       | (Inr _, w2) \<Rightarrow>
                           (case internal_decryptMasterKey P password authenticated of
                              Inl e \<Rightarrow> (Inl e, w2)
                            | Inr masterKey \<Rightarrow>
                                (let w3 = cacheMasterKey P (user_id authenticated) masterKey w2
                                 in (getTokens P (user_id authenticated)
                                       (user_username authenticated)
                                       (user_sessionKey authenticated) w3, w3)))))))"

definition internal_validate ::
    "('r, 's) platform \<Rightarrow> string \<Rightarrow> ('r, 's) world \<Rightarrow> (user, ('r, 's) world) outcome" where
  "internal_validate P token w =
     (case verifyToken P ''JWT_ACCESS_SECRET'' token w of
        None \<Rightarrow> (Inl (Unauthorized ''Invalid or expired token''), w)
      | Some payload \<Rightarrow>
          (case user_by_id (db w) (jwt_sub payload) of
             None \<Rightarrow> (Inl (Unauthorized ''Invalid or expired token''), w)
           | Some user \<Rightarrow>
               if user_username user \<noteq> jwt_username payload \<or>
                  user_sessionKey user \<noteq> jwt_sessionKey payload
               then (Inl (Unauthorized ''Invalid or expired token''), w)
               else
                 (case assertUserCanLogin P (user_id user) (user_status user) w of
                    (Inl e, w1) \<Rightarrow> (Inl e, w1)
                  | (Inr _, w1) \<Rightarrow> (Inr user, w1))))"

definition internal_profile ::
    "('r, 's) platform \<Rightarrow> string \<Rightarrow> ('r, 's) world \<Rightarrow> (user, ('r, 's) world) outcome" where
  "internal_profile P userId w =
     (case user_by_id (db w) userId of
        None \<Rightarrow> (Inl user_not_found, w)
      | Some user \<Rightarrow>
          (case assertUserCanLogin P (user_id user) (user_status user) w of
             (Inl e, w1) \<Rightarrow> (Inl e, w1)
           | (Inr _, w1) \<Rightarrow> (Inr user, w1)))"

section \<open>Administrators\<close>

definition admin_by_id :: "db \<Rightarrow> string \<Rightarrow> adminUser option" where
  "admin_by_id d aid = find (\<lambda>a. adm_id a = aid) (adminUsers d)"

definition admin_getTokens ::
    "('r, 's) platform \<Rightarrow> string \<Rightarrow> string \<Rightarrow> string \<Rightarrow> ('r, 's) world \<Rightarrow>
     http_error + (string \<times> string)" where
  "admin_getTokens P adminId username sessionKey w =
     (let payload = session_payload adminId username sessionKey;
          or_default = (\<lambda>name fallback. case env P name of None \<Rightarrow> fallback | Some v \<Rightarrow> v)
      in case signToken P ''ADMIN_JWT_ACCESS_SECRET''
              (or_default ''ADMIN_EXPIRES_IN_ACCESS'' ''5m'') payload w of
           Inl e \<Rightarrow> Inl e
         | Inr at \<Rightarrow>
             (case signToken P ''ADMIN_JWT_REFRESH_SECRET''
                (or_default ''ADMIN_EXPIRES_IN_REFRESH'' ''1d'') payload w of
                Inl e \<Rightarrow> Inl e
              | Inr rt \<Rightarrow> Inr (at, rt)))"

definition admin_login ::
    "('r, 's) platform \<Rightarrow> string \<Rightarrow> string \<Rightarrow> (string \<times> json) list \<Rightarrow> ('r, 's) world \<Rightarrow>
     (string \<times> string, ('r, 's) world) outcome" where
  "admin_login P username password auditContext w =
     (case find (\<lambda>a. adm_username a = username) (adminUsers (db w)) of
        None \<Rightarrow> (Inl bad_credentials, w)
      | Some admin \<Rightarrow>
          if \<not> bcrypt_compare P password (adm_passwordHash admin) then (Inl bad_credentials, w)
          else
            (let w1 = w\<lparr>db := appendAudit
                   \<lparr>audit_actorType = ADMIN, audit_adminUserId = Some (adm_id admin),
                    audit_targetUserId = None, audit_action = ''admin_login'',
                    audit_previousStatus = None, audit_newStatus = None,
                    audit_reason = Some ''Admin logged in'',
                    audit_meta = JObj ((''username'', JStr (adm_username admin)) # auditContext),
                    audit_createdAt = now w\<rparr> (db w)\<rparr>
             in (admin_getTokens P (adm_id admin) (adm_username admin) (adm_sessionKey admin) w1, w1)))"

definition admin_refreshToken ::
    "('r, 's) platform \<Rightarrow> string \<Rightarrow> string \<Rightarrow> ('r, 's) world \<Rightarrow>
     (string \<times> string, ('r, 's) world) outcome" where
  "admin_refreshToken P adminId keyFromToken w =
     (let (newSessionKey, w1) = randomUUID P w;
          matching = (\<lambda>a. adm_id a = adminId \<and> adm_sessionKey a = keyFromToken);
          hit = count_where matching (adminUsers (db w1));
          w2 = w1\<lparr>db := (db w1)\<lparr>adminUsers := update_where matching
            (\<lambda>a. a\<lparr>adm_sessionKey := newSessionKey\<rparr>) (adminUsers (db w1))\<rparr>\<rparr>
      in if hit = 0 then (Inl (Forbidden ''Access Denied (Session invalid)''), w2)
         else
           (case admin_by_id (db w2) adminId of
              None \<Rightarrow> (Inl (Forbidden ''Access Denied (Admin not found)''), w2)
            | Some admin \<Rightarrow>
                (admin_getTokens P (adm_id admin) (adm_username admin) (adm_sessionKey admin) w2, w2)))"

definition update_admin :: "string \<Rightarrow> (adminUser \<Rightarrow> adminUser) \<Rightarrow> db \<Rightarrow> db" where
  "update_admin aid f d = d\<lparr>adminUsers := update_where (\<lambda>a. adm_id a = aid) f (adminUsers d)\<rparr>"

definition admin_logout ::
    "('r, 's) platform \<Rightarrow> string \<Rightarrow> ('r, 's) world \<Rightarrow> (unit, ('r, 's) world) outcome" where
  "admin_logout P adminId w =
     (let (newKey, w1) = randomUUID P w in
      case admin_by_id (db w1) adminId of
        None \<Rightarrow> (Inl record_not_found, w1)
      | Some _ \<Rightarrow>
          (Inr (), w1\<lparr>db := update_admin adminId (\<lambda>a. a\<lparr>adm_sessionKey := newKey\<rparr>) (db w1)\<rparr>))"

definition admin_changePassword ::
    "('r, 's) platform \<Rightarrow> string \<Rightarrow> string \<Rightarrow> string \<Rightarrow> ('r, 's) world \<Rightarrow>
     (unit, ('r, 's) world) outcome" where
  "admin_changePassword P adminId oldPassword newPassword w =
     (case admin_by_id (db w) adminId of
        None \<Rightarrow> (Inl (Forbidden ''Admin not found''), w)
      | Some admin \<Rightarrow>
          if \<not> bcrypt_compare P oldPassword (adm_passwordHash admin)
          then (Inl (Unauthorized ''Old password incorrect''), w)
          else
            (let (pwHash, w1) = hashPassword P newPassword w;
                 (newKey, w2) = randomUUID P w1
             in (Inr (), w2\<lparr>db := update_admin adminId
                   (\<lambda>a. a\<lparr>adm_passwordHash := pwHash, adm_sessionKey := newKey\<rparr>) (db w2)\<rparr>)))"

text \<open>\<^verbatim>\<open>AdminJwtStrategy.validate\<close>.\<close>

definition validateAdminAccess :: "db \<Rightarrow> jwt_payload \<Rightarrow> http_error + adminUser" where
  "validateAdminAccess d payload =
     (case admin_by_id d (jwt_sub payload) of
        None \<Rightarrow> Inl (Unauthorized ''Access Denied (Session Expired)'')
      | Some admin \<Rightarrow>
          if adm_sessionKey admin \<noteq> jwt_sessionKey payload
          then Inl (Unauthorized ''Access Denied (Session Expired)'')
          else Inr admin)"

end
