(* ===== verification/Account_System.thy ===== *)
theory Account_System
  imports Auth
begin

text \<open>
  The operations of \<open>User_Lifecycle\<close> on the invariant \<open>life_inv\<close> (an account is pending exactly
  when it has one active deletion request, locked or banned exactly when it has one open
  restriction of that type, and owns as many codes as it issued, at most two): reactivation,
  deletion, the deletion request, the login gate and the two hourly jobs keep it, and the jobs do
  to each account what they are for.
\<close>

section \<open>Fresh ids\<close>

lemma ids_drawn_image:
  "ids_drawn P w \<longleftrightarrow>
     dreq_id ` set (deletionRequests (db w)) \<subseteq> uuid P ` {..<draws w} \<and>
     user_id ` set (users (db w)) \<subseteq> uuid P ` {..<draws w}"
  by (auto simp: ids_drawn_def)

lemma uuid_not_drawn: "fresh_uuids P \<Longrightarrow> m \<le> n \<Longrightarrow> uuid P n \<notin> uuid P ` {..<m}"
  by (auto simp: fresh_uuids_def dest: injD)

lemma ids_drawnD:
  assumes "ids_drawn P w" "fresh_uuids P" "draws w \<le> n"
  shows "uuid P n \<notin> dreq_id ` set (deletionRequests (db w))"
    and "uuid P n \<notin> user_id ` set (users (db w))"
  using assms(1) uuid_not_drawn [OF assms(2,3)] unfolding ids_drawn_image by blast+

lemma ids_drawn_mono:
  assumes "ids_drawn P w" "draws w \<le> draws w'"
    and "dreq_id ` set (deletionRequests (db w')) \<subseteq>
      dreq_id ` set (deletionRequests (db w)) \<union> uuid P ` {..<draws w'}"
    and "user_id ` set (users (db w')) \<subseteq> user_id ` set (users (db w)) \<union> uuid P ` {..<draws w'}"
  shows "ids_drawn P w'"
proof -
  have "uuid P ` {..<draws w} \<subseteq> uuid P ` {..<draws w'}"
    by (rule image_mono) (use assms(2) in auto)
  moreover have "dreq_id ` set (deletionRequests (db w)) \<subseteq> uuid P ` {..<draws w}"
    and "user_id ` set (users (db w)) \<subseteq> uuid P ` {..<draws w}"
    using assms(1) by (simp_all only: ids_drawn_image)
  ultimately show ?thesis
    unfolding ids_drawn_image
    by (intro conjI subset_trans [OF assms(3)] subset_trans [OF assms(4)] Un_least)
      (simp_all only: subset_refl subset_trans)
qed

lemma ids_image: "map f xs = map f ys \<Longrightarrow> f ` set xs = f ` set ys"
  by (metis list.set_map)

lemma life_inv_same_ids:
  assumes "life_inv P w" "draws w \<le> draws w'"
    and "account_inv (db w')"
    and "map dreq_id (deletionRequests (db w')) = map dreq_id (deletionRequests (db w))"
    and "map user_id (users (db w')) = map user_id (users (db w))"
  shows "life_inv P w'"
proof -
  have "ids_drawn P w" using assms(1) by (simp add: life_inv_def)
  from ids_drawn_mono [OF this assms(2)] show ?thesis
    using ids_image [OF assms(4)] ids_image [OF assms(5)] assms(3) by (simp add: life_inv_def)
qed

lemma life_invD:
  assumes "life_inv P w"
  shows "account_inv (db w)" "ids_drawn P w"
  using assms by (simp_all add: life_inv_def)

section \<open>Reactivation\<close>

lemma reactivate_tx_ids:
  "map dreq_id (deletionRequests (reactivate_tx t k opts prev uid d)) = map dreq_id (deletionRequests d)"
  "map user_id (users (reactivate_tx t k opts prev uid d)) = map user_id (users d)"
  by (simp_all add: reactivate_tx_def lifecycle)

lemma reactivateUser_inv:
  assumes "life_inv P w"
  shows "life_inv P (snd (reactivateUser P uid opts w))"
proof (cases "user_by_id (db w) uid")
  case (Some u)
  then show ?thesis
    using account_inv_reactivate_tx [OF life_invD(1) [OF assms] Some] assms
    by (cases "user_status u = DELETED")
      (auto simp: reactivateUser_def randomUUID_def Let_def reactivate_tx_ids
        intro!: life_inv_same_ids [OF assms])
qed (simp add: reactivateUser_def assms)

lemma reactivateUser_ok:
  assumes "user_by_id (db w) uid = Some u" "user_status u \<noteq> DELETED"
  shows "fst (reactivateUser P uid opts w) = Inr ()"
    and "user_by_id (db (snd (reactivateUser P uid opts w))) uid' =
      (if uid' = uid
       then Some (u\<lparr>user_status := ACTIVE, user_sessionKey := uuid P (draws w)\<rparr>)
       else user_by_id (db w) uid')"
    and "now (snd (reactivateUser P uid opts w)) = now w"
  using assms by (auto simp: reactivateUser_def randomUUID_def Let_def reactivate_tx_user)

text \<open>The administrator's copy does what the user service's does.\<close>

lemma admin_reactivateUser_eq: "admin_reactivateUser P uid opts w = reactivateUser P uid opts w"
  by (simp add: admin_reactivateUser_def reactivateUser_def findUserOrThrow_def user_not_found_def
      reactivate_tx_def Let_def randomUUID_def split: option.splits)

section \<open>Deletion\<close>

lemma deletion_tx_ids:
  assumes "deletion_tx t k opts uid d = Some d'"
  shows "map dreq_id (deletionRequests d') = map dreq_id (deletionRequests d)"
    and "map user_id (users d') = map user_id (users d)"
    and "user_by_id d' uid' =
      (if uid' = uid
       then map_option (\<lambda>u. u\<lparr>user_status := DELETED, user_issuedCodes := 0, user_sessionKey := k\<rparr>)
         (user_by_id d uid)
       else user_by_id d uid')"
  using assms
  by (auto simp: deletion_tx_def Let_def lifecycle split: option.splits if_splits)

lemma deletion_tx_content:
  assumes "deletion_tx t k opts uid d = Some d'"
  shows "files d' = delete_where (\<lambda>f. file_userId f = uid) (files d)"
    and "mails d' = delete_where (\<lambda>m. mail_userId m = uid) (mails d)"
    and "bins d' = delete_where (\<lambda>b. bin_userId b = uid) (bins d)"
    and "links d' = delete_where (\<lambda>l. link_userId l = uid) (links d)"
    and "inviteCodes d' = delete_where (\<lambda>i. invite_userId i = Some uid) (inviteCodes d)"
    and "blockedSenders d' = delete_where (\<lambda>b. blocked_userId b = uid) (blockedSenders d)"
  using assms
  by (auto simp: deletion_tx_def Let_def split: option.splits if_splits)

lemma deleteUserData_cases:
  obtains d' where
    "deletion_tx (now w) (uuid P (draws w)) opts uid (db w) = Some d'"
    "fst (deleteUserDataAndMarkDeleted P uid opts w) = Inr ()"
    "db (snd (deleteUserDataAndMarkDeleted P uid opts w)) = d'"
    "draws (snd (deleteUserDataAndMarkDeleted P uid opts w)) = Suc (draws w)"
    "now (snd (deleteUserDataAndMarkDeleted P uid opts w)) = now w"
  | "deletion_tx (now w) (uuid P (draws w)) opts uid (db w) = None"
    "fst (deleteUserDataAndMarkDeleted P uid opts w) = Inl record_not_found"
    "db (snd (deleteUserDataAndMarkDeleted P uid opts w)) = db w"
    "draws (snd (deleteUserDataAndMarkDeleted P uid opts w)) = Suc (draws w)"
    "now (snd (deleteUserDataAndMarkDeleted P uid opts w)) = now w"
  by (cases "deletion_tx (now w) (uuid P (draws w)) opts uid (db w)")
    (auto simp: deleteUserDataAndMarkDeleted_def Let_def randomUUID_def)

lemma deleteUserData_inv:
  assumes "life_inv P w" "user_by_id (db w) uid = Some u"
    and "\<And>rid. do_deletionRequestId opts = Some rid \<Longrightarrow>
      \<exists>r \<in> set (deletionRequests (db w)). dreq_id r = rid \<and> dreq_userId r = uid \<and> active_request r"
  shows "life_inv P (snd (deleteUserDataAndMarkDeleted P uid opts w))"
proof (cases rule: deleteUserData_cases [of w P opts uid])
  case (1 d')
  then show ?thesis
    using account_inv_deletion_tx [OF life_invD(1) [OF assms(1)] assms(2) 1(1) assms(3)]
      deletion_tx_ids [OF 1(1)]
    by (intro life_inv_same_ids [OF assms(1)]) auto
next
  case 2
  then show ?thesis
    using assms(1) by (intro life_inv_same_ids [OF assms(1)]) (auto simp: life_inv_def)
qed

text \<open>Processing an active request deletes its owner and nobody else.\<close>

definition is_active_of :: "db \<Rightarrow> string \<Rightarrow> string \<Rightarrow> bool" where
  "is_active_of d uid rid \<longleftrightarrow>
     (\<exists>r \<in> set (deletionRequests d). dreq_id r = rid \<and> dreq_userId r = uid \<and> active_request r)"

lemma is_active_ofI:
  "r \<in> set (deletionRequests d) \<Longrightarrow> active_request r \<Longrightarrow> is_active_of d (dreq_userId r) (dreq_id r)"
  by (auto simp: is_active_of_def)

lemma is_active_of_pending:
  assumes "account_inv d" "is_active_of d uid rid"
  shows "has_status d uid PENDING" "\<exists>u. user_by_id d uid = Some u \<and> user_status u = PENDING"
proof -
  obtain r where r: "r \<in> set (deletionRequests d)" "dreq_userId r = uid" "active_request r"
    using assms(2) by (auto simp: is_active_of_def)
  have "request_count d uid \<noteq> 0"
    using r unfolding request_count_def count_where_0_iff by auto
  then show "has_status d uid PENDING"
    using account_invD(3) [OF assms(1), of uid] by (simp split: if_splits)
  then show "\<exists>u. user_by_id d uid = Some u \<and> user_status u = PENDING"
    by (simp add: has_status_def split: option.splits)
qed

lemma finalizePendingDeletion_inv:
  assumes "life_inv P w" "is_active_of (db w) uid rid"
  shows "life_inv P (snd (finalizePendingDeletion P uid rid w))"
proof (cases "user_by_id (db w) uid")
  case None
  then show ?thesis using assms(1) by (simp add: finalizePendingDeletion_def)
next
  case (Some u)
  have "life_inv P (snd (deleteUserDataAndMarkDeleted P uid opts w))"
    if "do_deletionRequestId opts = Some rid" for opts
    by (rule deleteUserData_inv [OF assms(1) Some]) (use assms(2) that in \<open>auto simp: is_active_of_def\<close>)
  then show ?thesis using Some assms(1) by (simp add: finalizePendingDeletion_def)
qed

lemma finalizePendingDeletion_effect:
  fixes P :: "('r, 's) platform" and w :: "('r, 's) world"
  assumes "account_inv (db w)" "is_active_of (db w) uid rid"
  defines "w' \<equiv> snd (finalizePendingDeletion P uid rid w)"
  shows "fst (finalizePendingDeletion P uid rid w) = Inr ()"
    and "has_status (db w') uid DELETED"
    and "uid' \<noteq> uid \<Longrightarrow> user_by_id (db w') uid' = user_by_id (db w) uid'"
    and "now w' = now w"
    and "deletionRequests (db w') =
      update_where (\<lambda>r. dreq_id r = rid) (\<lambda>r. r\<lparr>dreq_processedAt := Some (now w)\<rparr>)
        (deletionRequests (db w))"
    and "files (db w') = delete_where (\<lambda>f. file_userId f = uid) (files (db w))"
    and "mails (db w') = delete_where (\<lambda>m. mail_userId m = uid) (mails (db w))"
    and "bins (db w') = delete_where (\<lambda>b. bin_userId b = uid) (bins (db w))"
    and "links (db w') = delete_where (\<lambda>l. link_userId l = uid) (links (db w))"
    and "inviteCodes (db w') = delete_where (\<lambda>i. invite_userId i = Some uid) (inviteCodes (db w))"
    and "blockedSenders (db w') = delete_where (\<lambda>b. blocked_userId b = uid) (blockedSenders (db w))"
proof -
  obtain u where u: "user_by_id (db w) uid = Some u" "user_status u = PENDING"
    using is_active_of_pending [OF assms(1,2)] by blast
  define opts where "opts = \<lparr>do_actorType = SYSTEM, do_action = ''user_deletion_processed'',
     do_reason = None, do_previousStatus = user_status u, do_adminUserId = None,
     do_deletionRequestId = Some rid\<rparr>"
  have f: "finalizePendingDeletion P uid rid w = deleteUserDataAndMarkDeleted P uid opts w"
    using u by (simp add: finalizePendingDeletion_def opts_def)
  have rid: "\<exists>r \<in> set (deletionRequests (db w)). do_deletionRequestId opts = Some (dreq_id r)"
    using assms(2) by (auto simp: is_active_of_def opts_def)
  then have some: "deletion_tx (now w) (uuid P (draws w)) opts uid (db w) \<noteq> None"
    using deletion_tx_Some [of opts "db w"] by fastforce
  obtain d' where d':
    "deletion_tx (now w) (uuid P (draws w)) opts uid (db w) = Some d'"
    "fst (finalizePendingDeletion P uid rid w) = Inr ()" "db w' = d'" "now w' = now w"
    by (cases rule: deleteUserData_cases [of w P opts uid]) (use some in \<open>auto simp: f w'_def\<close>)
  show "fst (finalizePendingDeletion P uid rid w) = Inr ()" and "now w' = now w" by fact+
  show "has_status (db w') uid DELETED"
    using u deletion_tx_ids(3) [OF d'(1)] by (simp add: has_status_def d'(3))
  show "uid' \<noteq> uid \<Longrightarrow> user_by_id (db w') uid' = user_by_id (db w) uid'"
    using deletion_tx_ids(3) [OF d'(1)] by (simp add: d'(3))
  show "deletionRequests (db w') =
      update_where (\<lambda>r. dreq_id r = rid) (\<lambda>r. r\<lparr>dreq_processedAt := Some (now w)\<rparr>)
        (deletionRequests (db w))"
    using d'(1) unfolding d'(3)
    by (auto simp: deletion_tx_def Let_def opts_def markProcessed_def split: if_splits)
  show "files (db w') = delete_where (\<lambda>f. file_userId f = uid) (files (db w))"
    and "mails (db w') = delete_where (\<lambda>m. mail_userId m = uid) (mails (db w))"
    and "bins (db w') = delete_where (\<lambda>b. bin_userId b = uid) (bins (db w))"
    and "links (db w') = delete_where (\<lambda>l. link_userId l = uid) (links (db w))"
    and "inviteCodes (db w') = delete_where (\<lambda>i. invite_userId i = Some uid) (inviteCodes (db w))"
    and "blockedSenders (db w') = delete_where (\<lambda>b. blocked_userId b = uid) (blockedSenders (db w))"
    by (simp_all only: d'(3) deletion_tx_content [OF d'(1)])
qed

section \<open>Deletion requests\<close>

lemma getActive_is_active:
  "getActiveDeletionRequest d uid = Some r \<Longrightarrow> is_active_of d uid (dreq_id r)"
  unfolding getActiveDeletionRequest_def is_active_of_def
  using latest_Some(1,2) [of dreq_requestedAt] by blast

lemma getActive_None_iff: "getActiveDeletionRequest d uid = None \<longleftrightarrow> request_count d uid = 0"
  by (auto simp: getActiveDeletionRequest_def latest_None_iff request_count_def count_where_0_iff)

text \<open>In a state with the invariant the gate finds the request of a pending account.\<close>

lemma pending_has_request:
  assumes "account_inv d" "has_status d uid PENDING"
  obtains r where "getActiveDeletionRequest d uid = Some r"
  using account_invD(3) [OF assms(1), of uid] assms(2) getActive_None_iff [of d uid]
  by (cases "getActiveDeletionRequest d uid") auto

lemma account_inv_request:
  assumes "account_inv d" "has_status d uid ACTIVE"
    and "dreq_id r \<notin> dreq_id ` set (deletionRequests d)" "dreq_userId r = uid" "active_request r"
    and "d1 = update_user uid (\<lambda>u. u\<lparr>user_status := PENDING, user_sessionKey := k\<rparr>) d"
    and "d2 = d1\<lparr>deletionRequests := deletionRequests d1 @ [r]\<rparr>"
  shows "account_inv (createAuditLog t p d2)"
proof -
  obtain u where u: "user_by_id d uid = Some u" "user_status u = ACTIVE"
    using assms(2) by (auto simp: has_status_def split: option.splits)
  have req: "request_count d2 v = request_count d v + (if v = uid then 1 else 0)" for v
    using assms(4,5) by (auto simp: request_count_def assms(6,7) tbl)
  have d2: "restrictions d2 = restrictions d" "inviteCodes d2 = inviteCodes d" "users d2 = users d1"
    "deletionRequests d2 = deletionRequests d @ [r]"
    by (simp_all add: assms(6,7))
  have eq: "restriction_count d2 v ty = restriction_count d v ty" "code_count d2 v = code_count d v"
    "has_status d2 v s = has_status d1 v s" "issued d2 v = issued d1 v" for v ty s
    by (rule counts_cong, simp add: d2)+
  have zero: "request_count d uid = 0" "\<And>ty. restriction_count d uid ty = 0"
    using account_invD(3,4) [OF assms(1)] u by (auto simp: has_status_Some)
  have st: "has_status d2 v s = (if v = uid then s = PENDING else has_status d v s)"
    and isd: "issued d2 v = issued d v" for v s
    using u by (auto simp: eq assms(6) lifecycle issued_Some)
  have ids: "map user_id (users d2) = map user_id (users d)"
    "distinct (map dreq_id (deletionRequests d2))"
    using account_invD(2) [OF assms(1)] assms(3) by (auto simp: d2 assms(6) lifecycle)
  show ?thesis
    by (rule account_inv_transition [OF assms(1), of _ uid])
      (use account_invD(5) [OF assms(1), of uid] in \<open>simp_all add: lifecycle st isd eq req ids zero\<close>)
qed

lemma requestAccountDeletion_inv:
  assumes "life_inv P w" "fresh_uuids P" "has_status (db w) uid ACTIVE"
  shows "life_inv P (snd (requestAccountDeletion P uid pw w))"
proof (cases "fst (requestAccountDeletion P uid pw w)")
  case (Inl e)
  then have "snd (requestAccountDeletion P uid pw w) = w"
    by (auto simp: requestAccountDeletion_def Let_def randomUUID_def split: option.splits if_splits)
  then show ?thesis using assms(1) by simp
next
  case (Inr x)
  obtain u where u: "user_by_id (db w) uid = Some u" "user_status u = ACTIVE"
    using assms(3) by (auto simp: has_status_def split: option.splits)
  define r where "r = \<lparr>dreq_id = uuid P (Suc (draws w)), dreq_userId = uid, dreq_requestedAt = now w,
    dreq_deleteAfterAt = addDays P (now w) 7, dreq_cancelledAt = None, dreq_processedAt = None\<rparr>"
  have notin: "dreq_id r \<notin> dreq_id ` set (deletionRequests (db w))"
    using ids_drawnD(1) [OF life_invD(2) [OF assms(1)] assms(2), of "Suc (draws w)"]
    by (simp add: r_def)
  define w' where "w' = snd (requestAccountDeletion P uid pw w)"
  have w': "db w' = createAuditLog (now w)
      \<lparr>ap_actorType = USER, ap_action = ''user_delete_requested'', ap_targetUserId = Some uid,
        ap_adminUserId = None, ap_previousStatus = Some (user_status u), ap_newStatus = Some PENDING,
        ap_reason = None, ap_meta = JNull\<rparr>
      ((update_user uid (\<lambda>u. u\<lparr>user_status := PENDING, user_sessionKey := uuid P (draws w)\<rparr>) (db w))
        \<lparr>deletionRequests := deletionRequests (db w) @ [r]\<rparr>)"
    "draws w' = Suc (Suc (draws w))"
    using u Inr
    by (auto simp: w'_def requestAccountDeletion_def Let_def randomUUID_def r_def split: if_splits)
  have "account_inv (db w')"
    unfolding w'(1)
    by (rule account_inv_request [OF life_invD(1) [OF assms(1)] assms(3) notin _ _ refl])
      (simp_all add: r_def active_request_def)
  moreover have "ids_drawn P w'"
  proof (rule ids_drawn_mono [OF life_invD(2) [OF assms(1)]])
    have "map user_id (users (db w')) = map user_id (users (db w))"
      by (simp add: w' lifecycle update_user_def map_update_where)
    from ids_image [OF this] show "user_id ` set (users (db w')) \<subseteq>
        user_id ` set (users (db w)) \<union> uuid P ` {..<draws w'}" by simp
  qed (auto simp: w' r_def)
  ultimately show ?thesis by (simp add: life_inv_def w'_def)
qed

lemma preparePendingDeletionLogin_inv:
  assumes "life_inv P w"
  shows "life_inv P (snd (preparePendingDeletionLogin P uid w))"
proof -
  have "life_inv P (snd (reactivateUser P uid opts w))" for opts
    by (rule reactivateUser_inv [OF assms])
  moreover have "life_inv P (snd (finalizePendingDeletion P uid (dreq_id r) w))"
    if "getActiveDeletionRequest (db w) uid = Some r" for r
    by (rule finalizePendingDeletion_inv [OF assms getActive_is_active [OF that]])
  ultimately show ?thesis
    using assms
    by (simp add: preparePendingDeletionLogin_def split_beta split: option.splits sum.splits)
qed

lemma assertUserCanLogin_inv:
  assumes "life_inv P w"
  shows "life_inv P (snd (assertUserCanLogin P uid s w))"
proof -
  have "life_inv P (snd (reactivateUser P uid opts w))" for opts
    by (rule reactivateUser_inv [OF assms])
  then show ?thesis
    using assms preparePendingDeletionLogin_inv [OF assms, of uid]
    by (cases s)
      (auto simp: assertUserCanLogin_def Let_def split: prod.splits sum.splits option.splits)
qed

lemma reactivatePendingAccount_inv:
  assumes "life_inv P w"
  shows "life_inv P (snd (reactivatePendingAccount P uid rid w))"
proof -
  have "life_inv P (snd (reactivateUser P uid opts w))" for opts
    by (rule reactivateUser_inv [OF assms])
  moreover have "life_inv P (snd (finalizePendingDeletion P uid (dreq_id r) w))"
    if "getActiveDeletionRequest (db w) uid = Some r" for r
    by (rule finalizePendingDeletion_inv [OF assms getActive_is_active [OF that]])
  ultimately show ?thesis
    using assms
    by (simp add: reactivatePendingAccount_def split_beta split: option.splits sum.splits)
qed

section \<open>The hourly jobs\<close>

lemma is_active_of_update:
  assumes "is_active_of d uid' rid'" "rid' \<noteq> rid"
    and "deletionRequests d' = update_where (\<lambda>r. dreq_id r = rid) f (deletionRequests d)"
  shows "is_active_of d' uid' rid'"
  using assms by (force simp: is_active_of_def tbl)

text \<open>What the job leaves of a table of rows owned by users: the rows of the processed owners are
  gone, in order, and nothing else.\<close>

lemma delete_where_fold: "delete_where p (delete_where q xs) = delete_where (\<lambda>x. q x \<or> p x) xs"
  by (simp add: delete_where_def)

definition process_all ::
    "('r, 's) platform \<Rightarrow> ('r, 's) world \<Rightarrow> userDeletionRequest list \<Rightarrow> (unit, ('r, 's) world) outcome"
where
  "process_all P w rs = for_each (\<lambda>w r. finalizePendingDeletion P (dreq_userId r) (dreq_id r) w) w rs"

lemma process_all_effect:
  fixes P :: "('r, 's) platform" and w :: "('r, 's) world"
  assumes "life_inv P w"
    and "\<forall>r \<in> set rs. is_active_of (db w) (dreq_userId r) (dreq_id r)"
    and "distinct (map dreq_id rs)"
  defines "w' \<equiv> snd (process_all P w rs)" and "owners \<equiv> dreq_userId ` set rs"
  shows "fst (process_all P w rs) = Inr () \<and> life_inv P w' \<and> now w' = now w \<and>
    (\<forall>uid \<in> owners. has_status (db w') uid DELETED) \<and>
    (\<forall>uid. uid \<notin> owners \<longrightarrow> user_by_id (db w') uid = user_by_id (db w) uid) \<and>
    files (db w') = delete_where (\<lambda>f. file_userId f \<in> owners) (files (db w)) \<and>
    mails (db w') = delete_where (\<lambda>m. mail_userId m \<in> owners) (mails (db w)) \<and>
    bins (db w') = delete_where (\<lambda>b. bin_userId b \<in> owners) (bins (db w)) \<and>
    links (db w') = delete_where (\<lambda>l. link_userId l \<in> owners) (links (db w))"
  using assms(1-3) unfolding w'_def owners_def
proof (induction rs arbitrary: w)
  case Nil
  then show ?case by (simp add: process_all_def delete_where_def)
next
  case (Cons r rs)
  let ?w1 = "snd (finalizePendingDeletion P (dreq_userId r) (dreq_id r) w)"
  have r: "is_active_of (db w) (dreq_userId r) (dreq_id r)" using Cons.prems(2) by simp
  note acc = life_invD(1) [OF Cons.prems(1)]
  note eff = finalizePendingDeletion_effect [OF acc r, where P = P]
  have step: "process_all P w (r # rs) = process_all P ?w1 rs"
    using eff(1) by (simp add: process_all_def split_beta split: sum.splits)
  have "life_inv P ?w1" by (rule finalizePendingDeletion_inv [OF Cons.prems(1) r])
  moreover have "\<forall>r' \<in> set rs. is_active_of (db ?w1) (dreq_userId r') (dreq_id r')"
  proof
    fix r' assume r': "r' \<in> set rs"
    then have "dreq_id r' \<in> dreq_id ` set rs" by simp
    then have "dreq_id r' \<noteq> dreq_id r" using Cons.prems(3) by auto
    then show "is_active_of (db ?w1) (dreq_userId r') (dreq_id r')"
      using is_active_of_update [OF _ _ eff(5)] Cons.prems(2) r' by simp
  qed
  ultimately have IH: "fst (process_all P ?w1 rs) = Inr () \<and> life_inv P (snd (process_all P ?w1 rs)) \<and>
      now (snd (process_all P ?w1 rs)) = now ?w1 \<and>
      (\<forall>uid \<in> dreq_userId ` set rs. has_status (db (snd (process_all P ?w1 rs))) uid DELETED) \<and>
      (\<forall>uid. uid \<notin> dreq_userId ` set rs \<longrightarrow>
         user_by_id (db (snd (process_all P ?w1 rs))) uid = user_by_id (db ?w1) uid) \<and>
      files (db (snd (process_all P ?w1 rs))) =
        delete_where (\<lambda>f. file_userId f \<in> dreq_userId ` set rs) (files (db ?w1)) \<and>
      mails (db (snd (process_all P ?w1 rs))) =
        delete_where (\<lambda>m. mail_userId m \<in> dreq_userId ` set rs) (mails (db ?w1)) \<and>
      bins (db (snd (process_all P ?w1 rs))) =
        delete_where (\<lambda>b. bin_userId b \<in> dreq_userId ` set rs) (bins (db ?w1)) \<and>
      links (db (snd (process_all P ?w1 rs))) =
        delete_where (\<lambda>l. link_userId l \<in> dreq_userId ` set rs) (links (db ?w1))"
    using Cons.prems(3) by (intro Cons.IH) simp_all
  have "has_status (db (snd (process_all P ?w1 rs))) (dreq_userId r) DELETED"
  proof (cases "dreq_userId r \<in> dreq_userId ` set rs")
    case False
    with IH eff(2) show ?thesis by (simp add: has_status_def)
  qed (use IH in blast)
  then show ?case
    using IH eff(3,4,6-9) by (simp add: step delete_where_fold)
qed

lemma due_requests_active:
  assumes "account_inv d"
  shows "\<forall>r \<in> set (filter (due_request t) (deletionRequests d)).
      is_active_of d (dreq_userId r) (dreq_id r)"
    and "distinct (map dreq_id (filter (due_request t) (deletionRequests d)))"
  using account_invD(2) [OF assms] is_active_ofI [of _ d]
  by (auto simp: due_request_def distinct_map_filter)

lemma reactivate_all_inv:
  assumes "life_inv P w"
  shows "life_inv P (snd (for_each (\<lambda>w r. reactivateUser P (f r) opts w) w rs))"
proof (rule for_each_inv [where I = "life_inv P", OF assms])
  fix w x r w' assume "life_inv P w" "reactivateUser P (f x) opts w = (r, w')"
  then show "life_inv P w'" using reactivateUser_inv [of P w "f x" opts] by simp
qed

lemma processExpiredRestrictions_inv:
  "life_inv P w \<Longrightarrow> life_inv P (snd (processExpiredRestrictions P w))"
  by (simp add: processExpiredRestrictions_def Let_def reactivate_all_inv)

text \<open>Reactivating a list of banned accounts succeeds for each, and changes no other account.\<close>

lemma reactivate_all_effect:
  fixes P :: "('r, 's) platform" and opts :: reactivate_options
  assumes "\<forall>r \<in> set rs. \<exists>u. user_by_id (db w) (f r) = Some u \<and> user_status u \<noteq> DELETED"
  defines "res \<equiv> for_each (\<lambda>w r. reactivateUser P (f r) opts w) w rs"
  shows "fst res = Inr () \<and>
    (\<forall>r \<in> set rs. has_status (db (snd res)) (f r) ACTIVE) \<and>
    (\<forall>uid. uid \<notin> f ` set rs \<longrightarrow> user_by_id (db (snd res)) uid = user_by_id (db w) uid)"
  using assms(1) unfolding res_def
proof (induction rs arbitrary: w)
  case Nil
  then show ?case by simp
next
  case (Cons r rs)
  let ?w1 = "snd (reactivateUser P (f r) opts w)"
  obtain u where u: "user_by_id (db w) (f r) = Some u" "user_status u \<noteq> DELETED"
    using Cons.prems by auto
  note eff = reactivateUser_ok [OF u, of P opts]
  have step: "for_each (\<lambda>w r. reactivateUser P (f r) opts w) w (r # rs) =
      for_each (\<lambda>w r. reactivateUser P (f r) opts w) ?w1 rs"
    using eff(1) by (simp add: split_beta)
  have "\<forall>r' \<in> set rs. \<exists>u. user_by_id (db ?w1) (f r') = Some u \<and> user_status u \<noteq> DELETED"
    using Cons.prems eff(2) by auto
  note IH = Cons.IH [OF this]
  have "has_status (db (snd (for_each (\<lambda>w r. reactivateUser P (f r) opts w) ?w1 rs))) (f r) ACTIVE"
  proof (cases "f r \<in> f ` set rs")
    case False
    with IH eff(2) show ?thesis by (simp add: has_status_def)
  qed (use IH in auto)
  with IH eff(2) show ?case by (simp only: step) auto
qed

lemma open_restriction_status:
  assumes "account_inv d" "r \<in> set (restrictions d)" "open_restriction r"
  shows "has_status d (restr_userId r) (status_of_type (restr_type r))"
proof -
  have "restriction_count d (restr_userId r) (restr_type r) \<noteq> 0"
    using assms(2,3) unfolding restriction_count_def count_where_0_iff by auto
  then show ?thesis
    using account_invD(4) [OF assms(1), of "restr_userId r" "restr_type r"] by (simp split: if_splits)
qed

end
