(* ===== verification/Account_Steps.thy ===== *)
theory Account_Steps
  imports Account_System
begin

text \<open>
  The operations that pass through the login gate, those of the administrator, registration and
  the operations that do not touch the lifecycle, each with the proof that it keeps \<open>life_inv\<close>;
  then the step relation of the whole account system and its reachable states, with the locale
  \<open>invariant_system\<close> interpreted on it.
\<close>

section \<open>Operations that leave the lifecycle alone\<close>

definition life_columns :: "user \<Rightarrow> string \<times> UserStatus \<times> nat" where
  "life_columns u = (user_id u, user_status u, user_issuedCodes u)"

lemma find_life_columns:
  "map_option (\<lambda>u. (user_status u, user_issuedCodes u)) (find (\<lambda>u. user_id u = uid) us) =
   map_of (map life_columns us) uid"
  by (induction us) (auto simp: life_columns_def)

lemma account_inv_columns:
  assumes "account_inv d"
    and "map life_columns (users d') = map life_columns (users d)"
    and "deletionRequests d' = deletionRequests d" "restrictions d' = restrictions d"
    and "\<And>uid. code_count d' uid = code_count d uid"
  shows "account_inv d'"
proof -
  have ids: "map user_id (users d') = map user_id (users d)"
    using arg_cong [OF assms(2), of "map fst"] by (simp add: life_columns_def comp_def)
  have eq: "map_option (\<lambda>u. (user_status u, user_issuedCodes u)) (user_by_id d' uid) =
      map_option (\<lambda>u. (user_status u, user_issuedCodes u)) (user_by_id d uid)" for uid
    by (simp add: user_by_id_def find_life_columns assms(2))
  have st: "has_status d' uid s = has_status d uid s" and isd: "issued d' uid = issued d uid" for uid s
    using eq [of uid]
    by (auto simp: has_status_def issued_def split: option.splits)
  have cnt: "request_count d' uid = request_count d uid"
    "restriction_count d' uid ty = restriction_count d uid ty" for uid ty
    by (simp_all add: request_count_def restriction_count_def assms(3,4))
  show ?thesis
    using assms(1,3,5) by (simp add: account_inv_def ids st isd cnt)
qed

lemma life_inv_columns:
  assumes "life_inv P w" "draws w \<le> draws w'"
    and "map life_columns (users (db w')) = map life_columns (users (db w))"
    and "deletionRequests (db w') = deletionRequests (db w)"
    and "restrictions (db w') = restrictions (db w)"
    and "\<And>uid. code_count (db w') uid = code_count (db w) uid"
  shows "life_inv P w'"
proof (rule life_inv_same_ids [OF assms(1,2)])
  show "account_inv (db w')"
    by (rule account_inv_columns [OF life_invD(1) [OF assms(1)] assms(3-6)])
  show "map user_id (users (db w')) = map user_id (users (db w))"
    using arg_cong [OF assms(3), of "map fst"] by (simp add: life_columns_def comp_def)
qed (simp add: assms(4))

lemma life_columns_update:
  "(\<And>u. life_columns (f u) = life_columns u) \<Longrightarrow>
   map life_columns (update_where p f us) = map life_columns us"
  by (simp add: map_update_where)

lemma life_columns_fields [simp]:
  "life_columns (u\<lparr>user_sessionKey := k\<rparr>) = life_columns u"
  "life_columns (u\<lparr>user_avatar := a\<rparr>) = life_columns u"
  "life_columns (u\<lparr>user_username := n\<rparr>) = life_columns u"
  "life_columns (setCredentials h k st u) = life_columns u"
  by (simp_all add: life_columns_def setCredentials_def)

lemma code_count_cong: "inviteCodes d' = inviteCodes d \<Longrightarrow> code_count d' uid = code_count d uid"
  by (simp add: code_count_def)

text \<open>A state is \<open>life_same\<close> to another when the lifecycle's columns and tables are untouched.\<close>

definition life_same :: "db \<Rightarrow> db \<Rightarrow> bool" where
  "life_same d d' \<longleftrightarrow>
     map life_columns (users d') = map life_columns (users d) \<and>
     deletionRequests d' = deletionRequests d \<and> restrictions d' = restrictions d \<and>
     inviteCodes d' = inviteCodes d"

lemma life_inv_same:
  "life_inv P w \<Longrightarrow> draws w \<le> draws w' \<Longrightarrow> life_same (db w) (db w') \<Longrightarrow> life_inv P w'"
  by (rule life_inv_columns [of P w w']) (simp_all add: life_same_def code_count_def)

lemma life_same_refl [simp]: "life_same d d"
  by (simp add: life_same_def)

lemma life_same_update_user [simp]:
  "(\<And>u. life_columns (f u) = life_columns u) \<Longrightarrow> life_same d (update_user uid f d')  = life_same d d'"
  by (simp add: life_same_def update_user_def life_columns_update)

lemma life_same_frames [simp]:
  "life_same d (createAuditLog t p d') = life_same d d'"
  "life_same d (admin_audit t a u act pr nx re me d') = life_same d d'"
  "life_same d (delete_files q d') = life_same d d'"
  "life_same d (delete_bins r d') = life_same d d'"
  "life_same d (delete_mails s d') = life_same d d'"
  "life_same d (d'\<lparr>links := ls\<rparr>) = life_same d d'"
  "life_same d (d'\<lparr>blockedSenders := bs\<rparr>) = life_same d d'"
  by (simp_all add: life_same_def admin_audit_def)

lemma life_same_clearContent [simp]: "life_same d (snd (clearUserContentRecords uid d)) = True"
  by (simp add: clearUserContentRecords_def Let_def)

lemma abort_uploads_frame [simp]:
  "db (snd (abortRedisBackedUploads P ks w)) = db w"
  "now (snd (abortRedisBackedUploads P ks w)) = now w"
  "draws (snd (abortRedisBackedUploads P ks w)) = draws w"
  by (induction ks arbitrary: w)
    (auto simp: Let_def split_beta split: option.splits)

lemma redis_del_all_frame [simp]:
  "db (redis_del_all P ks w) = db w"
  "now (redis_del_all P ks w) = now w"
  "objects (redis_del_all P ks w) = objects w"
  "draws (redis_del_all P ks w) = draws w"
  by (induction ks arbitrary: w) simp_all

lemma cleared_redis_frame [simp]:
  "db (cleared_redis P uid w) = db w"
  "now (cleared_redis P uid w) = now w"
  "draws (cleared_redis P uid w) = draws w"
  by (auto simp: cleared_redis_def clearUserRedisData_def Let_def split_beta split: option.splits)

lemma updateAvatar_inv:
  "life_inv P w \<Longrightarrow> life_inv P (w\<lparr>db := snd (updateAvatar uid a (db w))\<rparr>)"
  by (rule life_inv_same [of P w]) (auto simp: updateAvatar_def split: option.splits)

lemma rotateUserSession_inv: "life_inv P w \<Longrightarrow> life_inv P (rotateUserSession P uid w)"
  by (rule life_inv_same [of P w]) (auto simp: rotateUserSession_def randomUUID_def Let_def)

lemma forceLogoutUser_inv:
  assumes "life_inv P w"
  shows "life_inv P (snd (forceLogoutUser P aid uid reason w))"
  by (rule life_inv_same [OF assms])
    (auto simp: forceLogoutUser_def rotateUserSession_def randomUUID_def Let_def split: sum.splits)

lemma changeUsername_inv:
  assumes "life_inv P w"
  shows "life_inv P (snd (changeUsername P aid uid name reason w))"
  by (rule life_inv_same [OF assms])
    (auto simp: changeUsername_def randomUUID_def Let_def split: sum.splits)

lemma deleteUserFiles_inv:
  assumes "life_inv P w"
  shows "life_inv P (snd (deleteUserFiles P aid uid ids reason w))"
  by (rule life_inv_same [OF assms])
    (auto simp: deleteUserFiles_def Let_def split: sum.splits)

lemma clearUserData_inv:
  assumes "life_inv P w"
  shows "life_inv P (snd (clearUserData P aid uid reason w))"
  by (rule life_inv_same [OF assms])
    (auto simp: clearUserData_def Let_def split_beta split: sum.splits)

lemma logout_inv: "life_inv P w \<Longrightarrow> life_inv P (snd (logout P uid w))"
  using life_inv_same [of P w "w\<lparr>draws := Suc (draws w)\<rparr>"]
  by (auto simp: logout_def rotateUserSession_inv split: option.splits)

lemma generateMasterKeyStore_frame:
  assumes "generateMasterKeyStore P secret raw w = (st, w')"
  shows "db w' = db w" "draws w' = draws w + 2" "now w' = now w" "redis w' = redis w"
    "objects w' = objects w"
  using assms by (auto simp: generateMasterKeyStore_def randomBytesOf_def Let_def)

lemma reEncryptMasterKey_frame:
  assumes "reEncryptMasterKey P raw secret w = (st, w')"
  shows "db w' = db w" "draws w' = draws w + 2" "now w' = now w" "redis w' = redis w"
    "objects w' = objects w"
  using assms by (auto simp: reEncryptMasterKey_def randomBytesOf_def Let_def)

lemma changePassword_inv:
  assumes "life_inv P w"
  shows "life_inv P (snd (changePassword P uid old new w))"
  by (rule life_inv_same [OF assms])
    (auto simp: changePassword_def hashPassword_def randomUUID_def Let_def reEncryptMasterKey_frame
      split: option.splits sum.splits prod.splits)

lemma recoverPassword_inv:
  assumes "life_inv P w"
  shows "life_inv P (snd (recoverPassword P name phrase new w))"
  by (rule life_inv_same [OF assms])
    (auto simp: recoverPassword_def hashPassword_def randomUUID_def Let_def
      generateMasterKeyStore_frame split: option.splits sum.splits prod.splits)

lemma cacheMasterKey_frame [simp]:
  "db (cacheMasterKey P uid k w) = db w"
  "now (cacheMasterKey P uid k w) = now w"
  "draws (cacheMasterKey P uid k w) = draws w"
  by (simp_all add: cacheMasterKey_def)

lemma openSession_inv:
  assumes "life_inv P w"
  shows "life_inv P (snd (openSession P pw u w))"
  by (rule life_inv_same [OF assms]) (auto simp: openSession_def Let_def split: sum.splits)

section \<open>Sessions that pass through the login gate\<close>

lemma login_inv:
  assumes "life_inv P w"
  shows "life_inv P (snd (login P name pw w))"
proof (cases "user_by_name (db w) name")
  case (Some user)
  let ?r1 = "preparePendingDeletionLogin P (user_id user) w"
  have 1: "life_inv P (snd ?r1)" by (rule preparePendingDeletionLogin_inv [OF assms])
  have 2: "life_inv P (snd (assertUserCanLogin P v s (snd ?r1)))" for v s
    by (rule assertUserCanLogin_inv [OF 1])
  have 3: "life_inv P (snd (openSession P pw u (snd (assertUserCanLogin P v s (snd ?r1)))))" for v s u
    by (rule openSession_inv [OF 2])
  show ?thesis
    using Some assms 1 2 3
    by (simp add: login_def split_beta split: option.splits sum.splits)
qed (simp add: login_def assms)

lemma refreshToken_inv:
  assumes "life_inv P w"
  shows "life_inv P (snd (refreshToken P uid key w))"
proof (cases "user_by_id (db w) uid")
  case (Some user)
  obtain r w1 where r: "assertUserCanLogin P (user_id user) (user_status user) w = (r, w1)" by fastforce
  have w1: "life_inv P w1" using assertUserCanLogin_inv [OF assms, of "user_id user" "user_status user"] r by simp
  show ?thesis
  proof (cases r)
    case (Inr x)
    have "life_inv P (snd (refreshToken P uid key w))"
      by (rule life_inv_same [OF w1])
        (use Some r Inr in \<open>auto simp: refreshToken_def Let_def randomUUID_def life_same_def
          life_columns_update split: option.splits\<close>)
    then show ?thesis .
  qed (use Some r w1 in \<open>simp add: refreshToken_def\<close>)
qed (simp add: refreshToken_def assms)

lemma reactivateAccount_inv:
  assumes "life_inv P w"
  shows "life_inv P (snd (reactivateAccount P token w))"
  using assms reactivatePendingAccount_inv [OF assms]
  by (auto simp: reactivateAccount_def split: option.splits)

lemma internal_validate_inv:
  assumes "life_inv P w"
  shows "life_inv P (snd (internal_validate P token w))"
  using assms assertUserCanLogin_inv [OF assms]
  by (simp add: internal_validate_def split_beta split: option.splits sum.splits)

lemma internal_profile_inv:
  assumes "life_inv P w"
  shows "life_inv P (snd (internal_profile P uid w))"
  using assms assertUserCanLogin_inv [OF assms]
  by (simp add: internal_profile_def split_beta split: option.splits sum.splits)

lemma internal_login_inv:
  assumes "life_inv P w"
  shows "life_inv P (snd (internal_login P name pw w))"
proof (cases "user_by_name (db w) name")
  case (Some user)
  let ?w1 = "snd (assertUserCanLogin P (user_id user) (user_status user) w)"
  have 1: "life_inv P ?w1" by (rule assertUserCanLogin_inv [OF assms])
  have 2: "life_inv P (snd (assertUserCanLogin P v s ?w1))" for v s
    by (rule assertUserCanLogin_inv [OF 1])
  have 3: "life_inv P (cacheMasterKey P i k (snd (assertUserCanLogin P v s ?w1)))" for v s i k
    by (rule life_inv_same [OF 2 [of v s]]) simp_all
  show ?thesis
    using Some assms 1 2 3
    by (simp add: internal_login_def split_beta Let_def split: option.splits sum.splits)
qed (simp add: internal_login_def assms)

section \<open>Administrators' changes of status\<close>

lemma status_of_type_inj [simp]: "status_of_type a = status_of_type b \<longleftrightarrow> a = b"
  by (cases a; cases b; simp)

lemma account_inv_restrict_tx:
  assumes "account_inv d" "user_by_id d uid = Some u"
    and "restr_userId r = uid" "open_restriction r"
  shows "account_inv (restrict_tx t k r aid prev (status_of_type (restr_type r)) meta uid d)"
proof -
  let ?s = "status_of_type (restr_type r)"
  define d2 where "d2 = resolveOpenRestrictions t uid (cancelActiveDeletionRequests t uid d)"
  define d3 where "d3 = update_user uid (\<lambda>u. u\<lparr>user_status := ?s, user_sessionKey := k\<rparr>) d2"
  define d4 where "d4 = d3\<lparr>restrictions := restrictions d3 @ [r]\<rparr>"
  have d4: "restrictions d4 = restrictions d2 @ [r]" "deletionRequests d4 = deletionRequests d3"
    "users d4 = users d3" "inviteCodes d4 = inviteCodes d3"
    by (simp_all add: d4_def d3_def)
  have rc: "restriction_count d4 v ty =
      restriction_count d2 v ty + (if v = uid \<and> ty = restr_type r then 1 else 0)" for v ty
    using assms(3,4) by (auto simp: restriction_count_def d4(1) tbl)
  have eq: "request_count d4 v = request_count d3 v" "code_count d4 v = code_count d3 v"
    "has_status d4 v s = has_status d3 v s" "issued d4 v = issued d3 v" for v s
    by (rule counts_cong, simp add: d4)+
  have st: "has_status d3 v s = (if v = uid then s = ?s else has_status d v s)"
    and isd: "issued d3 v = issued d v" for v s
    using assms(2) by (auto simp: d3_def d2_def lifecycle issued_Some)
  have cnt: "request_count d3 v = (if v = uid then 0 else request_count d v)"
    "code_count d3 v = code_count d v"
    "restriction_count d2 v ty = (if v = uid then 0 else restriction_count d v ty)" for v ty
    by (simp_all add: d3_def d2_def lifecycle)
  have ids: "map user_id (users d4) = map user_id (users d)"
    "distinct (map dreq_id (deletionRequests d4))"
    using account_invD(2) [OF assms(1)] by (simp_all add: d4 d3_def d2_def lifecycle)
  have tx: "restrict_tx t k r aid prev ?s meta uid d = createAuditLog t
      \<lparr>ap_actorType = ADMIN, ap_action = ''user_status_changed'', ap_targetUserId = Some uid,
       ap_adminUserId = Some aid, ap_previousStatus = Some prev, ap_newStatus = Some ?s,
       ap_reason = Some (restr_reason r), ap_meta = meta\<rparr> (setInviteCodesValidity uid False d4)"
    by (simp add: restrict_tx_def Let_def d2_def d3_def d4_def)
  show ?thesis
    unfolding tx
    by (rule account_inv_transition [OF assms(1), of _ uid])
      (use account_invD(5) [OF assms(1), of uid] in
        \<open>auto simp: lifecycle eq st isd cnt rc ids\<close>)
qed

lemma restrict_tx_ids:
  "map dreq_id (deletionRequests (restrict_tx t k r aid prev s meta uid d)) =
     map dreq_id (deletionRequests d)"
  "map user_id (users (restrict_tx t k r aid prev s meta uid d)) = map user_id (users d)"
  by (simp_all add: restrict_tx_def Let_def lifecycle)

lemma restrict_inv:
  assumes "life_inv P w" "user_by_id (db w) uid = Some u"
    and "restr_userId r = uid" "open_restriction r" "s = status_of_type (restr_type r)"
    and "db w' = restrict_tx t k r aid prev s meta uid (db w)" "draws w \<le> draws w'"
  shows "life_inv P w'"
  using account_inv_restrict_tx [OF life_invD(1) [OF assms(1)] assms(2-4)]
  by (intro life_inv_same_ids [OF assms(1,7)]) (simp_all add: assms(5,6) restrict_tx_ids)

lemma lockUser_inv:
  assumes "life_inv P w" "user_by_id (db w) (user_id u) = Some u"
  shows "life_inv P (snd (lockUser P aid u dto w))"
proof (cases "su_reason dto = []")
  case False
  define r where "r = \<lparr>restr_id = uuid P (Suc (draws w)), restr_userId = user_id u, restr_type = LOCK,
    restr_reason = su_reason dto, restr_isPermanent = False, restr_expiresAt = None,
    restr_createdByAdminUserId = Some aid, restr_createdAt = now w, restr_resolvedAt = None\<rparr>"
  show ?thesis
    by (rule restrict_inv [OF assms, where r = r and s = LOCKED])
      (use False in \<open>auto simp: lockUser_def Let_def randomUUID_def r_def open_restriction_def\<close>)
qed (simp add: lockUser_def assms(1))

lemma banUser_inv:
  assumes "life_inv P w" "user_by_id (db w) (user_id u) = Some u"
  shows "life_inv P (snd (banUser P aid u dto w))"
proof (cases "su_reason dto = [] \<or> su_permanent dto \<noteq> Some True \<and> \<not> truthy_nat (su_durationDays dto)")
  case False
  define r where "r = \<lparr>restr_id = uuid P (Suc (draws w)), restr_userId = user_id u, restr_type = BAN,
    restr_reason = su_reason dto, restr_isPermanent = (su_permanent dto = Some True),
    restr_expiresAt = (if su_permanent dto = Some True \<or> \<not> truthy_nat (su_durationDays dto) then None
      else map_option (addDays P (now w)) (su_durationDays dto)),
    restr_createdByAdminUserId = Some aid, restr_createdAt = now w, restr_resolvedAt = None\<rparr>"
  show ?thesis
  proof (cases "su_permanent dto = Some True")
    case True
    show ?thesis
      by (rule restrict_inv [OF assms, where r = r and s = BANNED])
        (use False True in \<open>auto simp: banUser_def Let_def randomUUID_def r_def open_restriction_def\<close>)
  next
    case temporary: False
    show ?thesis
      by (rule restrict_inv [OF assms, where r = r and s = BANNED])
        (use False temporary in
          \<open>auto simp: banUser_def Let_def randomUUID_def r_def open_restriction_def\<close>)
  qed
qed (auto simp: banUser_def assms(1) Let_def)

text \<open>The administrator's deletion writes the same users, requests, restrictions and codes as the
  user service's.\<close>

lemma admin_delete_tables:
  fixes P :: "('r, 's) platform" and w :: "('r, 's) world" and uid :: string
  assumes "do_deletionRequestId opts = None"
  defines "w' \<equiv> snd (admin_deleteUserDataAndMarkDeleted P uid opts w)"
  shows "\<exists>d'. deletion_tx (now w) (uuid P (draws w)) opts uid (db w) = Some d' \<and>
    users (db w') = users d' \<and> deletionRequests (db w') = deletionRequests d' \<and>
    restrictions (db w') = restrictions d' \<and> inviteCodes (db w') = inviteCodes d' \<and>
    files (db w') = files d' \<and> mails (db w') = mails d' \<and> bins (db w') = bins d' \<and>
    links (db w') = links d' \<and> blockedSenders (db w') = blockedSenders d'"
    and "fst (admin_deleteUserDataAndMarkDeleted P uid opts w) = Inr ()"
    and "draws w' = Suc (draws w)"
  using assms(1)
  by (auto simp: w'_def admin_deleteUserDataAndMarkDeleted_def deletion_tx_def Let_def randomUUID_def
      clearUserContentRecords_def update_user_def cancelActiveDeletionRequests_def
      resolveOpenRestrictions_def)

lemma account_inv_tables:
  assumes "users d = users e" "deletionRequests d = deletionRequests e"
    and "restrictions d = restrictions e" "inviteCodes d = inviteCodes e"
  shows "account_inv d = account_inv e"
proof -
  have "request_count d v = request_count e v" "restriction_count d v ty = restriction_count e v ty"
    "code_count d v = code_count e v" "has_status d v s = has_status e v s" "issued d v = issued e v"
    for v ty s
    by (rule counts_cong, rule assms)+
  then show ?thesis by (simp add: account_inv_def assms)
qed

lemma removeUser_inv:
  assumes "life_inv P w" "user_by_id (db w) (user_id u) = Some u"
  shows "life_inv P (snd (removeUser P aid u dto w))"
proof (cases "su_reason dto = []")
  case False
  define opts where "opts = \<lparr>do_actorType = ADMIN, do_action = ''user_status_changed'',
    do_reason = Some (su_reason dto), do_previousStatus = user_status u,
    do_adminUserId = Some aid, do_deletionRequestId = None\<rparr>"
  have none: "do_deletionRequestId opts = None" by (simp add: opts_def)
  let ?w' = "snd (admin_deleteUserDataAndMarkDeleted P (user_id u) opts w)"
  obtain d' where d': "deletion_tx (now w) (uuid P (draws w)) opts (user_id u) (db w) = Some d'"
    "users (db ?w') = users d'" "deletionRequests (db ?w') = deletionRequests d'"
    "restrictions (db ?w') = restrictions d'" "inviteCodes (db ?w') = inviteCodes d'"
    using admin_delete_tables(1) [OF none, of w P "user_id u"] by auto
  have "account_inv d'"
    by (rule account_inv_deletion_tx [OF life_invD(1) [OF assms(1)] assms(2) d'(1)])
      (simp add: none)
  then have "account_inv (db ?w')"
    using account_inv_tables [OF d'(2-5)] by simp
  then have "life_inv P ?w'"
    using deletion_tx_ids(1,2) [OF d'(1)] admin_delete_tables(3) [OF none, of P "user_id u" w]
    by (intro life_inv_same_ids [OF assms(1)]) (simp_all add: d')
  with False show ?thesis by (simp add: removeUser_def opts_def)
qed (simp add: removeUser_def assms(1))

lemma updateUserStatus_inv:
  assumes "life_inv P w"
  shows "life_inv P (snd (updateUserStatus P aid uid dto w))"
proof (cases "user_by_id (db w) uid")
  case (Some u)
  then have u: "user_by_id (db w) (user_id u) = Some u" by auto
  have "life_inv P (snd (changeStatus P aid u dto w))"
    using lockUser_inv [OF assms u] banUser_inv [OF assms u] removeUser_inv [OF assms u]
      reactivateUser_inv [OF assms]
    by (cases "su_status dto") (simp_all add: changeStatus_def admin_reactivateUser_eq)
  then show ?thesis
    using Some assms by (simp add: updateUserStatus_def split_beta split: sum.splits)
qed (simp add: updateUserStatus_def assms)

section \<open>Invite codes and registration\<close>

lemma generateInviteCode_inv:
  assumes "life_inv P w"
  shows "life_inv P (snd (generateInviteCode P uid w))"
proof (cases "fst (generateInviteCode P uid w)")
  case (Inl e)
  show ?thesis
    by (rule life_inv_same [OF assms])
      (use Inl in \<open>auto simp: generateInviteCode_def inviteCommit_def Let_def randomUUID_def
        randomBytesOf_def split: sum.splits if_splits\<close>)
next
  case (Inr inv)
  define w' where "w' = snd (generateInviteCode P uid w)"
  obtain u where u: "user_by_id (db w) uid = Some u" "user_issuedCodes u < MAX_INVITES"
    using Inr by (auto simp: generateInviteCode_def inviteCheck_def split: option.splits if_splits sum.splits)
  have w': "db w' = update_user uid (\<lambda>u. u\<lparr>user_issuedCodes := user_issuedCodes u + 1\<rparr>)
      ((db w)\<lparr>inviteCodes := inviteCodes (db w) @ [inv]\<rparr>)"
    "invite_userId inv = Some uid" "draws w' = Suc (Suc (draws w))"
    using Inr by (auto simp: w'_def generateInviteCode_def inviteCommit_def Let_def randomUUID_def
        randomBytesOf_def split: sum.splits if_splits)
  define d1 where "d1 = (db w)\<lparr>inviteCodes := inviteCodes (db w) @ [inv]\<rparr>"
  have d1: "users d1 = users (db w)" "restrictions d1 = restrictions (db w)"
    "deletionRequests d1 = deletionRequests (db w)"
    by (simp_all add: d1_def)
  have eq: "request_count d1 v = request_count (db w) v"
    "restriction_count d1 v ty = restriction_count (db w) v ty"
    "has_status d1 v s = has_status (db w) v s" "issued d1 v = issued (db w) v" for v ty s
    by (rule counts_cong, simp add: d1)+
  have byid: "user_by_id d1 v = user_by_id (db w) v" for v by (rule user_by_id_cong [OF d1(1)])
  have cc: "code_count d1 v = code_count (db w) v + (if v = uid then 1 else 0)" for v
    by (auto simp: code_count_def d1_def tbl w'(2))
  have "account_inv (db w')"
    by (rule account_inv_transition [OF life_invD(1) [OF assms], of _ uid])
      (use u account_invD(3-5) [OF life_invD(1) [OF assms], of uid]
          account_invD(2) [OF life_invD(1) [OF assms]] in
        \<open>auto simp: w'(1) d1_def [symmetric] lifecycle eq cc byid d1 issued_Some has_status_Some\<close>)
  then have "life_inv P w'"
    by (intro life_inv_same_ids [OF assms]) (simp_all add: w' lifecycle)
  then show ?thesis by (simp add: w'_def)
qed

lemma user_by_id_append:
  "user_by_id (d\<lparr>users := users d @ [u], inviteCodes := ics\<rparr>) v =
     (case user_by_id d v of Some x \<Rightarrow> Some x | None \<Rightarrow> if user_id u = v then Some u else None)"
  by (simp add: user_by_id_def find_append split: option.splits)

lemma account_inv_register:
  assumes "account_inv d" "register_tx u iid d = Inr d'"
    and "user_id u \<notin> user_id ` set (users d)" "user_status u = ACTIVE" "user_issuedCodes u = 0"
  shows "account_inv d'"
proof -
  let ?uid = "user_id u"
  have d': "d' = d\<lparr>users := users d @ [u],
      inviteCodes := update_where (\<lambda>i. invite_id i = iid)
        (\<lambda>i. i\<lparr>invite_usage := invite_usage i - 1\<rparr>) (inviteCodes d)\<rparr>"
    using assms(2) by (auto simp: register_tx_def split: if_splits)
  have none: "user_by_id d ?uid = None"
    using assms(3) by (metis imageI option.exhaust user_by_id_Some)
  have zero: "request_count d ?uid = 0" "restriction_count d ?uid ty = 0" "code_count d ?uid = 0" for ty
    using account_invD(3-5) [OF assms(1), of ?uid] none by (simp_all add: has_status_def issued_def)
  have cnt: "request_count d' v = request_count d v" "restriction_count d' v ty = restriction_count d v ty"
    "code_count d' v = code_count d v" for v ty
    by (simp_all add: d' request_count_def restriction_count_def code_count_def count_where_update_same)
  have st: "has_status d' v s = (if v = ?uid then s = ACTIVE else has_status d v s)"
    "issued d' v = (if v = ?uid then 0 else issued d v)" for v s
    using none assms(4,5)
    by (auto simp: has_status_def issued_def d' user_by_id_append split: option.splits)
  have ids: "distinct (map user_id (users d'))" "deletionRequests d' = deletionRequests d"
    using account_invD(1) [OF assms(1)] assms(3) by (simp_all add: d')
  show ?thesis
    using assms(1) zero by (auto simp: account_inv_def ids cnt st)
qed

text \<open>A registration is the transaction on the new user's row, whose id was drawn on the way.\<close>

definition register_result ::
    "('r, 's) platform \<Rightarrow> user \<Rightarrow> string \<Rightarrow> bytes \<Rightarrow> ('r, 's) world \<Rightarrow>
     (string \<times> string, ('r, 's) world) outcome" where
  "register_result P u iid raw w =
     (case register_tx u iid (db w) of
        Inl True \<Rightarrow> (Inl (Conflict ''Username already taken''), w)
      | Inl False \<Rightarrow> (Inl (BadRequest ''Registration failed''), w)
      | Inr d \<Rightarrow>
          (let w1 = cacheMasterKey P (user_id u) raw (w\<lparr>db := d\<rparr>)
           in (getTokens P (user_id u) (user_username u) (user_sessionKey u) w1, w1)))"

lemma mk_store_eta [simp]:
  "\<lparr>mk_encrypted = mk_encrypted st, mk_iv = mk_iv st, mk_salt = mk_salt st\<rparr> = st"
  by (cases st) simp

lemma newUserRow_simps [simp]:
  "user_id (newUserRow i n h k t s r p q e v) = i"
  "user_username (newUserRow i n h k t s r p q e v) = n"
  "user_sessionKey (newUserRow i n h k t s r p q e v) = k"
  "user_status (newUserRow i n h k t s r p q e v) = ACTIVE"
  "user_issuedCodes (newUserRow i n h k t s r p q e v) = 0"
  by (simp_all add: newUserRow_def)

lemma registerCommit_shape:
  obtains w9 u n where "registerCommit P dto iid w = register_result P u iid (randomBytes P (draws w) 32) w9"
    "db w9 = db w" "now w9 = now w" "redis w9 = redis w" "draws w \<le> n" "n < draws w9"
    "user_id u = uuid P n" "user_sessionKey u = uuid P (n - 1)" "user_username u = reg_username dto"
    "user_status u = ACTIVE" "user_issuedCodes u = 0"
    "\<exists>w1 w2. generateMasterKeyStore P (reg_password dto) (randomBytes P (draws w) 32) w1 =
       (\<lparr>mk_encrypted = the (user_encryptedMasterKey u), mk_iv = the (user_masterKeyIv u),
         mk_salt = the (user_masterKeySalt u)\<rparr>, w2)"
    "\<exists>w1 w2. generateMasterKeyStore P (reg_recoveryPhrase dto) (randomBytes P (draws w) 32) w1 =
       (\<lparr>mk_encrypted = user_recoveryEncryptedMasterKey u, mk_iv = user_recoveryMasterKeyIv u,
         mk_salt = user_recoveryMasterKeySalt u\<rparr>, w2)"
    "user_encryptedMasterKey u \<noteq> None" "user_masterKeyIv u \<noteq> None" "user_masterKeySalt u \<noteq> None"
    "\<exists>i. user_password u = bcrypt_hash P i (reg_password dto) 13"
    "\<exists>i. user_recoveryPhraseHash u = bcrypt_hash P i (sha256 P (reg_recoveryPhrase dto)) 13"
proof -
  let ?raw = "randomBytes P (draws w) 32"
  obtain st1 w2 where s1: "generateMasterKeyStore P (reg_password dto) ?raw
      (w\<lparr>draws := Suc (draws w)\<rparr>) = (st1, w2)" by fastforce
  obtain st2 w3 where s2: "generateMasterKeyStore P (reg_recoveryPhrase dto) ?raw w2 = (st2, w3)"
    by fastforce
  obtain pub priv where k: "rsa_keyPair P (Suc (draws w3)) = (pub, priv)" by fastforce
  let ?n = "Suc (Suc (Suc (Suc (Suc (draws w3)))))"
  let ?iv = "randomBytes P (Suc (Suc (draws w3))) 16"
  define u where "u = newUserRow (uuid P ?n) (reg_username dto)
    (bcrypt_hash P (Suc (Suc (Suc (draws w3)))) (reg_password dto) 13)
    (uuid P (Suc (Suc (Suc (Suc (draws w3)))))) (now w) st1 st2
    (bcrypt_hash P (draws w3) (sha256 P (reg_recoveryPhrase dto)) 13) pub
    (hex (aes_cbc_encrypt P ?raw ?iv (utf8 P priv))) (hex ?iv)"
  have u: "user_id u = uuid P ?n" "user_sessionKey u = uuid P (?n - 1)"
    "user_username u = reg_username dto" "user_status u = ACTIVE" "user_issuedCodes u = 0"
    by (simp_all add: u_def)
  define w9 where "w9 = w3\<lparr>draws := Suc ?n\<rparr>"
  have eq: "registerCommit P dto iid w = register_result P u iid ?raw w9"
    unfolding register_result_def u_def w9_def
    by (simp add: registerCommit_def s1 s2 k Let_def hashRecoveryPhrase_def hashPassword_def
        randomBytesOf_def randomUUID_def split: sum.split bool.split)
  show thesis
    by (rule that [OF eq _ _ _ _ _ u])
      (use s1 s2 in \<open>auto simp: w9_def generateMasterKeyStore_frame [OF s1]
        generateMasterKeyStore_frame [OF s2] u_def newUserRow_def\<close>)
qed

lemma register_cases:
  obtains "db (snd (register P dto w)) = db w" "draws w \<le> draws (snd (register P dto w))"
  | n u iid d' where "register_tx u iid (db w) = Inr d'" "db (snd (register P dto w)) = d'"
    "user_id u = uuid P n" "user_status u = ACTIVE" "user_issuedCodes u = 0"
    "draws w \<le> n" "n < draws (snd (register P dto w))"
proof (cases "inviteUsable (db w) (reg_inviteCode dto)")
  case (Inl e)
  then show thesis by (intro that(1)) (simp_all add: register_def)
next
  case (Inr invite)
  obtain w9 u n where w9: "registerCommit P dto (invite_id invite) w =
      register_result P u (invite_id invite) (randomBytes P (draws w) 32) w9"
    "db w9 = db w" "draws w \<le> n" "n < draws w9"
    "user_id u = uuid P n" "user_status u = ACTIVE" "user_issuedCodes u = 0"
    by (rule registerCommit_shape)
  show thesis
  proof (cases "register_tx u (invite_id invite) (db w)")
    case tx: (Inl b)
    with w9 Inr show thesis
      by (intro that(1)) (cases b; simp add: register_def register_result_def)+
  next
    case tx: (Inr d')
    with w9 Inr show thesis
      by (intro that(2) [OF tx, of n]) (simp_all add: register_def register_result_def Let_def)
  qed
qed

lemma register_inv:
  assumes "life_inv P w" "fresh_uuids P"
  shows "life_inv P (snd (register P dto w))"
proof (cases rule: register_cases [of P dto w])
  case 1
  then show ?thesis using assms(1) by (intro life_inv_same [OF assms(1)]) simp_all
next
  case (2 n u iid d')
  have "user_id u \<notin> user_id ` set (users (db w))"
    using ids_drawnD(2) [OF life_invD(2) [OF assms(1)] assms(2) 2(6)] 2(3) by simp
  then have "account_inv d'"
    by (rule account_inv_register [OF life_invD(1) [OF assms(1)] 2(1) _ 2(4,5)])
  moreover have "ids_drawn P (snd (register P dto w))"
  proof (rule ids_drawn_mono [OF life_invD(2) [OF assms(1)]])
    have d': "deletionRequests d' = deletionRequests (db w)" "users d' = users (db w) @ [u]"
      using 2(1) by (auto simp: register_tx_def split: if_splits)
    show "dreq_id ` set (deletionRequests (db (snd (register P dto w)))) \<subseteq>
        dreq_id ` set (deletionRequests (db w)) \<union> uuid P ` {..<draws (snd (register P dto w))}"
      by (simp add: 2(2) d')
    show "user_id ` set (users (db (snd (register P dto w)))) \<subseteq>
        user_id ` set (users (db w)) \<union> uuid P ` {..<draws (snd (register P dto w))}"
      using 2(3,7) by (simp add: 2(2) d')
  qed (use 2(6,7) in simp)
  ultimately show ?thesis using 2(2) by (simp add: life_inv_def)
qed

section \<open>The system\<close>

text \<open>One rule per operation. A route behind \<^verbatim>\<open>JwtStrategy\<close> runs for an active account
  only (\<open>validateAccess\<close>); the login gate is called with the row it was read from. Between two of them time
  passes and the rest of the world may change (\<open>environment\<close>: mails, files, the codes of
  administrators), but not the columns the lifecycle is about.\<close>

inductive account_step ::
    "('r, 's) platform \<Rightarrow> ('r, 's) world \<Rightarrow> ('r, 's) world \<Rightarrow> bool"
  for P :: "('r, 's) platform" where
  register: "account_step P w (snd (register P dto w))"
| login: "account_step P w (snd (login P name pw w))"
| refresh: "account_step P w (snd (refreshToken P uid key w))"
| logout: "account_step P w (snd (logout P uid w))"
| change_password: "account_step P w (snd (changePassword P uid old new w))"
| recover_password: "account_step P w (snd (recoverPassword P name phrase new w))"
| reactivate_account: "account_step P w (snd (reactivateAccount P token w))"
| internal_login: "account_step P w (snd (internal_login P name pw w))"
| internal_validate: "account_step P w (snd (internal_validate P token w))"
| internal_profile: "account_step P w (snd (internal_profile P uid w))"
| invite: "account_step P w (snd (generateInviteCode P uid w))"
| avatar: "account_step P w (w\<lparr>db := snd (updateAvatar uid a (db w))\<rparr>)"
| request_deletion:
    "validateAccess (db w) payload = Inr u \<Longrightarrow>
     account_step P w (snd (requestAccountDeletion P (user_id u) pw w))"
| deletion_job: "account_step P w (snd (processPendingDeletionRequests P w))"
| restriction_job: "account_step P w (snd (processExpiredRestrictions P w))"
| admin_status: "account_step P w (snd (updateUserStatus P aid uid dto' w))"
| admin_logout_user: "account_step P w (snd (forceLogoutUser P aid uid reason w))"
| admin_rename: "account_step P w (snd (changeUsername P aid uid name reason w))"
| admin_delete_files: "account_step P w (snd (deleteUserFiles P aid uid ids reason w))"
| admin_clear: "account_step P w (snd (clearUserData P aid uid reason w))"
| environment:
    "map life_columns (users (db w')) = map life_columns (users (db w)) \<Longrightarrow>
     deletionRequests (db w') = deletionRequests (db w) \<Longrightarrow>
     restrictions (db w') = restrictions (db w) \<Longrightarrow>
     (\<And>uid. code_count (db w') uid = code_count (db w) uid) \<Longrightarrow>
     draws w \<le> draws w' \<Longrightarrow> account_step P w w'"

inductive_cases account_stepE: "account_step P w w'"

definition account_init :: "('r, 's) world \<Rightarrow> bool" where
  "account_init w \<longleftrightarrow> users (db w) = [] \<and> deletionRequests (db w) = [] \<and>
     restrictions (db w) = [] \<and> inviteCodes (db w) = []"

lemma life_inv_init: "account_init w \<Longrightarrow> life_inv P w"
  by (simp add: account_init_def life_inv_def account_inv_def ids_drawn_def request_count_def
      restriction_count_def code_count_def issued_def has_status_def user_by_id_def tbl)

lemma validateAccess_status:
  "validateAccess d payload = Inr u \<Longrightarrow> user_by_id d (user_id u) = Some u \<and> user_status u = ACTIVE"
  using user_by_id_Some [of d "jwt_sub payload" u]
  by (auto simp: validateAccess_def split: option.splits if_splits)

lemma processPendingDeletionRequests_inv:
  assumes "life_inv P w"
  shows "life_inv P (snd (processPendingDeletionRequests P w))"
  using process_all_effect [OF assms due_requests_active [OF life_invD(1) [OF assms], of "now w"]]
  by (simp add: processPendingDeletionRequests_def process_all_def Let_def)

lemma account_step_inv:
  assumes "fresh_uuids P" "life_inv P w" "account_step P w w'"
  shows "life_inv P w'"
  using assms(3)
proof cases
  case (request_deletion payload u pw)
  then show ?thesis
    using requestAccountDeletion_inv [OF assms(2,1)] validateAccess_status
    by (auto simp: has_status_Some)
next
  case environment
  then show ?thesis using life_inv_columns [OF assms(2)] by blast
qed (simp_all add: assms(1,2) register_inv login_inv refreshToken_inv logout_inv changePassword_inv
    recoverPassword_inv reactivateAccount_inv internal_login_inv internal_validate_inv
    internal_profile_inv generateInviteCode_inv updateAvatar_inv processPendingDeletionRequests_inv
    processExpiredRestrictions_inv updateUserStatus_inv forceLogoutUser_inv changeUsername_inv
    deleteUserFiles_inv clearUserData_inv)

interpretation accounts: invariant_system account_init
    "\<lambda>w w'. fresh_uuids P \<and> account_step P w w'" "life_inv P" for P
  by unfold_locales (auto intro: life_inv_init account_step_inv)

end
