(* ===== verification/Upload_System.thy ===== *)
theory Upload_System
  imports File_Access Account_Steps
begin

text \<open>
  The file service as a system of steps: every operation, the parts of a chunk request taken apart
  (so that cancellations, completions and other chunks run between them), the jobs, keys of Redis
  that expire and the passing of time. The invariant: every stored state of an upload and every
  chunk in flight has accepted exactly the parts \<open>1..next\<close> of a correctly counted file, and the
  stored files respect the owner's limits, whatever the object store replies.
\<close>

section \<open>Well-formed uploads\<close>

definition upload_wf :: "upload_meta \<Rightarrow> bool" where
  "upload_wf meta \<longleftrightarrow> meta_ok meta \<and>
     map fst (meta_parts meta) = [1..<Suc (meta_nextExpectedChunk meta)] \<and>
     meta_nextExpectedChunk meta \<le> meta_totalChunks meta \<and> meta_nextExpectedChunk meta \<le> 205"

lemma upload_wf_update [simp]:
  "upload_wf (meta\<lparr>meta_updatedAt := t\<rparr>) = upload_wf meta"
  "upload_wf (meta\<lparr>meta_s3UploadId := s\<rparr>) = upload_wf meta"
  by (simp_all add: upload_wf_def meta_ok_def)

lemma upload_wf_record:
  assumes "upload_wf meta" "meta_nextExpectedChunk meta = i" "i < meta_totalChunks meta" "i \<le> 204"
  shows "upload_wf (meta\<lparr>meta_parts := meta_parts meta @ [(i + 1, etag)],
    meta_nextExpectedChunk := Suc (meta_nextExpectedChunk meta), meta_updatedAt := t\<rparr>)"
  using assms by (simp add: upload_wf_def meta_ok_def)

lemma upload_wf_complete:
  assumes "upload_wf meta" "length (meta_parts meta) = meta_totalChunks meta"
  shows "map fst (meta_parts meta) = [1..<Suc (meta_totalChunks meta)]"
    and "meta_totalChunks meta \<le> 205"
proof -
  have "length (map fst (meta_parts meta)) = meta_nextExpectedChunk meta"
    using assms(1) by (simp add: upload_wf_def del: length_map)
  then have "meta_nextExpectedChunk meta = meta_totalChunks meta" using assms(2) by simp
  then show "map fst (meta_parts meta) = [1..<Suc (meta_totalChunks meta)]"
    and "meta_totalChunks meta \<le> 205"
    using assms(1) by (simp_all add: upload_wf_def)
qed

section \<open>What the keys of Redis hold\<close>

definition stored_ok :: "(string \<Rightarrow> rtext \<Rightarrow> bool) \<Rightarrow> (string \<Rightarrow> entry) \<Rightarrow> bool" where
  "stored_ok Q m \<longleftrightarrow> (\<forall>k v t. m k = Some (v, t) \<longrightarrow> Q k v)"

lemma stored_okD: "stored_ok Q m \<Longrightarrow> m k = Some (v, t) \<Longrightarrow> Q k v"
  by (simp add: stored_ok_def)

lemma stored_ok_get: "stored_ok Q m \<Longrightarrow> map_option fst (m k) = Some v \<Longrightarrow> Q k v"
  by (auto simp: stored_ok_def)

lemma stored_ok_put [intro, simp]: "stored_ok Q m \<Longrightarrow> Q k v \<Longrightarrow> stored_ok Q (m(k \<mapsto> (v, t)))"
  by (auto simp: stored_ok_def)

lemma stored_ok_del [intro, simp]: "stored_ok Q m \<Longrightarrow> stored_ok Q (m(k := None))"
  by (auto simp: stored_ok_def)

lemma stored_ok_ttl [intro]:
  "stored_ok Q m \<Longrightarrow> (\<And>v t. e = Some (v, t) \<Longrightarrow> Q k v) \<Longrightarrow> stored_ok Q (m(k := with_ttl n e))"
  by (cases e) (auto simp: stored_ok_def)

lemma stored_ok_expire [intro, simp]: "stored_ok Q m \<Longrightarrow> stored_ok Q (m(k := with_ttl n (m k)))"
  by (blast intro: stored_ok_ttl dest: stored_okD)

text \<open>Uploads are well formed; the keys of the attempt counters hold counters.\<close>

definition file_value :: "string \<Rightarrow> rtext \<Rightarrow> bool" where
  "file_value k v \<longleftrightarrow> (case v of MetaJson meta \<Rightarrow> upload_wf meta | _ \<Rightarrow> True) \<and>
     (prefix ''rl:'' k \<longrightarrow> (\<exists>n. v = Count n))"

lemma file_value_simps [simp]:
  "file_value (getUploadMetaKey u i) (MetaJson meta) = upload_wf meta"
  "file_value (getUploadStorageIndexKey i) (IndexJson index)"
  "file_value (initLockKey u) (Plain t)"
  "file_value k (Count n)"
  "file_value (masterKeyKey u) (Plain t)"
  by (auto simp: file_value_def masterKeyKey_def getUploadMetaKey_def getUploadStorageIndexKey_def initLockKey_def)

lemma upload_keys_differ [simp]:
  "getUploadStorageIndexKey s \<noteq> getUploadMetaKey u i" "getUploadMetaKey u i \<noteq> getUploadStorageIndexKey s"
  "getUploadStorageIndexKey s \<noteq> getActiveUploadKey v" "getActiveUploadKey v \<noteq> getUploadStorageIndexKey s"
  "getActiveUploadKey v \<noteq> getUploadMetaKey u i" "getUploadMetaKey u i \<noteq> getActiveUploadKey v"
  "initLockKey v \<noteq> getUploadMetaKey u i" "getUploadMetaKey u i \<noteq> initLockKey v"
  "initLockKey v \<noteq> getActiveUploadKey u" "getActiveUploadKey u \<noteq> initLockKey v"
  "initLockKey v \<noteq> getUploadStorageIndexKey s" "getUploadStorageIndexKey s \<noteq> initLockKey v"
  by (simp_all add: getUploadMetaKey_def getUploadStorageIndexKey_def getActiveUploadKey_def
      initLockKey_def)

lemma file_value_meta: "file_value k (MetaJson meta) \<Longrightarrow> upload_wf meta"
  by (simp add: file_value_def)

lemma rate_key_counter:
  assumes "stored_ok file_value m"
  shows "\<exists>c. counter (m (buildRateLimitKey sha ns subject)) = Some c"
proof (cases "m (buildRateLimitKey sha ns subject)")
  case (Some e)
  then obtain v t where e: "m (buildRateLimitKey sha ns subject) = Some (v, t)" by (cases e) auto
  have "file_value (buildRateLimitKey sha ns subject) v" by (rule stored_okD [OF assms e])
  then obtain n where "v = Count n" by (auto simp: file_value_def buildRateLimitKey_def)
  then show ?thesis using e by simp
qed simp

section \<open>Redis effects of the operations\<close>

text \<open>A start is refused before anything happens, or goes through the lock.\<close>

lemma initializeUpload_cases:
  obtains (refused) e where "initializeUpload P u dto w = (Inl e, w)"
  | (started) i k ph w3 where "iu_totalChunks dto = chunk_count (iu_fileSize dto)"
      "i = uuid P (draws w)" "redis w3 = redis w" "db w3 = db w" "objects w3 = objects w"
      "now w3 = now w"
      "draws w \<le> draws w3"
      "checkFileLimits P u (iu_fileSize dto) (db w) = Inr ()"
      "initializeUpload P u dto w = startUpload P u i (newUploadMeta dto k ph (now w)) w3"
proof (cases "\<exists>e. initializeUpload P u dto w = (Inl e, w)")
  case True
  then show thesis using refused by blast
next
  case False
  define w2 where "w2 = w\<lparr>draws := Suc (Suc (draws w))\<rparr>"
  obtain ph w3 where h: "hashUploadPassword P (iu_password dto) w2 = (ph, w3)" by fastforce
  have w3: "redis w3 = redis w" "db w3 = db w" "objects w3 = objects w" "now w3 = now w"
    "draws w \<le> draws w3"
    using h by (auto simp: hashUploadPassword_def w2_def split: if_splits)
  have c: "iu_totalChunks dto = chunk_count (iu_fileSize dto)"
    "checkFileLimits P u (iu_fileSize dto) (db w) = Inr ()"
    using False by (auto simp: initializeUpload_def split: sum.splits if_splits)
  have "initializeUpload P u dto w = startUpload P u (uuid P (draws w))
      (newUploadMeta dto (uuid P (Suc (draws w)) @ ''.bin'') ph (now w)) w3"
    using False c h
    by (auto simp: initializeUpload_def randomUUID_def w2_def Let_def split: sum.splits if_splits)
  with c w3 show thesis by (intro started) auto
qed

lemma openUpload_cases:
  assumes "openUpload P u i meta w = (r, sid, created, w')"
  obtains (failed) e st where "r = Inl e" "sid = None" "\<not> created" "w' = w\<lparr>objects := st\<rparr>"
  | (opened) s st index where "s \<noteq> []" "sid = Some s" created
      "idx_metaKey index = getUploadMetaKey u i" "idx_activeKey index = getActiveUploadKey u"
      "reserveActiveUpload P u i (setUploadStorageIndex P s index
        (redis_set P (getUploadMetaKey u i) (MetaJson (meta\<lparr>meta_s3UploadId := Some s\<rparr>))
          UPLOAD_META_TTL_SECONDS (w\<lparr>objects := st\<rparr>))) = (r, w')"
proof -
  obtain reply st where c:
    "s3_createMultipart (store P) filesBucket (meta_storageKey meta) (objects w) = (reply, st)"
    by fastforce
  show thesis
  proof (cases "\<exists>s. reply = Some (Some s) \<and> s \<noteq> []")
    case False
    then have "\<not> truthy x" if "reply = Some x" for x
      using that by (auto simp: truthy_def split: option.splits)
    then have "\<exists>e. r = Inl e" "sid = None" "\<not> created" "w' = w\<lparr>objects := st\<rparr>"
      using assms c by (auto simp: openUpload_def Let_def split: option.splits)
    then show thesis using failed by blast
  next
    case True
    then obtain s where s: "reply = Some (Some s)" "s \<noteq> []" by blast
    let ?index = "\<lparr>idx_metaKey = getUploadMetaKey u i, idx_activeKey = getActiveUploadKey u,
      idx_uploadId = i\<rparr>"
    obtain r4 w4 where r4: "reserveActiveUpload P u i (setUploadStorageIndex P s ?index
        (redis_set P (getUploadMetaKey u i) (MetaJson (meta\<lparr>meta_s3UploadId := Some s\<rparr>))
          UPLOAD_META_TTL_SECONDS (w\<lparr>objects := st\<rparr>))) = (r4, w4)"
      by fastforce
    have "sid = Some s" created "r = r4" "w' = w4"
      using assms c s r4 by (auto simp: openUpload_def truthy_def Let_def split: sum.splits)
    then show thesis using opened [of s ?index st] s(2) r4 by simp
  qed
qed

text \<open>What every listed upload keeps, the clean-up keeps.\<close>

lemma cleanPage_inv:
  assumes "\<And>w u n w'. I w \<Longrightarrow> cleanOne P cutoff u w = Some (n, w') \<Longrightarrow> I w'"
    and "cleanPage P cutoff us n w = Some (m, w')" "I w"
  shows "I w'"
  using assms(2,3)
proof (induction us arbitrary: n w)
  case (Cons u us)
  then obtain k w1 where "cleanOne P cutoff u w = Some (k, w1)"
    "cleanPage P cutoff us (n + k) w1 = Some (m, w')"
    by (auto split: option.splits)
  with assms(1) Cons show ?case by blast
qed simp

lemma cleanPages_inv:
  fixes P :: "('r, 's) platform" and w :: "('r, 's) world"
  assumes one: "\<And>w u n w'. I w \<Longrightarrow> cleanOne P cutoff u w = Some (n, w') \<Longrightarrow> I w'"
    and st: "\<And>w st. I w \<Longrightarrow> I (w\<lparr>objects := st\<rparr>)"
    and run: "cleanPages P cutoff km um n w = Some r" and w: "I w"
  shows "I (snd r)"
proof -
  define good where "good = (\<lambda>(((((Q :: ('r, 's) platform, c :: int), km :: string option),
    um :: string option), n :: nat), w :: ('r, 's) world) (r :: nat \<times> ('r, 's) world).
    Q = P \<and> c = cutoff \<and> I w \<longrightarrow> I (snd r))"
  have "good (((((P, cutoff), km), um), n), w) r"
  proof (rule cleanPages.raw_induct [where Pa = good, OF _ run])
    fix f and Q :: "('r, 's) platform" and c km um n w r
    assume IH: "\<And>P cutoff km um n w r. f P cutoff km um n w = Some r \<Longrightarrow>
        good (((((P, cutoff), km), um), n), w) r"
      and body: "(case s3_listUploads (store Q) filesBucket km um (objects w) of
          (None, st) \<Rightarrow> Some (n, w\<lparr>objects := st\<rparr>)
        | (Some listing, st) \<Rightarrow>
            Option.bind (cleanPage Q c (up_uploads listing) n (w\<lparr>objects := st\<rparr>)) (\<lambda>(n1, w1).
              if \<not> up_isTruncated listing then Some (n1, w1)
              else if \<not> truthy (up_nextKeyMarker listing) then Some (n1, w1)
              else f Q c (up_nextKeyMarker listing) (up_nextUploadIdMarker listing) n1 w1)) =
        Some r"
    have "I (snd r)" if Q: "Q = P" "c = cutoff" and w: "I w"
    proof -
      have "I w1" if "cleanPage Q c us n (w\<lparr>objects := st\<rparr>) = Some (n1, w1)" for us st n1 w1
        by (rule cleanPage_inv [where I = I and P = P and cutoff = cutoff, OF one])
          (use that Q st [OF w] in auto)
      then show ?thesis
        using body Q st [OF w]
        by (auto split: option.splits prod.splits if_splits simp: bind_eq_Some_conv
            dest!: IH simp: good_def)
    qed
    then show "good (((((Q, c), km), um), n), w) r" by (simp add: good_def)
  qed
  then show ?thesis using w by (simp add: good_def)
qed

context redis_server
begin

lemma world_strs [simp]:
  assumes "rds P = R"
  shows "strs (redis (redis_del P k w)) = (strs (redis w))(k := None)"
    and "strs (redis (redis_set P k v n w)) = (strs (redis w))(k \<mapsto> (v, Some n))"
    and "strs (redis (redis_expire P k n w)) = (strs (redis w))(k := with_ttl n (strs (redis w) k))"
    and "strs (redis (redis_sadd P k m w)) = strs (redis w)"
    and "strs (redis (redis_srem P k m w)) = strs (redis w)"
    and "redis_get P w k = map_option fst (strs (redis w) k)"
  by (simp_all add: assms redis_del_def redis_set_def redis_expire_def redis_sadd_def
      redis_srem_def redis_get_def redis_laws)

lemma world_sets [simp]:
  assumes "rds P = R"
  shows "sets (redis (redis_del P k w)) = (sets (redis w))(k := {})"
    and "sets (redis (redis_set P k v n w)) = sets (redis w)"
    and "sets (redis (redis_expire P k n w)) = sets (redis w)"
    and "sets (redis (redis_sadd P k m w)) = (sets (redis w))(k := insert m (sets (redis w) k))"
    and "sets (redis (redis_srem P k m w)) = (sets (redis w))(k := sets (redis w) k - {m})"
  by (simp_all add: assms redis_del_def redis_set_def redis_expire_def redis_sadd_def
      redis_srem_def redis_laws)

lemma stored_compare_and_delete [simp]:
  "stored_ok Q (strs s) \<Longrightarrow> stored_ok Q (strs (compare_and_delete R k t s))"
  by (auto simp: strs_compare_and_delete)

lemma stored_setnx:
  assumes "stored_ok Q (strs s)" "Q k v" "r_setnx R k v n s = (b, s')"
  shows "stored_ok Q (strs s')"
proof (cases "strs s k = None")
  case True
  then show ?thesis using setnx_absent [of s k v n] assms by (auto simp: strs_set)
next
  case False
  then show ?thesis using setnx_present [of s k v n] assms by simp
qed

lemma stored_release [simp]:
  "rds P = R \<Longrightarrow> strs (redis (releaseActiveUpload P u i w)) = strs (redis w)"
  by (simp add: releaseActiveUpload_def)

lemma stored_refresh:
  "rds P = R \<Longrightarrow> stored_ok Q (strs (redis w)) \<Longrightarrow> Q (getUploadMetaKey u i) (MetaJson meta) \<Longrightarrow>
   stored_ok Q (strs (redis (refreshUploadState P u i meta w)))"
  by (auto simp: refreshUploadState_def Let_def split: option.splits dest: stored_okD)

lemma abortMultipart_redis: "abortMultipartUpload P k i w = (r, w') \<Longrightarrow> redis w' = redis w"
  by (auto simp: abortMultipartUpload_def Let_def split: prod.splits if_splits)

lemma stored_quietly [simp]:
  "redis (abort_quietly P k i w) = redis w" "redis (delete_quietly P k w) = redis w"
  by (simp_all add: abort_quietly_def delete_quietly_def)

lemma stored_abortActive:
  assumes "rds P = R" "stored_ok Q (strs (redis w))"
  shows "stored_ok Q (strs (redis (snd (abortActiveUpload P u w c))))"
  using assms
  by (cases c) (auto simp: abortActiveUpload_def split: option.splits sum.splits prod.splits
      dest: abortMultipart_redis)

lemma stored_srem_all [simp]:
  "rds P = R \<Longrightarrow> strs (redis (redis_srem_all P k ms w)) = strs (redis w)"
  by (induction ms arbitrary: w) simp_all

lemma stored_del_all:
  "rds P = R \<Longrightarrow> stored_ok Q (strs (redis w)) \<Longrightarrow> stored_ok Q (strs (redis (redis_del_all P ks w)))"
  by (induction ks arbitrary: w) simp_all

lemma stored_makeRoom:
  assumes "rds P = R" "stored_ok Q (strs (redis w))"
  shows "stored_ok Q (strs (redis (snd (makeRoomForActiveUpload P u w))))"
proof -
  have "stored_ok Q (strs (redis (snd (for_each (abortActiveUpload P u) w2 cs))))"
    if "stored_ok Q (strs (redis w2))" for w2 cs
  proof (rule for_each_inv [where I = "\<lambda>w. stored_ok Q (strs (redis w))"])
    fix w x r w'
    assume "stored_ok Q (strs (redis w))" "abortActiveUpload P u w x = (r, w')"
    then show "stored_ok Q (strs (redis w'))"
      using stored_abortActive [OF assms(1), of Q w u x] by simp
  qed (rule that)
  then show ?thesis
    using assms by (auto simp: makeRoomForActiveUpload_def Let_def stored_del_all)
qed

lemma stored_reserve:
  assumes "rds P = R" "stored_ok Q (strs (redis w))"
  shows "stored_ok Q (strs (redis (snd (reserveActiveUpload P u i w))))"
  using stored_makeRoom [OF assms, of u] assms(1)
  by (auto simp: reserveActiveUpload_def Let_def split: prod.splits sum.splits)

lemma stored_open:
  assumes "rds P = R" "stored_ok file_value (strs (redis w))" "upload_wf meta"
    and "openUpload P u i meta w = (r, sid, created, w')"
  shows "stored_ok file_value (strs (redis w'))"
  using assms(4)
proof (cases rule: openUpload_cases)
  case failed
  then show ?thesis using assms(2) by simp
next
  case (opened s st index)
  have "stored_ok file_value (strs (redis (setUploadStorageIndex P s index
      (redis_set P (getUploadMetaKey u i) (MetaJson (meta\<lparr>meta_s3UploadId := Some s\<rparr>))
        UPLOAD_META_TTL_SECONDS (w\<lparr>objects := st\<rparr>)))))"
    using assms(1-3) by (simp add: setUploadStorageIndex_def)
  from stored_reserve [OF assms(1) this, of u i] opened(6) show ?thesis by simp
qed

lemma stored_undo:
  assumes "rds P = R" "stored_ok Q (strs (redis w))"
  shows "stored_ok Q (strs (redis (undoOpen P u i k sid created w)))"
  using assms by (auto simp: undoOpen_def Let_def split: option.splits)

lemma stored_acquire:
  assumes "rds P = R" "stored_ok file_value (strs (redis w))"
    and "acquireUploadInitLock P u w = (r, w')"
  shows "stored_ok file_value (strs (redis w'))"
proof -
  obtain acquired r1 where x: "r_setnx R (initLockKey u) (Plain (uuid P (draws w)))
      UPLOAD_INIT_LOCK_TTL_SECONDS (redis w) = (acquired, r1)"
    by fastforce
  have "stored_ok file_value (strs r1)" by (rule stored_setnx [OF assms(2) _ x]) simp
  then show ?thesis
    using assms(1,3) x
    by (auto simp: acquireUploadInitLock_def randomUUID_def Let_def split: if_splits)
qed

lemma stored_start:
  assumes R: "rds P = R" and w: "stored_ok file_value (strs (redis w))" and meta: "upload_wf meta"
  shows "stored_ok file_value (strs (redis (snd (startUpload P u i meta w))))"
proof -
  obtain r w4 where a: "acquireUploadInitLock P u w = (r, w4)" by fastforce
  obtain r5 sid created w5 where o: "openUpload P u i meta w4 = (r5, sid, created, w5)"
    by (metis prod_cases4)
  have w4: "stored_ok file_value (strs (redis w4))" by (rule stored_acquire [OF R w a])
  have w5: "stored_ok file_value (strs (redis w5))" by (rule stored_open [OF R w4 meta o])
  show ?thesis
    using w4 w5 stored_undo [OF R w5, of u i _ sid created] a o R
    by (auto simp: startUpload_def releaseUploadInitLock_def split: sum.splits)
qed

lemma stored_initialize:
  assumes R: "rds P = R" and w: "stored_ok file_value (strs (redis w))"
    and dto: "valid_InitUploadDto dto"
  shows "stored_ok file_value (strs (redis (snd (initializeUpload P u dto w))))"
  using initializeUpload_cases [of P u dto w]
proof cases
  case refused
  then show ?thesis using w by simp
next
  case (started i k ph w3)
  have "upload_wf (newUploadMeta dto k ph (now w))"
    using dto started(1) by (simp add: upload_wf_def meta_ok_def valid_InitUploadDto_def
        newUploadMeta_def ADMIN_MAX_FILE_SIZE_BYTES_def)
  with stored_start [OF R _ this, of w3] w started show ?thesis by simp
qed

lemma stored_refreshChunk:
  assumes "rds P = R" "stored_ok file_value (strs (redis w))" "upload_wf meta"
    and "refreshChunk P u i meta w = (meta1, w')"
  shows "stored_ok file_value (strs (redis w'))" and "upload_wf meta1"
  using assms stored_refresh [OF assms(1,2)] by (auto simp: refreshChunk_def Let_def)

lemma sendPart_redis: "redis (snd (sendPart P meta i body w)) = redis w"
  by (simp add: sendPart_def split: prod.splits option.splits)

lemma stored_recordPart:
  assumes "rds P = R" "stored_ok file_value (strs (redis w))" "upload_wf meta"
    and "meta_nextExpectedChunk meta = c" "c < meta_totalChunks meta" "c \<le> 204"
  shows "stored_ok file_value (strs (redis (snd (recordPart P u i meta c etag w))))"
  using assms(1,2) stored_refresh [OF assms(1,2), of u i] upload_wf_record [OF assms(3-6), where etag = etag]
  by (simp add: recordPart_def Let_def)

lemma stored_drop:
  "rds P = R \<Longrightarrow> stored_ok Q (strs (redis w)) \<Longrightarrow>
   stored_ok Q (strs (redis (dropUploadState P u i meta w)))"
  by (simp add: dropUploadState_def Let_def)

lemma completeUpload_redis:
  "completeUpload P u dto k iv meta w = (r, c, w') \<Longrightarrow> redis w' = redis w"
  by (auto simp: completeUpload_def randomUUID_def Let_def
      split: prod.splits option.splits sum.splits if_splits)

lemma stored_finalize:
  assumes "rds P = R" "stored_ok Q (strs (redis w))"
  shows "stored_ok Q (strs (redis (snd (finalizeUpload P u dto w))))"
proof -
  have "stored_ok Q (strs (redis (dropUploadState P u i meta w')))"
    if "redis w' = redis w" for i meta w'
    using stored_drop [OF assms(1), of Q w'] assms(2) that by simp
  then show ?thesis
    using assms(2)
    by (auto simp: finalizeUpload_def randomBytesOf_def Let_def
        split: sum.splits option.splits prod.splits dest!: completeUpload_redis)
qed

lemma stored_cancel:
  assumes "rds P = R" "stored_ok Q (strs (redis w))"
  shows "stored_ok Q (strs (redis (snd (cancelUpload P u i w))))"
  using assms
  by (auto simp: cancelUpload_def Let_def split: option.splits sum.splits prod.splits
      dest!: abortMultipart_redis)

lemma stored_removeTracked:
  assumes "rds P = R" "stored_ok Q (strs (redis w))"
  shows "stored_ok Q (strs (redis (removeTrackedUploadState P i w)))"
  using assms by (auto simp: removeTrackedUploadState_def Let_def split: option.splits)

lemma deleteFileInternal_redis [simp]: "redis (deleteFileInternal P i w) = redis w"
  by (simp add: deleteFileInternal_def Let_def split: option.splits)

lemma handleCleanup_redis: "redis (handleCleanup P w) = redis w"
proof -
  have "redis (deleteEach P ids w) = redis w" for ids
    by (induction ids arbitrary: w) simp_all
  then show ?thesis by (simp add: handleCleanup_def)
qed

lemma getDownloadableFile_redis: "redis (snd (getDownloadableFile P i t w)) = redis w"
  by (simp add: getDownloadableFile_def split: option.splits)

lemma stored_password:
  assumes "rds P = R" "stored_ok file_value (strs (redis w))"
  shows "stored_ok file_value (strs (redis (snd (assertDownloadPassword P f pw ip w))))"
proof -
  let ?key = "buildRateLimitKey (sha256 P) passwordFailureNs (attemptSubject f ip)"
  obtain c where c: "counter (strs (redis w) ?key) = Some c"
    using rate_key_counter [OF assms(2)] by blast
  have "stored_ok file_value (strs (snd (consume R ?key 10 (15 * 60) (redis w))))"
    using assms(2) by (simp add: consume_strs [OF c])
  then have "stored_ok file_value (strs (snd (consumeAttempt R (sha256 P) passwordFailureNs
      (attemptSubject f ip) 10 (15 * 60) (redis w))))"
    by (auto simp: consumeAttempt_def Let_def split: prod.splits)
  then show ?thesis
    using assms
    by (auto simp: assertDownloadPassword_def strs_clearAttempts Let_def
        split: sum.splits prod.splits)
qed

lemma stored_metadata:
  assumes "rds P = R" "stored_ok file_value (strs (redis w))"
  shows "stored_ok file_value (strs (redis (snd (getDownloadMetadata P i t pw ip w))))"
    and "stored_ok file_value (strs (redis (snd (downloadFile P i t pw ip w))))"
proof -
  obtain r w1 where g: "getDownloadableFile P i t w = (r, w1)" by fastforce
  then have w1: "stored_ok file_value (strs (redis w1))"
    using getDownloadableFile_redis [of P i t w] assms(2) by simp
  have a: "stored_ok file_value (strs (redis w2))"
    if "assertDownloadPassword P f pw ip w1 = (q, w2)" for f q w2
    using stored_password [OF assms(1) w1, of f pw ip] that by simp
  show "stored_ok file_value (strs (redis (snd (getDownloadMetadata P i t pw ip w))))"
    using w1 by (auto simp: getDownloadMetadata_def g split: sum.splits prod.splits dest: a)
  show "stored_ok file_value (strs (redis (snd (downloadFile P i t pw ip w))))"
    using w1 by (auto simp: downloadFile_def g Let_def
        split: sum.splits prod.splits option.splits dest: a)
qed

lemma stored_cleanOne:
  assumes "rds P = R" "stored_ok Q (strs (redis w))" "cleanOne P cutoff u w = Some (n, w')"
  shows "stored_ok Q (strs (redis w'))"
proof -
  obtain key uploadId initiated where u: "u = (key, uploadId, initiated)" by (cases u)
  have act: "redis w1 = redis w" if "getMultipartLastActivity P k i t w = Some (r, w1)" for k i t r w1
    using that by (auto simp: getMultipartLastActivity_def split: option.splits)
  show ?thesis
    using assms stored_removeTracked [OF assms(1)]
    by (auto simp: cleanOne_def u split: if_splits option.splits sum.splits prod.splits
        dest!: act abortMultipart_redis)
qed

lemma stored_cleanPages:
  assumes "rds P = R" "stored_ok Q (strs (redis w))" "cleanPages P cutoff km um n w = Some r"
  shows "stored_ok Q (strs (redis (snd r)))"
  by (rule cleanPages_inv [where I = "\<lambda>w. stored_ok Q (strs (redis w))", OF _ _ assms(3,2)])
    (auto intro: stored_cleanOne [OF assms(1)])

end

end
