(* ===== verification/File_Steps.thy ===== *)
theory File_Steps
  imports Upload_System
begin

text \<open>
  The step relation of the file service, its frame lemmas (which operations leave the tables
  alone) and its invariant. A state is the world with the chunk requests in flight; a request is
  received, refreshes the state, sends its part and records it in four steps, and any other step may
  run between them.
\<close>

section \<open>What the operations leave unchanged\<close>

lemma releaseActiveUpload_frame [simp]:
  "db (releaseActiveUpload P u i w) = db w" "now (releaseActiveUpload P u i w) = now w"
  "draws (releaseActiveUpload P u i w) = draws w"
  by (simp_all add: releaseActiveUpload_def)

lemma quietly_frame [simp]:
  "db (abort_quietly P k i w) = db w" "draws (abort_quietly P k i w) = draws w"
  "now (abort_quietly P k i w) = now w"
  "db (delete_quietly P k w) = db w" "draws (delete_quietly P k w) = draws w"
  "now (delete_quietly P k w) = now w"
  by (simp_all add: abort_quietly_def delete_quietly_def)

lemma abortMultipart_frame:
  "abortMultipartUpload P k i w = (r, w') \<Longrightarrow> db w' = db w \<and> draws w' = draws w \<and> now w' = now w"
  by (auto simp: abortMultipartUpload_def Let_def split: prod.splits if_splits)

definition same_tables :: "('r, 's) world \<Rightarrow> ('r, 's) world \<Rightarrow> bool" where
  "same_tables w w' \<longleftrightarrow> db w' = db w \<and> draws w \<le> draws w' \<and> now w' = now w"

lemma same_tables_refl [simp]: "same_tables w w"
  by (simp add: same_tables_def)

lemma same_tables_trans: "same_tables w w1 \<Longrightarrow> same_tables w1 w2 \<Longrightarrow> same_tables w w2"
  by (simp add: same_tables_def)

lemma abortActive_same: "same_tables w (snd (abortActiveUpload P u w c))"
  by (cases c) (auto simp: same_tables_def abortActiveUpload_def
      split: option.splits sum.splits prod.splits dest!: abortMultipart_frame)

lemma redis_srem_all_frame [simp]:
  "db (redis_srem_all P k ms w) = db w" "draws (redis_srem_all P k ms w) = draws w"
  "now (redis_srem_all P k ms w) = now w" "objects (redis_srem_all P k ms w) = objects w"
  by (induction ms arbitrary: w) simp_all

lemma makeRoom_same: "same_tables w (snd (makeRoomForActiveUpload P u w))"
proof -
  have "same_tables w (snd (for_each (abortActiveUpload P u) w2 cs))" if "same_tables w w2" for w2 cs
  proof (rule for_each_inv [where I = "same_tables w"])
    fix w1 x r w'
    assume "same_tables w w1" "abortActiveUpload P u w1 x = (r, w')"
    then show "same_tables w w'"
      using abortActive_same [of w1 P u x] same_tables_trans by auto
  qed (rule that)
  then show ?thesis
    by (simp add: makeRoomForActiveUpload_def Let_def) (simp add: same_tables_def)
qed

lemma reserve_same: "same_tables w (snd (reserveActiveUpload P u i w))"
  using makeRoom_same [of w P u]
  by (auto simp: same_tables_def reserveActiveUpload_def Let_def split: prod.splits sum.splits)

lemma undoOpen_same: "same_tables w (undoOpen P u i k sid created w)"
  by (simp add: same_tables_def undoOpen_def Let_def split: option.splits)

lemma start_same: "same_tables w (snd (startUpload P u i meta w))"
proof -
  obtain r w1 where a: "acquireUploadInitLock P u w = (r, w1)" by fastforce
  obtain r2 sid created w2 where o: "openUpload P u i meta w1 = (r2, sid, created, w2)"
    by (metis prod_cases4)
  have w1: "same_tables w w1"
    using a by (auto simp: same_tables_def acquireUploadInitLock_def randomUUID_def Let_def
        split: prod.splits if_splits)
  from o have "same_tables w1 w2"
  proof (cases rule: openUpload_cases)
    case failed
    then show ?thesis by (simp add: same_tables_def)
  next
    case (opened s st index)
    then show ?thesis
      using reserve_same [of "setUploadStorageIndex P s index
        (redis_set P (getUploadMetaKey u i) (MetaJson (meta\<lparr>meta_s3UploadId := Some s\<rparr>))
          UPLOAD_META_TTL_SECONDS (w1\<lparr>objects := st\<rparr>))" P u i]
      by (simp add: same_tables_def setUploadStorageIndex_def)
  qed
  then show ?thesis
    using w1 undoOpen_same [of w2 P u i "meta_storageKey meta" sid created]
    by (auto simp: startUpload_def releaseUploadInitLock_def a o same_tables_def
        split: sum.splits)
qed

lemma initialize_same: "same_tables w (snd (initializeUpload P u dto w))"
  using initializeUpload_cases [of P u dto w]
proof cases
  case (started i k ph w3)
  then show ?thesis
    using start_same [of w3 P u i "newUploadMeta dto k ph (now w)"] by (simp add: same_tables_def)
qed simp

lemma refresh_same: "same_tables w (refreshUploadState P u i meta w)"
  by (simp add: same_tables_def refreshUploadState_def Let_def split: option.splits)

lemma refreshChunk_same: "same_tables w (snd (refreshChunk P u i meta w))"
  by (simp add: refreshChunk_def refresh_same Let_def)

lemma sendPart_same: "same_tables w (snd (sendPart P meta i body w))"
  by (simp add: same_tables_def sendPart_def split: prod.splits option.splits)

lemma recordPart_same: "same_tables w (snd (recordPart P u i meta c etag w))"
  by (simp add: recordPart_def refresh_same Let_def) (simp add: same_tables_def)

lemma cancel_same: "same_tables w (snd (cancelUpload P u i w))"
  by (auto simp: same_tables_def cancelUpload_def Let_def split: option.splits sum.splits prod.splits
      dest!: abortMultipart_frame)

lemma password_same: "same_tables w (snd (assertDownloadPassword P f pw ip w))"
  by (auto simp: same_tables_def assertDownloadPassword_def Let_def split: sum.splits prod.splits)

lemma cleanOne_same: "cleanOne P cutoff u w = Some (n, w') \<Longrightarrow> same_tables w w'"
  by (cases u) (auto simp: same_tables_def cleanOne_def getMultipartLastActivity_def
      removeTrackedUploadState_def Let_def split: if_splits option.splits sum.splits prod.splits
      dest!: abortMultipart_frame)

lemma cleanPages_same:
  assumes "cleanPages P cutoff km um n w = Some r"
  shows "same_tables w (snd r)"
proof (rule cleanPages_inv [where I = "same_tables w", OF _ _ assms])
  show "same_tables w w'" if "same_tables w w1" "cleanOne P cutoff u w1 = Some (k, w')" for w1 u k w'
    using that cleanOne_same same_tables_trans by blast
qed (simp_all add: same_tables_def)

section \<open>The stored files\<close>

definition within_limits :: "('r, 's) platform \<Rightarrow> db \<Rightarrow> bool" where
  "within_limits P d \<longleftrightarrow> (\<forall>u user limits. user_by_id d u = Some user \<longrightarrow>
     getFileLimitsForUsername P (user_username user) = Inr limits \<longrightarrow>
     used_bytes d u \<le> lim_quotaLimit limits \<and>
     (\<forall>f \<in> set (files d). file_userId f = u \<longrightarrow> file_size f \<le> lim_maxFileSize limits))"

definition files_ok :: "('r, 's) platform \<Rightarrow> db \<Rightarrow> bool" where
  "files_ok P d \<longleftrightarrow> within_limits P d \<and> distinct (map file_storageName (files d))"

definition file_ids_drawn :: "('r, 's) platform \<Rightarrow> ('r, 's) world \<Rightarrow> bool" where
  "file_ids_drawn P w \<longleftrightarrow> distinct (map file_id (files (db w))) \<and>
     (\<forall>f \<in> set (files (db w)). \<exists>k < draws w. file_id f = uuid P k)"

lemma file_ids_drawn_mono:
  "file_ids_drawn P w \<Longrightarrow> files (db w') = files (db w) \<Longrightarrow> draws w \<le> draws w' \<Longrightarrow> file_ids_drawn P w'"
  by (auto simp: file_ids_drawn_def) (meson less_le_trans)

lemma distinct_map_delete: "distinct (map k xs) \<Longrightarrow> distinct (map k (delete_where p xs))"
  by (simp add: delete_where_def distinct_map_filter)

lemma used_bytes_delete: "used_bytes (delete_files p d) u \<le> used_bytes d u"
  by (simp add: used_bytes_def sum_where_delete_le)

lemma files_ok_delete: "files_ok P d \<Longrightarrow> files_ok P (delete_files p d)"
  unfolding files_ok_def within_limits_def
  by (auto simp: distinct_map_delete user_by_id_def set_delete_where
      intro: order_trans [OF used_bytes_delete])

lemma file_ids_delete:
  "file_ids_drawn P w \<Longrightarrow> db w' = delete_files p (db w) \<Longrightarrow> draws w' = draws w \<Longrightarrow> file_ids_drawn P w'"
  by (simp add: file_ids_drawn_def distinct_map_delete set_delete_where)

lemma checkFileLimits_Inr:
  "checkFileLimits P u n d = Inr () \<longleftrightarrow> (\<exists>user limits. user_by_id d u = Some user \<and>
     getFileLimitsForUsername P (user_username user) = Inr limits \<and>
     n \<le> lim_maxFileSize limits \<and> used_bytes d u + n \<le> lim_quotaLimit limits)"
  by (auto simp: checkFileLimits_def split: option.splits sum.splits if_splits)

text \<open>The transaction adds the row or nothing, and only within the owner's limits.\<close>

lemma finalize_tx_Inr:
  "finalize_tx P row d = Inr d' \<longleftrightarrow> checkFileLimits P (file_userId row) (file_size row) d = Inr () \<and>
     file_storageName row \<notin> set (map file_storageName (files d)) \<and>
     d' = d\<lparr>files := files d @ [row]\<rparr>"
  by (auto simp: finalize_tx_def split: sum.splits if_splits)

lemma files_ok_finalize_tx:
  assumes "files_ok P d" "finalize_tx P row d = Inr d'"
  shows "files_ok P d'"
proof -
  from assms(2) obtain user limits where
    u: "user_by_id d (file_userId row) = Some user"
      "getFileLimitsForUsername P (user_username user) = Inr limits"
      "file_size row \<le> lim_maxFileSize limits"
      "used_bytes d (file_userId row) + file_size row \<le> lim_quotaLimit limits"
    and d': "d' = d\<lparr>files := files d @ [row]\<rparr>"
      "file_storageName row \<notin> set (map file_storageName (files d))"
    by (auto simp: finalize_tx_Inr checkFileLimits_Inr)
  have "used_bytes d' v = used_bytes d v + (if v = file_userId row then file_size row else 0)" for v
    by (simp add: d' used_bytes_def tbl)
  then show ?thesis
    using assms(1) u d' by (auto simp: files_ok_def within_limits_def user_by_id_def)
qed

lemma completeUpload_Inr:
  assumes "completeUpload P u dto k iv meta w = (Inr row, c, w')"
  shows "c" and "file_userId row = u" and "file_size row = meta_fileSize meta"
    and "file_storageName row = meta_storageKey meta"
    and "file_id row = uuid P (draws w)" and "draws w' = Suc (Suc (draws w))"
    and "finalize_tx P row (db w) = Inr (db w')" and "now w' = now w"
    and "file_encryptedFileKey row = k" and "file_fileKeyIv row = iv"
    and "file_passwordHash row = meta_passwordHash meta"
    and "file_shareToken row = uuid P (Suc (draws w))"
    and "\<exists>st n. s3_complete (store P) filesBucket (meta_storageKey meta) (meta_s3UploadId meta)
        (sort_key fst (meta_parts meta)) (objects w) = (True, st) \<and>
      getExpectedEncryptedSize (meta_fileSize meta) = Inr n \<and>
      s3_head (store P) filesBucket (meta_storageKey meta) st = (Some (Some n), objects w')"
  using assms
  by (auto simp: completeUpload_def randomUUID_def Let_def
      split: prod.splits option.splits sum.splits if_splits)

lemma completeUpload_Inl:
  assumes "completeUpload P u dto k iv meta w = (Inl e, c, w')"
  shows "same_tables w w'"
  using assms
  by (auto simp: completeUpload_def randomUUID_def same_tables_def Let_def
      split: prod.splits option.splits sum.splits if_splits)

lemma dropUploadState_frame [simp]:
  "db (dropUploadState P u i meta w) = db w" "now (dropUploadState P u i meta w) = now w"
  "draws (dropUploadState P u i meta w) = draws w" "objects (dropUploadState P u i meta w) = objects w"
  by (simp_all add: dropUploadState_def releaseActiveUpload_def Let_def)

text \<open>The ways a completion ends.\<close>

lemma finalizeUpload_cases:
  obtains (refused) e where "fst (finalizeUpload P u dto w) = Inl e"
      "same_tables w (snd (finalizeUpload P u dto w))"
      "redis (snd (finalizeUpload P u dto w)) = redis w"
      "objects (snd (finalizeUpload P u dto w)) = objects w"
  | (failed) meta e c k iv w1 w2 w3 where
      "redis_get P w (getUploadMetaKey u (cu_uploadId dto)) = Some (MetaJson meta)"
      "w1 = w\<lparr>draws := Suc (draws w)\<rparr>"
      "completeUpload P u dto k iv meta w1 = (Inl e, c, w2)"
      "w3 = (if c then delete_quietly P (meta_storageKey meta) w2
             else abort_quietly P (meta_storageKey meta) (meta_s3UploadId meta) w2)"
      "finalizeUpload P u dto w =
        (Inl (finalize_error e), dropUploadState P u (cu_uploadId dto) meta w3)"
  | (stored) meta row mk iv w1 w2 where
      "redis_get P w (getUploadMetaKey u (cu_uploadId dto)) = Some (MetaJson meta)"
      "length (meta_parts meta) = meta_totalChunks meta" "cu_totalChunks dto = meta_totalChunks meta"
      "getMasterKeyForUser P u w = Inr mk" "iv = randomBytes P (draws w) 16"
      "w1 = w\<lparr>draws := Suc (draws w)\<rparr>"
      "completeUpload P u dto (hex (aes_cbc_encrypt P mk iv (utf8 P (cu_fileKey dto)))) (hex iv) meta w1 =
        (Inr row, True, w2)"
      "finalizeUpload P u dto w = (Inr row, dropUploadState P u (cu_uploadId dto) meta w2)"
proof -
  let ?w1 = "w\<lparr>draws := Suc (draws w)\<rparr>"
  let ?get = "redis_get P w (getUploadMetaKey u (cu_uploadId dto))"
  have get: "redis_get P ?w1 k = redis_get P w k" for k by (simp add: redis_get_def)
  show thesis
  proof (cases "\<exists>mk meta. getMasterKeyForUser P u w = Inr mk \<and> ?get = Some (MetaJson meta) \<and>
      length (meta_parts meta) = meta_totalChunks meta \<and> cu_totalChunks dto = meta_totalChunks meta")
    case False
    then have "\<exists>e. fst (finalizeUpload P u dto w) = Inl e \<and>
        snd (finalizeUpload P u dto w) \<in> {w, ?w1}"
      by (auto simp: finalizeUpload_def randomBytesOf_def get parse_meta_def Let_def
          split: sum.splits option.splits rtext.splits)
    then show thesis using refused by (auto simp: same_tables_def)
  next
    case True
    then obtain mk meta where m: "getMasterKeyForUser P u w = Inr mk" "?get = Some (MetaJson meta)"
      "length (meta_parts meta) = meta_totalChunks meta" "cu_totalChunks dto = meta_totalChunks meta"
      by blast
    let ?iv = "randomBytes P (draws w) 16"
    obtain r c w2 where c: "completeUpload P u dto
        (hex (aes_cbc_encrypt P mk ?iv (utf8 P (cu_fileKey dto)))) (hex ?iv) meta ?w1 = (r, c, w2)"
      by (metis prod_cases3)
    show thesis
    proof (cases r)
      case (Inl e)
      then show thesis
        using failed [OF m(2) refl, of _ _ e c w2] c m
        by (auto simp: finalizeUpload_def randomBytesOf_def get Let_def)
    next
      case (Inr row)
      then have "c" using completeUpload_Inr(1) c by blast
      then show thesis
        using stored [OF m(2-4) m(1) refl refl, of row w2] c m Inr
        by (auto simp: finalizeUpload_def randomBytesOf_def get Let_def)
    qed
  qed
qed

text \<open>A completion that fails leaves the tables alone.\<close>

lemma finalize_failed_same:
  assumes "fst (finalizeUpload P u dto w) = Inl e"
  shows "same_tables w (snd (finalizeUpload P u dto w))"
  using finalizeUpload_cases [of P u dto w]
proof cases
  case (failed meta e c k iv w1 w2 w3)
  then show ?thesis using completeUpload_Inl [OF failed(3)] by (simp add: same_tables_def)
qed (use assms in auto)

lemma files_finalize:
  fixes u :: string and dto :: complete_upload_dto
  assumes "files_ok P (db w)" "file_ids_drawn P w" "fresh_uuids P"
  defines "w' \<equiv> snd (finalizeUpload P u dto w)"
  shows "files_ok P (db w')" and "file_ids_drawn P w'" and "users (db w') = users (db w)"
    and "now w' = now w" and "draws w \<le> draws w'"
proof -
  have "files_ok P (db w') \<and> file_ids_drawn P w' \<and> users (db w') = users (db w) \<and> now w' = now w \<and>
    draws w \<le> draws w'"
  proof (cases "fst (finalizeUpload P u dto w)")
    case (Inl e)
    then show ?thesis
      using finalize_failed_same [OF Inl] assms(1) file_ids_drawn_mono [OF assms(2), of w']
      by (simp add: same_tables_def w'_def)
  next
    case (Inr row)
    from finalizeUpload_cases [of P u dto w] show ?thesis
    proof cases
      case (stored meta row mk iv w1 w2)
      note c = completeUpload_Inr [OF stored(7)]
      have db1: "db w1 = db w" "draws w1 = Suc (draws w)" "now w1 = now w"
        using stored(6) by simp_all
      have d: "db w2 = (db w)\<lparr>files := files (db w) @ [row]\<rparr>" "draws w2 = Suc (Suc (Suc (draws w)))"
        using c(6,7) by (simp_all add: finalize_tx_Inr db1)
      have "file_id f \<noteq> uuid P (Suc (draws w))" if "f \<in> set (files (db w))" for f
        using that assms(2) fresh_uuids_neq [OF assms(3)]
        by (force simp: file_ids_drawn_def)
      moreover have "\<exists>k < Suc (Suc (Suc (draws w))). file_id f = uuid P k"
        if "f \<in> set (files (db w))" for f
        using that assms(2) unfolding file_ids_drawn_def by (meson less_SucI)
      ultimately have "file_ids_drawn P w2"
        using assms(2) c(5)
        by (auto simp: file_ids_drawn_def d db1 intro: exI [where x = "Suc (draws w)"])
      then have "file_ids_drawn P w'"
        by (rule file_ids_drawn_mono) (simp_all add: w'_def stored(8))
      moreover have "files_ok P (db w2)"
        using files_ok_finalize_tx [OF _ c(7)] assms(1) by (simp add: db1)
      ultimately show ?thesis
        using c(8) d by (simp add: w'_def stored(8) db1)
    qed (use Inr in auto)
  qed
  then show "files_ok P (db w')" and "file_ids_drawn P w'" and "users (db w') = users (db w)"
    and "now w' = now w" and "draws w \<le> draws w'"
    by blast+
qed

section \<open>Deletion\<close>

lemma deleteFileInternal_cases:
  obtains (absent) "deleteFileInternal P i w = w" "\<forall>f \<in> set (files (db w)). file_id f \<noteq> i"
  | (deleted) "db (deleteFileInternal P i w) = delete_files (\<lambda>f. file_id f = i) (db w)"
      "draws (deleteFileInternal P i w) = draws w" "now (deleteFileInternal P i w) = now w"
proof (cases "find (\<lambda>f. file_id f = i) (files (db w))")
  case None
  then have "deleteFileInternal P i w = w" by (simp add: deleteFileInternal_def)
  with None show thesis by (intro absent) (auto simp: find_None_iff)
next
  case (Some f)
  then show thesis using deleted by (simp add: deleteFileInternal_def Let_def)
qed

lemma deleteFileInternal_files:
  "files (db (deleteFileInternal P i w)) = delete_where (\<lambda>f. file_id f = i) (files (db w))"
  using deleteFileInternal_cases [of P i w]
  by cases (auto simp: delete_where_def intro!: sym [OF filter_True])

definition file_tables_ok :: "('r, 's) platform \<Rightarrow> ('r, 's) world \<Rightarrow> bool" where
  "file_tables_ok P w \<longleftrightarrow> files_ok P (db w) \<and> file_ids_drawn P w"

lemma file_tables_same:
  "file_tables_ok P w \<Longrightarrow> same_tables w w' \<Longrightarrow> file_tables_ok P w'"
  using file_ids_drawn_mono [of P w w'] by (simp add: file_tables_ok_def same_tables_def)

lemma file_tables_deleteInternal:
  assumes "file_tables_ok P w"
  shows "file_tables_ok P (deleteFileInternal P i w)"
    and "users (db (deleteFileInternal P i w)) = users (db w)"
    and "now (deleteFileInternal P i w) = now w"
  using deleteFileInternal_cases [of P i w] assms
  by (cases; auto simp: file_tables_ok_def files_ok_delete intro: file_ids_delete)+

lemma file_tables_deleteEach:
  "file_tables_ok P w \<Longrightarrow> file_tables_ok P (deleteEach P ids w) \<and>
   users (db (deleteEach P ids w)) = users (db w) \<and> now (deleteEach P ids w) = now w \<and>
   files (db (deleteEach P ids w)) = delete_where (\<lambda>f. file_id f \<in> set ids) (files (db w))"
proof (induction ids arbitrary: w)
  case Nil
  then show ?case by (simp add: delete_where_def)
next
  case (Cons i ids)
  then show ?case
    using file_tables_deleteInternal [OF Cons.prems, of i]
    by (auto simp: deleteFileInternal_files delete_where_def filter_filter conj_commute
        intro: filter_cong)
qed

lemma file_tables_delete:
  assumes "file_tables_ok P w"
  shows "file_tables_ok P (snd (deleteFile P u i w))"
  using file_tables_deleteInternal [OF assms] assms
  by (simp add: deleteFile_def split: option.splits)

lemma file_tables_getDownloadable:
  assumes "file_tables_ok P w"
  shows "file_tables_ok P (snd (getDownloadableFile P i t w))"
  using file_tables_deleteInternal [OF assms] assms
  by (simp add: getDownloadableFile_def split: option.splits)

lemma file_tables_download:
  assumes "file_tables_ok P w"
  shows "file_tables_ok P (snd (getDownloadMetadata P i t pw ip w))"
    and "file_tables_ok P (snd (downloadFile P i t pw ip w))"
proof -
  obtain r w1 where g: "getDownloadableFile P i t w = (r, w1)" by fastforce
  then have w1: "file_tables_ok P w1" using file_tables_getDownloadable [OF assms, of i t] by simp
  have a: "file_tables_ok P w2" if "assertDownloadPassword P f pw ip w1 = (q, w2)" for f q w2
    using password_same [of w1 P f pw ip] file_tables_same [OF w1] that by simp
  have o: "file_tables_ok P (w2\<lparr>objects := st\<rparr>)" if "file_tables_ok P w2" for w2 st
    using that by (simp add: file_tables_ok_def file_ids_drawn_def)
  show "file_tables_ok P (snd (getDownloadMetadata P i t pw ip w))"
    using w1 by (auto simp: getDownloadMetadata_def g split: sum.splits prod.splits dest: a)
  show "file_tables_ok P (snd (downloadFile P i t pw ip w))"
    using w1 by (auto simp: downloadFile_def g Let_def
        split: sum.splits prod.splits option.splits dest: a intro!: o)
qed

section \<open>Steps\<close>

datatype chunk_phase = Checked | Refreshed | Sent "string option"

record flight =
  fl_user :: string
  fl_upload :: string
  fl_meta :: upload_meta
  fl_index :: nat
  fl_body :: bytes
  fl_phase :: chunk_phase

type_synonym ('r, 's) file_state = "('r, 's) world \<times> flight list"

inductive file_step ::
    "('r, 's) platform \<Rightarrow> ('r, 's) file_state \<Rightarrow> ('r, 's) file_state \<Rightarrow> bool" for P where
  start: "valid_InitUploadDto dto \<Longrightarrow> file_step P (w, fs) (snd (initializeUpload P u dto w), fs)"
| receive: "valid_UploadChunkDto c \<Longrightarrow> checkChunk P u i (Some body) c w = Inr meta \<Longrightarrow>
    file_step P (w, fs) (w, \<lparr>fl_user = u, fl_upload = i, fl_meta = meta, fl_index = c,
      fl_body = body, fl_phase = Checked\<rparr> # fs)"
| refresh: "fl_phase f = Checked \<Longrightarrow>
    refreshChunk P (fl_user f) (fl_upload f) (fl_meta f) w = (meta, w') \<Longrightarrow>
    file_step P (w, fs @ f # gs) (w', fs @ f\<lparr>fl_meta := meta, fl_phase := Refreshed\<rparr> # gs)"
| send: "fl_phase f = Refreshed \<Longrightarrow>
    sendPart P (fl_meta f) (fl_index f) (fl_body f) w = (Inr etag, w') \<Longrightarrow>
    file_step P (w, fs @ f # gs) (w', fs @ f\<lparr>fl_phase := Sent etag\<rparr> # gs)"
| send_failed: "fl_phase f = Refreshed \<Longrightarrow>
    sendPart P (fl_meta f) (fl_index f) (fl_body f) w = (Inl e, w') \<Longrightarrow>
    file_step P (w, fs @ f # gs) (w', fs @ gs)"
| record_part: "fl_phase f = Sent etag \<Longrightarrow>
    file_step P (w, fs @ f # gs)
      (snd (recordPart P (fl_user f) (fl_upload f) (fl_meta f) (fl_index f) etag w), fs @ gs)"
| finalize: "file_step P (w, fs) (snd (finalizeUpload P u cdto w), fs)"
| cancel: "file_step P (w, fs) (snd (cancelUpload P u i w), fs)"
| delete: "file_step P (w, fs) (snd (deleteFile P u i w), fs)"
| expired_files: "file_step P (w, fs) (handleCleanup P w, fs)"
| stale_uploads: "cleanupStaleMultipartUploads P w = Some (n, w') \<Longrightarrow> file_step P (w, fs) (w', fs)"
| metadata: "file_step P (w, fs) (snd (getDownloadMetadata P i t pw ip w), fs)"
| download: "file_step P (w, fs) (snd (downloadFile P i t pw ip w), fs)"
| key_expires: "file_step P (w, fs) (redis_del P k w, fs)"
| session: "file_step P (w, fs) (redis_set P (masterKeyKey u) (Plain t) n w, fs)"
| clock: "now w \<le> t \<Longrightarrow> file_step P (w, fs) (w\<lparr>now := t\<rparr>, fs)"

inductive_cases file_stepE: "file_step P s s'"

definition flight_ok :: "flight \<Rightarrow> bool" where
  "flight_ok f \<longleftrightarrow> upload_wf (fl_meta f) \<and> meta_nextExpectedChunk (fl_meta f) = fl_index f \<and>
     fl_index f < meta_totalChunks (fl_meta f) \<and> fl_index f \<le> 204 \<and>
     int (length (fl_body f)) = expectedChunkSize (fl_meta f) (fl_index f)"

lemma flight_ok_phase [simp]: "flight_ok (f\<lparr>fl_phase := p\<rparr>) = flight_ok f"
  by (simp add: flight_ok_def)

lemma flight_ok_refresh:
  "flight_ok f \<Longrightarrow> refreshChunk P u i (fl_meta f) w = (meta, w') \<Longrightarrow> flight_ok (f\<lparr>fl_meta := meta\<rparr>)"
  by (auto simp: flight_ok_def refreshChunk_def expectedChunkSize_def expectedPlaintextSize_def Let_def)

definition file_inv ::
    "('r, 's) platform \<Rightarrow> ('r \<Rightarrow> string \<Rightarrow> entry) \<Rightarrow> ('r, 's) file_state \<Rightarrow> bool" where
  "file_inv P strs s \<longleftrightarrow> (case s of (w, fs) \<Rightarrow>
     stored_ok file_value (strs (redis w)) \<and> (\<forall>f \<in> set fs. flight_ok f) \<and> file_tables_ok P w)"

definition file_init :: "('r \<Rightarrow> string \<Rightarrow> entry) \<Rightarrow> ('r, 's) file_state \<Rightarrow> bool" where
  "file_init strs s \<longleftrightarrow> (case s of (w, fs) \<Rightarrow>
     fs = [] \<and> files (db w) = [] \<and> (\<forall>k. strs (redis w) k = None))"

lemma file_inv_init: "file_init strs s \<Longrightarrow> file_inv P strs s"
  by (auto simp: file_init_def file_inv_def file_tables_ok_def files_ok_def within_limits_def
      file_ids_drawn_def used_bytes_def stored_ok_def tbl split: prod.splits)

text \<open>Every step keeps the invariant.\<close>

lemma file_step_inv:
  assumes R: "redis_server (rds P) strs sets" and U: "fresh_uuids P"
    and inv: "file_inv P strs s" and step: "file_step P s s'"
  shows "file_inv P strs s'"
  using step
proof cases
  case (start dto w fs u)
  then show ?thesis
    using inv redis_server.stored_initialize [OF R refl, of w dto u]
      file_tables_same [OF _ initialize_same, of P w P u dto]
    by (simp add: file_inv_def)
next
  case (receive c u i body w meta fs)
  from receive(4) obtain t where m: "redis_get P w (getUploadMetaKey u i) = Some t"
    "parse_meta t = Some meta" "c = meta_nextExpectedChunk meta" "c < meta_totalChunks meta"
    "int (length body) = expectedChunkSize meta c"
    by (auto simp: checkChunk_def split: option.splits if_splits)
  have "file_value (getUploadMetaKey u i) t"
    using m(1) inv receive(1)
    by (auto simp: file_inv_def redis_server.world_strs(6) [OF R refl] intro: stored_ok_get)
  then have "upload_wf meta" using m(2) by (auto simp: parse_meta_def split: rtext.splits)
  then show ?thesis
    using inv receive(1-3) m by (simp add: file_inv_def flight_ok_def valid_UploadChunkDto_def)
next
  case (refresh f w meta w' fs gs)
  have f: "flight_ok f" "stored_ok file_value (strs (redis w))" "file_tables_ok P w"
    using inv refresh(1) by (auto simp: file_inv_def)
  have "upload_wf (fl_meta f)" using f(1) by (simp add: flight_ok_def)
  then show ?thesis
    using inv refresh flight_ok_refresh [OF f(1) refresh(4)]
      redis_server.stored_refreshChunk(1) [OF R refl f(2) _ refresh(4)]
      refreshChunk_same [of w P "fl_user f" "fl_upload f" "fl_meta f"]
      file_tables_same [OF f(3), of w']
    by (simp add: file_inv_def flight_ok_def)
next
  case (send f w etag w' fs gs)
  then show ?thesis
    using inv sendPart_same [of w P "fl_meta f" "fl_index f" "fl_body f"]
      redis_server.sendPart_redis [OF R, of P "fl_meta f" "fl_index f" "fl_body f" w]
      file_tables_same [of P w w']
    by (simp add: file_inv_def)
next
  case (send_failed f w e w' fs gs)
  then show ?thesis
    using inv sendPart_same [of w P "fl_meta f" "fl_index f" "fl_body f"]
      redis_server.sendPart_redis [OF R, of P "fl_meta f" "fl_index f" "fl_body f" w]
      file_tables_same [of P w w']
    by (simp add: file_inv_def)
next
  case (record_part f etag w fs gs)
  have f: "flight_ok f" "stored_ok file_value (strs (redis w))" "file_tables_ok P w"
    using inv record_part(1) by (auto simp: file_inv_def)
  then show ?thesis
    using inv record_part file_tables_same [OF f(3) recordPart_same]
      redis_server.stored_recordPart [OF R refl f(2)]
    by (simp add: file_inv_def flight_ok_def)
next
  case (finalize w fs u cdto)
  then show ?thesis
    using inv files_finalize [OF _ _ U, of w u cdto] redis_server.stored_finalize [OF R refl]
    by (simp add: file_inv_def file_tables_ok_def)
next
  case (cancel w fs u i)
  then show ?thesis
    using inv file_tables_same [OF _ cancel_same, of P w P u i] redis_server.stored_cancel [OF R refl]
    by (simp add: file_inv_def)
next
  case (delete w fs u i)
  have "redis (snd (deleteFile P u i w)) = redis w"
    by (simp add: deleteFile_def redis_server.deleteFileInternal_redis [OF R] split: option.splits)
  then show ?thesis
    using inv file_tables_delete [of P w u i] delete by (simp add: file_inv_def)
next
  case (expired_files w fs)
  then show ?thesis
    using inv file_tables_deleteEach [of P w] redis_server.handleCleanup_redis [OF R, of P w]
    by (simp add: file_inv_def handleCleanup_def)
next
  case (stale_uploads w n w' fs)
  then have c: "cleanPages P (int (now w) - int INCOMPLETE_UPLOAD_STALE_MS) None None 0 w = Some (n, w')"
    by (simp add: cleanupStaleMultipartUploads_def)
  show ?thesis
    using inv stale_uploads redis_server.stored_cleanPages [OF R refl _ c]
      file_tables_same [OF _ cleanPages_same [OF c], of P]
    by (simp add: file_inv_def)
next
  case (metadata w fs i t pw ip)
  then show ?thesis
    using inv file_tables_download(1) [of P w i t pw ip] redis_server.stored_metadata(1) [OF R refl]
    by (simp add: file_inv_def)
next
  case (download w fs i t pw ip)
  then show ?thesis
    using inv file_tables_download(2) [of P w i t pw ip] redis_server.stored_metadata(2) [OF R refl]
    by (simp add: file_inv_def)
next
  case (key_expires w fs k)
  then show ?thesis
    using inv by (simp add: file_inv_def redis_server.world_strs(1) [OF R refl]
      file_tables_ok_def file_ids_drawn_def)
next
  case (session w fs u t n)
  then show ?thesis
    using inv by (simp add: file_inv_def redis_server.world_strs(2) [OF R refl]
      file_tables_ok_def file_ids_drawn_def)
next
  case (clock w t fs)
  then show ?thesis
    using inv by (simp add: file_inv_def file_tables_ok_def file_ids_drawn_def)
qed

interpretation file_service: invariant_system "file_init strs"
    "\<lambda>s s'. redis_server (rds P) strs sets \<and> fresh_uuids P \<and> file_step P s s'" "file_inv P strs"
  for P :: "('r, 's) platform" and strs :: "'r \<Rightarrow> string \<Rightarrow> entry" and sets :: "'r \<Rightarrow> string \<Rightarrow> string set"
  by unfold_locales (auto intro: file_inv_init file_step_inv)

lemma file_reachable_inv:
  assumes "redis_server (rds P) strs sets" "fresh_uuids P"
    and "reachable (file_init strs) (file_step P) s"
  shows "file_inv P strs s"
proof (rule file_service.reachable_inv [where sets = sets])
  show "reachable (file_init strs)
      (\<lambda>s s'. redis_server (rds P) strs sets \<and> fresh_uuids P \<and> file_step P s s') s"
    using assms(3) by (induction rule: reachable.induct)
      (use assms(1,2) in \<open>auto intro: reachable.intros\<close>)
qed

lemma reachable_steps:
  "(file_step P)\<^sup>*\<^sup>* s t \<Longrightarrow> reachable init (file_step P) s \<Longrightarrow> reachable init (file_step P) t"
  by (induction rule: rtranclp_induct) (auto intro: reachable.step)

section \<open>A chunk request as steps\<close>

text \<open>The whole handler is one of the orders in which its four steps can run.\<close>

lemma handleChunk_steps:
  assumes "valid_UploadChunkDto c"
  shows "(file_step P)\<^sup>*\<^sup>* (w, fs) (snd (handleChunk P u i (Some body) c w), fs)"
proof (cases "checkChunk P u i (Some body) c w")
  case (Inl e)
  then show ?thesis by (simp add: handleChunk_def)
next
  case (Inr meta)
  let ?f = "\<lparr>fl_user = u, fl_upload = i, fl_meta = meta, fl_index = c, fl_body = body,
    fl_phase = Checked\<rparr>"
  have 1: "file_step P (w, fs) (w, ?f # fs)" by (rule file_step.receive [OF assms Inr])
  obtain meta1 w1 where r: "refreshChunk P u i meta w = (meta1, w1)" by fastforce
  let ?g = "?f\<lparr>fl_meta := meta1, fl_phase := Refreshed\<rparr>"
  have 2: "file_step P (w, ?f # fs) (w1, ?g # fs)"
    using file_step.refresh [of ?f P w meta1 w1 "[]" fs] r by simp
  have 12: "(file_step P)\<^sup>*\<^sup>* (w, fs) (w1, ?g # fs)"
    using 1 2 by (meson converse_rtranclp_into_rtranclp r_into_rtranclp)
  show ?thesis
  proof (cases "sendPart P meta1 c body w1")
    case (Pair q w2)
    show ?thesis
    proof (cases q)
      case (Inl e)
      have "file_step P (w1, ?g # fs) (w2, fs)"
        using file_step.send_failed [of ?g P w1 e w2 "[]" fs] Pair Inl by simp
      with 12 show ?thesis using Inr r Pair Inl by (simp add: handleChunk_def)
    next
      case sent: (Inr etag)
      let ?h = "?g\<lparr>fl_phase := Sent etag\<rparr>"
      have 3: "file_step P (w1, ?g # fs) (w2, ?h # fs)"
        using file_step.send [of ?g P w1 etag w2 "[]" fs] Pair sent by simp
      have 4: "file_step P (w2, ?h # fs) (snd (recordPart P u i meta1 c etag w2), fs)"
        using file_step.record_part [of ?h etag P w2 "[]" fs] by simp
      from 12 3 4 show ?thesis using Inr r Pair sent by (simp add: handleChunk_def)
    qed
  qed
qed

end
