(* ===== verification/File_Sample.thy ===== *)
theory File_Sample
  imports File_Steps Account_Properties
begin

text \<open>
  A run of the file service on the concrete platform, for the witnesses: one user with a master key
  in Redis starts an upload of one byte, sends its only chunk and completes it. Each state is
  described by what the later steps read from it.
\<close>

definition file_platform :: "(kv, string \<Rightarrow> nat option) platform" where
  "file_platform = demo_platform\<lparr>env := (\<lambda>_. None)\<rparr>"

lemma file_platform_simps [simp]:
  "rds file_platform = kv_api" "store file_platform = demo_s3" "uuid file_platform = unary"
  "sha256 file_platform = (\<lambda>s. s)"
  "bcrypt_compare file_platform pw h = (h = ''$2'' @ pw)"
  "bcrypt_hash file_platform i pw c = ''$2'' @ pw"
  "addDays file_platform t n = t + n * 86400000"
  "addHours file_platform t n = t + n * 3600000"
  "getAdminForwardUsername file_platform = Inr None"
  by (simp_all add: file_platform_def getAdminForwardUsername_def optionalEnv_def)

lemma file_platform_fresh: "fresh_uuids file_platform"
  by (simp add: fresh_uuids_def inj_unary)

lemma file_platform_redis: "redis_server (rds file_platform) kv_strs kv_sets"
  by (simp add: kv.redis_server_axioms)

lemma demo_s3_simps [simp]:
  "s3_createMultipart demo_s3 b k st = (Some (Some (''mp-'' @ k)), st)"
  "s3_uploadPart demo_s3 b k u n body st =
    (Some (Some ''etag''), st(k \<mapsto> (case st k of None \<Rightarrow> 0 | Some n \<Rightarrow> n) + length body))"
  "s3_complete demo_s3 b k sid parts st = (True, st)" "s3_head demo_s3 b k st = (Some (st k), st)"
  "s3_abort demo_s3 b k sid st = (True, st(k := None))"
  "s3_delete demo_s3 b k st = (True, st(k := None))"
  "s3_get demo_s3 b k st = (Some (Some [], st k), st)"
  by (simp_all add: demo_s3_def)

lemma master_keys_differ [simp]:
  "masterKeyKey u \<noteq> getUploadMetaKey v i" "masterKeyKey u \<noteq> initLockKey v"
  "masterKeyKey u \<noteq> getUploadStorageIndexKey i" "masterKeyKey u \<noteq> getActiveUploadKey v"
  "getUploadMetaKey v i \<noteq> masterKeyKey u" "initLockKey v \<noteq> masterKeyKey u"
  "getUploadStorageIndexKey i \<noteq> masterKeyKey u" "getActiveUploadKey v \<noteq> masterKeyKey u"
  by (simp_all add: masterKeyKey_def getUploadMetaKey_def initLockKey_def
      getUploadStorageIndexKey_def getActiveUploadKey_def)

definition upload_w0 :: demo_world where
  "upload_w0 = sample_issue\<lparr>draws := 5\<rparr>"

definition upload_w1 :: demo_world where
  "upload_w1 = redis_set file_platform (masterKeyKey ''u'') (Plain ''6b'') 60 upload_w0"

definition upload_dto :: init_upload_dto where
  "upload_dto = \<lparr>iu_fileSize = 1, iu_totalChunks = 1, iu_password = None, iu_expiresIn = None\<rparr>"

definition upload_w2 :: demo_world where
  "upload_w2 = snd (initializeUpload file_platform ''u'' upload_dto upload_w1)"

definition upload_meta2 :: upload_meta where
  "upload_meta2 = (newUploadMeta upload_dto (unary 6 @ ''.bin'') None 1000)
     \<lparr>meta_s3UploadId := Some (''mp-'' @ unary 6 @ ''.bin'')\<rparr>"

definition upload_body :: bytes where
  "upload_body = replicate 29 0"

definition upload_meta3 :: upload_meta where
  "upload_meta3 = upload_meta2\<lparr>meta_parts := [(1, Some ''etag'')], meta_nextExpectedChunk := 1\<rparr>"

definition upload_w3 :: demo_world where
  "upload_w3 = snd (handleChunk file_platform ''u'' (unary 5) (Some upload_body) 0 upload_w2)"

definition upload_cdto :: complete_upload_dto where
  "upload_cdto = \<lparr>cu_uploadId = unary 5, cu_fileName = ''a.txt'', cu_mimetype = ''text/plain'',
     cu_fileKey = ''ab'', cu_totalChunks = 1\<rparr>"

definition upload_w4 :: demo_world where
  "upload_w4 = snd (finalizeUpload file_platform ''u'' upload_cdto upload_w3)"

lemma upload_w1_facts:
  "getMasterKeyForUser file_platform ''u'' upload_w1 = Inr (unhex ''6b'')"
  "user_by_id (db upload_w1) ''u'' = Some sample_issuer" "files (db upload_w1) = []"
  "now upload_w1 = 1000" "draws upload_w1 = 5" "objects upload_w1 = (\<lambda>_. None)"
  "kv_strs (redis upload_w1) = [masterKeyKey ''u'' \<mapsto> (Plain ''6b'', Some 60)]"
  "kv_list (redis upload_w1) = (\<lambda>_. [])"
  by (simp_all add: getMasterKeyForUser_def upload_w1_def redis_get_def redis_set_def upload_w0_def
      sample_issue_def sample_w0_def masterKeyKey_def user_by_id_def sample_issuer_def empty_db_def)

lemma one_chunk [simp]: "chunk_count (Suc 0) = Suc 0"
  by (simp add: chunk_count_def ceil_div_def PLAINTEXT_CHUNK_SIZE_BYTES_def)

lemma one_byte_fits: "checkFileLimits file_platform ''u'' (Suc 0) (db upload_w1) = Inr ()"
  by (simp add: checkFileLimits_Inr upload_w1_facts getFileLimitsForUsername_def used_bytes_def
      tbl size_constants)

lemmas start_run = initializeUpload_def randomUUID_def hashUploadPassword_def truthy_def
  newUploadMeta_def startUpload_def acquireUploadInitLock_def openUpload_def reserveActiveUpload_def
  makeRoomForActiveUpload_def setUploadStorageIndex_def releaseUploadInitLock_def
  compare_and_delete_def redis_set_def redis_get_def redis_expire_def redis_sadd_def kv_setnx_def
  MAX_ACTIVE_UPLOADS_PER_USER_def Let_def

lemma upload_w2_facts:
  "fst (initializeUpload file_platform ''u'' upload_dto upload_w1) = Inr (unary 5)"
  "kv_strs (redis upload_w2) (getUploadMetaKey ''u'' (unary 5)) =
     Some (MetaJson upload_meta2, Some UPLOAD_META_TTL_SECONDS)"
  "kv_strs (redis upload_w2) (masterKeyKey ''u'') = Some (Plain ''6b'', Some 60)"
  "kv_list (redis upload_w2) (getActiveUploadKey ''u'') = [unary 5]"
  "db upload_w2 = db upload_w1" "objects upload_w2 = (\<lambda>_. None)" "draws upload_w2 = 8"
  "now upload_w2 = 1000"
  unfolding upload_w2_def upload_meta2_def
  by (simp_all add: start_run upload_w1_facts one_byte_fits upload_dto_def)

lemma upload_meta2_facts [simp]:
  "meta_s3UploadId upload_meta2 = Some (''mp-'' @ unary 6 @ ''.bin'')"
  "meta_storageKey upload_meta2 = unary 6 @ ''.bin''" "meta_fileSize upload_meta2 = 1"
  "meta_nextExpectedChunk upload_meta2 = 0" "meta_totalChunks upload_meta2 = 1"
  "meta_parts upload_meta2 = []" "meta_passwordHash upload_meta2 = None"
  "meta_updatedAt upload_meta2 = Some 1000" "expectedChunkSize upload_meta2 0 = 29"
  "meta_expiresIn upload_meta2 = ''30d''"
  by (simp_all add: upload_meta2_def newUploadMeta_def upload_dto_def expectedChunkSize_def
      expectedPlaintextSize_def ENCRYPTED_CHUNK_OVERHEAD_BYTES_def)

lemma length_upload_body [simp]: "length upload_body = 29"
  by (simp add: upload_body_def)

lemma upload_chunk_checked:
  "checkChunk file_platform ''u'' (unary 5) (Some upload_body) 0 upload_w2 = Inr upload_meta2"
  by (simp add: checkChunk_def redis_get_def upload_w2_facts truthy_def)

lemma upload_meta2_same: "upload_meta2\<lparr>meta_updatedAt := Some 1000\<rparr> = upload_meta2"
  by (simp add: upload_meta2_def newUploadMeta_def)

lemma upload_w3_facts:
  "fst (handleChunk file_platform ''u'' (unary 5) (Some upload_body) 0 upload_w2) = Inr ()"
  "kv_strs (redis upload_w3) (getUploadMetaKey ''u'' (unary 5)) =
     Some (MetaJson upload_meta3, Some UPLOAD_META_TTL_SECONDS)"
  "kv_strs (redis upload_w3) (masterKeyKey ''u'') = Some (Plain ''6b'', Some 60)"
  "kv_list (redis upload_w3) (getActiveUploadKey ''u'') = [unary 5]"
  "db upload_w3 = db upload_w1" "objects upload_w3 = [unary 6 @ ''.bin'' \<mapsto> 29]"
  "draws upload_w3 = 8" "now upload_w3 = 1000"
  unfolding upload_w3_def upload_meta3_def
  by (simp_all add: handleChunk_def upload_chunk_checked refreshChunk_def sendPart_def recordPart_def
      refreshUploadState_def upload_w2_facts redis_get_def redis_set_def redis_expire_def Let_def
      upload_meta2_same)

lemma upload_meta3_facts [simp]:
  "meta_s3UploadId upload_meta3 = Some (''mp-'' @ unary 6 @ ''.bin'')"
  "meta_storageKey upload_meta3 = unary 6 @ ''.bin''" "meta_fileSize upload_meta3 = 1"
  "meta_nextExpectedChunk upload_meta3 = 1" "meta_totalChunks upload_meta3 = 1"
  "meta_parts upload_meta3 = [(1, Some ''etag'')]" "meta_passwordHash upload_meta3 = None"
  "meta_expiresIn upload_meta3 = ''30d''"
  by (simp_all add: upload_meta3_def)

definition sample_file :: file_row where
  "sample_file = \<lparr>file_id = unary 9, file_originalName = ''a.txt'',
     file_storageName = unary 6 @ ''.bin'', file_size = 1, file_mimetype = ''text/plain'',
     file_userId = ''u'', file_createdAt = 1000,
     file_expiresAt = 1000 + 30 * 86400000, file_shareToken = unary 10, file_passwordHash = None,
     file_encryptedFileKey = hex (aes_cbc_encrypt file_platform (unhex ''6b'')
       (randomBytes file_platform 8 16) (utf8 file_platform ''ab'')),
     file_fileKeyIv = hex (randomBytes file_platform 8 16)\<rparr>"

lemma stored_size_one: "getExpectedEncryptedSize (Suc 0) = Inr 29"
  by (simp add: getExpectedEncryptedSize_def size_constants)

lemma upload_completed:
  "completeUpload file_platform ''u'' upload_cdto (file_encryptedFileKey sample_file)
     (file_fileKeyIv sample_file) upload_meta3 (upload_w3\<lparr>draws := 9\<rparr>) =
   (Inr sample_file, True, upload_w3\<lparr>draws := 11, objects := [unary 6 @ ''.bin'' \<mapsto> 29],
      db := (db upload_w1)\<lparr>files := [sample_file]\<rparr>\<rparr>)"
proof -
  have row: "\<lparr>file_id = unary 9, file_originalName = ''a.txt'', file_storageName = unary 6 @ ''.bin'',
      file_size = 1, file_mimetype = ''text/plain'', file_userId = ''u'', file_createdAt = 1000,
      file_expiresAt = 1000 + 30 * 86400000, file_shareToken = unary 10, file_passwordHash = None,
      file_encryptedFileKey = file_encryptedFileKey sample_file,
      file_fileKeyIv = file_fileKeyIv sample_file\<rparr> = sample_file"
    by (simp add: sample_file_def)
  have fields: "file_userId sample_file = ''u''" "file_size sample_file = 1"
    "file_storageName sample_file = unary 6 @ ''.bin''"
    by (simp_all add: sample_file_def)
  show ?thesis
    using row fields
    by (simp add: completeUpload_def upload_w3_facts stored_size_one randomUUID_def upload_cdto_def
        calculateExpiration_def finalize_tx_def one_byte_fits upload_w1_facts Let_def)
qed

lemma upload_w4_facts:
  "finalizeUpload file_platform ''u'' upload_cdto upload_w3 = (Inr sample_file, upload_w4)"
  "kv_strs (redis upload_w4) (masterKeyKey ''u'') = Some (Plain ''6b'', Some 60)"
  "db upload_w4 = (db upload_w1)\<lparr>files := [sample_file]\<rparr>"
  "objects upload_w4 = [unary 6 @ ''.bin'' \<mapsto> 29]" "now upload_w4 = 1000" "draws upload_w4 = 11"
proof -
  have keys: "hex (aes_cbc_encrypt file_platform (unhex ''6b'') (randomBytes file_platform 8 16)
      (utf8 file_platform ''ab'')) = file_encryptedFileKey sample_file"
    "hex (randomBytes file_platform 8 16) = file_fileKeyIv sample_file"
    by (simp_all add: sample_file_def)
  have dto: "cu_uploadId upload_cdto = unary 5" "cu_totalChunks upload_cdto = 1"
    "cu_fileKey upload_cdto = ''ab''"
    by (simp_all add: upload_cdto_def)
  have key: "getMasterKeyForUser file_platform ''u'' upload_w3 = Inr (unhex ''6b'')"
    by (simp add: getMasterKeyForUser_def redis_get_def upload_w3_facts del: unhex.simps)
  have r: "finalizeUpload file_platform ''u'' upload_cdto upload_w3 =
      (Inr sample_file, dropUploadState file_platform ''u'' (unary 5) upload_meta3
        (upload_w3\<lparr>draws := 11, objects := [unary 6 @ ''.bin'' \<mapsto> 29],
          db := (db upload_w1)\<lparr>files := [sample_file]\<rparr>\<rparr>))"
    by (simp add: finalizeUpload_def key keys dto randomBytesOf_def upload_w3_facts redis_get_def
        upload_completed Let_def del: unhex.simps)
  then have w4: "upload_w4 = dropUploadState file_platform ''u'' (unary 5) upload_meta3
      (upload_w3\<lparr>draws := 11, objects := [unary 6 @ ''.bin'' \<mapsto> 29], db := (db upload_w1)\<lparr>files := [sample_file]\<rparr>\<rparr>)"
    by (simp add: upload_w4_def)
  show "finalizeUpload file_platform ''u'' upload_cdto upload_w3 = (Inr sample_file, upload_w4)"
    using r w4 by simp
  show "kv_strs (redis upload_w4) (masterKeyKey ''u'') = Some (Plain ''6b'', Some 60)"
    by (simp add: w4 dropUploadState_def truthy_def releaseActiveUpload_def redis_srem_def
        redis_del_def upload_w3_facts)
  show "db upload_w4 = (db upload_w1)\<lparr>files := [sample_file]\<rparr>"
    "objects upload_w4 = [unary 6 @ ''.bin'' \<mapsto> 29]" "now upload_w4 = 1000" "draws upload_w4 = 11"
    by (simp_all add: w4 upload_w3_facts)
qed

end
