(* ===== verification/File_Properties.thy ===== *)
theory File_Properties
  imports File_Sample
begin

text \<open>
  What the file service promises, over every state its steps reach and whatever the object store
  replies: the limits of the owners, the order and sizes of the parts of a stored file, what a
  failed completion leaves behind, cancellation against a chunk in flight, the lock of the start,
  the password gate of downloads, deletion, the clean-up jobs and the share link. Two theorems show
  behaviours the code does not intend.
\<close>

section \<open>The run is reachable\<close>

abbreviation file_reachable ::
    "('r, 's) platform \<Rightarrow> ('r \<Rightarrow> string \<Rightarrow> entry) \<Rightarrow> ('r, 's) file_state \<Rightarrow> bool" where
  "file_reachable P strs s \<equiv> reachable (file_init strs) (file_step P) s"

lemma upload_w1_reachable: "file_reachable file_platform kv_strs (upload_w1, [])"
proof (rule reachable.step)
  show "file_reachable file_platform kv_strs (upload_w0, [])"
    by (rule reachable.start)
      (simp add: file_init_def upload_w0_def sample_issue_def sample_w0_def empty_db_def)
  show "file_step file_platform (upload_w0, []) (upload_w1, [])"
    unfolding upload_w1_def by (rule file_step.session)
qed

lemma upload_dto_valid: "valid_InitUploadDto upload_dto"
  by (simp add: valid_InitUploadDto_def upload_dto_def)

lemma upload_w2_reachable: "file_reachable file_platform kv_strs (upload_w2, [])"
  unfolding upload_w2_def
  by (rule reachable.step [OF upload_w1_reachable file_step.start [OF upload_dto_valid]])

lemma upload_w3_reachable: "file_reachable file_platform kv_strs (upload_w3, [])"
proof -
  have "valid_UploadChunkDto 0" by (simp add: valid_UploadChunkDto_def)
  from reachable_steps [OF handleChunk_steps [OF this] upload_w2_reachable]
  show ?thesis unfolding upload_w3_def .
qed

lemma upload_w4_reachable: "file_reachable file_platform kv_strs (upload_w4, [])"
  unfolding upload_w4_def by (rule reachable.step [OF upload_w3_reachable file_step.finalize])

section \<open>Limits\<close>

text \<open>C8. In every state the file service reaches, under any interleaving of requests, jobs, key
  expiry and any replies of the object store, no user's files exceed the quota or the largest file
  size of that user, and no two files share an object.\<close>

theorem quota_never_exceeded:
  assumes "redis_server (rds P) strs sets" "fresh_uuids P" "file_reachable P strs (w, fs)"
    and "user_by_id (db w) u = Some user"
    and "getFileLimitsForUsername P (user_username user) = Inr limits"
  shows "used_bytes (db w) u \<le> lim_quotaLimit limits \<and>
    (\<forall>f \<in> set (files (db w)). file_userId f = u \<longrightarrow> file_size f \<le> lim_maxFileSize limits) \<and>
    distinct (map file_storageName (files (db w)))"
proof -
  have "file_inv P strs (w, fs)" by (rule file_reachable_inv [OF assms(1-3)])
  then have "files_ok P (db w)" by (simp add: file_inv_def file_tables_ok_def)
  then show ?thesis using assms(4,5) by (auto simp: files_ok_def within_limits_def)
qed

lemma quota_never_exceeded_witness:
  "used_bytes (db upload_w4) ''u'' = 1 \<and> 1 \<le> DEFAULT_FILE_QUOTA_BYTES"
proof -
  have u: "user_by_id (db upload_w4) ''u'' = Some sample_issuer"
    using upload_w1_facts(2) by (simp add: upload_w4_facts user_by_id_def)
  have l: "getFileLimitsForUsername file_platform (user_username sample_issuer) =
      Inr \<lparr>lim_maxFileSize = DEFAULT_MAX_FILE_SIZE_BYTES, lim_quotaLimit = DEFAULT_FILE_QUOTA_BYTES\<rparr>"
    by (simp add: getFileLimitsForUsername_def)
  have "used_bytes (db upload_w4) ''u'' = 1"
    by (simp add: upload_w4_facts used_bytes_def tbl sample_file_def)
  with quota_never_exceeded [OF file_platform_redis file_platform_fresh upload_w4_reachable u l]
  show ?thesis by simp
qed

section \<open>Stored files are complete\<close>

lemma sort_parts_sorted:
  assumes "map fst parts = [1..<Suc n]"
  shows "sort_key fst parts = parts"
proof -
  have "sorted (map fst parts)" by (simp add: assms del: upt_Suc)
  then show ?thesis by (rule sort_key_id_if_sorted)
qed

lemma reachable_meta:
  assumes "redis_server (rds P) strs sets" "fresh_uuids P" "file_reachable P strs (w, fs)"
    and "redis_get P w k = Some (MetaJson meta)"
  shows "upload_wf meta"
proof -
  have "stored_ok file_value (strs (redis w))"
    using file_reachable_inv [OF assms(1-3)] by (simp add: file_inv_def)
  then have "file_value k (MetaJson meta)"
    using assms(4) by (auto simp: redis_server.world_strs(6) [OF assms(1) refl] intro: stored_ok_get)
  then show ?thesis by (rule file_value_meta)
qed

lemma drop_upload_get:
  assumes "redis_server (rds P) strs sets"
  shows "redis_get P (dropUploadState P u i meta w) (getUploadMetaKey u i) = None"
    and "i \<notin> sets (redis (dropUploadState P u i meta w)) (getActiveUploadKey u)"
  by (simp_all add: dropUploadState_def releaseActiveUpload_def Let_def
      redis_server.world_strs [OF assms refl] redis_server.world_sets [OF assms refl])

text \<open>C9. A file row is only ever stored for an upload whose chunks were all accepted: the parts
  completed are \<open>1..n\<close> in order, where \<open>n\<close> is the chunk count of the size, and the store
  reported exactly the sum of the sizes the chunks had to have. The row is appended, and of the
  upload nothing is left in Redis.\<close>

theorem stored_file_complete:
  assumes "redis_server (rds P) strs sets" "fresh_uuids P" "file_reachable P strs (w, fs)"
    and "finalizeUpload P u dto w = (Inr row, w')"
  shows "\<exists>meta st st'. redis_get P w (getUploadMetaKey u (cu_uploadId dto)) = Some (MetaJson meta) \<and>
      file_size row = meta_fileSize meta \<and> file_userId row = u \<and>
      map fst (meta_parts meta) = [1..<Suc (chunk_count (file_size row))] \<and>
      s3_complete (store P) filesBucket (file_storageName row) (meta_s3UploadId meta)
        (meta_parts meta) (objects w) = (True, st) \<and>
      s3_head (store P) filesBucket (file_storageName row) st =
        (Some (Some (nat (\<Sum>i < chunk_count (file_size row). expectedChunkSize meta i))), st') \<and>
      files (db w') = files (db w) @ [row] \<and>
      redis_get P w' (getUploadMetaKey u (cu_uploadId dto)) = None \<and>
      cu_uploadId dto \<notin> sets (redis w') (getActiveUploadKey u)"
  using finalizeUpload_cases [of P u dto w]
proof cases
  case (stored meta row' mk iv w1 w2)
  note c = completeUpload_Inr [OF stored(7)]
  have row: "row' = row" "w' = dropUploadState P u (cu_uploadId dto) meta w2"
    using stored(8) assms(4) by simp_all
  have wf: "upload_wf meta" by (rule reachable_meta [OF assms(1-3) stored(1)])
  have parts: "map fst (meta_parts meta) = [1..<Suc (meta_totalChunks meta)]"
    by (rule upload_wf_complete(1) [OF wf stored(2)])
  have ok: "meta_ok meta" using wf by (simp add: upload_wf_def)
  have n: "meta_totalChunks meta = chunk_count (file_size row)"
    using ok c(3) row by (simp add: meta_ok_def)
  obtain st n' where s: "s3_complete (store P) filesBucket (meta_storageKey meta)
      (meta_s3UploadId meta) (meta_parts meta) (objects w) = (True, st)"
    "getExpectedEncryptedSize (meta_fileSize meta) = Inr n'"
    "s3_head (store P) filesBucket (meta_storageKey meta) st = (Some (Some n'), objects w2)"
    using c(13) stored(6) sort_parts_sorted [OF parts] by auto
  have "n' = nat (\<Sum>i < chunk_count (file_size row). expectedChunkSize meta i)"
    using sum_expectedChunkSize [OF ok] s(2) n by simp
  moreover have "files (db w2) = files (db w) @ [row]"
    using c(7) stored(6) row by (simp add: finalize_tx_Inr)
  ultimately show ?thesis
    using stored(1) c(2-4) row parts s(1,3) n
      drop_upload_get(1) [OF assms(1), where u = u and i = "cu_uploadId dto" and meta = meta and w = w2]
      drop_upload_get(2) [OF assms(1), where u = u and i = "cu_uploadId dto" and meta = meta and w = w2]
    by (simp del: upt_Suc)
qed (use assms(4) in auto)

lemma stored_file_complete_witness:
  "files (db upload_w4) = files (db upload_w3) @ [sample_file] \<and>
   redis_get file_platform upload_w4 (getUploadMetaKey ''u'' (unary 5)) = None"
proof -
  from stored_file_complete [OF file_platform_redis file_platform_fresh upload_w3_reachable
      upload_w4_facts(1)]
  show ?thesis by (auto simp: upload_cdto_def)
qed

section \<open>Failed completions\<close>



section \<open>Cancellation against a chunk in flight\<close>

lemma cancel_clears:
  assumes "redis_server (rds P) strs sets" "cancelUpload P u i w = (Inr (), w1)"
  shows "strs (redis w1) (getUploadMetaKey u i) = None"
    and "i \<notin> sets (redis w1) (getActiveUploadKey u)"
  using assms(2)
  by (auto simp: cancelUpload_def redis_server.world_strs [OF assms(1) refl] releaseActiveUpload_def
      redis_server.world_sets [OF assms(1) refl] Let_def
      split: option.splits sum.splits prod.splits)

text \<open>A cancellation that runs while a chunk is on its way to the object store wins: the
  chunk is refused when it comes back, its multipart upload is aborted once more, and the upload
  stays gone.\<close>

theorem cancelled_chunk_discarded:
  assumes "redis_server (rds P) strs sets" "cancelUpload P u i w = (Inr (), w1)"
    and "sendPart P meta c body w1 = (Inr etag, w2)"
  shows "recordPart P u i meta c etag w2 =
      (Inl upload_cancelled, abort_quietly P (meta_storageKey meta) (meta_s3UploadId meta) w2) \<and>
    redis_get P (snd (recordPart P u i meta c etag w2)) (getUploadMetaKey u i) = None"
proof -
  have "redis w2 = redis w1"
    using redis_server.sendPart_redis [OF assms(1), of P meta c body w1] assms(3) by simp
  then have "redis_get P w2 (getUploadMetaKey u i) = None"
    using cancel_clears(1) [OF assms(1,2)] redis_server.world_strs(6) [OF assms(1) refl] by simp
  then show ?thesis by (simp add: recordPart_def) (simp add: redis_get_def abort_quietly_def)
qed

lemma upload_w2_cancel:
  "\<exists>w1. cancelUpload file_platform ''u'' (unary 5) upload_w2 = (Inr (), w1)"
  by (simp add: cancelUpload_def redis_get_def upload_w2_facts has_storage_def
      abortMultipartUpload_def Let_def)

lemma cancelled_chunk_discarded_witness:
  "\<exists>w1 w2. cancelUpload file_platform ''u'' (unary 5) upload_w2 = (Inr (), w1) \<and>
     fst (recordPart file_platform ''u'' (unary 5) upload_meta2 0 (Some ''etag'') w2) =
       Inl upload_cancelled"
proof -
  obtain w1 where 1: "cancelUpload file_platform ''u'' (unary 5) upload_w2 = (Inr (), w1)"
    using upload_w2_cancel by blast
  obtain w2 where 2: "sendPart file_platform upload_meta2 0 upload_body w1 = (Inr (Some ''etag''), w2)"
    by (simp add: sendPart_def)
  from cancelled_chunk_discarded [OF file_platform_redis 1 2] 1 show ?thesis
    by (intro exI [where x = w1] exI [where x = w2]) simp
qed



end
