(* ===== verification/Upload_Properties.thy ===== *)
theory Upload_Properties
  imports File_Properties
begin

text \<open>
  The start of an upload: one start at a time per user, one active upload per user, and the uploads
  that are admitted though their last chunks never can be sent.
\<close>

section \<open>The lock of the start\<close>

text \<open>While one start of a user holds the lock, every other start of that user fails with a
  conflict and neither writes to Redis nor calls the object store; and a holder that presents a
  foreign token does not release it.\<close>

theorem start_is_exclusive:
  assumes "redis_server (rds P) strs sets" "acquireUploadInitLock P u w = (Inr token, w1)"
    and "strs (redis w2) (initLockKey u) = strs (redis w1) (initLockKey u)"
  shows "(\<forall>i meta. \<exists>w3. startUpload P u i meta w2 =
        (Inl (Conflict ''Another upload is currently being initialized''), w3) \<and>
      redis w3 = redis w2 \<and> objects w3 = objects w2 \<and> db w3 = db w2) \<and>
    (\<forall>t. t \<noteq> token \<longrightarrow> redis (releaseUploadInitLock P u t w2) = redis w2)"
proof -
  let ?k = "initLockKey u"
  obtain acquired r where x: "r_setnx (rds P) ?k (Plain (uuid P (draws w)))
      UPLOAD_INIT_LOCK_TTL_SECONDS (redis w) = (acquired, r)"
    by fastforce
  then have a: "acquired" "token = uuid P (draws w)" "redis w1 = r"
    using assms(2) by (auto simp: acquireUploadInitLock_def randomUUID_def Let_def split: if_splits)
  have "strs (redis w) ?k = None"
    using redis_server.setnx_present [OF assms(1), of "redis w" ?k] x a(1)
    by (cases "strs (redis w) ?k") auto
  then have "r = r_set (rds P) ?k (Plain token) UPLOAD_INIT_LOCK_TTL_SECONDS (redis w)"
    using redis_server.setnx_absent [OF assms(1)] x a(2) by simp
  then have k: "strs (redis w2) ?k = Some (Plain token, Some UPLOAD_INIT_LOCK_TTL_SECONDS)"
    using assms(3) a(3) redis_server.strs_set [OF assms(1)] by simp
  then have "r_setnx (rds P) ?k v n (redis w2) = (False, redis w2)" for v n
    by (intro redis_server.setnx_present [OF assms(1)]) simp
  then have "\<exists>w3. startUpload P u i meta w2 =
        (Inl (Conflict ''Another upload is currently being initialized''), w3) \<and>
      redis w3 = redis w2 \<and> objects w3 = objects w2 \<and> db w3 = db w2" for i meta
    by (simp add: startUpload_def acquireUploadInitLock_def randomUUID_def Let_def)
  moreover have "redis (releaseUploadInitLock P u t w2) = redis w2" if "t \<noteq> token" for t
    using redis_server.compare_and_delete_foreign [OF assms(1), of "redis w2" ?k token t] k that
    by (simp add: releaseUploadInitLock_def)
  ultimately show ?thesis by blast
qed

lemma start_is_exclusive_witness:
  "\<exists>w1 w3. acquireUploadInitLock file_platform ''u'' upload_w1 = (Inr (unary 5), w1) \<and>
     startUpload file_platform ''u'' (unary 0) upload_meta2 w1 =
       (Inl (Conflict ''Another upload is currently being initialized''), w3)"
proof -
  obtain w1 where 1: "acquireUploadInitLock file_platform ''u'' upload_w1 = (Inr (unary 5), w1)"
    by (simp add: acquireUploadInitLock_def randomUUID_def kv_setnx_def upload_w1_facts Let_def)
  from start_is_exclusive [OF file_platform_redis 1 refl] 1 show ?thesis by blast
qed

section \<open>One active upload\<close>

lemma getUploadMetaKey_inj [simp]: "getUploadMetaKey u i = getUploadMetaKey u j \<longleftrightarrow> i = j"
  by (simp add: getUploadMetaKey_def)

context redis_server
begin

lemma abortActive_effect:
  assumes "rds P = R" "abortActiveUpload P u w (i, meta) = (Inr (), w1)"
  shows "strs (redis w1) (getUploadMetaKey u i) = None"
    and "j \<noteq> i \<Longrightarrow> strs (redis w1) (getUploadMetaKey u j) = strs (redis w) (getUploadMetaKey u j)"
    and "sets (redis w1) (getActiveUploadKey u) = sets (redis w) (getActiveUploadKey u) - {i}"
  using assms
  by (auto simp: abortActiveUpload_def releaseActiveUpload_def Let_def
      split: option.splits sum.splits prod.splits dest!: abortMultipart_redis)

lemma abortAll_effect:
  assumes "rds P = R" "for_each (abortActiveUpload P u) w cs = (Inr (), w1)"
  shows "(\<forall>j. strs (redis w1) (getUploadMetaKey u j) =
      (if j \<in> fst ` set cs then None else strs (redis w) (getUploadMetaKey u j))) \<and>
    sets (redis w1) (getActiveUploadKey u) = sets (redis w) (getActiveUploadKey u) - fst ` set cs"
  using assms(2)
proof (induction cs arbitrary: w)
  case (Cons c cs)
  obtain i meta where c: "c = (i, meta)" by fastforce
  obtain w2 where a: "abortActiveUpload P u w (i, meta) = (Inr (), w2)"
    and r: "for_each (abortActiveUpload P u) w2 cs = (Inr (), w1)"
    using Cons.prems by (auto simp: c split: prod.splits sum.splits)
  show ?case
    using Cons.IH [OF r] abortActive_effect [OF assms(1) a] by (auto simp: c)
qed simp

lemma srem_all_sets:
  "rds P = R \<Longrightarrow> sets (redis (redis_srem_all P k ms w)) = (sets (redis w))(k := sets (redis w) k - set ms)"
  by (induction ms arbitrary: w) (auto simp: fun_eq_iff)

lemma del_all_effect:
  assumes "rds P = R"
  shows "strs (redis (redis_del_all P ks w)) k = (if k \<in> set ks then None else strs (redis w) k)"
    and "sets (redis (redis_del_all P ks w)) k = (if k \<in> set ks then {} else sets (redis w) k)"
  using assms by (induction ks arbitrary: w) auto

text \<open>Making room leaves no active upload and no state of those there were.\<close>

lemma makeRoom_empties:
  assumes "rds P = R" "makeRoomForActiveUpload P u w = (Inr (), w1)"
  shows "sets (redis w1) (getActiveUploadKey u) = {} \<and>
    (\<forall>j. strs (redis w1) (getUploadMetaKey u j) =
      (if j \<in> sets (redis w) (getActiveUploadKey u) then None
       else strs (redis w) (getUploadMetaKey u j)))"
proof -
  define ids where "ids = r_smembers R (redis w) (getActiveUploadKey u)"
  have ids: "set ids = sets (redis w) (getActiveUploadKey u)" by (simp add: ids_def smembers)
  show ?thesis
  proof (cases "length ids < MAX_ACTIVE_UPLOADS_PER_USER")
    case True
    then have "ids = []" by (simp add: MAX_ACTIVE_UPLOADS_PER_USER_def)
    then show ?thesis
      using assms True ids
      by (simp add: makeRoomForActiveUpload_def ids_def MAX_ACTIVE_UPLOADS_PER_USER_def Let_def)
  next
    case False
    define cs where "cs = upload_candidates P u w ids"
    define stale where "stale = filter (\<lambda>i. i \<notin> set (map fst cs)) ids"
    define malformed where "malformed = filter (\<lambda>i. redis_get P w (getUploadMetaKey u i) \<noteq> None) stale"
    define w2 where "w2 = redis_del_all P (map (getUploadMetaKey u) malformed)
      (redis_srem_all P (getActiveUploadKey u) stale w)"
    let ?sorted = "sort_key candidate_createdAt cs"
    have "Suc (length cs) - MAX_ACTIVE_UPLOADS_PER_USER = length ?sorted"
      by (simp add: MAX_ACTIVE_UPLOADS_PER_USER_def)
    then have r: "for_each (abortActiveUpload P u) w2 ?sorted = (Inr (), w1)"
      using assms False
      by (simp add: makeRoomForActiveUpload_def ids_def cs_def stale_def malformed_def w2_def
          MAX_ACTIVE_UPLOADS_PER_USER_def Let_def)
    have cs: "fst ` set cs \<subseteq> set ids"
      by (auto simp: cs_def upload_candidates_def split: option.splits)
    have act: "getActiveUploadKey u \<notin> set (map (getUploadMetaKey u) malformed)" by auto
    have s2: "sets (redis w2) (getActiveUploadKey u) = fst ` set cs"
      using cs ids act assms(1)
      by (auto simp: w2_def del_all_effect srem_all_sets stale_def image_iff)
    have m2: "strs (redis w2) (getUploadMetaKey u j) =
        (if j \<in> set ids - fst ` set cs then None else strs (redis w) (getUploadMetaKey u j))" for j
      using assms(1)
      by (cases "strs (redis w) (getUploadMetaKey u j)")
        (auto simp: w2_def del_all_effect malformed_def stale_def image_iff)
    from abortAll_effect [OF assms(1) r] s2 m2 cs ids show ?thesis by auto
  qed
qed

end

lemma startUpload_Inr:
  assumes "redis_server (rds P) strs sets" "startUpload P u i meta w = (Inr j, w')"
    and "i \<notin> sets (redis w) (getActiveUploadKey u)"
  shows "j = i" and "sets (redis w') (getActiveUploadKey u) = {i}"
    and "\<exists>sid. redis_get P w' (getUploadMetaKey u i) = Some (MetaJson (meta\<lparr>meta_s3UploadId := Some sid\<rparr>))"
    and "\<forall>k \<in> sets (redis w) (getActiveUploadKey u). redis_get P w' (getUploadMetaKey u k) = None"
proof -
  note R = assms(1)
  note s = redis_server.world_strs [OF R refl] redis_server.world_sets [OF R refl]
  obtain token w1 where a: "acquireUploadInitLock P u w = (Inr token, w1)"
    using assms(2) by (auto simp: startUpload_def split: prod.splits sum.splits)
  obtain r sid created w2 where o: "openUpload P u i meta w1 = (r, sid, created, w2)"
    by (metis prod_cases4)
  have r: "r = Inr ()" "j = i" "w' = releaseUploadInitLock P u token w2"
    using assms(2) a o by (auto simp: startUpload_def split: sum.splits)
  then show "j = i" by simp
  obtain acquired t where x: "r_setnx (rds P) (initLockKey u) (Plain (uuid P (draws w)))
      UPLOAD_INIT_LOCK_TTL_SECONDS (redis w) = (acquired, t)"
    by fastforce
  have w1: "sets (redis w1) = sets (redis w)"
    using a x redis_server.setnx_absent [OF R] redis_server.setnx_present [OF R]
    by (cases "strs (redis w) (initLockKey u)")
      (auto simp: acquireUploadInitLock_def randomUUID_def redis_server.sets_set [OF R] Let_def
        split: if_splits)
  from o r(1) obtain q st index where
    v: "reserveActiveUpload P u i (setUploadStorageIndex P q index
      (redis_set P (getUploadMetaKey u i) (MetaJson (meta\<lparr>meta_s3UploadId := Some q\<rparr>))
        UPLOAD_META_TTL_SECONDS (w1\<lparr>objects := st\<rparr>))) = (Inr (), w2)"
    by (cases rule: openUpload_cases) auto
  define w3 where "w3 = setUploadStorageIndex P q index
      (redis_set P (getUploadMetaKey u i) (MetaJson (meta\<lparr>meta_s3UploadId := Some q\<rparr>))
        UPLOAD_META_TTL_SECONDS (w1\<lparr>objects := st\<rparr>))"
  have w3: "sets (redis w3) = sets (redis w)"
    "strs (redis w3) (getUploadMetaKey u i) =
      Some (MetaJson (meta\<lparr>meta_s3UploadId := Some q\<rparr>), Some UPLOAD_META_TTL_SECONDS)"
    by (simp_all add: w3_def setUploadStorageIndex_def s w1)
  obtain w4 where m: "makeRoomForActiveUpload P u w3 = (Inr (), w4)"
    and w2: "w2 = redis_expire P (getActiveUploadKey u) UPLOAD_META_TTL_SECONDS
      (redis_sadd P (getActiveUploadKey u) i w4)"
    using v by (auto simp: w3_def [symmetric] reserveActiveUpload_def Let_def
        split: prod.splits sum.splits)
  note e = redis_server.makeRoom_empties [OF R refl m]
  have lock: "sets (redis w') (getActiveUploadKey u) = sets (redis w2) (getActiveUploadKey u)"
    "strs (redis w') (getUploadMetaKey u k) = strs (redis w2) (getUploadMetaKey u k)" for k
    by (simp_all add: r(3) releaseUploadInitLock_def compare_and_delete_def s
        redis_server.sets_del [OF R] redis_server.strs_del [OF R])
  show "sets (redis w') (getActiveUploadKey u) = {i}" using e by (simp add: lock w2 s)
  show "\<exists>sid. redis_get P w' (getUploadMetaKey u i) =
      Some (MetaJson (meta\<lparr>meta_s3UploadId := Some sid\<rparr>))"
    using e assms(3) w3 by (auto simp: lock w2 s)
  show "\<forall>k \<in> sets (redis w) (getActiveUploadKey u). redis_get P w' (getUploadMetaKey u k) = None"
    using e w3 by (simp add: lock w2 s)
qed

text \<open>C12. A start that succeeds leaves exactly one active upload of the user, the new one, with its
  first state stored; of every upload that was active before nothing is left to continue.\<close>

theorem one_active_upload:
  assumes "redis_server (rds P) strs sets" "initializeUpload P u dto w = (Inr i, w')"
    and "uuid P (draws w) \<notin> sets (redis w) (getActiveUploadKey u)"
  shows "i = uuid P (draws w) \<and> sets (redis w') (getActiveUploadKey u) = {i} \<and>
    (\<exists>meta. redis_get P w' (getUploadMetaKey u i) = Some (MetaJson meta) \<and>
      meta_fileSize meta = iu_fileSize dto \<and> meta_totalChunks meta = iu_totalChunks dto \<and>
      meta_nextExpectedChunk meta = 0 \<and> meta_parts meta = []) \<and>
    (\<forall>j \<in> sets (redis w) (getActiveUploadKey u). redis_get P w' (getUploadMetaKey u j) = None)"
  using initializeUpload_cases [of P u dto w]
proof cases
  case refused
  then show ?thesis using assms(2) by simp
next
  case (started j k ph w3)
  then have s: "startUpload P u j (newUploadMeta dto k ph (now w)) w3 = (Inr i, w')"
    "j \<notin> sets (redis w3) (getActiveUploadKey u)"
    using assms(2,3) by simp_all
  obtain sid where "redis_get P w' (getUploadMetaKey u j) =
      Some (MetaJson ((newUploadMeta dto k ph (now w))\<lparr>meta_s3UploadId := Some sid\<rparr>))"
    using startUpload_Inr(3) [OF assms(1) s] by blast
  then show ?thesis
    using startUpload_Inr(1,2,4) [OF assms(1) s] started(2,3) by (auto simp: newUploadMeta_def)
qed

lemma one_active_upload_witness:
  "kv_sets (redis upload_w2) (getActiveUploadKey ''u'') = {unary 5}"
proof -
  have "initializeUpload file_platform ''u'' upload_dto upload_w1 = (Inr (unary 5), upload_w2)"
    using upload_w2_facts(1) by (simp add: upload_w2_def prod_eq_iff)
  from one_active_upload [OF file_platform_redis this]
  show ?thesis by (simp add: kv_sets_def upload_w1_facts)
qed

section \<open>Uploads of more than 205 chunks\<close>

text \<open>C13. An upload of more than 205 chunks (above 10.25 GB) passes the validation of its start and
  the administrator's limits, but no state the service reaches ever completes it: the chunk request
  only admits the indices up to 204, so the completion always finds chunks missing.\<close>

theorem large_upload_never_completes:
  assumes "redis_server (rds P) strs sets" "fresh_uuids P" "file_reachable P strs (w, fs)"
    and "redis_get P w (getUploadMetaKey u (cu_uploadId dto)) = Some (MetaJson meta)"
    and "205 < meta_totalChunks meta" "getMasterKeyForUser P u w = Inr mk"
  shows "fst (finalizeUpload P u dto w) = Inl (BadRequest ''Not all chunks uploaded yet'')"
proof -
  have "upload_wf meta" by (rule reachable_meta [OF assms(1-4)])
  then have "length (meta_parts meta) \<noteq> meta_totalChunks meta"
    using upload_wf_complete(2) [of meta] assms(5) by auto
  moreover have "redis_get P (w\<lparr>draws := Suc (draws w)\<rparr>) k = redis_get P w k" for k
    by (simp add: redis_get_def)
  ultimately show ?thesis
    using assms(4,6) by (simp add: finalizeUpload_def randomBytesOf_def Let_def)
qed

definition admin_platform :: "(kv, string \<Rightarrow> nat option) platform" where
  "admin_platform = demo_platform\<lparr>env := (\<lambda>_. Some ''eve'')\<rparr>"

lemma admin_platform_simps [simp]:
  "rds admin_platform = kv_api" "store admin_platform = demo_s3" "uuid admin_platform = unary"
  "getAdminForwardUsername admin_platform = Inr (Some ''eve'')"
  by (simp_all add: admin_platform_def getAdminForwardUsername_def optionalEnv_def trim_def
      is_space_def username_pattern_def is_lower_def is_digit_def)

definition large_dto :: init_upload_dto where
  "large_dto = \<lparr>iu_fileSize = 10747904001, iu_totalChunks = 206, iu_password = None,
     iu_expiresIn = None\<rparr>"

definition large_w2 :: demo_world where
  "large_w2 = snd (initializeUpload admin_platform ''u'' large_dto upload_w1)"

lemma large_chunks [simp]: "chunk_count 10747904001 = 206"
  by (simp add: chunk_count_def ceil_div_def PLAINTEXT_CHUNK_SIZE_BYTES_def)

lemma large_dto_valid: "valid_InitUploadDto large_dto"
  by (simp add: valid_InitUploadDto_def large_dto_def)

lemma large_fits: "checkFileLimits admin_platform ''u'' 10747904001 (db upload_w1) = Inr ()"
proof -
  have "user_username sample_issuer = ''eve''" by (simp add: sample_issuer_def newUserRow_def)
  then show ?thesis
    by (simp add: checkFileLimits_Inr upload_w1_facts getFileLimitsForUsername_def used_bytes_def
        tbl size_constants)
qed

lemma large_w2_facts:
  "\<exists>meta. redis_get admin_platform large_w2 (getUploadMetaKey ''u'' (unary 5)) = Some (MetaJson meta) \<and>
     meta_totalChunks meta = 206"
  "getMasterKeyForUser admin_platform ''u'' large_w2 = Inr (unhex ''6b'')"
proof -
  have k: "getMasterKeyForUser admin_platform ''u'' upload_w1 = Inr (unhex ''6b'')"
    using upload_w1_facts(1) by (simp add: getMasterKeyForUser_def redis_get_def)
  show "\<exists>meta. redis_get admin_platform large_w2 (getUploadMetaKey ''u'' (unary 5)) =
      Some (MetaJson meta) \<and> meta_totalChunks meta = 206"
    unfolding large_w2_def
    by (simp add: start_run upload_w1_facts k large_fits large_dto_def del: unhex.simps)
  have "kv_strs (redis large_w2) (masterKeyKey ''u'') = Some (Plain ''6b'', Some 60)"
    unfolding large_w2_def
    by (simp add: start_run upload_w1_facts k large_fits large_dto_def del: unhex.simps)
  then show "getMasterKeyForUser admin_platform ''u'' large_w2 = Inr (unhex ''6b'')"
    by (simp add: getMasterKeyForUser_def redis_get_def del: unhex.simps)
qed

lemma large_w2_reachable: "file_reachable admin_platform kv_strs (large_w2, [])"
proof -
  have 0: "file_reachable admin_platform kv_strs (upload_w0, [])"
    by (rule reachable.start)
      (simp add: file_init_def upload_w0_def sample_issue_def sample_w0_def empty_db_def)
  have "upload_w1 = redis_set admin_platform (masterKeyKey ''u'') (Plain ''6b'') 60 upload_w0"
    by (simp add: upload_w1_def redis_set_def)
  then have "file_step admin_platform (upload_w0, []) (upload_w1, [])"
    using file_step.session by metis
  from reachable.step [OF reachable.step [OF 0 this] file_step.start [OF large_dto_valid]]
  show ?thesis unfolding large_w2_def .
qed

lemma large_upload_never_completes_witness:
  "valid_InitUploadDto large_dto \<and>
   fst (finalizeUpload admin_platform ''u'' upload_cdto large_w2) =
     Inl (BadRequest ''Not all chunks uploaded yet'')"
proof -
  have R: "redis_server (rds admin_platform) kv_strs kv_sets" by (simp add: kv.redis_server_axioms)
  have U: "fresh_uuids admin_platform" by (simp add: fresh_uuids_def inj_unary)
  obtain meta where m: "redis_get admin_platform large_w2 (getUploadMetaKey ''u'' (unary 5)) =
      Some (MetaJson meta)" "meta_totalChunks meta = 206"
    using large_w2_facts(1) by blast
  have "redis_get admin_platform large_w2 (getUploadMetaKey ''u'' (cu_uploadId upload_cdto)) =
      Some (MetaJson meta)"
    using m(1) by (simp add: upload_cdto_def)
  from large_upload_never_completes [OF R U large_w2_reachable this _ large_w2_facts(2)]
  show ?thesis using m(2) large_dto_valid by simp
qed

end
