(* ===== verification/Download_Properties.thy ===== *)
theory Download_Properties
  imports File_Properties
begin

text \<open>
  Downloads and the owner's operations: who gets a file's bytes, how many passwords can be tried,
  what the owner may delete, what the hourly job deletes, the share link, and the end of the
  clean-up of abandoned uploads.
\<close>

section \<open>The gate of a download\<close>

lemma assertDownloadPassword_Inr:
  assumes "fst (assertDownloadPassword P f pw ip w) = Inr ()" "truthy (file_passwordHash f)"
  shows "truthy pw \<and> bcrypt_compare P (the pw) (the (file_passwordHash f))"
  using assms by (auto simp: assertDownloadPassword_def Let_def split: if_splits sum.splits prod.splits)

lemma getDownloadableFile_Inr:
  assumes "getDownloadableFile P i t w = (Inr f, w1)"
  shows "f \<in> set (files (db w))" "file_id f = i" "file_shareToken f = t"
    "now w \<le> file_expiresAt f" "w1 = w"
  using assms by (auto simp: getDownloadableFile_def split: option.splits if_splits
      dest: find_Some_mem)

text \<open>C14. Bytes leave the service only for a stored file that has not expired, to a caller who shows
  its share token and, where the file has a password, that password; and only where the object has
  exactly the size the file must have encrypted.\<close>

theorem download_gate:
  assumes "downloadFile P i t pw ip w = (Inr (stream, md), w')"
  shows "\<exists>f \<in> set (files (db w)). \<exists>st. file_id f = i \<and> file_shareToken f = t \<and>
    now w \<le> file_expiresAt f \<and>
    (truthy (file_passwordHash f) \<longrightarrow>
      truthy pw \<and> bcrypt_compare P (the pw) (the (file_passwordHash f))) \<and>
    s3_get (store P) filesBucket (file_storageName f) (objects w) =
      (Some (Some stream, Some (dm_encryptedSize md)), st) \<and>
    getExpectedEncryptedSize (file_size f) = Inr (dm_encryptedSize md) \<and>
    dm_plaintextSize md = file_size f \<and> dm_chunkCount md = chunk_count (file_size f)"
proof -
  obtain f w1 where g: "getDownloadableFile P i t w = (Inr f, w1)"
    using assms by (auto simp: downloadFile_def split: prod.splits sum.splits)
  note f = getDownloadableFile_Inr [OF g]
  obtain u w2 where a: "assertDownloadPassword P f pw ip w = (Inr u, w2)"
    using assms g f(5) by (auto simp: downloadFile_def split: prod.splits sum.splits)
  have o: "objects w2 = objects w"
    using a by (auto simp: assertDownloadPassword_def Let_def split: if_splits sum.splits prod.splits)
  have p: "truthy (file_passwordHash f) \<Longrightarrow>
      truthy pw \<and> bcrypt_compare P (the pw) (the (file_passwordHash f))"
    using assertDownloadPassword_Inr [of P f pw ip w] a by simp
  obtain st where "s3_get (store P) filesBucket (file_storageName f) (objects w) =
      (Some (Some stream, Some (dm_encryptedSize md)), st)" "metadataOf f = Inr md"
    using assms g f(5) a o
    by (auto simp: downloadFile_def Let_def split: prod.splits sum.splits option.splits if_splits)
  with f p show ?thesis by (auto simp: metadataOf_def split: sum.splits)
qed

text \<open>The file of the sample run, fetched with its token.\<close>

lemma download_gate_witness:
  "\<exists>md (w' :: demo_world). downloadFile file_platform (unary 9) (unary 10) None ''ip'' upload_w4 =
      (Inr ([], md), w') \<and> dm_encryptedSize md = 29 \<and> getExpectedEncryptedSize 1 = Inr 29"
proof -
  have m: "metadataOf sample_file = Inr md \<Longrightarrow> dm_encryptedSize md = 29" for md
    by (auto simp: metadataOf_def sample_file_def stored_size_one)
  have f: "file_id sample_file = unary 9" "file_shareToken sample_file = unary 10"
    "file_expiresAt sample_file = 2592001000" "file_passwordHash sample_file = None"
    "file_storageName sample_file = unary 6 @ ''.bin''" "file_size sample_file = 1"
    by (simp_all add: sample_file_def)
  obtain md where md: "metadataOf sample_file = Inr md"
    by (simp add: metadataOf_def f stored_size_one)
  have "getDownloadableFile file_platform (unary 9) (unary 10) upload_w4 = (Inr sample_file, upload_w4)"
    by (simp add: getDownloadableFile_def upload_w4_facts f)
  then obtain w' where d: "downloadFile file_platform (unary 9) (unary 10) None ''ip'' upload_w4 =
      (Inr ([], md), w')"
    using md m [OF md]
    by (simp add: downloadFile_def assertDownloadPassword_def f upload_w4_facts truthy_def Let_def)
  from download_gate [OF d] have "getExpectedEncryptedSize 1 = Inr (dm_encryptedSize md)"
    by (auto simp: upload_w4_facts f)
  with d m [OF md] show ?thesis by auto
qed

section \<open>Guessing passwords\<close>

text \<open>A caller at one address who tries one password after the other.\<close>

fun tryPasswords ::
    "('r, 's) platform \<Rightarrow> file_row \<Rightarrow> string \<Rightarrow> string list \<Rightarrow> ('r, 's) world \<Rightarrow>
     (http_error + unit) list \<times> ('r, 's) world" where
  "tryPasswords P f ip [] w = ([], w)"
| "tryPasswords P f ip (pw # pws) w =
     (let (r, w1) = assertDownloadPassword P f (Some pw) ip w;
          (rs, w2) = tryPasswords P f ip pws w1
      in (r # rs, w2))"

definition attempt_key :: "('r, 's) platform \<Rightarrow> file_row \<Rightarrow> string \<Rightarrow> string" where
  "attempt_key P f ip = buildRateLimitKey (sha256 P) passwordFailureNs (attemptSubject f ip)"

lemma wrong_password_step:
  assumes "redis_server (rds P) strs sets" "counter (strs (redis w) (attempt_key P f ip)) = Some c"
    and "truthy (file_passwordHash f)" "pw \<noteq> []"
    and "\<not> bcrypt_compare P pw (the (file_passwordHash f))"
    and "assertDownloadPassword P f (Some pw) ip w = (r, w1)"
  shows "if c < 10
    then r = Inl (Forbidden ''Incorrect password'') \<and>
      counter (strs (redis w1) (attempt_key P f ip)) = Some (c + 1)
    else (\<exists>t. r = Inl (too_many_attempts t)) \<and> w1 = w"
proof -
  let ?key = "attempt_key P f ip"
  have av: "assertAvailable (rds P) (sha256 P) passwordFailureNs (attemptSubject f ip) 10 (15 * 60)
      (redis w) = Inr () \<longleftrightarrow> c < 10"
    by (rule redis_server.assertAvailable_iff [OF assms(1)])
      (use assms(2) in \<open>simp add: attempt_key_def\<close>)
  show ?thesis
  proof (cases "c < 10")
    case False
    then obtain e where e: "assertAvailable (rds P) (sha256 P) passwordFailureNs (attemptSubject f ip)
        10 (15 * 60) (redis w) = Inl e"
      using av by (cases "assertAvailable (rds P) (sha256 P) passwordFailureNs
        (attemptSubject f ip) 10 (15 * 60) (redis w)") auto
    then obtain t where t: "e = too_many_attempts t"
      by (auto simp: assertAvailable_def Let_def split: option.splits if_splits)
    have "assertDownloadPassword P f (Some pw) ip w = (Inl e, w)"
      using e assms(3,4) by (simp add: assertDownloadPassword_def truthy_def Let_def)
    with t False assms(6) show ?thesis by auto
  next
    case True
    obtain q s where q: "consume (rds P) ?key 10 (15 * 60) (redis w) = (q, s)" by fastforce
    have "rl_remaining q = 9 - c"
      using redis_server.consume_remaining [OF assms(1,2), of 10 "15 * 60"] q by simp
    then have "consumeAttempt (rds P) (sha256 P) passwordFailureNs (attemptSubject f ip) 10 (15 * 60)
        (redis w) = (Inr q, s)"
      using q True by (simp add: consumeAttempt_def attempt_key_def)
    moreover have "counter (strs s ?key) = Some (c + 1)"
      using redis_server.consume_strs [OF assms(1,2), of 10 "15 * 60"] q by simp
    ultimately show ?thesis
      using True av assms(3-6) by (auto simp: assertDownloadPassword_def truthy_def Let_def)
  qed
qed

text \<open>C15. In one window of a file and an address at most ten wrong passwords are compared: of any
  sequence of wrong guesses the first ten (less those already counted) are answered with 403, every
  later one with 429, and once the ten are used up not even the right password is let through.\<close>

theorem password_guesses_bounded:
  assumes "redis_server (rds P) strs sets" "counter (strs (redis w) (attempt_key P f ip)) = Some c"
    and "truthy (file_passwordHash f)"
    and "\<forall>pw \<in> set pws. pw \<noteq> [] \<and> \<not> bcrypt_compare P pw (the (file_passwordHash f))"
    and "tryPasswords P f ip pws w = (rs, w')"
  shows "length rs = length pws \<and>
    (\<forall>k < length pws. if c + int k < 10 then rs ! k = Inl (Forbidden ''Incorrect password'')
      else (\<exists>t. rs ! k = Inl (too_many_attempts t))) \<and>
    (10 \<le> c + int (length pws) \<longrightarrow>
      (\<forall>pw. pw \<noteq> [] \<longrightarrow> (\<exists>t. fst (assertDownloadPassword P f (Some pw) ip w') = Inl (too_many_attempts t))))"
  using assms(2,4,5)
proof (induction pws arbitrary: w c rs)
  case Nil
  have "\<exists>t. fst (assertDownloadPassword P f (Some pw) ip w) = Inl (too_many_attempts t)"
    if "10 \<le> c" "pw \<noteq> []" for pw
  proof -
    have "assertAvailable (rds P) (sha256 P) passwordFailureNs (attemptSubject f ip) 10 (15 * 60)
        (redis w) \<noteq> Inr ()"
      using redis_server.assertAvailable_iff [OF assms(1), of "redis w" "sha256 P" passwordFailureNs
        "attemptSubject f ip" c 10 "15 * 60"] Nil(1) that by (simp add: attempt_key_def)
    then obtain e where "assertAvailable (rds P) (sha256 P) passwordFailureNs (attemptSubject f ip)
        10 (15 * 60) (redis w) = Inl e" "\<exists>t. e = too_many_attempts t"
      by (auto simp: assertAvailable_def Let_def split: option.splits if_splits)
    then show ?thesis
      using assms(3) that by (auto simp: assertDownloadPassword_def truthy_def Let_def)
  qed
  then show ?case using Nil by simp
next
  case (Cons pw pws)
  obtain r w1 where r: "assertDownloadPassword P f (Some pw) ip w = (r, w1)" by fastforce
  obtain qs where qs: "tryPasswords P f ip pws w1 = (qs, w')" "rs = r # qs"
    using Cons.prems(3) r by (auto simp: Let_def split: prod.splits)
  have bad: "pw \<noteq> []" "\<not> bcrypt_compare P pw (the (file_passwordHash f))"
    using Cons.prems(2) by simp_all
  note step = wrong_password_step [OF assms(1) Cons.prems(1) assms(3) bad r]
  show ?case
  proof (cases "c < 10")
    case True
    then have "counter (strs (redis w1) (attempt_key P f ip)) = Some (c + 1)" using step by simp
    from Cons.IH [OF this _ qs(1)] Cons.prems(2) True step qs(2) show ?thesis
      by (auto simp: nth_Cons algebra_simps split: nat.splits)
  next
    case False
    then have "w1 = w" using step by simp
    with Cons.IH [OF Cons.prems(1) _ ] qs Cons.prems(2) False step show ?thesis
      by (auto simp: nth_Cons split: nat.splits)
  qed
qed

definition protected_file :: file_row where
  "protected_file = sample_file\<lparr>file_passwordHash := Some ''$2secret''\<rparr>"

lemma password_guesses_bounded_witness:
  "\<exists>rs (w' :: demo_world). tryPasswords file_platform protected_file ''ip'' (replicate 12 ''guess'') upload_w1 =
      (rs, w') \<and> rs ! 9 = Inl (Forbidden ''Incorrect password'') \<and>
    (\<exists>t. rs ! 10 = Inl (too_many_attempts t)) \<and>
    (\<exists>t. fst (assertDownloadPassword file_platform protected_file (Some ''secret'') ''ip'' w') =
      Inl (too_many_attempts t))"
proof -
  obtain rs w' where r: "tryPasswords file_platform protected_file ''ip'' (replicate 12 ''guess'')
      upload_w1 = (rs, w')"
    by fastforce
  have c: "counter (kv_strs (redis upload_w1) (attempt_key file_platform protected_file ''ip'')) = Some 0"
    by (simp add: upload_w1_facts attempt_key_def buildRateLimitKey_def masterKeyKey_def)
  have p: "truthy (file_passwordHash protected_file)"
    by (simp add: protected_file_def truthy_def)
  have wrong: "\<forall>pw \<in> set (replicate 12 ''guess''). pw \<noteq> [] \<and>
      \<not> bcrypt_compare file_platform pw (the (file_passwordHash protected_file))"
    by (simp add: protected_file_def)
  note t = password_guesses_bounded [OF file_platform_redis c p wrong r]
  have "rs ! 9 = Inl (Forbidden ''Incorrect password'')" "\<exists>t. rs ! 10 = Inl (too_many_attempts t)"
    using t by auto
  moreover have "\<exists>t. fst (assertDownloadPassword file_platform protected_file (Some ''secret'') ''ip'' w') =
      Inl (too_many_attempts t)"
    using t by simp
  ultimately show ?thesis using r by blast
qed

section \<open>Deletion\<close>

lemma reachable_file_ids:
  assumes "redis_server (rds P) strs sets" "fresh_uuids P" "file_reachable P strs (w, fs)"
  shows "distinct (map file_id (files (db w)))" and "file_tables_ok P w"
  using file_reachable_inv [OF assms]
  by (simp_all add: file_inv_def file_tables_ok_def file_ids_drawn_def)

text \<open>The hourly job removes exactly the files that have expired, and no user row.\<close>

theorem expiry_job_exact:
  assumes "redis_server (rds P) strs sets" "fresh_uuids P" "file_reachable P strs (w, fs)"
  shows "files (db (handleCleanup P w)) = filter (\<lambda>f. now w \<le> file_expiresAt f) (files (db w)) \<and>
    users (db (handleCleanup P w)) = users (db w)"
proof -
  note ids = reachable_file_ids [OF assms]
  define gone where "gone = map file_id (filter (\<lambda>f. file_expiresAt f < now w) (files (db w)))"
  have "file_id f \<in> set gone \<longleftrightarrow> file_expiresAt f < now w" if "f \<in> set (files (db w))" for f
    using that ids(1) by (auto simp: gone_def distinct_map inj_on_def)
  then have "delete_where (\<lambda>f. file_id f \<in> set gone) (files (db w)) =
      filter (\<lambda>f. now w \<le> file_expiresAt f) (files (db w))"
    unfolding delete_where_def by (intro filter_cong) auto
  then show ?thesis
    using file_tables_deleteEach [OF ids(2), of gone] by (simp add: handleCleanup_def gone_def)
qed

lemma expiry_job_exact_witness:
  "files (db (handleCleanup file_platform upload_w4)) = [sample_file] \<and>
   files (db (handleCleanup file_platform (upload_w4\<lparr>now := 2592001001\<rparr>))) = []"
proof -
  have later: "file_reachable file_platform kv_strs (upload_w4\<lparr>now := 2592001001\<rparr>, [])"
    by (rule reachable.step [OF upload_w4_reachable file_step.clock]) (simp add: upload_w4_facts)
  have f: "files (db upload_w4) = [sample_file]" "now upload_w4 = 1000"
    "file_expiresAt sample_file = 2592001000"
    by (simp_all add: upload_w4_facts sample_file_def)
  show ?thesis
    using expiry_job_exact [OF file_platform_redis file_platform_fresh upload_w4_reachable]
      expiry_job_exact [OF file_platform_redis file_platform_fresh later]
    by (simp add: f)
qed

text \<open>A user deletes exactly the own file named, with one call to the object store; a file that
  is not there and a file of someone else give the same answer, and nothing changes.\<close>

theorem delete_own_file_only:
  assumes "redis_server (rds P) strs sets" "fresh_uuids P" "file_reachable P strs (w, fs)"
  shows "(case find (\<lambda>f. file_id f = i \<and> file_userId f = u) (files (db w)) of
      Some f \<Rightarrow> fst (deleteFile P u i w) = Inr () \<and>
        files (db (snd (deleteFile P u i w))) = filter (\<lambda>g. file_id g \<noteq> i) (files (db w)) \<and>
        objects (snd (deleteFile P u i w)) =
          snd (s3_delete (store P) filesBucket (file_storageName f) (objects w))
    | None \<Rightarrow> deleteFile P u i w = (Inl file_not_found, w))"
proof (cases "find (\<lambda>f. file_id f = i) (files (db w))")
  case None
  then have "find (\<lambda>f. file_id f = i \<and> file_userId f = u) (files (db w)) = None"
    by (auto simp: find_None_iff)
  with None show ?thesis by (simp add: deleteFile_def)
next
  case (Some g)
  note g = find_Some_mem [OF Some]
  have same: "f = g" if "f \<in> set (files (db w))" "file_id f = i" for f
    using that g reachable_file_ids(1) [OF assms] by (auto simp: distinct_map inj_on_def)
  show ?thesis
  proof (cases "file_userId g = u")
    case True
    have "find (\<lambda>f. file_id f = i \<and> file_userId f = u) (files (db w)) = Some g"
    proof (cases "find (\<lambda>f. file_id f = i \<and> file_userId f = u) (files (db w))")
      case None
      then show ?thesis using g True by (auto simp: find_None_iff)
    next
      case (Some f)
      then show ?thesis using same find_Some_mem [OF Some] by auto
    qed
    then show ?thesis
      using Some True
      by (simp add: deleteFile_def deleteFileInternal_def delete_quietly_def delete_where_def Let_def)
  next
    case False
    then have "find (\<lambda>f. file_id f = i \<and> file_userId f = u) (files (db w)) = None"
      using same by (auto simp: find_None_iff)
    then show ?thesis using Some False by (simp add: deleteFile_def)
  qed
qed

lemma delete_own_file_only_witness:
  "deleteFile file_platform ''mallory'' (unary 9) upload_w4 = (Inl file_not_found, upload_w4) \<and>
   files (db (snd (deleteFile file_platform ''u'' (unary 9) upload_w4))) = []"
proof -
  have f: "files (db upload_w4) = [sample_file]" "file_id sample_file = unary 9"
    "file_userId sample_file = ''u''"
    by (simp_all add: upload_w4_facts sample_file_def)
  note d = delete_own_file_only [OF file_platform_redis file_platform_fresh upload_w4_reachable]
  show ?thesis using d [of "''mallory''" "unary 9"] d [of "''u''" "unary 9"] by (simp add: f)
qed

section \<open>The share link\<close>

text \<open>C16. The link a user finds in the list of files carries the key the browser gave when it
  completed the upload, as long as the master key cached for the session is the same: the key
  survives encryption, storage as hex and decryption.\<close>

theorem share_link_roundtrip:
  assumes "cipher_ok P" "utf8_text P (utf8 P (cu_fileKey dto)) = cu_fileKey dto"
    and "finalizeUpload P u dto w = (Inr row, w1)"
    and "row \<in> set (files (db w2))"
    and "getMasterKeyForUser P u w2 = getMasterKeyForUser P u w"
    and "getUserFilesWithQuota P u w2 = Inr overview"
  shows "\<exists>f \<in> set (fo_files overview). uf_id f = file_id row \<and>
    uf_shareLink f = ''/d/'' @ file_id row @ ''?token='' @ file_shareToken row @ ''#'' @ cu_fileKey dto"
  using finalizeUpload_cases [of P u dto w]
proof cases
  case (stored meta row' mk iv w0 w3)
  note c = completeUpload_Inr [OF stored(7)]
  have row: "row' = row" using stored(8) assms(3) by simp
  have "fileKeyOf P mk row = cu_fileKey dto"
    using c(9,10) row assms(1,2) stored(5) by (simp add: fileKeyOf_def cipher_ok_def)
  then have l: "uf_id (toUserFile P mk row) = file_id row \<and> uf_shareLink (toUserFile P mk row) =
      ''/d/'' @ file_id row @ ''?token='' @ file_shareToken row @ ''#'' @ cu_fileKey dto"
    by (simp add: toUserFile_def)
  have "fo_files overview = map (toUserFile P mk)
      (order_desc file_createdAt (filter (\<lambda>f. file_userId f = u) (files (db w2))))"
    using assms(5,6) stored(4)
    by (auto simp: getUserFilesWithQuota_def split: option.splits sum.splits)
  then have "toUserFile P mk row \<in> set (fo_files overview)"
    using assms(4) c(2) row by simp
  then show ?thesis using l by blast
qed (use assms(3) in auto)

lemma share_link_roundtrip_witness:
  "\<exists>overview. getUserFilesWithQuota file_platform ''u'' upload_w4 = Inr overview \<and>
     (\<exists>f \<in> set (fo_files overview).
       uf_shareLink f = ''/d/'' @ unary 9 @ ''?token='' @ unary 10 @ ''#ab'')"
proof -
  have key: "getMasterKeyForUser file_platform ''u'' upload_w4 = Inr (unhex ''6b'')"
    "getMasterKeyForUser file_platform ''u'' upload_w3 = Inr (unhex ''6b'')"
    by (simp_all add: getMasterKeyForUser_def redis_get_def upload_w3_facts upload_w4_facts
        del: unhex.simps)
  have user: "user_by_id (db upload_w4) ''u'' = Some sample_issuer"
    using upload_w1_facts(2) by (simp add: upload_w4_facts user_by_id_def)
  obtain overview where o: "getUserFilesWithQuota file_platform ''u'' upload_w4 = Inr overview"
    by (simp add: getUserFilesWithQuota_def key user getFileLimitsForUsername_def)
  have c: "cipher_ok file_platform"
    using demo_cipher by (simp add: cipher_ok_def file_platform_def)
  have t: "utf8_text file_platform (utf8 file_platform (cu_fileKey upload_cdto)) = cu_fileKey upload_cdto"
  proof -
    have "char_of (97 :: nat) = CHR ''a''" "char_of (98 :: nat) = CHR ''b''" by code_simp+
    then show ?thesis by (simp add: file_platform_def demo_platform_def upload_cdto_def)
  qed
  have m: "sample_file \<in> set (files (db upload_w4))" by (simp add: upload_w4_facts)
  from share_link_roundtrip [OF c t upload_w4_facts(1) m _ o] key o show ?thesis
    by (auto simp: sample_file_def upload_cdto_def)
qed

section \<open>The clean-up of abandoned uploads ends\<close>

text \<open>A listing ends where, after at most \<open>n\<close> further pages, a page is refused, is the last one or
  names no next marker, whatever state the store is in.\<close>

fun uploads_end :: "('r, 's) platform \<Rightarrow> nat \<Rightarrow> string option \<Rightarrow> string option \<Rightarrow> bool" where
  "uploads_end P 0 km um = False"
| "uploads_end P (Suc n) km um \<longleftrightarrow> (\<forall>st reply st'.
     s3_listUploads (store P) filesBucket km um st = (Some reply, st') \<longrightarrow>
       \<not> up_isTruncated reply \<or> \<not> truthy (up_nextKeyMarker reply) \<or>
       uploads_end P n (up_nextKeyMarker reply) (up_nextUploadIdMarker reply))"

fun parts_end :: "('r, 's) platform \<Rightarrow> nat \<Rightarrow> string \<Rightarrow> string \<Rightarrow> string option \<Rightarrow> bool" where
  "parts_end P 0 key i m = False"
| "parts_end P (Suc n) key i m \<longleftrightarrow> (\<forall>st reply st'.
     s3_listParts (store P) filesBucket key i m st = (Some reply, st') \<longrightarrow>
       \<not> pp_isTruncated reply \<or> \<not> truthy (pp_nextMarker reply) \<or>
       parts_end P n key i (pp_nextMarker reply))"

lemma partsActivity_returns:
  "parts_end P n key i m \<Longrightarrow> \<exists>r. partsActivity P key i m t st = Some r"
proof (induction n arbitrary: m t st)
  case (Suc n)
  obtain reply st1 where s: "s3_listParts (store P) filesBucket key i m st = (reply, st1)" by fastforce
  show ?case
  proof (cases reply)
    case None
    then show ?thesis by (subst partsActivity.simps) (simp add: s)
  next
    case (Some page)
    show ?thesis
    proof (cases "pp_isTruncated page \<and> truthy (pp_nextMarker page)")
      case True
      then have "parts_end P n key i (pp_nextMarker page)" using Suc.prems s Some by auto
      from Suc.IH [OF this] True s Some show ?thesis
        by (subst partsActivity.simps) (simp add: Let_def)
    next
      case False
      with s Some show ?thesis
        by (subst partsActivity.simps) (auto simp: Let_def truthy_def)
    qed
  qed
qed simp

lemma cleanOne_returns:
  assumes "\<And>key i. \<exists>n. parts_end P n key i None"
  shows "\<exists>r. cleanOne P cutoff u w = Some r"
proof -
  obtain key i t where u: "u = (key, i, t)" by (cases u)
  have "\<exists>r. getMultipartLastActivity P k j t w = Some r" for k j
  proof -
    obtain n where "parts_end P n k j None" using assms by blast
    from partsActivity_returns [OF this] obtain r where
      "partsActivity P k j None (case t of None \<Rightarrow> 0 | Some t \<Rightarrow> t) (objects w) = Some r" by blast
    then show ?thesis by (cases r) (simp add: getMultipartLastActivity_def split: option.splits)
  qed
  then obtain r where "getMultipartLastActivity P (the key) (the i) t w = Some r" by blast
  then show ?thesis by (cases r) (auto simp: cleanOne_def u split: prod.splits sum.splits)
qed

lemma cleanPage_returns:
  assumes "\<And>key i. \<exists>n. parts_end P n key i None"
  shows "\<exists>r. cleanPage P cutoff us n w = Some r"
proof (induction us arbitrary: n w)
  case (Cons u us)
  obtain k w1 where "cleanOne P cutoff u w = Some (k, w1)"
    using cleanOne_returns [OF assms, of cutoff u w] by auto
  with Cons.IH show ?case by simp
qed simp

text \<open>C17. The job that aborts abandoned uploads returns, as long as the listings of the object store
  end: neither a refused call nor malformed state in Redis keeps it running.\<close>

theorem stale_cleanup_returns:
  assumes "uploads_end P n None None" "\<forall>key i. \<exists>m. parts_end P m key i None"
  shows "\<exists>k w'. cleanupStaleMultipartUploads P w = Some (k, w')"
proof -
  have "\<exists>r. cleanPages P cutoff km um c w = Some r" if "uploads_end P n km um" for cutoff km um c w
    using that
  proof (induction n arbitrary: km um c w)
    case (Suc n)
    obtain reply st where s: "s3_listUploads (store P) filesBucket km um (objects w) = (reply, st)"
      by fastforce
    show ?case
    proof (cases reply)
      case None
      then show ?thesis by (subst cleanPages.simps) (simp add: s)
    next
      case (Some l)
      obtain c1 w1 where p: "cleanPage P cutoff (up_uploads l) c (w\<lparr>objects := st\<rparr>) = Some (c1, w1)"
        using cleanPage_returns assms(2) by (metis surj_pair)
      show ?thesis
      proof (cases "up_isTruncated l \<and> truthy (up_nextKeyMarker l)")
        case True
        then have "uploads_end P n (up_nextKeyMarker l) (up_nextUploadIdMarker l)"
          using Suc.prems s Some by auto
        from Suc.IH [OF this] True s Some p show ?thesis
          by (subst cleanPages.simps) simp
      next
        case False
        with s Some p show ?thesis by (subst cleanPages.simps) auto
      qed
    qed
  qed simp
  from this [OF assms(1)] show ?thesis
    by (auto simp: cleanupStaleMultipartUploads_def)
qed

lemma stale_cleanup_returns_witness:
  "\<exists>k w'. cleanupStaleMultipartUploads file_platform upload_w3 = Some (k, w')"
proof -
  have "uploads_end file_platform (Suc 0) None None"
    by (simp add: demo_s3_def)
  moreover have "parts_end file_platform (Suc 0) key i None" for key i
    by (simp add: demo_s3_def)
  ultimately show ?thesis using stale_cleanup_returns by blast
qed

end
