(* ===== verification/Mailbox.thy ===== *)
theory Mailbox
  imports Upload
begin

text \<open>
  \<^verbatim>\<open>MailService\<close> (\<^verbatim>\<open>mail/mail.service.ts\<close>): the encrypted mailbox of a user. Incoming
  mail is routed, checked against the blocked senders and the quota, encrypted under a fresh key and
  stored; mails are listed by folder, read, moved, marked and deleted; senders are blocked. The
  parser of MIME messages is outside the repository: an incoming mail is the record it returns. A
  handler also returns the events it emits, each with the user it goes to.
\<close>

section \<open>Events\<close>

record mail_event =
  me_type :: string
  me_mailIds :: "string list"
  me_source :: string
  me_folder :: "string option"
  me_isRead :: "bool option"
  me_count :: "nat option"
  me_reason :: "string option"

type_synonym pushes = "(string \<times> mail_event) list"

definition mail_event_of :: "string \<Rightarrow> string list \<Rightarrow> string \<Rightarrow> mail_event" where
  "mail_event_of type ids source =
     \<lparr>me_type = type, me_mailIds = ids, me_source = source, me_folder = None, me_isRead = None,
      me_count = None, me_reason = None\<rparr>"

definition mail_not_found :: http_error where
  "mail_not_found = NotFound ''Mail not found''"

definition attachment_not_found :: http_error where
  "attachment_not_found = NotFound ''Attachment not found or access denied''"

section \<open>Quota\<close>

definition DEFAULT_MAIL_QUOTA_BYTES :: nat where
  "DEFAULT_MAIL_QUOTA_BYTES = 500 * 1024 * 1024"

definition ADMIN_FORWARD_MAIL_QUOTA_BYTES :: nat where
  "ADMIN_FORWARD_MAIL_QUOTA_BYTES = 50 * 1024 * 1024 * 1024"

definition mail_of :: "db \<Rightarrow> string \<Rightarrow> mail_row option" where
  "mail_of d mailId = find (\<lambda>m. mail_id m = mailId) (mails d)"

definition attachments_of :: "db \<Rightarrow> string \<Rightarrow> mailAttachment list" where
  "attachments_of d mailId = filter (\<lambda>a. att_mailId a = mailId) (mailAttachments d)"

text \<open>The shared attachments of a mail to one user count as long as a delivery to that user is
  neither recalled nor deleted.\<close>

definition counts_for :: "db \<Rightarrow> string \<Rightarrow> internalMailAttachment \<Rightarrow> bool" where
  "counts_for d userId a \<longleftrightarrow> iatt_storageKey a \<noteq> None \<and>
     list_ex (\<lambda>m. imail_id m = iatt_internalMailId a \<and> imail_targetType m = TO_USER) (internalMails d) \<and>
     list_ex (\<lambda>v. dlv_internalMailId v = iatt_internalMailId a \<and> dlv_userId v = userId \<and>
       dlv_mailId v \<noteq> None \<and> dlv_recalledAt v = None) (deliveries d)"

definition getUserMailStorageUsed :: "db \<Rightarrow> string \<Rightarrow> nat" where
  "getUserMailStorageUsed d userId =
     sum_where (\<lambda>m. mail_userId m = userId) mail_contentSize (mails d) +
     sum_where (\<lambda>a. list_ex (\<lambda>m. mail_id m = att_mailId a \<and> mail_userId m = userId) (mails d))
       att_size (mailAttachments d) +
     sum_where (counts_for d userId) iatt_size (internalAttachments d)"

definition getMailQuotaLimitForUsername :: "('r, 's) platform \<Rightarrow> string \<Rightarrow> http_error + nat" where
  "getMailQuotaLimitForUsername P username =
     (case getAdminForwardUsername P of
        Inl e \<Rightarrow> Inl e
      | Inr adminUsername \<Rightarrow>
          Inr (if adminUsername = Some username then ADMIN_FORWARD_MAIL_QUOTA_BYTES
               else DEFAULT_MAIL_QUOTA_BYTES))"

section \<open>Storing a mail\<close>

record attachment_input =
  ai_content :: bytes
  ai_filename :: string
  ai_mimetype :: string
  ai_size :: nat
  ai_storageKey :: "string option"

record mail_input =
  mi_from :: string
  mi_to :: string
  mi_subject :: string
  mi_content :: string
  mi_attachments :: "attachment_input list"

definition put_object ::
    "('r, 's) platform \<Rightarrow> string \<Rightarrow> bytes \<Rightarrow> ('r, 's) world \<Rightarrow> (unit, ('r, 's) world) outcome" where
  "put_object P key body w =
     (let (ok, st) = s3_put (store P) mailsBucket key body (objects w)
      in (if ok then Inr () else Inl (Thrown ''PutObject''), w\<lparr>objects := st\<rparr>))"

definition attachment_key ::
    "('r, 's) platform \<Rightarrow> string option \<Rightarrow> ('r, 's) world \<Rightarrow> string \<times> ('r, 's) world" where
  "attachment_key P given w =
     (if truthy given then (the given, w)
      else (let (i, w1) = randomUUID P w in (''mail_att_'' @ i @ ''.bin'', w1)))"

text \<open>The loop over the attachments: the keys and the input rows, in order.\<close>

fun storeAttachments ::
    "('r, 's) platform \<Rightarrow> bytes \<Rightarrow> bytes \<Rightarrow> attachment_input list \<Rightarrow> ('r, 's) world \<Rightarrow>
     ((string \<times> attachment_input) list, ('r, 's) world) outcome" where
  "storeAttachments P mailKey mailIv [] w = (Inr [], w)"
| "storeAttachments P mailKey mailIv (a # as) w =
     (let (key, w1) = attachment_key P (ai_storageKey a) w in
      case put_object P key (aes_cbc_encrypt P mailKey mailIv (ai_content a)) w1 of
        (Inl e, w2) \<Rightarrow> (Inl e, w2)
      | (Inr _, w2) \<Rightarrow>
          (case storeAttachments P mailKey mailIv as w2 of
             (Inl e, w3) \<Rightarrow> (Inl e, w3)
           | (Inr rows, w3) \<Rightarrow> (Inr ((key, a) # rows), w3)))"

fun createAttachments ::
    "('r, 's) platform \<Rightarrow> string \<Rightarrow> (string \<times> attachment_input) list \<Rightarrow> ('r, 's) world \<Rightarrow>
     ('r, 's) world" where
  "createAttachments P mailId [] w = w"
| "createAttachments P mailId ((key, a) # rows) w =
     (let (i, w1) = randomUUID P w;
          row = \<lparr>att_id = i, att_filename = ai_filename a, att_mimetype = ai_mimetype a,
            att_size = ai_size a, att_storageKey = key, att_mailId = mailId\<rparr>
      in createAttachments P mailId rows
           (w1\<lparr>db := (db w1)\<lparr>mailAttachments := mailAttachments (db w1) @ [row]\<rparr>\<rparr>))"

definition createMailRow ::
    "('r, 's) platform \<Rightarrow> user \<Rightarrow> mail_input \<Rightarrow> string \<Rightarrow> string \<Rightarrow> string \<Rightarrow>
     (string \<times> attachment_input) list \<Rightarrow> ('r, 's) world \<Rightarrow> mail_row \<times> ('r, 's) world" where
  "createMailRow P u input storageKey encryptedMailKey mailKeyIv rows w =
     (let (i, w1) = randomUUID P w;
          row = \<lparr>mail_id = i, mail_subject = mi_subject input, mail_from = mi_from input,
            mail_to = mi_to input, mail_storageKey = storageKey,
            mail_contentSize = length (utf8 P (mi_content input)), mail_userId = user_id u,
            mail_createdAt = now w, mail_isRead = False, mail_isArchived = False,
            mail_isSpam = False, mail_encryptedMailKey = encryptedMailKey,
            mail_mailKeyIv = mailKeyIv\<rparr>;
          w2 = w1\<lparr>db := (db w1)\<lparr>mails := mails (db w1) @ [row]\<rparr>\<rparr>
      in (row, createAttachments P i rows w2))"

definition storeMailboxMailForUser ::
    "('r, 's) platform \<Rightarrow> user \<Rightarrow> mail_input \<Rightarrow> ('r, 's) world \<Rightarrow>
     (mail_row, ('r, 's) world) outcome" where
  "storeMailboxMailForUser P u input w =
     (let (i, w1) = randomUUID P w;
          storageKey = ''mail_'' @ i @ ''.bin'';
          (mailKey, w2) = randomBytesOf P 32 w1;
          (mailIv, w3) = randomBytesOf P 16 w2
      in case put_object P storageKey (aes_cbc_encrypt P mailKey mailIv (utf8 P (mi_content input))) w3 of
           (Inl e, w4) \<Rightarrow> (Inl e, w4)
         | (Inr _, w4) \<Rightarrow>
             (case storeAttachments P mailKey mailIv (mi_attachments input) w4 of
                (Inl e, w5) \<Rightarrow> (Inl e, w5)
              | (Inr rows, w5) \<Rightarrow>
                  (let encryptedMailKey = hex (rsa_encrypt P (draws w5) (user_publicKey u) mailKey);
                       (row, w6) = createMailRow P u input storageKey encryptedMailKey (hex mailIv)
                         rows (w5\<lparr>draws := Suc (draws w5)\<rparr>)
                   in (Inr row, w6))))"

definition createInternalInboxMail ::
    "('r, 's) platform \<Rightarrow> user \<Rightarrow> string \<Rightarrow> string \<Rightarrow> string \<Rightarrow> ('r, 's) world \<Rightarrow>
     (string \<times> pushes, ('r, 's) world) outcome" where
  "createInternalInboxMail P u sender subject body w =
     (case storeMailboxMailForUser P u
         \<lparr>mi_from = sender, mi_to = user_username u @ ''@redbox.cx'', mi_subject = subject,
          mi_content = body, mi_attachments = []\<rparr> w of
        (Inl e, w1) \<Rightarrow> (Inl e, w1)
      | (Inr row, w1) \<Rightarrow>
          (Inr (mail_id row, [(user_id u, mail_event_of ''mail.created'' [mail_id row] ''internal'')]), w1))"

section \<open>Shared attachments and stored objects\<close>

definition or_text :: "string \<Rightarrow> string \<Rightarrow> string" where
  "or_text s other = (if s = [] then other else s)"

definition storeSharedInternalAttachment ::
    "('r, 's) platform \<Rightarrow> attachment_input \<Rightarrow> ('r, 's) world \<Rightarrow>
     (string \<times> nat \<times> string \<times> string, ('r, 's) world) outcome" where
  "storeSharedInternalAttachment P a w =
     (let (i, w1) = randomUUID P w;
          storageKey = ''internal_mail_att_'' @ i @ ''.bin''
      in case put_object P storageKey (ai_content a) w1 of
           (Inl e, w2) \<Rightarrow> (Inl e, w2)
         | (Inr _, w2) \<Rightarrow>
             (Inr (or_text (ai_filename a) ''attachment'', ai_size a,
                or_text (ai_mimetype a) ''application/octet-stream'', storageKey), w2))"

definition deleteStorageObjectByKey ::
    "('r, 's) platform \<Rightarrow> string \<Rightarrow> ('r, 's) world \<Rightarrow> ('r, 's) world" where
  "deleteStorageObjectByKey P key w = w\<lparr>objects := s3_delete_all P mailsBucket [key] (objects w)\<rparr>"

definition downloadStorageObjectByKey ::
    "('r, 's) platform \<Rightarrow> string \<Rightarrow> ('r, 's) world \<Rightarrow> (bytes, ('r, 's) world) outcome" where
  "downloadStorageObjectByKey P key w =
     (let (reply, st) = s3_get (store P) mailsBucket key (objects w);
          w1 = w\<lparr>objects := st\<rparr>
      in case reply of
           None \<Rightarrow>
             (if s3_missing (store P) mailsBucket key (objects w)
              then (Inl (NotFound ''Stored mail object not found''), w1)
              else (Inl (Thrown ''GetObject''), w1))
         | Some (None, _) \<Rightarrow> (Inl (Thrown ''TypeError''), w1)
         | Some (Some body, _) \<Rightarrow> (Inr body, w1))"

end
