(* ===== verification/Mail_Service.thy ===== *)
theory Mail_Service
  imports Mailbox
begin

text \<open>
  The handlers of \<^verbatim>\<open>MailService\<close> over the store of \<^theory_text>\<open>Mailbox\<close>: listing,
  reading and decrypting, downloads of attachments, deletion, folders, read marks, the bulk
  actions, the blocked senders and the way of an incoming mail.
\<close>

section \<open>Deletion of a record\<close>

definition mail_keys :: "db \<Rightarrow> mail_row \<Rightarrow> string list" where
  "mail_keys d m = mail_storageKey m # map att_storageKey (attachments_of d (mail_id m))"

definition delete_mail_objects ::
    "('r, 's) platform \<Rightarrow> string list \<Rightarrow> ('r, 's) world \<Rightarrow> ('r, 's) world" where
  "delete_mail_objects P keys w = w\<lparr>objects := s3_delete_all P mailsBucket keys (objects w)\<rparr>"

definition deleteMailRecordById ::
    "('r, 's) platform \<Rightarrow> string \<Rightarrow> bool \<Rightarrow> string option \<Rightarrow> string option \<Rightarrow> ('r, 's) world \<Rightarrow>
     (bool \<times> pushes, ('r, 's) world) outcome" where
  "deleteMailRecordById P mailId throwIfMissing eventType reason w =
     (case mail_of (db w) mailId of
        None \<Rightarrow> (if throwIfMissing then Inl mail_not_found else Inr (False, []), w)
      | Some m \<Rightarrow>
          (let w1 = delete_mail_objects P (mail_keys (db w) m) w;
               w2 = w1\<lparr>db := delete_mails (\<lambda>x. mail_id x = mailId) (db w1)\<rparr>;
               type = (case eventType of None \<Rightarrow> ''mail.deleted'' | Some t \<Rightarrow> t);
               event = mail_event_of type [mailId]
                 (if eventType = Some ''mail.recalled'' then ''admin'' else ''user'')
           in (Inr (True, [(mail_userId m, event\<lparr>me_reason := reason\<rparr>)]), w2)))"

section \<open>Listing\<close>

record mails_query =
  mq_limit :: nat
  mq_offset :: nat
  mq_sort :: string
  mq_folder :: string
  mq_search :: "string option"

definition in_folder :: "string \<Rightarrow> mail_row \<Rightarrow> bool" where
  "in_folder folder m \<longleftrightarrow>
     (if folder = ''inbox'' then \<not> mail_isArchived m \<and> \<not> mail_isSpam m
      else if folder = ''archive'' then mail_isArchived m \<and> \<not> mail_isSpam m
      else if folder = ''spam'' then mail_isSpam m
      else True)"

definition mails_where :: "('r, 's) platform \<Rightarrow> string \<Rightarrow> mails_query \<Rightarrow> mail_row \<Rightarrow> bool" where
  "mails_where P userId q m \<longleftrightarrow> mail_userId m = userId \<and> in_folder (mq_folder q) m \<and>
     (case mq_search q of
        None \<Rightarrow> True
      | Some s \<Rightarrow> trim s = [] \<or> db_contains P (trim s) (mail_subject m) \<or>
          db_contains P (trim s) (mail_from m))"

definition order_mails :: "string \<Rightarrow> mail_row list \<Rightarrow> mail_row list" where
  "order_mails srt ms =
     (if srt = ''oldest'' then sort_key mail_createdAt ms
      else if srt = ''unread'' then
        sort_key (\<lambda>m. if mail_isRead m then 1 else (0 :: nat)) (order_desc mail_createdAt ms)
      else if srt = ''read'' then
        sort_key (\<lambda>m. if mail_isRead m then 0 else (1 :: nat)) (order_desc mail_createdAt ms)
      else order_desc mail_createdAt ms)"

record mail_summary =
  msum_mail :: mail_row
  msum_attachmentCount :: nat
  msum_hasAttachments :: bool

text \<open>The attachments of the internal mail behind a mail, where it has stored ones.\<close>

definition sharedAttachments :: "db \<Rightarrow> string \<Rightarrow> internalMailAttachment list" where
  "sharedAttachments d mailId =
     (case find (\<lambda>v. dlv_mailId v = Some mailId) (deliveries d) of
        None \<Rightarrow> []
      | Some v \<Rightarrow> filter (\<lambda>a. iatt_internalMailId a = dlv_internalMailId v \<and> iatt_storageKey a \<noteq> None)
          (internalAttachments d))"

definition summarize :: "db \<Rightarrow> mail_row \<Rightarrow> mail_summary" where
  "summarize d m =
     (let n = length (attachments_of d (mail_id m)) + length (sharedAttachments d (mail_id m))
      in \<lparr>msum_mail = m, msum_attachmentCount = n, msum_hasAttachments = (n > 0)\<rparr>)"

record mails_page =
  mp_mails :: "mail_summary list"
  mp_totalCount :: nat
  mp_totalUsed :: nat
  mp_quotaLimit :: nat

definition getUserMails ::
    "('r, 's) platform \<Rightarrow> string \<Rightarrow> mails_query \<Rightarrow> db \<Rightarrow> http_error + mails_page" where
  "getUserMails P userId q d =
     (case user_by_id d userId of
        None \<Rightarrow> Inl (NotFound ''User not found'')
      | Some user \<Rightarrow>
          (case getMailQuotaLimitForUsername P (user_username user) of
             Inl _ \<Rightarrow> Inl (InternalError ''Could not fetch emails'')
           | Inr quotaLimit \<Rightarrow>
               (let found = filter (mails_where P userId q) (mails d) in
                Inr \<lparr>mp_mails = map (summarize d)
                       (page (mq_offset q) (mq_limit q) (order_mails (mq_sort q) found)),
                     mp_totalCount = length found, mp_totalUsed = getUserMailStorageUsed d userId,
                     mp_quotaLimit = quotaLimit\<rparr>)))"

section \<open>Reading\<close>

definition master_key_missing :: http_error where
  "master_key_missing = Unauthorized ''MasterKey not found in cache. Please re-login.''"

definition bad_decrypt :: http_error where
  "bad_decrypt = Thrown ''bad decrypt''"

text \<open>From the master key to the key of the mail.\<close>

definition cachedMasterKey :: "('r, 's) platform \<Rightarrow> string \<Rightarrow> ('r, 's) world \<Rightarrow> http_error + bytes" where
  "cachedMasterKey P userId w =
     (case redis_get P w (masterKeyKey userId) of
        Some (Plain keyHex) \<Rightarrow> if keyHex = [] then Inl master_key_missing else Inr (unhex keyHex)
      | Some _ \<Rightarrow> Inr []
      | None \<Rightarrow> Inl master_key_missing)"

definition mailKeyOf ::
    "('r, 's) platform \<Rightarrow> user \<Rightarrow> mail_row \<Rightarrow> bytes \<Rightarrow> http_error + bytes" where
  "mailKeyOf P user m masterKey =
     (case aes_cbc_decrypt P masterKey (unhex (user_privateKeyIv user))
         (unhex (user_encryptedPrivateKey user)) of
        None \<Rightarrow> Inl bad_decrypt
      | Some pem \<Rightarrow>
          (case rsa_decrypt P (utf8_text P pem) (unhex (mail_encryptedMailKey m)) of
             None \<Rightarrow> Inl bad_decrypt
           | Some key \<Rightarrow> Inr key))"

record attachment_view =
  av_id :: string
  av_filename :: string
  av_mimetype :: string
  av_size :: nat
  av_isSharedInternal :: bool

record mail_view =
  mv_mail :: mail_row
  mv_content :: string
  mv_attachments :: "attachment_view list"

definition attachment_views :: "db \<Rightarrow> string \<Rightarrow> attachment_view list" where
  "attachment_views d mailId =
     map (\<lambda>a. \<lparr>av_id = att_id a, av_filename = att_filename a, av_mimetype = att_mimetype a,
        av_size = att_size a, av_isSharedInternal = False\<rparr>) (attachments_of d mailId) @
     map (\<lambda>a. \<lparr>av_id = iatt_id a, av_filename = iatt_name a, av_mimetype = iatt_type a,
        av_size = iatt_size a, av_isSharedInternal = True\<rparr>) (sharedAttachments d mailId)"

definition set_mail :: "string \<Rightarrow> (mail_row \<Rightarrow> mail_row) \<Rightarrow> db \<Rightarrow> db" where
  "set_mail mailId f d = d\<lparr>mails := update_where (\<lambda>m. mail_id m = mailId) f (mails d)\<rparr>"

definition markReadOnOpen ::
    "string \<Rightarrow> mail_row \<Rightarrow> ('r, 's) world \<Rightarrow> pushes \<times> ('r, 's) world" where
  "markReadOnOpen userId m w =
     (if mail_isRead m then ([], w)
      else ([(userId, (mail_event_of ''mail.updated'' [mail_id m] ''user'')\<lparr>me_isRead := Some True\<rparr>)],
            w\<lparr>db := set_mail (mail_id m) (\<lambda>x. x\<lparr>mail_isRead := True\<rparr>) (db w)\<rparr>))"

definition decryptStored ::
    "('r, 's) platform \<Rightarrow> bytes \<Rightarrow> string \<Rightarrow> string \<Rightarrow> ('r, 's) world \<Rightarrow> (bytes, ('r, 's) world) outcome"
where
  "decryptStored P mailKey ivHex key w =
     (let (reply, st) = s3_get (store P) mailsBucket key (objects w);
          w1 = w\<lparr>objects := st\<rparr>
      in case reply of
           None \<Rightarrow> (Inl (Thrown ''GetObject''), w1)
         | Some (None, _) \<Rightarrow> (Inl (Thrown ''TypeError''), w1)
         | Some (Some body, _) \<Rightarrow>
             (case aes_cbc_decrypt P mailKey (unhex ivHex) body of
                None \<Rightarrow> (Inl bad_decrypt, w1)
              | Some content \<Rightarrow> (Inr content, w1)))"

text \<open>The row in the answer is the one read before the mark.\<close>

definition getSingleMail ::
    "('r, 's) platform \<Rightarrow> string \<Rightarrow> string \<Rightarrow> ('r, 's) world \<Rightarrow>
     (mail_view \<times> pushes, ('r, 's) world) outcome" where
  "getSingleMail P userId mailId w =
     (case (mail_of (db w) mailId, user_by_id (db w) userId) of
        (Some m, Some user) \<Rightarrow>
          if mail_userId m \<noteq> userId then (Inl mail_not_found, w)
          else
            (case cachedMasterKey P userId w of
               Inl e \<Rightarrow> (Inl e, w)
             | Inr masterKey \<Rightarrow>
                 (case mailKeyOf P user m masterKey of
                    Inl e \<Rightarrow> (Inl e, w)
                  | Inr mailKey \<Rightarrow>
                      (case decryptStored P mailKey (mail_mailKeyIv m) (mail_storageKey m) w of
                         (Inl e, w1) \<Rightarrow> (Inl e, w1)
                       | (Inr content, w1) \<Rightarrow>
                           (let (events, w2) = markReadOnOpen userId m w1 in
                            (Inr (\<lparr>mv_mail = m, mv_content = utf8_text P content,
                               mv_attachments = attachment_views (db w) mailId\<rparr>, events), w2)))))
      | _ \<Rightarrow> (Inl mail_not_found, w))"

record attachment_download =
  ad_buffer :: bytes
  ad_filename :: string
  ad_mimetype :: string
  ad_size :: nat

definition download_shared ::
    "('r, 's) platform \<Rightarrow> internalMailAttachment \<Rightarrow> ('r, 's) world \<Rightarrow>
     (attachment_download, ('r, 's) world) outcome" where
  "download_shared P a w =
     (case downloadStorageObjectByKey P (the (iatt_storageKey a)) w of
        (Inl e, w1) \<Rightarrow> (Inl e, w1)
      | (Inr body, w1) \<Rightarrow>
          (Inr \<lparr>ad_buffer = body, ad_filename = iatt_name a, ad_mimetype = iatt_type a,
             ad_size = iatt_size a\<rparr>, w1))"

definition download_own ::
    "('r, 's) platform \<Rightarrow> user \<Rightarrow> mail_row \<Rightarrow> mailAttachment \<Rightarrow> ('r, 's) world \<Rightarrow>
     (attachment_download, ('r, 's) world) outcome" where
  "download_own P user m a w =
     (case cachedMasterKey P (user_id user) w of
        Inl e \<Rightarrow> (Inl e, w)
      | Inr masterKey \<Rightarrow>
          (case mailKeyOf P user m masterKey of
             Inl e \<Rightarrow> (Inl e, w)
           | Inr mailKey \<Rightarrow>
               (case downloadStorageObjectByKey P (att_storageKey a) w of
                  (Inl e, w1) \<Rightarrow> (Inl e, w1)
                | (Inr body, w1) \<Rightarrow>
                    (case aes_cbc_decrypt P mailKey (unhex (mail_mailKeyIv m)) body of
                       None \<Rightarrow> (Inl bad_decrypt, w1)
                     | Some content \<Rightarrow>
                         (Inr \<lparr>ad_buffer = content, ad_filename = att_filename a,
                            ad_mimetype = att_mimetype a, ad_size = att_size a\<rparr>, w1)))))"

definition downloadAttachment ::
    "('r, 's) platform \<Rightarrow> string \<Rightarrow> string \<Rightarrow> string \<Rightarrow> ('r, 's) world \<Rightarrow>
     (attachment_download, ('r, 's) world) outcome" where
  "downloadAttachment P userId mailId attachmentId w =
     (case (user_by_id (db w) userId, mail_of (db w) mailId) of
        (Some user, Some m) \<Rightarrow>
          if mail_userId m \<noteq> userId then (Inl attachment_not_found, w)
          else
            (let attachment = find (\<lambda>a. att_id a = attachmentId) (attachments_of (db w) mailId);
                 shared = find (\<lambda>a. iatt_id a = attachmentId) (sharedAttachments (db w) mailId)
             in case attachment of
                  Some a \<Rightarrow> download_own P user m a w
                | None \<Rightarrow>
                    (case shared of
                       Some a \<Rightarrow>
                         if truthy (iatt_storageKey a) then download_shared P a w
                         else (Inl attachment_not_found, w)
                     | None \<Rightarrow> (Inl attachment_not_found, w)))
      | _ \<Rightarrow> (Inl attachment_not_found, w))"

section \<open>Actions of the user\<close>

definition own_mail :: "db \<Rightarrow> string \<Rightarrow> string \<Rightarrow> mail_row option" where
  "own_mail d userId mailId = find (\<lambda>m. mail_id m = mailId \<and> mail_userId m = userId) (mails d)"

definition deleteMail ::
    "('r, 's) platform \<Rightarrow> string \<Rightarrow> string \<Rightarrow> ('r, 's) world \<Rightarrow>
     (bool \<times> pushes, ('r, 's) world) outcome" where
  "deleteMail P userId mailId w =
     (case own_mail (db w) userId mailId of
        None \<Rightarrow> (Inl mail_not_found, w)
      | Some m \<Rightarrow> deleteMailRecordById P (mail_id m) True None None w)"

definition place_in :: "string \<Rightarrow> mail_row \<Rightarrow> mail_row" where
  "place_in folder m =
     m\<lparr>mail_isArchived := (folder = ''archive''), mail_isSpam := (folder = ''spam'')\<rparr>"

definition moveMail ::
    "string \<Rightarrow> string \<Rightarrow> string \<Rightarrow> ('r, 's) world \<Rightarrow> (pushes, ('r, 's) world) outcome" where
  "moveMail userId mailId folder w =
     (case own_mail (db w) userId mailId of
        None \<Rightarrow> (Inl mail_not_found, w)
      | Some _ \<Rightarrow>
          (Inr [(userId, (mail_event_of ''mail.updated'' [mailId] ''user'')\<lparr>me_folder := Some folder\<rparr>)],
           w\<lparr>db := set_mail mailId (place_in folder) (db w)\<rparr>))"

definition setReadStatus ::
    "string \<Rightarrow> string \<Rightarrow> bool \<Rightarrow> ('r, 's) world \<Rightarrow> (pushes, ('r, 's) world) outcome" where
  "setReadStatus userId mailId isRead w =
     (case own_mail (db w) userId mailId of
        None \<Rightarrow> (Inl mail_not_found, w)
      | Some _ \<Rightarrow>
          (Inr [(userId, (mail_event_of ''mail.updated'' [mailId] ''user'')\<lparr>me_isRead := Some isRead\<rparr>)],
           w\<lparr>db := set_mail mailId (\<lambda>m. m\<lparr>mail_isRead := isRead\<rparr>) (db w)\<rparr>))"

section \<open>Bulk actions\<close>

definition selected :: "string \<Rightarrow> string list \<Rightarrow> mail_row \<Rightarrow> bool" where
  "selected userId mailIds m \<longleftrightarrow> mail_id m \<in> set mailIds \<and> mail_userId m = userId"

text \<open>\<open>updateMany\<close> over the selected mails: the count and the table.\<close>

definition update_selected ::
    "string \<Rightarrow> string list \<Rightarrow> (mail_row \<Rightarrow> mail_row) \<Rightarrow> ('r, 's) world \<Rightarrow> nat \<times> ('r, 's) world" where
  "update_selected userId mailIds f w =
     (count_where (selected userId mailIds) (mails (db w)),
      w\<lparr>db := (db w)\<lparr>mails := update_where (selected userId mailIds) f (mails (db w))\<rparr>\<rparr>)"

definition bulk_event :: "string list \<Rightarrow> nat \<Rightarrow> mail_event" where
  "bulk_event mailIds n = (mail_event_of ''mail.bulk-updated'' mailIds ''user'')\<lparr>me_count := Some n\<rparr>"

definition bulkMoveMails ::
    "string \<Rightarrow> string list \<Rightarrow> string \<Rightarrow> ('r, 's) world \<Rightarrow> (nat \<times> pushes) \<times> ('r, 's) world" where
  "bulkMoveMails userId mailIds folder w =
     (let (n, w1) = update_selected userId mailIds (place_in folder) w
      in ((n, [(userId, (bulk_event mailIds n)\<lparr>me_folder := Some folder\<rparr>)]), w1))"

definition bulkArchiveMails ::
    "string \<Rightarrow> string list \<Rightarrow> ('r, 's) world \<Rightarrow> (nat \<times> pushes) \<times> ('r, 's) world" where
  "bulkArchiveMails userId mailIds w =
     (let (n, w1) = update_selected userId mailIds (\<lambda>m. m\<lparr>mail_isArchived := True\<rparr>) w
      in ((n, [(userId, (bulk_event mailIds n)\<lparr>me_folder := Some ''archive''\<rparr>)]), w1))"

definition bulkSetReadStatus ::
    "string \<Rightarrow> string list \<Rightarrow> bool \<Rightarrow> ('r, 's) world \<Rightarrow> (nat \<times> pushes) \<times> ('r, 's) world" where
  "bulkSetReadStatus userId mailIds isRead w =
     (let (n, w1) = update_selected userId mailIds (\<lambda>m. m\<lparr>mail_isRead := isRead\<rparr>) w
      in ((n, [(userId, (bulk_event mailIds n)\<lparr>me_isRead := Some isRead\<rparr>)]), w1))"

definition bulkDeleteMails ::
    "('r, 's) platform \<Rightarrow> string \<Rightarrow> string list \<Rightarrow> ('r, 's) world \<Rightarrow> (nat \<times> pushes) \<times> ('r, 's) world" where
  "bulkDeleteMails P userId mailIds w =
     (let gone = filter (selected userId mailIds) (mails (db w));
          w1 = delete_mail_objects P (concat (map (mail_keys (db w)) gone)) w;
          n = length gone;
          event = (mail_event_of ''mail.bulk-deleted'' mailIds ''user'')\<lparr>me_count := Some n\<rparr>
      in ((n, [(userId, event)]), w1\<lparr>db := delete_mails (selected userId mailIds) (db w1)\<rparr>))"

section \<open>Blocked senders\<close>

definition clean_address :: "string \<Rightarrow> string" where
  "clean_address s = trim (to_lower s)"

definition blocks :: "string \<Rightarrow> string \<Rightarrow> blockedSender \<Rightarrow> bool" where
  "blocks userId email b \<longleftrightarrow> blocked_userId b = userId \<and> blocked_email b = email"

definition blockSender ::
    "('r, 's) platform \<Rightarrow> string \<Rightarrow> string \<Rightarrow> ('r, 's) world \<Rightarrow> string \<times> ('r, 's) world" where
  "blockSender P userId emailToBlock w =
     (let email = clean_address emailToBlock in
      if list_ex (blocks userId email) (blockedSenders (db w)) then (email, w)
      else
        (let (i, w1) = randomUUID P w;
             row = \<lparr>blocked_id = i, blocked_email = email, blocked_userId = userId,
               blocked_createdAt = now w\<rparr>
         in (email, w1\<lparr>db := (db w1)\<lparr>blockedSenders := blockedSenders (db w1) @ [row]\<rparr>\<rparr>)))"

definition getBlockedSenders :: "db \<Rightarrow> string \<Rightarrow> blockedSender list \<times> nat" where
  "getBlockedSenders d userId =
     (let rows = order_desc blocked_createdAt
            (filter (\<lambda>b. blocked_userId b = userId) (blockedSenders d))
      in (rows, length rows))"

definition unblock_where :: "(blockedSender \<Rightarrow> bool) \<Rightarrow> ('r, 's) world \<Rightarrow> nat \<times> ('r, 's) world" where
  "unblock_where p w =
     (count_where p (blockedSenders (db w)),
      w\<lparr>db := (db w)\<lparr>blockedSenders := delete_where p (blockedSenders (db w))\<rparr>\<rparr>)"

definition unblockSender ::
    "string \<Rightarrow> string \<Rightarrow> ('r, 's) world \<Rightarrow> (string, ('r, 's) world) outcome" where
  "unblockSender userId emailToUnblock w =
     (let email = clean_address emailToUnblock;
          (n, w1) = unblock_where (blocks userId email) w
      in (if n = 0 then Inl (NotFound ''Blocked sender not found'') else Inr email, w1))"

definition bulkUnblockSenders ::
    "string \<Rightarrow> string list \<Rightarrow> ('r, 's) world \<Rightarrow> (nat \<times> nat) \<times> ('r, 's) world" where
  "bulkUnblockSenders userId emailsToUnblock w =
     (let emails = remdups (map clean_address emailsToUnblock);
          (n, w1) = unblock_where (\<lambda>b. blocked_userId b = userId \<and> blocked_email b \<in> set emails) w
      in ((length emails, n), w1))"

section \<open>Incoming mail\<close>

text \<open>What the parser of the raw message returns, and the fields of the request beside it.\<close>

record parsed_attachment =
  pa_content :: bytes
  pa_filename :: string
  pa_contentType :: string
  pa_size :: nat

record parsed_mail =
  pm_from :: "string option"
  pm_to :: "string list"
  pm_subject :: string
  pm_html :: string
  pm_textAsHtml :: string
  pm_text :: string
  pm_attachments :: "parsed_attachment list"

record incoming_mail =
  in_from :: string
  in_to :: string
  in_subject :: string

datatype incoming_result = Ignored string | Stored string

definition display_from :: "parsed_mail \<Rightarrow> incoming_mail \<Rightarrow> string" where
  "display_from parsed dto =
     (case pm_from parsed of None \<Rightarrow> in_from dto | Some t \<Rightarrow> or_text (trim t) (in_from dto))"

definition sender_emails :: "parsed_mail \<Rightarrow> incoming_mail \<Rightarrow> string list" where
  "sender_emails parsed dto =
     filter (\<lambda>e. e \<noteq> []) (remdups [extractMailAddress (Some (display_from parsed dto)),
       extractMailAddress (Some (in_from dto))])"

definition mail_content :: "parsed_mail \<Rightarrow> string" where
  "mail_content parsed =
     or_text (pm_html parsed) (or_text (pm_textAsHtml parsed) (or_text (pm_text parsed) ''(No content)''))"

fun prepareAttachments ::
    "('r, 's) platform \<Rightarrow> parsed_attachment list \<Rightarrow> ('r, 's) world \<Rightarrow>
     attachment_input list \<times> ('r, 's) world" where
  "prepareAttachments P [] w = ([], w)"
| "prepareAttachments P (a # as) w =
     (let (i, w1) = randomUUID P w;
          (rest, w2) = prepareAttachments P as w1
      in (\<lparr>ai_content = pa_content a, ai_filename = or_text (pa_filename a) ''unknown_file'',
           ai_mimetype = or_text (pa_contentType a) ''application/octet-stream'',
           ai_size = (if pa_size a = 0 then length (pa_content a) else pa_size a),
           ai_storageKey = Some (''mail_att_'' @ i @ ''.bin'')\<rparr> # rest, w2))"

definition incoming_size :: "('r, 's) platform \<Rightarrow> string \<Rightarrow> attachment_input list \<Rightarrow> nat" where
  "incoming_size P content as = length (utf8 P content) + sum_list (map ai_size as)"

text \<open>The part behind the routing: the mailbox user is known.\<close>

definition deliverIncoming ::
    "('r, 's) platform \<Rightarrow> parsed_mail \<Rightarrow> incoming_mail \<Rightarrow> string \<Rightarrow> user \<Rightarrow> ('r, 's) world \<Rightarrow>
     (incoming_result \<times> pushes, ('r, 's) world) outcome" where
  "deliverIncoming P parsed dto cleanEmail u w =
     (if list_ex (\<lambda>b. blocked_userId b = user_id u \<and> blocked_email b \<in> set (sender_emails parsed dto))
           (blockedSenders (db w))
      then (Inr (Ignored ''Sender is blocked'', []), w)
      else
        (let content = mail_content parsed;
             (attachments, w1) = prepareAttachments P (pm_attachments parsed) w;
             currentUsage = getUserMailStorageUsed (db w1) (user_id u)
         in case getMailQuotaLimitForUsername P (user_username u) of
              Inl e \<Rightarrow> (Inl e, w1)
            | Inr quotaLimit \<Rightarrow>
                if currentUsage + incoming_size P content attachments > quotaLimit
                then (Inr (Ignored ''Mailbox quota exceeded'', []), w1)
                else
                  (case storeMailboxMailForUser P u
                      \<lparr>mi_from = display_from parsed dto, mi_to = cleanEmail,
                       mi_subject = or_text (pm_subject parsed) (or_text (in_subject dto) ''(No subject)''),
                       mi_content = content, mi_attachments = attachments\<rparr> w1 of
                     (Inl e, w2) \<Rightarrow> (Inl e, w2)
                   | (Inr row, w2) \<Rightarrow>
                       (Inr (Stored (mail_id row),
                          [(user_id u, mail_event_of ''mail.created'' [mail_id row] ''external'')]), w2))))"

definition processIncomingMail ::
    "('r, 's) platform \<Rightarrow> parsed_mail \<Rightarrow> incoming_mail \<Rightarrow> ('r, 's) world \<Rightarrow>
     (incoming_result \<times> pushes, ('r, 's) world) outcome" where
  "processIncomingMail P parsed dto w =
     (let parsedRecipient = find (\<lambda>t. t \<noteq> []) (pm_to parsed) in
      case resolveIncomingRecipientAddress P [parsedRecipient, Some (in_to dto)] of
        Inl e \<Rightarrow> (Inl e, w)
      | Inr cleanEmail \<Rightarrow>
          (case resolveIncomingMailboxUsername P (Some cleanEmail) of
             Inl e \<Rightarrow> (Inl e, w)
           | Inr username \<Rightarrow>
               if CHR ''*'' \<in> set username
               then (Inr (Ignored ''Broadcast delivery is only supported for internal admin mail'', []), w)
               else
                 (case user_by_name (db w) username of
                    None \<Rightarrow> (Inr (Ignored ''User not found'', []), w)
                  | Some u \<Rightarrow>
                      if user_status u \<noteq> ACTIVE
                      then (Inr (Ignored ''User account is not active'', []), w)
                      else deliverIncoming P parsed dto cleanEmail u w)))"

end
