(* ===== verification/Object_Store.thy ===== *)
theory Object_Store
  imports Mail_Service
begin

text \<open>
  The object store as the mailbox uses it, an interface: \<open>obj\<close> reads the object behind a key, and
  the laws say what \<open>PUT\<close>, \<open>GET\<close>, \<open>DELETE\<close> and the abort of a multipart upload do to it. A refused \<open>PUT\<close> leaves the object of
  its own key open, nothing else. Under the laws, the lemmas say what the effects of the mailbox do
  to the stored objects. The store in memory of the witnesses provides the interface.
\<close>

locale object_store =
  fixes S :: "'s s3_api"
    and obj :: "'s \<Rightarrow> string \<Rightarrow> string \<Rightarrow> bytes option"
  assumes put_accepted: "s3_put S b k body st = (True, st') \<Longrightarrow> obj st' b k = Some body"
    and put_other: "s3_put S b k body st = (ok, st') \<Longrightarrow> b' \<noteq> b \<or> k' \<noteq> k \<Longrightarrow> obj st' b' k' = obj st b' k'"
    and get_keeps: "s3_get S b k st = (r, st') \<Longrightarrow> obj st' = obj st"
    and get_body: "s3_get S b k st = (Some (Some body, n), st') \<Longrightarrow> obj st b k = Some body"
    and get_missing: "s3_get S b k st = (None, st') \<Longrightarrow> s3_missing S b k st \<Longrightarrow> obj st b k = None"
    and delete_other: "s3_delete S b k st = (ok, st') \<Longrightarrow> b' \<noteq> b \<or> k' \<noteq> k \<Longrightarrow> obj st' b' k' = obj st b' k'"
    and delete_accepted: "s3_delete S b k st = (True, st') \<Longrightarrow> obj st' b k = None"
    and abort_keeps: "s3_abort S b k sid st = (ok, st') \<Longrightarrow> obj st' = obj st"
begin

lemma delete_all_other:
  assumes "store P = S" "b' \<noteq> b \<or> k \<notin> set ks"
  shows "obj (s3_delete_all P b ks st) b' k = obj st b' k"
  using assms(2)
proof (induction ks arbitrary: st)
  case (Cons x ks)
  obtain ok st' where d: "s3_delete S b x st = (ok, st')" by fastforce
  have "obj st' b' k = obj st b' k" using delete_other [OF d, of b' k] Cons.prems by auto
  then show ?case using Cons.IH [of st'] Cons.prems by (auto simp: assms(1) d)
qed simp

lemma put_object_cases:
  assumes "store P = S" "put_object P key body w = (r, w')"
  obtains (refused) st where "r = Inl (Thrown ''PutObject'')" "w' = w\<lparr>objects := st\<rparr>"
      "\<And>b k. b \<noteq> mailsBucket \<or> k \<noteq> key \<Longrightarrow> obj st b k = obj (objects w) b k"
  | (accepted) st where "r = Inr ()" "w' = w\<lparr>objects := st\<rparr>"
      "obj st mailsBucket key = Some body"
      "\<And>b k. b \<noteq> mailsBucket \<or> k \<noteq> key \<Longrightarrow> obj st b k = obj (objects w) b k"
proof -
  obtain ok st where p: "s3_put S mailsBucket key body (objects w) = (ok, st)" by fastforce
  have w': "w' = w\<lparr>objects := st\<rparr>" "r = (if ok then Inr () else Inl (Thrown ''PutObject''))"
    using assms by (simp_all add: put_object_def p)
  show thesis
  proof (cases ok)
    case True
    then show thesis using accepted w' put_accepted [of mailsBucket key body "objects w" st] put_other [OF p] p
      by simp
  next
    case False
    then show thesis using refused w' put_other [OF p] by simp
  qed
qed

text \<open>The loop over attachments whose keys are given.\<close>

lemma storeAttachments_objects:
  assumes "store P = S" "map ai_storageKey as = map Some ks" "[] \<notin> set ks" "distinct ks"
    and "storeAttachments P mailKey mailIv as w = (r, w')"
  shows "\<exists>st. w' = w\<lparr>objects := st\<rparr> \<and>
    (\<forall>b k. b \<noteq> mailsBucket \<or> k \<notin> set ks \<longrightarrow> obj st b k = obj (objects w) b k) \<and>
    (\<forall>rows. r = Inr rows \<longrightarrow> rows = zip ks as \<and>
      (\<forall>(k, a) \<in> set rows. obj st mailsBucket k = Some (aes_cbc_encrypt P mailKey mailIv (ai_content a))))"
  using assms(2-5)
proof (induction as arbitrary: ks w r w')
  case Nil
  then have "w' = w\<lparr>objects := objects w\<rparr>" "r = Inr []" by simp_all
  then show ?case using Nil by (intro exI [of _ "objects w"]) auto
next
  case (Cons a as)
  then obtain k ks' where ks: "ks = k # ks'" "ai_storageKey a = Some k" "k \<noteq> []" by (cases ks) auto
  obtain r1 w1 where p: "put_object P k (aes_cbc_encrypt P mailKey mailIv (ai_content a)) w = (r1, w1)"
    by fastforce
  have run: "storeAttachments P mailKey mailIv (a # as) w =
     (case (r1, w1) of
        (Inl e, w2) \<Rightarrow> (Inl e, w2)
      | (Inr _, w2) \<Rightarrow>
          (case storeAttachments P mailKey mailIv as w2 of
             (Inl e, w3) \<Rightarrow> (Inl e, w3)
           | (Inr rows, w3) \<Rightarrow> (Inr ((k, a) # rows), w3)))"
    using ks by (simp add: attachment_key_def truthy_def p)
  from assms(1) p show ?case
  proof (cases rule: put_object_cases)
    case (refused st)
    then have "w' = w\<lparr>objects := st\<rparr>" "r = Inl (Thrown ''PutObject'')"
      using Cons.prems(4) run by simp_all
    then show ?thesis using refused(3) ks(1) by auto
  next
    case (accepted st)
    obtain r2 w2 where s: "storeAttachments P mailKey mailIv as w1 = (r2, w2)" by fastforce
    have t: "map ai_storageKey as = map Some ks'" "[] \<notin> set ks'" "distinct ks'" "k \<notin> set ks'"
      using Cons.prems ks by auto
    from Cons.IH [OF t(1-3) s] obtain st2 where st2: "w2 = w1\<lparr>objects := st2\<rparr>"
      "\<And>b k. b \<noteq> mailsBucket \<or> k \<notin> set ks' \<Longrightarrow> obj st2 b k = obj (objects w1) b k"
      "\<And>rows. r2 = Inr rows \<Longrightarrow> rows = zip ks' as \<and> (\<forall>(k, a) \<in> set rows.
         obj st2 mailsBucket k = Some (aes_cbc_encrypt P mailKey mailIv (ai_content a)))"
      by blast
    have k: "obj st2 mailsBucket k = Some (aes_cbc_encrypt P mailKey mailIv (ai_content a))"
      using st2(2) [of mailsBucket k] t(4) accepted(2,3) by simp
    have "w' = w2" "r = (case r2 of Inl e \<Rightarrow> Inl e | Inr rows \<Rightarrow> Inr ((k, a) # rows))"
      using Cons.prems(4) run s accepted(1) by (auto split: sum.splits)
    moreover have "obj st2 b x = obj (objects w) b x" if "b \<noteq> mailsBucket \<or> x \<notin> set ks" for b x
      using that st2(2) [of b x] accepted(2,4) ks(1) by auto
    ultimately show ?thesis
      using accepted(2) st2(1) st2(3) k ks(1) by (intro exI [of _ st2]) (auto split: sum.splits)
  qed
qed

lemma download_cases:
  assumes "store P = S" "downloadStorageObjectByKey P key w = (r, w')"
  shows "(\<exists>st. w' = w\<lparr>objects := st\<rparr> \<and> obj st = obj (objects w)) \<and>
    (case r of
       Inr body \<Rightarrow> obj (objects w) mailsBucket key = Some body
     | Inl e \<Rightarrow> e = Thrown ''GetObject'' \<or> e = Thrown ''TypeError'' \<or>
         e = NotFound ''Stored mail object not found'' \<and> obj (objects w) mailsBucket key = None)"
proof -
  obtain reply st where g: "s3_get S mailsBucket key (objects w) = (reply, st)" by fastforce
  show ?thesis
    using assms get_keeps [OF g] get_body [of mailsBucket key "objects w"]
      get_missing [of mailsBucket key "objects w"] g
    by (auto simp: downloadStorageObjectByKey_def Let_def split: option.splits if_splits)
qed

lemma decryptStored_cases:
  assumes "store P = S" "decryptStored P mailKey iv key w = (r, w')"
  shows "(\<exists>st. w' = w\<lparr>objects := st\<rparr> \<and> obj st = obj (objects w)) \<and>
    (case r of
       Inr content \<Rightarrow> (\<exists>body. obj (objects w) mailsBucket key = Some body \<and>
         aes_cbc_decrypt P mailKey (unhex iv) body = Some content)
     | Inl e \<Rightarrow> e = Thrown ''GetObject'' \<or> e = Thrown ''TypeError'' \<or>
         e = bad_decrypt \<and> (\<exists>body. obj (objects w) mailsBucket key = Some body \<and>
           aes_cbc_decrypt P mailKey (unhex iv) body = None))"
proof -
  obtain reply st where g: "s3_get S mailsBucket key (objects w) = (reply, st)" by fastforce
  show ?thesis
    using assms get_keeps [OF g] get_body [of mailsBucket key "objects w"] g
    by (auto simp: decryptStored_def Let_def split: option.splits if_splits)
qed

end

lemma storeAttachments_error:
  "storeAttachments P mailKey mailIv as w = (Inl e, w') \<Longrightarrow> e = Thrown ''PutObject''"
  by (induction as arbitrary: w w')
    (auto simp: put_object_def Let_def split: prod.splits sum.splits if_splits)

section \<open>A store in memory\<close>

text \<open>It takes no multipart uploads; the mailbox has none.\<close>

type_synonym mem = "string \<times> string \<Rightarrow> bytes option"

definition mem_s3 :: "mem s3_api" where
  "mem_s3 =
     \<lparr>s3_createMultipart = (\<lambda>b k st. (None, st)),
      s3_uploadPart = (\<lambda>b k u n body st. (None, st)),
      s3_complete = (\<lambda>b k u parts st. (False, st)),
      s3_abort = (\<lambda>b k u st. (True, st)),
      s3_head = (\<lambda>b k st. (Some (map_option length (st (b, k))), st)),
      s3_put = (\<lambda>b k body st. (True, st((b, k) \<mapsto> body))),
      s3_get = (\<lambda>b k st. (map_option (\<lambda>c. (Some c, Some (length c))) (st (b, k)), st)),
      s3_missing = (\<lambda>b k st. st (b, k) = None),
      s3_delete = (\<lambda>b k st. (True, st((b, k) := None))),
      s3_listUploads = (\<lambda>b k u st.
        (Some \<lparr>up_uploads = [], up_isTruncated = False, up_nextKeyMarker = None,
               up_nextUploadIdMarker = None\<rparr>, st)),
      s3_listParts = (\<lambda>b k u m st.
        (Some \<lparr>pp_lastModified = [], pp_isTruncated = False, pp_nextMarker = None\<rparr>, st))\<rparr>"

definition mem_obj :: "mem \<Rightarrow> string \<Rightarrow> string \<Rightarrow> bytes option" where
  "mem_obj st b k = st (b, k)"

lemma mem_s3_simps [simp]:
  "s3_put mem_s3 b k body st = (True, st((b, k) \<mapsto> body))"
  "s3_get mem_s3 b k st = (map_option (\<lambda>c. (Some c, Some (length c))) (st (b, k)), st)"
  "s3_missing mem_s3 b k st = (st (b, k) = None)"
  "s3_delete mem_s3 b k st = (True, st((b, k) := None))"
  "s3_abort mem_s3 b k sid st = (True, st)"
  by (simp_all add: mem_s3_def)

interpretation mem: object_store mem_s3 mem_obj
  by unfold_locales (auto simp: mem_obj_def)

end
