(* ===== verification/Mail_Steps.thy ===== *)
theory Mail_Steps
  imports Object_Store
begin

text \<open>
  What the operations of the mailbox do to the tables and the stored objects, the invariant of the
  mailbox (every mail and every attachment has its object, and no two share one) and the relation
  of its steps. The ids are UUIDs: none is drawn twice, and none contains an underscore.
\<close>

section \<open>Keys and rows\<close>

definition uuid_ok :: "('r, 's) platform \<Rightarrow> bool" where
  "uuid_ok P \<longleftrightarrow> fresh_uuids P \<and> (\<forall>i. CHR ''_'' \<notin> set (uuid P i))"

definition mail_key :: "('r, 's) platform \<Rightarrow> nat \<Rightarrow> string" where
  "mail_key P i = ''mail_'' @ uuid P i @ ''.bin''"

definition att_key :: "('r, 's) platform \<Rightarrow> nat \<Rightarrow> string" where
  "att_key P i = ''mail_att_'' @ uuid P i @ ''.bin''"

lemma uuid_inj: "uuid_ok P \<Longrightarrow> uuid P i = uuid P j \<longleftrightarrow> i = j"
  by (auto simp: uuid_ok_def fresh_uuids_def dest: injD)

lemma mail_key_inj: "uuid_ok P \<Longrightarrow> mail_key P i = mail_key P j \<longleftrightarrow> i = j"
  by (simp add: mail_key_def uuid_inj)

lemma att_key_inj: "uuid_ok P \<Longrightarrow> att_key P i = att_key P j \<longleftrightarrow> i = j"
  by (simp add: att_key_def uuid_inj)

lemma mail_key_att_key:
  assumes "uuid_ok P"
  shows "mail_key P i \<noteq> att_key P j"
proof
  assume "mail_key P i = att_key P j"
  then have "uuid P i = ''att_'' @ uuid P j" by (simp add: mail_key_def att_key_def)
  then have "CHR ''_'' \<in> set (uuid P i)" by simp
  then show False using assms by (simp add: uuid_ok_def)
qed

lemmas keys_differ = uuid_inj mail_key_inj att_key_inj mail_key_att_key mail_key_att_key [symmetric]

text \<open>The keys that are drawn while \<open>draws\<close> goes from \<open>m\<close> to \<open>n\<close>.\<close>

definition keys_drawn :: "('r, 's) platform \<Rightarrow> nat \<Rightarrow> nat \<Rightarrow> string set" where
  "keys_drawn P m n = mail_key P ` {m..<n} \<union> att_key P ` {m..<n}"

lemma keys_drawn_disjoint: "uuid_ok P \<Longrightarrow> keys_drawn P 0 n \<inter> keys_drawn P n n' = {}"
  by (auto simp: keys_drawn_def keys_differ)

lemma keys_drawn_mono: "m \<le> n \<Longrightarrow> k \<in> keys_drawn P 0 m \<Longrightarrow> k \<in> keys_drawn P 0 n"
  by (auto simp: keys_drawn_def)

lemma att_key_nonempty [simp]: "att_key P i \<noteq> []"
  by (simp add: att_key_def)

lemma keys_drawn_iff:
  "uuid_ok P \<Longrightarrow> att_key P i \<in> keys_drawn P m n \<longleftrightarrow> m \<le> i \<and> i < n"
  "uuid_ok P \<Longrightarrow> mail_key P i \<in> keys_drawn P m n \<longleftrightarrow> m \<le> i \<and> i < n"
  by (auto simp: keys_drawn_def keys_differ)

text \<open>The rows of the attachments of a new mail.\<close>

fun attachment_rows ::
    "('r, 's) platform \<Rightarrow> string \<Rightarrow> nat \<Rightarrow> (string \<times> attachment_input) list \<Rightarrow> mailAttachment list" where
  "attachment_rows P mailId n [] = []"
| "attachment_rows P mailId n ((key, a) # rows) =
     \<lparr>att_id = uuid P n, att_filename = ai_filename a, att_mimetype = ai_mimetype a,
      att_size = ai_size a, att_storageKey = key, att_mailId = mailId\<rparr> #
     attachment_rows P mailId (Suc n) rows"

lemma createAttachments_eq:
  "createAttachments P mailId rows w =
     w\<lparr>db := (db w)\<lparr>mailAttachments := mailAttachments (db w) @ attachment_rows P mailId (draws w) rows\<rparr>,
       draws := draws w + length rows\<rparr>"
proof (induction rows arbitrary: w)
  case (Cons x rows)
  obtain key a where "x = (key, a)" by fastforce
  then show ?case by (simp add: Cons randomUUID_def Let_def)
qed simp

lemma attachment_rows_maps:
  "map att_id (attachment_rows P mailId n rows) = map (uuid P) [n..<n + length rows]"
  "map att_storageKey (attachment_rows P mailId n rows) = map fst rows"
  "map att_mailId (attachment_rows P mailId n rows) = replicate (length rows) mailId"
  "map att_size (attachment_rows P mailId n rows) = map (ai_size \<circ> snd) rows"
proof (induction rows arbitrary: n)
  case (Cons x rows)
  case 1 show ?case using Cons(1) [of "Suc n"]
    by (cases x) (simp add: upt_conv_Cons del: upt_Suc)
  case 2 show ?case using Cons(2) [of "Suc n"] by (cases x) simp
  case 3 show ?case using Cons(3) [of "Suc n"] by (cases x) simp
  case 4 show ?case using Cons(4) [of "Suc n"] by (cases x) simp
qed simp_all

lemma prepareAttachments_draws:
  "prepareAttachments P as w = (inputs, w') \<Longrightarrow>
     w' = w\<lparr>draws := draws w + length as\<rparr> \<and> length inputs = length as \<and>
     map ai_storageKey inputs = map Some (map (att_key P) [draws w..<draws w + length as]) \<and>
     map ai_content inputs = map pa_content as"
proof (induction as arbitrary: w inputs w')
  case (Cons a as)
  obtain inputs' w2 where p: "prepareAttachments P as (w\<lparr>draws := Suc (draws w)\<rparr>) = (inputs', w2)"
    by fastforce
  then show ?case using Cons.prems Cons.IH [OF p]
    by (auto simp: randomUUID_def Let_def att_key_def upt_conv_Cons simp del: upt_Suc)
qed simp

section \<open>Storing a mail\<close>

definition stored_row ::
    "('r, 's) platform \<Rightarrow> user \<Rightarrow> mail_input \<Rightarrow> ('r, 's) world \<Rightarrow> mail_row" where
  "stored_row P u input w =
     \<lparr>mail_id = uuid P (draws w + 4), mail_subject = mi_subject input, mail_from = mi_from input,
      mail_to = mi_to input, mail_storageKey = mail_key P (draws w),
      mail_contentSize = length (utf8 P (mi_content input)), mail_userId = user_id u,
      mail_createdAt = now w, mail_isRead = False, mail_isArchived = False, mail_isSpam = False,
      mail_encryptedMailKey =
        hex (rsa_encrypt P (draws w + 3) (user_publicKey u) (randomBytes P (draws w + 1) 32)),
      mail_mailKeyIv = hex (randomBytes P (draws w + 2) 16)\<rparr>"

definition stored_db ::
    "('r, 's) platform \<Rightarrow> user \<Rightarrow> mail_input \<Rightarrow> string list \<Rightarrow> ('r, 's) world \<Rightarrow> db" where
  "stored_db P u input ks w =
     (db w)\<lparr>mails := mails (db w) @ [stored_row P u input w],
       mailAttachments := mailAttachments (db w) @
         attachment_rows P (uuid P (draws w + 4)) (draws w + 5) (zip ks (mi_attachments input))\<rparr>"

lemma stored_row_simps [simp]:
  "mail_id (stored_row P u input w) = uuid P (draws w + 4)"
  "mail_storageKey (stored_row P u input w) = mail_key P (draws w)"
  "mail_userId (stored_row P u input w) = user_id u"
  "mail_contentSize (stored_row P u input w) = length (utf8 P (mi_content input))"
  by (simp_all add: stored_row_def)

text \<open>What is behind the keys of a stored mail.\<close>

definition sealed ::
    "('r, 's) platform \<Rightarrow> (string \<Rightarrow> bytes option) \<Rightarrow> mail_input \<Rightarrow> string list \<Rightarrow> nat \<Rightarrow> bool" where
  "sealed P read input ks n \<longleftrightarrow>
     (let key = randomBytes P (n + 1) 32; iv = randomBytes P (n + 2) 16 in
      read (mail_key P n) = Some (aes_cbc_encrypt P key iv (utf8 P (mi_content input))) \<and>
      (\<forall>(k, a) \<in> set (zip ks (mi_attachments input)).
         read k = Some (aes_cbc_encrypt P key iv (ai_content a))))"

context object_store
begin

lemma storeMail_cases:
  assumes "store P = S" "map ai_storageKey (mi_attachments input) = map Some ks" "[] \<notin> set ks"
    "distinct (mail_key P (draws w) # ks)" "storeMailboxMailForUser P u input w = (r, w')"
  obtains (refused) st where "r = Inl (Thrown ''PutObject'')"
      "w' = w\<lparr>objects := st, draws := draws w + 3\<rparr>"
      "\<And>b k. b \<noteq> mailsBucket \<or> k \<notin> insert (mail_key P (draws w)) (set ks) \<Longrightarrow>
         obj st b k = obj (objects w) b k"
  | (stored) st where "r = Inr (stored_row P u input w)"
      "w' = w\<lparr>db := stored_db P u input ks w, objects := st, draws := draws w + 5 + length ks\<rparr>"
      "sealed P (obj st mailsBucket) input ks (draws w)"
      "\<And>b k. b \<noteq> mailsBucket \<or> k \<notin> insert (mail_key P (draws w)) (set ks) \<Longrightarrow>
         obj st b k = obj (objects w) b k"
proof -
  define key where "key = randomBytes P (Suc (draws w)) 32"
  define iv where "iv = randomBytes P (Suc (Suc (draws w))) 16"
  define w3 where "w3 = w\<lparr>draws := draws w + 3\<rparr>"
  obtain r1 w4 where p: "put_object P (mail_key P (draws w))
      (aes_cbc_encrypt P key iv (utf8 P (mi_content input))) w3 = (r1, w4)" by fastforce
  have run: "storeMailboxMailForUser P u input w =
     (case (r1, w4) of
        (Inl e, w4) \<Rightarrow> (Inl e, w4)
      | (Inr _, w4) \<Rightarrow>
          (case storeAttachments P key iv (mi_attachments input) w4 of
             (Inl e, w5) \<Rightarrow> (Inl e, w5)
           | (Inr rows, w5) \<Rightarrow>
               (let encryptedMailKey = hex (rsa_encrypt P (draws w5) (user_publicKey u) key);
                    (row, w6) = createMailRow P u input (mail_key P (draws w)) encryptedMailKey (hex iv)
                      rows (w5\<lparr>draws := Suc (draws w5)\<rparr>)
                in (Inr row, w6))))"
    using p by (simp add: storeMailboxMailForUser_def randomUUID_def randomBytesOf_def key_def iv_def
        mail_key_def w3_def numeral_eq_Suc Let_def split: sum.splits prod.splits)
  from assms(1) p show thesis
  proof (cases rule: put_object_cases)
    case (refused st)
    then show thesis using run assms(5) that(1) [of st] by (auto simp: w3_def)
  next
    case (accepted st)
    obtain r2 w5 where s: "storeAttachments P key iv (mi_attachments input) w4 = (r2, w5)" by fastforce
    from storeAttachments_objects [OF assms(1-3) _ s] assms(4)
    obtain st2 where st2: "w5 = w4\<lparr>objects := st2\<rparr>"
      "\<And>b k. b \<noteq> mailsBucket \<or> k \<notin> set ks \<Longrightarrow> obj st2 b k = obj (objects w4) b k"
      "\<And>rows. r2 = Inr rows \<Longrightarrow> rows = zip ks (mi_attachments input) \<and> (\<forall>(k, a) \<in> set rows.
         obj st2 mailsBucket k = Some (aes_cbc_encrypt P key iv (ai_content a)))"
      by fastforce
    have other: "obj st2 b k = obj (objects w) b k"
      if "b \<noteq> mailsBucket \<or> k \<notin> insert (mail_key P (draws w)) (set ks)" for b k
      using that st2(2) [of b k] accepted(2,4) by (auto simp: w3_def)
    have own: "obj st2 mailsBucket (mail_key P (draws w)) =
        Some (aes_cbc_encrypt P key iv (utf8 P (mi_content input)))"
      using st2(2) [of mailsBucket "mail_key P (draws w)"] assms(4) accepted(2,3) by simp
    show thesis
    proof (cases r2)
      case (Inl e)
      have "e = Thrown ''PutObject''"
        using s unfolding Inl by (rule storeAttachments_error)
      then show thesis using that(1) [of st2] run assms(5) accepted s Inl st2(1) other
        by (auto simp: w3_def)
    next
      case (Inr rows)
      have l: "length ks = length (mi_attachments input)" using assms(2) by (metis length_map)
      have "r = Inr (stored_row P u input w)"
        "w' = w\<lparr>db := stored_db P u input ks w, objects := st2, draws := draws w + 5 + length ks\<rparr>"
        using run assms(5) accepted s Inr st2(1) st2(3) [OF Inr] l
        by (auto simp: createMailRow_def createAttachments_eq randomUUID_def stored_row_def
            stored_db_def w3_def key_def iv_def Let_def numeral_eq_Suc)
      moreover have "sealed P (obj st2 mailsBucket) input ks (draws w)"
        using own st2(3) [OF Inr] by (simp add: sealed_def key_def iv_def Let_def)
      ultimately show thesis using that(2) other by blast
    qed
  qed
qed

end

section \<open>The invariant\<close>

definition object_keys :: "db \<Rightarrow> string list" where
  "object_keys d = map mail_storageKey (mails d) @ map att_storageKey (mailAttachments d)"

definition mail_tables_ok :: "('r, 's) platform \<Rightarrow> nat \<Rightarrow> db \<Rightarrow> bool" where
  "mail_tables_ok P n d \<longleftrightarrow>
     distinct (map mail_id (mails d)) \<and> mail_id ` set (mails d) \<subseteq> uuid P ` {..<n} \<and>
     distinct (map att_id (mailAttachments d)) \<and> att_id ` set (mailAttachments d) \<subseteq> uuid P ` {..<n} \<and>
     att_mailId ` set (mailAttachments d) \<subseteq> mail_id ` set (mails d) \<and>
     distinct (object_keys d) \<and> set (object_keys d) \<subseteq> keys_drawn P 0 n"

definition mail_inv ::
    "('r, 's) platform \<Rightarrow> ('s \<Rightarrow> string \<Rightarrow> string \<Rightarrow> bytes option) \<Rightarrow> ('r, 's) world \<Rightarrow> bool" where
  "mail_inv P obj w \<longleftrightarrow> mail_tables_ok P (draws w) (db w) \<and>
     (\<forall>k \<in> set (object_keys (db w)). obj (objects w) mailsBucket k \<noteq> None)"

lemma mail_invD:
  assumes "mail_inv P obj w"
  shows "mail_tables_ok P (draws w) (db w)"
    "k \<in> set (object_keys (db w)) \<Longrightarrow> obj (objects w) mailsBucket k \<noteq> None"
  using assms by (simp_all add: mail_inv_def)

text \<open>A key has one owner.\<close>

lemma tables_keys:
  assumes "mail_tables_ok P n d"
  shows "m \<in> set (mails d) \<Longrightarrow> m' \<in> set (mails d) \<Longrightarrow> mail_storageKey m = mail_storageKey m' \<Longrightarrow> m = m'"
    and "a \<in> set (mailAttachments d) \<Longrightarrow> a' \<in> set (mailAttachments d) \<Longrightarrow>
      att_storageKey a = att_storageKey a' \<Longrightarrow> a = a'"
    and "m \<in> set (mails d) \<Longrightarrow> a \<in> set (mailAttachments d) \<Longrightarrow> mail_storageKey m \<noteq> att_storageKey a"
    and "m \<in> set (mails d) \<Longrightarrow> m' \<in> set (mails d) \<Longrightarrow> mail_id m = mail_id m' \<Longrightarrow> m = m'"
  using assms by (auto simp: mail_tables_ok_def object_keys_def distinct_map dest: inj_onD)

lemma tables_mono:
  assumes "mail_tables_ok P m d" "m \<le> n"
  shows "mail_tables_ok P n d"
proof -
  have "uuid P ` {..<m} \<subseteq> uuid P ` {..<n}" using assms(2) by (intro image_mono) auto
  moreover have "keys_drawn P 0 m \<subseteq> keys_drawn P 0 n"
    using keys_drawn_mono [OF assms(2), of _ P] by blast
  ultimately show ?thesis using assms(1) unfolding mail_tables_ok_def by (meson subset_trans)
qed

text \<open>Steps that keep the keys: the ids and keys of the tables stay, nothing behind them changes.\<close>

lemma mail_inv_keep:
  assumes "mail_inv P obj w" "draws w \<le> draws w'"
    and "map mail_id (mails (db w')) = map mail_id (mails (db w))"
    and "map mail_storageKey (mails (db w')) = map mail_storageKey (mails (db w))"
    and "mailAttachments (db w') = mailAttachments (db w)"
    and "\<And>k. k \<in> set (object_keys (db w)) \<Longrightarrow>
      obj (objects w') mailsBucket k = obj (objects w) mailsBucket k"
  shows "mail_inv P obj w'"
proof -
  have k: "object_keys (db w') = object_keys (db w)" by (simp add: object_keys_def assms(4,5))
  have i: "mail_id ` set (mails (db w')) = mail_id ` set (mails (db w))"
    using assms(3) by (metis list.set_map)
  have "mail_tables_ok P (draws w) (db w')"
    using mail_invD(1) [OF assms(1)] unfolding mail_tables_ok_def k i assms(3,5) .
  then show ?thesis
    using tables_mono [OF _ assms(2)] mail_invD(2) [OF assms(1)] assms(6)
    by (simp add: mail_inv_def k)
qed

text \<open>Deletions: the rows of some mails go with their attachments, and only their objects.\<close>

definition remaining :: "(mail_row \<Rightarrow> bool) \<Rightarrow> db \<Rightarrow> mailAttachment list" where
  "remaining p d =
     delete_where (\<lambda>a. att_mailId a \<in> mail_id ` {m \<in> set (mails d). p m}) (mailAttachments d)"

lemma mailAttachments_delete_mails [simp]: "mailAttachments (delete_mails p d) = remaining p d"
proof -
  have "set (map mail_id (filter p (mails d))) = mail_id ` {m \<in> set (mails d). p m}" by auto
  then show ?thesis by (simp add: delete_mails_def remaining_def Let_def)
qed

definition keys_of_gone :: "(mail_row \<Rightarrow> bool) \<Rightarrow> db \<Rightarrow> string list" where
  "keys_of_gone p d = concat (map (mail_keys d) (filter p (mails d)))"

lemma keys_of_gone_iff:
  "k \<in> set (keys_of_gone p d) \<longleftrightarrow> (\<exists>m \<in> set (mails d). p m \<and> (k = mail_storageKey m \<or>
     (\<exists>a \<in> set (mailAttachments d). att_mailId a = mail_id m \<and> k = att_storageKey a)))"
  by (auto simp: keys_of_gone_def mail_keys_def attachments_of_def)

lemma key_remains:
  assumes "mail_tables_ok P n d"
    and "k \<in> set (map mail_storageKey (delete_where p (mails d)) @ map att_storageKey (remaining p d))"
  shows "k \<in> set (object_keys d)" "k \<notin> set (keys_of_gone p d)"
proof -
  from assms(2) consider (mail) m where "m \<in> set (mails d)" "\<not> p m" "k = mail_storageKey m"
    | (att) a where "a \<in> set (mailAttachments d)" "k = att_storageKey a"
        "att_mailId a \<notin> mail_id ` {m \<in> set (mails d). p m}"
    by (auto simp: remaining_def tbl)
  then have "k \<in> set (object_keys d) \<and> k \<notin> set (keys_of_gone p d)"
  proof cases
    case mail
    then show ?thesis
      unfolding keys_of_gone_iff object_keys_def
      using tables_keys(1,3) [OF assms(1)] by auto
  next
    case att
    have "k \<notin> set (keys_of_gone p d)"
    proof
      assume "k \<in> set (keys_of_gone p d)"
      then obtain m where m: "m \<in> set (mails d)" "p m" "k = mail_storageKey m \<or>
          (\<exists>a' \<in> set (mailAttachments d). att_mailId a' = mail_id m \<and> k = att_storageKey a')"
        unfolding keys_of_gone_iff by blast
      then have "att_mailId a = mail_id m"
        using tables_keys(2,3) [OF assms(1)] att(1,2) by metis
      then show False using att(3) m(1,2) by blast
    qed
    then show ?thesis using att(1,2) by (simp add: object_keys_def)
  qed
  then show "k \<in> set (object_keys d)" "k \<notin> set (keys_of_gone p d)" by simp_all
qed

lemma tables_delete:
  assumes "mail_tables_ok P n d" "mails d' = delete_where p (mails d)"
    "mailAttachments d' = remaining p d"
  shows "mail_tables_ok P n d'"
proof -
  have "distinct (object_keys d')"
    using assms(1) unfolding mail_tables_ok_def object_keys_def assms(2,3) remaining_def delete_where_def
    by (auto simp: distinct_map_filter)
  moreover have "set (object_keys d') \<subseteq> set (object_keys d)"
    using key_remains(1) [OF assms(1), of _ p] unfolding object_keys_def assms(2,3) by blast
  moreover have "distinct (map mail_id (mails d'))" "distinct (map att_id (mailAttachments d'))"
    using assms(1) unfolding mail_tables_ok_def assms(2,3) remaining_def delete_where_def
    by (simp_all add: distinct_map_filter)
  moreover have "att_mailId ` set (mailAttachments d') \<subseteq> mail_id ` set (mails d')"
  proof
    fix i assume "i \<in> att_mailId ` set (mailAttachments d')"
    then have "i \<in> att_mailId ` set (mailAttachments d)" "i \<notin> mail_id ` {m \<in> set (mails d). p m}"
      by (auto simp: assms(3) remaining_def tbl)
    moreover from this have "i \<in> mail_id ` set (mails d)"
      using assms(1) by (auto simp: mail_tables_ok_def)
    ultimately show "i \<in> mail_id ` set (mails d')" by (auto simp: assms(2) tbl)
  qed
  moreover have "mail_id ` set (mails d') \<subseteq> mail_id ` set (mails d)"
    "att_id ` set (mailAttachments d') \<subseteq> att_id ` set (mailAttachments d)"
    by (intro image_mono, auto simp: assms(2,3) remaining_def tbl)+
  ultimately show ?thesis
    using assms(1) unfolding mail_tables_ok_def by (intro conjI) (meson subset_trans)+
qed

lemma mail_inv_delete:
  assumes "mail_inv P obj w" "draws w \<le> draws w'"
    and "mails (db w') = delete_where p (mails (db w))"
    and "mailAttachments (db w') = remaining p (db w)"
    and "\<And>k. k \<notin> set (keys_of_gone p (db w)) \<Longrightarrow>
      obj (objects w') mailsBucket k = obj (objects w) mailsBucket k"
  shows "mail_inv P obj w'"
proof -
  have t: "mail_tables_ok P (draws w) (db w)" by (rule mail_invD(1) [OF assms(1)])
  have "obj (objects w') mailsBucket k \<noteq> None" if "k \<in> set (object_keys (db w'))" for k
    using key_remains [OF t, of k p] that assms(5) [of k] mail_invD(2) [OF assms(1), of k]
    by (simp add: object_keys_def assms(3,4))
  then show ?thesis
    using tables_mono [OF tables_delete [OF t assms(3,4)] assms(2)] by (simp add: mail_inv_def)
qed

text \<open>A new mail: fresh ids, fresh keys, an object behind each.\<close>

lemma tables_store:
  assumes U: "uuid_ok P" and t: "mail_tables_ok P n0 d" and n: "n0 \<le> draws w" "db w = d"
    and ks: "distinct ks" "set ks \<subseteq> att_key P ` {n0..<draws w}" "length ks = length (mi_attachments input)"
  shows "mail_tables_ok P (draws w + 5 + length ks) (stored_db P u input ks w)"
    and "set (object_keys (stored_db P u input ks w)) =
      insert (mail_key P (draws w)) (set ks) \<union> set (object_keys d)"
proof -
  let ?m = "draws w" and ?d = "stored_db P u input ks w"
  let ?rows = "attachment_rows P (uuid P (?m + 4)) (?m + 5) (zip ks (mi_attachments input))"
  have r: "map att_id ?rows = map (uuid P) [?m + 5..<?m + 5 + length ks]" "map att_storageKey ?rows = ks"
    "set (map att_mailId ?rows) \<subseteq> {uuid P (?m + 4)}"
    unfolding attachment_rows_maps using ks(3) by auto
  have i: "att_id ` set ?rows = uuid P ` {?m + 5..<?m + 5 + length ks}"
    "att_storageKey ` set ?rows = set ks" "att_mailId ` set ?rows \<subseteq> {uuid P (?m + 4)}"
    using arg_cong [OF r(1), of set] arg_cong [OF r(2), of set] r(3) by simp_all
  have tabs: "mails ?d = mails d @ [stored_row P u input w]"
    "mailAttachments ?d = mailAttachments d @ ?rows"
    by (simp_all add: stored_db_def n(2))
  have keys: "object_keys ?d = map mail_storageKey (mails d) @ [mail_key P ?m] @
      map att_storageKey (mailAttachments d) @ ks"
    by (simp add: object_keys_def tabs r(2))
  then show k: "set (object_keys ?d) = insert (mail_key P ?m) (set ks) \<union> set (object_keys d)"
    by (auto simp: object_keys_def)
  have old: "k \<notin> set (object_keys d)" if "k \<in> insert (mail_key P ?m) (set ks)" for k
  proof
    assume "k \<in> set (object_keys d)"
    then have "k \<in> keys_drawn P 0 n0" using t by (auto simp: mail_tables_ok_def)
    moreover have "k = mail_key P ?m \<or> (\<exists>i \<ge> n0. k = att_key P i)" using that ks(2) by fastforce
    ultimately show False using n(1) by (auto simp: keys_drawn_iff [OF U])
  qed
  have new: "mail_key P ?m \<notin> set ks" using ks(2) mail_key_att_key [OF U] by blast
  have "distinct (object_keys d)" using t by (simp add: mail_tables_ok_def)
  then have dk: "distinct (object_keys ?d)"
    unfolding keys using old new ks(1) by (auto simp: object_keys_def)
  have fresh: "uuid P j \<noteq> uuid P i" if "i < n0" "?m \<le> j" for i j
    using that n(1) uuid_inj [OF U] by auto
  have dm: "distinct (map mail_id (mails ?d))"
  proof -
    have "uuid P (?m + 4) \<notin> uuid P ` {..<n0}" using fresh [of _ "?m + 4"] by fastforce
    then have "uuid P (?m + 4) \<notin> mail_id ` set (mails d)" using t unfolding mail_tables_ok_def by blast
    then show ?thesis using t by (simp add: tabs mail_tables_ok_def)
  qed
  have da: "distinct (map att_id (mailAttachments ?d))"
  proof -
    have "distinct (map (uuid P) [?m + 5..<?m + 5 + length ks])"
      by (simp add: distinct_map inj_on_def uuid_inj [OF U])
    moreover have "uuid P ` {..<n0} \<inter> uuid P ` {?m + 5..<?m + 5 + length ks} = {}"
      using fresh by (auto simp: image_iff) (metis add_leD1)
    then have "att_id ` set (mailAttachments d) \<inter> uuid P ` {?m + 5..<?m + 5 + length ks} = {}"
      using t unfolding mail_tables_ok_def by blast
    ultimately show ?thesis
      using t unfolding tabs map_append r(1) distinct_append by (simp add: mail_tables_ok_def)
  qed
  have t': "mail_tables_ok P (?m + 5 + length ks) d" by (rule tables_mono [OF t]) (use n(1) in simp)
  have sm: "mail_id ` set (mails ?d) \<subseteq> uuid P ` {..<?m + 5 + length ks}"
    using t' by (simp add: mail_tables_ok_def tabs)
  have sa: "att_id ` set (mailAttachments ?d) \<subseteq> uuid P ` {..<?m + 5 + length ks}"
    using t' unfolding tabs set_append image_Un i(1) by (auto simp: mail_tables_ok_def)
  have so: "att_mailId ` set (mailAttachments ?d) \<subseteq> mail_id ` set (mails ?d)"
    using t' i(3) unfolding tabs set_append image_Un by (auto simp: mail_tables_ok_def)
  have sk: "set (object_keys ?d) \<subseteq> keys_drawn P 0 (?m + 5 + length ks)"
    using t' ks(2) unfolding k mail_tables_ok_def
    by (auto simp: keys_drawn_iff [OF U] dest!: subsetD [OF ks(2)])
  show "mail_tables_ok P (?m + 5 + length ks) ?d"
    unfolding mail_tables_ok_def using dk dm da sm sa so sk by simp
qed

section \<open>The cases of an incoming mail\<close>

definition incoming_input ::
    "parsed_mail \<Rightarrow> incoming_mail \<Rightarrow> string \<Rightarrow> attachment_input list \<Rightarrow> mail_input" where
  "incoming_input parsed dto addr as =
     \<lparr>mi_from = display_from parsed dto, mi_to = addr,
      mi_subject = or_text (pm_subject parsed) (or_text (in_subject dto) ''(No subject)''),
      mi_content = mail_content parsed, mi_attachments = as\<rparr>"

lemma incoming_input_simps [simp]:
  "mi_content (incoming_input parsed dto addr as) = mail_content parsed"
  "mi_attachments (incoming_input parsed dto addr as) = as"
  by (simp_all add: incoming_input_def)

lemmas incoming_input_attachments = incoming_input_simps(2)

definition sender_blocked :: "db \<Rightarrow> user \<Rightarrow> parsed_mail \<Rightarrow> incoming_mail \<Rightarrow> bool" where
  "sender_blocked d u parsed dto \<longleftrightarrow>
     (\<exists>b \<in> set (blockedSenders d). blocked_userId b = user_id u \<and>
        blocked_email b \<in> set (sender_emails parsed dto))"

lemma deliverIncoming_cases:
  assumes "deliverIncoming P parsed dto addr u w = (r, w')"
    and "prepareAttachments P (pm_attachments parsed) w = (as, w1)"
  obtains (blocked) "sender_blocked (db w) u parsed dto" "r = Inr (Ignored ''Sender is blocked'', [])" "w' = w"
  | (bad_env) e where "getMailQuotaLimitForUsername P (user_username u) = Inl e" "r = Inl e" "w' = w1"
  | (full) quota where "getMailQuotaLimitForUsername P (user_username u) = Inr quota"
      "quota < getUserMailStorageUsed (db w) (user_id u) + incoming_size P (mail_content parsed) as"
      "r = Inr (Ignored ''Mailbox quota exceeded'', [])" "w' = w1"
  | (failed) e where "storeMailboxMailForUser P u (incoming_input parsed dto addr as) w1 = (Inl e, w')"
      "r = Inl e"
  | (stored) quota row where "\<not> sender_blocked (db w) u parsed dto"
      "getMailQuotaLimitForUsername P (user_username u) = Inr quota"
      "getUserMailStorageUsed (db w) (user_id u) + incoming_size P (mail_content parsed) as \<le> quota"
      "storeMailboxMailForUser P u (incoming_input parsed dto addr as) w1 = (Inr row, w')"
      "r = Inr (Stored (mail_id row),
        [(user_id u, mail_event_of ''mail.created'' [mail_id row] ''external'')])"
proof -
  have w1: "db w1 = db w" using prepareAttachments_draws [OF assms(2)] by simp
  have run: "deliverIncoming P parsed dto addr u w =
     (if sender_blocked (db w) u parsed dto then (Inr (Ignored ''Sender is blocked'', []), w)
      else case getMailQuotaLimitForUsername P (user_username u) of
          Inl e \<Rightarrow> (Inl e, w1)
        | Inr quota \<Rightarrow>
            if getUserMailStorageUsed (db w) (user_id u) + incoming_size P (mail_content parsed) as > quota
            then (Inr (Ignored ''Mailbox quota exceeded'', []), w1)
            else (case storeMailboxMailForUser P u (incoming_input parsed dto addr as) w1 of
                (Inl e, w2) \<Rightarrow> (Inl e, w2)
              | (Inr row, w2) \<Rightarrow> (Inr (Stored (mail_id row),
                  [(user_id u, mail_event_of ''mail.created'' [mail_id row] ''external'')]), w2)))"
    unfolding deliverIncoming_def assms(2) Let_def incoming_input_def sender_blocked_def list_ex_iff
      prod.case w1 ..
  show thesis
  proof (cases "sender_blocked (db w) u parsed dto")
    case True
    then show thesis using run assms(1) blocked by simp
  next
    case False
    show thesis
    proof (cases "getMailQuotaLimitForUsername P (user_username u)")
      case (Inl e)
      then show thesis using run assms(1) False bad_env by simp
    next
      case (Inr quota)
      obtain r2 w2 where s: "storeMailboxMailForUser P u (incoming_input parsed dto addr as) w1 = (r2, w2)"
        by fastforce
      then show thesis using run assms(1) False Inr full [OF Inr] failed stored [OF False Inr]
        by (cases r2) (auto split: if_splits simp: not_less)
    qed
  qed
qed

context object_store
begin

lemma storeMail_inv:
  assumes P: "store P = S" "uuid_ok P" and inv: "mail_tables_ok P n0 (db w)" "n0 \<le> draws w"
      "\<forall>k \<in> set (object_keys (db w)). obj (objects w) mailsBucket k \<noteq> None"
    and ks: "map ai_storageKey (mi_attachments input) = map Some ks" "distinct ks"
      "set ks \<subseteq> att_key P ` {n0..<draws w}"
    and run: "storeMailboxMailForUser P u input w = (r, w')"
  shows "mail_inv P obj w'"
proof -
  let ?new = "insert (mail_key P (draws w)) (set ks)"
  have "\<exists>i. k = att_key P i" if "k \<in> set ks" for k using ks(3) that by blast
  then have g: "[] \<notin> set ks" "distinct (mail_key P (draws w) # ks)"
    using ks(2) mail_key_att_key [OF P(2)] att_key_nonempty by (metis, metis distinct.simps(2))
  have l: "length ks = length (mi_attachments input)" using arg_cong [OF ks(1), of length] by simp
  have old: "k \<notin> ?new" if "k \<in> set (object_keys (db w))" for k
  proof -
    have "k \<in> keys_drawn P 0 n0" using that inv(1) by (auto simp: mail_tables_ok_def)
    then show ?thesis using inv(2) ks(3) by (auto simp: keys_drawn_iff [OF P(2)] dest!: subsetD [OF ks(3)])
  qed
  from P(1) ks(1) g(1,2) run show ?thesis
  proof (cases rule: storeMail_cases)
    case (refused st)
    have "obj st mailsBucket k \<noteq> None" if "k \<in> set (object_keys (db w))" for k
      using refused(3) [of mailsBucket k] old [OF that] inv(3) that by simp
    then show ?thesis using refused(2) inv(2) tables_mono [OF inv(1), of "draws w + 3"]
      by (simp add: mail_inv_def)
  next
    case (stored st)
    have keys: "set (object_keys (db w')) = ?new \<union> set (object_keys (db w))"
      using tables_store(2) [OF P(2) inv(1,2) refl ks(2,3) l] stored(2) by simp
    have "obj st mailsBucket k \<noteq> None" if "k \<in> set ks" for k
    proof -
      obtain i where i: "i < length ks" "ks ! i = k" using \<open>k \<in> set ks\<close> by (auto simp: in_set_conv_nth)
      then have "(k, mi_attachments input ! i) \<in> set (zip ks (mi_attachments input))"
        using l by (auto simp: in_set_zip)
      then show ?thesis using stored(3) by (auto simp: sealed_def Let_def)
    qed
    moreover have "obj st mailsBucket (mail_key P (draws w)) \<noteq> None"
      using stored(3) by (simp add: sealed_def Let_def)
    moreover have "obj st mailsBucket k \<noteq> None" if "k \<in> set (object_keys (db w))" for k
      using stored(4) [of mailsBucket k] old [OF that] inv(3) that by simp
    ultimately have "\<forall>k \<in> set (object_keys (db w')). obj (objects w') mailsBucket k \<noteq> None"
      unfolding keys using stored(2) by auto
    moreover have "mail_tables_ok P (draws w') (db w')"
      using tables_store(1) [OF P(2) inv(1,2) refl ks(2,3) l] stored(2) by simp
    ultimately show ?thesis by (simp add: mail_inv_def)
  qed
qed

lemma createInternal_inv:
  assumes P: "store P = S" "uuid_ok P" and inv: "mail_inv P obj w"
    and run: "createInternalInboxMail P u sender subject body w = (r, w')"
  shows "mail_inv P obj w'"
proof -
  obtain r1 w1 where s: "storeMailboxMailForUser P u
      \<lparr>mi_from = sender, mi_to = user_username u @ ''@redbox.cx'', mi_subject = subject,
       mi_content = body, mi_attachments = []\<rparr> w = (r1, w1)" by fastforce
  have "mail_inv P obj w1"
    by (rule storeMail_inv [OF P mail_invD(1) [OF inv] le_refl _ _ _ _ s, of "[]"])
      (use mail_invD(2) [OF inv] in auto)
  then show ?thesis using run s by (auto simp: createInternalInboxMail_def split: sum.splits)
qed

lemma deliverIncoming_inv:
  assumes P: "store P = S" "uuid_ok P" and inv: "mail_inv P obj w"
    and run: "deliverIncoming P parsed dto addr u w = (r, w')"
  shows "mail_inv P obj w'"
proof -
  obtain as w1 where p: "prepareAttachments P (pm_attachments parsed) w = (as, w1)" by fastforce
  let ?ks = "map (att_key P) [draws w..<draws w + length (pm_attachments parsed)]"
  from prepareAttachments_draws [OF p] have w1: "w1 = w\<lparr>draws := draws w + length (pm_attachments parsed)\<rparr>"
    and k: "map ai_storageKey as = map Some ?ks" by simp_all
  have dk: "distinct ?ks" by (simp add: distinct_map inj_on_def att_key_inj [OF P(2)])
  have sk: "set ?ks \<subseteq> att_key P ` {draws w..<draws w1}" using w1 by simp
  have inv1: "mail_inv P obj w1" by (rule mail_inv_keep [OF inv]) (simp_all add: w1)
  have st: "mail_inv P obj w2" if "mi_attachments input = as"
    "storeMailboxMailForUser P u input w1 = (r2, w2)" for input r2 w2
    by (rule storeMail_inv [OF P, of "draws w", OF _ _ _ _ dk sk that(2)])
      (use mail_invD [OF inv] that(1) k w1 in auto)
  from run p show ?thesis
    by (cases rule: deliverIncoming_cases) (use inv inv1 st [OF incoming_input_attachments] in auto)
qed

end

section \<open>Steps\<close>

text \<open>Every call of the service, the deletion of an account by the hourly job and by an administrator,
  and everything else that happens to the world without touching the mailbox tables or the objects
  behind them.\<close>

inductive mail_step ::
    "('r, 's) platform \<Rightarrow> ('s \<Rightarrow> string \<Rightarrow> string \<Rightarrow> bytes option) \<Rightarrow>
     ('r, 's) world \<Rightarrow> ('r, 's) world \<Rightarrow> bool"
  for P :: "('r, 's) platform" and obj :: "'s \<Rightarrow> string \<Rightarrow> string \<Rightarrow> bytes option" where
  incoming: "processIncomingMail P parsed dto w = (r, w') \<Longrightarrow> mail_step P obj w w'"
| internal: "createInternalInboxMail P u sender subject body w = (r, w') \<Longrightarrow> mail_step P obj w w'"
| remove: "deleteMailRecordById P mailId b ev reason w = (r, w') \<Longrightarrow> mail_step P obj w w'"
| delete: "deleteMail P uid mailId w = (r, w') \<Longrightarrow> mail_step P obj w w'"
| move: "moveMail uid mailId folder w = (r, w') \<Longrightarrow> mail_step P obj w w'"
| mark: "setReadStatus uid mailId b w = (r, w') \<Longrightarrow> mail_step P obj w w'"
| bulk_move: "bulkMoveMails uid ids folder w = (r, w') \<Longrightarrow> mail_step P obj w w'"
| bulk_archive: "bulkArchiveMails uid ids w = (r, w') \<Longrightarrow> mail_step P obj w w'"
| bulk_mark: "bulkSetReadStatus uid ids b w = (r, w') \<Longrightarrow> mail_step P obj w w'"
| bulk_delete: "bulkDeleteMails P uid ids w = (r, w') \<Longrightarrow> mail_step P obj w w'"
| read_one: "getSingleMail P uid mailId w = (r, w') \<Longrightarrow> mail_step P obj w w'"
| download: "downloadAttachment P uid mailId attId w = (r, w') \<Longrightarrow> mail_step P obj w w'"
| block: "blockSender P uid addr w = (r, w') \<Longrightarrow> mail_step P obj w w'"
| unblock: "unblockSender uid addr w = (r, w') \<Longrightarrow> mail_step P obj w w'"
| bulk_unblock: "bulkUnblockSenders uid addrs w = (r, w') \<Longrightarrow> mail_step P obj w w'"
| account_deleted: "deleteUserDataAndMarkDeleted P uid opts w = (Inr (), w') \<Longrightarrow> mail_step P obj w w'"
| account_removed: "admin_deleteUserDataAndMarkDeleted P uid opts w = (Inr (), w') \<Longrightarrow> mail_step P obj w w'"
| account_cleared: "clearUserData P adminId uid why w = (r, w') \<Longrightarrow> mail_step P obj w w'"
| outside: "mails (db w') = mails (db w) \<Longrightarrow> mailAttachments (db w') = mailAttachments (db w) \<Longrightarrow>
    draws w \<le> draws w' \<Longrightarrow>
    (\<And>k. k \<in> set (object_keys (db w)) \<Longrightarrow>
      obj (objects w') mailsBucket k = obj (objects w) mailsBucket k) \<Longrightarrow> mail_step P obj w w'"

definition mail_init :: "('r, 's) world \<Rightarrow> bool" where
  "mail_init w \<longleftrightarrow> mails (db w) = [] \<and> mailAttachments (db w) = []"

lemma mail_init_inv: "mail_init w \<Longrightarrow> mail_inv P obj w"
  by (simp add: mail_init_def mail_inv_def mail_tables_ok_def object_keys_def)

end
