(* ===== verification/Mail_Invariant.thy ===== *)
theory Mail_Invariant
  imports Mail_Steps Account_Properties
begin

text \<open>
  Every step keeps the invariant of the mailbox; the instance of the locale of systems with an
  invariant.
\<close>

section \<open>Steps that keep the keys\<close>

definition same_keys :: "('s \<Rightarrow> string \<Rightarrow> string \<Rightarrow> bytes option) \<Rightarrow> ('r, 's) world \<Rightarrow> ('r, 's) world \<Rightarrow> bool" where
  "same_keys obj w w' \<longleftrightarrow> draws w \<le> draws w' \<and>
     map mail_id (mails (db w')) = map mail_id (mails (db w)) \<and>
     map mail_storageKey (mails (db w')) = map mail_storageKey (mails (db w)) \<and>
     mailAttachments (db w') = mailAttachments (db w) \<and>
     obj (objects w') = obj (objects w)"

lemma same_keys_inv: "same_keys obj w w' \<Longrightarrow> mail_inv P obj w \<Longrightarrow> mail_inv P obj w'"
  unfolding same_keys_def by (rule mail_inv_keep) auto

lemma same_keys_refl [simp]: "same_keys obj w w"
  by (simp add: same_keys_def)

lemma same_keys_trans: "same_keys obj w w1 \<Longrightarrow> same_keys obj w1 w2 \<Longrightarrow> same_keys obj w w2"
  by (simp add: same_keys_def)

text \<open>Changes of rows that touch neither ids nor keys.\<close>

definition harmless :: "(mail_row \<Rightarrow> mail_row) \<Rightarrow> bool" where
  "harmless f \<longleftrightarrow> (\<forall>m. mail_id (f m) = mail_id m \<and> mail_storageKey (f m) = mail_storageKey m)"

lemma harmless_updates [simp]:
  "harmless (place_in folder)" "harmless (\<lambda>m. m\<lparr>mail_isRead := b\<rparr>)" "harmless (\<lambda>m. m\<lparr>mail_isArchived := b\<rparr>)"
  by (simp_all add: harmless_def place_in_def)

lemma same_keys_update:
  assumes "harmless f"
  shows "same_keys obj w (w\<lparr>db := (db w)\<lparr>mails := update_where p f (mails (db w))\<rparr>\<rparr>)"
  using assms by (simp add: same_keys_def map_update_where harmless_def)

lemma same_keys_set_mail:
  "harmless f \<Longrightarrow> same_keys obj w (w\<lparr>db := set_mail i f (db w)\<rparr>)"
  unfolding set_mail_def by (rule same_keys_update)

lemma same_keys_update_selected:
  "harmless f \<Longrightarrow> same_keys obj w (snd (update_selected uid ids f w))"
  unfolding update_selected_def by (simp add: same_keys_update)

lemma move_keys: "same_keys obj w (snd (moveMail uid i folder w))"
  by (simp add: moveMail_def same_keys_set_mail split: option.split)

lemma mark_keys: "same_keys obj w (snd (setReadStatus uid i b w))"
  by (simp add: setReadStatus_def same_keys_set_mail split: option.split)

lemma bulk_keys:
  "same_keys obj w (snd (bulkMoveMails uid ids folder w))"
  "same_keys obj w (snd (bulkArchiveMails uid ids w))"
  "same_keys obj w (snd (bulkSetReadStatus uid ids b w))"
  using same_keys_update_selected [of _ obj w uid ids]
  by (simp_all add: bulkMoveMails_def bulkArchiveMails_def bulkSetReadStatus_def split: prod.split)
    (metis harmless_updates snd_conv)+

lemma block_keys: "same_keys obj w (snd (blockSender P uid a w))"
  by (simp add: blockSender_def randomUUID_def same_keys_def Let_def)

lemma unblock_keys:
  "same_keys obj w (snd (unblockSender uid a w))" "same_keys obj w (snd (bulkUnblockSenders uid as w))"
  by (simp_all add: unblockSender_def bulkUnblockSenders_def unblock_where_def same_keys_def Let_def)

context object_store
begin

lemma read_keys:
  assumes "store P = S" "getSingleMail P uid mailId w = (r, w')"
  shows "same_keys obj w w'"
proof -
  have d: "same_keys obj w w1" if "decryptStored P k iv key w = (r1, w1)" for k iv key r1 w1
    using decryptStored_cases [OF assms(1) that] by (auto simp: same_keys_def)
  have m: "same_keys obj w w2" if "same_keys obj w w1" "markReadOnOpen uid m w1 = (ev, w2)" for m w1 ev w2
    using that same_keys_trans [OF that(1) same_keys_set_mail [of "\<lambda>x. x\<lparr>mail_isRead := True\<rparr>"]]
    by (auto simp: markReadOnOpen_def split: if_splits)
  show ?thesis
    using assms(2) d m
    by (fastforce simp: getSingleMail_def Let_def split: option.splits sum.splits prod.splits if_splits)
qed

lemma download_keys:
  assumes "store P = S" "downloadAttachment P uid mailId attId w = (r, w')"
  shows "same_keys obj w w'"
proof -
  have d: "same_keys obj w w1" if "downloadStorageObjectByKey P key w = (r1, w1)" for key r1 w1
    using download_cases [OF assms(1) that] by (auto simp: same_keys_def)
  have o: "same_keys obj w w1" if "download_own P user m a w = (r1, w1)" for user m a r1 w1
    using that d by (auto simp: download_own_def split: sum.splits prod.splits option.splits)
  have s: "same_keys obj w w1" if "download_shared P a w = (r1, w1)" for a r1 w1
    using that d by (auto simp: download_shared_def split: sum.splits prod.splits)
  show ?thesis
    using assms(2) o s
    by (auto simp: downloadAttachment_def Let_def split: option.splits if_splits)
qed

section \<open>Deletions\<close>

lemma delete_objects_other:
  assumes "store P = S" "k \<notin> set keys"
  shows "obj (objects (delete_mail_objects P keys w)) b k = obj (objects w) b k"
  using delete_all_other [OF assms(1), of b mailsBucket k keys] assms(2)
  by (simp add: delete_mail_objects_def)

lemma delete_s3_other:
  assumes "store P = S" "b' \<noteq> b \<or> k \<notin> set keys"
  shows "obj (objects (deleteS3Objects P b keys w)) b' k = obj (objects w) b' k"
  using delete_all_other [OF assms(1), of b' b k "filter (\<lambda>k. k \<noteq> []) keys"] assms(2)
  by (auto simp: deleteS3Objects_def)

lemma delete_mail_objects_frame [simp]:
  "db (delete_mail_objects P keys w) = db w" "draws (delete_mail_objects P keys w) = draws w"
  by (simp_all add: delete_mail_objects_def)

text \<open>The rows selected by \<open>p\<close> go, after their objects and nothing else behind the keys.\<close>

lemma purge_inv:
  assumes "mail_inv P obj w" "draws w \<le> draws w'" "mails (db w') = mails (delete_mails p (db w))"
    and "mailAttachments (db w') = mailAttachments (delete_mails p (db w))"
    and "\<And>k. k \<notin> set (keys_of_gone p (db w)) \<Longrightarrow>
      obj (objects w') mailsBucket k = obj (objects w) mailsBucket k"
  shows "mail_inv P obj w'"
  using mail_inv_delete [OF assms(1,2), of p] assms(3-5) by simp

lemma remove_inv:
  assumes "store P = S" "mail_inv P obj w" "deleteMailRecordById P i b ev why w = (r, w')"
  shows "mail_inv P obj w'"
proof (cases "mail_of (db w) i")
  case None
  then show ?thesis using assms by (simp add: deleteMailRecordById_def)
next
  case (Some m)
  then have m: "m \<in> set (mails (db w))" "mail_id m = i" by (auto simp: mail_of_def dest: find_Some_mem)
  then have "m \<in> set (filter (\<lambda>x. mail_id x = i) (mails (db w)))" by simp
  then have k: "set (mail_keys (db w) m) \<subseteq> set (keys_of_gone (\<lambda>x. mail_id x = i) (db w))"
    unfolding keys_of_gone_def by auto
  have w': "w' = (delete_mail_objects P (mail_keys (db w) m) w)
      \<lparr>db := delete_mails (\<lambda>x. mail_id x = i) (db w)\<rparr>"
    using assms(3) Some by (auto simp: deleteMailRecordById_def Let_def)
  show ?thesis
  proof (rule purge_inv [OF assms(2)])
    fix x assume "x \<notin> set (keys_of_gone (\<lambda>x. mail_id x = i) (db w))"
    then have "x \<notin> set (mail_keys (db w) m)" using k by blast
    then show "obj (objects w') mailsBucket x = obj (objects w) mailsBucket x"
      unfolding w' by (simp add: delete_objects_other [OF assms(1)])
  qed (simp_all add: w')
qed

lemma delete_inv:
  assumes "store P = S" "mail_inv P obj w" "deleteMail P uid i w = (r, w')"
  shows "mail_inv P obj w'"
  using assms remove_inv [OF assms(1,2)] by (auto simp: deleteMail_def split: option.splits)

lemma bulk_delete_inv:
  assumes "store P = S" "mail_inv P obj w"
  shows "mail_inv P obj (snd (bulkDeleteMails P uid ids w))"
proof (rule purge_inv [OF assms(2)])
  show "obj (objects (snd (bulkDeleteMails P uid ids w))) mailsBucket x = obj (objects w) mailsBucket x"
    if "x \<notin> set (keys_of_gone (selected uid ids) (db w))" for x
    using that delete_objects_other [OF assms(1)]
    by (simp add: bulkDeleteMails_def keys_of_gone_def Let_def)
qed (simp_all add: bulkDeleteMails_def Let_def)

lemma account_keys:
  "mailStorageKeysOf d uid = keys_of_gone (\<lambda>m. mail_userId m = uid) d"
  by (simp add: mailStorageKeysOf_def keys_of_gone_def mail_keys_def [abs_def] attachments_of_def)

lemma account_objects_other:
  assumes "store P = S" "k \<notin> set (keys_of_gone (\<lambda>m. mail_userId m = uid) (db w))"
  shows "obj (objects (deleteS3Objects P mailsBucket (mailStorageKeysOf (db w) uid)
      (deleteS3Objects P filesBucket names w))) mailsBucket k = obj (objects w) mailsBucket k"
proof -
  have "mailsBucket \<noteq> filesBucket" by (simp add: mailsBucket_def filesBucket_def)
  then show ?thesis
    using assms(2) by (simp add: delete_s3_other [OF assms(1)] account_keys)
qed

lemma aborts_keep:
  assumes "store P = S"
  shows "obj (objects (snd (abortRedisBackedUploads P ks w))) = obj (objects w)"
proof (induction ks arbitrary: w)
  case (Cons k ks)
  have "obj (objects (snd (abortRedisBackedUploads P ks (w\<lparr>objects := st\<rparr>)))) = obj (objects w)"
    if "st = snd (s3_abort (store P) ''S3_BUCKET_FILES'' key (Some i) (objects w))" for key i st
    using Cons [of "w\<lparr>objects := st\<rparr>"] abort_keeps [OF surjective_pairing] that
    by (simp add: assms)
  then show ?case using Cons [of w]
    by (auto simp: Let_def split_beta split: option.split)
qed simp

lemma redis_del_all_objects: "objects (redis_del_all P ks w) = objects w"
  by (induction ks arbitrary: w) simp_all

lemma cleared_redis_objects:
  "store P = S \<Longrightarrow> obj (objects (cleared_redis P uid w)) = obj (objects w)"
  using aborts_keep [of P _ w]
  by (auto simp: cleared_redis_def clearUserRedisData_def redis_del_all_objects Let_def split_beta
      split: option.split)

end

definition account_rows_gone :: "string \<Rightarrow> db \<Rightarrow> db \<Rightarrow> bool" where
  "account_rows_gone uid d d' \<longleftrightarrow>
     mails d' = mails (delete_mails (\<lambda>m. mail_userId m = uid) d) \<and>
     mailAttachments d' = mailAttachments (delete_mails (\<lambda>m. mail_userId m = uid) d)"

context object_store
begin

lemma account_gone_inv:
  assumes "store P = S" "mail_inv P obj w" "draws w \<le> draws w'" "account_rows_gone uid (db w) (db w')"
    and "obj (objects w') = obj (objects (deleteS3Objects P mailsBucket (mailStorageKeysOf (db w) uid)
      (deleteS3Objects P filesBucket names w)))"
  shows "mail_inv P obj w'"
  using purge_inv [OF assms(2,3), of "\<lambda>m. mail_userId m = uid"] assms(4,5)
    account_objects_other [OF assms(1)]
  by (simp add: account_rows_gone_def)

end

lemma remaining_cong: "mails d = mails e \<Longrightarrow> mailAttachments d = mailAttachments e \<Longrightarrow> remaining p d = remaining p e"
  by (simp add: remaining_def)

lemma content_rows_gone: "account_rows_gone uid d (deleteContentRows uid d)"
  by (simp add: account_rows_gone_def deleteContentRows_def remaining_def)

lemma account_rows_gone_trans:
  assumes "account_rows_gone uid d d1" "mails d' = mails d1" "mailAttachments d' = mailAttachments d1"
  shows "account_rows_gone uid d d'"
  using assms by (simp add: account_rows_gone_def)

lemma account_rows_frame [simp]:
  "mails (resolveOpenRestrictions t uid d) = mails d"
  "mailAttachments (resolveOpenRestrictions t uid d) = mailAttachments d"
  "mails (deleteInviteRows uid d) = mails d" "mailAttachments (deleteInviteRows uid d) = mailAttachments d"
  "mails (cancelActiveDeletionRequests t uid d) = mails d"
  "mailAttachments (cancelActiveDeletionRequests t uid d) = mailAttachments d"
  "mails (markProcessed t rid d) = mails d" "mailAttachments (markProcessed t rid d) = mailAttachments d"
  "mails (admin_audit t ad uid ac p n why m d) = mails d"
  "mailAttachments (admin_audit t ad uid ac p n why m d) = mailAttachments d"
  by (simp_all add: resolveOpenRestrictions_def deleteInviteRows_def cancelActiveDeletionRequests_def
      markProcessed_def admin_audit_def)

lemma deletion_tx_rows:
  "deletion_tx t k opts uid d = Some d' \<Longrightarrow> account_rows_gone uid d d'"
  by (rule account_rows_gone_trans [OF content_rows_gone])
    (auto simp: deletion_tx_def Let_def split: option.splits if_splits)

lemma clear_records_rows: "account_rows_gone uid d (snd (clearUserContentRecords uid d))"
  by (simp add: clearUserContentRecords_def account_rows_gone_def remaining_def Let_def)

context object_store
begin

lemma account_deleted_inv:
  assumes "store P = S" "mail_inv P obj w" "deleteUserDataAndMarkDeleted P uid opts w = (Inr (), w')"
  shows "mail_inv P obj w'"
proof (rule account_gone_inv [OF assms(1,2)])
  show "account_rows_gone uid (db w) (db w')"
    using assms(3) by (auto simp: deleteUserDataAndMarkDeleted_def randomUUID_def Let_def
        split: option.splits intro: deletion_tx_rows)
qed (use assms(3) in \<open>auto simp: deleteUserDataAndMarkDeleted_def randomUUID_def Let_def split: option.splits\<close>)

lemma account_cleared_inv:
  assumes "store P = S" "mail_inv P obj w" "clearUserData P adminId uid why w = (r, w')"
  shows "mail_inv P obj w'"
proof (cases "findUserOrThrow (db w) uid")
  case (Inl e)
  then show ?thesis using assms(2,3) by (simp add: clearUserData_def)
next
  case (Inr u)
  show ?thesis
    by (rule account_gone_inv [OF assms(1,2), of _ uid])
      (use assms(3) Inr account_rows_gone_trans [OF clear_records_rows] in
        \<open>auto simp: clearUserData_def Let_def split_beta cleared_redis_objects [OF assms(1)]\<close>)
qed

lemma account_removed_inv:
  assumes "store P = S" "mail_inv P obj w" "admin_deleteUserDataAndMarkDeleted P uid opts w = (Inr (), w')"
  shows "mail_inv P obj w'"
  by (rule account_gone_inv [OF assms(1,2), of _ uid])
    (use assms(3) account_rows_gone_trans [OF clear_records_rows] in
      \<open>auto simp: admin_deleteUserDataAndMarkDeleted_def randomUUID_def Let_def split_beta
         cleared_redis_objects [OF assms(1)] split: option.splits if_splits\<close>)

lemma processIncoming_inv:
  assumes "store P = S" "uuid_ok P" "mail_inv P obj w" "processIncomingMail P parsed dto w = (r, w')"
  shows "mail_inv P obj w'"
  using assms(4) deliverIncoming_inv [OF assms(1-3)] assms(3)
  by (auto simp: processIncomingMail_def Let_def split: sum.splits option.splits if_splits)

lemma mail_step_inv:
  assumes "store P = S" "uuid_ok P" "mail_inv P obj w" "mail_step P obj w w'"
  shows "mail_inv P obj w'"
  using assms(4)
proof cases
  case (incoming parsed dto r)
  then show ?thesis using processIncoming_inv [OF assms(1-3)] by simp
next
  case (internal u sender subject body r)
  then show ?thesis using createInternal_inv [OF assms(1-3)] by simp
next
  case (remove mailId b ev reason r)
  then show ?thesis using remove_inv [OF assms(1,3)] by simp
next
  case (delete uid mailId r)
  then show ?thesis using delete_inv [OF assms(1,3)] by simp
next
  case (move uid mailId folder r)
  then show ?thesis using same_keys_inv [OF move_keys assms(3)] by (metis snd_conv)
next
  case (mark uid mailId b r)
  then show ?thesis using same_keys_inv [OF mark_keys assms(3)] by (metis snd_conv)
next
  case (bulk_move uid ids folder r)
  then show ?thesis using same_keys_inv [OF bulk_keys(1) assms(3)] by (metis snd_conv)
next
  case (bulk_archive uid ids r)
  then show ?thesis using same_keys_inv [OF bulk_keys(2) assms(3)] by (metis snd_conv)
next
  case (bulk_mark uid ids b r)
  then show ?thesis using same_keys_inv [OF bulk_keys(3) assms(3)] by (metis snd_conv)
next
  case (bulk_delete uid ids r)
  then show ?thesis using bulk_delete_inv [OF assms(1,3)] by (metis snd_conv)
next
  case (read_one uid mailId r)
  then show ?thesis using same_keys_inv [OF read_keys assms(3)] assms(1) by blast
next
  case (download uid mailId attId r)
  then show ?thesis using same_keys_inv [OF download_keys assms(3)] assms(1) by blast
next
  case (block uid addr r)
  then show ?thesis using same_keys_inv [OF block_keys assms(3)] by (metis snd_conv)
next
  case (unblock uid addr r)
  then show ?thesis using same_keys_inv [OF unblock_keys(1) assms(3)] by (metis snd_conv)
next
  case (bulk_unblock uid addrs r)
  then show ?thesis using same_keys_inv [OF unblock_keys(2) assms(3)] by (metis snd_conv)
next
  case (account_deleted uid opts)
  then show ?thesis using account_deleted_inv [OF assms(1,3)] by simp
next
  case (account_removed uid opts)
  then show ?thesis using account_removed_inv [OF assms(1,3)] by simp
next
  case (account_cleared adminId uid why r)
  then show ?thesis using account_cleared_inv [OF assms(1,3)] by simp
next
  case outside
  then show ?thesis using mail_inv_keep [OF assms(3)] by simp
qed

end

section \<open>The system\<close>

text \<open>The mailbox over a store that keeps the laws, as a system with an invariant.\<close>

definition mail_system ::
    "('r, 's) platform \<Rightarrow> ('s \<Rightarrow> string \<Rightarrow> string \<Rightarrow> bytes option) \<Rightarrow>
     ('r, 's) world \<Rightarrow> ('r, 's) world \<Rightarrow> bool" where
  "mail_system P obj w w' \<longleftrightarrow> object_store (store P) obj \<and> uuid_ok P \<and> mail_step P obj w w'"

interpretation mailbox: invariant_system mail_init "mail_system P obj" "mail_inv P obj"
  for P :: "('r, 's) platform" and obj
proof
  show "mail_inv P obj w" if "mail_init w" for w :: "('r, 's) world"
    using that by (rule mail_init_inv)
next
  fix w w' :: "('r, 's) world"
  assume "mail_inv P obj w" "mail_system P obj w w'"
  then show "mail_inv P obj w'"
    unfolding mail_system_def using object_store.mail_step_inv [OF _ refl] by blast
qed

end
