(* ===== verification/Mail_Sample.thy ===== *)
theory Mail_Sample
  imports Mail_Invariant
begin

text \<open>
  A run of the mailbox on a concrete platform, for the witnesses: one user whose private key is
  wrapped under the master key in Redis, and one incoming mail with one attachment.
\<close>

type_synonym mem_world = "(kv, mem) world"

definition mail_platform :: "(kv, mem) platform" where
  "mail_platform =
     \<lparr>rds = kv_api, store = mem_s3, uuid = unary,
      randomBytes = (\<lambda>i n. replicate n (word_of_nat i)), sha256 = (\<lambda>s. s),
      bcrypt_hash = (\<lambda>i pw cost. ''$2'' @ pw), bcrypt_compare = (\<lambda>pw h. h = ''$2'' @ pw),
      scrypt = (\<lambda>pw salt. map (\<lambda>c. of_char c) pw @ salt),
      aes_cbc_encrypt = (\<lambda>key iv data. key @ iv @ data),
      aes_cbc_decrypt = (\<lambda>key iv data.
        if take (length (key @ iv)) data = key @ iv then Some (drop (length (key @ iv)) data) else None),
      rsa_keyPair = (\<lambda>i. (''pub'', ''priv'')),
      rsa_encrypt = (\<lambda>i k data. data), rsa_decrypt = (\<lambda>k data. Some data),
      jwt_sign = (\<lambda>secret ttl p t. secret @ jwt_sub p @ jwt_sessionKey p),
      jwt_verify = (\<lambda>secret token t. None),
      addDays = (\<lambda>t n. t + n * 86400000), addHours = (\<lambda>t n. t + n * 3600000),
      startOfDay = (\<lambda>t. t - t mod 86400000), db_contains = sublist,
      utf8 = map of_char, utf8_text = map (\<lambda>b. char_of (unat b)), iso = unary,
      env = (\<lambda>_. None)\<rparr>"

lemma mail_platform_simps [simp]:
  "rds mail_platform = kv_api" "store mail_platform = mem_s3" "uuid mail_platform = unary"
  "randomBytes mail_platform i n = replicate n (word_of_nat i)"
  "aes_cbc_encrypt mail_platform key iv data = key @ iv @ data"
  "aes_cbc_decrypt mail_platform key iv data =
     (if take (length (key @ iv)) data = key @ iv then Some (drop (length (key @ iv)) data) else None)"
  "rsa_encrypt mail_platform i k data = data" "rsa_decrypt mail_platform k data = Some data"
  "utf8 mail_platform = map of_char" "utf8_text mail_platform = map (\<lambda>b. char_of (unat b))"
  "bcrypt_compare mail_platform pw h = (h = ''$2'' @ pw)"
  "bcrypt_hash mail_platform i pw c = ''$2'' @ pw"
  "sha256 mail_platform = (\<lambda>s. s)"
  "addDays mail_platform t n = t + n * 86400000" "addHours mail_platform t n = t + n * 3600000"
  "env mail_platform = (\<lambda>_. None)"
  by (simp_all add: mail_platform_def)

lemma mail_env [simp]:
  "getAdminForwardUsername mail_platform = Inr None" "getAdminForwardAliases mail_platform = []"
  by (simp add: getAdminForwardUsername_def optionalEnv_def)
    (simp add: getAdminForwardAliases_def optionalEnv_def, code_simp)

lemma mail_store: "object_store (store mail_platform) mem_obj"
  by (simp add: mem.object_store_axioms)

lemma mail_uuid: "uuid_ok mail_platform"
  by (simp add: uuid_ok_def fresh_uuids_def inj_unary) (simp add: unary_def)

lemma mail_cipher: "cipher_ok mail_platform"
  by (simp add: cipher_ok_def)

definition utf8_ok :: "('r, 's) platform \<Rightarrow> bool" where
  "utf8_ok P \<longleftrightarrow> (\<forall>s. utf8_text P (utf8 P s) = s)"

definition rsa_ok :: "('r, 's) platform \<Rightarrow> string \<Rightarrow> string \<Rightarrow> bool" where
  "rsa_ok P pub priv \<longleftrightarrow> (\<forall>i m. rsa_decrypt P priv (rsa_encrypt P i pub m) = Some m)"

lemma char_byte: "char_of (unat (of_char c :: 8 word)) = c"
proof -
  have "unat (of_char c :: 8 word) = unat (word_of_nat (of_char c) :: 8 word)"
    by (simp only: of_nat_of_char)
  also have "\<dots> = of_char c"
    by (simp add: unat_of_nat)
  finally show ?thesis by simp
qed

lemma mail_utf8: "utf8_ok mail_platform"
  by (simp add: utf8_ok_def comp_def char_byte)

lemma mail_rsa: "rsa_ok mail_platform pub priv"
  by (simp add: rsa_ok_def)

definition mail_user :: user where
  "mail_user = (newUserRow ''u'' ''eve'' [] [] 0 \<lparr>mk_encrypted = [], mk_iv = [], mk_salt = []\<rparr>
     \<lparr>mk_encrypted = [], mk_iv = [], mk_salt = []\<rparr> [] ''pub''
     (hex ([107, 1] @ utf8 mail_platform ''priv'')) (hex [1]))"

definition mail_w0 :: mem_world where
  "mail_w0 = \<lparr>db = empty_db\<lparr>users := [mail_user]\<rparr>,
     redis = kv_set (masterKeyKey ''u'') (Plain ''6b'') 60 kv_empty,
     objects = (\<lambda>_. None), now = 1000, draws = 1\<rparr>"

definition sample_mail :: parsed_mail where
  "sample_mail = \<lparr>pm_from = None, pm_to = [], pm_subject = ''hi'', pm_html = [], pm_textAsHtml = [],
     pm_text = ''hello'', pm_attachments =
       [\<lparr>pa_content = [7, 8], pa_filename = ''a'', pa_contentType = [], pa_size = 0\<rparr>]\<rparr>"

definition sample_envelope :: incoming_mail where
  "sample_envelope = \<lparr>in_from = ''bob@x.org'', in_to = ''eve@redbox.cx'', in_subject = []\<rparr>"

definition mail_w1 :: mem_world where
  "mail_w1 = snd (processIncomingMail mail_platform sample_mail sample_envelope mail_w0)"

lemma sample_addresses:
  "extractMailAddress (Some ''eve@redbox.cx'') = ''eve@redbox.cx''"
  "extractMailAddress (Some ''bob@x.org'') = ''bob@x.org''"
  "isFullEmailAddress ''eve@redbox.cx''"
  "extractMailAddress None = []"
  by code_simp+

lemma sample_routed:
  "processIncomingMail mail_platform sample_mail sample_envelope mail_w0 =
     deliverIncoming mail_platform sample_mail sample_envelope ''eve@redbox.cx'' mail_user mail_w0"
proof -
  have r: "resolveIncomingRecipientAddress mail_platform [None, Some ''eve@redbox.cx''] = Inr ''eve@redbox.cx''"
    by (simp add: resolveIncomingRecipientAddress_def sample_addresses Let_def)
  have u: "resolveIncomingMailboxUsername mail_platform (Some ''eve@redbox.cx'') = Inr ''eve''"
    by (simp add: resolveIncomingMailboxUsername_def sample_addresses Let_def trim_def is_space_def)
  have "user_by_name (db mail_w0) ''eve'' = Some mail_user" "user_status mail_user = ACTIVE"
    by (simp_all add: mail_w0_def user_by_name_def mail_user_def newUserRow_def)
  then show ?thesis
    by (simp add: processIncomingMail_def sample_mail_def sample_envelope_def r u Let_def)
qed

lemma mail_w0_inv: "mail_inv P obj mail_w0"
  by (rule mail_init_inv) (simp add: mail_init_def mail_w0_def empty_db_def)

lemma mail_w0_facts:
  "user_by_id (db mail_w0) ''u'' = Some mail_user" "mails (db mail_w0) = []"
  "mailAttachments (db mail_w0) = []" "internalAttachments (db mail_w0) = []"
  "blockedSenders (db mail_w0) = []" "deliveries (db mail_w0) = []"
  "draws mail_w0 = 1" "objects mail_w0 = (\<lambda>_. None)" "now mail_w0 = 1000"
  "user_id mail_user = ''u''" "user_username mail_user = ''eve''" "user_publicKey mail_user = ''pub''"
  "cachedMasterKey mail_platform ''u'' mail_w0 = Inr [107]"
  by (simp_all add: mail_w0_def user_by_id_def mail_user_def newUserRow_def empty_db_def
      cachedMasterKey_def redis_get_def)
    (code_simp)

end
