(* ===== verification/Mail_Properties.thy ===== *)
theory Mail_Properties
  imports Mail_Sample
begin

text \<open>
  What the mailbox promises: every listed mail and attachment has its object, an incoming mail is
  read back as it was sent, the gate of incoming mail, the bulk actions as iterated single actions,
  the reach of an action, the blocked senders, and the place where archiving leaves a mail in the
  spam folder.
\<close>

section \<open>Objects of the mailbox\<close>

lemma mail_reachable_inv:
  assumes "object_store (store P) obj" "uuid_ok P" "reachable mail_init (mail_step P obj) w"
  shows "mail_inv P obj w"
proof -
  have "reachable mail_init (mail_system P obj) w"
    using assms(3)
    by (induction rule: reachable.induct) (auto simp: mail_system_def assms(1,2) intro: reachable.intros)
  then show ?thesis by (rule mailbox.reachable_inv)
qed

text \<open>C18. In every state the service reaches, with the deletion of accounts and any activity of the
  other services in between, every mail and every attachment has its object in the store, no two
  share one, ids are unique and an attachment belongs to a mail that exists.\<close>

theorem mailbox_objects_present:
  assumes "object_store (store P) obj" "uuid_ok P" "reachable mail_init (mail_step P obj) w"
  shows "(\<forall>m \<in> set (mails (db w)). obj (objects w) mailsBucket (mail_storageKey m) \<noteq> None) \<and>
    (\<forall>a \<in> set (mailAttachments (db w)). obj (objects w) mailsBucket (att_storageKey a) \<noteq> None \<and>
      mail_of (db w) (att_mailId a) \<noteq> None) \<and>
    distinct (map mail_id (mails (db w))) \<and>
    distinct (map mail_storageKey (mails (db w)) @ map att_storageKey (mailAttachments (db w)))"
proof -
  have inv: "mail_inv P obj w" by (rule mail_reachable_inv [OF assms])
  note t = mail_invD(1) [OF inv]
  have "mail_of (db w) (att_mailId a) \<noteq> None" if "a \<in> set (mailAttachments (db w))" for a
  proof -
    have "att_mailId a \<in> mail_id ` set (mails (db w))"
      using t that unfolding mail_tables_ok_def by blast
    then show ?thesis by (auto simp: mail_of_def find_None_iff)
  qed
  moreover have "obj (objects w) mailsBucket k \<noteq> None" if "k \<in> set (object_keys (db w))" for k
    by (rule mail_invD(2) [OF inv that])
  ultimately show ?thesis
    using t by (simp add: mail_tables_ok_def object_keys_def)
qed

lemma mail_sample_reachable: "reachable mail_init (mail_step mail_platform mem_obj) mail_w1"
proof (rule reachable.step [OF reachable.start])
  show "mail_init mail_w0" by (simp add: mail_init_def mail_w0_facts)
  show "mail_step mail_platform mem_obj mail_w0 mail_w1"
    by (rule mail_step.incoming [of _ sample_mail sample_envelope])
      (simp add: mail_w1_def prod_eq_iff)
qed

section \<open>Usage\<close>

text \<open>A stored mail adds its size to the usage of its owner and to no other.\<close>

lemma incoming_size_stored:
  assumes "length ks = length (mi_attachments input)"
    and "\<And>a. a \<in> set (attachment_rows P i n (zip ks (mi_attachments input))) \<Longrightarrow> p a = p'"
  shows "sum_where p att_size (attachment_rows P i n (zip ks (mi_attachments input))) =
    (if p' then sum_list (map ai_size (mi_attachments input)) else 0)"
proof -
  let ?rows = "attachment_rows P i n (zip ks (mi_attachments input))"
  have "filter p ?rows = (if p' then ?rows else [])"
    using assms(2) by (auto simp: filter_empty_conv filter_id_conv)
  moreover have "map att_size ?rows = map ai_size (mi_attachments input)"
    using assms(1) by (simp add: attachment_rows_maps(4) flip: map_map)
  ultimately show ?thesis by (simp add: sum_where_def)
qed

lemma stored_usage:
  assumes t: "mail_tables_ok P n0 (db w)" and U: "uuid_ok P" and n: "n0 \<le> draws w"
    and l: "length ks = length (mi_attachments input)"
  shows "getUserMailStorageUsed (stored_db P u input ks w) uid =
    getUserMailStorageUsed (db w) uid +
    (if uid = user_id u then length (utf8 P (mi_content input)) + sum_list (map ai_size (mi_attachments input))
     else 0)"
proof -
  let ?d = "stored_db P u input ks w" and ?row = "stored_row P u input w"
  let ?rows = "attachment_rows P (uuid P (draws w + 4)) (draws w + 5) (zip ks (mi_attachments input))"
  let ?own = "\<lambda>d a. list_ex (\<lambda>m. mail_id m = att_mailId a \<and> mail_userId m = uid) (mails d)"
  have new: "mail_id m \<noteq> uuid P (draws w + 4)" if "m \<in> set (mails (db w))" for m
  proof -
    have "mail_id m \<in> uuid P ` {..<n0}" using t that unfolding mail_tables_ok_def by blast
    then show ?thesis using n uuid_inj [OF U] by auto
  qed
  have tabs: "mails ?d = mails (db w) @ [?row]" "mailAttachments ?d = mailAttachments (db w) @ ?rows"
    by (simp_all add: stored_db_def)
  have old: "?own ?d a = ?own (db w) a" if "a \<in> set (mailAttachments (db w))" for a
  proof -
    have "att_mailId a \<in> mail_id ` set (mails (db w))" using t that unfolding mail_tables_ok_def by blast
    then have "att_mailId a \<noteq> uuid P (draws w + 4)" using new by (metis imageE)
    then show ?thesis by (simp add: tabs)
  qed
  have "att_mailId a = uuid P (draws w + 4)" if "a \<in> set ?rows" for a
  proof -
    have "att_mailId a \<in> set (map att_mailId ?rows)" using that by simp
    then show ?thesis unfolding attachment_rows_maps by (auto split: if_splits)
  qed
  then have mine: "?own ?d a = (uid = user_id u)" if "a \<in> set ?rows" for a
    using that new by (simp add: tabs list_ex_iff) blast
  have "sum_where (?own ?d) att_size (mailAttachments (db w)) =
      sum_where (?own (db w)) att_size (mailAttachments (db w))"
    unfolding sum_where_def by (simp add: old cong: filter_cong)
  moreover have "sum_where (?own ?d) att_size ?rows =
      (if uid = user_id u then sum_list (map ai_size (mi_attachments input)) else 0)"
    by (rule incoming_size_stored [OF l mine])
  ultimately have "sum_where (?own ?d) att_size (mailAttachments ?d) =
      sum_where (?own (db w)) att_size (mailAttachments (db w)) +
      (if uid = user_id u then sum_list (map ai_size (mi_attachments input)) else 0)"
    unfolding tabs sum_where_append by simp
  moreover have "sum_where (\<lambda>m. mail_userId m = uid) mail_contentSize (mails ?d) =
      sum_where (\<lambda>m. mail_userId m = uid) mail_contentSize (mails (db w)) +
      (if uid = user_id u then length (utf8 P (mi_content input)) else 0)"
    unfolding tabs sum_where_append by (simp add: tbl)
  moreover have "sum_where (counts_for ?d uid) iatt_size (internalAttachments ?d) =
      sum_where (counts_for (db w) uid) iatt_size (internalAttachments (db w))"
    by (simp add: counts_for_def [abs_def] stored_db_def)
  ultimately show ?thesis unfolding getUserMailStorageUsed_def by simp
qed

section \<open>Incoming mail\<close>

lemma processIncoming_cases:
  assumes "processIncomingMail P parsed dto w = (r, w')"
  obtains (error) e where "r = Inl e" "w' = w"
  | (ignored) why where "r = Inr (Ignored why, [])" "w' = w"
  | (delivered) addr u where "u \<in> set (users (db w))" "user_status u = ACTIVE"
      "deliverIncoming P parsed dto addr u w = (r, w')"
  using assms
  by (auto simp: processIncomingMail_def user_by_name_def Let_def split: sum.splits option.splits if_splits
      dest: find_Some_mem)

lemma deliver_stored:
  assumes "object_store (store P) obj" "uuid_ok P" "deliverIncoming P parsed dto addr u w = (r, w')"
    and "prepareAttachments P (pm_attachments parsed) w = (as, w1)"
    and ks: "ks = map (att_key P) [draws w..<draws w + length as]"
  shows "(\<exists>e. r = Inl e \<and> db w' = db w) \<or>
    (\<exists>why. r = Inr (Ignored why, []) \<and> db w' = db w \<and> redis w' = redis w \<and> objects w' = objects w) \<or>
    (\<exists>quota. \<not> sender_blocked (db w) u parsed dto \<and>
      getMailQuotaLimitForUsername P (user_username u) = Inr quota \<and>
      getUserMailStorageUsed (db w) (user_id u) + incoming_size P (mail_content parsed) as \<le> quota \<and>
      db w' = stored_db P u (incoming_input parsed dto addr as) ks w1 \<and>
      sealed P (obj (objects w') mailsBucket) (incoming_input parsed dto addr as) ks (draws w1) \<and>
      r = Inr (Stored (uuid P (draws w1 + 4)),
        [(user_id u, mail_event_of ''mail.created'' [uuid P (draws w1 + 4)] ''external'')]))"
proof -
  from prepareAttachments_draws [OF assms(4)]
  have w1: "w1 = w\<lparr>draws := draws w + length as\<rparr>" and k: "map ai_storageKey as = map Some ks"
    by (simp_all add: ks)
  have d: "distinct (mail_key P (draws w1) # ks)" "[] \<notin> set ks"
    using keys_differ [OF assms(2)] att_key_nonempty [of P, symmetric]
    by (auto simp: ks distinct_map inj_on_def)
  from assms(3,4) show ?thesis
  proof (cases rule: deliverIncoming_cases)
    case (failed e)
    from assms(1) refl _ d(2,1) failed(1) have "db w' = db w"
      by (rule object_store.storeMail_cases) (use k in \<open>auto simp: w1\<close>)
    then show ?thesis using failed(2) by simp
  next
    case (stored quota row)
    from assms(1) refl _ d(2,1) stored(4)
    have "row = stored_row P u (incoming_input parsed dto addr as) w1 \<and>
        db w' = stored_db P u (incoming_input parsed dto addr as) ks w1 \<and>
        sealed P (obj (objects w') mailsBucket) (incoming_input parsed dto addr as) ks (draws w1)"
      by (rule object_store.storeMail_cases) (use k in auto)
    then show ?thesis using stored by simp
  qed (use w1 in auto)
qed


lemmas delivery_run = sample_mail_def mail_w0_facts deliverIncoming_def randomUUID_def
  getMailQuotaLimitForUsername_def incoming_size_def mail_content_def or_text_def
  getUserMailStorageUsed_def tbl DEFAULT_MAIL_QUOTA_BYTES_def storeMailboxMailForUser_def
  put_object_def randomBytesOf_def attachment_key_def truthy_def createMailRow_def Let_def

lemma sample_stored:
  "deliverIncoming mail_platform sample_mail sample_envelope ''eve@redbox.cx'' mail_user mail_w0 =
     (Inr (Stored (unary 6), [(''u'', mail_event_of ''mail.created'' [unary 6] ''external'')]), mail_w1)"
proof -
  have "unary 6 = unary (Suc (Suc (Suc (Suc (Suc (Suc 0))))))" by (simp add: numeral_eq_Suc)
  then show ?thesis by (simp add: mail_w1_def sample_routed prod_eq_iff) (simp add: delivery_run)
qed

lemma sample_redis: "redis mail_w1 = redis mail_w0"
  unfolding mail_w1_def sample_routed by (simp add: delivery_run)

lemma sample_mail_stored: "hd (mails (db mail_w1)) \<in> set (mails (db mail_w1))"
proof -
  have "mails (db mail_w1) \<noteq> []"
    unfolding mail_w1_def sample_routed by (simp add: delivery_run)
  then show ?thesis by simp
qed

theorem mailbox_objects_present_witness:
  "mem_obj (objects mail_w1) mailsBucket (mail_storageKey (hd (mails (db mail_w1)))) \<noteq> None"
  using mailbox_objects_present [OF mail_store mail_uuid mail_sample_reachable] sample_mail_stored by blast


section \<open>An incoming mail is read back\<close>

definition transport_error :: "http_error \<Rightarrow> bool" where
  "transport_error e \<longleftrightarrow> e = Thrown ''GetObject'' \<or> e = Thrown ''TypeError''"

text \<open>The user's private key, as the cached master key unwraps it, belongs to the public key.\<close>

definition opens :: "('r, 's) platform \<Rightarrow> user \<Rightarrow> bytes \<Rightarrow> bool" where
  "opens P u masterKey \<longleftrightarrow>
     (case aes_cbc_decrypt P masterKey (unhex (user_privateKeyIv u)) (unhex (user_encryptedPrivateKey u)) of
        None \<Rightarrow> False
      | Some pem \<Rightarrow> rsa_ok P (user_publicKey u) (utf8_text P pem))"

lemma mailKeyOf_stored:
  "opens P u masterKey \<Longrightarrow>
   mailKeyOf P u (stored_row P u input w) masterKey = Inr (randomBytes P (draws w + 1) 32)"
  by (auto simp: opens_def mailKeyOf_def stored_row_def rsa_ok_def split: option.splits)

lemma mailIv_stored: "unhex (mail_mailKeyIv (stored_row P u input w)) = randomBytes P (draws w + 2) 16"
  by (simp add: stored_row_def)

lemma stored_found:
  assumes "mail_tables_ok P n0 (db w)" "uuid_ok P" "n0 \<le> draws w"
    and l: "length ks = length (mi_attachments input)"
  shows "mail_of (stored_db P u input ks w) (uuid P (draws w + 4)) = Some (stored_row P u input w)"
    and "attachments_of (stored_db P u input ks w) (uuid P (draws w + 4)) =
      attachment_rows P (uuid P (draws w + 4)) (draws w + 5) (zip ks (mi_attachments input))"
proof -
  let ?i = "uuid P (draws w + 4)"
  let ?rows = "attachment_rows P ?i (draws w + 5) (zip ks (mi_attachments input))"
  have i: "?i \<notin> uuid P ` {..<n0}" using assms(3) uuid_inj [OF assms(2)] by auto
  have new: "?i \<notin> mail_id ` set (mails (db w))" "?i \<notin> att_mailId ` set (mailAttachments (db w))"
    using assms(1) i unfolding mail_tables_ok_def by blast+
  have "find (\<lambda>m. mail_id m = ?i) (mails (db w)) = None"
    using new(1) unfolding find_None_iff by (metis imageI)
  then show "mail_of (stored_db P u input ks w) ?i = Some (stored_row P u input w)"
    by (simp add: mail_of_def stored_db_def find_append)
  have "att_mailId a = ?i" if "a \<in> set ?rows" for a
  proof -
    have "att_mailId a \<in> set (map att_mailId ?rows)" using that by simp
    then show ?thesis unfolding attachment_rows_maps by (auto split: if_splits)
  qed
  moreover have "filter (\<lambda>a. att_mailId a = ?i) (mailAttachments (db w)) = []"
    using new(2) unfolding filter_empty_conv by (metis imageI)
  ultimately show "attachments_of (stored_db P u input ks w) ?i = ?rows"
    by (simp add: attachments_of_def stored_db_def filter_id_conv)
qed

lemma read_stored:
  assumes "object_store (store P) obj" "cipher_ok P" "utf8_ok P"
    and m: "mail_of (db w2) i = Some m" "mail_userId m = user_id u" "m = stored_row P u input w"
    and user: "user_by_id (db w2) (user_id u) = Some u"
    and key: "cachedMasterKey P (user_id u) w2 = Inr masterKey" "opens P u masterKey"
    and body: "obj (objects w2) mailsBucket (mail_storageKey m) = Some (aes_cbc_encrypt P
      (randomBytes P (draws w + 1) 32) (randomBytes P (draws w + 2) 16) (utf8 P (mi_content input)))"
  shows "case fst (getSingleMail P (user_id u) i w2) of
      Inl e \<Rightarrow> transport_error e
    | Inr (view, ev) \<Rightarrow> mv_content view = mi_content input \<and> mv_mail view = m"
proof -
  obtain r w3 where d: "decryptStored P (randomBytes P (draws w + 1) 32) (mail_mailKeyIv m)
      (mail_storageKey m) w2 = (r, w3)" by fastforce
  obtain ev w4 where k: "markReadOnOpen (user_id u) m w3 = (ev, w4)" by fastforce
  have run: "fst (getSingleMail P (user_id u) i w2) =
      (case r of Inl e \<Rightarrow> Inl e
       | Inr content \<Rightarrow> Inr (\<lparr>mv_mail = m, mv_content = utf8_text P content,
           mv_attachments = attachment_views (db w2) i\<rparr>, ev))"
    using m user key d k mailKeyOf_stored [OF key(2), of input w]
    by (simp add: getSingleMail_def split: sum.split)
  have "unhex (mail_mailKeyIv m) = randomBytes P (draws w + 2) 16" by (simp add: m(3) mailIv_stored)
  then have "case r of Inl e \<Rightarrow> transport_error e | Inr content \<Rightarrow> content = utf8 P (mi_content input)"
    using object_store.decryptStored_cases [OF assms(1) refl d] body assms(2)
    by (auto simp: transport_error_def cipher_ok_def split: sum.splits)
  then show ?thesis using run assms(3) by (auto simp: utf8_ok_def split: sum.splits)
qed

lemma download_stored:
  assumes "object_store (store P) obj" "cipher_ok P"
    and m: "mail_of (db w2) i = Some m" "mail_userId m = user_id u" "m = stored_row P u input w"
    and user: "user_by_id (db w2) (user_id u) = Some u"
    and key: "cachedMasterKey P (user_id u) w2 = Inr masterKey" "opens P u masterKey"
    and att: "a \<in> set (attachments_of (db w2) i)" "distinct (map att_id (attachments_of (db w2) i))"
    and body: "obj (objects w2) mailsBucket (att_storageKey a) = Some (aes_cbc_encrypt P
      (randomBytes P (draws w + 1) 32) (randomBytes P (draws w + 2) 16) content)"
  shows "case fst (downloadAttachment P (user_id u) i (att_id a) w2) of
      Inl e \<Rightarrow> transport_error e
    | Inr d \<Rightarrow> ad_buffer d = content \<and> ad_filename d = att_filename a"
proof -
  obtain r w3 where d: "downloadStorageObjectByKey P (att_storageKey a) w2 = (r, w3)" by fastforce
  have f: "find (\<lambda>b. att_id b = att_id a) (attachments_of (db w2) i) = Some a"
    by (rule find_distinct_key [OF att(2,1)])
  have iv: "unhex (mail_mailKeyIv m) = randomBytes P (draws w + 2) 16" by (simp add: m(3) mailIv_stored)
  have mk: "mailKeyOf P u m masterKey = Inr (randomBytes P (draws w + 1) 32)"
    unfolding m(3) by (rule mailKeyOf_stored [OF key(2)])
  have run: "downloadAttachment P (user_id u) i (att_id a) w2 = download_own P u m a w2"
    using m(1,2) user f by (simp add: downloadAttachment_def)
  have "case r of Inl e \<Rightarrow> transport_error e
    | Inr b \<Rightarrow> b = aes_cbc_encrypt P (randomBytes P (draws w + 1) 32) (randomBytes P (draws w + 2) 16) content"
    using object_store.download_cases [OF assms(1) refl d] body
    by (auto simp: transport_error_def split: sum.splits)
  then show ?thesis
    unfolding run using key(1) mk d iv assms(2)
    by (auto simp: download_own_def cipher_ok_def split: sum.splits)
qed

text \<open>C20. A mail that was accepted is read back: as long as its rows and objects are there and the
  master key is in Redis, its owner gets exactly the content that was sent, and for every attachment
  exactly its bytes; only a failing transfer from the store can stand in the way.\<close>

theorem mail_roundtrip:
  assumes S: "object_store (store P) obj" and P: "uuid_ok P" "cipher_ok P" "utf8_ok P"
    and inv: "mail_inv P obj w"
    and run: "deliverIncoming P parsed dto addr u w = (Inr (Stored i, ev), w1)"
    and later: "db w2 = db w1" "obj (objects w2) = obj (objects w1)"
    and user: "user_by_id (db w) (user_id u) = Some u"
    and key: "cachedMasterKey P (user_id u) w2 = Inr masterKey" "opens P u masterKey"
  shows "(case fst (getSingleMail P (user_id u) i w2) of
       Inl e \<Rightarrow> transport_error e
     | Inr (view, _) \<Rightarrow> mv_content view = mail_content parsed) \<and>
    length (attachments_of (db w2) i) = length (pm_attachments parsed) \<and>
    (\<forall>j < length (pm_attachments parsed).
       case fst (downloadAttachment P (user_id u) i (att_id (attachments_of (db w2) i ! j)) w2) of
         Inl e \<Rightarrow> transport_error e
       | Inr d \<Rightarrow> ad_buffer d = pa_content (pm_attachments parsed ! j))"
proof -
  obtain as w0 where p: "prepareAttachments P (pm_attachments parsed) w = (as, w0)" by fastforce
  define ks where "ks = map (att_key P) [draws w..<draws w + length as]"
  let ?in = "incoming_input parsed dto addr as"
  from prepareAttachments_draws [OF p]
  have w0: "db w0 = db w" "draws w \<le> draws w0" and as: "length as = length (pm_attachments parsed)"
    "map ai_content as = map pa_content (pm_attachments parsed)" by simp_all
  have l: "length ks = length (mi_attachments ?in)" by (simp add: ks_def)
  have t: "mail_tables_ok P (draws w) (db w0)" using mail_invD(1) [OF inv] w0(1) by simp
  from deliver_stored [OF S P(1) run p ks_def]
  have d: "db w2 = stored_db P u ?in ks w0" "i = uuid P (draws w0 + 4)"
    and sealed: "sealed P (obj (objects w2) mailsBucket) ?in ks (draws w0)"
    using later by auto
  note found = stored_found [OF t P(1) w0(2) l, of u, folded d]
  have user2: "user_by_id (db w2) (user_id u) = Some u"
    using user w0(1) by (simp add: d(1) stored_db_def user_by_id_def)
  have "case fst (getSingleMail P (user_id u) i w2) of
      Inl e \<Rightarrow> transport_error e
    | Inr (view, ev) \<Rightarrow> mv_content view = mi_content ?in \<and> mv_mail view = stored_row P u ?in w0"
    by (rule read_stored [OF S P(2,3) found(1) stored_row_simps(3) refl user2 key])
      (use sealed in \<open>simp add: sealed_def Let_def\<close>)
  then have content: "case fst (getSingleMail P (user_id u) i w2) of
      Inl e \<Rightarrow> transport_error e | Inr (view, _) \<Rightarrow> mv_content view = mail_content parsed"
    by (auto split: sum.splits)
  let ?rows = "attachment_rows P i (draws w0 + 5) (zip ks as)"
  have rows: "attachments_of (db w2) i = ?rows" using found(2) d(2) by simp
  have len: "length ?rows = length as" using arg_cong [OF attachment_rows_maps(2) [of P i "draws w0 + 5" "zip ks as"], of length] l by simp
  have dist: "distinct (map att_id (attachments_of (db w2) i))"
    unfolding rows attachment_rows_maps by (simp add: distinct_map inj_on_def uuid_inj [OF P(1)])
  have "case fst (downloadAttachment P (user_id u) i (att_id (?rows ! j)) w2) of
         Inl e \<Rightarrow> transport_error e
       | Inr d \<Rightarrow> ad_buffer d = pa_content (pm_attachments parsed ! j)" if j: "j < length as" for j
  proof -
    have "map att_storageKey ?rows ! j = ks ! j"
      using j l unfolding attachment_rows_maps by simp
    then have k: "att_storageKey (?rows ! j) = ks ! j" using j len by simp
    have c: "ai_content (as ! j) = pa_content (pm_attachments parsed ! j)"
      using arg_cong [OF as(2), of "\<lambda>xs. xs ! j"] j as(1) by simp
    have "(ks ! j, as ! j) \<in> set (zip ks as)" using j l by (auto simp: in_set_zip)
    then have "obj (objects w2) mailsBucket (att_storageKey (?rows ! j)) = Some (aes_cbc_encrypt P
        (randomBytes P (draws w0 + 1) 32) (randomBytes P (draws w0 + 2) 16)
        (pa_content (pm_attachments parsed ! j)))"
      using sealed unfolding k by (auto simp: sealed_def Let_def c [symmetric])
    from download_stored [OF S P(2) found(1) stored_row_simps(3) refl user2 key _ dist this]
    show ?thesis using j len by (auto simp: rows split: sum.splits)
  qed
  then show ?thesis using content rows len as(1) by simp
qed

theorem mail_roundtrip_witness:
  "(case fst (getSingleMail mail_platform ''u'' (unary 6) mail_w1) of
     Inl e \<Rightarrow> transport_error e
   | Inr (view, _) \<Rightarrow> mv_content view = ''hello'') \<and>
   length (attachments_of (db mail_w1) (unary 6)) = 1"
proof -
  have c: "mail_content sample_mail = ''hello''" "length (pm_attachments sample_mail) = 1"
    by (simp_all add: sample_mail_def mail_content_def or_text_def)
  have u: "user_by_id (db mail_w0) (user_id mail_user) = Some mail_user" by (simp add: mail_w0_facts)
  have k: "cachedMasterKey mail_platform (user_id mail_user) mail_w1 = Inr [107]"
    using mail_w0_facts(13) by (simp add: cachedMasterKey_def redis_get_def sample_redis mail_w0_facts)
  have o: "opens mail_platform mail_user [107]"
    by (simp add: opens_def mail_user_def newUserRow_def mail_rsa)
  note mail_roundtrip [OF mail_store mail_uuid mail_cipher mail_utf8 mail_w0_inv sample_stored
      refl refl u k o, unfolded c mail_w0_facts]
  then show ?thesis by (elim conjE) (intro conjI)
qed

end
