(* ===== verification/Mail_Actions.thy ===== *)
theory Mail_Actions
  imports Mail_Properties
begin

text \<open>
  The actions of a user on the mailbox: a bulk action against the single action applied to each id,
  the reach of an action, the folders, and the blocked senders.
\<close>

section \<open>Bulk actions as iterated single actions\<close>

lemma update_where_twice:
  assumes "\<And>x. p x \<Longrightarrow> f (f x) = f x" "\<And>x. p (f x) = p x" "\<And>x. q (f x) = q x"
  shows "update_where p f (update_where q f xs) = update_where (\<lambda>x. q x \<or> p x) f xs"
  using assms by (induction xs) (auto simp: tbl)

definition settles :: "(mail_row \<Rightarrow> mail_row) \<Rightarrow> bool" where
  "settles f \<longleftrightarrow> (\<forall>m. f (f m) = f m \<and> mail_id (f m) = mail_id m \<and> mail_userId (f m) = mail_userId m)"

lemma settles_updates [simp]:
  "settles (place_in folder)" "settles (\<lambda>m. m\<lparr>mail_isRead := b\<rparr>)"
  by (simp_all add: settles_def place_in_def)

lemma settled_selected: "settles f \<Longrightarrow> selected uid ids (f m) = selected uid ids m"
  by (simp add: selected_def settles_def)

lemma update_selected_Cons:
  assumes "settles f"
  shows "snd (update_selected uid ids f (snd (update_selected uid [i] f w))) =
    snd (update_selected uid (i # ids) f w)"
proof -
  have "update_where (selected uid ids) f (update_where (selected uid [i]) f xs) =
      update_where (selected uid (i # ids)) f xs" for xs
  proof -
    have "(\<lambda>m. selected uid [i] m \<or> selected uid ids m) = selected uid (i # ids)"
      by (auto simp: selected_def fun_eq_iff)
    moreover have "update_where (selected uid ids) f (update_where (selected uid [i]) f xs) =
        update_where (\<lambda>m. selected uid [i] m \<or> selected uid ids m) f xs"
      by (rule update_where_twice) (use assms in \<open>simp_all add: settled_selected settles_def\<close>)
    ultimately show ?thesis by simp
  qed
  then show ?thesis by (simp add: update_selected_def)
qed

text \<open>Ids are unique, so the update of a found mail is the update of the selected one.\<close>

lemma update_one:
  assumes "distinct (map mail_id (mails (db w)))"
  shows "(case own_mail (db w) uid i of None \<Rightarrow> w | Some _ \<Rightarrow> w\<lparr>db := set_mail i f (db w)\<rparr>) =
    snd (update_selected uid [i] f w)"
proof (cases "own_mail (db w) uid i")
  case None
  then have "update_where (selected uid [i]) f (mails (db w)) = mails (db w)"
    by (intro update_where_none) (auto simp: own_mail_def find_None_iff selected_def)
  then show ?thesis using None by (simp add: update_selected_def)
next
  case (Some m)
  then have m: "m \<in> set (mails (db w))" "mail_id m = i" "mail_userId m = uid"
    by (auto simp: own_mail_def dest: find_Some_mem)
  have only: "x = m" if "x \<in> set (mails (db w))" "mail_id x = i" for x
    using assms m that by (auto simp: distinct_map dest: inj_onD)
  have "update_where (selected uid [i]) f (mails (db w)) = update_where (\<lambda>m. mail_id m = i) f (mails (db w))"
    unfolding update_where_def using only m(3) by (intro map_cong refl) (auto simp: selected_def)
  then show ?thesis using Some by (simp add: update_selected_def set_mail_def)
qed

lemma update_selected_ids:
  "settles f \<Longrightarrow> map mail_id (mails (db (snd (update_selected uid ids f w)))) = map mail_id (mails (db w))"
  by (simp add: update_selected_def map_update_where settles_def)

lemma update_selected_Nil: "snd (update_selected uid [] f w) = w"
proof -
  have "update_where (selected uid []) f (mails (db w)) = mails (db w)"
    by (intro update_where_none) (simp add: selected_def)
  then show ?thesis by (simp add: update_selected_def)
qed

lemma fold_updates:
  assumes "settles f" "distinct (map mail_id (mails (db w)))"
    and "\<And>i w. act i w = (case own_mail (db w) uid i of None \<Rightarrow> w | Some _ \<Rightarrow> w\<lparr>db := set_mail i f (db w)\<rparr>)"
  shows "foldl (\<lambda>w i. act i w) w ids = snd (update_selected uid ids f w)"
  using assms(2)
proof (induction ids arbitrary: w)
  case Nil
  then show ?case by (simp add: update_selected_Nil)
next
  case (Cons i ids)
  have "act i w = snd (update_selected uid [i] f w)"
    unfolding assms(3) by (rule update_one [OF Cons.prems])
  then show ?case
    using Cons.IH [of "act i w"] Cons.prems update_selected_ids [OF assms(1), of uid "[i]" w]
      update_selected_Cons [OF assms(1)] by simp
qed

lemma delete_mails_twice:
  "delete_mails p (delete_mails q d) = delete_mails (\<lambda>m. q m \<or> p m) d"
proof -
  have "mailAttachments (delete_mails p (delete_mails q d)) = mailAttachments (delete_mails (\<lambda>m. q m \<or> p m) d)"
    by (auto simp: remaining_def delete_where_def intro!: filter_cong)
  moreover have "deliveries (delete_mails p (delete_mails q d)) = deliveries (delete_mails (\<lambda>m. q m \<or> p m) d)"
    by (auto simp: delete_mails_def update_where_def delete_where_def Let_def split: option.split)
  moreover have "delete_where p (delete_where q xs) = delete_where (\<lambda>m. q m \<or> p m) xs" for xs
    by (simp add: delete_where_def conj_commute)
  ultimately show ?thesis
    unfolding delete_mails_def Let_def by simp
qed

lemma delete_mails_cong:
  assumes "\<And>m. m \<in> set (mails d) \<Longrightarrow> p m = q m"
  shows "delete_mails p d = delete_mails q d"
proof -
  have "filter p (mails d) = filter q (mails d)" "delete_where p (mails d) = delete_where q (mails d)"
    using assms by (auto simp: delete_where_def intro: filter_cong)
  then show ?thesis by (simp add: delete_mails_def)
qed

lemma delete_mails_none:
  assumes "\<And>m. m \<in> set (mails d) \<Longrightarrow> \<not> p m"
  shows "delete_mails p d = d"
proof -
  have "filter p (mails d) = []" "delete_where p (mails d) = mails d"
    using assms by (auto simp: delete_where_def filter_empty_conv filter_id_conv)
  moreover have "delete_where (\<lambda>a. False) xs = xs" for xs :: "mailAttachment list"
    by (simp add: delete_where_def)
  moreover have "update_where (\<lambda>v. case dlv_mailId v of None \<Rightarrow> False | Some i \<Rightarrow> False) f xs = xs"
    for f and xs :: "internalMailDelivery list"
    by (intro update_where_none) (simp split: option.split)
  ultimately show ?thesis by (simp add: delete_mails_def cong: option.case_cong)
qed

lemma deleteMail_db:
  assumes "distinct (map mail_id (mails (db w)))"
  shows "db (snd (deleteMail P uid i w)) = delete_mails (selected uid [i]) (db w)"
proof (cases "own_mail (db w) uid i")
  case None
  then have "delete_mails (selected uid [i]) (db w) = db w"
    by (intro delete_mails_none) (auto simp: own_mail_def find_None_iff selected_def)
  then show ?thesis using None by (simp add: deleteMail_def)
next
  case (Some m)
  then have m: "m \<in> set (mails (db w))" "mail_id m = i" "mail_userId m = uid"
    by (auto simp: own_mail_def dest: find_Some_mem)
  then have "mail_of (db w) i = Some m"
    using find_distinct_key [OF assms m(1)] by (simp add: mail_of_def)
  then have "db (snd (deleteMail P uid i w)) = delete_mails (\<lambda>x. mail_id x = i) (db w)"
    using Some m(2) by (simp add: deleteMail_def deleteMailRecordById_def delete_mail_objects_def Let_def)
  also have "\<dots> = delete_mails (selected uid [i]) (db w)"
  proof (rule delete_mails_cong)
    fix x assume "x \<in> set (mails (db w))"
    then have "mail_id x = i \<Longrightarrow> x = m"
      using assms m by (auto simp: distinct_map dest: inj_onD)
    then show "(mail_id x = i) = selected uid [i] x" using m(3) by (auto simp: selected_def)
  qed
  finally show ?thesis .
qed

lemma fold_deletes:
  assumes "distinct (map mail_id (mails (db w)))"
  shows "db (foldl (\<lambda>w i. snd (deleteMail P uid i w)) w ids) = delete_mails (selected uid ids) (db w)"
  using assms
proof (induction ids arbitrary: w)
  case Nil
  then show ?case by (simp add: delete_mails_none selected_def)
next
  case (Cons i ids)
  let ?w = "snd (deleteMail P uid i w)"
  have d: "db ?w = delete_mails (selected uid [i]) (db w)" by (rule deleteMail_db [OF Cons.prems])
  have "(\<lambda>m. selected uid [i] m \<or> selected uid ids m) = selected uid (i # ids)"
    by (auto simp: selected_def fun_eq_iff)
  moreover have "distinct (map mail_id (mails (db ?w)))"
    using Cons.prems by (simp add: d delete_where_def distinct_map_filter)
  ultimately show ?case
    using Cons.IH [of ?w] by (simp add: d delete_mails_twice)
qed


definition two_mails :: mem_world where
  "two_mails = mail_w0\<lparr>db := (db mail_w0)\<lparr>mails :=
     [(stored_row mail_platform mail_user (incoming_input sample_mail sample_envelope [] []) mail_w0),
      (stored_row mail_platform mail_user (incoming_input sample_mail sample_envelope [] []) mail_w0)
        \<lparr>mail_id := ''m2'', mail_userId := ''v'', mail_isSpam := True\<rparr>]\<rparr>\<rparr>"

lemma two_mails_rows:
  "map mail_id (mails (db two_mails)) = [unary 5, ''m2'']"
  "map mail_userId (mails (db two_mails)) = [''u'', ''v'']"
  "map mail_isSpam (mails (db two_mails)) = [False, True]"
  "map mail_isArchived (mails (db two_mails)) = [False, False]"
  "set (mails (db two_mails)) \<noteq> {}"
  by (simp_all add: two_mails_def stored_row_def mail_w0_facts)

lemma unary_not_m2: "unary n \<noteq> ''m2''"
proof
  assume "unary n = ''m2''"
  then have "CHR ''m'' \<in> set (unary n)" by simp
  then show False by (simp add: unary_def)
qed

lemma two_mails_distinct: "distinct (map mail_id (mails (db two_mails)))"
  by (simp add: two_mails_rows unary_not_m2)


section \<open>The reach of an action\<close>

datatype mail_action =
    Open_mail string | Get_attachment string string | Delete_mail string | Move_mail string string
  | Mark_mail string bool | Bulk_move "string list" string | Bulk_archive "string list"
  | Bulk_mark "string list" bool | Bulk_delete "string list"

text \<open>An action of the user \<open>uid\<close>: the events it emits and the world it leaves.\<close>

definition pushed :: "http_error + pushes \<Rightarrow> pushes" where
  "pushed r = (case r of Inl _ \<Rightarrow> [] | Inr ev \<Rightarrow> ev)"

fun run_action ::
    "('r, 's) platform \<Rightarrow> string \<Rightarrow> mail_action \<Rightarrow> ('r, 's) world \<Rightarrow> pushes \<times> ('r, 's) world" where
  "run_action P uid (Open_mail i) w = (let (r, w') = getSingleMail P uid i w in (pushed (map_sum id snd r), w'))"
| "run_action P uid (Get_attachment i a) w = (let (r, w') = downloadAttachment P uid i a w in ([], w'))"
| "run_action P uid (Delete_mail i) w = (let (r, w') = deleteMail P uid i w in (pushed (map_sum id snd r), w'))"
| "run_action P uid (Move_mail i folder) w = (let (r, w') = moveMail uid i folder w in (pushed r, w'))"
| "run_action P uid (Mark_mail i b) w = (let (r, w') = setReadStatus uid i b w in (pushed r, w'))"
| "run_action P uid (Bulk_move ids folder) w = (let ((n, ev), w') = bulkMoveMails uid ids folder w in (ev, w'))"
| "run_action P uid (Bulk_archive ids) w = (let ((n, ev), w') = bulkArchiveMails uid ids w in (ev, w'))"
| "run_action P uid (Bulk_mark ids b) w = (let ((n, ev), w') = bulkSetReadStatus uid ids b w in (ev, w'))"
| "run_action P uid (Bulk_delete ids) w = (let ((n, ev), w') = bulkDeleteMails P uid ids w in (ev, w'))"

lemma pushed_simps [simp]: "pushed (Inl e) = []" "pushed (Inr ev) = ev"
  by (simp_all add: pushed_def)

lemma own_is_mail:
  assumes "distinct (map mail_id (mails d))" "own_mail d uid i = Some m"
  shows "mail_of d i = Some m" "mail_id m = i" "mail_userId m = uid" "m \<in> set (mails d)"
proof -
  show m: "mail_id m = i" "mail_userId m = uid" "m \<in> set (mails d)"
    using assms(2) by (auto simp: own_mail_def dest: find_Some_mem)
  show "mail_of d i = Some m"
    using find_distinct_key [OF assms(1) m(3)] m(1) by (simp add: mail_of_def)
qed

lemma delete_events:
  assumes "distinct (map mail_id (mails (db w)))" "deleteMail P uid i w = (Inr (b, ev), w')"
    "(v, e) \<in> set ev"
  shows "v = uid"
  using assms(2,3) own_is_mail [OF assms(1), of uid i]
  by (auto simp: deleteMail_def deleteMailRecordById_def Let_def split: option.splits)

lemma action_events:
  assumes "distinct (map mail_id (mails (db w)))" "run_action P uid a w = (ev, w')" "(v, e) \<in> set ev"
  shows "v = uid"
proof (cases "\<exists>i. a = Delete_mail i")
  case True
  then obtain i where a: "a = Delete_mail i" by blast
  obtain r w1 where d: "deleteMail P uid i w = (r, w1)" by fastforce
  show ?thesis using assms(2,3) a d delete_events [OF assms(1), of P uid i]
    by (cases r) (auto simp: Let_def)
next
  case False
  then show ?thesis using assms(2,3)
    by (cases a) (auto simp: getSingleMail_def markReadOnOpen_def moveMail_def setReadStatus_def
        bulkMoveMails_def bulkArchiveMails_def bulkSetReadStatus_def bulkDeleteMails_def Let_def
        split: option.splits sum.splits prod.splits if_splits)
qed

definition other_rows :: "string \<Rightarrow> db \<Rightarrow> mail_row list" where
  "other_rows uid d = filter (\<lambda>m. mail_userId m \<noteq> uid) (mails d)"

text \<open>The keys behind the mails of other users and their attachments.\<close>

definition other_keys :: "string \<Rightarrow> db \<Rightarrow> string set" where
  "other_keys uid d = mail_storageKey ` set (other_rows uid d) \<union>
     att_storageKey ` {a \<in> set (mailAttachments d). att_mailId a \<in> mail_id ` set (other_rows uid d)}"

text \<open>What an action may change: rows of the acting user, and the objects of the rows it deletes.\<close>

definition reaches :: "('s \<Rightarrow> string \<Rightarrow> string \<Rightarrow> bytes option) \<Rightarrow> string \<Rightarrow>
    ('r, 's) world \<Rightarrow> ('r, 's) world \<Rightarrow> bool" where
  "reaches obj uid w w' \<longleftrightarrow>
     other_rows uid (db w') = other_rows uid (db w) \<and>
     users (db w') = users (db w) \<and> files (db w') = files (db w) \<and>
     blockedSenders (db w') = blockedSenders (db w) \<and>
     (\<forall>k \<in> other_keys uid (db w). obj (objects w') mailsBucket k = obj (objects w) mailsBucket k)"

lemma reaches_refl [simp]: "reaches obj uid w w"
  by (simp add: reaches_def)

definition owned :: "string \<Rightarrow> (mail_row \<Rightarrow> bool) \<Rightarrow> bool" where
  "owned uid p \<longleftrightarrow> (\<forall>m. p m \<longrightarrow> mail_userId m = uid)"

lemma owned_selected [simp]: "owned uid (selected uid ids)"
  by (simp add: owned_def selected_def)

lemma other_rows_update:
  assumes "owned uid p" "settles f"
  shows "filter (\<lambda>m. mail_userId m \<noteq> uid) (update_where p f xs) = filter (\<lambda>m. mail_userId m \<noteq> uid) xs"
  by (rule filter_update_where_other) (use assms in \<open>auto simp: owned_def settles_def\<close>)

lemma reaches_update:
  assumes "settles f"
  shows "reaches obj uid w (snd (update_selected uid ids f w))"
  by (simp add: reaches_def update_selected_def other_rows_def other_rows_update assms)

lemma reaches_one:
  assumes "settles f" "distinct (map mail_id (mails (db w)))"
  shows "own_mail (db w) uid i \<noteq> None \<Longrightarrow> reaches obj uid w (w\<lparr>db := set_mail i f (db w)\<rparr>)"
  using reaches_update [OF assms(1), of obj uid w "[i]"]
    update_one [OF assms(2), where uid = uid and i = i and f = f, symmetric]
  by auto

lemma other_key_remains:
  assumes "mail_tables_ok P n d" "owned uid p" "k \<in> other_keys uid d"
  shows "k \<notin> set (keys_of_gone p d)"
proof -
  have keep: "m \<in> set (delete_where p (mails d))" if "m \<in> set (other_rows uid d)" for m
    using assms(2) that by (auto simp: owned_def other_rows_def tbl)
  have "a \<in> set (remaining p d)"
    if "a \<in> set (mailAttachments d)" "m \<in> set (other_rows uid d)" "att_mailId a = mail_id m" for a m
  proof -
    note owner = that(3)
    have m: "m \<in> set (mails d)" "\<not> p m"
      using that(2) assms(2) by (auto simp: other_rows_def owned_def)
    have "att_mailId a \<notin> mail_id ` {m \<in> set (mails d). p m}"
    proof
      assume "att_mailId a \<in> mail_id ` {m \<in> set (mails d). p m}"
      then obtain m' where m': "m' \<in> set (mails d)" "p m'" "mail_id m' = mail_id m"
        using owner by auto
      then have "m' = m" using tables_keys(4) [OF assms(1) m'(1) m(1)] by simp
      then show False using m' m(2) by simp
    qed
    then show ?thesis using that(1) by (simp add: remaining_def tbl)
  qed
  note keep_att = this
  from assms(3) consider (mail) m where "m \<in> set (other_rows uid d)" "k = mail_storageKey m"
    | (att) a m where "a \<in> set (mailAttachments d)" "m \<in> set (other_rows uid d)"
        "att_mailId a = mail_id m" "k = att_storageKey a"
    unfolding other_keys_def by blast
  then have "k \<in> mail_storageKey ` set (delete_where p (mails d)) \<union> att_storageKey ` set (remaining p d)"
  proof cases
    case mail
    then show ?thesis using imageI [OF keep [OF mail(1)], of mail_storageKey] by simp
  next
    case att
    then show ?thesis using imageI [OF keep_att [OF att(1-3)], of att_storageKey] by simp
  qed
  then show ?thesis by (intro key_remains(2) [OF assms(1)]) simp
qed

lemma reaches_delete:
  assumes "object_store (store P) obj" "mail_tables_ok P n (db w)" "owned uid p"
    and "db w' = delete_mails p (db w)"
    and "objects w' = s3_delete_all P mailsBucket keys (objects w)" "set keys \<subseteq> set (keys_of_gone p (db w))"
  shows "reaches obj uid w w'"
proof -
  have "obj (objects w') mailsBucket k = obj (objects w) mailsBucket k" if "k \<in> other_keys uid (db w)" for k
    using other_key_remains [OF assms(2,3) that] assms(6)
      object_store.delete_all_other [OF assms(1) refl, of mailsBucket mailsBucket k keys]
    unfolding assms(5) by blast
  moreover have "other_rows uid (db w') = other_rows uid (db w)"
    using assms(3) unfolding other_rows_def assms(4) delete_mails_frame
    by (intro filter_delete_where_other) (auto simp: owned_def)
  moreover have "files (delete_mails p (db w)) = files (db w)" by simp
  ultimately show ?thesis by (simp add: reaches_def assms(4))
qed

lemma settles_archive [simp]: "settles (\<lambda>m. m\<lparr>mail_isArchived := b\<rparr>)"
  by (simp add: settles_def)

lemma reaches_trans:
  assumes "reaches obj uid w w1" "reaches obj uid w1 w2" "other_keys uid (db w1) = other_keys uid (db w)"
  shows "reaches obj uid w w2"
  using assms by (simp add: reaches_def)

lemma reaches_objects: "obj st = obj (objects w) \<Longrightarrow> reaches obj uid w (w\<lparr>objects := st\<rparr>)"
  by (simp add: reaches_def)

lemma reaches_open:
  assumes S: "object_store (store P) obj" and d: "distinct (map mail_id (mails (db w)))"
    and run: "getSingleMail P uid i w = (r, w')"
  shows "reaches obj uid w w'"
proof -
  have dec: "\<exists>st. w1 = w\<lparr>objects := st\<rparr> \<and> obj st = obj (objects w)"
    if "decryptStored P k iv key w = (r1, w1)" for k iv key r1 w1
    using object_store.decryptStored_cases [OF S refl that] by blast
  have mark: "reaches obj uid w w2" if "w1 = w\<lparr>objects := st\<rparr>" "obj st = obj (objects w)"
    "markReadOnOpen uid m w1 = (ev, w2)" "mail_of (db w) i = Some m" "mail_userId m = uid" for m w1 st ev w2
  proof -
    have m: "m \<in> set (mails (db w1))" "mail_id m = i"
      using that(1,4) by (auto simp: mail_of_def dest: find_Some_mem)
    have "own_mail (db w1) uid (mail_id m) \<noteq> None"
      using m that(5) by (auto simp: own_mail_def find_None_iff)
    then have "reaches obj uid w1 (w1\<lparr>db := set_mail (mail_id m) (\<lambda>x. x\<lparr>mail_isRead := True\<rparr>) (db w1)\<rparr>)"
      using d that(1) by (intro reaches_one) simp_all
    then have "reaches obj uid w1 w2" using that(3) by (auto simp: markReadOnOpen_def split: if_splits)
    then show ?thesis
      using reaches_trans [OF reaches_objects [OF that(2)], of uid w2] that(1) by simp
  qed
  from run consider "w' = w" | m k r1 w1 where "mail_of (db w) i = Some m" "mail_userId m = uid"
      "decryptStored P k (mail_mailKeyIv m) (mail_storageKey m) w = (r1, w1)"
      "w' = w1 \<or> (\<exists>ev. markReadOnOpen uid m w1 = (ev, w'))"
    by (auto simp: getSingleMail_def Let_def split: option.splits sum.splits prod.splits if_splits)
  then show ?thesis
  proof cases
    case (2 m k r1 w1)
    obtain st where st: "w1 = w\<lparr>objects := st\<rparr>" "obj st = obj (objects w)" using dec [OF 2(3)] by blast
    then show ?thesis using 2(4) mark [OF st _ 2(1,2)] reaches_objects [OF st(2)] by blast
  qed simp
qed

lemma reaches_download:
  assumes "object_store (store P) obj" "downloadAttachment P uid i a w = (r, w')"
  shows "reaches obj uid w w'"
proof -
  have d: "reaches obj uid w w1" if "downloadStorageObjectByKey P key w = (r1, w1)" for key r1 w1
  proof -
    from object_store.download_cases [OF assms(1) refl that]
    obtain st where "w1 = w\<lparr>objects := st\<rparr>" "obj st = obj (objects w)" by blast
    then show ?thesis using reaches_objects [of obj st w uid] by simp
  qed
  have o: "reaches obj uid w w1" if "download_own P u m a w = (r1, w1)" for u m a r1 w1
    using that d by (auto simp: download_own_def split: sum.splits prod.splits option.splits)
  have s: "reaches obj uid w w1" if "download_shared P a w = (r1, w1)" for a r1 w1
    using that d by (auto simp: download_shared_def split: sum.splits prod.splits)
  show ?thesis
    using assms(2) o s
    by (auto simp: downloadAttachment_def Let_def split: option.splits if_splits)
qed

lemma reaches_deleteMail:
  assumes "object_store (store P) obj" "mail_tables_ok P n (db w)" "deleteMail P uid i w = (r, w')"
  shows "reaches obj uid w w'"
proof (cases "own_mail (db w) uid i")
  case None
  then show ?thesis using assms(3) by (simp add: deleteMail_def)
next
  case (Some m)
  have d: "distinct (map mail_id (mails (db w)))" using assms(2) by (simp add: mail_tables_ok_def)
  note m = own_is_mail [OF d Some]
  have w': "objects w' = s3_delete_all P mailsBucket (mail_keys (db w) m) (objects w)"
    using assms(3) Some m by (auto simp: deleteMail_def deleteMailRecordById_def delete_mail_objects_def Let_def)
  have "m \<in> set (filter (selected uid [i]) (mails (db w)))" using m by (simp add: selected_def)
  then have "set (mail_keys (db w) m) \<subseteq> set (keys_of_gone (selected uid [i]) (db w))"
    unfolding keys_of_gone_def by auto
  moreover have "db w' = delete_mails (selected uid [i]) (db w)"
    using deleteMail_db [OF d, of P uid i] assms(3) by simp
  ultimately show ?thesis
    by (intro reaches_delete [OF assms(1,2) owned_selected _ w'])
qed

text \<open>C22. Whatever a user does with ids, own, foreign or unknown ones: the mail rows of other users, the
  objects behind their mails and attachments, the users, the files and the lists of blocked senders
  stay as they are, and every event goes to the acting user.\<close>

theorem action_reaches_own_mail:
  assumes "object_store (store P) obj" "mail_inv P obj w" "run_action P uid a w = (ev, w')"
  shows "other_rows uid (db w') = other_rows uid (db w) \<and>
    users (db w') = users (db w) \<and> files (db w') = files (db w) \<and>
    blockedSenders (db w') = blockedSenders (db w) \<and>
    (\<forall>k \<in> other_keys uid (db w). obj (objects w') mailsBucket k = obj (objects w) mailsBucket k) \<and>
    (\<forall>(v, e) \<in> set ev. v = uid)"
proof -
  have t: "mail_tables_ok P (draws w) (db w)" by (rule mail_invD(1) [OF assms(2)])
  then have d: "distinct (map mail_id (mails (db w)))" by (simp add: mail_tables_ok_def)
  have upd: "reaches obj uid w (w\<lparr>db := set_mail i f (db w)\<rparr>)"
    if "own_mail (db w) uid i \<noteq> None" "settles f" for i f
    using reaches_one [OF that(2) d that(1)] .
  have bulk: "reaches obj uid w w1" if "update_selected uid ids f w = (n, w1)" "settles f" for ids f n w1
    using reaches_update [OF that(2), of obj uid w ids] that(1) by simp
  have "reaches obj uid w w'"
  proof (cases a)
    case (Open_mail i)
    obtain r w1 where c: "getSingleMail P uid i w = (r, w1)" by fastforce
    show ?thesis using reaches_open [OF assms(1) d c] c assms(3) Open_mail by simp
  next
    case (Get_attachment i x)
    obtain r w1 where c: "downloadAttachment P uid i x w = (r, w1)" by fastforce
    show ?thesis using reaches_download [OF assms(1) c] c assms(3) Get_attachment by simp
  next
    case (Delete_mail i)
    obtain r w1 where c: "deleteMail P uid i w = (r, w1)" by fastforce
    show ?thesis using reaches_deleteMail [OF assms(1) t c] c assms(3) Delete_mail by simp
  next
    case (Move_mail i folder)
    then show ?thesis using assms(3) upd
      by (auto simp: moveMail_def Let_def split: option.splits)
  next
    case (Mark_mail i b)
    then show ?thesis using assms(3) upd
      by (auto simp: setReadStatus_def Let_def split: option.splits)
  next
    case (Bulk_move ids folder)
    then show ?thesis using assms(3) bulk
      by (auto simp: bulkMoveMails_def Let_def split: prod.splits)
  next
    case (Bulk_archive ids)
    then show ?thesis using assms(3) bulk
      by (auto simp: bulkArchiveMails_def Let_def split: prod.splits)
  next
    case (Bulk_mark ids b)
    then show ?thesis using assms(3) bulk
      by (auto simp: bulkSetReadStatus_def Let_def split: prod.splits)
  next
    case (Bulk_delete ids)
    show ?thesis
      by (rule reaches_delete [OF assms(1) t owned_selected [of uid ids] _ _ subset_refl])
        (use assms(3) Bulk_delete in \<open>auto simp: bulkDeleteMails_def delete_mail_objects_def
           keys_of_gone_def Let_def\<close>)
  qed
  then show ?thesis using action_events [OF d assms(3)] by (auto simp: reaches_def)
qed

theorem action_reaches_own_mail_witness:
  "other_rows ''v'' (db (snd (run_action mail_platform ''v'' (Bulk_delete [unary 6]) mail_w1))) =
     other_rows ''v'' (db mail_w1)"
  using action_reaches_own_mail [OF mail_store mail_reachable_inv [OF mail_store mail_uuid mail_sample_reachable]
      surjective_pairing, of "''v''" "Bulk_delete [unary 6]"]
  by blast

section \<open>Folders\<close>

lemma mail_of_update:
  assumes "settles f"
  shows "mail_of (d\<lparr>mails := update_where p f (mails d)\<rparr>) i =
    map_option (\<lambda>m. if p m then f m else m) (mail_of d i)"
  unfolding mail_of_def
  by (simp, rule find_update_where) (use assms in \<open>simp add: settles_def\<close>)

text \<open>Archiving a selection and moving it to the archive are not the same: a spam mail that is
  archived in bulk is counted and announced as archived, but stays in the spam folder and appears in
  no listing of the archive, because the spam mark is left; moving it does put it there.\<close>

theorem archived_spam_stays_in_spam:
  assumes "distinct (map mail_id (mails (db w)))" "own_mail (db w) uid i = Some m" "mail_isSpam m"
    and "i \<in> set ids" "bulkArchiveMails uid ids w = ((n, ev), w')"
  shows "0 < n \<and> (\<forall>(v, e) \<in> set ev. me_folder e = Some ''archive'') \<and> ev \<noteq> [] \<and>
    (\<exists>m'. mail_of (db w') i = Some m' \<and> in_folder ''spam'' m' \<and> \<not> in_folder ''archive'' m') \<and>
    (\<exists>m'. mail_of (db (snd (moveMail uid i ''archive'' w))) i = Some m' \<and>
      in_folder ''archive'' m' \<and> \<not> in_folder ''spam'' m')"
proof -
  note m = own_is_mail [OF assms(1,2)]
  have s: "selected uid ids m" using m assms(4) by (simp add: selected_def)
  have w': "n = count_where (selected uid ids) (mails (db w))"
    "ev = [(uid, (bulk_event ids n)\<lparr>me_folder := Some ''archive''\<rparr>)]"
    "db w' = (db w)\<lparr>mails := update_where (selected uid ids) (\<lambda>m. m\<lparr>mail_isArchived := True\<rparr>) (mails (db w))\<rparr>"
    using assms(5) by (auto simp: bulkArchiveMails_def update_selected_def)
  have "0 < n" using s m(4) count_where_0_iff [of "selected uid ids" "mails (db w)"] by (auto simp: w'(1))
  moreover have "mail_of (db w') i = Some (m\<lparr>mail_isArchived := True\<rparr>)"
    unfolding w'(3) by (simp add: mail_of_update m(1) s)
  moreover have "mail_of (db (snd (moveMail uid i ''archive'' w))) i = Some (place_in ''archive'' m)"
    using m(2) by (simp add: moveMail_def assms(2) set_mail_def mail_of_update m(1))
  ultimately show ?thesis using assms(3) by (simp add: w'(2) in_folder_def place_in_def)
qed

theorem archived_spam_stays_in_spam_witness:
  "\<exists>m'. mail_of (db (snd (bulkArchiveMails ''v'' [''m2''] two_mails))) ''m2'' = Some m' \<and>
     in_folder ''spam'' m' \<and> \<not> in_folder ''archive'' m'"
proof -
  obtain m where m: "own_mail (db two_mails) ''v'' ''m2'' = Some m" "mail_isSpam m"
    by (simp add: own_mail_def two_mails_def stored_row_def mail_w0_facts unary_not_m2)
  obtain n ev w' where b: "bulkArchiveMails ''v'' [''m2''] two_mails = ((n, ev), w')"
    by (metis prod.exhaust)
  show ?thesis
    using archived_spam_stays_in_spam [OF two_mails_distinct m _ b] b by auto
qed

section \<open>Blocked senders\<close>

lemma deliver_blocked_iff:
  "sender_blocked (db w) u parsed dto \<longleftrightarrow>
     fst (deliverIncoming P parsed dto to_addr u w) = Inr (Ignored ''Sender is blocked'', [])"
proof (cases "sender_blocked (db w) u parsed dto")
  case True
  then show ?thesis by (auto simp: deliverIncoming_def list_ex_iff sender_blocked_def)
next
  case False
  obtain as w1 where p: "prepareAttachments P (pm_attachments parsed) w = (as, w1)" by fastforce
  obtain r w' where run: "deliverIncoming P parsed dto to_addr u w = (r, w')" by fastforce
  from run p show ?thesis by (cases rule: deliverIncoming_cases) (use False run in auto)
qed

text \<open>After a sender is blocked, mail to that user from that address, in the header or the envelope,
  is ignored, and exactly that is added to what was blocked before; blocking again changes nothing, and
  unblocking takes exactly this address from the list again.\<close>

theorem blocked_sender_roundtrip:
  "let w1 = snd (blockSender P uid addr w); email = clean_address addr; (r, w2) = unblockSender uid addr w1 in
   (\<forall>u parsed dto. sender_blocked (db w1) u parsed dto \<longleftrightarrow>
      sender_blocked (db w) u parsed dto \<or> user_id u = uid \<and> email \<in> set (sender_emails parsed dto)) \<and>
   (\<forall>u parsed dto to_addr. sender_blocked (db w1) u parsed dto \<longleftrightarrow>
      fst (deliverIncoming P parsed dto to_addr u w1) = Inr (Ignored ''Sender is blocked'', [])) \<and>
   snd (blockSender P uid addr w1) = w1 \<and> r = Inr email \<and>
   blockedSenders (db w2) = filter (\<lambda>b. \<not> blocks uid email b) (blockedSenders (db w))"
proof -
  let ?e = "clean_address addr"
  define w1 where "w1 = snd (blockSender P uid addr w)"
  define w2 where "w2 = snd (unblockSender uid addr w1)"
  let ?l = "blockedSenders (db w)" and ?l1 = "blockedSenders (db w1)"
  obtain new where l1: "?l1 = ?l @ new" "\<forall>b \<in> set new. blocks uid ?e b"
    "\<exists>b \<in> set ?l1. blocks uid ?e b"
  proof (cases "list_ex (blocks uid ?e) ?l")
    case True
    then have "?l1 = ?l" by (simp add: w1_def blockSender_def Let_def)
    then show thesis using that [of "[]"] True by (auto simp: list_ex_iff)
  next
    case False
    define row where "row = \<lparr>blocked_id = uuid P (draws w), blocked_email = ?e, blocked_userId = uid,
      blocked_createdAt = now w\<rparr>"
    have "?l1 = ?l @ [row]" using False by (simp add: w1_def blockSender_def randomUUID_def row_def Let_def)
    then show thesis using that [of "[row]"] by (simp add: blocks_def row_def)
  qed
  have again: "snd (blockSender P uid addr w1) = w1"
    using l1(3) by (auto simp: blockSender_def list_ex_iff Let_def)
  have b: "sender_blocked (db w1) u parsed dto \<longleftrightarrow>
      sender_blocked (db w) u parsed dto \<or> user_id u = uid \<and> ?e \<in> set (sender_emails parsed dto)"
    for u parsed dto
  proof -
    obtain b0 where b0: "b0 \<in> set ?l1" "blocked_userId b0 = uid" "blocked_email b0 = ?e"
      using l1(3) by (auto simp: blocks_def)
    have "\<forall>b \<in> set new. blocked_userId b = uid \<and> blocked_email b = ?e"
      using l1(2) by (simp add: blocks_def)
    moreover have "set ?l1 = set ?l \<union> set new" using l1(1) by simp
    ultimately show ?thesis unfolding sender_blocked_def using b0 by (metis Un_iff)
  qed
  have c: "count_where (blocks uid ?e) ?l1 \<noteq> 0" using l1(3) by (auto simp: count_where_0_iff)
  have "unblockSender uid addr w1 = (Inr ?e, w2)"
    using c by (simp add: w2_def unblockSender_def unblock_where_def Let_def)
  moreover have "blockedSenders (db w2) = filter (\<lambda>b. \<not> blocks uid ?e b) ?l"
    using l1(1,2) by (simp add: w2_def unblockSender_def unblock_where_def delete_where_def Let_def)
  moreover have "sender_blocked (db w1) u parsed dto \<longleftrightarrow>
      fst (deliverIncoming P parsed dto to_addr u w1) = Inr (Ignored ''Sender is blocked'', [])"
    for u parsed dto to_addr by (rule deliver_blocked_iff)
  ultimately show ?thesis using b again by (simp add: w1_def [symmetric] Let_def)
qed

end
