(* ===== verification/Event_Hubs.thy ===== *)
theory Event_Hubs
  imports Mail_Service
begin

text \<open>
  The two hubs of server-sent events, \<^verbatim>\<open>MailEventsService\<close>
  (\<^verbatim>\<open>mail/mail-events.service.ts\<close>) and \<^verbatim>\<open>NotificationEventsService\<close>
  (\<^verbatim>\<open>notifications/notification-events.service.ts\<close>). Every process of the backend has
  one of each: the streams its clients hold open, and a subscription to a channel of Redis. The
  streams of a user are in a \<open>Set\<close> object that the map of the service and the closure of every open
  stream share, so the sets are in an explicit store here. What a hub sends is a list of
  deliveries, each with its stream. \<open>PUBLISH\<close> hands the payload to every process that is
  subscribed, once each; the JSON text is taken as the value it stands for.
\<close>

section \<open>Mail events\<close>

type_synonym stream = nat

text \<open>\<open>Set.add\<close>: the order of a set is the order of insertion.\<close>

definition set_add :: "'a \<Rightarrow> 'a list \<Rightarrow> 'a list" where
  "set_add x xs = (if x \<in> set xs then xs else xs @ [x])"

record mail_payload =
  mp_event :: mail_event
  mp_userId :: string
  mp_originId :: string
  mp_timestamp :: string

text \<open>What a client sees of a payload: \<open>toMessageEvent\<close> drops the user and the origin.\<close>

record push_message =
  pm_type :: string
  pm_event :: mail_event
  pm_timestamp :: string

definition toMessageEvent :: "mail_payload \<Rightarrow> push_message" where
  "toMessageEvent p =
     \<lparr>pm_type = me_type (mp_event p), pm_event = mp_event p, pm_timestamp = mp_timestamp p\<rparr>"

type_synonym delivery = "stream \<times> push_message"

text \<open>\<open>closures\<close> holds the user and the set that the tear-down of an open stream refers to.\<close>

record mail_hub =
  hub_originId :: string
  set_store :: "nat \<Rightarrow> stream list"
  next_set :: nat
  subscribers :: "string \<Rightarrow> nat option"
  closures :: "stream \<Rightarrow> (string \<times> nat) option"

definition new_hub :: "string \<Rightarrow> mail_hub" where
  "new_hub origin =
     \<lparr>hub_originId = origin, set_store = (\<lambda>_. []), next_set = 0, subscribers = (\<lambda>_. None),
      closures = (\<lambda>_. None)\<rparr>"

definition own_payload :: "mail_hub \<Rightarrow> string \<Rightarrow> mail_event \<Rightarrow> string \<Rightarrow> mail_payload" where
  "own_payload h userId event timestamp =
     \<lparr>mp_event = event, mp_userId = userId, mp_originId = hub_originId h, mp_timestamp = timestamp\<rparr>"

text \<open>The subscription: the set of the user is taken from the map or made, then registered.\<close>

definition streamForUser :: "string \<Rightarrow> stream \<Rightarrow> string \<Rightarrow> mail_hub \<Rightarrow> delivery list \<times> mail_hub" where
  "streamForUser userId s timestamp h =
     (let (r, h1) = (case subscribers h userId of
            Some r \<Rightarrow> (r, h)
          | None \<Rightarrow> (next_set h, h\<lparr>set_store := (set_store h)(next_set h := []), next_set := Suc (next_set h)\<rparr>));
          h2 = h1\<lparr>set_store := (set_store h1)(r := set_add s (set_store h1 r)),
            subscribers := (subscribers h1)(userId \<mapsto> r), closures := (closures h1)(s \<mapsto> (userId, r))\<rparr>
      in ([(s, toMessageEvent (own_payload h userId (mail_event_of ''mail.connected'' [] []) timestamp))], h2))"

definition mail_heartbeat :: "string \<Rightarrow> stream \<Rightarrow> string \<Rightarrow> mail_hub \<Rightarrow> delivery list" where
  "mail_heartbeat userId s timestamp h =
     [(s, toMessageEvent (own_payload h userId (mail_event_of ''mail.heartbeat'' [] []) timestamp))]"

definition teardown :: "stream \<Rightarrow> mail_hub \<Rightarrow> mail_hub" where
  "teardown s h =
     (case closures h s of
        None \<Rightarrow> h
      | Some (userId, r) \<Rightarrow>
          (let left = filter (\<lambda>x. x \<noteq> s) (set_store h r);
               h1 = h\<lparr>set_store := (set_store h)(r := left), closures := (closures h)(s := None)\<rparr>
           in if left = [] then h1\<lparr>subscribers := (subscribers h1)(userId := None)\<rparr> else h1))"

definition deliverRedisEvent :: "mail_payload \<Rightarrow> mail_hub \<Rightarrow> delivery list" where
  "deliverRedisEvent p h =
     (case subscribers h (mp_userId p) of
        None \<Rightarrow> []
      | Some r \<Rightarrow> map (\<lambda>s. (s, toMessageEvent p)) (set_store h r))"

text \<open>The processes of the backend and \<open>PUBLISH\<close>: each delivery with its process.\<close>

definition publish :: "('p \<Rightarrow> 'h \<Rightarrow> (stream \<times> 'm) list) \<Rightarrow> 'p \<Rightarrow> 'h list \<Rightarrow> (nat \<times> stream \<times> 'm) list" where
  "publish deliver p hubs = concat (map (\<lambda>(i, h). map (Pair i) (deliver p h)) (List.enumerate 0 hubs))"

definition emitToUser ::
    "nat \<Rightarrow> string \<Rightarrow> mail_event \<Rightarrow> string \<Rightarrow> mail_hub list \<Rightarrow> (nat \<times> delivery) list" where
  "emitToUser i userId event timestamp hubs =
     publish deliverRedisEvent (own_payload (hubs ! i) userId event timestamp) hubs"

section \<open>Notification events\<close>

record notification_payload =
  np_id :: string
  np_category :: string
  np_message :: string
  np_timestamp :: string
  np_createdAt :: string
  np_expiresAt :: string

datatype notification_event =
    Connected string | Heartbeat string
  | Snapshot string "notification_payload list"
  | Created string notification_payload  \<comment> \<open>each with its time stamp\<close>

text \<open>\<open>toMessageEvent\<close> drops the origin, so an event here is what a client sees.\<close>

record notification_hub =
  nhub_originId :: string
  nhub_subscribers :: "stream list"

definition openNotificationStream ::
    "stream \<Rightarrow> string \<Rightarrow> notification_hub \<Rightarrow> (stream \<times> notification_event) list \<times> notification_hub" where
  "openNotificationStream s timestamp h =
     ([(s, Connected timestamp)], h\<lparr>nhub_subscribers := set_add s (nhub_subscribers h)\<rparr>)"

text \<open>The initial list arrives later; a failure to load it is logged.\<close>

definition sendSnapshot ::
    "stream \<Rightarrow> string \<Rightarrow> http_error + notification_payload list \<Rightarrow> (stream \<times> notification_event) list" where
  "sendSnapshot s timestamp initial =
     (case initial of Inl _ \<Rightarrow> [] | Inr ns \<Rightarrow> [(s, Snapshot timestamp ns)])"

definition notification_heartbeat :: "stream \<Rightarrow> string \<Rightarrow> (stream \<times> notification_event) list" where
  "notification_heartbeat s timestamp = [(s, Heartbeat timestamp)]"

definition closeNotificationStream :: "stream \<Rightarrow> notification_hub \<Rightarrow> notification_hub" where
  "closeNotificationStream s h = h\<lparr>nhub_subscribers := filter (\<lambda>x. x \<noteq> s) (nhub_subscribers h)\<rparr>"

text \<open>The origin in the payload is not looked at.\<close>

definition deliverNotification ::
    "string \<times> notification_event \<Rightarrow> notification_hub \<Rightarrow> (stream \<times> notification_event) list" where
  "deliverNotification p h = map (\<lambda>s. (s, snd p)) (nhub_subscribers h)"

definition emitNotificationCreated ::
    "nat \<Rightarrow> notification_payload \<Rightarrow> string \<Rightarrow> notification_hub list \<Rightarrow>
     (nat \<times> stream \<times> notification_event) list" where
  "emitNotificationCreated i notification timestamp hubs =
     (let p = (nhub_originId (hubs ! i), Created timestamp notification)
      in map (Pair i) (deliverNotification p (hubs ! i)) @ publish deliverNotification p hubs)"

end
