(* ===== verification/Notifications.thy ===== *)
theory Notifications
  imports Event_Hubs Auth
begin

text \<open>
  \<^verbatim>\<open>NotificationsService\<close> (\<^verbatim>\<open>notifications/notifications.service.ts\<close>): the
  notifications of the administrators to all users, with an expiry given in one of three ways. The
  optional fields of a request may be absent or \<open>null\<close>; the validators skip both.
\<close>

section \<open>Requests\<close>

datatype 'a js_field = Undefined | Null | Given 'a

definition is_defined :: "'a js_field \<Rightarrow> bool" where
  "is_defined f = (case f of Undefined \<Rightarrow> False | _ \<Rightarrow> True)"

text \<open>\<open>cn_expiresAt\<close> comes with the instant that \<open>new Date\<close> reads in the text; \<open>None\<close> is an
  invalid date.\<close>

record create_notification_dto =
  cn_category :: string
  cn_message :: string
  cn_durationSeconds :: "nat js_field"
  cn_durationMinutes :: "nat js_field"
  cn_expiresAt :: "(string \<times> time option) js_field"

definition valid_CreateSystemNotificationDto :: "create_notification_dto \<Rightarrow> bool" where
  "valid_CreateSystemNotificationDto dto \<longleftrightarrow>
     cn_category dto \<in> {''info'', ''warning'', ''error'', ''success'', ''maintenance''} \<and>
     length (cn_message dto) \<le> 1000 \<and>
     (case cn_durationSeconds dto of Given n \<Rightarrow> 1 \<le> n \<and> n \<le> 60 * 60 * 24 * 30 | _ \<Rightarrow> True) \<and>
     (case cn_durationMinutes dto of Given n \<Rightarrow> 1 \<le> n \<and> n \<le> 60 * 24 * 30 | _ \<Rightarrow> True) \<and>
     (case cn_expiresAt dto of Given (text, t) \<Rightarrow> text \<noteq> [] | _ \<Rightarrow> True)"

section \<open>Categories\<close>

definition toPrismaCategory :: "string \<Rightarrow> SystemNotificationCategory" where
  "toPrismaCategory category =
     (if category = ''warning'' then WARNING
      else if category = ''error'' then ERROR
      else if category = ''success'' then SUCCESS
      else if category = ''maintenance'' then MAINTENANCE
      else INFO)"

definition toApiCategory :: "SystemNotificationCategory \<Rightarrow> string" where
  "toApiCategory category =
     (if category = WARNING then ''warning''
      else if category = ERROR then ''error''
      else if category = SUCCESS then ''success''
      else if category = MAINTENANCE then ''maintenance''
      else ''info'')"

definition toPayload :: "('r, 's) platform \<Rightarrow> systemNotification \<Rightarrow> notification_payload" where
  "toPayload P n =
     \<lparr>np_id = ntf_id n, np_category = toApiCategory (ntf_category n), np_message = ntf_message n,
      np_timestamp = iso P (ntf_createdAt n), np_createdAt = iso P (ntf_createdAt n),
      np_expiresAt = iso P (ntf_expiresAt n)\<rparr>"

section \<open>Lists\<close>

definition getActiveNotifications ::
    "('r, 's) platform \<Rightarrow> ('r, 's) world \<Rightarrow> notification_payload list" where
  "getActiveNotifications P w =
     map (toPayload P) (order_desc ntf_createdAt
       (filter (\<lambda>n. now w < ntf_expiresAt n) (notifications (db w))))"

record notifications_query =
  nq_limit :: nat
  nq_offset :: nat
  nq_category :: "string option"
  nq_activeOnly :: "bool option"

definition notifications_where :: "notifications_query \<Rightarrow> time \<Rightarrow> systemNotification \<Rightarrow> bool" where
  "notifications_where q t n \<longleftrightarrow>
     (case nq_category q of
        Some c \<Rightarrow> c = [] \<or> ntf_category n = toPrismaCategory c
      | None \<Rightarrow> True) \<and>
     (nq_activeOnly q = Some True \<longrightarrow> t < ntf_expiresAt n)"

record admin_notification =
  an_payload :: notification_payload
  an_createdByAdmin :: "(string \<times> string) option"
  an_isExpired :: bool

definition toAdminNotification ::
    "('r, 's) platform \<Rightarrow> ('r, 's) world \<Rightarrow> systemNotification \<Rightarrow> admin_notification" where
  "toAdminNotification P w n =
     \<lparr>an_payload = toPayload P n,
      an_createdByAdmin =
        (case ntf_createdByAdminUserId n of
           None \<Rightarrow> None
         | Some i \<Rightarrow> map_option (\<lambda>a. (adm_id a, adm_username a)) (admin_by_id (db w) i)),
      an_isExpired = (ntf_expiresAt n \<le> now w)\<rparr>"

definition getAdminNotifications ::
    "('r, 's) platform \<Rightarrow> notifications_query \<Rightarrow> ('r, 's) world \<Rightarrow> admin_notification list \<times> pagination"
where
  "getAdminNotifications P q w =
     (let found = filter (notifications_where q (now w)) (notifications (db w));
          items = page (nq_offset q) (nq_limit q) (order_desc ntf_createdAt found);
          total = length found
      in (map (toAdminNotification P w) items,
          \<lparr>pg_limit = nq_limit q, pg_offset = nq_offset q, pg_returned = length items,
           pg_hasMore = nq_offset q + length items < total, pg_total = total\<rparr>))"

section \<open>Creation\<close>

text \<open>\<open>resolveExpiresAt\<close>: an instant, or \<open>None\<close> for an invalid \<open>Date\<close>. In arithmetic \<open>null\<close> is 0 and
  \<open>undefined\<close> gives \<open>NaN\<close>.\<close>

definition durationMs :: "nat \<Rightarrow> nat js_field \<Rightarrow> nat option" where
  "durationMs factor f = (case f of Undefined \<Rightarrow> None | Null \<Rightarrow> Some 0 | Given n \<Rightarrow> Some (n * factor))"

definition resolveExpiresAt :: "create_notification_dto \<Rightarrow> time \<Rightarrow> http_error + time option" where
  "resolveExpiresAt dto t =
     (let expiryInputs = length (filter id
            [is_defined (cn_expiresAt dto), is_defined (cn_durationSeconds dto),
             is_defined (cn_durationMinutes dto)]);
          byDuration = Inr (map_option (\<lambda>ms. t + ms)
            (if is_defined (cn_durationSeconds dto) then durationMs 1000 (cn_durationSeconds dto)
             else durationMs (60 * 1000) (cn_durationMinutes dto)))
      in if expiryInputs \<noteq> 1
         then Inl (BadRequest ''Provide exactly one expiry option: expiresAt, durationSeconds or durationMinutes'')
         else
           (case cn_expiresAt dto of
              Given (text, instant) \<Rightarrow>
                if text = [] then byDuration
                else (case instant of
                        None \<Rightarrow> Inl (BadRequest ''expiresAt must be in the future'')
                      | Some e \<Rightarrow> if e \<le> t then Inl (BadRequest ''expiresAt must be in the future'')
                          else Inr (Some e))
            | _ \<Rightarrow> byDuration))"

definition notification_audit ::
    "string \<Rightarrow> create_notification_dto \<Rightarrow> systemNotification \<Rightarrow> adminAuditLog" where
  "notification_audit adminUserId dto n =
     \<lparr>audit_actorType = ADMIN, audit_adminUserId = Some adminUserId, audit_targetUserId = None,
      audit_action = ''system_notification_created'', audit_previousStatus = None,
      audit_newStatus = None,
      audit_reason = Some (''System notification created ('' @ cn_category dto @ '')''),
      audit_meta = JObj [(''notificationId'', JStr (ntf_id n)), (''category'', JStr (cn_category dto)),
        (''message'', JStr (ntf_message n)), (''expiresAt'', JDate (ntf_expiresAt n))],
      audit_createdAt = ntf_createdAt n\<rparr>"

text \<open>The answer, what the hubs deliver, and the world. \<open>i\<close> is the process that handles the request.\<close>

definition createNotification ::
    "('r, 's) platform \<Rightarrow> nat \<Rightarrow> notification_hub list \<Rightarrow> string \<Rightarrow> create_notification_dto \<Rightarrow>
     ('r, 's) world \<Rightarrow>
     (notification_payload \<times> (nat \<times> stream \<times> notification_event) list, ('r, 's) world) outcome" where
  "createNotification P i hubs adminUserId dto w =
     (case resolveExpiresAt dto (now w) of
        Inl e \<Rightarrow> (Inl e, w)
      | Inr expiresAt \<Rightarrow>
          if trim (cn_message dto) = [] then (Inl (BadRequest ''Message can't be empty''), w)
          else
            (case expiresAt of
               None \<Rightarrow> (Inl (Thrown ''Invalid Date''), w)
             | Some e \<Rightarrow>
                 (let (newId, w1) = randomUUID P w;
                      n = \<lparr>ntf_id = newId, ntf_category = toPrismaCategory (cn_category dto),
                        ntf_message = trim (cn_message dto),
                        ntf_createdByAdminUserId = Some adminUserId, ntf_createdAt = now w,
                        ntf_expiresAt = e\<rparr>;
                      d = appendAudit (notification_audit adminUserId dto n)
                        ((db w1)\<lparr>notifications := notifications (db w1) @ [n]\<rparr>);
                      payload = toPayload P n
                  in (Inr (payload, emitNotificationCreated i payload (iso P (now w)) hubs),
                      w1\<lparr>db := d\<rparr>))))"

end
