(* ===== verification/Event_Properties.thy ===== *)
theory Event_Properties
  imports Notifications Mail_Sample
begin

text \<open>
  The hub of mail events against its specification, the list of open streams with their users: the
  shared sets, the map and the closures always agree with it, so an event reaches each open stream
  of its user once. The hub of notifications sends twice to the streams of the process that emits. A
  notification is listed until the expiry that its request asks for.
\<close>

section \<open>The specification of the mail hub\<close>

datatype hub_op = Open_stream string stream string | Close_stream stream

fun hub_step :: "mail_hub \<Rightarrow> hub_op \<Rightarrow> mail_hub" where
  "hub_step h (Open_stream u s t) = snd (streamForUser u s t h)"
| "hub_step h (Close_stream s) = teardown s h"

fun spec_step :: "(stream \<times> string) list \<Rightarrow> hub_op \<Rightarrow> (stream \<times> string) list" where
  "spec_step l (Open_stream u s t) = l @ [(s, u)]"
| "spec_step l (Close_stream s) = filter (\<lambda>x. fst x \<noteq> s) l"

fun opened :: "hub_op list \<Rightarrow> stream list" where
  "opened [] = []"
| "opened (Open_stream u s t # ops) = s # opened ops"
| "opened (Close_stream s # ops) = opened ops"

lemma opened_append: "opened (xs @ ys) = opened xs @ opened ys"
  by (induction xs rule: opened.induct) auto

definition streams_open :: "(stream \<times> string) list \<Rightarrow> string \<Rightarrow> stream list" where
  "streams_open l u = map fst (filter (\<lambda>x. snd x = u) l)"

lemma streams_open_simps [simp]:
  "streams_open [] u = []"
  "streams_open (l @ [(s, v)]) u = streams_open l u @ (if v = u then [s] else [])"
  by (simp_all add: streams_open_def)

lemma streams_open_close:
  "streams_open (filter (\<lambda>x. fst x \<noteq> s) l) u = filter (\<lambda>x. x \<noteq> s) (streams_open l u)"
  by (induction l) (auto simp: streams_open_def)

lemma set_streams_open: "s \<in> set (streams_open l u) \<longleftrightarrow> (s, u) \<in> set l"
  by (auto simp: streams_open_def image_iff)

text \<open>The coupling: the map has the users with an open stream, each with a set of its own that holds
  exactly that user's streams, and the closure of an open stream refers to the current set of its user.\<close>

definition coupled :: "mail_hub \<Rightarrow> (stream \<times> string) list \<Rightarrow> bool" where
  "coupled h l \<longleftrightarrow>
     distinct (map fst l) \<and>
     (\<forall>u. subscribers h u = None \<longleftrightarrow> streams_open l u = []) \<and>
     (\<forall>u r. subscribers h u = Some r \<longrightarrow> set_store h r = streams_open l u \<and> r < next_set h) \<and>
     (\<forall>u v r. subscribers h u = Some r \<longrightarrow> subscribers h v = Some r \<longrightarrow> u = v) \<and>
     (\<forall>s. closures h s = map_option (\<lambda>u. (u, the (subscribers h u))) (map_of l s))"

lemma coupled_new: "coupled (new_hub origin) []"
  by (simp add: coupled_def new_hub_def)

lemma coupledD:
  assumes "coupled h l"
  shows "distinct (map fst l)"
    "subscribers h u = None \<longleftrightarrow> streams_open l u = []"
    "subscribers h u = Some r \<Longrightarrow> set_store h r = streams_open l u"
    "subscribers h u = Some r \<Longrightarrow> r < next_set h"
    "subscribers h u = Some r \<Longrightarrow> subscribers h v = Some r \<Longrightarrow> u = v"
    "closures h s = map_option (\<lambda>u. (u, the (subscribers h u))) (map_of l s)"
  using assms by (auto simp: coupled_def)

lemma coupled_open:
  assumes c: "coupled h l" and new: "s \<notin> fst ` set l"
  shows "coupled (snd (streamForUser u s t h)) (l @ [(s, u)])"
proof -
  let ?h = "snd (streamForUser u s t h)"
  define r where "r = (case subscribers h u of Some r \<Rightarrow> r | None \<Rightarrow> next_set h)"
  have fresh: "s \<notin> set (streams_open l v)" for v using new by (force simp: set_streams_open)
  have h: "subscribers ?h = (subscribers h)(u \<mapsto> r)" "closures ?h = (closures h)(s \<mapsto> (u, r))"
    "next_set h \<le> next_set ?h" "r < next_set ?h"
    and st: "set_store ?h = (set_store h)(r := streams_open l u @ [s])"
  proof -
    have "subscribers ?h = (subscribers h)(u \<mapsto> r) \<and> closures ?h = (closures h)(s \<mapsto> (u, r)) \<and>
        next_set h \<le> next_set ?h \<and> r < next_set ?h \<and>
        set_store ?h = (set_store h)(r := streams_open l u @ [s])"
    proof (cases "subscribers h u")
      case None
      then have "streams_open l u = []" using coupledD(2) [OF c] by simp
      then show ?thesis using None by (simp add: streamForUser_def r_def set_add_def Let_def)
    next
      case (Some q)
      then show ?thesis using coupledD(3,4) [OF c Some] fresh [of u]
        by (simp add: streamForUser_def r_def set_add_def Let_def)
    qed
    then show "subscribers ?h = (subscribers h)(u \<mapsto> r)" "closures ?h = (closures h)(s \<mapsto> (u, r))"
      "next_set h \<le> next_set ?h" "r < next_set ?h"
      "set_store ?h = (set_store h)(r := streams_open l u @ [s])" by simp_all
  qed
  have other: "r' \<noteq> r" if "subscribers h v = Some r'" "v \<noteq> u" for v r'
  proof (cases "subscribers h u")
    case None
    then show ?thesis using coupledD(4) [OF c that(1)] by (simp add: r_def)
  next
    case (Some q)
    then show ?thesis using coupledD(5) [OF c Some, of v] that by (auto simp: r_def)
  qed
  have "closures ?h x = map_option (\<lambda>v. (v, the (subscribers ?h v))) (map_of (l @ [(s, u)]) x)" for x
  proof (cases "x = s")
    case True
    have "map_of l s = None" using new by (simp add: map_of_eq_None_iff)
    then show ?thesis using True by (simp add: h map_add_def)
  next
    case False
    have "subscribers h u = Some r" if "map_of l x = Some u"
    proof -
      have "streams_open l u \<noteq> []" using map_of_SomeD [OF that] set_streams_open [of x l u] by force
      then show ?thesis using coupledD(2) [OF c, of u] by (auto simp: r_def split: option.splits)
    qed
    then show ?thesis using False coupledD(6) [OF c, of x]
      by (auto simp: h map_add_def split: option.splits)
  qed
  moreover have "set_store ?h r' = streams_open (l @ [(s, u)]) v \<and> r' < next_set ?h"
    if v: "subscribers ?h v = Some r'" for v r'
  proof (cases "v = u")
    case True
    then show ?thesis using v h(1,4) st by simp
  next
    case False
    then have "subscribers h v = Some r'" using v by (simp add: h(1))
    then show ?thesis
      using other [of v r'] coupledD(3,4) [OF c, of v r'] False h(3) by (simp add: st)
  qed
  moreover have "v = v'" if v: "subscribers ?h v = Some r'" "subscribers ?h v' = Some r'" for v v' r'
  proof (cases "v = u \<or> v' = u")
    case True
    then show ?thesis using v other [of v r'] other [of v' r'] by (auto simp: h(1) split: if_splits)
  next
    case False
    then show ?thesis using v coupledD(5) [OF c, of v r' v'] by (simp add: h(1))
  qed
  moreover have "subscribers ?h v = None \<longleftrightarrow> streams_open (l @ [(s, u)]) v = []" for v
    using coupledD(2) [OF c, of v] by (simp add: h(1))
  moreover have "distinct (map fst (l @ [(s, u)]))" using coupledD(1) [OF c] new by simp
  ultimately show ?thesis unfolding coupled_def by blast
qed

lemma coupled_close:
  assumes c: "coupled h l"
  shows "coupled (teardown s h) (filter (\<lambda>x. fst x \<noteq> s) l)"
proof (cases "map_of l s")
  case None
  then have "filter (\<lambda>x. fst x \<noteq> s) l = l" by (auto simp: map_of_eq_None_iff filter_id_conv)
  moreover have "teardown s h = h" using coupledD(6) [OF c, of s] None by (simp add: teardown_def)
  ultimately show ?thesis using c by simp
next
  case (Some u)
  let ?l = "filter (\<lambda>x. fst x \<noteq> s) l" and ?h = "teardown s h"
  have mem: "(s, u) \<in> set l" by (rule map_of_SomeD [OF Some])
  then have "streams_open l u \<noteq> []" using set_streams_open [of s l u] by force
  then obtain r where r: "subscribers h u = Some r" using coupledD(2) [OF c, of u] by auto
  have store: "set_store h r = streams_open l u" by (rule coupledD(3) [OF c r])
  have only: "s \<notin> set (streams_open l v)" if "v \<noteq> u" for v
    using coupledD(1) [OF c] mem that by (auto simp: set_streams_open eq_key_imp_eq_value)
  then have same: "streams_open ?l v = streams_open l v" if "v \<noteq> u" for v
    using that by (auto simp: streams_open_close filter_id_conv)
  let ?left = "streams_open ?l u"
  have h: "set_store ?h = (set_store h)(r := ?left)" "closures ?h = (closures h)(s := None)"
    "subscribers ?h = (if ?left = [] then (subscribers h)(u := None) else subscribers h)"
    "next_set ?h = next_set h"
    using coupledD(6) [OF c, of s] Some r store
    by (simp_all add: teardown_def streams_open_close Let_def)
  have "distinct (map fst ?l)" using coupledD(1) [OF c] by (simp add: distinct_map_filter)
  moreover have "subscribers ?h v = None \<longleftrightarrow> streams_open ?l v = []" for v
    using coupledD(2) [OF c, of v] same [of v] r by (cases "v = u") (auto simp: h(3))
  moreover have "set_store ?h r' = streams_open ?l v \<and> r' < next_set ?h"
    if v: "subscribers ?h v = Some r'" for v r'
  proof -
    have v: "subscribers h v = Some r'" using v by (simp add: h(3) split: if_splits)
    show ?thesis
    proof (cases "v = u")
      case True
      then show ?thesis using v r coupledD(4) [OF c r] by (simp add: h)
    next
      case False
      then have "r' \<noteq> r" using coupledD(5) [OF c r, of v] v by auto
      then show ?thesis using coupledD(3,4) [OF c v] same [OF False] by (simp add: h)
    qed
  qed
  moreover have "v = v'" if v: "subscribers ?h v = Some r'" "subscribers ?h v' = Some r'" for v v' r'
  proof -
    have "subscribers h v = Some r'" "subscribers h v' = Some r'"
      using v by (simp_all add: h(3) split: if_splits)
    then show ?thesis by (rule coupledD(5) [OF c])
  qed
  moreover have "closures ?h x = map_option (\<lambda>v. (v, the (subscribers ?h v))) (map_of ?l x)" for x
  proof (cases "x = s")
    case True
    have "map_of ?l s = None" by (auto simp: map_of_eq_None_iff)
    then show ?thesis using True by (simp add: h(2))
  next
    case False
    then have m: "map_of ?l x = map_of l x" by (induction l) auto
    have "?left \<noteq> []" if "map_of l x = Some u"
      using map_of_SomeD [OF that] False set_streams_open [of x ?l u] by force
    then show ?thesis using False coupledD(6) [OF c, of x] m
      by (cases "map_of l x") (auto simp: h(2,3))
  qed
  ultimately show ?thesis unfolding coupled_def by blast
qed

lemma coupled_run:
  "distinct (opened ops) \<Longrightarrow> coupled (foldl hub_step (new_hub origin) ops) (foldl spec_step [] ops) \<and>
     fst ` set (foldl spec_step [] ops) \<subseteq> set (opened ops)"
proof (induction ops rule: rev_induct)
  case (snoc a ops)
  then have IH: "coupled (foldl hub_step (new_hub origin) ops) (foldl spec_step [] ops)"
    "fst ` set (foldl spec_step [] ops) \<subseteq> set (opened ops)"
    by (simp_all add: opened_append)
  show ?case
  proof (cases a)
    case (Open_stream u s t)
    then have "s \<notin> fst ` set (foldl spec_step [] ops)" using snoc.prems IH(2) by (auto simp: opened_append)
    then show ?thesis using coupled_open [OF IH(1)] IH(2) Open_stream by (auto simp: opened_append)
  next
    case (Close_stream s)
    then show ?thesis using coupled_close [OF IH(1)] IH(2) by (auto simp: opened_append)
  qed
qed (simp add: coupled_new)

lemma deliver_coupled:
  assumes "coupled h l"
  shows "deliverRedisEvent p h = map (\<lambda>s. (s, toMessageEvent p)) (streams_open l (mp_userId p))"
  using coupledD(2,3) [OF assms, of "mp_userId p"]
  by (cases "subscribers h (mp_userId p)") (simp_all add: deliverRedisEvent_def)

lemma in_publish:
  "(i, d) \<in> set (publish deliver p hubs) \<longleftrightarrow> i < length hubs \<and> d \<in> set (deliver p (hubs ! i))"
  by (force simp: publish_def in_set_enumerate_eq image_iff)

lemma enumerate_map: "List.enumerate n (map f xs) = map (\<lambda>(j, x). (j, f x)) (List.enumerate n xs)"
  by (induction xs arbitrary: n) simp_all

lemma count_distinct: "distinct xs \<Longrightarrow> count_list xs x = (if x \<in> set xs then 1 else 0)"
  by (induction xs) auto

text \<open>C24. Over any history of streams that open and close, in any number of processes, the hubs deliver
  as their specification says: \<open>emitToUser\<close> sends the event, with the time stamp and without user and
  origin, to every stream the user has open in any process, once, in the order they were opened, and
  to no other stream.\<close>

theorem mail_event_delivery:
  assumes "\<forall>ops \<in> set runs. distinct (opened ops)" "hubs = map (foldl hub_step (new_hub origin)) runs"
    and "msg = \<lparr>pm_type = me_type e, pm_event = e, pm_timestamp = t\<rparr>"
  shows "emitToUser i uid e t hubs =
      concat (map (\<lambda>(j, ops). map (\<lambda>s. (j, s, msg)) (streams_open (foldl spec_step [] ops) uid))
        (List.enumerate 0 runs)) \<and>
    (\<forall>ops \<in> set runs. distinct (streams_open (foldl spec_step [] ops) uid))"
proof
  let ?p = "own_payload (hubs ! i) uid e t"
  have p: "mp_userId ?p = uid" "toMessageEvent ?p = msg"
    by (simp_all add: own_payload_def toMessageEvent_def assms(3))
  have d: "deliverRedisEvent ?p (foldl hub_step (new_hub origin) ops) =
      map (\<lambda>s. (s, msg)) (streams_open (foldl spec_step [] ops) uid)" if "ops \<in> set runs" for ops
    using deliver_coupled [OF conjunct1 [OF coupled_run]] assms(1) that p by simp
  have "emitToUser i uid e t hubs = concat (map (\<lambda>(j, ops). map (Pair j)
      (deliverRedisEvent ?p (foldl hub_step (new_hub origin) ops))) (List.enumerate 0 runs))"
    by (simp add: emitToUser_def publish_def assms(2) enumerate_map case_prod_beta' comp_def)
  also have "\<dots> = concat (map (\<lambda>(j, ops). map (\<lambda>s. (j, s, msg))
      (streams_open (foldl spec_step [] ops) uid)) (List.enumerate 0 runs))"
    using d by (intro arg_cong [of _ _ concat] map_cong refl) (auto simp: in_set_enumerate_eq)
  finally show "emitToUser i uid e t hubs = concat (map (\<lambda>(j, ops). map (\<lambda>s. (j, s, msg))
      (streams_open (foldl spec_step [] ops) uid)) (List.enumerate 0 runs))" .
  show "\<forall>ops \<in> set runs. distinct (streams_open (foldl spec_step [] ops) uid)"
  proof
    fix ops assume "ops \<in> set runs"
    then have "distinct (map fst (foldl spec_step [] ops))"
      using coupledD(1) [OF conjunct1 [OF coupled_run]] assms(1) by blast
    then show "distinct (streams_open (foldl spec_step [] ops) uid)"
      by (simp add: streams_open_def distinct_map_filter)
  qed
qed

theorem mail_event_delivery_witness:
  "emitToUser 0 ''u'' (mail_event_of ''mail.created'' [''m''] ''external'') ''now''
     (map (foldl hub_step (new_hub ''o''))
       [[Open_stream ''u'' 1 ''t'', Open_stream ''v'' 2 ''t'', Open_stream ''u'' 3 ''t'', Close_stream 1],
        [Open_stream ''u'' 1 ''t'']]) =
   [(0, 3, \<lparr>pm_type = ''mail.created'', pm_event = mail_event_of ''mail.created'' [''m''] ''external'',
      pm_timestamp = ''now''\<rparr>),
    (1, 1, \<lparr>pm_type = ''mail.created'', pm_event = mail_event_of ''mail.created'' [''m''] ''external'',
      pm_timestamp = ''now''\<rparr>)]"
proof -
  let ?runs = "[[Open_stream ''u'' 1 ''t'', Open_stream ''v'' 2 ''t'', Open_stream ''u'' 3 ''t'', Close_stream 1],
        [Open_stream ''u'' 1 ''t'']]"
  have d: "\<forall>ops \<in> set ?runs. distinct (opened ops)" by simp
  show ?thesis
    by (subst conjunct1 [OF mail_event_delivery [OF d refl refl]])
      (simp add: streams_open_def mail_event_of_def)
qed

section \<open>Notifications\<close>

lemma count_pairs: "count_list (map (Pair i) xs) (j, y) = (if i = j then count_list xs y else 0)"
  by (induction xs) auto

lemma count_pairs_fst:
  "count_list (map (Pair i \<circ> fst) xs) (j, y) = (if i = j then count_list (map fst xs) y else 0)"
  using count_pairs [of i "map fst xs" j y] by simp

lemma count_publish:
  "count_list (map (\<lambda>(i, s, m). (i, s)) (publish deliver p hubs)) (j, s) =
     (if j < length hubs then count_list (map fst (deliver p (hubs ! j))) s else 0)"
proof -
  have m: "map (\<lambda>(i, s, m). (i, s)) (map (Pair i) xs) = map (Pair i) (map fst xs)" for i and xs :: "(stream \<times> 'a) list"
    by auto
  have "count_list (concat (map (\<lambda>(i, h). map (Pair i) (map fst (deliver p h))) (List.enumerate n hubs))) (j, s) =
      (if n \<le> j \<and> j < n + length hubs then count_list (map fst (deliver p (hubs ! (j - n)))) s else 0)" for n
  proof (induction hubs arbitrary: n)
    case (Cons h hubs)
    show ?case
    proof (cases "n < j")
      case True
      then have "j - n = Suc (j - Suc n)" by simp
      then show ?thesis using Cons [of "Suc n"] True by (simp add: count_pairs_fst)
    next
      case False
      then show ?thesis using Cons [of "Suc n"] by (auto simp: count_pairs_fst)
    qed
  qed simp
  from this [of 0] show ?thesis
    by (simp add: publish_def map_concat comp_def case_prod_beta' m)
qed

text \<open>C25. A new notification is delivered locally and also published to the channel the emitting process
  itself listens to, and nobody looks at the origin: every stream of the process that created it gets
  it twice, every stream of another process once.\<close>

theorem notification_delivered_twice:
  assumes "i < length hubs" "\<forall>h \<in> set hubs. distinct (nhub_subscribers h)"
  shows "count_list (map (\<lambda>(j, s, m). (j, s)) (emitNotificationCreated i n t hubs)) (j, s) =
    (if j < length hubs \<and> s \<in> set (nhub_subscribers (hubs ! j)) then if j = i then 2 else 1 else 0) \<and>
    (\<forall>(j, s, m) \<in> set (emitNotificationCreated i n t hubs). m = Created t n)"
proof
  let ?p = "(nhub_originId (hubs ! i), Created t n)"
  have one: "count_list (map fst (deliverNotification p h)) s = (if s \<in> set (nhub_subscribers h) then 1 else 0)"
    if "h \<in> set hubs" for p h
    using assms(2) that count_distinct [of "nhub_subscribers h" s]
    by (simp add: deliverNotification_def comp_def)
  have "count_list (map (\<lambda>(j, s, m). (j, s)) (map (Pair i) (deliverNotification ?p (hubs ! i)))) (j, s) =
      (if j = i \<and> s \<in> set (nhub_subscribers (hubs ! i)) then 1 else 0)"
    using one [of "hubs ! i" ?p] assms(1) count_pairs [of i "map fst (deliverNotification ?p (hubs ! i))" j s]
    by (cases "i = j") (simp_all add: comp_def case_prod_beta')
  moreover have "count_list (map (\<lambda>(j, s, m). (j, s)) (publish deliverNotification ?p hubs)) (j, s) =
      (if j < length hubs \<and> s \<in> set (nhub_subscribers (hubs ! j)) then 1 else 0)"
    unfolding count_publish using one [of "hubs ! j" ?p] by simp
  ultimately show "count_list (map (\<lambda>(j, s, m). (j, s)) (emitNotificationCreated i n t hubs)) (j, s) =
    (if j < length hubs \<and> s \<in> set (nhub_subscribers (hubs ! j)) then if j = i then 2 else 1 else 0)"
    using assms(1) by (simp add: emitNotificationCreated_def Let_def)
  show "\<forall>(j, s, m) \<in> set (emitNotificationCreated i n t hubs). m = Created t n"
    by (auto simp: emitNotificationCreated_def deliverNotification_def in_publish Let_def)
qed

definition sample_notification :: notification_payload where
  "sample_notification = \<lparr>np_id = ''n'', np_category = ''info'', np_message = ''m'',
     np_timestamp = ''t'', np_createdAt = ''t'', np_expiresAt = ''e''\<rparr>"

theorem notification_delivered_twice_witness:
  "count_list (map (\<lambda>(j, s, m). (j, s)) (emitNotificationCreated 0 sample_notification ''t''
     [\<lparr>nhub_originId = ''a'', nhub_subscribers = [7]\<rparr>,
      \<lparr>nhub_originId = ''b'', nhub_subscribers = [7]\<rparr>])) (0, 7) = 2"
proof -
  let ?hubs = "[\<lparr>nhub_originId = ''a'', nhub_subscribers = [7]\<rparr>,
    \<lparr>nhub_originId = ''b'', nhub_subscribers = [7]\<rparr>]"
  have h: "0 < length ?hubs" "\<forall>h \<in> set ?hubs. distinct (nhub_subscribers h)" by simp_all
  show ?thesis
    by (subst conjunct1 [OF notification_delivered_twice [OF h]]) simp
qed

section \<open>The expiry of a notification\<close>

text \<open>What a request asks for; \<open>null\<close> for a duration is 0.\<close>

definition asked_expiry :: "create_notification_dto \<Rightarrow> time \<Rightarrow> time option" where
  "asked_expiry dto t =
     (case (cn_expiresAt dto, cn_durationSeconds dto, cn_durationMinutes dto) of
        (Given (_, e), Undefined, Undefined) \<Rightarrow> (case e of Some e \<Rightarrow> if t < e then Some e else None | None \<Rightarrow> None)
      | (Undefined, Given n, Undefined) \<Rightarrow> Some (t + 1000 * n)
      | (Undefined, Null, Undefined) \<Rightarrow> Some t
      | (Undefined, Undefined, Given n) \<Rightarrow> Some (t + 60000 * n)
      | (Undefined, Undefined, Null) \<Rightarrow> Some t
      | _ \<Rightarrow> None)"

lemma resolve_asked:
  assumes "valid_CreateSystemNotificationDto dto"
  shows "(case asked_expiry dto t of
      Some e \<Rightarrow> resolveExpiresAt dto t = Inr (Some e)
    | None \<Rightarrow> (\<exists>m. resolveExpiresAt dto t = Inl (BadRequest m)) \<or> resolveExpiresAt dto t = Inr None)"
  using assms
  by (cases "cn_expiresAt dto"; cases "cn_durationSeconds dto"; cases "cn_durationMinutes dto")
    (auto simp: asked_expiry_def resolveExpiresAt_def is_defined_def durationMs_def
      valid_CreateSystemNotificationDto_def Let_def mult.commute split: option.splits)

lemma category_roundtrip:
  "c \<in> {''info'', ''warning'', ''error'', ''success'', ''maintenance''} \<Longrightarrow>
     toApiCategory (toPrismaCategory c) = c"
  by (auto simp: toApiCategory_def toPrismaCategory_def)

text \<open>A validated request creates a notification exactly if it has text and asks for one expiry; the
  notification has the category and the trimmed text asked for, one audit row is written with it, and
  it is in the active list exactly until that expiry. A refused request changes no table. A duration
  of \<open>null\<close>, which the validators let through, expires at once: it is never listed, though delivered.\<close>

theorem notification_until_expiry:
  assumes "valid_CreateSystemNotificationDto dto" "fresh_uuids P"
    and ids: "ntf_id ` set (notifications (db w)) \<subseteq> uuid P ` {..<draws w}"
    and run: "createNotification P i hubs adminId dto w = (r, w1)"
  shows "case asked_expiry dto (now w) of
      Some e \<Rightarrow>
        if trim (cn_message dto) = [] then db w1 = db w \<and> (\<exists>m. r = Inl (BadRequest m))
        else \<exists>p ds. r = Inr (p, ds) \<and> np_category p = cn_category dto \<and>
          np_message p = trim (cn_message dto) \<and> np_expiresAt p = iso P e \<and>
          ds = emitNotificationCreated i p (iso P (now w)) hubs \<and>
          length (auditLogs (db w1)) = Suc (length (auditLogs (db w))) \<and>
          (\<forall>w2. db w2 = db w1 \<longrightarrow> (p \<in> set (getActiveNotifications P w2) \<longleftrightarrow> now w2 < e))
    | None \<Rightarrow> db w1 = db w \<and> (\<exists>e. r = Inl e)"
proof (cases "asked_expiry dto (now w)")
  case None
  then show ?thesis using resolve_asked [OF assms(1), of "now w"] run
    by (auto simp: createNotification_def split: if_splits)
next
  case (Some e)
  then have res: "resolveExpiresAt dto (now w) = Inr (Some e)"
    using resolve_asked [OF assms(1), of "now w"] by simp
  show ?thesis
  proof (cases "trim (cn_message dto) = []")
    case True
    then show ?thesis using run res Some by (auto simp: createNotification_def)
  next
    case False
    define n where "n = \<lparr>ntf_id = uuid P (draws w), ntf_category = toPrismaCategory (cn_category dto),
      ntf_message = trim (cn_message dto), ntf_createdByAdminUserId = Some adminId,
      ntf_createdAt = now w, ntf_expiresAt = e\<rparr>"
    have r: "r = Inr (toPayload P n, emitNotificationCreated i (toPayload P n) (iso P (now w)) hubs)"
      and d: "notifications (db w1) = notifications (db w) @ [n]"
        "length (auditLogs (db w1)) = Suc (length (auditLogs (db w)))"
      using run res False
      by (auto simp: createNotification_def randomUUID_def n_def appendAudit_def Let_def)
    have new: "ntf_id m \<noteq> ntf_id n" if "m \<in> set (notifications (db w))" for m
    proof -
      have "ntf_id m \<in> uuid P ` {..<draws w}" by (rule subsetD [OF ids imageI [OF that]])
      then obtain j where "j < draws w" "ntf_id m = uuid P j" by auto
      then show ?thesis using fresh_uuids_neq [OF assms(2), of j "draws w"] by (simp add: n_def)
    qed
    have "toPayload P n \<in> set (getActiveNotifications P w2) \<longleftrightarrow> now w2 < e" if "db w2 = db w1" for w2
    proof -
      have only: "m = n" if m: "m \<in> set (notifications (db w1))" "toPayload P n = toPayload P m" for m
      proof (rule ccontr)
        assume "m \<noteq> n"
        then have "m \<in> set (notifications (db w))" using m(1) d(1) by simp
        moreover have "ntf_id m = ntf_id n" using m(2) by (simp add: toPayload_def)
        ultimately show False using new by simp
      qed
      have "set (getActiveNotifications P w2) =
          toPayload P ` {m \<in> set (notifications (db w1)). now w2 < ntf_expiresAt m}"
        using that by (simp add: getActiveNotifications_def)
      moreover have "n \<in> set (notifications (db w1))" "ntf_expiresAt n = e" by (simp_all add: d(1) n_def)
      ultimately show ?thesis using only by blast
    qed
    moreover have "np_category (toPayload P n) = cn_category dto"
      using category_roundtrip [of "cn_category dto"] assms(1)
      by (simp add: toPayload_def n_def valid_CreateSystemNotificationDto_def)
    ultimately show ?thesis
      using Some False r d(2) by (simp add: toPayload_def n_def)
  qed
qed

definition null_dto :: create_notification_dto where
  "null_dto = \<lparr>cn_category = ''info'', cn_message = ''hello'', cn_durationSeconds = Null,
     cn_durationMinutes = Undefined, cn_expiresAt = Undefined\<rparr>"

theorem notification_until_expiry_witness:
  "\<exists>p ds w1. createNotification mail_platform 0 [\<lparr>nhub_originId = ''a'', nhub_subscribers = [7]\<rparr>] ''adm''
       null_dto mail_w0 = (Inr (p, ds), w1) \<and>
     p \<notin> set (getActiveNotifications mail_platform w1) \<and> ds \<noteq> []"
proof -
  let ?hubs = "[\<lparr>nhub_originId = ''a'', nhub_subscribers = [7]\<rparr>]"
  obtain r w1 where c: "createNotification mail_platform 0 ?hubs ''adm'' null_dto mail_w0 = (r, w1)"
    by fastforce
  have v: "valid_CreateSystemNotificationDto null_dto"
    by (simp add: valid_CreateSystemNotificationDto_def null_dto_def)
  have f: "fresh_uuids mail_platform" using mail_uuid by (simp add: uuid_ok_def)
  have i: "ntf_id ` set (notifications (db mail_w0)) \<subseteq> uuid mail_platform ` {..<draws mail_w0}"
    by (simp add: mail_w0_def empty_db_def)
  have e: "asked_expiry null_dto (now mail_w0) = Some 1000" "trim (cn_message null_dto) \<noteq> []"
    by (simp_all add: asked_expiry_def null_dto_def mail_w0_facts trim_def is_space_def)
  have t: "now w1 = 1000"
    using c by (auto simp: createNotification_def randomUUID_def mail_w0_facts Let_def
        split: sum.splits if_splits option.splits)
  have "emitNotificationCreated 0 p s ?hubs \<noteq> []" for p s
    by (simp add: emitNotificationCreated_def deliverNotification_def Let_def)
  then show ?thesis
    using notification_until_expiry [OF v f i c] c t e by auto
qed

end
