(* ===== verification/File_Crypto.thy ===== *)
theory File_Crypto
  imports Bytes
begin

text \<open>
  The encryption of files in the browser: \<^verbatim>\<open>services/FileCryptoFormat.ts\<close> (constants and the
  additional data that binds a chunk to its place), \<^verbatim>\<open>services/CryptoService.ts\<close> (keys and
  AES-GCM chunks) and the loop of \<^verbatim>\<open>UploadFormPanel.tsx\<close> that encrypts a file chunk by chunk.
  The Web Crypto API is the record \<open>web_crypto\<close>; a \<open>CryptoKey\<close> is its raw bytes.
\<close>

section \<open>Errors and the Web Crypto API\<close>

datatype client_error =
    Error string          \<comment> \<open>\<open>new Error(message)\<close>\<close>
  | AbortError            \<comment> \<open>\<open>DOMException\<close> named \<open>AbortError\<close>\<close>
  | OperationError        \<comment> \<open>\<open>DOMException\<close> of a decryption that fails\<close>
  | RangeError            \<comment> \<open>\<open>new Uint8Array\<close> of a negative length\<close>
  | Rejected string       \<comment> \<open>a promise of the browser (stream, file) rejected\<close>

text \<open>Key, initialisation vector, additional data, data; decryption that fails is \<open>None\<close>.\<close>

record web_crypto =
  wc_encrypt :: "bytes \<Rightarrow> bytes \<Rightarrow> bytes option \<Rightarrow> bytes \<Rightarrow> bytes"
  wc_decrypt :: "bytes \<Rightarrow> bytes \<Rightarrow> bytes option \<Rightarrow> bytes \<Rightarrow> bytes option"
  wc_random :: "nat \<Rightarrow> nat \<Rightarrow> bytes"  \<comment> \<open>draw, length\<close>

section \<open>Format\<close>

definition FILE_CHUNK_SIZE :: nat where
  "FILE_CHUNK_SIZE = 50 * 1024 * 1024"

definition FILE_IV_LENGTH :: nat where
  "FILE_IV_LENGTH = 12"

definition FILE_GCM_TAG_LENGTH :: nat where
  "FILE_GCM_TAG_LENGTH = 16"

definition FILE_ENCRYPTION_OVERHEAD :: nat where
  "FILE_ENCRYPTION_OVERHEAD = FILE_IV_LENGTH + FILE_GCM_TAG_LENGTH"

definition FILE_STREAM_FORMAT :: string where
  "FILE_STREAM_FORMAT = ''aes-gcm-chunked-v1-or-aad-v2''"

definition AAD_MAGIC :: bytes where
  "AAD_MAGIC = map (\<lambda>c. word_of_nat (of_char c)) ''redbox-file-v2''"

record aad_params =
  aad_fileSize :: int
  aad_chunkSize :: int
  aad_totalChunks :: int
  aad_chunkIndex :: int
  aad_plaintextChunkLength :: int

text \<open>\<open>DataView.setUint32\<close> and \<open>setBigUint64\<close>: big-endian, reduced to the width.\<close>

fun be_bytes :: "nat \<Rightarrow> int \<Rightarrow> bytes" where
  "be_bytes 0 v = []"
| "be_bytes (Suc n) v = word_of_int (v div 256 ^ n) # be_bytes n v"

definition createFileChunkAad :: "aad_params \<Rightarrow> bytes" where
  "createFileChunkAad params =
     AAD_MAGIC @ be_bytes 8 (aad_fileSize params) @ be_bytes 4 (aad_chunkSize params) @
     be_bytes 4 (aad_totalChunks params) @ be_bytes 4 (aad_chunkIndex params) @
     be_bytes 4 (aad_plaintextChunkLength params)"

section \<open>Keys and chunks\<close>

definition generateKey :: "web_crypto \<Rightarrow> nat \<Rightarrow> bytes \<times> string" where
  "generateKey C draw = (let raw = wc_random C draw 32 in (raw, hex raw))"

definition importKey :: "string \<Rightarrow> client_error + bytes" where
  "importKey keyHex =
     (if length keyHex = 64 \<and> (\<forall>c \<in> set keyHex. hexValue c \<noteq> None) then Inr (unhex keyHex)
      else Inl (Error ''Invalid AES-256 file key.''))"

definition encryptChunk ::
    "web_crypto \<Rightarrow> nat \<Rightarrow> bytes \<Rightarrow> bytes \<Rightarrow> bytes option \<Rightarrow> bytes" where
  "encryptChunk C draw cryptoKey chunkBuffer additionalData =
     (let iv = wc_random C draw FILE_IV_LENGTH
      in iv @ wc_encrypt C cryptoKey iv additionalData chunkBuffer)"

definition decryptChunk ::
    "web_crypto \<Rightarrow> bytes \<Rightarrow> bytes \<Rightarrow> bytes option \<Rightarrow> client_error + bytes" where
  "decryptChunk C cryptoKey encryptedBytes additionalData =
     (if length encryptedBytes \<le> FILE_IV_LENGTH + 16
      then Inl (Error ''Encrypted chunk is too small.'')
      else (case wc_decrypt C cryptoKey (take FILE_IV_LENGTH encryptedBytes) additionalData
                   (drop FILE_IV_LENGTH encryptedBytes) of
              None \<Rightarrow> Inl OperationError
            | Some plaintext \<Rightarrow> Inr plaintext))"

section \<open>The upload of a file\<close>

text \<open>\<open>Math.ceil(file.size / CHUNK_SIZE)\<close> and \<open>file.slice\<close>; sizes are safe integers.\<close>

definition upload_chunks :: "bytes \<Rightarrow> nat" where
  "upload_chunks file = (length file + FILE_CHUNK_SIZE - 1) div FILE_CHUNK_SIZE"

definition upload_slice :: "bytes \<Rightarrow> nat \<Rightarrow> bytes" where
  "upload_slice file i =
     (let start = i * FILE_CHUNK_SIZE
      in take (min (start + FILE_CHUNK_SIZE) (length file) - start) (drop start file))"

definition upload_aad :: "bytes \<Rightarrow> nat \<Rightarrow> bytes" where
  "upload_aad file i =
     createFileChunkAad \<lparr>aad_fileSize = int (length file), aad_chunkSize = int FILE_CHUNK_SIZE,
       aad_totalChunks = int (upload_chunks file), aad_chunkIndex = int i,
       aad_plaintextChunkLength = int (length (upload_slice file i))\<rparr>"

definition encryptFile :: "web_crypto \<Rightarrow> nat \<Rightarrow> bytes \<Rightarrow> bytes \<Rightarrow> bytes list" where
  "encryptFile C draw cryptoKey file =
     map (\<lambda>i. encryptChunk C (draw + i) cryptoKey (upload_slice file i) (Some (upload_aad file i)))
       [0..<upload_chunks file]"

section \<open>Additional data names the chunk\<close>

lemma length_be_bytes [simp]: "length (be_bytes n v) = n"
  by (induction n) simp_all

lemma byte_eq_iff: "(word_of_int a :: 8 word) = word_of_int b \<longleftrightarrow> a mod 256 = b mod 256"
  by (simp add: word_of_int_eq_iff take_bit_eq_mod)

lemma be_bytes_mod: "be_bytes n a = be_bytes n b \<Longrightarrow> a mod 256 ^ n = b mod 256 ^ n"
proof (induction n)
  case 0
  then show ?case by simp
next
  case (Suc n)
  have split: "x mod (256 * 256 ^ n) = 256 ^ n * (x div 256 ^ n mod 256) + x mod 256 ^ n" for x :: int
    using zmod_zmult2_eq [of 256 x "256 ^ n"] by (simp add: mult.commute [of 256])
  from Suc show ?case by (simp add: byte_eq_iff split)
qed

lemma be_bytes_inj:
  assumes "be_bytes n a = be_bytes n b" "0 \<le> a" "a < 256 ^ n" "0 \<le> b" "b < 256 ^ n"
  shows "a = b"
  using be_bytes_mod [OF assms(1)] assms(2-) by simp

definition aad_fits :: "aad_params \<Rightarrow> bool" where
  "aad_fits p \<longleftrightarrow> 0 \<le> aad_fileSize p \<and> aad_fileSize p < 2 ^ 64 \<and>
     (\<forall>v \<in> {aad_chunkSize p, aad_totalChunks p, aad_chunkIndex p, aad_plaintextChunkLength p}.
        0 \<le> v \<and> v < 2 ^ 32)"

lemma createFileChunkAad_inj:
  assumes "createFileChunkAad p = createFileChunkAad q" "aad_fits p" "aad_fits q"
  shows "p = q"
proof -
  have e8: "be_bytes 8 (aad_fileSize p) = be_bytes 8 (aad_fileSize q)"
    and e4: "be_bytes 4 (aad_chunkSize p) = be_bytes 4 (aad_chunkSize q)"
      "be_bytes 4 (aad_totalChunks p) = be_bytes 4 (aad_totalChunks q)"
      "be_bytes 4 (aad_chunkIndex p) = be_bytes 4 (aad_chunkIndex q)"
      "be_bytes 4 (aad_plaintextChunkLength p) = be_bytes 4 (aad_plaintextChunkLength q)"
    using assms(1) by (simp_all add: createFileChunkAad_def)
  have b: "(256::int) ^ 8 = 2 ^ 64" "(256::int) ^ 4 = 2 ^ 32" by simp_all
  have "aad_fileSize p = aad_fileSize q"
    by (rule be_bytes_inj [OF e8]) (use assms in \<open>simp_all add: aad_fits_def b\<close>)
  moreover have "aad_chunkSize p = aad_chunkSize q"
    by (rule be_bytes_inj [OF e4(1)]) (use assms in \<open>simp_all add: aad_fits_def b\<close>)
  moreover have "aad_totalChunks p = aad_totalChunks q"
    by (rule be_bytes_inj [OF e4(2)]) (use assms in \<open>simp_all add: aad_fits_def b\<close>)
  moreover have "aad_chunkIndex p = aad_chunkIndex q"
    by (rule be_bytes_inj [OF e4(3)]) (use assms in \<open>simp_all add: aad_fits_def b\<close>)
  moreover have "aad_plaintextChunkLength p = aad_plaintextChunkLength q"
    by (rule be_bytes_inj [OF e4(4)]) (use assms in \<open>simp_all add: aad_fits_def b\<close>)
  ultimately show ?thesis by simp
qed

section \<open>Chunks of a file\<close>

lemma FILE_CHUNK_SIZE_pos [simp]: "0 < FILE_CHUNK_SIZE"
  by (simp add: FILE_CHUNK_SIZE_def)

lemma upload_slice_eq: "upload_slice file i = take FILE_CHUNK_SIZE (drop (i * FILE_CHUNK_SIZE) file)"
  by (auto simp: upload_slice_def Let_def min_def)

text \<open>The chunks of the length \<open>c\<close> put together are the list again.\<close>

lemma concat_slices:
  "concat (map (\<lambda>i. take c (drop (i * c) xs)) [0..<n]) = take (n * c) xs"
proof (induction n)
  case 0
  then show ?case by simp
next
  case (Suc n)
  have "take (c + n * c) xs = take (n * c) xs @ take c (drop (n * c) xs)"
    using take_add [of "n * c" c xs] by (simp add: add.commute)
  then show ?case using Suc by simp
qed

lemma upload_chunks_enough: "length file \<le> upload_chunks file * FILE_CHUNK_SIZE"
proof -
  let ?c = FILE_CHUNK_SIZE and ?n = "length file"
  have "?n + ?c - 1 = (?n + ?c - 1) div ?c * ?c + (?n + ?c - 1) mod ?c"
    by (simp only: div_mult_mod_eq)
  moreover have "(?n + ?c - 1) mod ?c < ?c" by simp
  ultimately show ?thesis unfolding upload_chunks_def by linarith
qed

lemma concat_upload_slices: "concat (map (upload_slice file) [0..<upload_chunks file]) = file"
  by (simp add: upload_slice_eq [abs_def] concat_slices upload_chunks_enough)

lemma upload_slice_nonempty:
  assumes "i < upload_chunks file"
  shows "i * FILE_CHUNK_SIZE < length file"
proof -
  have "Suc i \<le> (length file + FILE_CHUNK_SIZE - 1) div FILE_CHUNK_SIZE"
    using assms by (simp add: upload_chunks_def)
  then have "Suc i * FILE_CHUNK_SIZE \<le> length file + FILE_CHUNK_SIZE - 1"
    by (metis div_times_less_eq_dividend le_trans mult_le_mono1)
  then show ?thesis using FILE_CHUNK_SIZE_pos unfolding mult_Suc by linarith
qed

lemma length_upload_slice:
  assumes "i < upload_chunks file"
  shows "length (upload_slice file i) = min FILE_CHUNK_SIZE (length file - i * FILE_CHUNK_SIZE)"
    and "0 < length (upload_slice file i)"
  using upload_slice_nonempty [OF assms] by (auto simp: upload_slice_eq)

section \<open>Keys\<close>

lemma hex_chars: "c \<in> set (hex bs) \<Longrightarrow> hexValue c \<noteq> None"
proof -
  assume "c \<in> set (hex bs)"
  then obtain b where "c = hexDigit (unat (b :: 8 word) div 16) \<or> c = hexDigit (unat b mod 16)"
    by (auto simp: hex_def)
  moreover have "unat b div 16 < 16" using unat_byte_less [of b] by linarith
  ultimately show ?thesis by (auto simp: hexValue_hexDigit)
qed

lemma importKey_generateKey:
  assumes "length (wc_random C draw 32) = 32"
  shows "importKey (snd (generateKey C draw)) = Inr (fst (generateKey C draw))"
  using assms hex_chars by (auto simp: generateKey_def importKey_def length_hex Let_def)

end
