(* ===== verification/Stream_Download.thy ===== *)
theory Stream_Download
  imports File_Crypto File_Access
begin

text \<open>
  The download side of the browser: \<^verbatim>\<open>services/StreamingDownloadService.ts\<close> (cut the network
  stream into encrypted frames, decrypt each, write it) and the validation of the metadata in
  \<^verbatim>\<open>services/DownloadService.ts\<close>. A \<open>ReadableStream\<close> is the list of the values its reads
  give (\<open>None\<close>: a value that is undefined) and how it ends. The two things that happen from outside
  are parameters: \<open>signal k\<close> tells whether the abort signal was set at the \<open>k\<close>-th time it is
  looked at, \<open>sink k\<close> whether the \<open>k\<close>-th write is rejected. Progress reports are left out.
\<close>

section \<open>Reading frames from the network\<close>

datatype stream_end = Closed | Failed string

record stream_state =
  reads :: "bytes option list"
  ending :: stream_end
  networkChunk :: "bytes option"
  networkOffset :: nat
  receivedBytes :: nat
  writtenBytes :: nat
  written :: "bytes list"
  polls :: nat
  cancelled :: "client_error option"
  locked :: bool

datatype read_reply = Done | Value "bytes option"

definition assertNotAborted ::
    "(nat \<Rightarrow> bool) \<Rightarrow> stream_state \<Rightarrow> (client_error + unit) \<times> stream_state" where
  "assertNotAborted signal s =
     (if signal (polls s) then Inl AbortError else Inr (), s\<lparr>polls := Suc (polls s)\<rparr>)"

definition reader_read :: "stream_state \<Rightarrow> (client_error + read_reply) \<times> stream_state" where
  "reader_read s =
     (case reads s of
        v # vs \<Rightarrow> (Inr (Value v), s\<lparr>reads := vs\<rparr>)
      | [] \<Rightarrow> (case ending s of
                Closed \<Rightarrow> (Inr Done, s)
              | Failed m \<Rightarrow> (Inl (Rejected m), s)))"

definition buffered :: "stream_state \<Rightarrow> bytes" where
  "buffered s = (case networkChunk s of None \<Rightarrow> [] | Some c \<Rightarrow> drop (networkOffset s) c)"

definition copyBytes :: "nat \<Rightarrow> bytes \<Rightarrow> stream_state \<Rightarrow> bytes \<times> stream_state" where
  "copyBytes expectedLength frame s =
     (let bytesToCopy = min (expectedLength - length frame) (length (buffered s))
      in (frame @ take bytesToCopy (buffered s),
          s\<lparr>networkOffset := networkOffset s + bytesToCopy,
            receivedBytes := receivedBytes s + bytesToCopy\<rparr>))"

lemma polls_simps [simp]:
  "reads (snd (assertNotAborted signal s)) = reads s"
  "buffered (snd (assertNotAborted signal s)) = buffered s"
  by (simp_all add: assertNotAborted_def buffered_def cong: option.case_cong)

lemma reads_assertNotAborted: "assertNotAborted signal s = (r, s1) \<Longrightarrow> reads s1 = reads s"
  by (auto simp: assertNotAborted_def)

lemma reads_reader_read:
  "reader_read s = (Inr (Value v), s1) \<Longrightarrow> length (reads s1) < length (reads s)"
  by (auto simp: reader_read_def split: list.splits stream_end.splits)

lemma reads_copyBytes: "copyBytes n frame s = (frame', s1) \<Longrightarrow> reads s1 = reads s"
  by (auto simp: copyBytes_def Let_def)

lemma length_copyBytes:
  "length (fst (copyBytes n frame s)) = length frame + min (n - length frame) (length (buffered s))"
  by (simp add: copyBytes_def Let_def)

function readFrame_loop ::
    "(nat \<Rightarrow> bool) \<Rightarrow> nat \<Rightarrow> nat \<Rightarrow> bytes \<Rightarrow> stream_state \<Rightarrow> (client_error + bytes) \<times> stream_state" where
  "readFrame_loop signal encryptedSize n frame s =
     (if n \<le> length frame then (Inr frame, s)
      else
        (case assertNotAborted signal s of
           (Inl e, s1) \<Rightarrow> (Inl e, s1)
         | (Inr _, s1) \<Rightarrow>
             if buffered s1 \<noteq> [] then
               (let (frame', s2) = copyBytes n frame s1
                in if receivedBytes s2 > encryptedSize
                   then (Inl (Error ''Encrypted download is larger than expected.''), s2)
                   else readFrame_loop signal encryptedSize n frame' s2)
             else
               (case reader_read s1 of
                  (Inl e, s2) \<Rightarrow> (Inl e, s2)
                | (Inr Done, s2) \<Rightarrow>
                    (Inl (Error ''Encrypted download ended before the expected file size.''), s2)
                | (Inr (Value v), s2) \<Rightarrow>
                    if v = None \<or> v = Some [] then readFrame_loop signal encryptedSize n frame s2
                    else
                      (let s3 = s2\<lparr>networkChunk := v, networkOffset := 0\<rparr>;
                           (frame', s4) = copyBytes n frame s3
                       in if receivedBytes s4 > encryptedSize
                          then (Inl (Error ''Encrypted download is larger than expected.''), s4)
                          else readFrame_loop signal encryptedSize n frame' s4))))"
  by pat_completeness auto
termination
proof (relation "measure (\<lambda>(signal, m, n, frame, s). length (reads s) + (n - length frame))", goal_cases)
  case 1
  then show ?case by simp
next
  case (2 signal m n frame s z s1 u x frame' s2)
  then have c: "copyBytes n frame s1 = (frame', s2)" and b: "buffered s1 \<noteq> []" by simp_all
  then have "length frame < length frame'"
    using length_copyBytes [of n frame s1] 2(1) by simp
  moreover have "reads s2 = reads s"
    using reads_copyBytes [OF c] reads_assertNotAborted 2 by metis
  ultimately show ?case using 2(1) by simp
next
  case (3 signal m n frame s z s1 u y s2 z' v)
  then have "assertNotAborted signal s = (Inr u, s1)" "reader_read s1 = (Inr (Value v), s2)"
    by simp_all
  from reads_assertNotAborted [OF this(1)] reads_reader_read [OF this(2)] show ?case by simp
next
  case (4 signal m n frame s z s1 u y s2 z' v s3 x frame' s4)
  then have a: "assertNotAborted signal s = (Inr u, s1)" "reader_read s1 = (Inr (Value v), s2)"
    and c: "copyBytes n frame s3 = (frame', s4)" "reads s3 = reads s2"
    by simp_all
  have "length (reads s4) < length (reads s)"
    using reads_assertNotAborted [OF a(1)] reads_reader_read [OF a(2)] reads_copyBytes [OF c(1)] c(2)
    by simp
  moreover have "length frame \<le> length frame'"
    using length_copyBytes [of n frame s3] c(1) by simp
  ultimately show ?case by simp
qed

declare readFrame_loop.simps [simp del]

definition readFrame ::
    "(nat \<Rightarrow> bool) \<Rightarrow> nat \<Rightarrow> int \<Rightarrow> stream_state \<Rightarrow> (client_error + bytes) \<times> stream_state" where
  "readFrame signal encryptedSize expectedLength s =
     (if expectedLength < 0 then (Inl RangeError, s)
      else (case readFrame_loop signal encryptedSize (nat expectedLength) [] s of
              (Inl e, s1) \<Rightarrow> (Inl e, s1)
            | (Inr frame, s1) \<Rightarrow>
                (Inr frame, if networkChunk s1 \<noteq> None \<and> buffered s1 = []
                            then s1\<lparr>networkChunk := None, networkOffset := 0\<rparr> else s1)))"

section \<open>Decrypting frames\<close>

datatype encryption_mode = Unknown_mode | Authenticated_v2 | Legacy_v1

definition isAuthenticationFailure :: "client_error \<Rightarrow> bool" where
  "isAuthenticationFailure e \<longleftrightarrow> e = OperationError"

definition frame_aad :: "download_metadata \<Rightarrow> nat \<Rightarrow> int \<Rightarrow> bytes" where
  "frame_aad metadata chunkIndex plaintextChunkLength =
     createFileChunkAad \<lparr>aad_fileSize = int (dm_plaintextSize metadata),
       aad_chunkSize = int (dm_chunkSize metadata), aad_totalChunks = int (dm_chunkCount metadata),
       aad_chunkIndex = int chunkIndex, aad_plaintextChunkLength = plaintextChunkLength\<rparr>"

definition with_mode :: "client_error + bytes \<Rightarrow> encryption_mode \<Rightarrow> client_error + bytes \<times> encryption_mode" where
  "with_mode r mode = (case r of Inl e \<Rightarrow> Inl e | Inr plaintext \<Rightarrow> Inr (plaintext, mode))"

definition decryptFrame ::
    "web_crypto \<Rightarrow> bytes \<Rightarrow> bytes \<Rightarrow> download_metadata \<Rightarrow> nat \<Rightarrow> int \<Rightarrow> encryption_mode \<Rightarrow>
     client_error + bytes \<times> encryption_mode" where
  "decryptFrame C cryptoKey frame metadata chunkIndex plaintextChunkLength mode =
     (let aad = frame_aad metadata chunkIndex plaintextChunkLength in
      case mode of
        Authenticated_v2 \<Rightarrow> with_mode (decryptChunk C cryptoKey frame (Some aad)) mode
      | Legacy_v1 \<Rightarrow> with_mode (decryptChunk C cryptoKey frame None) mode
      | Unknown_mode \<Rightarrow>
          (case decryptChunk C cryptoKey frame (Some aad) of
             Inr plaintext \<Rightarrow> Inr (plaintext, Authenticated_v2)
           | Inl e \<Rightarrow>
               if isAuthenticationFailure e
               then with_mode (decryptChunk C cryptoKey frame None) Legacy_v1
               else Inl e))"

section \<open>The whole download\<close>

definition plaintextChunkLength :: "download_metadata \<Rightarrow> nat \<Rightarrow> int" where
  "plaintextChunkLength metadata chunkIndex =
     min (int (dm_chunkSize metadata))
       (int (dm_plaintextSize metadata) - int chunkIndex * int (dm_chunkSize metadata))"

definition writePlaintext ::
    "(nat \<Rightarrow> string option) \<Rightarrow> bytes \<Rightarrow> stream_state \<Rightarrow> (client_error + unit) \<times> stream_state" where
  "writePlaintext sink plaintext s =
     (case sink (length (written s)) of
        Some m \<Rightarrow> (Inl (Rejected m), s)
      | None \<Rightarrow> (Inr (), s\<lparr>written := written s @ [plaintext],
                          writtenBytes := writtenBytes s + length plaintext\<rparr>))"

definition invalid_chunk_size :: client_error where
  "invalid_chunk_size = Error ''Decrypted chunk has an invalid size.''"

text \<open>One pass of the loop over the chunks: the mode it leaves, or the error that stops it.\<close>

definition decryptStep ::
    "web_crypto \<Rightarrow> (nat \<Rightarrow> bool) \<Rightarrow> (nat \<Rightarrow> string option) \<Rightarrow> bytes \<Rightarrow> download_metadata \<Rightarrow> nat \<Rightarrow>
     encryption_mode \<Rightarrow> stream_state \<Rightarrow> (client_error + encryption_mode) \<times> stream_state" where
  "decryptStep C signal sink cryptoKey metadata chunkIndex mode s =
     (case assertNotAborted signal s of
        (Inl e, s1) \<Rightarrow> (Inl e, s1)
      | (Inr _, s1) \<Rightarrow>
          let chunkLength = plaintextChunkLength metadata chunkIndex;
              encryptedChunkLength = chunkLength + int (dm_encryptionOverhead metadata)
          in case readFrame signal (dm_encryptedSize metadata) encryptedChunkLength s1 of
               (Inl e, s2) \<Rightarrow> (Inl e, s2)
             | (Inr frame, s2) \<Rightarrow>
                 (case decryptFrame C cryptoKey frame metadata chunkIndex chunkLength mode of
                    Inl e \<Rightarrow> (Inl e, s2)
                  | Inr (plaintext, mode') \<Rightarrow>
                      if int (length plaintext) \<noteq> chunkLength then (Inl invalid_chunk_size, s2)
                      else (case assertNotAborted signal s2 of
                              (Inl e, s3) \<Rightarrow> (Inl e, s3)
                            | (Inr _, s3) \<Rightarrow>
                                (case writePlaintext sink plaintext s3 of
                                   (Inl e, s4) \<Rightarrow> (Inl e, s4)
                                 | (Inr _, s4) \<Rightarrow> (Inr mode', s4)))))"

fun decryptChunks ::
    "web_crypto \<Rightarrow> (nat \<Rightarrow> bool) \<Rightarrow> (nat \<Rightarrow> string option) \<Rightarrow> bytes \<Rightarrow> download_metadata \<Rightarrow> nat list \<Rightarrow>
     encryption_mode \<Rightarrow> stream_state \<Rightarrow> (client_error + encryption_mode) \<times> stream_state" where
  "decryptChunks C signal sink cryptoKey metadata [] mode s = (Inr mode, s)"
| "decryptChunks C signal sink cryptoKey metadata (i # is) mode s =
     (case decryptStep C signal sink cryptoKey metadata i mode s of
        (Inl e, s1) \<Rightarrow> (Inl e, s1)
      | (Inr mode', s1) \<Rightarrow> decryptChunks C signal sink cryptoKey metadata is mode' s1)"

definition trailing_data :: client_error where
  "trailing_data = Error ''Encrypted download contains trailing data.''"

text \<open>The last loop: everything that still comes must be empty.\<close>

function expectEnd :: "(nat \<Rightarrow> bool) \<Rightarrow> stream_state \<Rightarrow> (client_error + unit) \<times> stream_state" where
  "expectEnd signal s =
     (case assertNotAborted signal s of
        (Inl e, s1) \<Rightarrow> (Inl e, s1)
      | (Inr _, s1) \<Rightarrow>
          (case reader_read s1 of
             (Inl e, s2) \<Rightarrow> (Inl e, s2)
           | (Inr Done, s2) \<Rightarrow> (Inr (), s2)
           | (Inr (Value v), s2) \<Rightarrow>
               if v = None \<or> v = Some [] then expectEnd signal s2 else (Inl trailing_data, s2)))"
  by pat_completeness auto
termination
proof (relation "measure (\<lambda>(signal, s). length (reads s))", goal_cases)
  case 1
  then show ?case by simp
next
  case (2 signal s x s1 u z s2 x' v)
  then have "assertNotAborted signal s = (Inr u, s1)" "reader_read s1 = (Inr (Value v), s2)"
    by simp_all
  from reads_assertNotAborted [OF this(1)] reads_reader_read [OF this(2)] show ?case by simp
qed

declare expectEnd.simps [simp del]

definition finishStream ::
    "(nat \<Rightarrow> bool) \<Rightarrow> download_metadata \<Rightarrow> stream_state \<Rightarrow> (client_error + unit) \<times> stream_state" where
  "finishStream signal metadata s =
     (if buffered s \<noteq> [] then (Inl trailing_data, s)
      else (case expectEnd signal s of
              (Inl e, s1) \<Rightarrow> (Inl e, s1)
            | (Inr _, s1) \<Rightarrow>
                if receivedBytes s1 \<noteq> dm_encryptedSize metadata
                then (Inl (Error ''Encrypted download size does not match metadata.''), s1)
                else if writtenBytes s1 \<noteq> dm_plaintextSize metadata
                then (Inl (Error ''Decrypted file size does not match metadata.''), s1)
                else (Inr (), s1)))"

definition open_stream :: "bytes option list \<Rightarrow> stream_end \<Rightarrow> stream_state" where
  "open_stream vs e =
     \<lparr>reads = vs, ending = e, networkChunk = None, networkOffset = 0, receivedBytes = 0,
      writtenBytes = 0, written = [], polls = 0, cancelled = None, locked = True\<rparr>"

text \<open>The outcome and the final state: the reader is cancelled with the error, and its lock is
  given back in every case.\<close>

definition streamDecryptToFile ::
    "web_crypto \<Rightarrow> (nat \<Rightarrow> bool) \<Rightarrow> (nat \<Rightarrow> string option) \<Rightarrow> bytes \<Rightarrow> download_metadata \<Rightarrow>
     bytes option list \<Rightarrow> stream_end \<Rightarrow> (client_error + unit) \<times> stream_state" where
  "streamDecryptToFile C signal sink cryptoKey metadata source source_end =
     (let (r, s) =
            (case decryptChunks C signal sink cryptoKey metadata [0..<dm_chunkCount metadata]
                    Unknown_mode (open_stream source source_end) of
               (Inl e, s1) \<Rightarrow> (Inl e, s1)
             | (Inr _, s1) \<Rightarrow> finishStream signal metadata s1)
      in (r, s\<lparr>cancelled := (case r of Inl e \<Rightarrow> Some e | Inr _ \<Rightarrow> None), locked := False\<rparr>))"

end
