(* ===== verification/Stream_Refinement.thy ===== *)
theory Stream_Refinement
  imports Stream_Download
begin

text \<open>
  What the streaming download does, read off the bytes alone. \<open>content\<close> is the abstraction of a
  stream state, the bytes still to come whichever way the network cuts them; \<open>frames_spec\<close> and
  \<open>stream_spec\<close> are the reference that decrypts from that list. The lemmas show that the loop over
  network chunks refines it, and what holds in every run, aborted or not.
\<close>

section \<open>The bytes still to come\<close>

definition value_bytes :: "bytes option \<Rightarrow> bytes" where
  "value_bytes v = (case v of None \<Rightarrow> [] | Some b \<Rightarrow> b)"

definition content :: "stream_state \<Rightarrow> bytes" where
  "content s = buffered s @ concat (map value_bytes (reads s))"

text \<open>What reading leaves alone.\<close>

definition quiet :: "stream_state \<Rightarrow> stream_state \<Rightarrow> bool" where
  "quiet s s' \<longleftrightarrow> written s' = written s \<and> writtenBytes s' = writtenBytes s \<and> ending s' = ending s"

lemma quiet_refl [simp]: "quiet s s"
  by (simp add: quiet_def)

lemma quiet_trans [trans]: "quiet s t \<Longrightarrow> quiet t u \<Longrightarrow> quiet s u"
  by (simp add: quiet_def)

lemma assertNotAborted_cases:
  assumes "assertNotAborted signal s = (r, s1)"
  shows "quiet s s1" "content s1 = content s" "receivedBytes s1 = receivedBytes s"
    "buffered s1 = buffered s" "reads s1 = reads s" "networkChunk s1 = networkChunk s"
    "r = (if signal (polls s) then Inl AbortError else Inr ())"
  using assms polls_simps [of signal s]
  by (auto simp: assertNotAborted_def quiet_def content_def)

lemma copyBytes_cases:
  assumes "copyBytes n frame s = (frame', s1)"
  defines "k \<equiv> min (n - length frame) (length (buffered s))"
  shows "quiet s s1" "frame' = frame @ take k (content s)" "content s1 = drop k (content s)"
    "receivedBytes s1 = receivedBytes s + k" "k \<le> length (content s)"
    "reads s1 = reads s"
proof -
  have s1: "s1 = s\<lparr>networkOffset := networkOffset s + k, receivedBytes := receivedBytes s + k\<rparr>"
    and f: "frame' = frame @ take k (buffered s)"
    using assms by (auto simp: copyBytes_def Let_def)
  have "buffered s1 = drop k (buffered s)"
    by (auto simp: s1 buffered_def add.commute split: option.split)
  then show "content s1 = drop k (content s)" and "frame' = frame @ take k (content s)"
    and "k \<le> length (content s)"
    using f by (simp_all add: content_def s1 k_def)
  show "quiet s s1" "receivedBytes s1 = receivedBytes s + k" "reads s1 = reads s"
    by (simp_all add: s1 quiet_def)
qed

lemma reader_read_cases:
  assumes "reader_read s = (r, s1)" "buffered s = []"
  shows "quiet s s1" "receivedBytes s1 = receivedBytes s" "networkChunk s1 = networkChunk s"
    "buffered s1 = []"
    "r = Inr (Value v) \<Longrightarrow> content s = value_bytes v @ content s1"
    "r = Inr (Value v) \<Longrightarrow> content (s1\<lparr>networkChunk := v, networkOffset := 0\<rparr>) = content s"
    "r = Inr Done \<Longrightarrow> content s = [] \<and> ending s = Closed \<and> s1 = s"
    "r = Inl e \<Longrightarrow> content s = [] \<and> (\<exists>m. ending s = Failed m \<and> e = Rejected m) \<and> s1 = s"
  using assms
  by (auto simp: reader_read_def quiet_def content_def buffered_def value_bytes_def
      split: list.splits stream_end.splits option.splits)

section \<open>One frame\<close>

text \<open>A frame \<open>f\<close> of \<open>n\<close> bytes is complete: what it still lacked was taken from the content.\<close>

definition consumed :: "nat \<Rightarrow> bytes \<Rightarrow> stream_state \<Rightarrow> bytes \<Rightarrow> stream_state \<Rightarrow> bool" where
  "consumed n frame s f s' \<longleftrightarrow>
     (let k = n - length frame in
        k \<le> length (content s) \<and> f = frame @ take k (content s) \<and>
        content s' = drop k (content s) \<and> receivedBytes s' = receivedBytes s + k)"

lemma consumed_step:
  assumes "copyBytes n frame s = (frame', s2)" "consumed n frame' s2 f s'" "length frame \<le> n"
  shows "consumed n frame s f s'"
proof -
  note K = copyBytes_cases [OF assms(1)]
  define k where "k = min (n - length frame) (length (buffered s))"
  have f: "frame' = frame @ take k (content s)" "content s2 = drop k (content s)"
    "receivedBytes s2 = receivedBytes s + k" "k \<le> length (content s)" "k \<le> n - length frame"
    using K by (simp_all add: k_def)
  define d where "d = n - length frame - k"
  have n: "n - length frame = k + d" "n - length frame' = d" using f by (simp_all add: d_def)
  show ?thesis
    using assms(2) f(4) unfolding consumed_def Let_def n f(2,3)
    by (auto simp: f(1) take_add [of k d] add.commute [of d k])
qed

text \<open>The outcome of the loop: an unaborted run within the size gets its frame exactly when the
  content has enough bytes; otherwise it ends the way the stream ends.\<close>

definition calm :: "(nat \<Rightarrow> bool) \<Rightarrow> bool" where
  "calm signal \<longleftrightarrow> (\<forall>k. \<not> signal k)"

definition end_error :: "stream_end \<Rightarrow> client_error" where
  "end_error e =
     (case e of Closed \<Rightarrow> Error ''Encrypted download ended before the expected file size.''
      | Failed m \<Rightarrow> Rejected m)"

definition loop_outcome ::
    "(nat \<Rightarrow> bool) \<Rightarrow> nat \<Rightarrow> nat \<Rightarrow> bytes \<Rightarrow> stream_state \<Rightarrow> client_error + bytes \<Rightarrow> stream_state \<Rightarrow> bool" where
  "loop_outcome signal m n frame s r s' \<longleftrightarrow>
     quiet s s' \<and> (\<forall>f. r = Inr f \<longrightarrow> consumed n frame s f s') \<and>
     (calm signal \<and> receivedBytes s + (n - length frame) \<le> m \<longrightarrow>
        (if n - length frame \<le> length (content s) then \<exists>f. r = Inr f
         else r = Inl (end_error (ending s))))"

lemma loop_outcome_copy:
  assumes c: "copyBytes n frame s = (frame', s2)" and "loop_outcome signal m n frame' s2 r s'"
    and le: "length frame \<le> n"
  shows "loop_outcome signal m n frame s r s'"
proof -
  note K = copyBytes_cases [OF c]
  have e: "ending s2 = ending s" using K(1) by (simp add: quiet_def)
  have "quiet s s'" using assms(2) K(1) quiet_trans by (auto simp: loop_outcome_def)
  moreover have "\<forall>f. r = Inr f \<longrightarrow> consumed n frame s f s'"
    using assms(2) consumed_step [OF c _ le] by (simp add: loop_outcome_def)
  moreover obtain k where k: "length frame' = length frame + k" "k \<le> length (content s)"
    "length (content s2) = length (content s) - k" "receivedBytes s2 = receivedBytes s + k"
    "k \<le> n - length frame"
    using K(2-5) by simp
  then have "receivedBytes s2 + (n - length frame') = receivedBytes s + (n - length frame)"
    and "n - length frame' \<le> length (content s2) \<longleftrightarrow> n - length frame \<le> length (content s)"
    by arith+
  ultimately show ?thesis using assms(2) e by (simp add: loop_outcome_def)
qed

lemma loop_outcome_skip:
  assumes "quiet s t" "content t = content s" "receivedBytes t = receivedBytes s"
    "loop_outcome signal m n frame t r s'"
  shows "loop_outcome signal m n frame s r s'"
proof -
  have "quiet s s'" using assms(1,4) quiet_trans by (auto simp: loop_outcome_def)
  moreover have "ending t = ending s" using assms(1) by (simp add: quiet_def)
  ultimately show ?thesis using assms by (simp add: loop_outcome_def consumed_def)
qed

text \<open>One turn of the loop, as an equation for each of the three things it can do.\<close>

definition too_large :: client_error where
  "too_large = Error ''Encrypted download is larger than expected.''"

lemma readFrame_loop_done: "n \<le> length frame \<Longrightarrow> readFrame_loop signal m n frame s = (Inr frame, s)"
  by (simp add: readFrame_loop.simps [of _ _ _ _ s])

lemma readFrame_loop_aborted:
  "\<not> n \<le> length frame \<Longrightarrow> assertNotAborted signal s = (Inl e, s1) \<Longrightarrow>
   readFrame_loop signal m n frame s = (Inl e, s1)"
  by (simp add: readFrame_loop.simps [of _ _ _ _ s])

lemma readFrame_loop_copy:
  "\<not> n \<le> length frame \<Longrightarrow> assertNotAborted signal s = (Inr u, s1) \<Longrightarrow> buffered s1 \<noteq> [] \<Longrightarrow>
   copyBytes n frame s1 = (frame', s2) \<Longrightarrow>
   readFrame_loop signal m n frame s =
     (if receivedBytes s2 > m then (Inl too_large, s2) else readFrame_loop signal m n frame' s2)"
  by (simp add: readFrame_loop.simps [of _ _ _ _ s] too_large_def)

lemma readFrame_loop_read:
  "\<not> n \<le> length frame \<Longrightarrow> assertNotAborted signal s = (Inr u, s1) \<Longrightarrow> buffered s1 = [] \<Longrightarrow>
   reader_read s1 = (x, s2) \<Longrightarrow>
   readFrame_loop signal m n frame s =
     (case x of
        Inl e \<Rightarrow> (Inl e, s2)
      | Inr Done \<Rightarrow> (Inl (Error ''Encrypted download ended before the expected file size.''), s2)
      | Inr (Value v) \<Rightarrow>
          if v = None \<or> v = Some [] then readFrame_loop signal m n frame s2
          else (let s3 = s2\<lparr>networkChunk := v, networkOffset := 0\<rparr>;
                    (frame', s4) = copyBytes n frame s3
                in if receivedBytes s4 > m then (Inl too_large, s4)
                   else readFrame_loop signal m n frame' s4))"
  unfolding too_large_def by (simp add: readFrame_loop.simps [of _ _ _ _ s])

text \<open>A chunk that is copied: either the loop goes on, or more came than may come.\<close>

lemma copy_turn_outcome:
  assumes c: "copyBytes n frame s = (frame', s2)" and "length frame \<le> n"
    and r: "(if receivedBytes s2 > m then (Inl too_large, s2)
             else readFrame_loop signal m n frame' s2) = (r, s')"
    and IH: "\<lbrakk>\<not> receivedBytes s2 > m; readFrame_loop signal m n frame' s2 = (r, s'); length frame' \<le> n\<rbrakk>
      \<Longrightarrow> loop_outcome signal m n frame' s2 r s'"
  shows "loop_outcome signal m n frame s r s'"
proof (cases "receivedBytes s2 > m")
  case True
  note K = copyBytes_cases [OF c]
  have "\<not> receivedBytes s + (n - length frame) \<le> m" using True K(4) by simp
  then show ?thesis using True r K(1) by (auto simp: loop_outcome_def)
next
  case False
  have "length frame' \<le> n" using copyBytes_cases(2,5) [OF c] assms(2) by simp
  from loop_outcome_copy [OF c IH [OF False _ this] assms(2)] r False show ?thesis by simp
qed

lemma readFrame_loop_outcome:
  assumes "readFrame_loop signal m n frame s = (r, s')" "length frame \<le> n"
  shows "loop_outcome signal m n frame s r s'"
  using assms
proof (induction signal m n frame s arbitrary: r s' rule: readFrame_loop.induct)
  case (1 signal m n frame s)
  show ?case
  proof (cases "n \<le> length frame")
    case True
    then show ?thesis using 1(4,5) by (auto simp: readFrame_loop_done consumed_def loop_outcome_def)
  next
    case less: False
    obtain a s1 where a: "assertNotAborted signal s = (a, s1)" by fastforce
    note A = assertNotAborted_cases [OF a]
    show ?thesis
    proof (cases a)
      case (Inl e)
      then show ?thesis using 1(4) less a A(1,7)
        by (auto simp: readFrame_loop_aborted loop_outcome_def calm_def)
    next
      case (Inr u)
      note a' = a [unfolded Inr]
      have "loop_outcome signal m n frame s1 r s'"
      proof (cases "buffered s1 = []")
        case buf: False
        obtain frame' s2 where c: "copyBytes n frame s1 = (frame', s2)" by fastforce
        note r = 1(4) [unfolded readFrame_loop_copy [OF less a' buf c, of m]]
        show ?thesis
          by (rule copy_turn_outcome [OF c 1(5) r])
            (rule 1(1) [OF less a [symmetric] Inr buf c [symmetric] refl])
      next
        case buf: True
        then have nb: "\<not> buffered s1 \<noteq> []" by simp
        obtain x s2 where x: "reader_read s1 = (x, s2)" by fastforce
        note eq = readFrame_loop_read [OF less a' buf x, of m] and R = reader_read_cases [OF x buf]
        show ?thesis
        proof (cases "\<exists>v. x = Inr (Value v)")
          case False
          then show ?thesis using 1(4) eq R(1,7,8) less
            by (auto simp: loop_outcome_def end_error_def split: sum.splits read_reply.splits)
        next
          case True
          then obtain v where v: "x = Inr (Value v)" by blast
          show ?thesis
          proof (cases "v = None \<or> v = Some []")
            case True
            then have "readFrame_loop signal m n frame s2 = (r, s')" using 1(4) eq v by simp
            from 1(2) [OF less a [symmetric] Inr nb x [symmetric] v refl True this 1(5)]
            show ?thesis
              by (rule loop_outcome_skip [rotated 3])
                (use R(1,2) R(5) [OF v] True in \<open>auto simp: value_bytes_def\<close>)
          next
            case False
            define s3 where "s3 = s2\<lparr>networkChunk := v, networkOffset := 0\<rparr>"
            obtain frame' s4 where c: "copyBytes n frame s3 = (frame', s4)" by fastforce
            have r: "(if receivedBytes s4 > m then (Inl too_large, s4)
                else readFrame_loop signal m n frame' s4) = (r, s')"
              using 1(4) eq v False c by (simp add: s3_def)
            have "loop_outcome signal m n frame s3 r s'"
              by (rule copy_turn_outcome [OF c 1(5) r])
                (rule 1(3) [OF less a [symmetric] Inr nb x [symmetric] v refl False s3_def c [symmetric] refl])
            then show ?thesis
              by (rule loop_outcome_skip [rotated 3])
                (use R(1,2) R(6) [OF v] in \<open>simp_all add: s3_def quiet_def\<close>)
          qed
        qed
      qed
      then show ?thesis by (rule loop_outcome_skip [OF A(1-3)])
    qed
  qed
qed

lemma readFrame_outcome:
  assumes "readFrame signal m n s = (r, s')"
  shows "quiet s s' \<and>
    (\<forall>f. r = Inr f \<longrightarrow> 0 \<le> n \<and> consumed (nat n) [] s f s') \<and>
    (calm signal \<and> 0 \<le> n \<and> receivedBytes s + nat n \<le> m \<longrightarrow>
       (if nat n \<le> length (content s) then \<exists>f. r = Inr f else r = Inl (end_error (ending s))))"
proof (cases "n < 0")
  case True
  then show ?thesis using assms by (auto simp: readFrame_def)
next
  case False
  obtain x s1 where x: "readFrame_loop signal m (nat n) [] s = (x, s1)" by fastforce
  have L: "loop_outcome signal m (nat n) [] s x s1" by (rule readFrame_loop_outcome [OF x]) simp
  have tidy: "content (if networkChunk s1 \<noteq> None \<and> buffered s1 = []
      then s1\<lparr>networkChunk := None, networkOffset := 0\<rparr> else s1) = content s1"
    by (auto simp: content_def buffered_def)
  show ?thesis
    using assms False x L tidy
    by (auto simp: readFrame_def loop_outcome_def consumed_def quiet_def Let_def split: sum.splits)
qed

section \<open>All frames\<close>

definition frameLength :: "download_metadata \<Rightarrow> nat \<Rightarrow> int" where
  "frameLength metadata i = plaintextChunkLength metadata i + int (dm_encryptionOverhead metadata)"

text \<open>The reference: the frames of the byte list decrypted one after the other.\<close>

fun frames_spec ::
    "web_crypto \<Rightarrow> bytes \<Rightarrow> download_metadata \<Rightarrow> stream_end \<Rightarrow> nat list \<Rightarrow> encryption_mode \<Rightarrow> bytes \<Rightarrow>
     (client_error + encryption_mode \<times> bytes) \<times> bytes list" where
  "frames_spec C k md e [] mode bs = (Inr (mode, bs), [])"
| "frames_spec C k md e (i # is) mode bs =
     (if frameLength md i < 0 then (Inl RangeError, [])
      else if length bs < nat (frameLength md i) then (Inl (end_error e), [])
      else (case decryptFrame C k (take (nat (frameLength md i)) bs) md i (plaintextChunkLength md i) mode of
              Inl x \<Rightarrow> (Inl x, [])
            | Inr (plaintext, mode') \<Rightarrow>
                if int (length plaintext) \<noteq> plaintextChunkLength md i then (Inl invalid_chunk_size, [])
                else (let (r, ps) = frames_spec C k md e is mode' (drop (nat (frameLength md i)) bs)
                      in (r, plaintext # ps))))"

definition stream_spec ::
    "web_crypto \<Rightarrow> bytes \<Rightarrow> download_metadata \<Rightarrow> bytes \<Rightarrow> stream_end \<Rightarrow> (client_error + unit) \<times> bytes list" where
  "stream_spec C k md bs e =
     (let (r, ps) = frames_spec C k md e [0..<dm_chunkCount md] Unknown_mode bs in
      (case r of
         Inl x \<Rightarrow> Inl x
       | Inr (_, rest) \<Rightarrow>
           if rest \<noteq> [] then Inl trailing_data
           else (case e of
                   Failed m \<Rightarrow> Inl (Rejected m)
                 | Closed \<Rightarrow>
                     if length bs \<noteq> dm_encryptedSize md
                     then Inl (Error ''Encrypted download size does not match metadata.'')
                     else if length (concat ps) \<noteq> dm_plaintextSize md
                     then Inl (Error ''Decrypted file size does not match metadata.'')
                     else Inr ()),
       ps))"

text \<open>One pass, in every run: an error that writes nothing, or one more plaintext.\<close>

lemma decryptStep_cases:
  assumes "decryptStep C signal sink k md i mode s = (r, s')"
  obtains (failed) e where "r = Inl e" "written s' = written s" "writtenBytes s' = writtenBytes s"
  | (passed) mode' frame pt where "r = Inr mode'"
      "decryptFrame C k frame md i (plaintextChunkLength md i) mode = Inr (pt, mode')"
      "int (length pt) = plaintextChunkLength md i" "written s' = written s @ [pt]"
      "writtenBytes s' = writtenBytes s + length pt"
proof -
  obtain a s1 where a: "assertNotAborted signal s = (a, s1)" by fastforce
  obtain f s2 where f: "readFrame signal (dm_encryptedSize md)
      (plaintextChunkLength md i + int (dm_encryptionOverhead md)) s1 = (f, s2)" by fastforce
  obtain b s3 where b: "assertNotAborted signal s2 = (b, s3)" by fastforce
  have q: "quiet s s1" "quiet s s2" "quiet s s3"
    using assertNotAborted_cases(1) [OF a] readFrame_outcome [OF f] assertNotAborted_cases(1) [OF b]
      quiet_trans by blast+
  show ?thesis
    using assms a f b q failed passed
    by (auto simp: decryptStep_def Let_def writePlaintext_def quiet_def
        split: sum.splits if_splits option.splits prod.splits)
qed

text \<open>One pass of a run that is not aborted and whose writes are accepted.\<close>

lemma decryptStep_calm:
  assumes st: "decryptStep C signal (\<lambda>_. None) k md i mode s = (r, s')" and calm: "calm signal"
    and fits: "0 \<le> frameLength md i" "receivedBytes s + nat (frameLength md i) \<le> dm_encryptedSize md"
  defines "n \<equiv> nat (frameLength md i)"
  shows "ending s' = ending s \<and>
    (if length (content s) < n
     then r = Inl (end_error (ending s)) \<and> written s' = written s
     else (case decryptFrame C k (take n (content s)) md i (plaintextChunkLength md i) mode of
             Inl x \<Rightarrow> r = Inl x \<and> written s' = written s
           | Inr (pt, mode') \<Rightarrow>
               if int (length pt) \<noteq> plaintextChunkLength md i
               then r = Inl invalid_chunk_size \<and> written s' = written s
               else r = Inr mode' \<and> written s' = written s @ [pt] \<and>
                 writtenBytes s' = writtenBytes s + length pt \<and>
                 content s' = drop n (content s) \<and> receivedBytes s' = receivedBytes s + n))"
proof -
  obtain a s1 where a: "assertNotAborted signal s = (a, s1)" by fastforce
  note A = assertNotAborted_cases [OF a]
  have a': "a = Inr ()" using A(7) calm by (simp add: calm_def)
  obtain f s2 where f: "readFrame signal (dm_encryptedSize md)
      (plaintextChunkLength md i + int (dm_encryptionOverhead md)) s1 = (f, s2)" by fastforce
  have F: "quiet s1 s2" "\<And>x. f = Inr x \<Longrightarrow> consumed n [] s x s2"
    "if n \<le> length (content s) then \<exists>x. f = Inr x else f = Inl (end_error (ending s))"
    using readFrame_outcome [OF f] calm fits A(1-3)
    by (simp_all add: n_def frameLength_def consumed_def quiet_def split: if_splits)
  obtain b s3 where b: "assertNotAborted signal s2 = (b, s3)" by fastforce
  note B = assertNotAborted_cases [OF b]
  have b': "b = Inr ()" using B(7) calm by (simp add: calm_def)
  have eq: "(case f of Inl e \<Rightarrow> (Inl e, s2)
      | Inr frame \<Rightarrow>
          (case decryptFrame C k frame md i (plaintextChunkLength md i) mode of
             Inl e \<Rightarrow> (Inl e, s2)
           | Inr (pt, mode') \<Rightarrow>
               if int (length pt) \<noteq> plaintextChunkLength md i then (Inl invalid_chunk_size, s2)
               else (Inr mode', s3\<lparr>written := written s3 @ [pt],
                   writtenBytes := writtenBytes s3 + length pt\<rparr>))) = (r, s')"
    using st by (simp add: decryptStep_def a a' f b b' writePlaintext_def Let_def
        cong: sum.case_cong prod.case_cong if_cong)
  have q: "quiet s s2" "quiet s s3" using A(1) F(1) B(1) quiet_trans by blast+
  show ?thesis
  proof (cases "n \<le> length (content s)")
    case True
    then obtain x where x: "f = Inr x" using F(3) by auto
    have c: "x = take n (content s)" "content s2 = drop n (content s)"
      "receivedBytes s2 = receivedBytes s + n"
      using F(2) [OF x] by (simp_all add: consumed_def)
    have w: "content (s3\<lparr>written := ws, writtenBytes := m\<rparr>) = content s3" for ws m
      by (simp add: content_def buffered_def cong: option.case_cong)
    show ?thesis
      using eq True x c q B(2,3) w by (auto simp: quiet_def split: sum.splits prod.splits if_splits)
  next
    case False
    then show ?thesis using eq F(3) q by (auto simp: quiet_def)
  qed
qed

lemma decryptChunks_calm:
  assumes "decryptChunks C signal (\<lambda>_. None) k md is mode s = (r, s')" "calm signal"
    and "\<forall>i \<in> set is. 0 \<le> frameLength md i"
    and "receivedBytes s + sum_list (map (\<lambda>i. nat (frameLength md i)) is) \<le> dm_encryptedSize md"
    and "frames_spec C k md (ending s) is mode (content s) = (r0, ps)"
  shows "ending s' = ending s \<and> written s' = written s @ ps \<and>
    (case r0 of
       Inl x \<Rightarrow> r = Inl x
     | Inr (mode', rest) \<Rightarrow> r = Inr mode' \<and> content s' = rest \<and>
         writtenBytes s' = writtenBytes s + length (concat ps) \<and>
         receivedBytes s' + length rest = receivedBytes s + length (content s))"
  using assms
proof (induction "is" arbitrary: mode s r0 ps)
  case Nil
  then show ?case by auto
next
  case (Cons i "is")
  define n where "n = nat (frameLength md i)"
  obtain r1 s1 where st: "decryptStep C signal (\<lambda>_. None) k md i mode s = (r1, s1)" by fastforce
  have fits: "0 \<le> frameLength md i" "receivedBytes s + n \<le> dm_encryptedSize md"
    using Cons.prems(3,4) by (simp_all add: n_def)
  note S = decryptStep_calm [OF st Cons.prems(2) fits(1) fits(2) [unfolded n_def], folded n_def]
  let ?d = "decryptFrame C k (take n (content s)) md i (plaintextChunkLength md i) mode"
  show ?case
  proof (cases "\<exists>pt mode'. \<not> length (content s) < n \<and> ?d = Inr (pt, mode') \<and>
      int (length pt) = plaintextChunkLength md i")
    case False
    then show ?thesis
      using S Cons.prems(1,5) st fits(1)
      by (auto simp: n_def [symmetric] split: sum.splits prod.splits if_splits)
  next
    case True
    then obtain pt mode' where d: "\<not> length (content s) < n" "?d = Inr (pt, mode')"
      "int (length pt) = plaintextChunkLength md i" by blast
    then have s1: "r1 = Inr mode'" "written s1 = written s @ [pt]" "ending s1 = ending s"
      "writtenBytes s1 = writtenBytes s + length pt" "content s1 = drop n (content s)"
      "receivedBytes s1 = receivedBytes s + n"
      using S by simp_all
    obtain ps' where ps': "frames_spec C k md (ending s1) is mode' (content s1) = (r0, ps')"
        "ps = pt # ps'"
      using Cons.prems(5) d fits(1) s1(3,5) by (auto simp: n_def [symmetric] split: prod.splits)
    have "decryptChunks C signal (\<lambda>_. None) k md is mode' s1 = (r, s')"
      using Cons.prems(1) st s1(1) by simp
    from Cons.IH [OF this Cons.prems(2) _ _ ps'(1)] Cons.prems(3,4) s1 ps'(2) d(1)
    show ?thesis by (auto simp: n_def [symmetric] split: sum.splits prod.splits)
  qed
qed

section \<open>The end of the stream\<close>

lemma expectEnd_outcome:
  assumes "expectEnd signal s = (r, s')" "buffered s = []"
  shows "quiet s s' \<and> receivedBytes s' = receivedBytes s \<and>
    (calm signal \<longrightarrow> r = (if content s \<noteq> [] then Inl trailing_data
       else (case ending s of Closed \<Rightarrow> Inr () | Failed m \<Rightarrow> Inl (Rejected m))))"
  using assms
proof (induction signal s arbitrary: r s' rule: expectEnd.induct)
  case (1 signal s)
  obtain a s1 where a: "assertNotAborted signal s = (a, s1)" by fastforce
  note A = assertNotAborted_cases [OF a]
  obtain x s2 where x: "reader_read s1 = (x, s2)" by fastforce
  have b: "buffered s1 = []" using A(4) 1(3) by simp
  note R = reader_read_cases [OF x b]
  have eq: "(case a of Inl e \<Rightarrow> (Inl e, s1)
      | Inr _ \<Rightarrow> (case x of
          Inl e \<Rightarrow> (Inl e, s2)
        | Inr Done \<Rightarrow> (Inr (), s2)
        | Inr (Value v) \<Rightarrow>
            if v = None \<or> v = Some [] then expectEnd signal s2 else (Inl trailing_data, s2))) = (r, s')"
    using 1(2) a x by (auto simp: expectEnd.simps [of _ s] split: sum.splits read_reply.splits)
  show ?case
  proof (cases "\<exists>v. a = Inr () \<and> x = Inr (Value v) \<and> (v = None \<or> v = Some [])")
    case True
    then obtain v where v: "a = Inr ()" "x = Inr (Value v)" "v = None \<or> v = Some []" by blast
    have "expectEnd signal s2 = (r, s')" using eq v by auto
    from 1(1) [OF a [symmetric] v(1) x [symmetric] v(2) refl v(3) this R(4)]
    have IH: "quiet s2 s' \<and> receivedBytes s' = receivedBytes s2 \<and>
      (calm signal \<longrightarrow> r = (if content s2 \<noteq> [] then Inl trailing_data
         else (case ending s2 of Closed \<Rightarrow> Inr () | Failed m \<Rightarrow> Inl (Rejected m))))" .
    have "content s2 = content s" using R(5) [OF v(2)] A(2) v(3) by (auto simp: value_bytes_def)
    then show ?thesis using IH A(1,3) R(1,2) by (simp add: quiet_def)
  next
    case False
    then show ?thesis
      using eq A R(1,2,7,8) R(5)
      by (auto simp: quiet_def calm_def value_bytes_def split: sum.splits read_reply.splits if_splits)
  qed
qed

end
