(* ===== verification/Download_Client.thy ===== *)
theory Download_Client
  imports Stream_Refinement
begin

text \<open>
  \<^verbatim>\<open>services/DownloadService.ts\<close>: what the browser accepts as the metadata of a shared file, and
  the file name it offers for saving. A value of the type \<open>unknown\<close> is a \<open>js_value\<close>; numbers that
  are not integers (fractions, \<open>NaN\<close>, infinities) are one constructor, since the code tells them
  apart from integers only.
\<close>

datatype js_value =
    Js_undefined
  | Js_null
  | Js_bool bool
  | Js_int int
  | Js_fraction
  | Js_string string
  | Js_object "(string \<times> js_value) list"

definition js_get :: "(string \<times> js_value) list \<Rightarrow> string \<Rightarrow> js_value" where
  "js_get props name = (case map_of props name of None \<Rightarrow> Js_undefined | Some v \<Rightarrow> v)"

definition MAX_PLAINTEXT_FILE_SIZE :: nat where
  "MAX_PLAINTEXT_FILE_SIZE = 50 * 1024 * 1024 * 1024"

definition MAX_FILE_CHUNKS :: nat where
  "MAX_FILE_CHUNKS = (MAX_PLAINTEXT_FILE_SIZE + FILE_CHUNK_SIZE - 1) div FILE_CHUNK_SIZE"

definition isSafeInteger :: "js_value \<Rightarrow> bool" where
  "isSafeInteger v = (case v of Js_int n \<Rightarrow> \<bar>n\<bar> \<le> 2 ^ 53 - 1 | _ \<Rightarrow> False)"

definition requireSafeInteger :: "js_value \<Rightarrow> string \<Rightarrow> nat \<Rightarrow> nat \<Rightarrow> client_error + nat" where
  "requireSafeInteger v name lo hi =
     (case v of
        Js_int n \<Rightarrow>
          if \<not> isSafeInteger v \<or> n < int lo \<or> n > int hi
          then Inl (Error (''Invalid '' @ name @ '' in download metadata.'')) else Inr (nat n)
      | _ \<Rightarrow> Inl (Error (''Invalid '' @ name @ '' in download metadata.'')))"

definition requireString :: "js_value \<Rightarrow> string \<Rightarrow> nat \<Rightarrow> client_error + string" where
  "requireString v name maxLength =
     (case v of
        Js_string s \<Rightarrow>
          if length s < 1 \<or> length s > maxLength
          then Inl (Error (''Invalid '' @ name @ '' in download metadata.'')) else Inr s
      | _ \<Rightarrow> Inl (Error (''Invalid '' @ name @ '' in download metadata.'')))"

text \<open>\<open>try\<close> runs the next check where the last one passed.\<close>

definition passes :: "'e + 'a \<Rightarrow> ('a \<Rightarrow> 'e + 'b) \<Rightarrow> 'e + 'b" where
  "passes r f = (case r of Inl e \<Rightarrow> Inl e | Inr x \<Rightarrow> f x)"

lemma passes_simps [simp]:
  "passes (Inl e) f = Inl e"
  "passes (Inr x) f = f x"
  by (simp_all add: passes_def)

lemma passes_Inr_iff: "passes r f = Inr y \<longleftrightarrow> (\<exists>x. r = Inr x \<and> f x = Inr y)"
  by (cases r) simp_all

definition checkGeometry ::
    "js_value \<Rightarrow> nat \<Rightarrow> nat \<Rightarrow> nat \<Rightarrow> nat \<Rightarrow> nat \<Rightarrow> client_error + unit" where
  "checkGeometry format plaintextSize chunkSize chunkCount encryptionOverhead encryptedSize =
     (if chunkSize \<noteq> FILE_CHUNK_SIZE \<or> encryptionOverhead \<noteq> FILE_ENCRYPTION_OVERHEAD
      then Inl (Error ''Unsupported encrypted file geometry.'')
      else if chunkCount \<noteq> (plaintextSize + chunkSize - 1) div chunkSize
      then Inl (Error ''Inconsistent encrypted chunk count.'')
      else if encryptedSize \<noteq> plaintextSize + chunkCount * encryptionOverhead
      then Inl (Error ''Inconsistent encrypted file size.'')
      else if format \<noteq> Js_string FILE_STREAM_FORMAT
      then Inl (Error ''Unsupported encrypted file format.'')
      else Inr ())"

definition validateDownloadMetadata :: "js_value \<Rightarrow> client_error + download_metadata" where
  "validateDownloadMetadata v =
     (case v of
        Js_object raw \<Rightarrow>
          passes (requireSafeInteger (js_get raw ''plaintextSize'') ''plaintext size'' 1
                    MAX_PLAINTEXT_FILE_SIZE) (\<lambda>plaintextSize.
          passes (requireSafeInteger (js_get raw ''chunkSize'') ''chunk size'' 1 FILE_CHUNK_SIZE)
            (\<lambda>chunkSize.
          passes (requireSafeInteger (js_get raw ''chunkCount'') ''chunk count'' 1 MAX_FILE_CHUNKS)
            (\<lambda>chunkCount.
          passes (requireSafeInteger (js_get raw ''encryptionOverhead'') ''encryption overhead'' 1 1024)
            (\<lambda>encryptionOverhead.
          passes (requireSafeInteger (js_get raw ''encryptedSize'') ''encrypted size'' 1
                    (MAX_PLAINTEXT_FILE_SIZE + MAX_FILE_CHUNKS * FILE_ENCRYPTION_OVERHEAD))
            (\<lambda>encryptedSize.
          passes (checkGeometry (js_get raw ''format'') plaintextSize chunkSize chunkCount
                    encryptionOverhead encryptedSize) (\<lambda>_.
          case js_get raw ''passwordProtected'' of
            Js_bool passwordProtected \<Rightarrow>
              passes (requireString (js_get raw ''fileName'') ''filename'' 100) (\<lambda>fileName.
              passes (requireString (js_get raw ''mimeType'') ''MIME type'' 100) (\<lambda>mimeType.
              Inr \<lparr>dm_fileName = fileName, dm_mimeType = mimeType, dm_plaintextSize = plaintextSize,
                   dm_encryptedSize = encryptedSize, dm_chunkSize = chunkSize,
                   dm_chunkCount = chunkCount, dm_encryptionOverhead = encryptionOverhead,
                   dm_format = FILE_STREAM_FORMAT, dm_passwordProtected = passwordProtected\<rparr>))
          | _ \<Rightarrow> Inl (Error ''Invalid password metadata.'')))))))
      | _ \<Rightarrow> Inl (Error ''Download metadata is missing.''))"

text \<open>The JSON of the \<open>result\<close> with which \<open>getDownloadMetadata\<close> answers.\<close>

definition metadata_json :: "download_metadata \<Rightarrow> js_value" where
  "metadata_json m =
     Js_object [(''fileName'', Js_string (dm_fileName m)), (''mimeType'', Js_string (dm_mimeType m)),
       (''plaintextSize'', Js_int (int (dm_plaintextSize m))),
       (''encryptedSize'', Js_int (int (dm_encryptedSize m))),
       (''chunkSize'', Js_int (int (dm_chunkSize m))), (''chunkCount'', Js_int (int (dm_chunkCount m))),
       (''encryptionOverhead'', Js_int (int (dm_encryptionOverhead m))),
       (''format'', Js_string (dm_format m)), (''passwordProtected'', Js_bool (dm_passwordProtected m))]"

section \<open>File names\<close>

definition unsafe_char :: "char \<Rightarrow> bool" where
  "unsafe_char c \<longleftrightarrow> of_char c \<le> (31 :: nat) \<or> of_char c = (127 :: nat)"

definition reserved_char :: "char \<Rightarrow> bool" where
  "reserved_char c \<longleftrightarrow> c \<in> set ''/:*?<>|'' \<or> c = CHR 0x5C \<or> c = CHR 0x22"

definition strip_dots :: "string \<Rightarrow> string" where
  "strip_dots s = rev (dropWhile (\<lambda>c. c = CHR ''.'' \<or> c = CHR '' '') (rev s))"

definition sanitizeDownloadFileName :: "string \<Rightarrow> string" where
  "sanitizeDownloadFileName suggestedName =
     (let name = take 100 (strip_dots (map (\<lambda>c. if reserved_char c then CHR ''_'' else c)
                   (map (\<lambda>c. if unsafe_char c then CHR ''_'' else c) suggestedName)))
      in if name = [] then ''download'' else name)"

section \<open>What validated metadata says\<close>

definition geometry :: "download_metadata \<Rightarrow> bool" where
  "geometry m \<longleftrightarrow>
     1 \<le> dm_plaintextSize m \<and> dm_plaintextSize m \<le> MAX_PLAINTEXT_FILE_SIZE \<and>
     dm_chunkSize m = FILE_CHUNK_SIZE \<and> dm_encryptionOverhead m = FILE_ENCRYPTION_OVERHEAD \<and>
     dm_chunkCount m = (dm_plaintextSize m + FILE_CHUNK_SIZE - 1) div FILE_CHUNK_SIZE \<and>
     dm_encryptedSize m = dm_plaintextSize m + dm_chunkCount m * FILE_ENCRYPTION_OVERHEAD \<and>
     dm_format m = FILE_STREAM_FORMAT"

lemma requireSafeInteger_Inr:
  "requireSafeInteger v name lo hi = Inr n \<longleftrightarrow>
     (\<exists>i. v = Js_int i \<and> \<bar>i\<bar> \<le> 2 ^ 53 - 1 \<and> int lo \<le> i \<and> i \<le> int hi \<and> n = nat i)"
  by (auto simp: requireSafeInteger_def isSafeInteger_def split: js_value.splits)

lemma checkGeometry_Inr:
  "checkGeometry f p c k v e = Inr u \<longleftrightarrow>
     c = FILE_CHUNK_SIZE \<and> v = FILE_ENCRYPTION_OVERHEAD \<and> k = (p + c - 1) div c \<and>
     e = p + k * v \<and> f = Js_string FILE_STREAM_FORMAT"
  by (auto simp: checkGeometry_def)

lemma case_bool_Inr:
  "(case w of Js_bool b \<Rightarrow> f b | _ \<Rightarrow> Inl e) = Inr y \<longleftrightarrow> (\<exists>b. w = Js_bool b \<and> f b = Inr y)"
  by (cases w) simp_all

lemma case_object_Inr:
  "(case w of Js_object raw \<Rightarrow> f raw | _ \<Rightarrow> Inl e) = Inr y \<longleftrightarrow>
     (\<exists>raw. w = Js_object raw \<and> f raw = Inr y)"
  by (cases w) simp_all

lemma validated_fields:
  assumes "validateDownloadMetadata v = Inr m"
  obtains p s f where
    "requireSafeInteger p ''plaintext size'' 1 MAX_PLAINTEXT_FILE_SIZE = Inr (dm_plaintextSize m)"
    "requireSafeInteger s ''encrypted size'' 1
       (MAX_PLAINTEXT_FILE_SIZE + MAX_FILE_CHUNKS * FILE_ENCRYPTION_OVERHEAD) = Inr (dm_encryptedSize m)"
    "checkGeometry f (dm_plaintextSize m) (dm_chunkSize m) (dm_chunkCount m)
       (dm_encryptionOverhead m) (dm_encryptedSize m) = Inr ()"
    "dm_format m = FILE_STREAM_FORMAT"
  using assms
  by (auto simp: validateDownloadMetadata_def passes_Inr_iff case_bool_Inr case_object_Inr
      simp del: One_nat_def)

lemma validated_geometry:
  assumes "validateDownloadMetadata v = Inr m"
  shows "geometry m"
  using assms
  by (elim validated_fields) (auto simp: requireSafeInteger_Inr checkGeometry_Inr geometry_def)

end
