(* ===== verification/Stream_Properties.thy ===== *)
theory Stream_Properties
  imports Download_Client
begin

text \<open>
  The properties of the download in the browser: how the network cuts the stream does not matter;
  a file that was encrypted by the upload panel comes back as it was; and, whatever the server
  sends, nothing but a prefix of the uploaded file is written.
\<close>

section \<open>Sizes\<close>

lemma plaintextChunkLength_slice:
  assumes "geometry m" "i < dm_chunkCount m"
  shows "plaintextChunkLength m i =
      int (min FILE_CHUNK_SIZE (dm_plaintextSize m - i * FILE_CHUNK_SIZE))"
    and "i * FILE_CHUNK_SIZE < dm_plaintextSize m"
proof -
  have "i < upload_chunks (replicate (dm_plaintextSize m) 0)"
    using assms by (simp add: geometry_def upload_chunks_def)
  from upload_slice_nonempty [OF this] show le: "i * FILE_CHUNK_SIZE < dm_plaintextSize m" by simp
  then have "int (dm_plaintextSize m) - int i * int FILE_CHUNK_SIZE =
      int (dm_plaintextSize m - i * FILE_CHUNK_SIZE)"
    by (simp add: of_nat_diff)
  then show "plaintextChunkLength m i =
      int (min FILE_CHUNK_SIZE (dm_plaintextSize m - i * FILE_CHUNK_SIZE))"
    using assms(1) by (simp add: plaintextChunkLength_def geometry_def)
qed

lemma chunkCount_enough:
  assumes "geometry m"
  shows "dm_plaintextSize m \<le> dm_chunkCount m * FILE_CHUNK_SIZE"
  using assms upload_chunks_enough [of "replicate (dm_plaintextSize m) 0"]
  by (simp add: geometry_def upload_chunks_def)

lemma chunkCount_pos:
  assumes "geometry m"
  shows "0 < dm_chunkCount m"
  using assms chunkCount_enough [OF assms] by (cases "dm_chunkCount m") (auto simp: geometry_def)

lemma frameLength_nonneg: "geometry m \<Longrightarrow> i < dm_chunkCount m \<Longrightarrow> 0 \<le> frameLength m i"
  by (simp add: frameLength_def plaintextChunkLength_slice(1))

text \<open>The plaintext lengths of the first \<open>n\<close> chunks add up to what they cover.\<close>

lemma sum_chunk_lengths:
  "sum_list (map (\<lambda>i. min c (p - i * c)) [0..<n]) = min (n * c) (p :: nat)"
proof (induction n)
  case 0
  then show ?case by simp
next
  case (Suc n)
  have "min x p + min c (p - x) = min (c + x) p" for x by arith
  from this [of "n * c"] show ?case by (simp add: Suc.IH)
qed

lemma sum_frame_lengths:
  assumes "geometry m"
  shows "sum_list (map (\<lambda>i. nat (frameLength m i)) [0..<dm_chunkCount m]) = dm_encryptedSize m"
proof -
  let ?c = FILE_CHUNK_SIZE and ?n = "dm_chunkCount m" and ?p = "dm_plaintextSize m"
  have eq: "map (\<lambda>i. nat (frameLength m i)) [0..<?n] =
      map (\<lambda>i. min ?c (?p - i * ?c) + FILE_ENCRYPTION_OVERHEAD) [0..<?n]"
  proof (rule map_cong [OF refl])
    fix i assume "i \<in> set [0..<?n]"
    then show "nat (frameLength m i) = min ?c (?p - i * ?c) + FILE_ENCRYPTION_OVERHEAD"
      using assms plaintextChunkLength_slice(1) [OF assms, of i]
      by (simp add: frameLength_def geometry_def nat_add_distrib)
  qed
  have "sum_list (map (\<lambda>i. nat (frameLength m i)) [0..<?n]) =
      min (?n * ?c) ?p + ?n * FILE_ENCRYPTION_OVERHEAD"
    unfolding eq by (simp add: sum_list_addf sum_chunk_lengths sum_list_triv)
  moreover note chunkCount_enough [OF assms]
  ultimately show ?thesis using assms by (simp add: geometry_def)
qed

section \<open>Any chunking\<close>

lemma streamDecryptToFile_spec:
  assumes m: "geometry m" and calm: "calm signal"
    and run: "streamDecryptToFile C signal (\<lambda>_. None) k m source e = (r, s)"
  defines "bs \<equiv> concat (map value_bytes source)"
  shows "r = fst (stream_spec C k m bs e) \<and> written s = snd (stream_spec C k m bs e) \<and>
    locked s = False \<and> cancelled s = (case r of Inl x \<Rightarrow> Some x | Inr _ \<Rightarrow> None)"
proof -
  let ?is = "[0..<dm_chunkCount m]" and ?s0 = "open_stream source e"
  have s0: "content ?s0 = bs" "receivedBytes ?s0 = 0" "ending ?s0 = e" "written ?s0 = []"
    "writtenBytes ?s0 = 0"
    by (simp_all add: open_stream_def content_def buffered_def bs_def)
  obtain r1 s1 where d: "decryptChunks C signal (\<lambda>_. None) k m ?is Unknown_mode ?s0 = (r1, s1)"
    by fastforce
  obtain r0 ps where f: "frames_spec C k m e ?is Unknown_mode bs = (r0, ps)" by fastforce
  have D: "ending s1 = e \<and> written s1 = ps \<and>
    (case r0 of
       Inl x \<Rightarrow> r1 = Inl x
     | Inr (mode', rest) \<Rightarrow> r1 = Inr mode' \<and> content s1 = rest \<and>
         writtenBytes s1 = length (concat ps) \<and> receivedBytes s1 + length rest = length bs)"
    using decryptChunks_calm [OF d calm, of r0 ps] frameLength_nonneg [OF m] sum_frame_lengths [OF m]
      f by (auto simp: s0 split: sum.splits)
  have run': "(r, s) = (let (r, s) = (case r1 of Inl x \<Rightarrow> (Inl x, s1) | Inr _ \<Rightarrow> finishStream signal m s1)
      in (r, s\<lparr>cancelled := (case r of Inl x \<Rightarrow> Some x | Inr _ \<Rightarrow> None), locked := False\<rparr>))"
    using run d by (simp add: streamDecryptToFile_def)
  show ?thesis
  proof (cases r0)
    case (Inl x)
    then show ?thesis using D run' f by (simp add: stream_spec_def)
  next
    case (Inr p)
    obtain mode' rest where p: "p = (mode', rest)" by fastforce
    have S: "r1 = Inr mode'" "content s1 = rest" "writtenBytes s1 = length (concat ps)"
      "receivedBytes s1 + length rest = length bs" "ending s1 = e" "written s1 = ps"
      using D Inr p by simp_all
    have spec: "stream_spec C k m bs e =
        (if rest \<noteq> [] then Inl trailing_data
         else (case e of
                 Failed m \<Rightarrow> Inl (Rejected m)
               | Closed \<Rightarrow>
                   if length bs \<noteq> dm_encryptedSize m
                   then Inl (Error ''Encrypted download size does not match metadata.'')
                   else if length (concat ps) \<noteq> dm_plaintextSize m
                   then Inl (Error ''Decrypted file size does not match metadata.'')
                   else Inr ()), ps)"
      using f Inr p by (simp add: stream_spec_def)
    show ?thesis
    proof (cases "buffered s1 = []")
      case False
      then have "rest \<noteq> []" using S(2) by (auto simp: content_def)
      then show ?thesis using False S run' spec by (simp add: finishStream_def)
    next
      case True
      obtain x s2 where x: "expectEnd signal s1 = (x, s2)" by fastforce
      have "quiet s1 s2" "receivedBytes s2 = receivedBytes s1"
        "x = (if rest \<noteq> [] then Inl trailing_data
          else (case e of Closed \<Rightarrow> Inr () | Failed m \<Rightarrow> Inl (Rejected m)))"
        using expectEnd_outcome [OF x True] calm S(2,5) by simp_all
      then show ?thesis
        using S run' spec True x
        by (auto simp: finishStream_def quiet_def split: stream_end.splits)
    qed
  qed
qed

section \<open>Whatever the server sends\<close>

text \<open>A file key opens nothing but the chunks that were sealed with it (authenticity of
  AES-GCM, as the ideal).\<close>

definition opens_only_chunks :: "web_crypto \<Rightarrow> bytes \<Rightarrow> bytes \<Rightarrow> bool" where
  "opens_only_chunks C k file \<longleftrightarrow>
     (\<forall>iv aad ct pt. wc_decrypt C k iv aad ct = Some pt \<longrightarrow>
        (\<exists>i < upload_chunks file. aad = Some (upload_aad file i) \<and> pt = upload_slice file i))"

lemma decryptChunk_sealed:
  "opens_only_chunks C k file \<Longrightarrow> decryptChunk C k frame aad = Inr pt \<Longrightarrow>
   \<exists>i < upload_chunks file. aad = Some (upload_aad file i) \<and> pt = upload_slice file i"
  by (auto simp: decryptChunk_def opens_only_chunks_def split: if_splits option.splits)

lemma decryptFrame_sealed:
  assumes "opens_only_chunks C k file" "mode \<noteq> Legacy_v1"
    "decryptFrame C k frame m i n mode = Inr (pt, mode')"
  shows "mode' = Authenticated_v2 \<and>
    (\<exists>j < upload_chunks file. frame_aad m i n = upload_aad file j \<and> pt = upload_slice file j)"
proof -
  have none: "decryptChunk C k frame None \<noteq> Inr x" for x
    using decryptChunk_sealed [OF assms(1)] by blast
  show ?thesis
    using assms(2,3) none decryptChunk_sealed [OF assms(1), of frame "Some (frame_aad m i n)"]
    by (cases mode) (auto simp: decryptFrame_def with_mode_def Let_def split: sum.splits if_splits)
qed

lemma chunk_limits:
  assumes "geometry m" "i < dm_chunkCount m"
  shows "dm_chunkCount m \<le> 1024" "aad_fits \<lparr>aad_fileSize = int (dm_plaintextSize m),
    aad_chunkSize = int (dm_chunkSize m), aad_totalChunks = int (dm_chunkCount m),
    aad_chunkIndex = int i, aad_plaintextChunkLength = plaintextChunkLength m i\<rparr>"
proof -
  have c: "FILE_CHUNK_SIZE = 52428800" by (simp add: FILE_CHUNK_SIZE_def)
  have p: "dm_plaintextSize m \<le> 53687091200" and n: "dm_chunkCount m = (dm_plaintextSize m + 52428799) div 52428800"
    using assms(1) by (simp_all add: geometry_def MAX_PLAINTEXT_FILE_SIZE_def c)
  then have "dm_chunkCount m \<le> (53687091200 + 52428799) div 52428800" by (simp only: div_le_mono add_le_mono1)
  then show le: "dm_chunkCount m \<le> 1024" by simp
  show "aad_fits \<lparr>aad_fileSize = int (dm_plaintextSize m),
    aad_chunkSize = int (dm_chunkSize m), aad_totalChunks = int (dm_chunkCount m),
    aad_chunkIndex = int i, aad_plaintextChunkLength = plaintextChunkLength m i\<rparr>"
    using p le assms plaintextChunkLength_slice(1) [OF assms]
    by (simp add: aad_fits_def geometry_def c)
qed

text \<open>The metadata of an upload, as its panel computes it: a way to say \<open>upload_aad\<close>.\<close>

definition upload_metadata :: "bytes \<Rightarrow> download_metadata" where
  "upload_metadata file =
     \<lparr>dm_fileName = [], dm_mimeType = [], dm_plaintextSize = length file,
      dm_encryptedSize = length file + upload_chunks file * FILE_ENCRYPTION_OVERHEAD,
      dm_chunkSize = FILE_CHUNK_SIZE, dm_chunkCount = upload_chunks file,
      dm_encryptionOverhead = FILE_ENCRYPTION_OVERHEAD, dm_format = FILE_STREAM_FORMAT,
      dm_passwordProtected = False\<rparr>"

definition uploadable :: "bytes \<Rightarrow> bool" where
  "uploadable file \<longleftrightarrow> file \<noteq> [] \<and> length file \<le> MAX_PLAINTEXT_FILE_SIZE"

lemma upload_geometry: "uploadable file \<Longrightarrow> geometry (upload_metadata file)"
  by (auto simp: uploadable_def geometry_def upload_metadata_def upload_chunks_def Suc_le_eq)

lemma upload_aad_frame_aad:
  assumes "uploadable file" "i < upload_chunks file"
  shows "upload_aad file i = frame_aad (upload_metadata file) i (plaintextChunkLength (upload_metadata file) i)"
    and "int (length (upload_slice file i)) = plaintextChunkLength (upload_metadata file) i"
proof -
  show "int (length (upload_slice file i)) = plaintextChunkLength (upload_metadata file) i"
    using plaintextChunkLength_slice(1) [OF upload_geometry [OF assms(1)], of i] assms(2)
      length_upload_slice(1) [OF assms(2)]
    by (simp add: upload_metadata_def)
  then show "upload_aad file i =
      frame_aad (upload_metadata file) i (plaintextChunkLength (upload_metadata file) i)"
    by (simp add: upload_aad_def frame_aad_def upload_metadata_def)
qed

lemma frame_aad_names_chunk:
  assumes "geometry m" "i < dm_chunkCount m" "uploadable file" "j < upload_chunks file"
    and "frame_aad m i (plaintextChunkLength m i) = upload_aad file j"
  shows "i = j \<and> dm_chunkCount m = upload_chunks file"
proof -
  let ?u = "upload_metadata file"
  have g: "geometry ?u" "j < dm_chunkCount ?u"
    using upload_geometry [OF assms(3)] assms(4) by (simp_all add: upload_metadata_def)
  show ?thesis
    using createFileChunkAad_inj [OF _ chunk_limits(2) [OF assms(1,2)] chunk_limits(2) [OF g]]
      assms(5) upload_aad_frame_aad(1) [OF assms(3,4)]
    by (simp add: frame_aad_def upload_metadata_def)
qed

lemma decryptChunks_sealed:
  assumes "opens_only_chunks C k file" "uploadable file" "geometry m" "mode \<noteq> Legacy_v1"
    and "i \<le> dm_chunkCount m" "written s = map (upload_slice file) [0..<i]"
    and "0 < i \<longrightarrow> dm_chunkCount m = upload_chunks file"
    and "decryptChunks C signal sink k m [i..<dm_chunkCount m] mode s = (r, s')"
  shows "\<exists>j \<le> dm_chunkCount m. written s' = map (upload_slice file) [0..<j] \<and>
    (0 < j \<longrightarrow> dm_chunkCount m = upload_chunks file) \<and> (\<forall>x. r = Inr x \<longrightarrow> j = dm_chunkCount m)"
  using assms(4-)
proof (induction "dm_chunkCount m - i" arbitrary: i mode s)
  case 0
  then show ?case by (intro exI [of _ i]) auto
next
  case (Suc n)
  then have i: "i < dm_chunkCount m" "[i..<dm_chunkCount m] = i # [Suc i..<dm_chunkCount m]"
    by (simp_all add: upt_conv_Cons)
  obtain r1 s1 where st: "decryptStep C signal sink k m i mode s = (r1, s1)" by fastforce
  from st show ?case
  proof (cases rule: decryptStep_cases)
    case (failed e)
    then show ?thesis using Suc.prems i st by (intro exI [of _ i]) auto
  next
    case (passed mode' frame pt)
    have pt: "mode' = Authenticated_v2" "pt = upload_slice file i" "dm_chunkCount m = upload_chunks file"
      using decryptFrame_sealed [OF assms(1) Suc.prems(1) passed(2)]
        frame_aad_names_chunk [OF assms(3) i(1) assms(2)] by blast+
    have "decryptChunks C signal sink k m [Suc i..<dm_chunkCount m] mode' s1 = (r, s')"
      using Suc.prems(5) i(2) st passed(1) by simp
    from Suc.hyps(1) [OF _ _ _ _ _ this] show ?thesis
      using Suc.hyps(2) Suc.prems i(1) passed(4) pt by simp
  qed
qed

lemma written_finishStream:
  "finishStream signal m s = (r, s') \<Longrightarrow> written s' = written s"
  by (auto simp: finishStream_def dest!: expectEnd_outcome simp: quiet_def
      split: if_splits sum.splits prod.splits)

section \<open>The file comes back\<close>

text \<open>What the code relies on of AES-GCM: decryption undoes encryption, the tag adds 16 bytes.\<close>

definition gcm_ok :: "web_crypto \<Rightarrow> bool" where
  "gcm_ok C \<longleftrightarrow>
     (\<forall>k iv aad pt. wc_decrypt C k iv aad (wc_encrypt C k iv aad pt) = Some pt \<and>
        length (wc_encrypt C k iv aad pt) = length pt + 16) \<and>
     (\<forall>d n. length (wc_random C d n) = n)"

lemma decryptChunk_encryptChunk:
  assumes "gcm_ok C" "pt \<noteq> []"
  shows "decryptChunk C k (encryptChunk C d k pt aad) aad = Inr pt"
    and "length (encryptChunk C d k pt aad) = length pt + FILE_ENCRYPTION_OVERHEAD"
  using assms
  by (simp_all add: gcm_ok_def decryptChunk_def encryptChunk_def Let_def FILE_ENCRYPTION_OVERHEAD_def
      FILE_GCM_TAG_LENGTH_def)

lemma frames_spec_upload:
  assumes "gcm_ok C" "uploadable file" "mode \<noteq> Legacy_v1" "i \<le> upload_chunks file"
    and "geometry m" "dm_plaintextSize m = length file"
  shows "\<exists>mode'. frames_spec C k m e [i..<upload_chunks file] mode
      (concat (map (\<lambda>i. encryptChunk C (d + i) k (upload_slice file i) (Some (upload_aad file i)))
         [i..<upload_chunks file])) =
    (Inr (mode', []), map (upload_slice file) [i..<upload_chunks file])"
  using assms(3,4)
proof (induction "upload_chunks file - i" arbitrary: i mode)
  case 0
  then show ?case by simp
next
  case (Suc n)
  let ?enc = "\<lambda>i. encryptChunk C (d + i) k (upload_slice file i) (Some (upload_aad file i))"
  let ?rest = "concat (map ?enc [Suc i..<upload_chunks file])"
  have i: "i < upload_chunks file" "[i..<upload_chunks file] = i # [Suc i..<upload_chunks file]"
    using Suc.hyps(2) by (simp_all add: upt_conv_Cons)
  have m: "dm_chunkSize m = FILE_CHUNK_SIZE" "dm_chunkCount m = upload_chunks file"
    "dm_encryptionOverhead m = FILE_ENCRYPTION_OVERHEAD"
    using assms(5,6) by (simp_all add: geometry_def upload_chunks_def)
  have pcl: "plaintextChunkLength m i = int (length (upload_slice file i))"
    using upload_aad_frame_aad(2) [OF assms(2) i(1)] m assms(6)
    by (simp add: plaintextChunkLength_def upload_metadata_def)
  have aad: "frame_aad m i (plaintextChunkLength m i) = upload_aad file i"
    using m assms(6) by (simp add: pcl frame_aad_def upload_aad_def)
  have ne: "upload_slice file i \<noteq> []" using length_upload_slice(2) [OF i(1)] by auto
  note enc = decryptChunk_encryptChunk [OF assms(1) ne]
  have len: "nat (frameLength m i) = length (?enc i)"
    by (simp add: frameLength_def pcl m enc(2) nat_int_add)
  have dec: "decryptFrame C k (?enc i) m i (plaintextChunkLength m i) mode =
      Inr (upload_slice file i, Authenticated_v2)"
    using Suc.prems(1) by (cases mode) (simp_all add: decryptFrame_def aad enc(1) with_mode_def)
  obtain mode' where "frames_spec C k m e [Suc i..<upload_chunks file] Authenticated_v2 ?rest =
      (Inr (mode', []), map (upload_slice file) [Suc i..<upload_chunks file])"
  proof -
    have "n = upload_chunks file - Suc i" using Suc.hyps(2) by simp
    from Suc.hyps(1) [OF this] i(1) show ?thesis using that by auto
  qed
  moreover have "0 \<le> frameLength m i" by (simp add: frameLength_def pcl)
  ultimately show ?case using len dec pcl by (simp add: i(2))
qed

lemma stream_spec_upload:
  assumes "gcm_ok C" "uploadable file" "geometry m" "dm_plaintextSize m = length file"
  shows "stream_spec C k m (concat (encryptFile C d k file)) Closed =
    (Inr (), map (upload_slice file) [0..<upload_chunks file])"
proof -
  have n: "dm_chunkCount m = upload_chunks file"
    using assms(3,4) by (simp add: geometry_def upload_chunks_def)
  have "length (encryptChunk C (d + i) k (upload_slice file i) (Some (upload_aad file i))) =
      min FILE_CHUNK_SIZE (length file - i * FILE_CHUNK_SIZE) + FILE_ENCRYPTION_OVERHEAD"
    if "i < upload_chunks file" for i
  proof -
    have "upload_slice file i \<noteq> []" using length_upload_slice(2) [OF that] by auto
    from decryptChunk_encryptChunk(2) [OF assms(1) this] length_upload_slice(1) [OF that]
    show ?thesis by simp
  qed
  then have "length (concat (encryptFile C d k file)) =
      sum_list (map (\<lambda>i. min FILE_CHUNK_SIZE (length file - i * FILE_CHUNK_SIZE) +
        FILE_ENCRYPTION_OVERHEAD) [0..<upload_chunks file])"
    unfolding encryptFile_def length_concat map_map
    by (intro arg_cong [of _ _ sum_list] map_cong refl) simp
  also have "\<dots> = dm_encryptedSize m"
    using assms(3,4) n upload_chunks_enough [of "file"]
    by (simp add: sum_list_addf sum_chunk_lengths sum_list_triv geometry_def min_absorb2)
  finally have len: "length (concat (encryptFile C d k file)) = dm_encryptedSize m" .
  obtain mode' where "frames_spec C k m Closed [0..<dm_chunkCount m] Unknown_mode
      (concat (encryptFile C d k file)) =
    (Inr (mode', []), map (upload_slice file) [0..<upload_chunks file])"
    using frames_spec_upload [OF assms(1,2) _ _ assms(3,4), of Unknown_mode 0 k Closed d] n
    by (auto simp: encryptFile_def)
  then show ?thesis
    using len assms(4) by (simp add: stream_spec_def concat_upload_slices)
qed

text \<open>The server computes the geometry the browser expects.\<close>

lemma metadataOf_geometry:
  assumes "metadataOf file = Inr m"
  shows "geometry m" "dm_plaintextSize m = file_size file"
    "dm_fileName m = file_originalName file" "dm_mimeType m = file_mimetype file"
  using assms
  by (auto simp: metadataOf_def getExpectedEncryptedSize_def size_constants geometry_def chunk_count_def
      ceil_div_def MAX_PLAINTEXT_FILE_SIZE_def FILE_CHUNK_SIZE_def FILE_ENCRYPTION_OVERHEAD_def
      FILE_IV_LENGTH_def FILE_GCM_TAG_LENGTH_def FILE_STREAM_FORMAT_def FILE_ENCRYPTION_FORMAT_def
      split: if_splits)

lemma requireSafeInteger_int:
  "lo \<le> n \<Longrightarrow> n \<le> hi \<Longrightarrow> int hi \<le> 2 ^ 53 - 1 \<Longrightarrow> requireSafeInteger (Js_int (int n)) name lo hi = Inr n"
  by (simp add: requireSafeInteger_def isSafeInteger_def)

lemma geometry_accepted:
  assumes "geometry m" "dm_fileName m \<noteq> []" "length (dm_fileName m) \<le> 100"
    "dm_mimeType m \<noteq> []" "length (dm_mimeType m) \<le> 100"
  shows "validateDownloadMetadata (metadata_json m) = Inr m"
proof -
  have c: "FILE_CHUNK_SIZE = 52428800" "MAX_PLAINTEXT_FILE_SIZE = 53687091200"
    "MAX_FILE_CHUNKS = 1024" "FILE_ENCRYPTION_OVERHEAD = 28"
    by (simp_all add: FILE_CHUNK_SIZE_def MAX_PLAINTEXT_FILE_SIZE_def MAX_FILE_CHUNKS_def
        FILE_ENCRYPTION_OVERHEAD_def FILE_IV_LENGTH_def FILE_GCM_TAG_LENGTH_def)
  have p: "1 \<le> dm_plaintextSize m" "dm_plaintextSize m \<le> 53687091200"
    using assms(1) by (simp_all add: geometry_def c)
  have n: "dm_chunkCount m = (dm_plaintextSize m + 52428799) div 52428800"
    using assms(1) by (simp add: geometry_def c)
  have n1: "1 \<le> dm_chunkCount m" "dm_chunkCount m \<le> 1024"
  proof -
    have "52428800 \<le> dm_plaintextSize m + 52428799" using p by simp
    from div_le_mono [OF this, of 52428800] show "1 \<le> dm_chunkCount m" by (simp add: n)
    have "dm_plaintextSize m + 52428799 \<le> 53687091200 + 52428799" using p by simp
    from div_le_mono [OF this, of 52428800] show "dm_chunkCount m \<le> 1024" by (simp add: n)
  qed
  have e: "dm_encryptedSize m = dm_plaintextSize m + dm_chunkCount m * 28"
    "dm_chunkSize m = 52428800" "dm_encryptionOverhead m = 28" "dm_format m = FILE_STREAM_FORMAT"
    using assms(1) by (simp_all add: geometry_def c)
  have names: "requireString (Js_string (dm_fileName m)) ''filename'' 100 = Inr (dm_fileName m)"
    "requireString (Js_string (dm_mimeType m)) ''MIME type'' 100 = Inr (dm_mimeType m)"
    using assms(2-) by (auto simp: requireString_def Suc_le_eq)
  have ints: "requireSafeInteger (Js_int (int (dm_plaintextSize m))) ''plaintext size'' 1 53687091200 =
      Inr (dm_plaintextSize m)"
    "requireSafeInteger (Js_int (int (dm_chunkSize m))) ''chunk size'' 1 52428800 = Inr (dm_chunkSize m)"
    "requireSafeInteger (Js_int (int (dm_chunkCount m))) ''chunk count'' 1 1024 = Inr (dm_chunkCount m)"
    "requireSafeInteger (Js_int (int (dm_encryptionOverhead m))) ''encryption overhead'' 1 1024 =
      Inr (dm_encryptionOverhead m)"
    "requireSafeInteger (Js_int (int (dm_encryptedSize m))) ''encrypted size'' 1 53687119872 =
      Inr (dm_encryptedSize m)"
    using p n1 e by (intro requireSafeInteger_int; simp)+
  have "checkGeometry (Js_string (dm_format m)) (dm_plaintextSize m) (dm_chunkSize m)
      (dm_chunkCount m) (dm_encryptionOverhead m) (dm_encryptedSize m) = Inr ()"
    using assms(1) by (simp add: checkGeometry_def geometry_def)
  moreover have "(53687119872 :: nat) = 53687091200 + 1024 * 28" by simp
  ultimately show ?thesis
    using ints names by (simp add: validateDownloadMetadata_def metadata_json_def js_get_def c e(4))
qed

section \<open>Properties\<close>

text \<open>C26. A file that the upload panel encrypts, stored as its chunks one after the other, comes
  back through the share link: the key in the link is imported as it was generated, the metadata
  the server computes is accepted, and, however the network cuts the stream, an undisturbed
  download writes exactly the file, reports no error and gives the reader back.\<close>

theorem shared_file_roundtrip:
  assumes "gcm_ok C" and "generateKey C g = (fileKey, keyHex)"
    and "metadataOf row = Inr metadata" and "file_size row = length file"
    and "file_originalName row \<noteq> []" "length (file_originalName row) \<le> 100"
    and "file_mimetype row \<noteq> []" "length (file_mimetype row) \<le> 100"
    and "concat (map value_bytes source) = concat (encryptFile C d fileKey file)"
    and "calm signal"
    and "streamDecryptToFile C signal (\<lambda>_. None) fileKey metadata source Closed = (r, s)"
  shows "importKey keyHex = Inr fileKey \<and>
    validateDownloadMetadata (metadata_json metadata) = Inr metadata \<and>
    r = Inr () \<and> concat (written s) = file \<and> cancelled s = None \<and> \<not> locked s"
proof -
  note M = metadataOf_geometry [OF assms(3)]
  have "uploadable file"
    using M(1,2) assms(4) by (auto simp: geometry_def uploadable_def)
  then have "r = Inr () \<and> written s = map (upload_slice file) [0..<upload_chunks file] \<and>
      locked s = False \<and> cancelled s = None"
    using streamDecryptToFile_spec [OF M(1) assms(10,11)] assms(1,4,9) M
      stream_spec_upload [of C "file" metadata fileKey d] by simp
  moreover have "importKey keyHex = Inr fileKey"
    using importKey_generateKey [of C g] assms(1,2) by (simp add: gcm_ok_def)
  moreover have "validateDownloadMetadata (metadata_json metadata) = Inr metadata"
    using geometry_accepted [OF M(1)] assms(5-8) M(3,4) by simp
  ultimately show ?thesis by (simp add: concat_upload_slices)
qed

text \<open>C27. Whatever bytes, metadata, interruptions and write failures a download meets: if the key
  opens nothing but the chunks it sealed, then all that is written is a prefix of the uploaded
  file, and a download that ends without an error has written the whole file. In particular a
  server cannot swap, repeat, cut or exchange chunks unnoticed.\<close>

theorem tampered_download_rejected:
  assumes "opens_only_chunks C fileKey file" and "uploadable file"
    and "validateDownloadMetadata raw = Inr metadata"
    and "streamDecryptToFile C signal sink fileKey metadata source e = (r, s)"
  shows "prefix (concat (written s)) file \<and> (r = Inr () \<longrightarrow> concat (written s) = file)"
proof -
  have m: "geometry metadata" by (rule validated_geometry [OF assms(3)])
  obtain r1 s1 where d: "decryptChunks C signal sink fileKey metadata [0..<dm_chunkCount metadata]
      Unknown_mode (open_stream source e) = (r1, s1)" by fastforce
  obtain j where j: "j \<le> dm_chunkCount metadata" "written s1 = map (upload_slice file) [0..<j]"
      "0 < j \<longrightarrow> dm_chunkCount metadata = upload_chunks file"
      "\<forall>x. r1 = Inr x \<longrightarrow> j = dm_chunkCount metadata"
    using decryptChunks_sealed [OF assms(1,2) m _ _ _ _ d] by (auto simp: open_stream_def)
  have w: "written s = written s1" and r: "r = Inr () \<Longrightarrow> \<exists>x. r1 = Inr x"
    using assms(4) d written_finishStream
    by (auto simp: streamDecryptToFile_def split: sum.splits prod.splits)
  have pre: "concat (written s) = take (j * FILE_CHUNK_SIZE) file"
    by (simp add: w j(2) upload_slice_eq [abs_def] concat_slices)
  note pos = chunkCount_pos [OF m]
  show ?thesis
  proof (intro conjI impI)
    show "prefix (concat (written s)) file" by (simp add: pre take_is_prefix)
    assume "r = Inr ()"
    then have "j = upload_chunks file" using r j(3,4) pos by auto
    then show "concat (written s) = file" using pre upload_chunks_enough [of "file"] by simp
  qed
qed

section \<open>Samples\<close>

definition sample_crypto :: web_crypto where
  "sample_crypto =
     \<lparr>wc_encrypt = \<lambda>k iv aad pt. pt @ replicate 16 0,
      wc_decrypt = \<lambda>k iv aad ct. Some (take (length ct - 16) ct),
      wc_random = \<lambda>d n. replicate n (word_of_nat d)\<rparr>"

lemma sample_gcm_ok: "gcm_ok sample_crypto"
  by (simp add: gcm_ok_def sample_crypto_def)

definition one_byte_file :: bytes where
  "one_byte_file = [7]"

text \<open>A key that opens the one chunk of the sample file and nothing else.\<close>

definition sealed_crypto :: web_crypto where
  "sealed_crypto =
     \<lparr>wc_encrypt = \<lambda>k iv aad pt. pt @ replicate 16 0,
      wc_decrypt = \<lambda>k iv aad ct.
        if aad = Some (upload_aad one_byte_file 0) \<and> ct = one_byte_file @ replicate 16 0
        then Some one_byte_file else None,
      wc_random = \<lambda>d n. replicate n (word_of_nat d)\<rparr>"

definition sample_row :: file_row where
  "sample_row =
     \<lparr>file_id = ''f1'', file_originalName = ''a.txt'', file_storageName = ''s1'', file_size = 1,
      file_mimetype = ''text/plain'', file_userId = ''u1'', file_createdAt = 0, file_expiresAt = 10,
      file_shareToken = ''t'', file_passwordHash = None, file_encryptedFileKey = [],
      file_fileKeyIv = []\<rparr>"

definition sample_metadata :: download_metadata where
  "sample_metadata =
     \<lparr>dm_fileName = ''a.txt'', dm_mimeType = ''text/plain'', dm_plaintextSize = 1,
      dm_encryptedSize = 29, dm_chunkSize = FILE_CHUNK_SIZE, dm_chunkCount = 1,
      dm_encryptionOverhead = FILE_ENCRYPTION_OVERHEAD, dm_format = FILE_STREAM_FORMAT,
      dm_passwordProtected = False\<rparr>"

lemma sample_metadataOf: "metadataOf sample_row = Inr sample_metadata"
  by (simp add: metadataOf_def sample_row_def sample_metadata_def getExpectedEncryptedSize_def
      size_constants chunk_count_def ceil_div_def FILE_CHUNK_SIZE_def FILE_ENCRYPTION_OVERHEAD_def
      FILE_IV_LENGTH_def FILE_GCM_TAG_LENGTH_def FILE_STREAM_FORMAT_def FILE_ENCRYPTION_FORMAT_def
      truthy_def)

definition sample_key :: bytes where
  "sample_key = fst (generateKey sample_crypto 5)"

definition sample_bytes :: bytes where
  "sample_bytes = concat (encryptFile sample_crypto 0 sample_key one_byte_file)"

lemma sample_chunks: "upload_chunks one_byte_file = 1"
  by (simp add: upload_chunks_def one_byte_file_def FILE_CHUNK_SIZE_def)

lemma sample_slice: "upload_slice one_byte_file 0 = one_byte_file"
  by (simp add: upload_slice_eq one_byte_file_def FILE_CHUNK_SIZE_def)

lemma sealed_opens: "opens_only_chunks sealed_crypto k one_byte_file"
  by (simp add: opens_only_chunks_def sealed_crypto_def sample_chunks sample_slice)

lemma shared_file_roundtrip_witness:
  "importKey (snd (generateKey sample_crypto 5)) = Inr sample_key \<and>
   (let (r, s) = streamDecryptToFile sample_crypto (\<lambda>_. False) (\<lambda>_. None) sample_key sample_metadata
      [Some (take 5 sample_bytes), None, Some [], Some (drop 5 sample_bytes)] Closed
    in r = Inr () \<and> concat (written s) = [7])"
proof -
  let ?src = "[Some (take 5 sample_bytes), None, Some [], Some (drop 5 sample_bytes)]"
  obtain r s where run: "streamDecryptToFile sample_crypto (\<lambda>_. False) (\<lambda>_. None) sample_key
      sample_metadata ?src Closed = (r, s)" by fastforce
  have "generateKey sample_crypto 5 = (sample_key, snd (generateKey sample_crypto 5))"
    by (simp add: sample_key_def)
  moreover have "concat (map value_bytes ?src) =
      concat (encryptFile sample_crypto 0 sample_key one_byte_file)"
    unfolding sample_bytes_def [symmetric] by (simp add: value_bytes_def)
  moreover have "calm (\<lambda>_. False)" by (simp add: calm_def)
  ultimately show ?thesis
    using shared_file_roundtrip [OF sample_gcm_ok _ sample_metadataOf, of 5 sample_key
        "snd (generateKey sample_crypto 5)" one_byte_file ?src 0 "\<lambda>_. False" r s] run
    by (simp add: sample_row_def one_byte_file_def)
qed

lemma tampered_download_rejected_witness:
  "prefix (concat (written (snd (streamDecryptToFile sealed_crypto (\<lambda>_. False) (\<lambda>_. None) sample_key
     sample_metadata [Some (sample_bytes @ [0])] Closed)))) one_byte_file"
proof -
  let ?run = "streamDecryptToFile sealed_crypto (\<lambda>_. False) (\<lambda>_. None) sample_key sample_metadata
      [Some (sample_bytes @ [0])] Closed"
  have "uploadable one_byte_file"
    by (simp add: uploadable_def one_byte_file_def MAX_PLAINTEXT_FILE_SIZE_def)
  moreover have "validateDownloadMetadata (metadata_json sample_metadata) = Inr sample_metadata"
    using geometry_accepted [of sample_metadata] metadataOf_geometry(1) [OF sample_metadataOf]
    by (simp add: sample_metadata_def)
  ultimately show ?thesis
    using tampered_download_rejected [OF sealed_opens, of _ sample_metadata "\<lambda>_. False" "\<lambda>_. None"
        sample_key "[Some (sample_bytes @ [0])]" Closed "fst ?run" "snd ?run"]
    by auto
qed

end
