(* ===== verification/Download_Worker.thy ===== *)
theory Download_Worker
  imports Download_Client
begin

text \<open>
  The service worker \<^verbatim>\<open>public/__redbox_download/sw.js\<close> that turns a transferred stream into a
  browser download. A page offers a session (a stream under a random id), the browser fetches the
  id, whichever comes first waits for the other. The worker keeps three bounded maps and one timer
  for each entry of them; session objects are shared between the maps and the timers, so they live
  in a heap and are named by their number. Timers are the list of the pending ones with the time
  they are due; what the worker sends out (replies, responses, cancelled streams, released
  lifetimes) is logged.
\<close>

definition PROTOCOL_VERSION :: int where
  "PROTOCOL_VERSION = 1"

definition MAX_PLAINTEXT_SIZE :: int where
  "MAX_PLAINTEXT_SIZE = 50 * 1024 * 1024 * 1024"

definition SESSION_TTL_MS :: nat where
  "SESSION_TTL_MS = 30000"

definition FETCH_WAIT_MS :: nat where
  "FETCH_WAIT_MS = 10000"

definition ACTIVE_SESSION_TTL_MS :: nat where
  "ACTIVE_SESSION_TTL_MS = 5 * 60000"

definition COMPLETE_GRACE_MS :: nat where
  "COMPLETE_GRACE_MS = 5000"

definition MAX_PENDING_SESSIONS :: nat where
  "MAX_PENDING_SESSIONS = 4"

definition MAX_PENDING_FETCHES :: nat where
  "MAX_PENDING_FETCHES = 8"

definition MAX_ACTIVE_DOWNLOADS :: nat where
  "MAX_ACTIVE_DOWNLOADS = 4"

section \<open>State\<close>

text \<open>A readable stream and a message port are named by numbers.\<close>

record sw_session =
  ss_id :: string
  ss_fileName :: string
  ss_size :: int
  ss_readable :: nat
  ss_port :: nat
  ss_sourceId :: string
  ss_claimed :: bool
  ss_timeout :: "nat option"

text \<open>An active entry carries the lifetime of the session it was made of: \<open>ae_session\<close>.\<close>

record active_entry =
  ae_session :: nat
  ae_sourceId :: string
  ae_timeout :: "nat option"

datatype timer_action =
    ExpireSession nat
  | ReleaseActive string nat
  | DropWaiter string nat

datatype reply =
    Download_error string string   \<comment> \<open>id, message\<close>
  | Download_started string
  | Probe_ok
  | Probe_error string

datatype response =
    Gone                     \<comment> \<open>410\<close>
  | Streamed nat             \<comment> \<open>200 with the stream of this session\<close>
  | Refused nat              \<comment> \<open>405 or 416\<close>

record sw_state =
  clock :: nat
  heap :: "sw_session list"
  sessions :: "(string \<times> nat) list"
  fetchWaiters :: "(string \<times> (nat \<times> nat)) list"   \<comment> \<open>the waiting fetch, its timer\<close>
  activeDownloads :: "(string \<times> active_entry) list"
  timers :: "(nat \<times> nat \<times> timer_action) list"     \<comment> \<open>handle, due, callback\<close>
  nextTimer :: nat
  nextFetch :: nat
  replies :: "(nat \<times> reply) list"
  responses :: "(nat \<times> response) list"
  cancelledStreams :: "nat list"
  released :: "nat list"

definition sw_start :: sw_state where
  "sw_start =
     \<lparr>clock = 0, heap = [], sessions = [], fetchWaiters = [], activeDownloads = [], timers = [],
      nextTimer = 0, nextFetch = 0, replies = [], responses = [], cancelledStreams = [],
      released = []\<rparr>"

definition setTimeout :: "timer_action \<Rightarrow> nat \<Rightarrow> sw_state \<Rightarrow> nat \<times> sw_state" where
  "setTimeout act delay s =
     (nextTimer s, s\<lparr>timers := timers s @ [(nextTimer s, clock s + delay, act)],
                     nextTimer := Suc (nextTimer s)\<rparr>)"

text \<open>\<open>clearTimeout(undefined)\<close> does nothing.\<close>

definition clearTimeout :: "nat option \<Rightarrow> sw_state \<Rightarrow> sw_state" where
  "clearTimeout handle s = s\<lparr>timers := filter (\<lambda>t. Some (fst t) \<noteq> handle) (timers s)\<rparr>"

definition postReply :: "nat \<Rightarrow> reply \<Rightarrow> sw_state \<Rightarrow> sw_state" where
  "postReply port message s = s\<lparr>replies := replies s @ [(port, message)]\<rparr>"

definition respond :: "nat \<Rightarrow> response \<Rightarrow> sw_state \<Rightarrow> sw_state" where
  "respond fetch r s = s\<lparr>responses := responses s @ [(fetch, r)]\<rparr>"

definition releaseLifetime :: "nat \<Rightarrow> sw_state \<Rightarrow> sw_state" where
  "releaseLifetime ref s = s\<lparr>released := ref # released s\<rparr>"

section \<open>Active downloads\<close>

definition releaseActiveDownload :: "string \<Rightarrow> nat \<Rightarrow> sw_state \<Rightarrow> sw_state" where
  "releaseActiveDownload sid ref s =
     (case map_of (activeDownloads s) sid of
        None \<Rightarrow> s
      | Some entry \<Rightarrow>
          if ae_session entry \<noteq> ref then s
          else (let s1 = clearTimeout (ae_timeout entry) s;
                    s2 = s1\<lparr>activeDownloads := AList.delete sid (activeDownloads s1)\<rparr>
                in releaseLifetime ref s2))"

text \<open>The entry is the one in the map, so its new timer is stored there.\<close>

definition refreshActiveDownload :: "string \<Rightarrow> active_entry \<Rightarrow> nat \<Rightarrow> sw_state \<Rightarrow> sw_state" where
  "refreshActiveDownload sid entry delay s =
     (let (handle, s1) =
            setTimeout (ReleaseActive sid (ae_session entry)) delay (clearTimeout (ae_timeout entry) s)
      in s1\<lparr>activeDownloads :=
              AList.update sid (entry\<lparr>ae_timeout := Some handle\<rparr>) (activeDownloads s1)\<rparr>)"

section \<open>Sessions\<close>

definition expireSession :: "nat \<Rightarrow> string \<Rightarrow> sw_state \<Rightarrow> sw_state" where
  "expireSession ref message s =
     (let session = heap s ! ref in
      if ss_claimed session then s
      else
        (let s1 = s\<lparr>heap := (heap s)[ref := session\<lparr>ss_claimed := True\<rparr>]\<rparr>;
             s2 = clearTimeout (ss_timeout session) s1;
             s3 = s2\<lparr>sessions := AList.delete (ss_id session) (sessions s2)\<rparr>;
             s4 = postReply (ss_port session) (Download_error (ss_id session) message) s3;
             s5 = releaseLifetime ref s4
         in s5\<lparr>cancelledStreams := ss_readable session # cancelledStreams s5\<rparr>))"

definition claimSession :: "nat \<Rightarrow> nat \<Rightarrow> sw_state \<Rightarrow> sw_state" where
  "claimSession fetch ref s =
     (let session = heap s ! ref in
      if ss_claimed session then respond fetch Gone s
      else if length (activeDownloads s) \<ge> MAX_ACTIVE_DOWNLOADS
      then respond fetch Gone (expireSession ref ''Too many secure downloads are active.'' s)
      else
        (let s1 = s\<lparr>heap := (heap s)[ref := session\<lparr>ss_claimed := True\<rparr>]\<rparr>;
             s2 = clearTimeout (ss_timeout session) s1;
             s3 = s2\<lparr>sessions := AList.delete (ss_id session) (sessions s2)\<rparr>;
             entry = \<lparr>ae_session = ref, ae_sourceId = ss_sourceId session, ae_timeout = None\<rparr>;
             s4 = refreshActiveDownload (ss_id session) entry ACTIVE_SESSION_TTL_MS s3;
             s5 = postReply (ss_port session) (Download_started (ss_id session)) s4
         in respond fetch (Streamed ref) s5))"

text \<open>\<open>waitForSession\<close>: the fetch is answered at once, or it waits and is answered later by
  \<open>offerSession\<close>, by its timer or by a cancellation.\<close>

definition waitForSession :: "nat \<Rightarrow> string \<Rightarrow> sw_state \<Rightarrow> sw_state" where
  "waitForSession fetch sid s =
     (if map_of (fetchWaiters s) sid \<noteq> None \<or> length (fetchWaiters s) \<ge> MAX_PENDING_FETCHES
      then respond fetch Gone s
      else (let (handle, s1) = setTimeout (DropWaiter sid fetch) FETCH_WAIT_MS s
            in s1\<lparr>fetchWaiters := AList.update sid (fetch, handle) (fetchWaiters s1)\<rparr>))"

definition offerSession :: "nat \<Rightarrow> sw_state \<Rightarrow> bool \<times> sw_state" where
  "offerSession ref s =
     (let session = heap s ! ref in
      if length (activeDownloads s) \<ge> MAX_ACTIVE_DOWNLOADS then (False, s)
      else (case map_of (fetchWaiters s) (ss_id session) of
              Some (fetch, handle) \<Rightarrow>
                (let s1 = s\<lparr>fetchWaiters := AList.delete (ss_id session) (fetchWaiters s)\<rparr>
                 in (True, claimSession fetch ref (clearTimeout (Some handle) s1)))
            | None \<Rightarrow>
                if map_of (sessions s) (ss_id session) \<noteq> None \<or>
                   length (sessions s) \<ge> MAX_PENDING_SESSIONS
                then (False, s)
                else (let (handle, s1) = setTimeout (ExpireSession ref) SESSION_TTL_MS s;
                          s2 = s1\<lparr>heap := (heap s1)[ref := session\<lparr>ss_timeout := Some handle\<rparr>]\<rparr>
                      in (True, s2\<lparr>sessions := AList.update (ss_id session) ref (sessions s2)\<rparr>))))"

section \<open>Messages\<close>

record sw_message =
  msg_type :: js_value
  msg_version :: js_value
  msg_id :: js_value
  msg_fileName :: js_value
  msg_size :: js_value
  msg_readable :: "nat option"      \<comment> \<open>\<open>isReadableStream\<close>\<close>

definition sessionId :: "js_value \<Rightarrow> string option" where
  "sessionId v =
     (case v of
        Js_string i \<Rightarrow>
          if length i = 64 \<and> (\<forall>c \<in> set i. c \<in> set hexDigits) then Some i else None
      | _ \<Rightarrow> None)"

definition cancelPending :: "string \<Rightarrow> string option \<Rightarrow> sw_state \<Rightarrow> sw_state" where
  "cancelPending sid source s =
     (let wakeFetch =
            (case map_of (fetchWaiters s) sid of
               None \<Rightarrow> s
             | Some (fetch, handle) \<Rightarrow>
                 respond fetch Gone
                   (clearTimeout (Some handle) (s\<lparr>fetchWaiters := AList.delete sid (fetchWaiters s)\<rparr>)))
      in case map_of (sessions s) sid of
           None \<Rightarrow> wakeFetch
         | Some ref \<Rightarrow>
             if Some (ss_sourceId (heap s ! ref)) = source
             then expireSession ref ''Download cancelled.'' s else wakeFetch)"

definition onControl :: "string \<Rightarrow> string \<Rightarrow> string option \<Rightarrow> sw_state \<Rightarrow> sw_state" where
  "onControl typ sid source s =
     (let pending = (if typ \<noteq> ''REDBOX_DOWNLOAD_CANCEL'' then s else cancelPending sid source s)
      in case map_of (activeDownloads s) sid of
           None \<Rightarrow> pending
         | Some entry \<Rightarrow>
             if Some (ae_sourceId entry) \<noteq> source then pending
             else if typ = ''REDBOX_DOWNLOAD_HEARTBEAT''
             then refreshActiveDownload sid entry ACTIVE_SESSION_TTL_MS s
             else if typ = ''REDBOX_DOWNLOAD_COMPLETE''
             then refreshActiveDownload sid entry COMPLETE_GRACE_MS s
             else releaseActiveDownload sid (ae_session entry) s)"

definition valid_offer :: "sw_message \<Rightarrow> string option \<Rightarrow> bool" where
  "valid_offer m source \<longleftrightarrow>
     msg_version m = Js_int PROTOCOL_VERSION \<and> sessionId (msg_id m) \<noteq> None \<and>
     (case msg_fileName m of Js_string f \<Rightarrow> 1 \<le> length f \<and> length f \<le> 100 | _ \<Rightarrow> False) \<and>
     isSafeInteger (msg_size m) \<and>
     (case msg_size m of Js_int n \<Rightarrow> 1 \<le> n \<and> n \<le> MAX_PLAINTEXT_SIZE | _ \<Rightarrow> False) \<and>
     msg_readable m \<noteq> None \<and> source \<noteq> None"

definition js_text :: "js_value \<Rightarrow> string" where
  "js_text v = (case v of Js_string t \<Rightarrow> t | _ \<Rightarrow> [])"

definition js_number_of :: "js_value \<Rightarrow> int" where
  "js_number_of v = (case v of Js_int n \<Rightarrow> n | _ \<Rightarrow> 0)"

definition onOffer :: "sw_message \<Rightarrow> nat \<Rightarrow> string option \<Rightarrow> sw_state \<Rightarrow> sw_state" where
  "onOffer m port source s =
     (if \<not> valid_offer m source
      then postReply port (Download_error (js_text (msg_id m)) ''Invalid secure download session.'')
             (case msg_readable m of
                None \<Rightarrow> s | Some r \<Rightarrow> s\<lparr>cancelledStreams := r # cancelledStreams s\<rparr>)
      else
        (let session = \<lparr>ss_id = js_text (msg_id m), ss_fileName = js_text (msg_fileName m),
               ss_size = js_number_of (msg_size m), ss_readable = the (msg_readable m), ss_port = port,
               ss_sourceId = the source, ss_claimed = False, ss_timeout = None\<rparr>;
             ref = length (heap s);
             (offered, s1) = offerSession ref (s\<lparr>heap := heap s @ [session]\<rparr>)
         in if offered then s1
            else expireSession ref ''Too many secure downloads are waiting to start.'' s1))"

text \<open>\<open>handleProbe\<close> reads the stream it was given (its values and its end) and answers; the
  flag tells whether it cancels the stream.\<close>

definition handleProbe ::
    "js_value \<Rightarrow> (bytes option list \<times> stream_end) option \<Rightarrow> reply \<times> bool" where
  "handleProbe version readable =
     (let unsupported = Probe_error ''Unsupported secure download protocol.'';
          failed = (Probe_error ''This browser cannot transfer secure download streams.'', True)
      in if version \<noteq> Js_int PROTOCOL_VERSION then (unsupported, readable \<noteq> None)
         else (case readable of
                 None \<Rightarrow> (unsupported, False)
               | Some (vs, e) \<Rightarrow>
                   (case vs of
                      [Some bytes] \<Rightarrow>
                        if e = Closed \<and> bytes = [0x52, 0x42] then (Probe_ok, False) else failed
                    | _ \<Rightarrow> failed)))"

record message_event =
  ev_data :: "sw_message option"     \<comment> \<open>\<open>None\<close>: not an object\<close>
  ev_port :: "nat option"
  ev_source :: "string option"
  ev_probe :: "bytes option list \<times> stream_end"  \<comment> \<open>what the stream gives when it is read\<close>

definition onMessage :: "message_event \<Rightarrow> sw_state \<Rightarrow> sw_state" where
  "onMessage ev s =
     (case ev_data ev of
        None \<Rightarrow> s
      | Some m \<Rightarrow>
          if msg_type m = Js_string ''REDBOX_DOWNLOAD_PROBE'' then
            (case ev_port ev of
               None \<Rightarrow> s
             | Some port \<Rightarrow>
                 (let (r, cancel) =
                        handleProbe (msg_version m) (map_option (\<lambda>_. ev_probe ev) (msg_readable m));
                      s1 = (case msg_readable m of
                              Some stream \<Rightarrow>
                                if cancel then s\<lparr>cancelledStreams := stream # cancelledStreams s\<rparr> else s
                            | None \<Rightarrow> s)
                  in postReply port r s1))
          else if msg_type m \<in> Js_string ` set [''REDBOX_DOWNLOAD_HEARTBEAT'',
                    ''REDBOX_DOWNLOAD_COMPLETE'', ''REDBOX_DOWNLOAD_CANCEL''] then
            (if msg_version m \<noteq> Js_int PROTOCOL_VERSION then s
             else (case sessionId (msg_id m) of
                     None \<Rightarrow> s
                   | Some sid \<Rightarrow> onControl (js_text (msg_type m)) sid (ev_source ev) s))
          else if msg_type m = Js_string ''REDBOX_STREAM_DOWNLOAD'' then
            (case ev_port ev of None \<Rightarrow> s | Some port \<Rightarrow> onOffer m port (ev_source ev) s)
          else s)"

section \<open>Fetches\<close>

record fetch_request =
  fr_pathname :: string
  fr_sameOrigin :: bool
  fr_search :: string
  fr_method :: string
  fr_range :: bool

definition DOWNLOAD_PREFIX :: string where
  "DOWNLOAD_PREFIX = ''/__redbox_download/file/''"

text \<open>\<open>DOWNLOAD_PATH_PATTERN.exec\<close>: the id in the path.\<close>

definition downloadPathId :: "string \<Rightarrow> string option" where
  "downloadPathId path =
     (let n = length DOWNLOAD_PREFIX
      in if take n path = DOWNLOAD_PREFIX then sessionId (Js_string (drop n path)) else None)"

text \<open>A request the worker does not answer goes to the network.\<close>

definition onFetch :: "fetch_request \<Rightarrow> sw_state \<Rightarrow> sw_state" where
  "onFetch req s =
     (let fetch = nextFetch s; s = s\<lparr>nextFetch := Suc fetch\<rparr> in
      case downloadPathId (fr_pathname req) of
        None \<Rightarrow> s
      | Some sid \<Rightarrow>
          if \<not> fr_sameOrigin req \<or> fr_search req \<noteq> [] then s
          else if fr_method req \<noteq> ''GET'' \<or> fr_range req
          then respond fetch (Refused (if fr_range req then 416 else 405)) s
          else (case map_of (sessions s) sid of
                  Some ref \<Rightarrow> claimSession fetch ref (s\<lparr>sessions := AList.delete sid (sessions s)\<rparr>)
                | None \<Rightarrow> waitForSession fetch sid s))"

section \<open>Timers and steps\<close>

definition runTimer :: "timer_action \<Rightarrow> sw_state \<Rightarrow> sw_state" where
  "runTimer act s =
     (case act of
        ExpireSession ref \<Rightarrow> expireSession ref ''The secure download was not claimed in time.'' s
      | ReleaseActive sid ref \<Rightarrow> releaseActiveDownload sid ref s
      | DropWaiter sid fetch \<Rightarrow>
          respond fetch Gone (s\<lparr>fetchWaiters := AList.delete sid (fetchWaiters s)\<rparr>))"

text \<open>What happens with no message and no request: a due timer runs, or time passes.\<close>

inductive idle_step :: "sw_state \<Rightarrow> sw_state \<Rightarrow> bool" where
  fire: "(handle, due, act) \<in> set (timers s) \<Longrightarrow> due \<le> clock s \<Longrightarrow>
    idle_step s (runTimer act (clearTimeout (Some handle) s))"
| tick: "idle_step s (s\<lparr>clock := Suc (clock s)\<rparr>)"

inductive sw_step :: "sw_state \<Rightarrow> sw_state \<Rightarrow> bool" where
  message: "sw_step s (onMessage ev s)"
| fetch: "sw_step s (onFetch req s)"
| idle: "idle_step s t \<Longrightarrow> sw_step s t"

inductive_cases idle_stepE: "idle_step s t"
inductive_cases sw_stepE: "sw_step s t"

end
