(* ===== verification/Worker_Invariant.thy ===== *)
theory Worker_Invariant
  imports Download_Worker
begin

text \<open>
  The invariant of the service worker over all messages, requests and timers: its three maps stay
  within their limits, every entry has its timer, no stream is handed out twice, and, where no id
  is used twice, every session is waiting, active or released. One lemma per operation; the
  worker is an interpretation of \<open>invariant_system\<close>.
\<close>

section \<open>Entries and their timers\<close>

definition has_timer :: "sw_state \<Rightarrow> nat \<Rightarrow> timer_action \<Rightarrow> nat \<Rightarrow> bool" where
  "has_timer s h act delay \<longleftrightarrow> (\<exists>due. (h, due, act) \<in> set (timers s) \<and> due \<le> clock s + delay)"

definition timers_ok :: "sw_state \<Rightarrow> bool" where
  "timers_ok s \<longleftrightarrow> distinct (map fst (timers s)) \<and>
     (\<forall>(h, due, act) \<in> set (timers s). h < nextTimer s \<and> due \<le> clock s + ACTIVE_SESSION_TTL_MS)"

definition heap_ok :: "sw_state \<Rightarrow> bool" where
  "heap_ok s \<longleftrightarrow>
     (\<forall>ref < length (heap s). \<forall>h. ss_timeout (heap s ! ref) = Some h \<longrightarrow>
        h < nextTimer s \<and> (\<forall>due act. (h, due, act) \<in> set (timers s) \<longrightarrow> act = ExpireSession ref))"

definition expiry_ok :: "sw_state \<Rightarrow> bool" where
  "expiry_ok s \<longleftrightarrow>
     (\<forall>h due ref. (h, due, ExpireSession ref) \<in> set (timers s) \<longrightarrow>
        ref < length (heap s) \<and> ss_timeout (heap s ! ref) = Some h)"

definition sessions_ok :: "sw_state \<Rightarrow> bool" where
  "sessions_ok s \<longleftrightarrow>
     (\<forall>i ref. map_of (sessions s) i = Some ref \<longrightarrow>
        ref < length (heap s) \<and> ss_id (heap s ! ref) = i \<and> \<not> ss_claimed (heap s ! ref) \<and>
        (\<exists>h. ss_timeout (heap s ! ref) = Some h \<and> has_timer s h (ExpireSession ref) SESSION_TTL_MS))"

definition active_ok :: "sw_state \<Rightarrow> bool" where
  "active_ok s \<longleftrightarrow>
     (\<forall>i e. map_of (activeDownloads s) i = Some e \<longrightarrow>
        ae_session e < length (heap s) \<and> ss_id (heap s ! ae_session e) = i \<and>
        ss_claimed (heap s ! ae_session e) \<and>
        (\<exists>h. ae_timeout e = Some h \<and>
           has_timer s h (ReleaseActive i (ae_session e)) ACTIVE_SESSION_TTL_MS))"

definition waiters_ok :: "sw_state \<Rightarrow> bool" where
  "waiters_ok s \<longleftrightarrow>
     (\<forall>i f h. map_of (fetchWaiters s) i = Some (f, h) \<longrightarrow> has_timer s h (DropWaiter i f) FETCH_WAIT_MS)"

definition limits_ok :: "sw_state \<Rightarrow> bool" where
  "limits_ok s \<longleftrightarrow> length (sessions s) \<le> MAX_PENDING_SESSIONS \<and>
     length (fetchWaiters s) \<le> MAX_PENDING_FETCHES \<and>
     length (activeDownloads s) \<le> MAX_ACTIVE_DOWNLOADS"

text \<open>The sessions whose stream a response carries.\<close>

definition streamed :: "sw_state \<Rightarrow> nat list" where
  "streamed s = concat (map (\<lambda>(f, r). case r of Streamed ref \<Rightarrow> [ref] | _ \<Rightarrow> []) (responses s))"

definition streamed_ok :: "sw_state \<Rightarrow> bool" where
  "streamed_ok s \<longleftrightarrow> distinct (streamed s) \<and>
     (\<forall>ref \<in> set (streamed s). ref < length (heap s) \<and> ss_claimed (heap s ! ref))"

text \<open>Where no id is used twice, every session but those in \<open>X\<close> is waiting, active or released.\<close>

definition tracked :: "nat set \<Rightarrow> sw_state \<Rightarrow> bool" where
  "tracked X s \<longleftrightarrow>
     (distinct (map ss_id (heap s)) \<longrightarrow>
        (\<forall>ref < length (heap s). ref \<in> X \<or> ref \<in> set (released s) \<or>
           map_of (sessions s) (ss_id (heap s ! ref)) = Some ref \<or>
           (\<exists>e. map_of (activeDownloads s) (ss_id (heap s ! ref)) = Some e \<and> ae_session e = ref)))"

definition sw_inv :: "nat set \<Rightarrow> sw_state \<Rightarrow> bool" where
  "sw_inv X s \<longleftrightarrow> timers_ok s \<and> heap_ok s \<and> expiry_ok s \<and> sessions_ok s \<and> active_ok s \<and> waiters_ok s \<and>
     limits_ok s \<and> streamed_ok s \<and> tracked X s"

lemma map_of_delete [simp]: "map_of (AList.delete k al) = (map_of al)(k := None)"
  by (rule delete_conv')

lemma map_of_update [simp]: "map_of (AList.update k v al) = (map_of al)(k \<mapsto> v)"
  by (rule update_conv')

lemma length_update: "length (AList.update k v al) =
    (if map_of al k = None then Suc (length al) else length al)"
  by (induction al) auto

lemma map_of_length_pos: "map_of al k \<noteq> None \<Longrightarrow> 0 < length al"
  by (cases al) auto

section \<open>Timers\<close>

lemma has_timer_unique:
  assumes "timers_ok s" "has_timer s h a d" "has_timer s h b e"
  shows "a = b"
proof -
  from assms(2,3) obtain m n where "(h, m, a) \<in> set (timers s)" "(h, n, b) \<in> set (timers s)"
    by (auto simp: has_timer_def)
  then have "(m, a) = (n, b)" using assms(1) unfolding timers_ok_def by (metis eq_key_imp_eq_value)
  then show ?thesis by simp
qed

lemma has_timer_less: "timers_ok s \<Longrightarrow> has_timer s h a d \<Longrightarrow> h < nextTimer s"
  by (auto simp: timers_ok_def has_timer_def)

lemma has_timer_clear [simp]:
  "has_timer (clearTimeout h' s) h a d \<longleftrightarrow> has_timer s h a d \<and> Some h \<noteq> h'"
  by (auto simp: has_timer_def clearTimeout_def)

lemma clear_simps [simp]:
  "clock (clearTimeout h s) = clock s" "heap (clearTimeout h s) = heap s"
  "sessions (clearTimeout h s) = sessions s" "fetchWaiters (clearTimeout h s) = fetchWaiters s"
  "activeDownloads (clearTimeout h s) = activeDownloads s" "nextTimer (clearTimeout h s) = nextTimer s"
  "responses (clearTimeout h s) = responses s" "released (clearTimeout h s) = released s"
  by (simp_all add: clearTimeout_def)

lemma clear_timers: "timers (clearTimeout h s) = filter (\<lambda>t. Some (fst t) \<noteq> h) (timers s)"
  by (simp add: clearTimeout_def)

lemma timers_ok_clear: "timers_ok s \<Longrightarrow> timers_ok (clearTimeout h s)"
  by (auto simp: timers_ok_def clearTimeout_def distinct_map_filter)

lemma timer_other:
  "timers_ok s \<Longrightarrow> has_timer s h0 a0 d0 \<Longrightarrow> has_timer s h a d \<Longrightarrow> a \<noteq> a0 \<Longrightarrow> h \<noteq> h0"
  using has_timer_unique by metis

lemma heap_ok_clear: "heap_ok s \<Longrightarrow> heap_ok (clearTimeout h s)"
  by (auto simp: heap_ok_def clearTimeout_def)

definition with_timer :: "timer_action \<Rightarrow> nat \<Rightarrow> sw_state \<Rightarrow> sw_state" where
  "with_timer act delay s = snd (setTimeout act delay s)"

lemma setTimeout_eq: "setTimeout act delay s = (nextTimer s, with_timer act delay s)"
  by (simp add: with_timer_def setTimeout_def)

lemma with_timer_simps [simp]:
  "clock (with_timer a d s) = clock s" "heap (with_timer a d s) = heap s"
  "sessions (with_timer a d s) = sessions s" "fetchWaiters (with_timer a d s) = fetchWaiters s"
  "activeDownloads (with_timer a d s) = activeDownloads s"
  "nextTimer (with_timer a d s) = Suc (nextTimer s)"
  "responses (with_timer a d s) = responses s" "released (with_timer a d s) = released s"
  by (simp_all add: with_timer_def setTimeout_def)

lemma has_timer_new [simp]: "has_timer (with_timer a d s) (nextTimer s) a d"
  by (auto simp: has_timer_def with_timer_def setTimeout_def)

lemma has_timer_old: "has_timer s h b e \<Longrightarrow> has_timer (with_timer a d s) h b e"
  by (auto simp: has_timer_def with_timer_def setTimeout_def)

lemma timers_ok_new: "timers_ok s \<Longrightarrow> d \<le> ACTIVE_SESSION_TTL_MS \<Longrightarrow> timers_ok (with_timer a d s)"
  by (auto simp: timers_ok_def with_timer_def setTimeout_def less_Suc_eq)

lemma heap_ok_new: "heap_ok s \<Longrightarrow> heap_ok (with_timer a d s)"
  by (auto simp: heap_ok_def with_timer_def setTimeout_def less_Suc_eq)

text \<open>Timers and the heap alone decide these; the other fields do not matter.\<close>

lemma has_timer_cong:
  "timers s' = timers s \<Longrightarrow> clock s' = clock s \<Longrightarrow> has_timer s' h a d = has_timer s h a d"
  by (simp add: has_timer_def)

lemma expiry_ok_mono:
  "expiry_ok s \<Longrightarrow> set (timers s') \<subseteq> set (timers s) \<Longrightarrow> length (heap s') = length (heap s) \<Longrightarrow>
   (\<And>r. r < length (heap s) \<Longrightarrow> ss_timeout (heap s' ! r) = ss_timeout (heap s ! r)) \<Longrightarrow> expiry_ok s'"
  unfolding expiry_ok_def by (metis subsetD)

lemma expiry_ok_new:
  "expiry_ok s \<Longrightarrow> \<forall>ref. a \<noteq> ExpireSession ref \<Longrightarrow> expiry_ok (with_timer a d s)"
  unfolding expiry_ok_def by (auto simp: with_timer_def setTimeout_def)

lemma set_timers_clear: "set (timers (clearTimeout h s)) \<subseteq> set (timers s)"
  by (auto simp: clearTimeout_def)

lemma timers_ok_cong:
  "timers s' = timers s \<Longrightarrow> clock s' = clock s \<Longrightarrow> nextTimer s' = nextTimer s \<Longrightarrow>
   timers_ok s' = timers_ok s"
  by (simp add: timers_ok_def)

lemma heap_ok_cong:
  "timers s' = timers s \<Longrightarrow> heap s' = heap s \<Longrightarrow> nextTimer s' = nextTimer s \<Longrightarrow> heap_ok s' = heap_ok s"
  by (simp add: heap_ok_def)

text \<open>Replies, responses and released lifetimes do not touch the entries.\<close>

lemma sw_inv_same:
  assumes "sw_inv X s"
    and same: "clock s' = clock s" "timers s' = timers s" "heap s' = heap s" "sessions s' = sessions s"
      "fetchWaiters s' = fetchWaiters s" "activeDownloads s' = activeDownloads s"
      "nextTimer s' = nextTimer s"
    and "streamed_ok s'" "X \<union> set (released s) \<subseteq> Y \<union> set (released s')"
  shows "sw_inv Y s'"
proof -
  have T: "has_timer s' h a d = has_timer s h a d" for h a d by (rule has_timer_cong [OF same(2,1)])
  have I: "timers_ok s" "heap_ok s" "sessions_ok s" "active_ok s" "waiters_ok s" "limits_ok s"
    "tracked X s" "expiry_ok s"
    using assms(1) by (simp_all add: sw_inv_def)
  show ?thesis
    unfolding sw_inv_def
  proof (intro conjI)
    show "timers_ok s'" using I(1) by (simp add: timers_ok_cong [of s' s] same)
    show "heap_ok s'" using I(2) unfolding heap_ok_def same .
    show "expiry_ok s'" using I(8) unfolding expiry_ok_def same .
    show "sessions_ok s'" using I(3) unfolding sessions_ok_def same T .
    show "active_ok s'" using I(4) unfolding active_ok_def same T .
    show "waiters_ok s'" using I(5) unfolding waiters_ok_def same T .
    show "limits_ok s'" using I(6) unfolding limits_ok_def same .
    show "streamed_ok s'" by (rule assms(9))
    show "tracked Y s'"
      unfolding tracked_def same
    proof (intro impI allI)
      fix r assume "distinct (map ss_id (heap s))" "r < length (heap s)"
      with I(7) have "r \<in> X \<union> set (released s) \<or>
          map_of (sessions s) (ss_id (heap s ! r)) = Some r \<or>
          (\<exists>e. map_of (activeDownloads s) (ss_id (heap s ! r)) = Some e \<and> ae_session e = r)"
        by (simp add: tracked_def)
      then show "r \<in> Y \<or> r \<in> set (released s') \<or>
          map_of (sessions s) (ss_id (heap s ! r)) = Some r \<or>
          (\<exists>e. map_of (activeDownloads s) (ss_id (heap s ! r)) = Some e \<and> ae_session e = r)"
        using assms(10) by auto
    qed
  qed
qed

section \<open>Operations keep the invariant\<close>

lemma inv_release:
  assumes "sw_inv X s"
  shows "sw_inv X (releaseActiveDownload i ref s)"
proof (cases "\<exists>e. map_of (activeDownloads s) i = Some e \<and> ae_session e = ref")
  case False
  then show ?thesis using assms
    by (auto simp: releaseActiveDownload_def split: option.splits)
next
  case True
  then obtain e where e: "map_of (activeDownloads s) i = Some e" "ae_session e = ref" by blast
  let ?s1 = "clearTimeout (ae_timeout e) s"
  let ?s2 = "?s1\<lparr>activeDownloads := AList.delete i (activeDownloads s), released := ref # released s\<rparr>"
  have eq: "releaseActiveDownload i ref s = ?s2"
    using e by (simp add: releaseActiveDownload_def releaseLifetime_def Let_def)
  have I: "timers_ok s" "heap_ok s" "sessions_ok s" "active_ok s" "waiters_ok s" "limits_ok s"
    "streamed_ok s" "tracked X s" "expiry_ok s"
    using assms by (simp_all add: sw_inv_def)
  obtain h where h: "ae_timeout e = Some h" "has_timer s h (ReleaseActive i ref) ACTIVE_SESSION_TTL_MS"
    using I(4) e by (auto simp: active_ok_def)
  have T: "has_timer ?s2 h' a d \<longleftrightarrow> has_timer s h' a d \<and> h' \<noteq> h" for h' a d
    using has_timer_cong [of ?s2 ?s1] h(1) by simp
  note other = timer_other [OF I(1) h(2)]
  show ?thesis
    unfolding eq sw_inv_def
  proof (intro conjI)
    show "timers_ok ?s2" using timers_ok_clear [OF I(1)] by (simp add: timers_ok_def)
    show "heap_ok ?s2" using heap_ok_clear [OF I(2)] by (simp add: heap_ok_def)
    show "expiry_ok ?s2"
      by (rule expiry_ok_mono [OF I(9)]) (use set_timers_clear in auto)
    show "sessions_ok ?s2" using I(3) other by (auto simp: sessions_ok_def T) blast
    show "active_ok ?s2" using I(4) other by (auto simp: active_ok_def T) blast
    show "waiters_ok ?s2" using I(5) other by (auto simp: waiters_ok_def T) blast
    show "limits_ok ?s2" using I(6) length_delete_le [of i "activeDownloads s"]
      by (auto simp: limits_ok_def)
    show "streamed_ok ?s2" using I(7) by (simp add: streamed_ok_def streamed_def)
    show "tracked X ?s2" using I(8) e by (auto simp: tracked_def)
  qed
qed

text \<open>What \<open>expireSession\<close> and \<open>claimSession\<close> both do first.\<close>

definition closed :: "nat \<Rightarrow> sw_state \<Rightarrow> sw_state" where
  "closed ref s =
     (let session = heap s ! ref;
          s1 = clearTimeout (ss_timeout session)
                 (s\<lparr>heap := (heap s)[ref := session\<lparr>ss_claimed := True\<rparr>]\<rparr>)
      in s1\<lparr>sessions := AList.delete (ss_id session) (sessions s1)\<rparr>)"

lemma closed_simps [simp]:
  "clock (closed ref s) = clock s" "fetchWaiters (closed ref s) = fetchWaiters s"
  "activeDownloads (closed ref s) = activeDownloads s" "nextTimer (closed ref s) = nextTimer s"
  "responses (closed ref s) = responses s" "released (closed ref s) = released s"
  "sessions (closed ref s) = AList.delete (ss_id (heap s ! ref)) (sessions s)"
  "heap (closed ref s) = (heap s)[ref := (heap s ! ref)\<lparr>ss_claimed := True\<rparr>]"
  by (simp_all add: closed_def Let_def)

lemma map_ss_id_claim: "map ss_id (xs[ref := (xs ! ref)\<lparr>ss_claimed := True\<rparr>]) = map ss_id xs"
proof (cases "ref < length xs")
  case True
  then show ?thesis by (simp add: map_update list_update_same_conv)
next
  case False
  then show ?thesis by (simp add: list_update_beyond)
qed

lemma inv_close:
  assumes "sw_inv X s" "ref < length (heap s)" "\<not> ss_claimed (heap s ! ref)"
  shows "sw_inv (insert ref X) (closed ref s)"
proof -
  let ?x = "heap s ! ref" and ?t = "closed ref s"
  have I: "timers_ok s" "heap_ok s" "sessions_ok s" "active_ok s" "waiters_ok s" "limits_ok s"
    "streamed_ok s" "tracked X s" "expiry_ok s"
    using assms(1) by (simp_all add: sw_inv_def)
  have T: "has_timer ?t h a d \<longleftrightarrow> has_timer s h a d \<and> Some h \<noteq> ss_timeout ?x" for h a d
    by (auto simp: closed_def Let_def has_timer_def clearTimeout_def)
  have other: "Some h \<noteq> ss_timeout ?x" if h: "has_timer s h a d" "a \<noteq> ExpireSession ref" for h a d
  proof
    assume "Some h = ss_timeout ?x"
    then have "ss_timeout ?x = Some h" by simp
    then have "\<forall>due act. (h, due, act) \<in> set (timers s) \<longrightarrow> act = ExpireSession ref"
      using I(2) assms(2) unfolding heap_ok_def by blast
    then show False using h by (auto simp: has_timer_def)
  qed
  have upd: "(heap s)[ref := ?x\<lparr>ss_claimed := True\<rparr>] ! r =
      (if r = ref then ?x\<lparr>ss_claimed := True\<rparr> else heap s ! r)" for r
    using assms(2) by auto
  show ?thesis
    unfolding sw_inv_def
  proof (intro conjI)
    show "timers_ok ?t"
      using timers_ok_cong [of ?t "clearTimeout (ss_timeout ?x) s"] timers_ok_clear [OF I(1)]
      by (simp add: closed_def Let_def clearTimeout_def)
    show "heap_ok ?t" using I(2) assms(2)
      by (auto simp: heap_ok_def upd closed_def Let_def clearTimeout_def)
    show "expiry_ok ?t"
      by (rule expiry_ok_mono [OF I(9)]) (auto simp: upd closed_def Let_def clearTimeout_def)
    show "sessions_ok ?t" using I(3) other by (auto simp: sessions_ok_def T upd) blast+
    show "active_ok ?t" using I(4) other by (auto simp: active_ok_def T upd) blast+
    show "waiters_ok ?t" using I(5) other by (auto simp: waiters_ok_def T) blast+
    show "limits_ok ?t" using I(6) length_delete_le [of "ss_id ?x" "sessions s"]
      by (auto simp: limits_ok_def)
    show "streamed_ok ?t" using I(7) by (auto simp: streamed_ok_def streamed_def upd)
    show "tracked (insert ref X) ?t"
      unfolding tracked_def
    proof (intro impI allI)
      fix r assume d: "distinct (map ss_id (heap ?t))" and r: "r < length (heap ?t)"
      from d have d': "distinct (map ss_id (heap s))" by (simp add: map_ss_id_claim)
      have "ss_id (heap s ! r) \<noteq> ss_id ?x" if "r \<noteq> ref"
        using d' r assms(2) that by (auto simp: distinct_conv_nth)
      then show "r \<in> insert ref X \<or> r \<in> set (released ?t) \<or>
          map_of (sessions ?t) (ss_id (heap ?t ! r)) = Some r \<or>
          (\<exists>e. map_of (activeDownloads ?t) (ss_id (heap ?t ! r)) = Some e \<and> ae_session e = r)"
        using I(8) d' r by (auto simp: tracked_def upd)
    qed
  qed
qed

lemma inv_expire:
  assumes "sw_inv X s" "ref < length (heap s)" "ss_claimed (heap s ! ref) \<longrightarrow> ref \<notin> X"
  shows "sw_inv (X - {ref}) (expireSession ref m s)"
proof (cases "ss_claimed (heap s ! ref)")
  case True
  then have "X - {ref} = X" using assms(3) by blast
  then show ?thesis using True assms(1) by (simp add: expireSession_def)
next
  case False
  let ?t = "expireSession ref m s"
  have C: "sw_inv (insert ref X) (closed ref s)" by (rule inv_close [OF assms(1,2) False])
  have eq: "clock ?t = clock (closed ref s)" "timers ?t = timers (closed ref s)"
    "heap ?t = heap (closed ref s)" "sessions ?t = sessions (closed ref s)"
    "fetchWaiters ?t = fetchWaiters (closed ref s)" "activeDownloads ?t = activeDownloads (closed ref s)"
    "nextTimer ?t = nextTimer (closed ref s)" "responses ?t = responses (closed ref s)"
    "released ?t = ref # released (closed ref s)"
    using False by (simp_all add: expireSession_def closed_def Let_def postReply_def releaseLifetime_def)
  have "streamed_ok (closed ref s)" using C by (simp add: sw_inv_def)
  then have "streamed_ok ?t" by (simp add: streamed_ok_def streamed_def eq)
  then show ?thesis by (intro sw_inv_same [OF C eq(1-7)]) (auto simp: eq(9))
qed

lemma inv_put_active:
  assumes "sw_inv X s" "ae_session e < length (heap s)" "ss_id (heap s ! ae_session e) = i"
    "ss_claimed (heap s ! ae_session e)" "delay \<le> ACTIVE_SESSION_TTL_MS"
    and "ae_timeout e = None \<or> map_of (activeDownloads s) i = Some e"
    and "map_of (activeDownloads s) i \<noteq> None \<or> length (activeDownloads s) < MAX_ACTIVE_DOWNLOADS"
  shows "sw_inv (X - {ae_session e}) (refreshActiveDownload i e delay s)"
proof -
  let ?a = "ReleaseActive i (ae_session e)" and ?c = "clearTimeout (ae_timeout e) s"
  let ?w = "with_timer ?a delay ?c"
  let ?t = "?w\<lparr>activeDownloads := AList.update i (e\<lparr>ae_timeout := Some (nextTimer s)\<rparr>) (activeDownloads s)\<rparr>"
  have eq: "refreshActiveDownload i e delay s = ?t"
    by (simp add: refreshActiveDownload_def setTimeout_eq Let_def)
  have I: "timers_ok s" "heap_ok s" "sessions_ok s" "active_ok s" "waiters_ok s" "limits_ok s"
    "streamed_ok s" "tracked X s" "expiry_ok s"
    using assms(1) by (simp_all add: sw_inv_def)
  have own: "has_timer s h ?a ACTIVE_SESSION_TTL_MS" if "ae_timeout e = Some h" for h
  proof -
    have "map_of (activeDownloads s) i = Some e" using assms(6) that by simp
    then show ?thesis using I(4) that unfolding active_ok_def by (metis option.inject)
  qed
  have old: "has_timer ?t h a d" if "has_timer s h a d" "a \<noteq> ?a" for h a d
  proof -
    have "Some h \<noteq> ae_timeout e" using own timer_other [OF I(1) _ that] by metis
    then have "has_timer ?w h a d" using that(1) by (intro has_timer_old) simp
    then show ?thesis using has_timer_cong [of ?t ?w] by simp
  qed
  have new: "has_timer ?t (nextTimer s) ?a ACTIVE_SESSION_TTL_MS"
    using has_timer_new [of ?a delay ?c] assms(5) by (fastforce simp: has_timer_def)
  show ?thesis
    unfolding eq sw_inv_def
  proof (intro conjI)
    show "timers_ok ?t" using timers_ok_new [OF timers_ok_clear [OF I(1)] assms(5)]
      by (simp add: timers_ok_def)
    show "heap_ok ?t" using heap_ok_new [OF heap_ok_clear [OF I(2)]] by (simp add: heap_ok_def)
    have "expiry_ok ?c" by (rule expiry_ok_mono [OF I(9) set_timers_clear]) simp_all
    then have "expiry_ok ?w" by (rule expiry_ok_new) simp
    then show "expiry_ok ?t" by (rule expiry_ok_mono) simp_all
    show "sessions_ok ?t" using I(3) old by (auto simp: sessions_ok_def) blast
    show "active_ok ?t" using I(4) old new assms(2-4) by (auto simp: active_ok_def) blast
    show "waiters_ok ?t" using I(5) old by (auto simp: waiters_ok_def)
    show "limits_ok ?t" using I(6) assms(7) by (auto simp: limits_ok_def length_update)
    show "streamed_ok ?t" using I(7) by (simp add: streamed_ok_def streamed_def)
    show "tracked (X - {ae_session e}) ?t"
      unfolding tracked_def
    proof (intro impI allI)
      fix r assume d: "distinct (map ss_id (heap ?t))" and r: "r < length (heap ?t)"
      have "r = ae_session e" if "ss_id (heap s ! r) = i"
        using d r assms(2,3) that by (auto simp: distinct_conv_nth)
      then show "r \<in> X - {ae_session e} \<or> r \<in> set (released ?t) \<or>
          map_of (sessions ?t) (ss_id (heap ?t ! r)) = Some r \<or>
          (\<exists>e'. map_of (activeDownloads ?t) (ss_id (heap ?t ! r)) = Some e' \<and> ae_session e' = r)"
        using I(8) d r assms(3) by (auto simp: tracked_def)
    qed
  qed
qed

lemma inv_respond:
  assumes "sw_inv X s" "\<forall>ref. r \<noteq> Streamed ref"
  shows "sw_inv X (respond f r s)"
proof -
  have "streamed (respond f r s) = streamed s"
    using assms(2) by (cases r) (simp_all add: streamed_def respond_def)
  then have "streamed_ok (respond f r s)"
    using assms(1) by (simp add: sw_inv_def streamed_ok_def respond_def)
  then show ?thesis by (intro sw_inv_same [OF assms(1)]) (simp_all add: respond_def)
qed

lemma inv_respond_Streamed:
  assumes "sw_inv X s" "ref < length (heap s)" "ss_claimed (heap s ! ref)" "ref \<notin> set (streamed s)"
  shows "sw_inv X (respond f (Streamed ref) s)"
proof -
  have "streamed (respond f (Streamed ref) s) = streamed s @ [ref]"
    by (simp add: streamed_def respond_def)
  then have "streamed_ok (respond f (Streamed ref) s)"
    using assms by (auto simp: sw_inv_def streamed_ok_def respond_def)
  then show ?thesis by (intro sw_inv_same [OF assms(1)]) (simp_all add: respond_def)
qed

lemma inv_postReply: "sw_inv X s \<Longrightarrow> sw_inv X (postReply p m s)"
  by (rule sw_inv_same [where s = s])
    (auto simp: postReply_def sw_inv_def streamed_ok_def streamed_def)

lemma refresh_simps [simp]:
  "heap (refreshActiveDownload i e d s) = heap s"
  "responses (refreshActiveDownload i e d s) = responses s"
  by (simp_all add: refreshActiveDownload_def setTimeout_eq Let_def)

lemma inv_claim:
  assumes "sw_inv X s" "ref < length (heap s)" "\<not> ss_claimed (heap s ! ref)"
  shows "sw_inv (X - {ref}) (claimSession f ref s)"
proof (cases "length (activeDownloads s) \<ge> MAX_ACTIVE_DOWNLOADS")
  case True
  then show ?thesis
    using inv_respond [OF inv_expire [OF assms(1,2)]] assms(3) by (simp add: claimSession_def)
next
  case False
  define i where "i = ss_id (heap s ! ref)"
  define e where "e = \<lparr>ae_session = ref, ae_sourceId = ss_sourceId (heap s ! ref), ae_timeout = None\<rparr>"
  let ?c = "closed ref s" and ?r = "refreshActiveDownload i e ACTIVE_SESSION_TTL_MS (closed ref s)"
  have eq: "claimSession f ref s =
      respond f (Streamed ref) (postReply (ss_port (heap s ! ref)) (Download_started i) ?r)"
    using False assms(3) by (simp add: claimSession_def closed_def Let_def i_def e_def)
  have "sw_inv (insert ref X - {ae_session e}) ?r"
    by (rule inv_put_active [OF inv_close [OF assms]])
      (use False assms(2) in \<open>auto simp: e_def i_def\<close>)
  moreover have "ref \<notin> set (streamed s)" using assms by (auto simp: sw_inv_def streamed_ok_def)
  moreover have "insert ref X - {ae_session e} = X - {ref}" by (auto simp: e_def)
  ultimately show ?thesis
    unfolding eq using assms(2)
    by (intro inv_respond_Streamed inv_postReply) (auto simp: postReply_def streamed_def)
qed

lemma inv_wait:
  assumes "sw_inv X s"
  shows "sw_inv X (waitForSession f i s)"
proof (cases "map_of (fetchWaiters s) i \<noteq> None \<or> length (fetchWaiters s) \<ge> MAX_PENDING_FETCHES")
  case True
  then show ?thesis using inv_respond [OF assms] by (simp add: waitForSession_def)
next
  case False
  let ?w = "with_timer (DropWaiter i f) FETCH_WAIT_MS s"
  let ?t = "?w\<lparr>fetchWaiters := AList.update i (f, nextTimer s) (fetchWaiters s)\<rparr>"
  have eq: "waitForSession f i s = ?t"
    using False by (simp add: waitForSession_def setTimeout_eq Let_def)
  have I: "timers_ok s" "heap_ok s" "sessions_ok s" "active_ok s" "waiters_ok s" "limits_ok s"
    "streamed_ok s" "tracked X s" "expiry_ok s"
    using assms by (simp_all add: sw_inv_def)
  have T: "has_timer ?t h a d = has_timer ?w h a d" for h a d by (rule has_timer_cong) simp_all
  note old = has_timer_old [of s _ _ _ "DropWaiter i f" FETCH_WAIT_MS]
  have d: "FETCH_WAIT_MS \<le> ACTIVE_SESSION_TTL_MS" by (simp add: FETCH_WAIT_MS_def ACTIVE_SESSION_TTL_MS_def)
  show ?thesis
    unfolding eq sw_inv_def
  proof (intro conjI)
    show "timers_ok ?t" using timers_ok_new [OF I(1) d] timers_ok_cong [of ?t ?w] by simp
    show "heap_ok ?t" using heap_ok_new [OF I(2)] by (simp add: heap_ok_def)
    have "expiry_ok ?w" by (rule expiry_ok_new [OF I(9)]) simp
    then show "expiry_ok ?t" by (rule expiry_ok_mono) simp_all
    show "sessions_ok ?t" using I(3) old by (auto simp: sessions_ok_def T) blast
    show "active_ok ?t" using I(4) old by (auto simp: active_ok_def T) blast
    show "waiters_ok ?t" using I(5) old has_timer_new by (auto simp: waiters_ok_def T)
    show "limits_ok ?t" using I(6) False by (auto simp: limits_ok_def length_update)
    show "streamed_ok ?t" using I(7) by (simp add: streamed_ok_def streamed_def)
    show "tracked X ?t" using I(8) by (simp add: tracked_def)
  qed
qed

text \<open>A timer that has run or is cleared, with the entries that used it gone.\<close>

lemma inv_clear:
  assumes "sw_inv X s"
    and "\<And>i ref. map_of (sessions s) i = Some ref \<Longrightarrow> ss_timeout (heap s ! ref) \<noteq> Some h"
    and "\<And>i e. map_of (activeDownloads s) i = Some e \<Longrightarrow> ae_timeout e \<noteq> Some h"
    and "\<And>i f h'. map_of ws i = Some (f, h') \<Longrightarrow> map_of (fetchWaiters s) i = Some (f, h') \<and> h' \<noteq> h"
    and "length ws \<le> length (fetchWaiters s)"
  shows "sw_inv X (clearTimeout (Some h) (s\<lparr>fetchWaiters := ws\<rparr>))"
proof -
  let ?t = "clearTimeout (Some h) (s\<lparr>fetchWaiters := ws\<rparr>)"
  have I: "timers_ok s" "heap_ok s" "sessions_ok s" "active_ok s" "waiters_ok s" "limits_ok s"
    "streamed_ok s" "tracked X s" "expiry_ok s"
    using assms(1) by (simp_all add: sw_inv_def)
  have T: "has_timer ?t h' a d \<longleftrightarrow> has_timer s h' a d \<and> h' \<noteq> h" for h' a d
    using has_timer_cong [of "s\<lparr>fetchWaiters := ws\<rparr>" s] by simp
  show ?thesis
    unfolding sw_inv_def
  proof (intro conjI)
    show "timers_ok ?t"
      using timers_ok_clear [OF I(1), of "Some h"] timers_ok_cong [of ?t "clearTimeout (Some h) s"]
      by (simp add: clearTimeout_def)
    show "heap_ok ?t"
      using heap_ok_clear [OF I(2), of "Some h"] heap_ok_cong [of ?t "clearTimeout (Some h) s"]
      by (simp add: clearTimeout_def)
    show "expiry_ok ?t"
      by (rule expiry_ok_mono [OF I(9)]) (auto simp: clear_timers)
    show "sessions_ok ?t"
      unfolding sessions_ok_def T
    proof (intro allI impI)
      fix i ref assume "map_of (sessions ?t) i = Some ref"
      then have m: "map_of (sessions s) i = Some ref" by simp
      with I(3) obtain h' where "ref < length (heap s) \<and> ss_id (heap s ! ref) = i \<and>
          \<not> ss_claimed (heap s ! ref)" "ss_timeout (heap s ! ref) = Some h'"
          "has_timer s h' (ExpireSession ref) SESSION_TTL_MS"
        unfolding sessions_ok_def by blast
      then show "ref < length (heap ?t) \<and> ss_id (heap ?t ! ref) = i \<and> \<not> ss_claimed (heap ?t ! ref) \<and>
          (\<exists>h'. ss_timeout (heap ?t ! ref) = Some h' \<and>
             has_timer s h' (ExpireSession ref) SESSION_TTL_MS \<and> h' \<noteq> h)"
        using assms(2) [OF m] by simp
    qed
    show "active_ok ?t"
      unfolding active_ok_def T
    proof (intro allI impI)
      fix i e assume "map_of (activeDownloads ?t) i = Some e"
      then have m: "map_of (activeDownloads s) i = Some e" by simp
      with I(4) obtain h' where "ae_session e < length (heap s) \<and> ss_id (heap s ! ae_session e) = i \<and>
          ss_claimed (heap s ! ae_session e)" "ae_timeout e = Some h'"
          "has_timer s h' (ReleaseActive i (ae_session e)) ACTIVE_SESSION_TTL_MS"
        unfolding active_ok_def by blast
      then show "ae_session e < length (heap ?t) \<and> ss_id (heap ?t ! ae_session e) = i \<and>
          ss_claimed (heap ?t ! ae_session e) \<and>
          (\<exists>h'. ae_timeout e = Some h' \<and>
             has_timer s h' (ReleaseActive i (ae_session e)) ACTIVE_SESSION_TTL_MS \<and> h' \<noteq> h)"
        using assms(3) [OF m] by simp
    qed
    show "waiters_ok ?t" using I(5) assms(4) unfolding waiters_ok_def T by simp
    show "limits_ok ?t" using I(6) assms(5) by (simp add: limits_ok_def)
    show "streamed_ok ?t" using I(7) by (simp add: streamed_ok_def streamed_def)
    show "tracked X ?t" using I(8) by (simp add: tracked_def)
  qed
qed

text \<open>The entries that use a handle, from the action of its timer.\<close>

lemma users_of_timer:
  assumes "sw_inv X s" "(h, due, act) \<in> set (timers s)"
  shows "map_of (sessions s) i = Some ref \<Longrightarrow> ss_timeout (heap s ! ref) = Some h \<Longrightarrow>
      act = ExpireSession ref"
    and "map_of (activeDownloads s) i = Some e \<Longrightarrow> ae_timeout e = Some h \<Longrightarrow>
      act = ReleaseActive i (ae_session e)"
    and "map_of (fetchWaiters s) i = Some (f, h) \<Longrightarrow> act = DropWaiter i f"
proof -
  have I: "timers_ok s" "sessions_ok s" "active_ok s" "waiters_ok s"
    using assms(1) by (simp_all add: sw_inv_def)
  have t: "has_timer s h act ACTIVE_SESSION_TTL_MS"
    using assms(2) I(1) by (auto simp: has_timer_def timers_ok_def)
  note u = has_timer_unique [OF I(1) t]
  show "map_of (sessions s) i = Some ref \<Longrightarrow> ss_timeout (heap s ! ref) = Some h \<Longrightarrow>
      act = ExpireSession ref"
    using I(2) u by (fastforce simp: sessions_ok_def)
  show "map_of (activeDownloads s) i = Some e \<Longrightarrow> ae_timeout e = Some h \<Longrightarrow>
      act = ReleaseActive i (ae_session e)"
    using I(3) u by (fastforce simp: active_ok_def)
  show "map_of (fetchWaiters s) i = Some (f, h) \<Longrightarrow> act = DropWaiter i f"
    using I(4) u by (fastforce simp: waiters_ok_def)
qed

lemma inv_drop_waiter:
  assumes "sw_inv X s" "map_of (fetchWaiters s) i = Some (f, h)"
  shows "sw_inv X (clearTimeout (Some h) (s\<lparr>fetchWaiters := AList.delete i (fetchWaiters s)\<rparr>))"
proof -
  have "has_timer s h (DropWaiter i f) FETCH_WAIT_MS"
    using assms unfolding sw_inv_def waiters_ok_def by blast
  then obtain due where t: "(h, due, DropWaiter i f) \<in> set (timers s)"
    by (auto simp: has_timer_def)
  note u = users_of_timer [OF assms(1) t]
  show ?thesis
    using u by (intro inv_clear [OF assms(1)]) (auto simp: length_delete_le split: if_splits)
qed

section \<open>New sessions\<close>

lemma inv_append:
  assumes "sw_inv {} s" "ss_timeout x = None"
  shows "sw_inv {length (heap s)} (s\<lparr>heap := heap s @ [x]\<rparr>)"
proof -
  let ?t = "s\<lparr>heap := heap s @ [x]\<rparr>"
  have I: "timers_ok s" "heap_ok s" "sessions_ok s" "active_ok s" "waiters_ok s" "limits_ok s"
    "streamed_ok s" "tracked {} s" "expiry_ok s"
    using assms(1) by (simp_all add: sw_inv_def)
  have T: "has_timer ?t h a d = has_timer s h a d" for h a d by (rule has_timer_cong) simp_all
  show ?thesis
    unfolding sw_inv_def
  proof (intro conjI)
    show "timers_ok ?t" using I(1) by (simp add: timers_ok_def)
    show "heap_ok ?t" using I(2) assms(2) by (auto simp: heap_ok_def nth_append less_Suc_eq)
    show "expiry_ok ?t" using I(9) unfolding expiry_ok_def by (fastforce simp: nth_append)
    show "sessions_ok ?t" using I(3) unfolding sessions_ok_def T by (fastforce simp: nth_append)
    show "active_ok ?t" using I(4) unfolding active_ok_def T by (fastforce simp: nth_append)
    show "waiters_ok ?t" using I(5) by (simp add: waiters_ok_def T)
    show "limits_ok ?t" using I(6) by (simp add: limits_ok_def)
    show "streamed_ok ?t" using I(7) by (auto simp: streamed_ok_def streamed_def nth_append)
    show "tracked {length (heap s)} ?t" using I(8) by (auto simp: tracked_def nth_append less_Suc_eq)
  qed
qed

text \<open>A session that is put down waits with a timer of its own.\<close>

lemma inv_put_session:
  assumes "sw_inv X s" "ref < length (heap s)" "\<not> ss_claimed (heap s ! ref)"
    "ss_timeout (heap s ! ref) = None" "map_of (sessions s) (ss_id (heap s ! ref)) = None"
    "length (sessions s) < MAX_PENDING_SESSIONS"
  defines "w \<equiv> with_timer (ExpireSession ref) SESSION_TTL_MS s"
  defines "x \<equiv> (heap s ! ref)\<lparr>ss_timeout := Some (nextTimer s)\<rparr>"
  shows "sw_inv (X - {ref}) (w\<lparr>heap := (heap s)[ref := x],
    sessions := AList.update (ss_id (heap s ! ref)) ref (sessions s)\<rparr>)"
proof -
  let ?t = "w\<lparr>heap := (heap s)[ref := x],
    sessions := AList.update (ss_id (heap s ! ref)) ref (sessions s)\<rparr>"
  have I: "timers_ok s" "heap_ok s" "sessions_ok s" "active_ok s" "waiters_ok s" "limits_ok s"
    "streamed_ok s" "tracked X s" "expiry_ok s"
    using assms(1) by (simp_all add: sw_inv_def)
  have T: "has_timer ?t h a d = has_timer w h a d" for h a d by (rule has_timer_cong) simp_all
  note old = has_timer_old [of s _ _ _ "ExpireSession ref" SESSION_TTL_MS, folded w_def]
  have upd: "(heap s)[ref := x] ! r = (if r = ref then x else heap s ! r)" for r
    using assms(2) by auto
  have x: "ss_id x = ss_id (heap s ! ref)" "\<not> ss_claimed x" "ss_timeout x = Some (nextTimer s)"
    using assms(3) by (simp_all add: x_def)
  have d: "SESSION_TTL_MS \<le> ACTIVE_SESSION_TTL_MS"
    by (simp add: SESSION_TTL_MS_def ACTIVE_SESSION_TTL_MS_def)
  have ts: "timers w = timers s @ [(nextTimer s, clock s + SESSION_TTL_MS, ExpireSession ref)]"
    by (simp add: w_def with_timer_def setTimeout_def)
  have nt: "nextTimer w = Suc (nextTimer s)" by (simp add: w_def)
  have less: "h < nextTimer s" if "(h, due, a) \<in> set (timers s)" for h due a
    using I(1) that by (auto simp: timers_ok_def)
  show ?thesis
    unfolding sw_inv_def
  proof (intro conjI)
    show "timers_ok ?t"
      using timers_ok_new [OF I(1) d, of "ExpireSession ref", folded w_def] timers_ok_cong [of ?t w] by simp
    show "heap_ok ?t"
      unfolding heap_ok_def
    proof (intro allI impI)
      fix r h assume r: "r < length (heap ?t)" "ss_timeout (heap ?t ! r) = Some h"
      show "h < nextTimer ?t \<and> (\<forall>due act. (h, due, act) \<in> set (timers ?t) \<longrightarrow> act = ExpireSession r)"
      proof (cases "r = ref")
        case True
        then have "h = nextTimer s" using r assms(2) x(3) by (simp add: upd)
        then show ?thesis using True less by (auto simp: ts nt)
      next
        case False
        then have "h < nextTimer s \<and> (\<forall>due act. (h, due, act) \<in> set (timers s) \<longrightarrow> act = ExpireSession r)"
          using r I(2) by (simp add: heap_ok_def upd)
        then show ?thesis using r False I(9) by (auto simp: ts nt)
      qed
    qed
    show "expiry_ok ?t"
      unfolding expiry_ok_def
    proof (intro allI impI)
      fix h due r assume "(h, due, ExpireSession r) \<in> set (timers ?t)"
      then consider "(h, due, ExpireSession r) \<in> set (timers s)" | "h = nextTimer s" "r = ref"
        by (auto simp: ts)
      then show "r < length (heap ?t) \<and> ss_timeout (heap ?t ! r) = Some h"
      proof cases
        case 1
        then have "r < length (heap s) \<and> ss_timeout (heap s ! r) = Some h"
          using I(9) unfolding expiry_ok_def by blast
        moreover from this have "r \<noteq> ref" using assms(4) by auto
        ultimately show ?thesis by (simp add: upd)
      qed (use assms(2) x(3) in simp_all)
    qed
    show "sessions_ok ?t"
      unfolding sessions_ok_def T
    proof (intro allI impI)
      fix i r assume m: "map_of (sessions ?t) i = Some r"
      show "r < length (heap ?t) \<and> ss_id (heap ?t ! r) = i \<and> \<not> ss_claimed (heap ?t ! r) \<and>
        (\<exists>h. ss_timeout (heap ?t ! r) = Some h \<and> has_timer w h (ExpireSession r) SESSION_TTL_MS)"
      proof (cases "i = ss_id (heap s ! ref)")
        case True
        then have "r = ref" using m by simp
        then show ?thesis using True assms(2) x has_timer_new [of "ExpireSession ref"] by (simp add: w_def)
      next
        case False
        then have m': "map_of (sessions s) i = Some r" using m by simp
        then obtain h where h: "r < length (heap s) \<and> ss_id (heap s ! r) = i \<and> \<not> ss_claimed (heap s ! r)"
            "ss_timeout (heap s ! r) = Some h" "has_timer s h (ExpireSession r) SESSION_TTL_MS"
          using I(3) unfolding sessions_ok_def by blast
        moreover have "r \<noteq> ref" using h(1) False by auto
        ultimately show ?thesis using old [OF h(3)] by (simp add: upd)
      qed
    qed
    show "active_ok ?t"
      unfolding active_ok_def T
    proof (intro allI impI)
      fix i e assume "map_of (activeDownloads ?t) i = Some e"
      then have "map_of (activeDownloads s) i = Some e" by (simp add: w_def)
      then obtain h where h: "ae_session e < length (heap s) \<and> ss_id (heap s ! ae_session e) = i \<and>
          ss_claimed (heap s ! ae_session e)" "ae_timeout e = Some h"
          "has_timer s h (ReleaseActive i (ae_session e)) ACTIVE_SESSION_TTL_MS"
        using I(4) unfolding active_ok_def by blast
      moreover have "ae_session e \<noteq> ref" using h(1) assms(3) by auto
      ultimately show "ae_session e < length (heap ?t) \<and> ss_id (heap ?t ! ae_session e) = i \<and>
          ss_claimed (heap ?t ! ae_session e) \<and>
          (\<exists>h. ae_timeout e = Some h \<and> has_timer w h (ReleaseActive i (ae_session e)) ACTIVE_SESSION_TTL_MS)"
        using old [OF h(3)] by (simp add: upd)
    qed
    have "fetchWaiters ?t = fetchWaiters s" by (simp add: w_def)
    then show "waiters_ok ?t" using I(5) old unfolding waiters_ok_def T by metis
    show "limits_ok ?t" using I(6) assms(5,6) by (auto simp: limits_ok_def length_update w_def)
    have "streamed ?t = streamed s" by (simp add: streamed_def w_def)
    moreover have "ss_claimed (heap ?t ! r) = ss_claimed (heap s ! r)" for r
      using assms(3) x(2) by (simp add: upd)
    ultimately show "streamed_ok ?t" using I(7) by (simp add: streamed_ok_def)
    show "tracked (X - {ref}) ?t"
      unfolding tracked_def
    proof (intro impI allI)
      fix r assume d: "distinct (map ss_id (heap ?t))" and r: "r < length (heap ?t)"
      have ids: "map ss_id (heap ?t) = map ss_id (heap s)"
        using assms(2) x(1) by (simp add: map_update list_update_same_conv)
      then have "ss_id (heap s ! r) \<noteq> ss_id (heap s ! ref)" if "r \<noteq> ref"
        using d r assms(2) that by (auto simp: distinct_conv_nth)
      then show "r \<in> X - {ref} \<or> r \<in> set (released ?t) \<or>
          map_of (sessions ?t) (ss_id (heap ?t ! r)) = Some r \<or>
          (\<exists>e. map_of (activeDownloads ?t) (ss_id (heap ?t ! r)) = Some e \<and> ae_session e = r)"
        using I(8) d r ids x(1) by (auto simp: tracked_def upd w_def)
    qed
  qed
qed

lemma inv_offer:
  assumes "sw_inv X s" "ref < length (heap s)" "\<not> ss_claimed (heap s ! ref)"
    "ss_timeout (heap s ! ref) = None" "offerSession ref s = (b, t)"
  shows "if b then sw_inv (X - {ref}) t else t = s"
proof (cases "length (activeDownloads s) \<ge> MAX_ACTIVE_DOWNLOADS")
  case True
  then show ?thesis using assms(5) by (auto simp: offerSession_def)
next
  case free: False
  let ?i = "ss_id (heap s ! ref)"
  show ?thesis
  proof (cases "map_of (fetchWaiters s) ?i")
    case (Some fh)
    obtain f h where fh: "map_of (fetchWaiters s) ?i = Some (f, h)" using Some by (cases fh) auto
    have "b" "t = claimSession f ref
        (clearTimeout (Some h) (s\<lparr>fetchWaiters := AList.delete ?i (fetchWaiters s)\<rparr>))"
      using assms(5) free fh by (simp_all add: offerSession_def Let_def)
    then show ?thesis
      using inv_claim [OF inv_drop_waiter [OF assms(1) fh]] assms(2,3) by simp
  next
    case None
    show ?thesis
    proof (cases "map_of (sessions s) ?i \<noteq> None \<or> length (sessions s) \<ge> MAX_PENDING_SESSIONS")
      case True
      then show ?thesis using assms(5) free None by (auto simp: offerSession_def)
    next
      case False
      then have "b" "t = (with_timer (ExpireSession ref) SESSION_TTL_MS s)
          \<lparr>heap := (heap s)[ref := (heap s ! ref)\<lparr>ss_timeout := Some (nextTimer s)\<rparr>],
           sessions := AList.update ?i ref (sessions s)\<rparr>"
        using assms(5) free None by (simp_all add: offerSession_def setTimeout_eq Let_def)
      then show ?thesis using inv_put_session [OF assms(1-4)] False by simp
    qed
  qed
qed

section \<open>Messages, requests, timers\<close>

lemma inv_cancelStream: "sw_inv X s \<Longrightarrow> sw_inv X (s\<lparr>cancelledStreams := cs\<rparr>)"
  by (rule sw_inv_same [where s = s]) (auto simp: sw_inv_def streamed_ok_def streamed_def)

lemma inv_onOffer:
  assumes "sw_inv {} s"
  shows "sw_inv {} (onOffer m port source s)"
proof (cases "valid_offer m source")
  case False
  have "sw_inv {} (postReply p r s')" if "sw_inv {} s'" for p r s' using inv_postReply [OF that] .
  then show ?thesis using False assms inv_cancelStream
    by (auto simp: onOffer_def split: option.splits)
next
  case True
  define x where "x = \<lparr>ss_id = js_text (msg_id m), ss_fileName = js_text (msg_fileName m),
               ss_size = js_number_of (msg_size m), ss_readable = the (msg_readable m), ss_port = port,
               ss_sourceId = the source, ss_claimed = False, ss_timeout = None\<rparr>"
  let ?n = "length (heap s)" and ?s = "s\<lparr>heap := heap s @ [x]\<rparr>"
  obtain b t where o: "offerSession ?n ?s = (b, t)" by fastforce
  have A: "sw_inv {?n} ?s" by (rule inv_append [OF assms]) (simp add: x_def)
  have O: "if b then sw_inv {} t else t = ?s"
    using inv_offer [OF A _ _ _ o] unfolding Diff_cancel by (simp add: x_def nth_append)
  have "sw_inv {} (expireSession ?n msg ?s)" for msg
    using inv_expire [OF A, of ?n] by (simp add: x_def nth_append)
  then show ?thesis using True o O by (simp add: onOffer_def x_def [symmetric] Let_def)
qed

lemma inv_cancelPending:
  assumes "sw_inv {} s"
  shows "sw_inv {} (cancelPending i source s)"
proof -
  let ?wake = "(case map_of (fetchWaiters s) i of
       None \<Rightarrow> s
     | Some (f, h) \<Rightarrow>
         respond f Gone (clearTimeout (Some h) (s\<lparr>fetchWaiters := AList.delete i (fetchWaiters s)\<rparr>)))"
  have wake: "sw_inv {} ?wake"
  proof (cases "map_of (fetchWaiters s) i")
    case None
    then show ?thesis using assms by simp
  next
    case (Some fh)
    then obtain f h where fh: "map_of (fetchWaiters s) i = Some (f, h)" by (cases fh) auto
    show ?thesis using inv_respond [OF inv_drop_waiter [OF assms fh]] fh by simp
  qed
  have "sw_inv {} (expireSession ref m s)" if "map_of (sessions s) i = Some ref" for ref m
    using inv_expire [OF assms, of ref] assms that by (auto simp: sw_inv_def sessions_ok_def)
  then show ?thesis using wake by (auto simp: cancelPending_def Let_def split: option.splits)
qed

lemma inv_refresh:
  assumes "sw_inv {} s" "map_of (activeDownloads s) i = Some e" "delay \<le> ACTIVE_SESSION_TTL_MS"
  shows "sw_inv {} (refreshActiveDownload i e delay s)"
proof -
  have "ae_session e < length (heap s) \<and> ss_id (heap s ! ae_session e) = i \<and>
      ss_claimed (heap s ! ae_session e)"
    using assms(1,2) by (simp add: sw_inv_def active_ok_def)
  then show ?thesis using inv_put_active [OF assms(1) _ _ _ assms(3)] assms(2) by simp
qed

lemma inv_onControl:
  assumes "sw_inv {} s"
  shows "sw_inv {} (onControl typ i source s)"
proof -
  have "COMPLETE_GRACE_MS \<le> ACTIVE_SESSION_TTL_MS"
    by (simp add: COMPLETE_GRACE_MS_def ACTIVE_SESSION_TTL_MS_def)
  then show ?thesis
    using assms inv_refresh [OF assms] inv_release [OF assms] inv_cancelPending [OF assms]
    by (auto simp: onControl_def Let_def split: option.splits)
qed

lemma inv_onMessage:
  assumes "sw_inv {} s"
  shows "sw_inv {} (onMessage ev s)"
proof (cases "ev_data ev")
  case None
  then show ?thesis using assms by (simp add: onMessage_def)
next
  case (Some m)
  then show ?thesis
    using assms inv_onControl [OF assms] inv_onOffer [OF assms] inv_postReply inv_cancelStream [OF assms]
    unfolding onMessage_def by (auto simp: Let_def split: option.splits prod.splits)
qed

lemma inv_take_session:
  assumes "sw_inv {} s" "map_of (sessions s) i = Some ref"
  shows "sw_inv {ref} (s\<lparr>sessions := AList.delete i (sessions s)\<rparr>)"
proof -
  let ?t = "s\<lparr>sessions := AList.delete i (sessions s)\<rparr>"
  have I: "timers_ok s" "heap_ok s" "sessions_ok s" "active_ok s" "waiters_ok s" "limits_ok s"
    "streamed_ok s" "tracked {} s" "expiry_ok s"
    using assms(1) by (simp_all add: sw_inv_def)
  have T: "has_timer ?t h a d = has_timer s h a d" for h a d by (rule has_timer_cong) simp_all
  have id: "ref < length (heap s)" "ss_id (heap s ! ref) = i"
    using I(3) assms(2) by (simp_all add: sessions_ok_def)
  show ?thesis
    unfolding sw_inv_def
  proof (intro conjI)
    show "timers_ok ?t" using I(1) by (simp add: timers_ok_def)
    show "heap_ok ?t" using I(2) heap_ok_cong [of ?t s] by simp
    show "expiry_ok ?t" by (rule expiry_ok_mono [OF I(9)]) simp_all
    show "sessions_ok ?t" using I(3) by (simp add: sessions_ok_def T)
    show "active_ok ?t" using I(4) by (simp add: active_ok_def T)
    show "waiters_ok ?t" using I(5) by (simp add: waiters_ok_def T)
    show "limits_ok ?t" using I(6) length_delete_le [of i "sessions s"] by (simp add: limits_ok_def)
    show "streamed_ok ?t" using I(7) by (simp add: streamed_ok_def streamed_def)
    show "tracked {ref} ?t"
      unfolding tracked_def
    proof (intro impI allI)
      fix r assume d: "distinct (map ss_id (heap ?t))" and r: "r < length (heap ?t)"
      have "r = ref" if "ss_id (heap s ! r) = i"
        using d r id that by (auto simp: distinct_conv_nth)
      then show "r \<in> {ref} \<or> r \<in> set (released ?t) \<or>
          map_of (sessions ?t) (ss_id (heap ?t ! r)) = Some r \<or>
          (\<exists>e. map_of (activeDownloads ?t) (ss_id (heap ?t ! r)) = Some e \<and> ae_session e = r)"
        using I(8) d r by (auto simp: tracked_def)
    qed
  qed
qed

lemma inv_onFetch:
  assumes "sw_inv {} s"
  shows "sw_inv {} (onFetch req s)"
proof -
  let ?s = "s\<lparr>nextFetch := Suc (nextFetch s)\<rparr>"
  have s: "sw_inv {} ?s"
    by (rule sw_inv_same [OF assms]) (use assms in \<open>auto simp: sw_inv_def streamed_ok_def streamed_def\<close>)
  have "sw_inv {} (claimSession f ref (?s\<lparr>sessions := AList.delete i (sessions s)\<rparr>))"
    if m: "map_of (sessions s) i = Some ref" for f ref i
  proof -
    have "map_of (sessions ?s) i = Some ref" using m by simp
    from inv_claim [OF inv_take_session [OF s this], of ref f] m assms show ?thesis
      by (simp add: sw_inv_def sessions_ok_def Diff_cancel)
  qed
  then show ?thesis
    using s inv_wait [OF s] inv_respond [OF s]
    by (auto simp: onFetch_def Let_def split: option.splits)
qed

lemma expire_after_clear:
  "ss_timeout (heap s ! ref) = Some h \<Longrightarrow> \<not> ss_claimed (heap s ! ref) \<Longrightarrow>
   expireSession ref m (clearTimeout (Some h) s) = expireSession ref m s"
  by (simp add: expireSession_def clearTimeout_def postReply_def releaseLifetime_def Let_def)

lemma release_after_clear:
  "map_of (activeDownloads s) i = Some e \<Longrightarrow> ae_timeout e = Some h \<Longrightarrow>
   releaseActiveDownload i (ae_session e) (clearTimeout (Some h) s) =
   releaseActiveDownload i (ae_session e) s"
  by (simp add: releaseActiveDownload_def clearTimeout_def releaseLifetime_def Let_def)

lemma clear_waiters:
  "clearTimeout h (s\<lparr>fetchWaiters := ws\<rparr>) = (clearTimeout h s)\<lparr>fetchWaiters := ws\<rparr>"
  by (simp add: clearTimeout_def)

lemma inv_fire:
  assumes "sw_inv {} s" "(h, due, act) \<in> set (timers s)"
  shows "sw_inv {} (runTimer act (clearTimeout (Some h) s))"
proof (cases act)
  case (ExpireSession ref)
  have ref: "ref < length (heap s)" "ss_timeout (heap s ! ref) = Some h"
    using assms ExpireSession by (auto simp: sw_inv_def expiry_ok_def)
  show ?thesis
  proof (cases "ss_claimed (heap s ! ref)")
    case False
    then show ?thesis
      using inv_expire [OF assms(1) ref(1)] ref(2) by (simp add: ExpireSession runTimer_def expire_after_clear)
  next
    case True
    have "sw_inv {} (clearTimeout (Some h) (s\<lparr>fetchWaiters := fetchWaiters s\<rparr>))"
    proof (rule inv_clear [OF assms(1)])
      fix i r assume m: "map_of (sessions s) i = Some r"
      then have "\<not> ss_claimed (heap s ! r)" using assms(1) by (auto simp: sw_inv_def sessions_ok_def)
      then show "ss_timeout (heap s ! r) \<noteq> Some h"
        using users_of_timer(1) [OF assms m] ExpireSession True by auto
    qed (use users_of_timer(2,3) [OF assms] ExpireSession in auto)
    then show ?thesis using True by (simp add: ExpireSession runTimer_def expireSession_def)
  qed
next
  case (ReleaseActive i ref)
  show ?thesis
  proof (cases "\<exists>e. map_of (activeDownloads s) i = Some e \<and> ae_session e = ref \<and> ae_timeout e = Some h")
    case True
    then show ?thesis
      using inv_release [OF assms(1)] by (auto simp: ReleaseActive runTimer_def release_after_clear)
  next
    case False
    have "sw_inv {} (clearTimeout (Some h) (s\<lparr>fetchWaiters := fetchWaiters s\<rparr>))"
      by (rule inv_clear [OF assms(1)])
        (use users_of_timer [OF assms] ReleaseActive False in auto)
    then show ?thesis using inv_release by (simp add: ReleaseActive runTimer_def)
  qed
next
  case (DropWaiter i f)
  have "sw_inv {} (clearTimeout (Some h) (s\<lparr>fetchWaiters := AList.delete i (fetchWaiters s)\<rparr>))"
    by (rule inv_clear [OF assms(1)])
      (use users_of_timer [OF assms] DropWaiter in \<open>auto simp: length_delete_le split: if_splits\<close>)
  then show ?thesis
    using inv_respond by (simp add: DropWaiter runTimer_def clear_waiters)
qed

lemma inv_tick:
  assumes "sw_inv {} s"
  shows "sw_inv {} (s\<lparr>clock := Suc (clock s)\<rparr>)"
proof -
  let ?t = "s\<lparr>clock := Suc (clock s)\<rparr>"
  have T: "has_timer s h a d \<Longrightarrow> has_timer ?t h a d" for h a d by (fastforce simp: has_timer_def)
  have I: "timers_ok s" "heap_ok s" "sessions_ok s" "active_ok s" "waiters_ok s" "limits_ok s"
    "streamed_ok s" "tracked {} s" "expiry_ok s"
    using assms(1) by (simp_all add: sw_inv_def)
  show ?thesis
    unfolding sw_inv_def
  proof (intro conjI)
    show "timers_ok ?t" using I(1) by (fastforce simp: timers_ok_def)
    show "heap_ok ?t" using I(2) heap_ok_cong [of ?t s] by simp
    show "expiry_ok ?t" by (rule expiry_ok_mono [OF I(9)]) simp_all
    show "sessions_ok ?t" using I(3) T by (simp add: sessions_ok_def) blast
    show "active_ok ?t" using I(4) T by (simp add: active_ok_def) blast
    show "waiters_ok ?t" using I(5) T by (simp add: waiters_ok_def)
    show "limits_ok ?t" using I(6) by (simp add: limits_ok_def)
    show "streamed_ok ?t" using I(7) by (simp add: streamed_ok_def streamed_def)
    show "tracked {} ?t" using I(8) by (simp add: tracked_def)
  qed
qed

lemma inv_start: "sw_inv {} sw_start"
  by (simp add: sw_inv_def sw_start_def timers_ok_def heap_ok_def expiry_ok_def sessions_ok_def
      active_ok_def waiters_ok_def limits_ok_def streamed_ok_def streamed_def tracked_def)

lemma inv_idle: "idle_step s t \<Longrightarrow> sw_inv {} s \<Longrightarrow> sw_inv {} t"
  by (erule idle_stepE) (simp_all add: inv_fire inv_tick)

lemma inv_sw_step: "sw_inv {} s \<Longrightarrow> sw_step s t \<Longrightarrow> sw_inv {} t"
  by (erule sw_stepE) (simp_all add: inv_onMessage inv_onFetch inv_idle)

interpretation worker: invariant_system "\<lambda>s. s = sw_start" sw_step "sw_inv {}"
  by unfold_locales (auto simp: inv_start inv_sw_step)

end
