(* ===== verification/Worker_Properties.thy ===== *)
theory Worker_Properties
  imports Worker_Invariant
begin

text \<open>
  Liveness of the service worker: without new messages everything drains, and each offered session
  is released in the end. A run without messages is a sequence of \<open>idle_step\<close>s. The limits of
  the three maps in every reachable state follow from the invariant.
\<close>

section \<open>Without messages everything drains\<close>

abbreviation idle_steps :: "sw_state \<Rightarrow> sw_state \<Rightarrow> bool" where
  "idle_steps \<equiv> idle_step\<^sup>*\<^sup>*"

text \<open>No timer is due that has not run: the event loop is not blocked.\<close>

definition punctual :: "sw_state \<Rightarrow> bool" where
  "punctual s \<longleftrightarrow> (\<forall>(h, due, act) \<in> set (timers s). clock s < due)"

text \<open>Timers only go, the heap keeps its ids.\<close>

lemma release_mono:
  "set (timers (releaseActiveDownload i ref s)) \<subseteq> set (timers s)"
  "heap (releaseActiveDownload i ref s) = heap s" "clock (releaseActiveDownload i ref s) = clock s"
  by (auto simp: releaseActiveDownload_def releaseLifetime_def clearTimeout_def Let_def split: option.splits)

lemma expire_mono:
  "set (timers (expireSession ref m s)) \<subseteq> set (timers s)"
  "map ss_id (heap (expireSession ref m s)) = map ss_id (heap s)" "clock (expireSession ref m s) = clock s"
  by (auto simp: expireSession_def postReply_def releaseLifetime_def clearTimeout_def Let_def map_ss_id_claim)

lemma runTimer_mono:
  "set (timers (runTimer act s)) \<subseteq> set (timers s)"
  "map ss_id (heap (runTimer act s)) = map ss_id (heap s)" "clock (runTimer act s) = clock s"
  by (cases act; simp add: runTimer_def respond_def release_mono expire_mono)+

lemma length_runTimer: "length (timers (runTimer act s)) \<le> length (timers s)"
  by (cases act)
    (auto simp: runTimer_def respond_def expireSession_def releaseActiveDownload_def postReply_def
      releaseLifetime_def clear_timers Let_def length_filter_le split: option.splits)

lemma idle_mono:
  assumes "idle_steps s t"
  shows "set (timers t) \<subseteq> set (timers s) \<and> map ss_id (heap t) = map ss_id (heap s) \<and> clock s \<le> clock t"
  using assms
proof (induction rule: rtranclp_induct)
  case base
  then show ?case by simp
next
  case (step t u)
  have "set (timers u) \<subseteq> set (timers t) \<and> map ss_id (heap u) = map ss_id (heap t) \<and> clock t \<le> clock u"
    using step.hyps(2)
  proof (cases rule: idle_step.cases)
    case (fire h due act)
    then show ?thesis
      using runTimer_mono [of act "clearTimeout (Some h) t"] set_timers_clear [of "Some h" t] by auto
  qed simp
  then show ?case using step.IH by auto
qed

lemma idle_inv: "idle_steps s t \<Longrightarrow> sw_inv {} s \<Longrightarrow> sw_inv {} t"
  by (induction rule: rtranclp_induct) (simp_all add: inv_idle)

text \<open>All due timers can run, one after the other.\<close>

lemma run_due_timers: "\<exists>t. idle_steps s t \<and> punctual t \<and> clock t = clock s"
proof (induction "length (timers s)" arbitrary: s rule: less_induct)
  case less
  show ?case
  proof (cases "punctual s")
    case True
    then show ?thesis by blast
  next
    case False
    then obtain h due act where t: "(h, due, act) \<in> set (timers s)" "due \<le> clock s"
      by (fastforce simp: punctual_def)
    let ?u = "runTimer act (clearTimeout (Some h) s)"
    have step: "idle_step s ?u" by (rule idle_step.fire [OF t])
    have "length (timers (clearTimeout (Some h) s)) < length (timers s)"
      using t(1) by (auto simp: clear_timers intro!: length_filter_less)
    then have "length (timers ?u) < length (timers s)"
      using length_runTimer [of act "clearTimeout (Some h) s"] by simp
    from less [OF this] obtain v where "idle_steps ?u v" "punctual v" "clock v = clock ?u" by blast
    moreover have "clock ?u = clock s" using runTimer_mono(3) by simp
    ultimately show ?thesis using step by (metis converse_rtranclp_into_rtranclp)
  qed
qed

lemma wait_for: "\<exists>t. idle_steps s t \<and> clock t = clock s + n"
proof (induction n)
  case 0
  then show ?case by auto
next
  case (Suc n)
  then obtain t where "idle_steps s t" "clock t = clock s + n" by blast
  moreover have "idle_step t (t\<lparr>clock := Suc (clock t)\<rparr>)" by (rule idle_step.tick)
  ultimately have "idle_steps s (t\<lparr>clock := Suc (clock t)\<rparr>)" by simp
  then show ?case using \<open>clock t = clock s + n\<close> 
    by (intro exI [of _ "t\<lparr>clock := Suc (clock t)\<rparr>"] conjI) simp_all
qed

text \<open>Late and punctual, a state has no timers left, so no entries, so nothing unreleased.\<close>

lemma drained:
  assumes "sw_inv {} s" "distinct (map ss_id (heap s))" "idle_steps s t" "punctual t"
    and "clock s + ACTIVE_SESSION_TTL_MS \<le> clock t"
  shows "sessions t = [] \<and> fetchWaiters t = [] \<and> activeDownloads t = [] \<and>
    (\<forall>ref < length (heap t). ref \<in> set (released t))"
proof -
  note M = idle_mono [OF assms(3)]
  have I: "sw_inv {} t" by (rule idle_inv [OF assms(3,1)])
  have "timers t = []"
  proof (rule ccontr)
    assume "timers t \<noteq> []"
    then obtain h due act where x: "(h, due, act) \<in> set (timers t)" by (cases "timers t") auto
    then have "(h, due, act) \<in> set (timers s)" using M by blast
    then have "due \<le> clock s + ACTIVE_SESSION_TTL_MS"
      using assms(1) by (auto simp: sw_inv_def timers_ok_def)
    moreover have "clock t < due" using x assms(4) by (auto simp: punctual_def)
    ultimately show False using assms(5) by simp
  qed
  then have none: "\<not> has_timer t h a d" for h a d by (simp add: has_timer_def)
  have "map_of (sessions t) i = None" "map_of (activeDownloads t) i = None"
    "map_of (fetchWaiters t) i = None" for i
  proof -
    show "map_of (sessions t) i = None"
      using I none unfolding sw_inv_def sessions_ok_def by (metis not_Some_eq)
    show "map_of (activeDownloads t) i = None"
      using I none unfolding sw_inv_def active_ok_def by (metis not_Some_eq)
    show "map_of (fetchWaiters t) i = None"
      using I none unfolding sw_inv_def waiters_ok_def by (metis not_Some_eq old.prod.exhaust)
  qed
  then have "sessions t = []" "activeDownloads t = []" "fetchWaiters t = []"
    by (metis map_of_eq_empty_iff ext)+
  moreover have "tracked {} t" "distinct (map ss_id (heap t))" using I M assms(2) by (simp_all add: sw_inv_def)
  ultimately show ?thesis by (simp add: tracked_def)
qed

section \<open>Properties\<close>

text \<open>C28. Liveness of the service worker: from every reachable state in which no id was offered
  twice, once no more messages or requests come, five minutes later (and it can get there, by
  letting time pass and the due timers run) all three maps are empty and the lifetime of every
  session that was ever offered has been released, so the browser may stop the worker.\<close>

theorem worker_drains:
  assumes "reachable (\<lambda>s. s = sw_start) sw_step s" and "distinct (map ss_id (heap s))"
  shows "(\<exists>t. idle_steps s t \<and> punctual t \<and> clock s + ACTIVE_SESSION_TTL_MS \<le> clock t) \<and>
    (\<forall>t. idle_steps s t \<and> punctual t \<and> clock s + ACTIVE_SESSION_TTL_MS \<le> clock t \<longrightarrow>
       sessions t = [] \<and> fetchWaiters t = [] \<and> activeDownloads t = [] \<and>
       (\<forall>ref < length (heap s). ref \<in> set (released t)))"
proof (intro conjI allI impI)
  note I = worker.reachable_inv [OF assms(1)]
  obtain t where "idle_steps s t" "clock t = clock s + ACTIVE_SESSION_TTL_MS" using wait_for by blast
  moreover obtain u where "idle_steps t u" "punctual u" "clock u = clock t"
    using run_due_timers by blast
  ultimately show "\<exists>t. idle_steps s t \<and> punctual t \<and> clock s + ACTIVE_SESSION_TTL_MS \<le> clock t"
    by (metis le_refl rtranclp_trans)
  fix t assume t: "idle_steps s t \<and> punctual t \<and> clock s + ACTIVE_SESSION_TTL_MS \<le> clock t"
  note D = drained [OF I assms(2)] and M = idle_mono [of s t]
  show "sessions t = []" "fetchWaiters t = []" "activeDownloads t = []" using D t by blast+
  fix ref assume "ref < length (heap s)"
  then show "ref \<in> set (released t)" using D t M by (metis length_map)
qed

text \<open>C29. In every reachable state the worker keeps at most four waiting sessions, eight waiting
  requests and four active downloads, each with a timer that removes it in time, and has given no
  stream to two requests.\<close>

theorem worker_within_limits:
  assumes "reachable (\<lambda>s. s = sw_start) sw_step s"
  shows "length (sessions s) \<le> 4 \<and> length (fetchWaiters s) \<le> 8 \<and> length (activeDownloads s) \<le> 4 \<and>
    distinct (streamed s) \<and>
    (\<forall>i ref. map_of (sessions s) i = Some ref \<longrightarrow>
       (\<exists>h. has_timer s h (ExpireSession ref) SESSION_TTL_MS)) \<and>
    (\<forall>i e. map_of (activeDownloads s) i = Some e \<longrightarrow>
       (\<exists>h. has_timer s h (ReleaseActive i (ae_session e)) ACTIVE_SESSION_TTL_MS)) \<and>
    (\<forall>i f h. map_of (fetchWaiters s) i = Some (f, h) \<longrightarrow> has_timer s h (DropWaiter i f) FETCH_WAIT_MS)"
proof -
  have I: "sessions_ok s" "active_ok s" "waiters_ok s" "limits_ok s" "streamed_ok s"
    using worker.reachable_inv [OF assms] by (simp_all add: sw_inv_def)
  show ?thesis
    using I(4,5) I(1-3) [unfolded sessions_ok_def active_ok_def waiters_ok_def]
    unfolding limits_ok_def streamed_ok_def MAX_PENDING_SESSIONS_def MAX_PENDING_FETCHES_def
      MAX_ACTIVE_DOWNLOADS_def by metis
qed

section \<open>Samples\<close>

definition sample_sid :: string where
  "sample_sid = replicate 64 (CHR ''a'')"

definition sample_offer :: message_event where
  "sample_offer =
     \<lparr>ev_data = Some \<lparr>msg_type = Js_string ''REDBOX_STREAM_DOWNLOAD'', msg_version = Js_int 1,
        msg_id = Js_string sample_sid, msg_fileName = Js_string ''a.txt'', msg_size = Js_int 1,
        msg_readable = Some 0\<rparr>,
      ev_port = Some 0, ev_source = Some ''client'', ev_probe = ([], Closed)\<rparr>"

definition sample_fetch :: fetch_request where
  "sample_fetch =
     \<lparr>fr_pathname = DOWNLOAD_PREFIX @ sample_sid, fr_sameOrigin = True, fr_search = [],
      fr_method = ''GET'', fr_range = False\<rparr>"

text \<open>A worker with one session that was offered and fetched.\<close>

definition busy_worker :: sw_state where
  "busy_worker = onFetch sample_fetch (onMessage sample_offer sw_start)"

lemma busy_reachable: "reachable (\<lambda>s. s = sw_start) sw_step busy_worker"
proof -
  have "reachable (\<lambda>s. s = sw_start) sw_step sw_start" by (rule reachable.start) simp
  moreover have "sw_step sw_start (onMessage sample_offer sw_start)" by (rule sw_step.message)
  moreover have "sw_step (onMessage sample_offer sw_start) busy_worker"
    unfolding busy_worker_def by (rule sw_step.fetch)
  ultimately show ?thesis by (metis reachable.step)
qed

lemma sample_sessionId: "sessionId (Js_string sample_sid) = Some sample_sid"
  by (simp add: sessionId_def sample_sid_def hexDigits_def)

lemma sample_pathId: "downloadPathId (DOWNLOAD_PREFIX @ sample_sid) = Some sample_sid"
  by (simp add: downloadPathId_def Let_def sample_sessionId)

lemma sample_valid: "valid_offer (the (ev_data sample_offer)) (Some ''client'')"
  by (simp add: valid_offer_def sample_offer_def PROTOCOL_VERSION_def sample_sessionId isSafeInteger_def
      MAX_PLAINTEXT_SIZE_def)

lemma busy_heap: "length (heap busy_worker) = 1" "activeDownloads busy_worker \<noteq> []"
  using sample_valid
  by (simp_all add: busy_worker_def onFetch_def onMessage_def sample_offer_def sample_fetch_def
      sample_pathId onOffer_def offerSession_def sw_start_def setTimeout_def js_text_def
      js_number_of_def claimSession_def refreshActiveDownload_def clearTimeout_def postReply_def
      respond_def Let_def MAX_ACTIVE_DOWNLOADS_def MAX_PENDING_SESSIONS_def image_iff)

lemma worker_drains_witness:
  "activeDownloads busy_worker \<noteq> [] \<and>
   (\<exists>t. idle_steps busy_worker t \<and> activeDownloads t = [] \<and> 0 \<in> set (released t))"
proof -
  have "distinct (map ss_id (heap busy_worker))"
    using busy_heap(1) by (auto simp: distinct_conv_nth)
  from worker_drains [OF busy_reachable this] busy_heap show ?thesis by auto
qed

lemma worker_within_limits_witness:
  "activeDownloads busy_worker \<noteq> [] \<and> distinct (streamed busy_worker) \<and>
   length (activeDownloads busy_worker) \<le> 4"
  using worker_within_limits [OF busy_reachable] busy_heap(2) by blast

end
