(* ===== verification/Rate_Guard.thy ===== *)
theory Rate_Guard
  imports Mail_Address "HOL-Library.AList"
begin

text \<open>
  \<^verbatim>\<open>RateLimitGuard\<close> (\<^verbatim>\<open>common/rate-limit/rate-limit.guard.ts\<close>), which every limited route
  passes first, and \<open>trackConcurrentSse\<close> of \<^verbatim>\<open>RateLimitService\<close>, the wrapper of the event streams.
  The rules a route declares by decorator are an argument; a part of the request that is not a
  string is \<open>None\<close>.
\<close>

section \<open>Rules and subjects\<close>

definition ADMIN_READ_RULE :: rl_rule where
  "ADMIN_READ_RULE =
     \<lparr>rule_name = ''admin:read'', rule_limit = 300, rule_windowSeconds = 5 * 60,
      rule_subject = Admin, rule_paramName = None, rule_message = None\<rparr>"

definition ADMIN_WRITE_RULE :: rl_rule where
  "ADMIN_WRITE_RULE =
     \<lparr>rule_name = ''admin:write'', rule_limit = 60, rule_windowSeconds = 5 * 60,
      rule_subject = Admin, rule_paramName = None, rule_message = None\<rparr>"

record rl_request =
  rq_method :: string
  rq_userId :: "string option"
  rq_userSub :: "string option"
  rq_ip :: string                       \<comment> \<open>\<open>getClientIp(request)\<close>\<close>
  rq_username :: "string option"        \<comment> \<open>\<open>body?.username\<close>\<close>
  rq_to :: "string option"              \<comment> \<open>\<open>body?.to\<close>\<close>
  rq_params :: "string \<Rightarrow> string option"

definition getRules :: "rl_rule list option \<Rightarrow> bool \<Rightarrow> rl_request \<Rightarrow> rl_rule list" where
  "getRules explicitRules useAdminDefault request =
     (case explicitRules of
        Some rules \<Rightarrow> rules
      | None \<Rightarrow>
          if \<not> useAdminDefault then []
          else if rq_method request = ''GET'' then [ADMIN_READ_RULE] else [ADMIN_WRITE_RULE])"

definition normalizeValue :: "string option \<Rightarrow> string" where
  "normalizeValue v =
     (case v of
        Some s \<Rightarrow> if trim s \<noteq> [] then to_lower (trim s) else ''unknown''
      | None \<Rightarrow> ''unknown'')"

definition or_undefined :: "string option \<Rightarrow> string" where
  "or_undefined v = (case v of Some s \<Rightarrow> s | None \<Rightarrow> ''undefined'')"

definition param_value :: "rl_rule \<Rightarrow> rl_request \<Rightarrow> string" where
  "param_value rule request =
     normalizeValue (rq_params request (case rule_paramName rule of Some n \<Rightarrow> n | None \<Rightarrow> ''id''))"

definition resolveSubject ::
    "('r, 's) platform \<Rightarrow> rl_rule \<Rightarrow> rl_request \<Rightarrow> http_error + string" where
  "resolveSubject P rule request =
     (let ip = rq_ip request;
          userId = (case rq_userId request of
                      Some i \<Rightarrow> i
                    | None \<Rightarrow> (case rq_userSub request of Some i \<Rightarrow> i | None \<Rightarrow> ''anonymous''))
      in case rule_subject rule of
           Ip \<Rightarrow> Inr (''ip:'' @ ip)
         | User \<Rightarrow> Inr (''user:'' @ userId)
         | Admin \<Rightarrow> Inr (''admin:'' @ userId)
         | Username_ip \<Rightarrow> Inr (''username-ip:'' @ normalizeValue (rq_username request) @ '':'' @ ip)
         | Param_ip \<Rightarrow> Inr (''param-ip:'' @ or_undefined (rule_paramName rule) @ '':'' @
             param_value rule request @ '':'' @ ip)
         | Param_user \<Rightarrow> Inr (''param-user:'' @ or_undefined (rule_paramName rule) @ '':'' @
             param_value rule request @ '':'' @ userId)
         | Mail_recipient \<Rightarrow>
             (case resolveIncomingMailboxUsername P (rq_to request) of
                Inl e \<Rightarrow> Inl e
              | Inr name \<Rightarrow> Inr (''mail-recipient:'' @ name)))"

section \<open>The guard\<close>

text \<open>The response headers, a number under each name.\<close>

type_synonym headers = "(string \<times> int) list"

definition setHeader :: "string \<Rightarrow> int \<Rightarrow> headers \<Rightarrow> headers" where
  "setHeader name v hs = AList.update name v hs"

definition limit_headers :: "rl_rule \<Rightarrow> rl_result \<Rightarrow> headers \<Rightarrow> headers" where
  "limit_headers rule result hs =
     setHeader ''X-RateLimit-Reset'' (rl_ttlSeconds result)
       (setHeader ''X-RateLimit-Remaining'' (max (rl_remaining result) 0)
         (setHeader ''X-RateLimit-Limit'' (rule_limit rule) hs))"

definition rule_exceeded :: "rl_rule \<Rightarrow> int \<Rightarrow> http_error" where
  "rule_exceeded rule t =
     TooManyRequests
       (case rule_message rule of Some m \<Rightarrow> m | None \<Rightarrow> ''Too many requests. Please try again later.'')
       (Some t)"

fun guard_loop ::
    "('r, 's) platform \<Rightarrow> rl_rule list \<Rightarrow> rl_request \<Rightarrow> headers \<Rightarrow> 'r \<Rightarrow>
     (http_error + bool) \<times> headers \<times> 'r" where
  "guard_loop P [] request hs s = (Inr True, hs, s)"
| "guard_loop P (rule # rules) request hs s =
     (case resolveSubject P rule request of
        Inl e \<Rightarrow> (Inl e, hs, s)
      | Inr subject \<Rightarrow>
          (let (result, s1) = consumeRule (rds P) (sha256 P) rule subject s;
               hs1 = limit_headers rule result hs
           in if rl_remaining result < 0
              then (Inl (rule_exceeded rule (rl_ttlSeconds result)),
                    setHeader ''Retry-After'' (rl_ttlSeconds result) hs1, s1)
              else guard_loop P rules request hs1 s1))"

definition rl_canActivate ::
    "('r, 's) platform \<Rightarrow> rl_rule list option \<Rightarrow> bool \<Rightarrow> rl_request \<Rightarrow> 'r \<Rightarrow>
     (http_error + bool) \<times> headers \<times> 'r" where
  "rl_canActivate P explicitRules useAdminDefault request s =
     guard_loop P (getRules explicitRules useAdminDefault request) request [] s"

section \<open>Event streams\<close>

record sse_options =
  sse_scope :: string
  sse_userSubject :: string
  sse_userLimit :: int
  sse_ipSubject :: string
  sse_ipLimit :: int
  sse_ttlSeconds :: "nat option"

definition DEFAULT_CONCURRENCY_TTL_SECONDS :: nat where
  "DEFAULT_CONCURRENCY_TTL_SECONDS = 2 * 60 * 60"

text \<open>One subscriber: the two variables of the wrapper, and what the subscriber was told.\<close>

record 'r sse_state =
  acquired :: bool
  sourceSubscribed :: bool
  failure :: "http_error option"
  sse_redis :: 'r

text \<open>\<open>Settle\<close>: the promise of the acquisition is settled; \<open>Teardown\<close>: the subscriber is gone.\<close>

datatype sse_event = Settle | Teardown

definition sse_keys :: "(string \<Rightarrow> string) \<Rightarrow> sse_options \<Rightarrow> (string \<times> int) list" where
  "sse_keys sha options =
     [(buildConcurrencyKey sha (sse_scope options) ''user'' (sse_userSubject options), sse_userLimit options),
      (buildConcurrencyKey sha (sse_scope options) ''ip'' (sse_ipSubject options), sse_ipLimit options)]"

definition trackConcurrentSse ::
    "('r, 's) platform \<Rightarrow> sse_options \<Rightarrow> sse_event \<Rightarrow> 'r sse_state \<Rightarrow> 'r sse_state" where
  "trackConcurrentSse P options event s =
     (case event of
        Settle \<Rightarrow>
          (let ttl = (case sse_ttlSeconds options of Some t \<Rightarrow> t | None \<Rightarrow> DEFAULT_CONCURRENCY_TTL_SECONDS)
           in case acquireConcurrentKeys (rds P) (sse_keys (sha256 P) options) ttl (sse_redis s) of
                (Inr _, r) \<Rightarrow> s\<lparr>acquired := True, sourceSubscribed := True, sse_redis := r\<rparr>
              | (Inl e, r) \<Rightarrow> s\<lparr>failure := Some e, sse_redis := r\<rparr>)
      | Teardown \<Rightarrow>
          (let s1 = s\<lparr>sourceSubscribed := False\<rparr>
           in if acquired s1
              then s1\<lparr>sse_redis := releaseConcurrentKeys (rds P) (map fst (sse_keys (sha256 P) options))
                                   (sse_redis s1)\<rparr>
              else s1))"

definition sse_opened :: "'r \<Rightarrow> 'r sse_state" where
  "sse_opened r = \<lparr>acquired = False, sourceSubscribed = False, failure = None, sse_redis = r\<rparr>"

section \<open>Lemmas\<close>

text \<open>One request against a list of rules: it is refused at the first rule that is used up; the
  rules up to there have counted it, the others have not.\<close>

context redis_server
begin

lemma guard_loop_counts:
  fixes P :: "('r, 's) platform"
  assumes "rds P = R"
    and "\<forall>r \<in> set rules. resolveSubject P r request = Inr (sub r)"
  defines "key \<equiv> \<lambda>r. buildRateLimitKey (sha256 P) (rule_name r) (sub r)"
  assumes "distinct (map key rules)"
    and "\<forall>r \<in> set rules. counter (strs s (key r)) = Some (c r)"
    and "guard_loop P rules request hs s = (res, hs', s')"
  defines "n \<equiv> length (takeWhile (\<lambda>r. c r < rule_limit r) rules)"
  shows "(if n = length rules then res = Inr True
      else \<exists>t. res = Inl (rule_exceeded (rules ! n) t) \<and> map_of hs' ''Retry-After'' = Some t) \<and>
    (\<forall>i < length rules. counter (strs s' (key (rules ! i))) =
       Some (c (rules ! i) + (if i \<le> n then 1 else 0))) \<and>
    (\<forall>k. k \<notin> key ` set rules \<longrightarrow> strs s' k = strs s k)"
  using assms(2,4-6) unfolding n_def
proof (induction rules arbitrary: s hs)
  case Nil
  then show ?case by simp
next
  case (Cons r rules)
  have sub: "resolveSubject P r request = Inr (sub r)" using Cons.prems(1) by simp
  have cr: "counter (strs s (key r)) = Some (c r)" using Cons.prems(3) by simp
  obtain result s1 where u: "consumeRule R (sha256 P) r (sub r) s = (result, s1)" by fastforce
  have u': "consume R (key r) (rule_limit r) (rule_windowSeconds r) s = (result, s1)"
    using u by (simp add: consumeRule_def key_def)
  have rem: "rl_remaining result = rule_limit r - c r - 1"
    using consume_remaining [OF cr, of "rule_limit r" "rule_windowSeconds r"] u' by simp
  have s1: "counter (strs s1 (key r)) = Some (c r + 1)"
    using consume_strs [OF cr, of "rule_limit r" "rule_windowSeconds r"] u' by simp
  have oth: "strs s1 k = strs s k" if "k \<noteq> key r" for k
    using consume_other [of s "key r" k "rule_limit r" "rule_windowSeconds r"] cr u' that by simp
  have keys: "key r \<notin> key ` set rules" "distinct (map key rules)" using Cons.prems(2) by auto
  have kept: "counter (strs s1 (key q)) = Some (c q)" if "q \<in> set rules" for q
  proof -
    have "key q \<noteq> key r" using keys(1) that by (metis imageI)
    then show ?thesis using Cons.prems(3) oth that by simp
  qed
  show ?case
  proof (cases "c r < rule_limit r")
    case False
    then have "res = Inl (rule_exceeded r (rl_ttlSeconds result))" "s' = s1"
      "hs' = setHeader ''Retry-After'' (rl_ttlSeconds result) (limit_headers r result hs)"
      using Cons.prems(4) sub u rem assms(1) by (auto simp: Let_def)
    then show ?thesis
      using False s1 kept oth by (auto simp: nth_Cons setHeader_def update_conv' split: nat.splits)
  next
    case True
    then have loop: "guard_loop P rules request (limit_headers r result hs) s1 = (res, hs', s')"
      using Cons.prems(4) sub u rem assms(1) by (auto simp: Let_def split: if_splits)
    from Cons.IH [OF _ keys(2) _ loop] Cons.prems(1) kept
    have IH: "(if length (takeWhile (\<lambda>r. c r < rule_limit r) rules) = length rules then res = Inr True
        else \<exists>t. res = Inl (rule_exceeded (rules ! length (takeWhile (\<lambda>r. c r < rule_limit r) rules)) t) \<and>
          map_of hs' ''Retry-After'' = Some t)"
      "\<And>i. i < length rules \<Longrightarrow> counter (strs s' (key (rules ! i))) =
         Some (c (rules ! i) + (if i \<le> length (takeWhile (\<lambda>r. c r < rule_limit r) rules) then 1 else 0))"
      "\<And>k. k \<notin> key ` set rules \<Longrightarrow> strs s' k = strs s1 k"
      by auto
    have "counter (strs s' (key r)) = Some (c r + 1)" using IH(3) [OF keys(1)] s1 by simp
    then show ?thesis
      using True IH oth by (auto simp: nth_Cons split: nat.splits)
  qed
qed

end

end
