(* ===== verification/Guard_Properties.thy ===== *)
theory Guard_Properties
  imports Rate_Guard
begin

text \<open>
  What the rate limits promise: in a window no rule lets more requests through than its limit, and
  none is refused before; and the counters of open streams, which balance when a subscriber leaves
  after the acquisition has settled, and leak when it leaves before.
\<close>

section \<open>Windows\<close>

text \<open>The same request again and again within the windows of the rules.\<close>

fun guard_times ::
    "('r, 's) platform \<Rightarrow> rl_rule list \<Rightarrow> rl_request \<Rightarrow> nat \<Rightarrow> 'r \<Rightarrow> (http_error + bool) list \<times> 'r" where
  "guard_times P rules request 0 s = ([], s)"
| "guard_times P rules request (Suc n) s =
     (let (r, hs, s1) = rl_canActivate P (Some rules) False request s;
          (rs, s2) = guard_times P rules request n s1
      in (r # rs, s2))"

text \<open>C30. Of any number of equal requests within the windows, no rule of the route lets more
  through than what is left of its limit; as many as every rule has left are all let through; and
  every other answer is a 429 of one of the rules.\<close>

theorem rate_limit_window:
  fixes P :: "('r, 's) platform"
  assumes "redis_server (rds P) strs sets"
    and "\<forall>r \<in> set rules. resolveSubject P r request = Inr (sub r)"
    and "distinct (map (\<lambda>r. buildRateLimitKey (sha256 P) (rule_name r) (sub r)) rules)"
    and "\<forall>r \<in> set rules.
      counter (strs s (buildRateLimitKey (sha256 P) (rule_name r) (sub r))) = Some (c r)"
    and "guard_times P rules request n s = (rs, s')"
  shows "length rs = n \<and>
    (\<forall>r \<in> set rules. int (length (filter (\<lambda>x. x = Inr True) rs)) \<le> max 0 (rule_limit r - c r)) \<and>
    ((\<forall>r \<in> set rules. int n \<le> rule_limit r - c r) \<longrightarrow> rs = replicate n (Inr True)) \<and>
    (\<forall>x \<in> set rs. x = Inr True \<or> (\<exists>r \<in> set rules. \<exists>t. x = Inl (rule_exceeded r t)))"
  using assms(4,5)
proof (induction n arbitrary: s c rs)
  case 0
  then show ?case by simp
next
  case (Suc n)
  define key where "key r = buildRateLimitKey (sha256 P) (rule_name r) (sub r)" for r
  obtain x hs s1 where x: "guard_loop P rules request [] s = (x, hs, s1)" by (metis prod_cases3)
  obtain ys where ys: "guard_times P rules request n s1 = (ys, s')" "rs = x # ys"
    using Suc.prems(2) x by (auto simp: rl_canActivate_def getRules_def Let_def split: prod.splits)
  define k where "k = length (takeWhile (\<lambda>r. c r < rule_limit r) rules)"
  have G: "if k = length rules then x = Inr True else \<exists>t. x = Inl (rule_exceeded (rules ! k) t)"
    "\<And>i. i < length rules \<Longrightarrow>
       counter (strs s1 (key (rules ! i))) = Some (c (rules ! i) + (if i \<le> k then 1 else 0))"
    using redis_server.guard_loop_counts [OF assms(1) refl assms(2,3) Suc.prems(1) x]
    by (auto simp: k_def key_def)
  have le: "k \<le> length rules" by (simp add: k_def length_takeWhile_le)
  define c' where "c' r = the (counter (strs s1 (key r)))" for r
  have c': "counter (strs s1 (key r)) = Some (c' r) \<and> c r \<le> c' r \<and>
      (x = Inr True \<longrightarrow> c' r = c r + 1 \<and> c r < rule_limit r) \<and> (c' r \<le> c r + 1)"
    if r: "r \<in> set rules" for r
  proof -
    obtain i where i: "i < length rules" "r = rules ! i" using r by (metis in_set_conv_nth)
    have "c r < rule_limit r" if "k = length rules"
      using that r unfolding k_def by (metis takeWhile_eq_all_conv takeWhile_eq_take take_all order_refl)
    then show ?thesis using G i by (auto simp: c'_def split: if_splits)
  qed
  have IH: "length ys = n"
    "\<And>r. r \<in> set rules \<Longrightarrow> int (length (filter (\<lambda>x. x = Inr True) ys)) \<le> max 0 (rule_limit r - c' r)"
    "(\<forall>r \<in> set rules. int n \<le> rule_limit r - c' r) \<longrightarrow> ys = replicate n (Inr True)"
    "\<forall>x \<in> set ys. x = Inr True \<or> (\<exists>r \<in> set rules. \<exists>t. x = Inl (rule_exceeded r t))"
    using Suc.IH [of s1 c', OF _ ys(1)] c' by (auto simp: key_def)
  show ?case
  proof (intro conjI ballI impI)
    show "length rs = Suc n" using ys(2) IH(1) by simp
    fix r assume r: "r \<in> set rules"
    show "int (length (filter (\<lambda>x. x = Inr True) rs)) \<le> max 0 (rule_limit r - c r)"
      using IH(2) [OF r] c' [OF r] ys(2) by auto
  next
    assume all: "\<forall>r \<in> set rules. int (Suc n) \<le> rule_limit r - c r"
    then have "takeWhile (\<lambda>r. c r < rule_limit r) rules = rules" by force
    then have "k = length rules" unfolding k_def by presburger
    then have "x = Inr True" using G(1) by simp
    moreover have "\<forall>r \<in> set rules. int n \<le> rule_limit r - c' r" using all c' by fastforce
    ultimately show "rs = replicate (Suc n) (Inr True)" using IH(3) ys(2) by simp
  next
    fix y assume "y \<in> set rs"
    moreover have "k < length rules \<Longrightarrow> rules ! k \<in> set rules" by simp
    ultimately show "y = Inr True \<or> (\<exists>r \<in> set rules. \<exists>t. y = Inl (rule_exceeded r t))"
      using IH(4) ys(2) G(1) le by (auto split: if_splits)
  qed
qed

section \<open>Event streams\<close>

text \<open>C31. A subscriber that leaves after its acquisition has settled gives back what it took; one
  that leaves before keeps both counters up and its source subscribed for good, since the
  tear-down has already run: after as many such visits as the limit, new streams are refused until
  the counters expire.\<close>

theorem abandoned_stream_leaks:
  fixes P :: "('r, 's) platform" and options :: sse_options
  assumes "redis_server (rds P) strs sets"
    and "sse_keys (sha256 P) options = [(uk, sse_userLimit options), (ik, sse_ipLimit options)]"
    and "uk \<noteq> ik" and "counters {uk, ik} (strs s)"
    and "streams_of (strs s uk) < sse_userLimit options" "streams_of (strs s ik) < sse_ipLimit options"
  shows "(let t = fold (trackConcurrentSse P options) [Settle, Teardown] (sse_opened s)
      in \<not> sourceSubscribed t \<and> (\<forall>k. streams_of (strs (sse_redis t) k) = streams_of (strs s k))) \<and>
    (let t = fold (trackConcurrentSse P options) [Teardown, Settle] (sse_opened s)
      in sourceSubscribed t \<and> (\<forall>k. streams_of (strs (sse_redis t) k) =
        streams_of (strs s k) + (if k \<in> {uk, ik} then 1 else 0)))"
proof -
  let ?ttl = "case sse_ttlSeconds options of Some t \<Rightarrow> t | None \<Rightarrow> DEFAULT_CONCURRENCY_TTL_SECONDS"
  obtain r s1 where a: "acquireConcurrentKeys (rds P) (sse_keys (sha256 P) options) ?ttl s = (r, s1)"
    by fastforce
  have A: "case r of
      Inr _ \<Rightarrow> (\<forall>k. streams_of (strs s1 k) = streams_of (strs s k) + (if k \<in> {uk, ik} then 1 else 0))
    | Inl e \<Rightarrow> False"
    using redis_server.acquire_loop_strs [OF assms(1), of "[]" "sse_keys (sha256 P) options" s ?ttl r s1]
      a assms(2-6)
    by (auto simp: acquireConcurrentKeys_def split: sum.splits)
  then obtain u where r: "r = Inr u" by (cases r) auto
  with A have up: "streams_of (strs s1 k) = streams_of (strs s k) + (if k \<in> {uk, ik} then 1 else 0)" for k
    by simp
  have pos: "0 < streams_of (strs s1 k)" if "k \<in> {uk, ik}" for k
    using up [of k] countersD [OF assms(4) that] that by simp
  then have "counters {uk, ik} (strs s1)"
    unfolding counters_def streams_of_def by (fastforce split: option.splits)
  then have down: "streams_of (strs (releaseConcurrentKeys (rds P) [uk, ik] s1) k) = streams_of (strs s k)" for k
    using redis_server.release_strs [OF assms(1), of "[uk, ik]" s1] assms(3) pos up by simp
  let ?on = "\<lparr>acquired = True, sourceSubscribed = True, failure = None, sse_redis = s1\<rparr>"
  have settle: "trackConcurrentSse P options Settle (sse_opened s) = ?on"
    using a r by (simp add: trackConcurrentSse_def sse_opened_def Let_def)
  moreover have "trackConcurrentSse P options Teardown (sse_opened s) = sse_opened s"
    by (simp add: trackConcurrentSse_def sse_opened_def)
  moreover have "trackConcurrentSse P options Teardown ?on =
      \<lparr>acquired = True, sourceSubscribed = False, failure = None,
       sse_redis = releaseConcurrentKeys (rds P) [uk, ik] s1\<rparr>"
    using assms(2) by (simp add: trackConcurrentSse_def)
  ultimately show ?thesis using up down by simp
qed

section \<open>Samples\<close>

definition login_rules :: "rl_rule list" where
  "login_rules =
     [\<lparr>rule_name = ''login'', rule_limit = 2, rule_windowSeconds = 60, rule_subject = Ip,
       rule_paramName = None, rule_message = None\<rparr>]"

definition login_request :: rl_request where
  "login_request =
     \<lparr>rq_method = ''POST'', rq_userId = None, rq_userSub = None, rq_ip = ''10.0.0.1'',
      rq_username = None, rq_to = None, rq_params = (\<lambda>_. None)\<rparr>"

lemma demo_redis: "redis_server (rds demo_platform) kv_strs kv_sets"
  using kv.redis_server_axioms by simp

lemma rate_limit_window_witness:
  "\<exists>rs s'. guard_times demo_platform login_rules login_request 3 kv_empty = (rs, s') \<and>
    length rs = 3 \<and> length (filter (\<lambda>x. x = Inr True) rs) \<le> 2"
proof -
  obtain rs s' where run: "guard_times demo_platform login_rules login_request 3 kv_empty = (rs, s')"
    by fastforce
  have "resolveSubject demo_platform r login_request = Inr ''ip:10.0.0.1''" if "r \<in> set login_rules" for r
    using that by (simp add: login_rules_def login_request_def resolveSubject_def)
  moreover have "counter (kv_strs kv_empty k) = Some 0" for k
    by (simp add: counter_def)
  ultimately show ?thesis
    using rate_limit_window [OF demo_redis, of login_rules login_request "\<lambda>_. ''ip:10.0.0.1''"
        kv_empty "\<lambda>_. 0" 3 rs s'] run
    by (simp add: login_rules_def)
qed

definition mail_stream :: sse_options where
  "mail_stream =
     \<lparr>sse_scope = ''mail:events'', sse_userSubject = ''u1'', sse_userLimit = 3,
      sse_ipSubject = ''10.0.0.1'', sse_ipLimit = 5, sse_ttlSeconds = None\<rparr>"

lemma abandoned_stream_leaks_witness:
  "(let t = fold (trackConcurrentSse demo_platform mail_stream) [Teardown, Settle] (sse_opened kv_empty)
    in sourceSubscribed t \<and>
      streams_of (kv_strs (sse_redis t) (buildConcurrencyKey (\<lambda>s. s) ''mail:events'' ''user'' ''u1'')) = 1)"
proof -
  let ?uk = "buildConcurrencyKey (\<lambda>s. s) ''mail:events'' ''user'' ''u1''"
  let ?ik = "buildConcurrencyKey (\<lambda>s. s) ''mail:events'' ''ip'' ''10.0.0.1''"
  have "sse_keys (sha256 demo_platform) mail_stream =
      [(?uk, sse_userLimit mail_stream), (?ik, sse_ipLimit mail_stream)]"
    by (simp add: sse_keys_def mail_stream_def)
  moreover have "?uk \<noteq> ?ik" by (simp add: buildConcurrencyKey_def hash_def)
  moreover have "counters {?uk, ?ik} (kv_strs kv_empty)" "streams_of (kv_strs kv_empty k) = 0" for k
    by (simp_all add: counters_def counter_def)
  ultimately show ?thesis
    using abandoned_stream_leaks [OF demo_redis, of mail_stream ?uk ?ik kv_empty]
    by (simp add: mail_stream_def Let_def)
qed

end
