(* ===== verification/Links_Bins.thy ===== *)
theory Links_Bins
  imports File_Access
begin

text \<open>
  \<^verbatim>\<open>LinksService\<close> (\<^verbatim>\<open>links/links.service.ts\<close>): short links with a random code
  that is drawn again when it is taken, at most eight times; and \<^verbatim>\<open>BinsService\<close>
  (\<^verbatim>\<open>bins/bins.service.ts\<close>): encrypted texts behind a share token, an optional password
  with a limit on wrong guesses, and an expiry.
\<close>

section \<open>Limits from the environment\<close>

text \<open>\<open>Number(text)\<close>: white space around is dropped, the empty text is 0, then \<open>Infinity\<close>
  or a decimal literal with an optional sign, fraction and exponent, or an integer with the prefix
  \<open>0x\<close>, \<open>0o\<close> or \<open>0b\<close>; every other text is \<open>NaN\<close>. \<open>Dec m e\<close> is the number \<open>m * 10 ^ e\<close>;
  the rounding to a double is left out.\<close>

datatype js_num = NaN | Infinite bool \<comment> \<open>negative?\<close> | Dec int int

fun digit_in :: "nat \<Rightarrow> char \<Rightarrow> nat option" where
  "digit_in base c =
     (let n = (of_char c :: nat);
          v = (if is_digit c then Some (n - 48)
               else if 97 \<le> n \<and> n \<le> 102 then Some (n - 87)
               else if 65 \<le> n \<and> n \<le> 70 then Some (n - 55) else None)
      in case v of None \<Rightarrow> None | Some d \<Rightarrow> if d < base then Some d else None)"

fun digits_in :: "nat \<Rightarrow> nat \<Rightarrow> string \<Rightarrow> nat option" where
  "digits_in base n [] = Some n"
| "digits_in base n (c # cs) =
     (case digit_in base c of None \<Rightarrow> None | Some d \<Rightarrow> digits_in base (base * n + d) cs)"

definition js_radix :: "nat \<Rightarrow> string \<Rightarrow> js_num" where
  "js_radix base s =
     (if s = [] then NaN else case digits_in base 0 s of None \<Rightarrow> NaN | Some n \<Rightarrow> Dec (int n) 0)"

definition signed :: "string \<Rightarrow> bool \<times> string" where
  "signed s =
     (case s of [] \<Rightarrow> (False, [])
      | c # cs \<Rightarrow> if c = CHR ''-'' then (True, cs) else if c = CHR ''+'' then (False, cs) else (False, s))"

definition js_exponent :: "string \<Rightarrow> int option" where
  "js_exponent s =
     (case s of [] \<Rightarrow> Some 0
      | c # cs \<Rightarrow>
          if c \<noteq> CHR ''e'' \<and> c \<noteq> CHR ''E'' then None
          else
            (let (neg, ds) = signed cs in
             if ds = [] then None
             else map_option (\<lambda>n. if neg then - int n else int n) (digits_in 10 0 ds)))"

definition js_decimal :: "bool \<Rightarrow> string \<Rightarrow> js_num" where
  "js_decimal neg s =
     (let whole = takeWhile is_digit s;
          rest = dropWhile is_digit s;
          dot = (rest \<noteq> [] \<and> hd rest = CHR ''.'');
          frac = (if dot then takeWhile is_digit (tl rest) else []);
          tail = (if dot then dropWhile is_digit (tl rest) else rest)
      in if whole = [] \<and> frac = [] then NaN
         else
           (case (digits_in 10 0 (whole @ frac), js_exponent tail) of
              (Some n, Some e) \<Rightarrow> Dec (if neg then - int n else int n) (e - int (length frac))
            | _ \<Rightarrow> NaN))"

definition js_number :: "string \<Rightarrow> js_num" where
  "js_number s =
     (let t = trim s; p = take 2 t; (neg, u) = signed t in
      if t = [] then Dec 0 0
      else if p = ''0x'' \<or> p = ''0X'' then js_radix 16 (drop 2 t)
      else if p = ''0o'' \<or> p = ''0O'' then js_radix 8 (drop 2 t)
      else if p = ''0b'' \<or> p = ''0B'' then js_radix 2 (drop 2 t)
      else if u = ''Infinity'' then Infinite neg
      else js_decimal neg u)"

definition limit_from_env :: "('r, 's) platform \<Rightarrow> string \<Rightarrow> nat \<Rightarrow> js_num" where
  "limit_from_env P name fallback =
     (case env P name of None \<Rightarrow> Dec (int fallback) 0 | Some t \<Rightarrow> js_number t)"

text \<open>\<open>count >= limit\<close>; no number is at least \<open>NaN\<close>.\<close>

definition reached :: "nat \<Rightarrow> js_num \<Rightarrow> bool" where
  "reached count limit \<longleftrightarrow>
     (case limit of
        NaN \<Rightarrow> False
      | Infinite neg \<Rightarrow> neg
      | Dec m e \<Rightarrow>
          if 0 \<le> e then m * 10 ^ nat e \<le> int count else m \<le> int count * 10 ^ nat (- e))"

section \<open>Links\<close>

definition SHORT_CODE_BYTES :: nat where
  "SHORT_CODE_BYTES = 3"

definition MAX_SHORT_CODE_ATTEMPTS :: nat where
  "MAX_SHORT_CODE_ATTEMPTS = 8"

definition createShortCode :: "('r, 's) platform \<Rightarrow> ('r, 's) world \<Rightarrow> string \<times> ('r, 's) world" where
  "createShortCode P w = (let (bs, w1) = randomBytesOf P SHORT_CODE_BYTES w in (hex bs, w1))"

definition links_of :: "db \<Rightarrow> string \<Rightarrow> link_row list" where
  "links_of d userId = filter (\<lambda>l. link_userId l = userId) (links d)"

text \<open>The insertion: \<open>shortCode\<close> is unique.\<close>

definition insertLink ::
    "('r, 's) platform \<Rightarrow> string \<Rightarrow> string \<Rightarrow> string \<Rightarrow> ('r, 's) world \<Rightarrow>
     (link_row, ('r, 's) world) outcome" where
  "insertLink P userId url code w =
     (let (i, w1) = randomUUID P w;
          row = \<lparr>link_id = i, link_originalUrl = url, link_shortCode = code, link_userId = userId,
            link_createdAt = now w\<rparr>
      in if code \<in> set (map link_shortCode (links (db w1))) then (Inl unique_conflict, w1)
         else (Inr row, w1\<lparr>db := (db w1)\<lparr>links := links (db w1) @ [row]\<rparr>\<rparr>))"

definition isUniqueConflict :: "http_error \<Rightarrow> bool" where
  "isUniqueConflict e \<longleftrightarrow> e = unique_conflict"

definition no_short_code :: http_error where
  "no_short_code = BadRequest ''Could not generate a unique short code''"

fun linkAttempts ::
    "('r, 's) platform \<Rightarrow> string \<Rightarrow> string \<Rightarrow> nat \<Rightarrow> ('r, 's) world \<Rightarrow>
     (link_row, ('r, 's) world) outcome" where
  "linkAttempts P userId url 0 w = (Inl no_short_code, w)"
| "linkAttempts P userId url (Suc n) w =
     (let (code, w1) = createShortCode P w in
      case insertLink P userId url code w1 of
        (Inl e, w2) \<Rightarrow> if isUniqueConflict e then linkAttempts P userId url n w2 else (Inl e, w2)
      | (Inr row, w2) \<Rightarrow> (Inr row, w2))"

definition link_limit :: http_error where
  "link_limit = BadRequest ''You have reached the limit of links.''"

definition createLink ::
    "('r, 's) platform \<Rightarrow> string \<Rightarrow> string \<Rightarrow> ('r, 's) world \<Rightarrow> (link_row, ('r, 's) world) outcome"
where
  "createLink P userId url w =
     (if reached (length (links_of (db w) userId)) (limit_from_env P ''LINK_LIMIT'' 25)
      then (Inl link_limit, w)
      else linkAttempts P userId url MAX_SHORT_CODE_ATTEMPTS w)"

definition findAllByUser :: "db \<Rightarrow> string \<Rightarrow> link_row list" where
  "findAllByUser d userId = order_desc link_createdAt (links_of d userId)"

definition deleteLink ::
    "string \<Rightarrow> string \<Rightarrow> ('r, 's) world \<Rightarrow> (unit, ('r, 's) world) outcome" where
  "deleteLink userId linkId w =
     (case find (\<lambda>l. link_id l = linkId) (links (db w)) of
        None \<Rightarrow> (Inl (NotFound ''Link not found.''), w)
      | Some l \<Rightarrow>
          if link_userId l \<noteq> userId then (Inl (Forbidden ''Link not found.''), w)
          else (Inr (), w\<lparr>db := (db w)\<lparr>links := delete_where (\<lambda>x. link_id x = linkId) (links (db w))\<rparr>\<rparr>))"

definition getOriginalUrl :: "db \<Rightarrow> string \<Rightarrow> http_error + string" where
  "getOriginalUrl d code =
     (case find (\<lambda>l. link_shortCode l = code) (links d) of
        None \<Rightarrow> Inl (NotFound ''Link not found'')
      | Some l \<Rightarrow> Inr (link_originalUrl l))"

section \<open>Bins\<close>

record create_bin_dto =
  cb_content :: string
  cb_size :: nat
  cb_title :: "string option"
  cb_password :: "string option"
  cb_expiresIn :: "string option"
  cb_binKey :: string

definition binExpiration :: "('r, 's) platform \<Rightarrow> time \<Rightarrow> string option \<Rightarrow> time option" where
  "binExpiration P t expiresIn =
     (if \<not> truthy expiresIn \<or> expiresIn = Some ''30d'' then Some (addDays P t 30)
      else if expiresIn = Some ''never'' then None
      else if expiresIn = Some ''1h'' then Some (addHours P t 1)
      else if expiresIn = Some ''24h'' then Some (addHours P t 24)
      else if expiresIn = Some ''7d'' then Some (addDays P t 7)
      else Some (addDays P t 30))"

definition bins_of :: "db \<Rightarrow> string \<Rightarrow> bin_row list" where
  "bins_of d userId = filter (\<lambda>b. bin_userId b = userId) (bins d)"

definition bin_limit :: http_error where
  "bin_limit = BadRequest ''You have reached your limit of bins.''"

definition createBin ::
    "('r, 's) platform \<Rightarrow> string \<Rightarrow> create_bin_dto \<Rightarrow> ('r, 's) world \<Rightarrow>
     (bin_row, ('r, 's) world) outcome" where
  "createBin P userId dto w =
     (case getMasterKeyForUser P userId w of
        Inl e \<Rightarrow> (Inl e, w)
      | Inr masterKey \<Rightarrow>
          if reached (length (bins_of (db w) userId)) (limit_from_env P ''BIN_LIMIT'' 100)
          then (Inl bin_limit, w)
          else
            (let (binKeyIv, w1) = randomBytesOf P 16 w;
                 encryptedBinKey = hex (aes_cbc_encrypt P masterKey binKeyIv (utf8 P (cb_binKey dto)));
                 (passwordHash, w2) = hashUploadPassword P (cb_password dto) w1;
                 (i, w3) = randomUUID P w2;
                 (token, w4) = randomUUID P w3;
                 row = \<lparr>bin_id = i,
                   bin_title = (if truthy (cb_title dto) then the (cb_title dto) else ''Untitled Bin''),
                   bin_content = cb_content dto, bin_size = cb_size dto, bin_userId = userId,
                   bin_createdAt = now w, bin_expiresAt = binExpiration P (now w) (cb_expiresIn dto),
                   bin_shareToken = token, bin_passwordHash = passwordHash,
                   bin_encryptedBinKey = encryptedBinKey, bin_binKeyIv = hex binKeyIv\<rparr>
             in (Inr row, w4\<lparr>db := (db w4)\<lparr>bins := bins (db w4) @ [row]\<rparr>\<rparr>)))"

record user_bin =
  ub_id :: string
  ub_title :: string
  ub_size :: nat
  ub_createdAt :: time
  ub_expiresAt :: "time option"
  ub_shareLink :: string

definition binKeyOf :: "('r, 's) platform \<Rightarrow> bytes \<Rightarrow> bin_row \<Rightarrow> string" where
  "binKeyOf P masterKey b =
     (case aes_cbc_decrypt P masterKey (unhex (bin_binKeyIv b)) (unhex (bin_encryptedBinKey b)) of
        None \<Rightarrow> ''error''
      | Some key \<Rightarrow> utf8_text P key)"

definition toUserBin :: "('r, 's) platform \<Rightarrow> bytes \<Rightarrow> bin_row \<Rightarrow> user_bin" where
  "toUserBin P masterKey b =
     \<lparr>ub_id = bin_id b, ub_title = bin_title b, ub_size = bin_size b, ub_createdAt = bin_createdAt b,
      ub_expiresAt = bin_expiresAt b,
      ub_shareLink = ''/b/'' @ bin_id b @ ''?token='' @ bin_shareToken b @ ''#'' @
        binKeyOf P masterKey b\<rparr>"

definition getUserBins ::
    "('r, 's) platform \<Rightarrow> string \<Rightarrow> ('r, 's) world \<Rightarrow> http_error + user_bin list" where
  "getUserBins P userId w =
     (case getMasterKeyForUser P userId w of
        Inl e \<Rightarrow> Inl e
      | Inr masterKey \<Rightarrow>
          Inr (map (toUserBin P masterKey) (order_desc bin_createdAt (bins_of (db w) userId))))"

definition binPasswordNs :: string where
  "binPasswordNs = ''bins:get:password-failure''"

text \<open>The gate of the password.\<close>

definition assertBinPassword ::
    "('r, 's) platform \<Rightarrow> bin_row \<Rightarrow> string option \<Rightarrow> string \<Rightarrow> ('r, 's) world \<Rightarrow>
     (unit, ('r, 's) world) outcome" where
  "assertBinPassword P b providedPassword clientIp w =
     (if \<not> truthy (bin_passwordHash b) then (Inr (), w)
      else if \<not> truthy providedPassword then (Inl (Forbidden ''This bin is password protected''), w)
      else
        (let subject = ''bin:'' @ bin_id b @ '':ip:'' @ clientIp in
         case assertAvailable (rds P) (sha256 P) binPasswordNs subject 10 (15 * 60) (redis w) of
           Inl e \<Rightarrow> (Inl e, w)
         | Inr _ \<Rightarrow>
             if \<not> bcrypt_compare P (the providedPassword) (the (bin_passwordHash b))
             then
               (case consumeAttempt (rds P) (sha256 P) binPasswordNs subject 10 (15 * 60) (redis w) of
                  (Inl e, r) \<Rightarrow> (Inl e, w\<lparr>redis := r\<rparr>)
                | (Inr _, r) \<Rightarrow> (Inl (Forbidden ''Incorrect password''), w\<lparr>redis := r\<rparr>))
             else
               (Inr (), w\<lparr>redis := clearAttempts (rds P) (sha256 P) binPasswordNs subject (redis w)\<rparr>)))"

definition delete_bin :: "string \<Rightarrow> ('r, 's) world \<Rightarrow> ('r, 's) world" where
  "delete_bin binId w = w\<lparr>db := delete_bins (\<lambda>b. bin_id b = binId) (db w)\<rparr>"

record bin_content_view =
  bc_title :: string
  bc_content :: string
  bc_createdAt :: time
  bc_expiresAt :: "time option"

definition getBinContent ::
    "('r, 's) platform \<Rightarrow> string \<Rightarrow> string \<Rightarrow> string option \<Rightarrow> string \<Rightarrow> ('r, 's) world \<Rightarrow>
     (bin_content_view, ('r, 's) world) outcome" where
  "getBinContent P binId token providedPassword clientIp w =
     (case find (\<lambda>b. bin_id b = binId) (bins (db w)) of
        None \<Rightarrow> (Inl (NotFound ''Bin not found or invalid token''), w)
      | Some b \<Rightarrow>
          if bin_shareToken b \<noteq> token then (Inl (NotFound ''Bin not found or invalid token''), w)
          else if (case bin_expiresAt b of None \<Rightarrow> False | Some e \<Rightarrow> e < now w)
          then (Inl (NotFound ''Bin has expired''), delete_bin binId w)
          else
            (case assertBinPassword P b providedPassword clientIp w of
               (Inl e, w1) \<Rightarrow> (Inl e, w1)
             | (Inr _, w1) \<Rightarrow>
                 (Inr \<lparr>bc_title = bin_title b, bc_content = bin_content b,
                    bc_createdAt = bin_createdAt b, bc_expiresAt = bin_expiresAt b\<rparr>, w1)))"

definition deleteBin ::
    "string \<Rightarrow> string \<Rightarrow> ('r, 's) world \<Rightarrow> (unit, ('r, 's) world) outcome" where
  "deleteBin userId binId w =
     (case find (\<lambda>b. bin_id b = binId) (bins (db w)) of
        None \<Rightarrow> (Inl (NotFound ''Bin not found''), w)
      | Some b \<Rightarrow>
          if bin_userId b \<noteq> userId then (Inl (NotFound ''Bin not found''), w)
          else (Inr (), delete_bin binId w))"

text \<open>The hourly job; a bin without an expiry stays.\<close>

definition bin_expired :: "time \<Rightarrow> bin_row \<Rightarrow> bool" where
  "bin_expired t b \<longleftrightarrow> (case bin_expiresAt b of None \<Rightarrow> False | Some e \<Rightarrow> e < t)"

definition bins_handleCleanup :: "('r, 's) world \<Rightarrow> ('r, 's) world" where
  "bins_handleCleanup w = w\<lparr>db := delete_bins (bin_expired (now w)) (db w)\<rparr>"

end
