(* ===== verification/Client_Ip.thy ===== *)
theory Client_Ip
  imports Links_Bins "HOL-Library.Word"
begin

unbundle bit_operations_syntax

text \<open>
  \<^verbatim>\<open>common/http/client-ip.ts\<close>: the address a request is counted under. Forwarding headers are
  believed only when the connection comes from a trusted proxy, and the trusted networks come from
  the environment as CIDR texts. \<open>isIP\<close> of Node is written out as a parser; \<open>BigInt\<close> is \<open>int\<close>.
\<close>

section \<open>Addresses as text\<close>

definition octet :: "string \<Rightarrow> bool" where
  "octet s \<longleftrightarrow> s \<noteq> [] \<and> length s \<le> 3 \<and> list_all is_digit s \<and> (hd s = CHR ''0'' \<longrightarrow> length s = 1) \<and>
     the (digits_in 10 0 s) \<le> 255"

definition isIPv4 :: "string \<Rightarrow> bool" where
  "isIPv4 s = (let ps = split_on (\<lambda>c. c = CHR ''.'') s in length ps = 4 \<and> list_all octet ps)"

definition hex_group :: "string \<Rightarrow> bool" where
  "hex_group g \<longleftrightarrow> g \<noteq> [] \<and> length g \<le> 4 \<and> list_all (\<lambda>c. hexValue c \<noteq> None) g"

definition colons :: "string \<Rightarrow> string list" where
  "colons s = split_on (\<lambda>c. c = CHR '':'') s"

text \<open>How many 16-bit units a part without \<open>::\<close> stands for; a last group may be an IPv4 address.\<close>

definition ipv6_units :: "string \<Rightarrow> bool \<Rightarrow> nat option" where
  "ipv6_units s v4 =
     (if s = [] then Some 0
      else (let gs = colons s in
            if \<not> list_all hex_group (butlast gs) then None
            else if hex_group (last gs) then Some (length gs)
            else if v4 \<and> isIPv4 (last gs) then Some (Suc (length gs)) else None))"

fun split_double :: "string \<Rightarrow> (string \<times> string) option" where
  "split_double (a # b # cs) =
     (if a = CHR '':'' \<and> b = CHR '':'' then Some ([], cs)
      else (case split_double (b # cs) of None \<Rightarrow> None | Some (h, t) \<Rightarrow> Some (a # h, t)))"
| "split_double _ = None"

definition zone_char :: "char \<Rightarrow> bool" where
  "zone_char c \<longleftrightarrow> is_letter c \<or> is_digit c \<or> c \<in> set ''-.:''"

definition isIPv6 :: "string \<Rightarrow> bool" where
  "isIPv6 s =
     (let address = takeWhile (\<lambda>c. c \<noteq> CHR ''%'') s;
          zone = dropWhile (\<lambda>c. c \<noteq> CHR ''%'') s
      in (zone = [] \<or> (tl zone \<noteq> [] \<and> list_all zone_char (tl zone))) \<and>
         (case split_double address of
            None \<Rightarrow> ipv6_units address True = Some 8 \<and> address \<noteq> []
          | Some (h, t) \<Rightarrow>
              (case (ipv6_units h False, ipv6_units t True) of
                 (Some m, Some n) \<Rightarrow> m + n \<le> 7
               | _ \<Rightarrow> False)))"

definition isIP :: "string \<Rightarrow> nat" where
  "isIP s = (if isIPv4 s then 4 else if isIPv6 s then 6 else 0)"

section \<open>Normalisation\<close>

definition strip_brackets :: "string \<Rightarrow> string" where
  "strip_brackets s =
     (if s \<noteq> [] \<and> hd s = CHR ''[''
      then (if CHR '']'' \<in> set s then tl (takeWhile (\<lambda>c. c \<noteq> CHR '']'') s) else tl (butlast s))
      else s)"

text \<open>\<open>replace(/:\d+$/, '')\<close> and \<open>replace(/^::ffff:/i, '')\<close>.\<close>

definition strip_port :: "string \<Rightarrow> string" where
  "strip_port s =
     (let ds = takeWhile is_digit (rev s); rest = dropWhile is_digit (rev s)
      in if ds \<noteq> [] \<and> rest \<noteq> [] \<and> hd rest = CHR '':'' then rev (tl rest) else s)"

definition strip_mapped :: "string \<Rightarrow> string" where
  "strip_mapped s = (if to_lower (take 7 s) = ''::ffff:'' then drop 7 s else s)"

definition normalizeIp :: "string option \<Rightarrow> string option" where
  "normalizeIp v =
     (let trimmed = (case v of None \<Rightarrow> [] | Some t \<Rightarrow> trim t) in
      if trimmed = [] then None
      else
        (let withoutBrackets = strip_brackets trimmed;
             withoutPort = (if CHR ''.'' \<in> set withoutBrackets \<and> CHR '':'' \<in> set withoutBrackets
                            then strip_port withoutBrackets else withoutBrackets);
             plain = strip_mapped withoutPort
         in if isIP plain \<noteq> 0 then Some plain else None))"

section \<open>Addresses as numbers\<close>

definition ipv4ToBigInt :: "string \<Rightarrow> int" where
  "ipv4ToBigInt ip =
     foldl (\<lambda>acc part. push_bit 8 acc + int (the (digits_in 10 0 part))) 0
       (split_on (\<lambda>c. c = CHR ''.'') ip)"

text \<open>\<open>parseInt(part, 16)\<close>: white space, a sign and \<open>0x\<close> may come first, the first character that
  is not a hex digit ends the number; \<open>None\<close> is \<open>NaN\<close>, of which \<open>BigInt\<close> throws.\<close>

definition parseInt16 :: "string \<Rightarrow> int option" where
  "parseInt16 s =
     (let (neg, u) = signed (dropWhile is_space s);
          ds = takeWhile (\<lambda>c. hexValue c \<noteq> None)
                 (if take 2 u = ''0x'' \<or> take 2 u = ''0X'' then drop 2 u else u)
      in if ds = [] then None
         else map_option (\<lambda>n. if neg then - int n else int n) (digits_in 16 0 ds))"

definition not_a_bigint :: http_error where
  "not_a_bigint = Thrown ''RangeError''"

fun ipv6_sum :: "int \<Rightarrow> string list \<Rightarrow> http_error + int" where
  "ipv6_sum acc [] = Inr acc"
| "ipv6_sum acc (part # ps) =
     (case (if part = [] then Some 0 else parseInt16 part) of
        None \<Rightarrow> Inl not_a_bigint
      | Some v \<Rightarrow> ipv6_sum (push_bit 16 acc + v) ps)"

text \<open>\<open>split('::')\<close> gives the text before the first \<open>::\<close> and the text up to the next one.\<close>

definition ipv6ToBigInt :: "string \<Rightarrow> http_error + int" where
  "ipv6ToBigInt ip =
     (let (h, rest) = (case split_double ip of None \<Rightarrow> (ip, []) | Some p \<Rightarrow> p);
          t = (case split_double rest of None \<Rightarrow> rest | Some (a, _) \<Rightarrow> a);
          headParts = (if h \<noteq> [] then colons h else []);
          tailParts = (if t \<noteq> [] then colons t else [])
      in ipv6_sum 0
           (headParts @ replicate (8 - length headParts - length tailParts) ''0'' @ tailParts))"

definition ipToBigInt :: "string \<Rightarrow> http_error + (nat \<times> int) option" where
  "ipToBigInt ip =
     (case normalizeIp (Some ip) of
        None \<Rightarrow> Inr None
      | Some normalized \<Rightarrow>
          if isIP normalized = 4 then Inr (Some (4, ipv4ToBigInt normalized))
          else if isIP normalized = 6 then
            (case ipv6ToBigInt normalized of Inl e \<Rightarrow> Inl e | Inr v \<Rightarrow> Inr (Some (6, v)))
          else Inr None)"

section \<open>Trusted networks\<close>

record trusted_network =
  tn_family :: nat
  tn_base :: int
  tn_mask :: int

text \<open>The number a \<open>js_num\<close> is, where \<open>Number.isInteger\<close> holds.\<close>

definition whole_number :: "js_num \<Rightarrow> int option" where
  "whole_number n =
     (case n of
        Dec m e \<Rightarrow>
          if 0 \<le> e then Some (m * 10 ^ nat e)
          else if m mod 10 ^ nat (- e) = 0 then Some (m div 10 ^ nat (- e)) else None
      | _ \<Rightarrow> None)"

definition network_mask :: "nat \<Rightarrow> nat \<Rightarrow> int" where
  "network_mask maxBits hostBits =
     (let allBits = push_bit maxBits 1 - 1
      in if hostBits = maxBits then 0 else push_bit hostBits allBits AND allBits)"

definition parseCidr :: "string \<Rightarrow> http_error + trusted_network option" where
  "parseCidr entry =
     (let parts = split_on (\<lambda>c. c = CHR ''/'') (trim entry) in
      case normalizeIp (Some (hd parts)) of
        None \<Rightarrow> Inr None
      | Some ip \<Rightarrow>
          (let maxBits = (if isIP ip = 4 then 32 else 128 :: nat);
               prefix = (if length parts = 1 then Some (int maxBits) else whole_number (js_number (parts ! 1)))
           in case prefix of
                None \<Rightarrow> Inr None
              | Some p \<Rightarrow>
                  if p < 0 \<or> p > int maxBits then Inr None
                  else
                    (case ipToBigInt ip of
                       Inl e \<Rightarrow> Inl e
                     | Inr None \<Rightarrow> Inr None
                     | Inr (Some (family, v)) \<Rightarrow>
                         (let mask = network_mask maxBits (maxBits - nat p)
                          in Inr (Some \<lparr>tn_family = family, tn_base = v AND mask, tn_mask = mask\<rparr>)))))"

fun parse_networks :: "string list \<Rightarrow> http_error + trusted_network list" where
  "parse_networks [] = Inr []"
| "parse_networks (entry # es) =
     (case parseCidr entry of
        Inl e \<Rightarrow> Inl e
      | Inr n \<Rightarrow>
          (case parse_networks es of
             Inl e \<Rightarrow> Inl e
           | Inr ns \<Rightarrow> Inr (case n of None \<Rightarrow> ns | Some x \<Rightarrow> x # ns)))"

definition getTrustedProxyNetworks :: "('r, 's) platform \<Rightarrow> http_error + trusted_network list" where
  "getTrustedProxyNetworks P =
     (let raw = (case env P ''TRUSTED_PROXY_CIDRS'' of
                   Some v \<Rightarrow> v
                 | None \<Rightarrow> (case env P ''TRUSTED_PROXY_IPS'' of Some v \<Rightarrow> v | None \<Rightarrow> []))
      in parse_networks (filter (\<lambda>e. e \<noteq> []) (map trim (split_on (\<lambda>c. c = CHR '','') raw))))"

definition isTrustedProxy :: "string option \<Rightarrow> trusted_network list \<Rightarrow> http_error + bool" where
  "isTrustedProxy remoteIp networks =
     (case remoteIp of
        None \<Rightarrow> Inr False
      | Some ip \<Rightarrow>
          if ip = [] \<or> networks = [] then Inr False
          else
            (case ipToBigInt ip of
               Inl e \<Rightarrow> Inl e
             | Inr None \<Rightarrow> Inr False
             | Inr (Some (family, v)) \<Rightarrow>
                 Inr (\<exists>n \<in> set networks. tn_family n = family \<and> v AND tn_mask n = tn_base n)))"

section \<open>The client's address\<close>

record ip_request =
  ir_remoteAddress :: "string option"
  ir_ip :: "string option"
  ir_header :: "string \<Rightarrow> string option"

definition firstForwardedIp :: "string option \<Rightarrow> string option" where
  "firstForwardedIp v = normalizeIp (map_option (\<lambda>t. hd (split_on (\<lambda>c. c = CHR '','') t)) v)"

text \<open>\<open>a ?? b\<close>.\<close>

definition or_else :: "'a option \<Rightarrow> 'a option \<Rightarrow> 'a option" where
  "or_else a b = (case a of Some x \<Rightarrow> Some x | None \<Rightarrow> b)"

definition getClientIp :: "('r, 's) platform \<Rightarrow> ip_request \<Rightarrow> http_error + string" where
  "getClientIp P request =
     (let remoteAddress =
            (case or_else (normalizeIp (ir_remoteAddress request)) (normalizeIp (ir_ip request)) of
               Some a \<Rightarrow> a | None \<Rightarrow> ''unknown'')
      in case getTrustedProxyNetworks P of
           Inl e \<Rightarrow> Inl e
         | Inr networks \<Rightarrow>
             (case isTrustedProxy (Some remoteAddress) networks of
                Inl e \<Rightarrow> Inl e
              | Inr trusted \<Rightarrow>
                  if \<not> trusted then Inr remoteAddress
                  else
                    Inr (case or_else (normalizeIp (ir_header request ''cf-connecting-ip''))
                                (or_else (normalizeIp (ir_header request ''true-client-ip''))
                                  (firstForwardedIp (ir_header request ''x-forwarded-for''))) of
                           Some a \<Rightarrow> a | None \<Rightarrow> remoteAddress)))"

record ip_audit =
  ia_ipAddress :: "string option"
  ia_ipSource :: "string option"
  ia_proxyTrusted :: bool
  ia_remoteAddress :: "string option"

definition getClientIpAuditContext :: "('r, 's) platform \<Rightarrow> ip_request \<Rightarrow> http_error + ip_audit" where
  "getClientIpAuditContext P request =
     (let remoteAddress = or_else (normalizeIp (ir_remoteAddress request)) (normalizeIp (ir_ip request))
      in case getTrustedProxyNetworks P of
           Inl e \<Rightarrow> Inl e
         | Inr networks \<Rightarrow>
             (case isTrustedProxy remoteAddress networks of
                Inl e \<Rightarrow> Inl e
              | Inr proxyTrusted \<Rightarrow>
                  let cfConnectingIp =
                        (if proxyTrusted then normalizeIp (ir_header request ''cf-connecting-ip'') else None);
                      trueClientIp =
                        (if proxyTrusted then normalizeIp (ir_header request ''true-client-ip'') else None);
                      forwardedClientIp =
                        (if proxyTrusted then firstForwardedIp (ir_header request ''x-forwarded-for'') else None)
                  in Inr \<lparr>ia_ipAddress = or_else cfConnectingIp
                            (or_else trueClientIp (or_else forwardedClientIp remoteAddress)),
                          ia_ipSource =
                            (if cfConnectingIp \<noteq> None then Some ''cf-connecting-ip''
                             else if trueClientIp \<noteq> None then Some ''true-client-ip''
                             else if forwardedClientIp \<noteq> None then Some ''x-forwarded-for''
                             else if remoteAddress \<noteq> None then Some ''remote-address'' else None),
                          ia_proxyTrusted = proxyTrusted, ia_remoteAddress = remoteAddress\<rparr>))"

section \<open>Lemmas\<close>

lemma or_else_simps [simp]:
  "or_else None b = b"
  "or_else (Some x) b = Some x"
  by (simp_all add: or_else_def)

text \<open>What normalisation lets through is an address.\<close>

lemma normalizeIp_isIP: "normalizeIp v = Some a \<Longrightarrow> isIP a \<noteq> 0"
  by (auto simp: normalizeIp_def Let_def split: option.splits if_splits)

lemma not_ip_unknown: "isIP ''unknown'' = 0"
  by code_simp

lemma normalize_unknown: "normalizeIp (Some ''unknown'') = None"
  by code_simp

lemma unknown_not_trusted: "isTrustedProxy (Some ''unknown'') networks = Inr False"
  by (simp add: isTrustedProxy_def ipToBigInt_def normalize_unknown)

lemma no_address_not_trusted: "isTrustedProxy None networks = Inr False"
  by (simp add: isTrustedProxy_def)

text \<open>The mask keeps the leading bits: an address is in a network iff it has its prefix.\<close>

lemma and_network_mask:
  assumes "h \<le> n" "0 \<le> v" "v < 2 ^ n"
  shows "v AND network_mask n h = push_bit h (drop_bit h v)"
proof -
  have all: "push_bit n 1 - 1 = (mask n :: int)" by (simp add: mask_eq_exp_minus_1 push_bit_eq_mult)
  have net: "network_mask n h = (if h = n then 0 else push_bit h (mask n) AND mask n)"
    unfolding network_mask_def Let_def all ..
  have v: "take_bit n v = v" using assms(2,3) by (simp add: take_bit_int_eq_self)
  show ?thesis
  proof (cases "h = n")
    case True
    then have "drop_bit h v = 0" using assms(2,3) by (simp add: drop_bit_eq_div)
    then show ?thesis using True net by simp
  next
    case False
    have "v AND (push_bit h (mask n) AND mask n) = push_bit h (drop_bit h v)"
    proof (rule bit_eqI)
      fix k
      have "bit v k \<Longrightarrow> k < n" using v by (metis bit_take_bit_iff)
      then show "bit (v AND (push_bit h (mask n) AND mask n)) k = bit (push_bit h (drop_bit h v)) k"
        by (auto simp: bit_simps)
    qed
    then show ?thesis using False by (simp add: net)
  qed
qed

lemma in_network_iff:
  assumes "h \<le> n" "0 \<le> v" "v < 2 ^ n" "0 \<le> b" "b < 2 ^ n"
  shows "v AND network_mask n h = b AND network_mask n h \<longleftrightarrow> v div 2 ^ h = b div 2 ^ h"
  using assms by (simp add: and_network_mask push_bit_eq_mult drop_bit_eq_div)

text \<open>A CIDR text that ends in a slash is read as the prefix length 0, which is every address.\<close>

lemma empty_prefix_trusts_all:
  "parseCidr ''10.0.0.0/'' = Inr (Some \<lparr>tn_family = 4, tn_base = 0, tn_mask = 0\<rparr>) \<and>
   v AND (0 :: int) = 0"
proof
  show "parseCidr ''10.0.0.0/'' = Inr (Some \<lparr>tn_family = 4, tn_base = 0, tn_mask = 0\<rparr>)"
    by code_simp
qed simp

section \<open>Property\<close>

text \<open>C32. The address a request is counted under is \<open>unknown\<close> or a valid IP address; it is the one
  the audit log shows for the same request; and unless the connection comes from a trusted proxy no
  header can change it.\<close>

theorem client_address_sound:
  assumes "getClientIp P request = Inr a"
  shows "(a = ''unknown'' \<or> isIP a \<noteq> 0) \<and>
    (\<exists>c. getClientIpAuditContext P request = Inr c \<and>
       a = (case ia_ipAddress c of Some x \<Rightarrow> x | None \<Rightarrow> ''unknown'') \<and>
       (\<not> ia_proxyTrusted c \<longrightarrow> (\<forall>h. getClientIp P (request\<lparr>ir_header := h\<rparr>) = Inr a)))"
proof -
  define remote where
    "remote = or_else (normalizeIp (ir_remoteAddress request)) (normalizeIp (ir_ip request))"
  have ip: "x = ''unknown'' \<or> isIP x \<noteq> 0" if "remote = Some x" for x
    using that normalizeIp_isIP by (auto simp: remote_def or_else_def split: option.splits)
  have fwd: "isIP x \<noteq> 0" if "or_else (normalizeIp u) (or_else (normalizeIp v) (firstForwardedIp w)) = Some x"
    for u v w x
    using that normalizeIp_isIP by (auto simp: or_else_def firstForwardedIp_def split: option.splits)
  have same: "isTrustedProxy (Some (case remote of Some x \<Rightarrow> x | None \<Rightarrow> ''unknown'')) ns = isTrustedProxy remote ns"
    for ns
    by (cases remote) (simp_all add: unknown_not_trusted no_address_not_trusted)
  obtain ns where ns: "getTrustedProxyNetworks P = Inr ns"
    using assms by (auto simp: getClientIp_def Let_def split: sum.splits)
  obtain t where t: "isTrustedProxy remote ns = Inr t"
    using assms ns same [of ns] by (auto simp: getClientIp_def Let_def remote_def split: sum.splits)
  have a: "a = (if \<not> t then (case remote of Some x \<Rightarrow> x | None \<Rightarrow> ''unknown'')
      else (case or_else (normalizeIp (ir_header request ''cf-connecting-ip''))
              (or_else (normalizeIp (ir_header request ''true-client-ip''))
                (firstForwardedIp (ir_header request ''x-forwarded-for''))) of
             Some a \<Rightarrow> a | None \<Rightarrow> (case remote of Some x \<Rightarrow> x | None \<Rightarrow> ''unknown'')))"
    using assms ns t same [of ns]
    by (cases t) (auto simp: getClientIp_def remote_def [symmetric] Let_def)
  obtain c where c: "getClientIpAuditContext P request = Inr c" "ia_proxyTrusted c = t"
    "ia_ipAddress c = or_else (if t then normalizeIp (ir_header request ''cf-connecting-ip'') else None)
       (or_else (if t then normalizeIp (ir_header request ''true-client-ip'') else None)
         (or_else (if t then firstForwardedIp (ir_header request ''x-forwarded-for'') else None) remote))"
    using ns t by (simp add: getClientIpAuditContext_def remote_def [symmetric] Let_def)
  have "a = (case ia_ipAddress c of Some x \<Rightarrow> x | None \<Rightarrow> ''unknown'')"
    unfolding a c(3) by (auto simp: or_else_def split: option.splits)
  moreover have "a = ''unknown'' \<or> isIP a \<noteq> 0"
    unfolding a using ip fwd by (auto split: option.splits)
  moreover have "getClientIp P (request\<lparr>ir_header := h\<rparr>) = Inr a" if "\<not> t" for h
    using ns t that same [of ns] a by (simp add: getClientIp_def remote_def [symmetric] Let_def)
  ultimately show ?thesis using c(1,2) by blast
qed

definition proxied_request :: ip_request where
  "proxied_request =
     \<lparr>ir_remoteAddress = Some ''::ffff:203.0.113.9'', ir_ip = None,
      ir_header = (\<lambda>h. if h = ''x-forwarded-for'' then Some ''198.51.100.7'' else None)\<rparr>"

lemma client_address_sound_witness:
  "isIP ''203.0.113.9'' = 4 \<and>
   (\<forall>h. getClientIp (demo_platform\<lparr>env := \<lambda>_. Some ''10.0.0.0/8''\<rparr>) (proxied_request\<lparr>ir_header := h\<rparr>) =
     Inr ''203.0.113.9'')"
proof -
  let ?P = "demo_platform\<lparr>env := \<lambda>_. Some ''10.0.0.0/8''\<rparr>"
  have n: "normalizeIp (Some ''::ffff:203.0.113.9'') = Some ''203.0.113.9''" by code_simp
  have m: "map trim (split_on (\<lambda>c. c = CHR '','') ''10.0.0.0/8'') = [''10.0.0.0/8'']"
    by code_simp
  have "parseCidr ''10.0.0.0/8'' = Inr (Some \<lparr>tn_family = 4, tn_base = 167772160, tn_mask = 4278190080\<rparr>)"
    by code_simp
  then have p: "parse_networks (filter (\<lambda>e. e \<noteq> []) (map trim (split_on (\<lambda>c. c = CHR '','') ''10.0.0.0/8''))) =
      Inr [\<lparr>tn_family = 4, tn_base = 167772160, tn_mask = 4278190080\<rparr>]"
    unfolding m by simp
  have v: "env ?P k = Some ''10.0.0.0/8''" for k by simp
  have e: "getTrustedProxyNetworks ?P =
      Inr [\<lparr>tn_family = 4, tn_base = 167772160, tn_mask = 4278190080\<rparr>]"
    by (simp only: getTrustedProxyNetworks_def Let_def v option.case p)
  have u: "isTrustedProxy (Some ''203.0.113.9'')
      [\<lparr>tn_family = 4, tn_base = 167772160, tn_mask = 4278190080\<rparr>] = Inr False"
    by code_simp
  have r: "getClientIp ?P proxied_request = Inr ''203.0.113.9''"
    by (simp add: getClientIp_def proxied_request_def n e u Let_def)
  obtain c where c: "getClientIpAuditContext ?P proxied_request = Inr c"
    "\<not> ia_proxyTrusted c \<longrightarrow>
      (\<forall>h. getClientIp ?P (proxied_request\<lparr>ir_header := h\<rparr>) = Inr ''203.0.113.9'')"
    using client_address_sound [OF r] by blast
  have "\<not> ia_proxyTrusted c"
    using c(1) by (auto simp: getClientIpAuditContext_def proxied_request_def n e u Let_def)
  moreover have "isIP ''203.0.113.9'' = 4" by code_simp
  ultimately show ?thesis using c(2) by blast
qed

end
