(* ===== verification/Admin_Audit.thy ===== *)
theory Admin_Audit
  imports Object_Store
begin

text \<open>
  What the services of the administration share: the entry each of them writes to the audit log,
  and \<^verbatim>\<open>AdminAuditService\<close> (\<^verbatim>\<open>admin/audit/admin-audit.service.ts\<close>), which lists the log.
  The id of an entry and the total of the page are left out of the rows; a date of the query is the
  time it denotes.
\<close>

section \<open>Writing entries\<close>

definition admin_log ::
    "time \<Rightarrow> string \<Rightarrow> string option \<Rightarrow> string \<Rightarrow> string \<Rightarrow> json \<Rightarrow> db \<Rightarrow> db" where
  "admin_log t adminUserId targetUserId action reason meta d =
     createAuditLog t
       \<lparr>ap_actorType = ADMIN, ap_action = action, ap_targetUserId = targetUserId,
        ap_adminUserId = Some adminUserId, ap_previousStatus = None, ap_newStatus = None,
        ap_reason = Some reason, ap_meta = meta\<rparr> d"

definition json_text :: "string option \<Rightarrow> json" where
  "json_text v = (case v of None \<Rightarrow> JNull | Some s \<Rightarrow> JStr s)"

definition json_time :: "time option \<Rightarrow> json" where
  "json_time v = (case v of None \<Rightarrow> JNull | Some t \<Rightarrow> JDate t)"

lemma admin_log_frame [simp]:
  "users (admin_log t a u ac r m d) = users d"
  "adminUsers (admin_log t a u ac r m d) = adminUsers d"
  "inviteCodes (admin_log t a u ac r m d) = inviteCodes d"
  "files (admin_log t a u ac r m d) = files d"
  "links (admin_log t a u ac r m d) = links d"
  "bins (admin_log t a u ac r m d) = bins d"
  "mails (admin_log t a u ac r m d) = mails d"
  "mailAttachments (admin_log t a u ac r m d) = mailAttachments d"
  "blockedSenders (admin_log t a u ac r m d) = blockedSenders d"
  "restrictions (admin_log t a u ac r m d) = restrictions d"
  "deletionRequests (admin_log t a u ac r m d) = deletionRequests d"
  "contentReports (admin_log t a u ac r m d) = contentReports d"
  "bugReports (admin_log t a u ac r m d) = bugReports d"
  "bugAttachments (admin_log t a u ac r m d) = bugAttachments d"
  "internalMails (admin_log t a u ac r m d) = internalMails d"
  "deliveries (admin_log t a u ac r m d) = deliveries d"
  "internalAttachments (admin_log t a u ac r m d) = internalAttachments d"
  "blogPosts (admin_log t a u ac r m d) = blogPosts d"
  "notifications (admin_log t a u ac r m d) = notifications d"
  by (simp_all add: admin_log_def createAuditLog_def appendAudit_def)

section \<open>Listing the log\<close>

definition actor_name :: "AuditActorType \<Rightarrow> string" where
  "actor_name a = (case a of ADMIN \<Rightarrow> ''admin'' | USER \<Rightarrow> ''user'' | SYSTEM \<Rightarrow> ''system'')"

definition status_name :: "UserStatus \<Rightarrow> string" where
  "status_name s =
     (case s of ACTIVE \<Rightarrow> ''active'' | BANNED \<Rightarrow> ''banned'' | LOCKED \<Rightarrow> ''locked''
      | PENDING \<Rightarrow> ''pending'' | DELETED \<Rightarrow> ''deleted'')"

record audit_query =
  aq_adminId :: "string option"
  aq_action :: "string option"
  aq_targetUserId :: "string option"
  aq_from :: "time option"
  aq_to :: "time option"
  aq_limit :: nat
  aq_offset :: nat

definition audit_where :: "audit_query \<Rightarrow> adminAuditLog \<Rightarrow> bool" where
  "audit_where q a \<longleftrightarrow>
     (truthy (aq_adminId q) \<longrightarrow> audit_adminUserId a = aq_adminId q) \<and>
     (truthy (aq_action q) \<longrightarrow> Some (audit_action a) = aq_action q) \<and>
     (truthy (aq_targetUserId q) \<longrightarrow> audit_targetUserId a = aq_targetUserId q) \<and>
     (case aq_from q of None \<Rightarrow> True | Some t \<Rightarrow> t \<le> audit_createdAt a) \<and>
     (case aq_to q of None \<Rightarrow> True | Some t \<Rightarrow> audit_createdAt a \<le> t)"

record audit_view =
  avw_actorType :: string
  avw_adminId :: "string option"
  avw_adminUsername :: "string option"
  avw_actorUsername :: "string option"
  avw_actorLabel :: string
  avw_targetUserId :: "string option"
  avw_username :: "string option"
  avw_action :: string
  avw_previousStatus :: "string option"
  avw_newStatus :: "string option"
  avw_oldStatus :: "string option"
  avw_statusChange :: "(string option \<times> string option) option"
  avw_reason :: "string option"
  avw_meta :: json
  avw_createdAt :: time

definition admin_name :: "db \<Rightarrow> string option \<Rightarrow> string option" where
  "admin_name d i =
     (case i of
        None \<Rightarrow> None
      | Some adminId \<Rightarrow> map_option adm_username (find (\<lambda>a. adm_id a = adminId) (adminUsers d)))"

definition target_name :: "db \<Rightarrow> string option \<Rightarrow> string option" where
  "target_name d i =
     (case i of None \<Rightarrow> None | Some uid \<Rightarrow> map_option user_username (user_by_id d uid))"

definition audit_item :: "db \<Rightarrow> adminAuditLog \<Rightarrow> audit_view" where
  "audit_item d a =
     (let actorType = actor_name (audit_actorType a);
          adminUsername = admin_name d (audit_adminUserId a);
          username = target_name d (audit_targetUserId a);
          actorUsername = (case audit_actorType a of
                             ADMIN \<Rightarrow> adminUsername | USER \<Rightarrow> username | SYSTEM \<Rightarrow> None);
          previous = map_option status_name (audit_previousStatus a);
          next_status = map_option status_name (audit_newStatus a);
          changed = audit_action a = ''user_status_changed''
      in \<lparr>avw_actorType = actorType, avw_adminId = audit_adminUserId a,
          avw_adminUsername = adminUsername, avw_actorUsername = actorUsername,
          avw_actorLabel = (case actorUsername of Some n \<Rightarrow> n | None \<Rightarrow> actorType),
          avw_targetUserId = audit_targetUserId a, avw_username = username,
          avw_action = audit_action a, avw_previousStatus = previous, avw_newStatus = next_status,
          avw_oldStatus = (if changed then previous else None),
          avw_statusChange = (if changed then Some (previous, next_status) else None),
          avw_reason = audit_reason a, avw_meta = audit_meta a, avw_createdAt = audit_createdAt a\<rparr>)"

text \<open>A page of a listing with its pagination.\<close>

record 'a listing =
  ls_items :: "'a list"
  ls_limit :: nat
  ls_offset :: nat
  ls_returned :: nat
  ls_hasMore :: bool
  ls_total :: nat

definition list_page :: "nat \<Rightarrow> nat \<Rightarrow> ('a \<Rightarrow> 'b) \<Rightarrow> 'a list \<Rightarrow> 'b listing" where
  "list_page limit offset f found =
     (let items = page offset limit found
      in \<lparr>ls_items = map f items, ls_limit = limit, ls_offset = offset, ls_returned = length items,
          ls_hasMore = (offset + length items < length found), ls_total = length found\<rparr>)"

definition getLogs :: "audit_query \<Rightarrow> db \<Rightarrow> audit_view listing" where
  "getLogs q d =
     list_page (aq_limit q) (aq_offset q) (audit_item d)
       (order_desc audit_createdAt (filter (audit_where q) (auditLogs d)))"

end
