(* ===== verification/Blog.thy ===== *)
theory Blog
  imports Admin_Audit
begin

text \<open>
  \<^verbatim>\<open>BlogService\<close> (\<^verbatim>\<open>blog/blog.service.ts\<close>) and the administration of the blog
  over it (\<^verbatim>\<open>admin/blog/admin-blog.service.ts\<close>): a post is a row with its life cycle
  (draft, published, withdrawn) and an object with its text. Where the source tells \<open>undefined\<close>
  from \<open>null\<close> a field is a double option: \<open>None\<close> is \<open>undefined\<close>, \<open>Some None\<close> is \<open>null\<close>.
\<close>

section \<open>Input\<close>

record blog_author =
  ba_name :: string
  ba_title :: "string option"

record save_blog_dto =
  sb_title :: "string option"
  sb_subtitle :: string
  sb_author :: blog_author
  sb_categories :: "string list option"
  sb_markdown :: string

record update_blog_dto =
  pb_title :: "string option option"
  pb_subtitle :: "string option option"
  pb_author :: "blog_author option option"
  pb_categories :: "string list option option"
  pb_markdown :: "string option option"

record blog_input =
  bi_title :: "string option"
  bi_subtitle :: string
  bi_authorName :: string
  bi_authorTitle :: "string option"
  bi_categories :: "string list"
  bi_markdown :: string
  bi_contentSize :: nat

definition normalizeMarkdown :: "string option \<Rightarrow> http_error + string" where
  "normalizeMarkdown markdown =
     (case markdown of
        Some s \<Rightarrow> if trim s = [] then Inl (BadRequest ''Markdown content can't be empty'') else Inr s
      | None \<Rightarrow> Inl (BadRequest ''Markdown content can't be empty''))"

definition normalizeRequiredString :: "string option \<Rightarrow> string \<Rightarrow> http_error + string" where
  "normalizeRequiredString v label =
     (let normalizedValue = map_option trim v in
      if truthy normalizedValue then Inr (the normalizedValue)
      else Inl (BadRequest (label @ '' can't be empty'')))"

definition normalizeOptionalString :: "string option \<Rightarrow> string option" where
  "normalizeOptionalString v =
     (let normalizedValue = map_option trim v in
      if truthy normalizedValue then normalizedValue else None)"

text \<open>\<open>[...new Set(xs)]\<close>: the first occurrences, in order.\<close>

definition js_set :: "'a list \<Rightarrow> 'a list" where
  "js_set xs = rev (remdups (rev xs))"

definition normalizeCategories :: "string list option \<Rightarrow> http_error + string list" where
  "normalizeCategories categories =
     (let normalizedCategories =
            js_set (filter (\<lambda>c. c \<noteq> []) (map trim (case categories of None \<Rightarrow> [] | Some cs \<Rightarrow> cs)))
      in if length normalizedCategories > 10
         then Inl (BadRequest ''You can't add more than 10 categories'')
         else if list_ex (\<lambda>c. length c > 50) normalizedCategories
         then Inl (BadRequest ''Categories can't be longer than 50 characters'')
         else Inr normalizedCategories)"

definition normalizeCreateInput ::
    "('r, 's) platform \<Rightarrow> save_blog_dto \<Rightarrow> http_error + blog_input" where
  "normalizeCreateInput P dto =
     (case normalizeMarkdown (Some (sb_markdown dto)) of
        Inl e \<Rightarrow> Inl e
      | Inr markdown \<Rightarrow>
     (case normalizeRequiredString (Some (sb_subtitle dto)) ''Subtitle'' of
        Inl e \<Rightarrow> Inl e
      | Inr subtitle \<Rightarrow>
     (case normalizeRequiredString (Some (ba_name (sb_author dto))) ''Author name'' of
        Inl e \<Rightarrow> Inl e
      | Inr authorName \<Rightarrow>
     (case normalizeCategories (sb_categories dto) of
        Inl e \<Rightarrow> Inl e
      | Inr categories \<Rightarrow>
          Inr \<lparr>bi_title = normalizeOptionalString (sb_title dto), bi_subtitle = subtitle,
            bi_authorName = authorName,
            bi_authorTitle = normalizeOptionalString (ba_title (sb_author dto)),
            bi_categories = categories, bi_markdown = markdown,
            bi_contentSize = length (utf8 P markdown)\<rparr>))))"

text \<open>\<open>toCategories\<close> of a \<open>Json\<close> column.\<close>

fun json_strings :: "json list \<Rightarrow> string list" where
  "json_strings [] = []"
| "json_strings (j # js) = (case j of JStr s \<Rightarrow> s # json_strings js | _ \<Rightarrow> json_strings js)"

definition toCategories :: "json \<Rightarrow> string list" where
  "toCategories j = (case j of JList js \<Rightarrow> json_strings js | _ \<Rightarrow> [])"

text \<open>An \<open>author\<close> that is \<open>null\<close> keeps the name and then fails on its \<open>title\<close>.\<close>

definition null_title :: http_error where
  "null_title = Thrown ''TypeError''"

definition normalizeUpdateInput ::
    "('r, 's) platform \<Rightarrow> update_blog_dto \<Rightarrow> blogPost \<Rightarrow> http_error + blog_input" where
  "normalizeUpdateInput P dto existingPost =
     (case (case pb_markdown dto of None \<Rightarrow> Inr [] | Some m \<Rightarrow> normalizeMarkdown m) of
        Inl e \<Rightarrow> Inl e
      | Inr markdown \<Rightarrow>
     (case (case pb_subtitle dto of
              None \<Rightarrow> Inr (blog_subtitle existingPost)
            | Some s \<Rightarrow> normalizeRequiredString s ''Subtitle'') of
        Inl e \<Rightarrow> Inl e
      | Inr subtitle \<Rightarrow>
     (case (case pb_author dto of
              Some (Some a) \<Rightarrow> normalizeRequiredString (Some (ba_name a)) ''Author name''
            | _ \<Rightarrow> Inr (blog_authorName existingPost)) of
        Inl e \<Rightarrow> Inl e
      | Inr authorName \<Rightarrow>
     (case (case pb_author dto of
              None \<Rightarrow> Inr (blog_authorTitle existingPost)
            | Some None \<Rightarrow> Inl null_title
            | Some (Some a) \<Rightarrow> Inr (normalizeOptionalString (ba_title a))) of
        Inl e \<Rightarrow> Inl e
      | Inr authorTitle \<Rightarrow>
     (case (case pb_categories dto of
              None \<Rightarrow> Inr (toCategories (blog_categories existingPost))
            | Some cs \<Rightarrow> normalizeCategories cs) of
        Inl e \<Rightarrow> Inl e
      | Inr categories \<Rightarrow>
          Inr \<lparr>bi_title = (case pb_title dto of
                 None \<Rightarrow> blog_title existingPost | Some t \<Rightarrow> normalizeOptionalString t),
            bi_subtitle = subtitle, bi_authorName = authorName, bi_authorTitle = authorTitle,
            bi_categories = categories, bi_markdown = markdown,
            bi_contentSize =
              (if pb_markdown dto = None then blog_contentSize existingPost
               else length (utf8 P markdown))\<rparr>)))))"

section \<open>Objects\<close>

definition blogsBucket :: string where
  "blogsBucket = ''S3_BUCKET_BLOGS''"

definition getMarkdownStorageKey :: "string \<Rightarrow> string" where
  "getMarkdownStorageKey storageName = ''blog_posts/'' @ storageName"

definition createMarkdownStorageName ::
    "('r, 's) platform \<Rightarrow> ('r, 's) world \<Rightarrow> string \<times> ('r, 's) world" where
  "createMarkdownStorageName P w = (let (i, w1) = randomUUID P w in (i @ ''.md'', w1))"

definition putMarkdownObject ::
    "('r, 's) platform \<Rightarrow> string \<Rightarrow> string \<Rightarrow> ('r, 's) world \<Rightarrow> (unit, ('r, 's) world) outcome" where
  "putMarkdownObject P storageName markdown w =
     (let (ok, st) = s3_put (store P) blogsBucket (getMarkdownStorageKey storageName)
                       (utf8 P markdown) (objects w)
      in (if ok then Inr () else Inl (Thrown ''PutObject''), w\<lparr>objects := st\<rparr>))"

definition replaceMarkdownObject ::
    "('r, 's) platform \<Rightarrow> string \<Rightarrow> string \<Rightarrow> ('r, 's) world \<Rightarrow> (unit, ('r, 's) world) outcome" where
  "replaceMarkdownObject P storageName markdown w = putMarkdownObject P storageName markdown w"

definition getMarkdownObject ::
    "('r, 's) platform \<Rightarrow> string \<Rightarrow> ('r, 's) world \<Rightarrow> (string, ('r, 's) world) outcome" where
  "getMarkdownObject P storageName w =
     (let (reply, st) = s3_get (store P) blogsBucket (getMarkdownStorageKey storageName) (objects w);
          w1 = w\<lparr>objects := st\<rparr>
      in case reply of
           None \<Rightarrow> (Inl (Thrown ''GetObject''), w1)
         | Some (None, _) \<Rightarrow> (Inl (Thrown ''TypeError''), w1)
         | Some (Some body, _) \<Rightarrow> (Inr (utf8_text P body), w1))"

definition deleteMarkdownObject ::
    "('r, 's) platform \<Rightarrow> string \<Rightarrow> bool \<Rightarrow> ('r, 's) world \<Rightarrow> (unit, ('r, 's) world) outcome" where
  "deleteMarkdownObject P storageName ignoreErrors w =
     (let (ok, st) = s3_delete (store P) blogsBucket (getMarkdownStorageKey storageName) (objects w)
      in (if ok \<or> ignoreErrors then Inr () else Inl (Thrown ''DeleteObject''), w\<lparr>objects := st\<rparr>))"

section \<open>Views\<close>

fun toApiStatus :: "BlogPostStatus \<Rightarrow> string" where
  "toApiStatus PUBLISHED = ''published''"
| "toApiStatus WITHDRAWN = ''withdrawn''"
| "toApiStatus DRAFT = ''draft''"

definition toPrismaStatus :: "string \<Rightarrow> BlogPostStatus" where
  "toPrismaStatus s =
     (if s = ''published'' then PUBLISHED else if s = ''withdrawn'' then WITHDRAWN else DRAFT)"

record blog_meta =
  bm_postId :: string
  bm_title :: "string option"
  bm_subtitle :: string
  bm_author :: "string \<times> string option"
  bm_status :: string
  bm_storageName :: string
  bm_contentSize :: nat
  bm_categories :: "string list"
  bm_createdAt :: time
  bm_updatedAt :: time
  bm_publishedAt :: "time option"
  bm_withdrawnAt :: "time option"

definition toMetaRecord :: "blogPost \<Rightarrow> blog_meta" where
  "toMetaRecord post =
     \<lparr>bm_postId = blog_id post, bm_title = blog_title post, bm_subtitle = blog_subtitle post,
      bm_author = (blog_authorName post, blog_authorTitle post),
      bm_status = toApiStatus (blog_status post), bm_storageName = blog_storageName post,
      bm_contentSize = blog_contentSize post, bm_categories = toCategories (blog_categories post),
      bm_createdAt = blog_createdAt post, bm_updatedAt = blog_updatedAt post,
      bm_publishedAt = blog_publishedAt post, bm_withdrawnAt = blog_withdrawnAt post\<rparr>"

definition toDetailRecord ::
    "('r, 's) platform \<Rightarrow> blogPost \<Rightarrow> ('r, 's) world \<Rightarrow>
     (blog_meta \<times> string, ('r, 's) world) outcome" where
  "toDetailRecord P post w =
     (case getMarkdownObject P (blog_storageName post) w of
        (Inl e, w1) \<Rightarrow> (Inl e, w1)
      | (Inr markdown, w1) \<Rightarrow> (Inr (toMetaRecord post, markdown), w1))"

section \<open>Reading\<close>

record blog_query =
  bq_limit :: nat
  bq_offset :: nat
  bq_status :: "string option"
  bq_search :: "string option"

definition blog_matches :: "('r, 's) platform \<Rightarrow> string option \<Rightarrow> blogPost \<Rightarrow> bool" where
  "blog_matches P search post \<longleftrightarrow>
     (truthy search \<longrightarrow>
       (let searchValue = trim (the search) in
        (case blog_title post of None \<Rightarrow> False | Some t \<Rightarrow> db_contains P searchValue t) \<or>
        db_contains P searchValue (blog_subtitle post) \<or>
        db_contains P searchValue (blog_authorName post)))"

definition buildBlogWhere :: "('r, 's) platform \<Rightarrow> blog_query \<Rightarrow> blogPost \<Rightarrow> bool" where
  "buildBlogWhere P q post \<longleftrightarrow>
     (truthy (bq_status q) \<longrightarrow> blog_status post = toPrismaStatus (the (bq_status q))) \<and>
     blog_matches P (bq_search q) post"

definition getAdminBlogPosts ::
    "('r, 's) platform \<Rightarrow> blog_query \<Rightarrow> db \<Rightarrow> blog_meta listing" where
  "getAdminBlogPosts P q d =
     list_page (bq_limit q) (bq_offset q) toMetaRecord
       (order_desc blog_createdAt (filter (buildBlogWhere P q) (blogPosts d)))"

definition blog_not_found :: http_error where
  "blog_not_found = NotFound ''Blog post not found''"

definition findBlogPostOrThrow :: "db \<Rightarrow> string \<Rightarrow> http_error + blogPost" where
  "findBlogPostOrThrow d postId =
     (case find (\<lambda>p. blog_id p = postId) (blogPosts d) of
        None \<Rightarrow> Inl blog_not_found | Some post \<Rightarrow> Inr post)"

definition getAdminBlogPostById ::
    "('r, 's) platform \<Rightarrow> string \<Rightarrow> ('r, 's) world \<Rightarrow>
     (blog_meta \<times> string, ('r, 's) world) outcome" where
  "getAdminBlogPostById P postId w =
     (case findBlogPostOrThrow (db w) postId of
        Inl e \<Rightarrow> (Inl e, w) | Inr post \<Rightarrow> toDetailRecord P post w)"

definition is_public :: "blogPost \<Rightarrow> bool" where
  "is_public post \<longleftrightarrow> blog_status post = PUBLISHED \<and> blog_publishedAt post \<noteq> None"

definition published_time :: "blogPost \<Rightarrow> nat" where
  "published_time post = (case blog_publishedAt post of None \<Rightarrow> 0 | Some t \<Rightarrow> t)"

definition getPublishedBlogPosts ::
    "('r, 's) platform \<Rightarrow> blog_query \<Rightarrow> db \<Rightarrow> blog_meta listing" where
  "getPublishedBlogPosts P q d =
     list_page (bq_limit q) (bq_offset q) toMetaRecord
       (order_desc published_time (order_desc blog_createdAt
         (filter (\<lambda>p. is_public p \<and> blog_matches P (bq_search q) p) (blogPosts d))))"

definition getPublishedBlogPostById ::
    "('r, 's) platform \<Rightarrow> string \<Rightarrow> ('r, 's) world \<Rightarrow>
     (blog_meta \<times> string, ('r, 's) world) outcome" where
  "getPublishedBlogPostById P postId w =
     (case find (\<lambda>p. blog_id p = postId \<and> is_public p) (blogPosts (db w)) of
        None \<Rightarrow> (Inl blog_not_found, w)
      | Some post \<Rightarrow> toDetailRecord P post w)"

section \<open>Writing\<close>

record blog_answer =
  bw_message :: string
  bw_postId :: string
  bw_storageName :: "string option"
  bw_status :: "string option"

text \<open>The row of a new post, its storage name drawn first and its id second.\<close>

definition new_post ::
    "('r, 's) platform \<Rightarrow> string \<Rightarrow> blog_input \<Rightarrow> BlogPostStatus \<Rightarrow> ('r, 's) world \<Rightarrow> blogPost" where
  "new_post P adminUserId input status w =
     \<lparr>blog_id = uuid P (Suc (draws w)), blog_title = bi_title input,
      blog_subtitle = bi_subtitle input,
      blog_categories = JList (map JStr (bi_categories input)),
      blog_storageName = fst (createMarkdownStorageName P w), blog_contentSize = bi_contentSize input,
      blog_status = status, blog_authorAdminUserId = Some adminUserId,
      blog_authorName = bi_authorName input, blog_authorTitle = bi_authorTitle input,
      blog_createdAt = now w, blog_updatedAt = now w,
      blog_publishedAt = (if status = PUBLISHED then Some (now w) else None),
      blog_withdrawnAt = None\<rparr>"

text \<open>The insertion fails only if the storage name, which is unique, is taken.\<close>

definition createAdminBlogPost ::
    "('r, 's) platform \<Rightarrow> string \<Rightarrow> save_blog_dto \<Rightarrow> BlogPostStatus \<Rightarrow> ('r, 's) world \<Rightarrow>
     (blog_answer, ('r, 's) world) outcome" where
  "createAdminBlogPost P adminUserId dto status w =
     (case normalizeCreateInput P dto of
        Inl e \<Rightarrow> (Inl e, w)
      | Inr input \<Rightarrow>
          (let (storageName, w1) = createMarkdownStorageName P w in
           case putMarkdownObject P storageName (bi_markdown input) w1 of
             (Inl e, w2) \<Rightarrow> (Inl e, w2)
           | (Inr _, w2) \<Rightarrow>
               (let (i, w3) = randomUUID P w2;
                    post = new_post P adminUserId input status w
                in if storageName \<in> set (map blog_storageName (blogPosts (db w3)))
                   then (Inl unique_conflict, snd (deleteMarkdownObject P storageName True w3))
                   else
                     (Inr \<lparr>bw_message =
                             (if status = PUBLISHED then ''Blog post published successfully''
                              else ''Blog post saved as draft successfully''),
                           bw_postId = i, bw_storageName = Some storageName,
                           bw_status = Some (toApiStatus status)\<rparr>,
                      w3\<lparr>db := (db w3)\<lparr>blogPosts := blogPosts (db w3) @ [post]\<rparr>\<rparr>))))"

definition set_post :: "string \<Rightarrow> (blogPost \<Rightarrow> blogPost) \<Rightarrow> ('r, 's) world \<Rightarrow> ('r, 's) world" where
  "set_post postId f w =
     w\<lparr>db := (db w)\<lparr>blogPosts := update_where (\<lambda>p. blog_id p = postId)
        (\<lambda>p. (f p)\<lparr>blog_updatedAt := now w\<rparr>) (blogPosts (db w))\<rparr>\<rparr>"

text \<open>The columns an update writes: those whose field is not \<open>undefined\<close>.\<close>

definition apply_update :: "update_blog_dto \<Rightarrow> blog_input \<Rightarrow> blogPost \<Rightarrow> blogPost" where
  "apply_update dto input p =
     p\<lparr>blog_title := (if pb_title dto = None then blog_title p else bi_title input),
       blog_subtitle := (if pb_subtitle dto = None then blog_subtitle p else bi_subtitle input),
       blog_categories :=
         (if pb_categories dto = None then blog_categories p
          else JList (map JStr (bi_categories input))),
       blog_authorName := (if pb_author dto = None then blog_authorName p else bi_authorName input),
       blog_authorTitle := (if pb_author dto = None then blog_authorTitle p else bi_authorTitle input),
       blog_contentSize :=
         (if pb_markdown dto = None then blog_contentSize p else bi_contentSize input)\<rparr>"

definition updateAdminBlogPost ::
    "('r, 's) platform \<Rightarrow> string \<Rightarrow> update_blog_dto \<Rightarrow> ('r, 's) world \<Rightarrow>
     (blog_answer, ('r, 's) world) outcome" where
  "updateAdminBlogPost P postId dto w =
     (case findBlogPostOrThrow (db w) postId of
        Inl e \<Rightarrow> (Inl e, w)
      | Inr post \<Rightarrow>
          (case normalizeUpdateInput P dto post of
             Inl e \<Rightarrow> (Inl e, w)
           | Inr input \<Rightarrow>
               (case (if pb_markdown dto = None then (Inr (), w)
                      else replaceMarkdownObject P (blog_storageName post) (bi_markdown input) w) of
                  (Inl e, w1) \<Rightarrow> (Inl e, w1)
                | (Inr _, w1) \<Rightarrow>
                    (Inr \<lparr>bw_message = ''Blog post updated successfully'', bw_postId = blog_id post,
                        bw_storageName = Some (blog_storageName post), bw_status = None\<rparr>,
                     set_post (blog_id post) (apply_update dto input) w1))))"

definition publishAdminBlogPost ::
    "string \<Rightarrow> ('r, 's) world \<Rightarrow> (blog_answer, ('r, 's) world) outcome" where
  "publishAdminBlogPost postId w =
     (case findBlogPostOrThrow (db w) postId of
        Inl e \<Rightarrow> (Inl e, w)
      | Inr post \<Rightarrow>
          if blog_status post = PUBLISHED
          then (Inr \<lparr>bw_message = ''Blog post is already published'', bw_postId = blog_id post,
                  bw_storageName = None, bw_status = Some (toApiStatus (blog_status post))\<rparr>, w)
          else (Inr \<lparr>bw_message = ''Blog post published successfully'', bw_postId = blog_id post,
                  bw_storageName = None, bw_status = Some ''published''\<rparr>,
                set_post (blog_id post)
                  (\<lambda>p. p\<lparr>blog_status := PUBLISHED, blog_publishedAt := Some (now w),
                         blog_withdrawnAt := None\<rparr>) w))"

definition withdrawAdminBlogPost ::
    "string \<Rightarrow> ('r, 's) world \<Rightarrow> (blog_answer, ('r, 's) world) outcome" where
  "withdrawAdminBlogPost postId w =
     (case findBlogPostOrThrow (db w) postId of
        Inl e \<Rightarrow> (Inl e, w)
      | Inr post \<Rightarrow>
          if blog_status post \<noteq> PUBLISHED
          then (Inl (BadRequest ''Only published posts can be withdrawn''), w)
          else (Inr \<lparr>bw_message = ''Blog post withdrawn successfully'', bw_postId = blog_id post,
                  bw_storageName = None, bw_status = Some ''withdrawn''\<rparr>,
                set_post (blog_id post)
                  (\<lambda>p. p\<lparr>blog_status := WITHDRAWN, blog_withdrawnAt := Some (now w)\<rparr>) w))"

definition deleteAdminBlogPost ::
    "('r, 's) platform \<Rightarrow> string \<Rightarrow> ('r, 's) world \<Rightarrow> (blog_answer, ('r, 's) world) outcome" where
  "deleteAdminBlogPost P postId w =
     (case findBlogPostOrThrow (db w) postId of
        Inl e \<Rightarrow> (Inl e, w)
      | Inr post \<Rightarrow>
          if blog_status post = PUBLISHED
          then (Inl (BadRequest ''Published posts must be withdrawn before deletion''), w)
          else
            (case deleteMarkdownObject P (blog_storageName post) False w of
               (Inl e, w1) \<Rightarrow> (Inl e, w1)
             | (Inr _, w1) \<Rightarrow>
                 (Inr \<lparr>bw_message = ''Blog post deleted successfully'', bw_postId = blog_id post,
                    bw_storageName = Some (blog_storageName post), bw_status = None\<rparr>,
                  w1\<lparr>db := (db w1)\<lparr>blogPosts :=
                       delete_where (\<lambda>p. blog_id p = blog_id post) (blogPosts (db w1))\<rparr>\<rparr>)))"

section \<open>The administration\<close>

definition json_texts :: "string list \<Rightarrow> json" where
  "json_texts ss = JList (map JStr ss)"

definition snapshot_json :: "blogPost \<Rightarrow> json" where
  "snapshot_json post =
     JObj [(''id'', JStr (blog_id post)), (''title'', json_text (blog_title post)),
       (''subtitle'', JStr (blog_subtitle post)),
       (''categories'', json_texts (toCategories (blog_categories post))),
       (''storageName'', JStr (blog_storageName post)),
       (''contentSize'', JNum (int (blog_contentSize post))),
       (''status'', JStr (toApiStatus (blog_status post))),
       (''author'', JObj [(''name'', JStr (blog_authorName post)),
          (''title'', json_text (blog_authorTitle post))]),
       (''createdAt'', JDate (blog_createdAt post)), (''updatedAt'', JDate (blog_updatedAt post)),
       (''publishedAt'', json_time (blog_publishedAt post)),
       (''withdrawnAt'', json_time (blog_withdrawnAt post))]"

text \<open>The snapshot is the row read; what the callers use of it is its JSON text and its name.\<close>

definition getBlogPostAuditSnapshot :: "db \<Rightarrow> string \<Rightarrow> http_error + blogPost" where
  "getBlogPostAuditSnapshot d postId = findBlogPostOrThrow d postId"

definition post_name :: "blogPost \<Rightarrow> string" where
  "post_name post = (case blog_title post of Some t \<Rightarrow> t | None \<Rightarrow> blog_subtitle post)"

definition blog_log ::
    "string \<Rightarrow> string \<Rightarrow> string \<Rightarrow> json \<Rightarrow> ('r, 's) world \<Rightarrow> ('r, 's) world" where
  "blog_log adminUserId action reason meta w =
     w\<lparr>db := admin_log (now w) adminUserId None action reason meta (db w)\<rparr>"

definition quoted :: "blogPost \<Rightarrow> string \<Rightarrow> string" where
  "quoted post what = ''Blog post '' @ [CHR 0x22] @ post_name post @ [CHR 0x22] @ what"

definition createDraft ::
    "('r, 's) platform \<Rightarrow> string \<Rightarrow> save_blog_dto \<Rightarrow> ('r, 's) world \<Rightarrow>
     (blog_answer, ('r, 's) world) outcome" where
  "createDraft P adminUserId dto w =
     (case createAdminBlogPost P adminUserId dto DRAFT w of
        (Inl e, w1) \<Rightarrow> (Inl e, w1)
      | (Inr result, w1) \<Rightarrow>
          (case getBlogPostAuditSnapshot (db w1) (bw_postId result) of
             Inl e \<Rightarrow> (Inl e, w1)
           | Inr createdPost \<Rightarrow>
               (Inr result,
                blog_log adminUserId ''blog_post_created'' (quoted createdPost '' saved as draft'')
                  (JObj [(''blogPostId'', JStr (bw_postId result)), (''post'', snapshot_json createdPost)])
                  w1)))"

definition createPublished ::
    "('r, 's) platform \<Rightarrow> string \<Rightarrow> save_blog_dto \<Rightarrow> ('r, 's) world \<Rightarrow>
     (blog_answer, ('r, 's) world) outcome" where
  "createPublished P adminUserId dto w =
     (case createAdminBlogPost P adminUserId dto PUBLISHED w of
        (Inl e, w1) \<Rightarrow> (Inl e, w1)
      | (Inr result, w1) \<Rightarrow>
          (case getBlogPostAuditSnapshot (db w1) (bw_postId result) of
             Inl e \<Rightarrow> (Inl e, w1)
           | Inr createdPost \<Rightarrow>
               (Inr result,
                blog_log adminUserId ''blog_post_published'' (quoted createdPost '' published'')
                  (JObj [(''blogPostId'', JStr (bw_postId result)), (''post'', snapshot_json createdPost),
                    (''createdAndPublished'', JBool True)]) w1)))"

text \<open>An operation on an existing post between two snapshots.\<close>

definition between_snapshots ::
    "string \<Rightarrow> string \<Rightarrow> string \<Rightarrow> string \<Rightarrow> (string \<times> json) list \<Rightarrow>
     (('r, 's) world \<Rightarrow> (blog_answer, ('r, 's) world) outcome) \<Rightarrow> ('r, 's) world \<Rightarrow>
     (blog_answer, ('r, 's) world) outcome" where
  "between_snapshots adminUserId postId action what extra f w =
     (case getBlogPostAuditSnapshot (db w) postId of
        Inl e \<Rightarrow> (Inl e, w)
      | Inr before \<Rightarrow>
          (case f w of
             (Inl e, w1) \<Rightarrow> (Inl e, w1)
           | (Inr result, w1) \<Rightarrow>
               (case getBlogPostAuditSnapshot (db w1) postId of
                  Inl e \<Rightarrow> (Inl e, w1)
                | Inr after \<Rightarrow>
                    (Inr result,
                     blog_log adminUserId action (quoted after what)
                       (JObj ([(''blogPostId'', JStr postId), (''before'', snapshot_json before),
                          (''after'', snapshot_json after)] @ extra)) w1))))"

text \<open>\<open>Object.keys(dto)\<close>: the class is compiled for ES2023, so every declared field is an own
  property of the instance, defined or not.\<close>

definition changedFields :: "(string \<times> json) list" where
  "changedFields =
     [(''changedFields'', json_texts [''title'', ''subtitle'', ''author'', ''categories'', ''markdown''])]"

definition updateBlogPost ::
    "('r, 's) platform \<Rightarrow> string \<Rightarrow> string \<Rightarrow> update_blog_dto \<Rightarrow> ('r, 's) world \<Rightarrow>
     (blog_answer, ('r, 's) world) outcome" where
  "updateBlogPost P adminUserId postId dto w =
     between_snapshots adminUserId postId ''blog_post_updated'' '' updated'' changedFields
       (updateAdminBlogPost P postId dto) w"

definition publishBlogPost ::
    "string \<Rightarrow> string \<Rightarrow> ('r, 's) world \<Rightarrow> (blog_answer, ('r, 's) world) outcome" where
  "publishBlogPost adminUserId postId w =
     between_snapshots adminUserId postId ''blog_post_published'' '' published'' []
       (publishAdminBlogPost postId) w"

definition withdrawBlogPost ::
    "string \<Rightarrow> string \<Rightarrow> ('r, 's) world \<Rightarrow> (blog_answer, ('r, 's) world) outcome" where
  "withdrawBlogPost adminUserId postId w =
     between_snapshots adminUserId postId ''blog_post_withdrawn'' '' withdrawn'' []
       (withdrawAdminBlogPost postId) w"

definition deleteBlogPost ::
    "('r, 's) platform \<Rightarrow> string \<Rightarrow> string \<Rightarrow> ('r, 's) world \<Rightarrow>
     (blog_answer, ('r, 's) world) outcome" where
  "deleteBlogPost P adminUserId postId w =
     (case getBlogPostAuditSnapshot (db w) postId of
        Inl e \<Rightarrow> (Inl e, w)
      | Inr before \<Rightarrow>
          (case deleteAdminBlogPost P postId w of
             (Inl e, w1) \<Rightarrow> (Inl e, w1)
           | (Inr result, w1) \<Rightarrow>
               (Inr result,
                blog_log adminUserId ''blog_post_deleted'' (quoted before '' deleted'')
                  (JObj [(''blogPostId'', JStr postId), (''deletedPost'', snapshot_json before)]) w1)))"

end
