(* ===== verification/Blog_Properties.thy ===== *)
theory Blog_Properties
  imports Blog Mail_Sample
begin

text \<open>
  The posts of the blog in every reachable state: rows are well formed and follow their life
  cycle, and each has its text in the store with the size the row gives. The store is one whose
  refused commands change nothing.
\<close>

section \<open>A store whose refusals change nothing\<close>

locale atomic_store = object_store +
  assumes put_refused: "s3_put S b k body st = (False, st') \<Longrightarrow> obj st' = obj st"
    and delete_refused: "s3_delete S b k st = (False, st') \<Longrightarrow> obj st' = obj st"

interpretation mem_atomic: atomic_store mem_s3 mem_obj
  by unfold_locales auto

section \<open>Well-formed posts\<close>

definition categories_ok :: "json \<Rightarrow> bool" where
  "categories_ok j \<longleftrightarrow> (\<exists>cs. j = JList (map JStr cs) \<and> distinct cs \<and> length cs \<le> 10 \<and>
     (\<forall>c \<in> set cs. c \<noteq> [] \<and> length c \<le> 50))"

definition coherent :: "blogPost \<Rightarrow> bool" where
  "coherent p \<longleftrightarrow> (blog_publishedAt p = None \<longleftrightarrow> blog_status p = DRAFT) \<and>
     (blog_withdrawnAt p = None \<longleftrightarrow> blog_status p \<noteq> WITHDRAWN) \<and>
     blog_subtitle p \<noteq> [] \<and> blog_authorName p \<noteq> [] \<and> blog_title p \<noteq> Some [] \<and>
     categories_ok (blog_categories p)"

definition text_stored ::
    "('r, 's) platform \<Rightarrow> ('s \<Rightarrow> string \<Rightarrow> string \<Rightarrow> bytes option) \<Rightarrow> 's \<Rightarrow> blogPost \<Rightarrow> bool" where
  "text_stored P obj st p \<longleftrightarrow> (\<exists>markdown. trim markdown \<noteq> [] \<and>
     obj st blogsBucket (getMarkdownStorageKey (blog_storageName p)) = Some (utf8 P markdown) \<and>
     blog_contentSize p = length (utf8 P markdown))"

lemma text_stored_cong:
  "obj st' blogsBucket (getMarkdownStorageKey (blog_storageName p)) =
     obj st blogsBucket (getMarkdownStorageKey (blog_storageName p)) \<Longrightarrow>
   text_stored P obj st' p = text_stored P obj st p"
  by (simp add: text_stored_def)

definition posts_drawn :: "('r, 's) platform \<Rightarrow> nat \<Rightarrow> blogPost list \<Rightarrow> bool" where
  "posts_drawn P n ps \<longleftrightarrow> distinct (map blog_id ps) \<and> distinct (map blog_storageName ps) \<and>
     (\<forall>p \<in> set ps. \<exists>k < n. blog_id p = uuid P k) \<and>
     (\<forall>p \<in> set ps. \<exists>k < n. blog_storageName p = uuid P k @ ''.md'')"

definition blog_inv ::
    "('r, 's) platform \<Rightarrow> ('s \<Rightarrow> string \<Rightarrow> string \<Rightarrow> bytes option) \<Rightarrow> ('r, 's) world \<Rightarrow> bool" where
  "blog_inv P obj w \<longleftrightarrow> posts_drawn P (draws w) (blogPosts (db w)) \<and>
     (\<forall>p \<in> set (blogPosts (db w)). coherent p \<and> text_stored P obj (objects w) p)"

lemma posts_drawn_mono: "posts_drawn P m ps \<Longrightarrow> m \<le> n \<Longrightarrow> posts_drawn P n ps"
  unfolding posts_drawn_def by (meson less_le_trans)

text \<open>Nothing of the blog changed.\<close>

lemma blog_inv_keep:
  assumes "blog_inv P obj w" "blogPosts (db w') = blogPosts (db w)" "draws w \<le> draws w'"
    and "\<And>k. obj (objects w') blogsBucket k = obj (objects w) blogsBucket k"
  shows "blog_inv P obj w'"
  using assms posts_drawn_mono unfolding blog_inv_def text_stored_def by fastforce

section \<open>Normalised input\<close>

lemma normalizeRequiredString_ok: "normalizeRequiredString v l = Inr s \<Longrightarrow> s \<noteq> []"
  by (auto simp: normalizeRequiredString_def truthy_def Let_def split: if_splits option.splits)

lemma normalizeOptionalString_ok: "normalizeOptionalString v \<noteq> Some []"
  by (auto simp: normalizeOptionalString_def truthy_def Let_def split: option.splits)

lemma js_set_props [simp]: "set (js_set xs) = set xs" "distinct (js_set xs)"
  by (simp_all add: js_set_def)

lemma normalizeCategories_ok:
  "normalizeCategories v = Inr cs \<Longrightarrow> categories_ok (JList (map JStr cs))"
  by (force simp: normalizeCategories_def categories_ok_def Let_def list_ex_iff split: if_splits)

lemma normalizeMarkdown_ok: "normalizeMarkdown v = Inr m \<Longrightarrow> v = Some m \<and> trim m \<noteq> []"
  by (auto simp: normalizeMarkdown_def split: option.splits if_splits)

lemma create_input:
  assumes "normalizeCreateInput P dto = Inr input"
  shows "input = \<lparr>bi_title = normalizeOptionalString (sb_title dto), bi_subtitle = trim (sb_subtitle dto),
      bi_authorName = trim (ba_name (sb_author dto)),
      bi_authorTitle = normalizeOptionalString (ba_title (sb_author dto)),
      bi_categories = js_set (filter (\<lambda>c. c \<noteq> []) (map trim (case sb_categories dto of None \<Rightarrow> [] | Some cs \<Rightarrow> cs))),
      bi_markdown = sb_markdown dto, bi_contentSize = length (utf8 P (sb_markdown dto))\<rparr> \<and>
    trim (sb_markdown dto) \<noteq> [] \<and> bi_subtitle input \<noteq> [] \<and> bi_authorName input \<noteq> [] \<and>
    bi_title input \<noteq> Some [] \<and> categories_ok (JList (map JStr (bi_categories input)))"
  using assms normalizeOptionalString_ok
  by (auto simp: normalizeCreateInput_def normalizeRequiredString_def truthy_def Let_def
      split: sum.splits if_splits dest: normalizeMarkdown_ok normalizeCategories_ok)
    (auto simp: normalizeCategories_def Let_def split: if_splits)

lemma update_input:
  assumes "normalizeUpdateInput P dto post = Inr input"
  shows "(pb_markdown dto \<noteq> None \<longrightarrow> pb_markdown dto = Some (Some (bi_markdown input)) \<and>
      trim (bi_markdown input) \<noteq> [] \<and> bi_contentSize input = length (utf8 P (bi_markdown input))) \<and>
    (pb_title dto \<noteq> None \<longrightarrow> bi_title input \<noteq> Some []) \<and>
    (pb_subtitle dto \<noteq> None \<longrightarrow> bi_subtitle input \<noteq> []) \<and>
    (pb_author dto \<noteq> None \<longrightarrow> bi_authorName input \<noteq> []) \<and>
    (pb_categories dto \<noteq> None \<longrightarrow> categories_ok (JList (map JStr (bi_categories input))))"
  using assms normalizeOptionalString_ok
  by (auto simp: normalizeUpdateInput_def split: sum.splits option.splits
      dest: normalizeMarkdown_ok normalizeCategories_ok normalizeRequiredString_ok)

lemma apply_update_coherent:
  "coherent p \<Longrightarrow> normalizeUpdateInput P dto post = Inr input \<Longrightarrow> coherent (apply_update dto input p)"
  using update_input [of P dto post input] by (auto simp: coherent_def apply_update_def)

section \<open>Operations\<close>

lemma key_inj [simp]: "getMarkdownStorageKey a = getMarkdownStorageKey b \<longleftrightarrow> a = b"
  by (simp add: getMarkdownStorageKey_def)

text \<open>What \<open>set_post\<close> writes.\<close>

definition stamped :: "time \<Rightarrow> (blogPost \<Rightarrow> blogPost) \<Rightarrow> blogPost \<Rightarrow> blogPost" where
  "stamped t f p = (f p)\<lparr>blog_updatedAt := t\<rparr>"

lemma set_post_simps [simp]:
  "blogPosts (db (set_post i f w)) = update_where (\<lambda>p. blog_id p = i) (stamped (now w) f) (blogPosts (db w))"
  "objects (set_post i f w) = objects w" "draws (set_post i f w) = draws w"
  "now (set_post i f w) = now w"
  by (simp_all add: set_post_def stamped_def [abs_def])

lemma coherent_stamp [simp]: "coherent (stamped t f p) = coherent (f p)"
  by (simp add: coherent_def stamped_def)

lemma text_stamp [simp]: "text_stored P obj st (stamped t f p) = text_stored P obj st (f p)"
  by (simp add: text_stored_def stamped_def)

lemma posts_drawn_update:
  assumes "posts_drawn P n ps"
    and "\<And>p. blog_id (f p) = blog_id p" "\<And>p. blog_storageName (f p) = blog_storageName p"
  shows "posts_drawn P n (update_where q f ps)"
  using assms by (auto simp: posts_drawn_def map_update_where set_update_where)

lemma findBlogPost_cases:
  "findBlogPostOrThrow d i = Inr post \<Longrightarrow> post \<in> set (blogPosts d) \<and> blog_id post = i"
  by (auto simp: findBlogPostOrThrow_def split: option.splits dest: find_Some_mem)

text \<open>A row changed in place, its text stored.\<close>

lemma set_post_inv:
  assumes "blog_inv P obj w" "post \<in> set (blogPosts (db w))" "draws w' = draws w"
    and "blogPosts (db w') = update_where (\<lambda>p. blog_id p = blog_id post) f (blogPosts (db w))"
    and "\<And>p. blog_id (f p) = blog_id p" "\<And>p. blog_storageName (f p) = blog_storageName p"
    and "coherent (f post)" "text_stored P obj (objects w') (f post)"
    and "\<And>k. k \<noteq> getMarkdownStorageKey (blog_storageName post) \<Longrightarrow>
      obj (objects w') blogsBucket k = obj (objects w) blogsBucket k"
  shows "blog_inv P obj w'"
proof -
  have drawn: "posts_drawn P (draws w) (blogPosts (db w))" using assms(1) by (simp add: blog_inv_def)
  have same: "p = post" if "p \<in> set (blogPosts (db w))" "blog_id p = blog_id post" for p
    using drawn that assms(2) by (auto simp: posts_drawn_def distinct_map dest: inj_onD)
  have name: "p = post" if "p \<in> set (blogPosts (db w))" "blog_storageName p = blog_storageName post" for p
    using drawn that assms(2) by (auto simp: posts_drawn_def distinct_map dest: inj_onD)
  have keep: "text_stored P obj (objects w') p" if "p \<in> set (blogPosts (db w))" "p \<noteq> post" for p
  proof -
    have "blog_storageName p \<noteq> blog_storageName post" using name that by blast
    then have "text_stored P obj (objects w') p = text_stored P obj (objects w) p"
      by (intro text_stored_cong assms(9)) simp
    then show ?thesis using assms(1) that by (simp add: blog_inv_def)
  qed
  have "coherent p \<and> text_stored P obj (objects w') p" if "p \<in> set (blogPosts (db w'))" for p
    using that assms(1,7,8) same keep by (auto simp: assms(4) set_update_where blog_inv_def)
  moreover have "posts_drawn P (draws w') (blogPosts (db w'))"
    using posts_drawn_update [OF drawn assms(5,6)] assms(3,4) by simp
  ultimately show ?thesis by (simp add: blog_inv_def)
qed

context atomic_store
begin

lemma put_cases:
  assumes "store P = S" "putMarkdownObject P name markdown w = (r, w')"
  shows "\<exists>st. w' = w\<lparr>objects := st\<rparr> \<and>
    (\<forall>b k. b \<noteq> blogsBucket \<or> k \<noteq> getMarkdownStorageKey name \<longrightarrow> obj st b k = obj (objects w) b k) \<and>
    (case r of
       Inr _ \<Rightarrow> obj st blogsBucket (getMarkdownStorageKey name) = Some (utf8 P markdown)
     | Inl _ \<Rightarrow> obj st = obj (objects w))"
proof -
  obtain ok st where p: "s3_put S blogsBucket (getMarkdownStorageKey name) (utf8 P markdown) (objects w) = (ok, st)"
    by fastforce
  have w': "w' = w\<lparr>objects := st\<rparr>" "r = (if ok then Inr () else Inl (Thrown ''PutObject''))"
    using assms p by (auto simp: putMarkdownObject_def)
  then show ?thesis
    using put_other [OF p] put_accepted [of blogsBucket _ _ _ st] put_refused [of blogsBucket _ _ _ st] p
    by (cases ok) auto
qed

lemma remove_cases:
  assumes "store P = S" "deleteMarkdownObject P name ignoreErrors w = (r, w')"
  shows "\<exists>st. w' = w\<lparr>objects := st\<rparr> \<and>
    (\<forall>b k. b \<noteq> blogsBucket \<or> k \<noteq> getMarkdownStorageKey name \<longrightarrow> obj st b k = obj (objects w) b k) \<and>
    (case r of Inr _ \<Rightarrow> True | Inl _ \<Rightarrow> obj st = obj (objects w))"
proof -
  obtain ok st where d: "s3_delete S blogsBucket (getMarkdownStorageKey name) (objects w) = (ok, st)"
    by fastforce
  then show ?thesis
    using assms delete_other [OF d] delete_refused [of blogsBucket _ "objects w" st]
    by (cases ok) (auto simp: deleteMarkdownObject_def)
qed

lemma create_inv:
  assumes "store P = S" "fresh_uuids P" "blog_inv P obj w"
    and "createAdminBlogPost P adminId dto status w = (r, w')" "status \<noteq> WITHDRAWN"
  shows "blog_inv P obj w'"
proof (cases "normalizeCreateInput P dto")
  case (Inl e)
  then show ?thesis using assms(3,4) by (simp add: createAdminBlogPost_def)
next
  case (Inr input)
  define name where "name = uuid P (draws w) @ ''.md''"
  obtain r1 w2 where put: "putMarkdownObject P name (bi_markdown input) (w\<lparr>draws := Suc (draws w)\<rparr>) = (r1, w2)"
    by fastforce
  obtain st where st: "w2 = w\<lparr>draws := Suc (draws w), objects := st\<rparr>"
    "\<And>k. k \<noteq> getMarkdownStorageKey name \<Longrightarrow> obj st blogsBucket k = obj (objects w) blogsBucket k"
    "r1 = Inr () \<Longrightarrow> obj st blogsBucket (getMarkdownStorageKey name) = Some (utf8 P (bi_markdown input))"
    using put_cases [OF assms(1) put] by (cases r1) auto
  have drawn: "posts_drawn P (draws w) (blogPosts (db w))" using assms(3) by (simp add: blog_inv_def)
  have new: "name \<notin> blog_storageName ` set (blogPosts (db w))"
    using drawn fresh_uuids_neq [OF assms(2)] by (fastforce simp: posts_drawn_def name_def)
  have newid: "uuid P (Suc (draws w)) \<notin> blog_id ` set (blogPosts (db w))"
    using drawn fresh_uuids_neq [OF assms(2)] by (fastforce simp: posts_drawn_def)
  have keep: "text_stored P obj st p" if "p \<in> set (blogPosts (db w))" for p
  proof -
    have "blog_storageName p \<noteq> name" using new that by blast
    then have "text_stored P obj st p = text_stored P obj (objects w) p"
      by (intro text_stored_cong st(2)) simp
    then show ?thesis using assms(3) that by (simp add: blog_inv_def)
  qed
  have mono: "posts_drawn P (Suc (Suc (draws w))) (blogPosts (db w))"
    "posts_drawn P (Suc (draws w)) (blogPosts (db w))"
    using posts_drawn_mono [OF drawn] by auto
  show ?thesis
  proof (cases r1)
    case (Inl e)
    then have "w' = w2" using assms(4) Inr put
      by (simp add: createAdminBlogPost_def createMarkdownStorageName_def randomUUID_def name_def)
    then show ?thesis using keep mono assms(3) st(1) by (simp add: blog_inv_def)
  next
    case ok: (Inr u)
    define post where "post = new_post P adminId input status w"
    have w': "w' = w2\<lparr>draws := Suc (Suc (draws w)), db := (db w)\<lparr>blogPosts := blogPosts (db w) @ [post]\<rparr>\<rparr>"
      using assms(4) Inr put ok st(1) new
      by (auto simp: createAdminBlogPost_def createMarkdownStorageName_def randomUUID_def Let_def
          name_def [symmetric] post_def new_post_def createMarkdownStorageName_def split: if_splits)
    have post: "blogPosts (db w') = blogPosts (db w) @ [post]" "objects w' = st"
      "draws w' = Suc (Suc (draws w))"
      by (simp_all add: w' st(1))
    have post_row: "blog_id post = uuid P (Suc (draws w))" "blog_storageName post = name"
      "blog_contentSize post = bi_contentSize input" "coherent post"
      using create_input [OF Inr] assms(5)
      by (cases status; simp add: post_def new_post_def createMarkdownStorageName_def randomUUID_def
          name_def coherent_def)+
    have "text_stored P obj st post"
      using post_row st(3) ok create_input [OF Inr] unfolding text_stored_def by auto
    moreover have "posts_drawn P (draws w') (blogPosts (db w) @ [post])"
      using mono(1) new newid post(3) post_row lessI [of "draws w"] lessI [of "Suc (draws w)"]
      unfolding posts_drawn_def name_def by (auto intro: less_SucI)
    ultimately show ?thesis using keep assms(3) post post_row by (auto simp: blog_inv_def)
  qed
qed

lemma update_inv:
  assumes "store P = S" "blog_inv P obj w" "updateAdminBlogPost P i dto w = (r, w')"
  shows "blog_inv P obj w'"
proof (cases "findBlogPostOrThrow (db w) i")
  case (Inl e)
  then show ?thesis using assms(2,3) by (simp add: updateAdminBlogPost_def)
next
  case (Inr post)
  show ?thesis
  proof (cases "normalizeUpdateInput P dto post")
    case (Inl e)
    then show ?thesis using assms(2,3) Inr by (simp add: updateAdminBlogPost_def)
  next
    case input: (Inr input)
    have post: "post \<in> set (blogPosts (db w))" using findBlogPost_cases [OF Inr] by simp
    then have ok: "coherent post" "text_stored P obj (objects w) post"
      using assms(2) by (simp_all add: blog_inv_def)
    have names: "blog_id (stamped t (apply_update dto input) p) = blog_id p"
      "blog_storageName (stamped t (apply_update dto input) p) = blog_storageName p" for t p
      by (simp_all add: stamped_def apply_update_def)
    have coh: "coherent (stamped t (apply_update dto input) post)" for t
      using apply_update_coherent [OF ok(1) input] by simp
    show ?thesis
    proof (cases "pb_markdown dto = None")
      case True
      then have w': "w' = set_post (blog_id post) (apply_update dto input) w"
        using assms(3) Inr input by (simp add: updateAdminBlogPost_def)
      have "text_stored P obj (objects w) (apply_update dto input post)"
        using ok(2) True by (simp add: text_stored_def apply_update_def)
      then show ?thesis
        using set_post_inv [OF assms(2) post _ _ names [of "now w"] coh [of "now w"], of w'] by (simp add: w')
    next
      case False
      note md = update_input [OF input, THEN conjunct1, rule_format, OF False]
      obtain r1 w1 where put: "putMarkdownObject P (blog_storageName post) (bi_markdown input) w = (r1, w1)"
        by fastforce
      obtain st where st: "w1 = w\<lparr>objects := st\<rparr>"
        "\<And>k. k \<noteq> getMarkdownStorageKey (blog_storageName post) \<Longrightarrow>
           obj st blogsBucket k = obj (objects w) blogsBucket k"
        "case r1 of Inr _ \<Rightarrow> obj st blogsBucket (getMarkdownStorageKey (blog_storageName post)) =
             Some (utf8 P (bi_markdown input)) | Inl _ \<Rightarrow> obj st = obj (objects w)"
        using put_cases [OF assms(1) put] by auto
      show ?thesis
      proof (cases r1)
        case (Inl e)
        then have "w' = w1" "obj st = obj (objects w)" using assms(3) Inr input put False st(3)
          by (simp_all add: updateAdminBlogPost_def replaceMarkdownObject_def)
        then show ?thesis using blog_inv_keep [OF assms(2), of w'] st(1) by simp
      next
        case acc: (Inr u)
        have w': "w' = set_post (blog_id post) (apply_update dto input) w1"
          using assms(3) Inr input put acc False
          by (simp add: updateAdminBlogPost_def replaceMarkdownObject_def)
        have "text_stored P obj st (apply_update dto input post)"
          using st(3) acc md False by (auto simp: text_stored_def apply_update_def)
        then show ?thesis
          using set_post_inv [OF assms(2) post _ _ names [of "now w"] coh [of "now w"], of w'] st(1,2) by (simp add: w')
      qed
    qed
  qed
qed

lemma blog_remove_inv:
  assumes "store P = S" "blog_inv P obj w" "deleteAdminBlogPost P i w = (r, w')"
  shows "blog_inv P obj w'"
proof (cases "findBlogPostOrThrow (db w) i")
  case (Inl e)
  then show ?thesis using assms(2,3) by (simp add: deleteAdminBlogPost_def)
next
  case (Inr post)
  have post: "post \<in> set (blogPosts (db w))" using findBlogPost_cases [OF Inr] by simp
  have drawn: "posts_drawn P (draws w) (blogPosts (db w))" using assms(2) by (simp add: blog_inv_def)
  obtain r1 w1 where d: "deleteMarkdownObject P (blog_storageName post) False w = (r1, w1)" by fastforce
  obtain st where st: "w1 = w\<lparr>objects := st\<rparr>"
    "\<And>k. k \<noteq> getMarkdownStorageKey (blog_storageName post) \<Longrightarrow>
       obj st blogsBucket k = obj (objects w) blogsBucket k"
    "case r1 of Inr _ \<Rightarrow> True | Inl _ \<Rightarrow> obj st = obj (objects w)"
    using remove_cases [OF assms(1) d] by auto
  show ?thesis
  proof (cases "blog_status post = PUBLISHED")
    case True
    then show ?thesis using assms(2,3) Inr by (simp add: deleteAdminBlogPost_def)
  next
    case False
    show ?thesis
    proof (cases r1)
      case (Inl e)
      then have "w' = w1" "obj st = obj (objects w)" using assms(3) Inr False d st(3)
        by (simp_all add: deleteAdminBlogPost_def)
      then show ?thesis using blog_inv_keep [OF assms(2), of w'] st(1) by simp
    next
      case acc: (Inr u)
      have w': "blogPosts (db w') = delete_where (\<lambda>p. blog_id p = blog_id post) (blogPosts (db w))"
        "objects w' = st" "draws w' = draws w"
        using assms(3) Inr False d acc st(1) by (auto simp: deleteAdminBlogPost_def)
      have "text_stored P obj st p"
        if "p \<in> set (blogPosts (db w))" "blog_id p \<noteq> blog_id post" for p
      proof -
        have "blog_storageName p \<noteq> blog_storageName post"
          using drawn that post by (auto simp: posts_drawn_def distinct_map dest: inj_onD)
        then have "text_stored P obj st p = text_stored P obj (objects w) p"
          by (intro text_stored_cong st(2)) simp
        then show ?thesis using assms(2) that by (simp add: blog_inv_def)
      qed
      moreover have "posts_drawn P (draws w) (delete_where (\<lambda>p. blog_id p = blog_id post) (blogPosts (db w)))"
        using drawn by (auto simp: posts_drawn_def delete_where_def distinct_map_filter)
      ultimately show ?thesis using assms(2) w' by (auto simp: blog_inv_def set_delete_where)
    qed
  qed
qed

lemma read_keeps:
  assumes "store P = S" "getMarkdownObject P name w = (r, w')"
  shows "\<exists>st. w' = w\<lparr>objects := st\<rparr> \<and> obj st = obj (objects w)"
proof -
  obtain reply st where g: "s3_get S blogsBucket (getMarkdownStorageKey name) (objects w) = (reply, st)"
    by fastforce
  show ?thesis using assms get_keeps [OF g] g
    by (auto simp: getMarkdownObject_def Let_def split: option.splits)
qed

end

lemma publish_inv: "blog_inv P obj w \<Longrightarrow> blog_inv P obj (snd (publishAdminBlogPost i w))"
proof (cases "findBlogPostOrThrow (db w) i")
  case (Inr post)
  assume inv: "blog_inv P obj w"
  have post: "post \<in> set (blogPosts (db w))" using findBlogPost_cases [OF Inr] by simp
  then have "coherent post" "text_stored P obj (objects w) post" using inv by (simp_all add: blog_inv_def)
  then show ?thesis
    using set_post_inv [OF inv post, of "snd (publishAdminBlogPost i w)"] Inr inv
    by (cases "blog_status post = PUBLISHED")
      (simp_all add: publishAdminBlogPost_def stamped_def coherent_def text_stored_def)
qed (simp add: publishAdminBlogPost_def)

lemma withdraw_inv: "blog_inv P obj w \<Longrightarrow> blog_inv P obj (snd (withdrawAdminBlogPost i w))"
proof (cases "findBlogPostOrThrow (db w) i")
  case (Inr post)
  assume inv: "blog_inv P obj w"
  have post: "post \<in> set (blogPosts (db w))" using findBlogPost_cases [OF Inr] by simp
  then have "coherent post" "text_stored P obj (objects w) post" using inv by (simp_all add: blog_inv_def)
  then show ?thesis
    using set_post_inv [OF inv post, of "snd (withdrawAdminBlogPost i w)"] Inr inv
    by (cases "blog_status post = PUBLISHED")
      (simp_all add: withdrawAdminBlogPost_def stamped_def coherent_def text_stored_def)
qed (simp add: withdrawAdminBlogPost_def)

text \<open>The audit log and the snapshots around an operation change nothing of the blog.\<close>

lemma blog_log_inv: "blog_inv P obj w \<Longrightarrow> blog_inv P obj (blog_log a ac why m w)"
  by (rule blog_inv_keep) (simp_all add: blog_log_def)

lemma between_inv:
  assumes "between_snapshots a i ac what extra f w = (r, w')" "blog_inv P obj w"
    and "\<And>r w'. f w = (r, w') \<Longrightarrow> blog_inv P obj w'"
  shows "blog_inv P obj w'"
  using assms blog_log_inv
  by (auto simp: between_snapshots_def split: sum.splits prod.splits)

lemma between_ok:
  assumes "getBlogPostAuditSnapshot (db w) i = Inr before" "f w = (Inr ans, w1)"
    and "getBlogPostAuditSnapshot (db w1) i = Inr after"
  shows "\<exists>why m. between_snapshots a i ac what extra f w = (Inr ans, blog_log a ac why m w1)"
  unfolding between_snapshots_def assms sum.case prod.case by blast

section \<open>Reachable states\<close>

text \<open>Besides the handlers, other services draw random values and use other tables and buckets.\<close>

inductive blog_step ::
    "('r, 's) platform \<Rightarrow> ('s \<Rightarrow> string \<Rightarrow> string \<Rightarrow> bytes option) \<Rightarrow> ('r, 's) world \<Rightarrow>
     ('r, 's) world \<Rightarrow> bool"
  for P obj where
  draft: "createDraft P adminId dto w = (r, w') \<Longrightarrow> blog_step P obj w w'"
| published: "createPublished P adminId dto w = (r, w') \<Longrightarrow> blog_step P obj w w'"
| update: "updateBlogPost P adminId i upd w = (r, w') \<Longrightarrow> blog_step P obj w w'"
| publish: "publishBlogPost adminId i w = (r, w') \<Longrightarrow> blog_step P obj w w'"
| withdraw: "withdrawBlogPost adminId i w = (r, w') \<Longrightarrow> blog_step P obj w w'"
| delete: "deleteBlogPost P adminId i w = (r, w') \<Longrightarrow> blog_step P obj w w'"
| read: "getPublishedBlogPostById P i w = (r', w') \<Longrightarrow> blog_step P obj w w'"
| read_admin: "getAdminBlogPostById P i w = (r', w') \<Longrightarrow> blog_step P obj w w'"
| other: "blogPosts (db w') = blogPosts (db w) \<Longrightarrow> draws w \<le> draws w' \<Longrightarrow>
    (\<And>k. obj (objects w') blogsBucket k = obj (objects w) blogsBucket k) \<Longrightarrow> blog_step P obj w w'"

context atomic_store
begin

lemma detail_inv:
  assumes "store P = S" "blog_inv P obj w" "toDetailRecord P post w = (r, w')"
  shows "blog_inv P obj w'"
proof -
  obtain r1 w1 where g: "getMarkdownObject P (blog_storageName post) w = (r1, w1)" by fastforce
  then have "w' = w1" using assms(3) by (auto simp: toDetailRecord_def split: sum.splits)
  then show ?thesis using read_keeps [OF assms(1) g] blog_inv_keep [OF assms(2), of w'] by auto
qed

lemma blog_step_inv:
  assumes "store P = S" "fresh_uuids P" "blog_inv P obj w" "blog_step P obj w w'"
  shows "blog_inv P obj w'"
  using assms(4)
proof cases
  case (draft adminId dto r)
  then show ?thesis using create_inv [OF assms(1-3)] blog_log_inv
    by (fastforce simp: createDraft_def split: sum.splits prod.splits)
next
  case (published adminId dto r)
  then show ?thesis using create_inv [OF assms(1-3)] blog_log_inv
    by (fastforce simp: createPublished_def split: sum.splits prod.splits)
next
  case (update adminId i upd r)
  then show ?thesis unfolding updateBlogPost_def
    by (rule between_inv [OF _ assms(3) update_inv [OF assms(1,3)]])
next
  case (publish adminId i r)
  then show ?thesis unfolding publishBlogPost_def
    by (rule between_inv [OF _ assms(3)])
      (use publish_inv [OF assms(3)] in \<open>metis snd_conv\<close>)
next
  case (withdraw adminId i r)
  then show ?thesis unfolding withdrawBlogPost_def
    by (rule between_inv [OF _ assms(3)])
      (use withdraw_inv [OF assms(3)] in \<open>metis snd_conv\<close>)
next
  case (delete adminId i r)
  then show ?thesis using assms(3)
    by (auto simp: deleteBlogPost_def split: sum.splits prod.splits
        intro: blog_log_inv blog_remove_inv [OF assms(1,3)])
next
  case (read i r')
  then show ?thesis using detail_inv [OF assms(1,3)] assms(3)
    by (auto simp: getPublishedBlogPostById_def split: option.splits)
next
  case (read_admin i r')
  then show ?thesis using detail_inv [OF assms(1,3)] assms(3)
    by (auto simp: getAdminBlogPostById_def split: sum.splits)
next
  case other
  then show ?thesis by (rule blog_inv_keep [OF assms(3)])
qed

end

definition blog_system ::
    "('r, 's) platform \<Rightarrow> ('s \<Rightarrow> string \<Rightarrow> string \<Rightarrow> bytes option) \<Rightarrow> ('r, 's) world \<Rightarrow>
     ('r, 's) world \<Rightarrow> bool" where
  "blog_system P obj w w' \<longleftrightarrow> atomic_store (store P) obj \<and> fresh_uuids P \<and> blog_step P obj w w'"

definition blog_empty :: "('r, 's) world \<Rightarrow> bool" where
  "blog_empty w \<longleftrightarrow> blogPosts (db w) = []"

lemma blog_empty_inv: "blog_empty w \<Longrightarrow> blog_inv P obj w"
  by (simp add: blog_empty_def blog_inv_def posts_drawn_def)

interpretation blog: invariant_system blog_empty "blog_system P obj" "blog_inv P obj"
  for P :: "('r, 's) platform" and obj
  by unfold_locales
    (auto simp: blog_system_def intro: blog_empty_inv atomic_store.blog_step_inv [OF _ refl])

context atomic_store
begin

lemma markdown_read:
  assumes "store P = S" "utf8_ok P" "blog_inv P obj w" "post \<in> set (blogPosts (db w))"
    and "getMarkdownObject P (blog_storageName post) w = (r, w')"
  shows "case r of
      Inr text \<Rightarrow> trim text \<noteq> [] \<and> length (utf8 P text) = blog_contentSize post \<and>
        obj (objects w) blogsBucket (getMarkdownStorageKey (blog_storageName post)) = Some (utf8 P text)
    | Inl e \<Rightarrow> e = Thrown ''GetObject'' \<or> e = Thrown ''TypeError''"
proof -
  obtain reply st where g:
    "s3_get S blogsBucket (getMarkdownStorageKey (blog_storageName post)) (objects w) = (reply, st)"
    by fastforce
  obtain md where md: "trim md \<noteq> []"
    "obj (objects w) blogsBucket (getMarkdownStorageKey (blog_storageName post)) = Some (utf8 P md)"
    "blog_contentSize post = length (utf8 P md)"
    using assms(3,4) by (auto simp: blog_inv_def text_stored_def)
  have "utf8_text P (utf8 P md) = md" using assms(2) by (simp add: utf8_ok_def)
  then show ?thesis
    using assms(1,5) g md get_body [of blogsBucket _ "objects w" _ _ st]
    by (auto simp: getMarkdownObject_def Let_def split: option.splits)
qed

text \<open>What a creation that succeeds leaves.\<close>

lemma create_ok:
  assumes "store P = S" "createAdminBlogPost P adminId dto status w = (Inr ans, w')"
  shows "\<exists>input st. normalizeCreateInput P dto = Inr input \<and>
    w' = w\<lparr>draws := Suc (Suc (draws w)), objects := st,
      db := (db w)\<lparr>blogPosts := blogPosts (db w) @ [new_post P adminId input status w]\<rparr>\<rparr> \<and>
    bw_postId ans = blog_id (new_post P adminId input status w) \<and>
    obj st blogsBucket (getMarkdownStorageKey (blog_storageName (new_post P adminId input status w))) =
      Some (utf8 P (sb_markdown dto))"
proof (cases "normalizeCreateInput P dto")
  case (Inl e)
  then show ?thesis using assms(2) by (simp add: createAdminBlogPost_def)
next
  case (Inr input)
  obtain r1 w2 where put: "putMarkdownObject P (uuid P (draws w) @ ''.md'') (bi_markdown input)
      (w\<lparr>draws := Suc (draws w)\<rparr>) = (r1, w2)" by fastforce
  obtain st where st: "w2 = w\<lparr>draws := Suc (draws w), objects := st\<rparr>"
    "r1 = Inr () \<Longrightarrow> obj st blogsBucket (getMarkdownStorageKey (uuid P (draws w) @ ''.md'')) =
       Some (utf8 P (bi_markdown input))"
    using put_cases [OF assms(1) put] by (cases r1) auto
  have "bi_markdown input = sb_markdown dto" using create_input [OF Inr] by auto
  then show ?thesis
    using assms(2) Inr put st
    by (cases r1) (auto simp: createAdminBlogPost_def createMarkdownStorageName_def randomUUID_def
        new_post_def Let_def split: if_splits)
qed

end

text \<open>A public reader sees the row of a published post or nothing.\<close>

lemma public_find:
  assumes "blog_inv P obj w"
  shows "find (\<lambda>p. blog_id p = i \<and> is_public p) (blogPosts (db w)) = Some p \<longleftrightarrow>
    p \<in> set (blogPosts (db w)) \<and> blog_id p = i \<and> blog_status p = PUBLISHED" (is "?f = _ \<longleftrightarrow> _")
proof
  assume "?f = Some p"
  then show "p \<in> set (blogPosts (db w)) \<and> blog_id p = i \<and> blog_status p = PUBLISHED"
    by (auto simp: is_public_def dest: find_Some_mem)
next
  assume p: "p \<in> set (blogPosts (db w)) \<and> blog_id p = i \<and> blog_status p = PUBLISHED"
  then have "is_public p" using assms by (auto simp: blog_inv_def coherent_def is_public_def)
  then have "?f \<noteq> None" using p by (auto simp: find_None_iff)
  then obtain q where q: "?f = Some q" by auto
  then have "q \<in> set (blogPosts (db w))" "blog_id q = blog_id p" using p by (auto dest: find_Some_mem)
  moreover have "inj_on blog_id (set (blogPosts (db w)))"
    using assms by (simp add: blog_inv_def posts_drawn_def distinct_map)
  ultimately show "?f = Some p" using p q by (metis inj_onD)
qed

section \<open>Properties\<close>


lemma toCategories_texts: "toCategories (JList (map JStr cs)) = cs"
proof -
  have "json_strings (map JStr cs) = cs" by (induction cs) simp_all
  then show ?thesis by (simp add: toCategories_def)
qed

text \<open>A withdrawal of a published post.\<close>

lemma withdraw_found:
  assumes "findBlogPostOrThrow (db w) i = Inr post" "blog_status post = PUBLISHED"
  shows "\<exists>ans w'. withdrawBlogPost adminId i w = (Inr ans, w') \<and>
    (\<forall>p \<in> set (blogPosts (db w')). blog_id p = i \<longrightarrow> blog_status p = WITHDRAWN)"
proof -
  define f where "f = (\<lambda>p :: blogPost. p\<lparr>blog_status := WITHDRAWN, blog_withdrawnAt := Some (now w)\<rparr>)"
  have i: "blog_id post = i" using findBlogPost_cases [OF assms(1)] by simp
  have "find (\<lambda>p. blog_id p = i) (blogPosts (db (set_post i f w))) = Some (stamped (now w) f post)"
  proof -
    have "find (\<lambda>p. blog_id p = i) (blogPosts (db w)) = Some post"
      using assms(1) by (simp add: findBlogPostOrThrow_def split: option.splits)
    then show ?thesis
      unfolding set_post_simps by (subst find_update_where) (simp_all add: i stamped_def f_def)
  qed
  then have "getBlogPostAuditSnapshot (db (set_post i f w)) i = Inr (stamped (now w) f post)"
    by (simp add: getBlogPostAuditSnapshot_def findBlogPostOrThrow_def)
  moreover obtain ans where "withdrawAdminBlogPost i w = (Inr ans, set_post i f w)"
    using assms i by (simp add: withdrawAdminBlogPost_def f_def)
  moreover have "getBlogPostAuditSnapshot (db w) i = Inr post"
    using assms(1) by (simp add: getBlogPostAuditSnapshot_def)
  ultimately obtain why m where
    "withdrawBlogPost adminId i w = (Inr ans, blog_log adminId ''blog_post_withdrawn'' why m (set_post i f w))"
    using between_ok [of w i post "withdrawAdminBlogPost i" ans] unfolding withdrawBlogPost_def by metis
  moreover have "blogPosts (db (blog_log adminId ac why m (set_post i f w))) =
      update_where (\<lambda>p. blog_id p = i) (stamped (now w) f) (blogPosts (db w))" for ac
    by (simp add: blog_log_def)
  moreover have "blog_status (stamped (now w) f p) = WITHDRAWN" for p
    by (simp add: stamped_def f_def)
  then have "blog_status p = WITHDRAWN"
    if "p \<in> set (update_where (\<lambda>p. blog_id p = i) (stamped (now w) f) (blogPosts (db w)))" "blog_id p = i" for p
    using that unfolding set_update_where by blast
  ultimately show ?thesis by (metis (no_types, lifting))
qed

text \<open>C34. A post created as published is read back by everyone with the text that was sent and its
  fields trimmed; the posts there were stay as they are; once withdrawn the post is not found.\<close>

theorem blog_roundtrip:
  fixes P :: "('r, 's) platform"
  assumes "atomic_store (store P) obj" "utf8_ok P" "fresh_uuids P"
    and "reachable blog_empty (blog_system P obj) w"
    and "createPublished P adminId dto w = (Inr ans, w1)"
    and "getPublishedBlogPostById P (bw_postId ans) w1 = (r, w2)"
    and "withdrawBlogPost adminId (bw_postId ans) w1 = (r3, w3)"
  shows "(case r of
      Inr (m, text) \<Rightarrow> text = sb_markdown dto \<and> bm_title m = normalizeOptionalString (sb_title dto) \<and>
        bm_subtitle m = trim (sb_subtitle dto) \<and> fst (bm_author m) = trim (ba_name (sb_author dto)) \<and>
        set (bm_categories m) =
          trim ` (case sb_categories dto of None \<Rightarrow> {} | Some cs \<Rightarrow> set cs) - {[]} \<and>
        bm_publishedAt m = Some (now w)
    | Inl e \<Rightarrow> e = Thrown ''GetObject'' \<or> e = Thrown ''TypeError'') \<and>
    set (blogPosts (db w)) \<subseteq> set (blogPosts (db w1)) \<and>
    is_ok (r3, w3) \<and> getPublishedBlogPostById P (bw_postId ans) w3 = (Inl blog_not_found, w3)"
proof -
  have system: "blog_system P obj w w1"
    using assms(1,3,5) by (auto simp: blog_system_def intro: published)
  have inv1: "blog_inv P obj w1"
    using blog.reachable_inv [OF reachable.step [OF assms(4) system]] .
  obtain wa m why where create: "createAdminBlogPost P adminId dto PUBLISHED w = (Inr ans, wa)"
    and w1: "w1 = blog_log adminId ''blog_post_published'' why m wa"
    using assms(5) by (auto simp: createPublished_def split: sum.splits prod.splits)
  obtain input st where input: "normalizeCreateInput P dto = Inr input"
    and wa: "wa = w\<lparr>draws := Suc (Suc (draws w)), objects := st,
      db := (db w)\<lparr>blogPosts := blogPosts (db w) @ [new_post P adminId input PUBLISHED w]\<rparr>\<rparr>"
    and ans: "bw_postId ans = blog_id (new_post P adminId input PUBLISHED w)"
    and obj: "obj st blogsBucket (getMarkdownStorageKey (blog_storageName (new_post P adminId input PUBLISHED w))) =
      Some (utf8 P (sb_markdown dto))"
    using atomic_store.create_ok [OF assms(1) refl create] by auto
  define post where "post = new_post P adminId input PUBLISHED w"
  have rows: "blogPosts (db w1) = blogPosts (db w) @ [post]" "objects w1 = st"
    by (simp_all add: w1 wa blog_log_def post_def)
  have post: "post \<in> set (blogPosts (db w1))" "blog_id post = bw_postId ans" "blog_status post = PUBLISHED"
    using rows ans by (simp_all add: post_def) (simp add: new_post_def)
  then have found: "find (\<lambda>p. blog_id p = bw_postId ans \<and> is_public p) (blogPosts (db w1)) = Some post"
    using public_find [OF inv1, of "bw_postId ans" post] by simp
  obtain r1 w4 where g: "getMarkdownObject P (blog_storageName post) w1 = (r1, w4)" by fastforce
  have same: "case r1 of Inr body \<Rightarrow> body = sb_markdown dto | Inl e \<Rightarrow> e = Thrown ''GetObject'' \<or> e = Thrown ''TypeError''"
  proof (cases r1)
    case (Inr body)
    then have "utf8 P body = utf8 P (sb_markdown dto)"
      using atomic_store.markdown_read [OF assms(1) refl assms(2) inv1 post(1) g] obj rows by (simp add: post_def)
    then have "body = sb_markdown dto" using assms(2) unfolding utf8_ok_def by metis
    then show ?thesis using Inr by simp
  qed (use atomic_store.markdown_read [OF assms(1) refl assms(2) inv1 post(1) g] in simp)
  have r: "r = (case r1 of Inl e \<Rightarrow> Inl e | Inr text \<Rightarrow> Inr (toMetaRecord post, text))"
    using found assms(6) g by (auto simp: getPublishedBlogPostById_def toDetailRecord_def split: sum.splits)
  have cats: "set (toCategories (blog_categories post)) =
      trim ` (case sb_categories dto of None \<Rightarrow> {} | Some cs \<Rightarrow> set cs) - {[]}"
    using create_input [OF input] by (auto simp: post_def new_post_def toCategories_texts split: option.splits)
  have fields: "bm_title (toMetaRecord post) = normalizeOptionalString (sb_title dto)"
    "bm_subtitle (toMetaRecord post) = trim (sb_subtitle dto)"
    "fst (bm_author (toMetaRecord post)) = trim (ba_name (sb_author dto))"
    "bm_publishedAt (toMetaRecord post) = Some (now w)"
    "bm_categories (toMetaRecord post) = toCategories (blog_categories post)"
    using create_input [OF input] by (simp_all add: post_def new_post_def toMetaRecord_def)
  have "findBlogPostOrThrow (db w1) (bw_postId ans) = Inr post"
  proof -
    have "find (\<lambda>p. blog_id p = blog_id post) (blogPosts (db w1)) = Some post"
      using inv1 post(1) by (intro find_distinct_key) (simp add: blog_inv_def posts_drawn_def)
    then show ?thesis using post(2) by (simp add: findBlogPostOrThrow_def)
  qed
  from withdraw_found [OF this post(3), of adminId] assms(7)
  have w3: "is_ok (r3, w3)" "\<forall>p \<in> set (blogPosts (db w3)). blog_id p = bw_postId ans \<longrightarrow> blog_status p = WITHDRAWN"
    by auto
  then have "find (\<lambda>p. blog_id p = bw_postId ans \<and> is_public p) (blogPosts (db w3)) = None"
    by (auto simp: find_None_iff is_public_def)
  then have gone: "getPublishedBlogPostById P (bw_postId ans) w3 = (Inl blog_not_found, w3)"
    by (simp add: getPublishedBlogPostById_def)
  show ?thesis
    using same r fields cats rows w3(1) gone by (cases r1) auto
qed

section \<open>Samples\<close>

definition sample_post :: save_blog_dto where
  "sample_post =
     \<lparr>sb_title = None, sb_subtitle = ''news'', sb_author = \<lparr>ba_name = ''ann'', ba_title = None\<rparr>,
      sb_categories = Some [''a''], sb_markdown = ''hi''\<rparr>"

lemma sample_input:
  "normalizeCreateInput mail_platform sample_post =
     Inr \<lparr>bi_title = None, bi_subtitle = ''news'', bi_authorName = ''ann'', bi_authorTitle = None,
       bi_categories = [''a''], bi_markdown = ''hi'', bi_contentSize = 2\<rparr>"
proof -
  have t: "trim ''news'' = ''news''" "trim ''ann'' = ''ann''" "trim ''hi'' = ''hi''" "trim ''a'' = ''a''"
    by code_simp+
  show ?thesis
    by (simp add: normalizeCreateInput_def sample_post_def normalizeMarkdown_def
        normalizeRequiredString_def normalizeOptionalString_def normalizeCategories_def js_set_def
        truthy_def t)
qed

definition blog_w0 :: "(kv, mem) world" where
  "blog_w0 = \<lparr>db = empty_db, redis = kv_empty, objects = Map.empty, now = 5, draws = 0\<rparr>"

lemma sample_created:
  obtains ans w1 where "createPublished mail_platform ''root'' sample_post blog_w0 = (Inr ans, w1)"
    "bw_postId ans = unary 1" "map blog_id (blogPosts (db w1)) = [unary 1]"
  by (simp add: blog_log_def createPublished_def createAdminBlogPost_def sample_input createMarkdownStorageName_def
      putMarkdownObject_def randomUUID_def new_post_def blog_w0_def empty_db_def
      getBlogPostAuditSnapshot_def findBlogPostOrThrow_def)

lemma sample_empty: "reachable blog_empty (blog_system mail_platform mem_obj) blog_w0"
  by (rule reachable.start) (simp add: blog_empty_def blog_w0_def empty_db_def)

lemma mail_atomic: "atomic_store (store mail_platform) mem_obj"
  by (simp add: mem_atomic.atomic_store_axioms)


lemma blog_roundtrip_witness:
  "\<exists>ans w1. createPublished mail_platform ''root'' sample_post blog_w0 = (Inr ans, w1) \<and>
    (case fst (getPublishedBlogPostById mail_platform (unary 1) w1) of
       Inr (m, body) \<Rightarrow> body = ''hi'' \<and> bm_subtitle m = ''news'' | Inl e \<Rightarrow> e \<noteq> blog_not_found)"
proof -
  obtain ans w1 where c: "createPublished mail_platform ''root'' sample_post blog_w0 = (Inr ans, w1)"
    "bw_postId ans = unary 1" "map blog_id (blogPosts (db w1)) = [unary 1]"
    by (rule sample_created)
  obtain r w2 where r: "getPublishedBlogPostById mail_platform (bw_postId ans) w1 = (r, w2)" by fastforce
  obtain r3 w3 where r3: "withdrawBlogPost ''root'' (bw_postId ans) w1 = (r3, w3)" by fastforce
  have t: "trim ''news'' = ''news''" by code_simp
  have "fresh_uuids mail_platform" using mail_uuid by (simp add: uuid_ok_def)
  from blog_roundtrip [OF mail_atomic mail_utf8 this sample_empty c(1) r r3]
  show ?thesis using c r t by (auto simp: sample_post_def blog_not_found_def split: sum.splits)
qed

text \<open>An update whose \<open>author\<close> is \<open>null\<close> passes validation and ends in a \<open>TypeError\<close>.\<close>

lemma null_author_fails:
  assumes "findBlogPostOrThrow (db w) i = Inr post"
  shows "updateAdminBlogPost P i
      \<lparr>pb_title = None, pb_subtitle = None, pb_author = Some None, pb_categories = None, pb_markdown = None\<rparr> w =
    (Inl null_title, w)"
  using assms by (simp add: updateAdminBlogPost_def normalizeUpdateInput_def)

end
