(* ===== verification/Admin_Mails.thy ===== *)
theory Admin_Mails
  imports Admin_Audit
begin

text \<open>
  \<^verbatim>\<open>AdminMailsService\<close> (\<^verbatim>\<open>admin/mails/admin-mails.service.ts\<close>): internal mail
  from the administration to one user or to all of them. An internal mail is a row with its
  attachments; each recipient gets a copy in the mailbox and a delivery row that ties the two, so
  that the mail can be recalled. A handler also returns the events the mailbox emits, those before an
  error included.
\<close>

section \<open>Senders and templates\<close>

record mail_sender =
  ms_id :: string
  ms_address :: string
  ms_label :: string
  ms_initials :: string
  ms_color :: string

definition ADMIN_MAIL_SENDERS :: "mail_sender list" where
  "ADMIN_MAIL_SENDERS =
     [\<lparr>ms_id = ''admin'', ms_address = ''admin@team.redbox.cx'', ms_label = ''Admin'',
       ms_initials = ''AD'', ms_color = ''#951d2a''\<rparr>,
      \<lparr>ms_id = ''no-reply'', ms_address = ''no-reply@team.redbox.cx'', ms_label = ''No Reply'',
       ms_initials = ''NR'', ms_color = ''#6b7280''\<rparr>,
      \<lparr>ms_id = ''support'', ms_address = ''support@team.redbox.cx'', ms_label = ''Support'',
       ms_initials = ''SP'', ms_color = ''#3b82f6''\<rparr>,
      \<lparr>ms_id = ''security'', ms_address = ''security@team.redbox.cx'', ms_label = ''Security'',
       ms_initials = ''SC'', ms_color = ''#f59e0b''\<rparr>]"

definition newline :: string where
  "newline = [CHR 0x0A]"

definition ADMIN_MAIL_TEMPLATES :: "(string \<times> string \<times> string) list" where
  "ADMIN_MAIL_TEMPLATES =
     [(''Password Reset Warning'', ''Action Required: Reset Your Password'',
       ''Dear user,'' @ newline @ newline @ ''We noticed unusual activity...''),
      (''Security Alert'', ''Security Alert on Your Account'',
       ''Dear user,'' @ newline @ newline @
       ''A new login was detected on your account from an unrecognized device.'')]"

definition getMailSenders :: "mail_sender list" where
  "getMailSenders = ADMIN_MAIL_SENDERS"

definition getMailTemplates :: "(string \<times> string \<times> string) list" where
  "getMailTemplates = ADMIN_MAIL_TEMPLATES"

definition findSenderOrThrow :: "string \<Rightarrow> http_error + mail_sender" where
  "findSenderOrThrow senderId =
     (case find (\<lambda>s. ms_id s = senderId) ADMIN_MAIL_SENDERS of
        None \<Rightarrow> Inl (NotFound ''Sender not found'') | Some s \<Rightarrow> Inr s)"

definition buildSenderHeader :: "mail_sender \<Rightarrow> string" where
  "buildSenderHeader sender = ms_label sender @ '' <'' @ ms_address sender @ ''>''"

definition upper_char :: "char \<Rightarrow> char" where
  "upper_char c =
     (let n = (of_char c :: nat) in if 97 \<le> n \<and> n \<le> 122 then char_of (n - 32) else c)"

definition toAdminMailSender :: "string \<Rightarrow> string \<Rightarrow> string \<Rightarrow> mail_sender" where
  "toAdminMailSender senderId senderAddress senderLabel =
     (case find (\<lambda>s. ms_id s = senderId) ADMIN_MAIL_SENDERS of
        Some knownSender \<Rightarrow> knownSender
      | None \<Rightarrow>
          (let parts = filter (\<lambda>p. p \<noteq> []) (split_on is_space senderLabel);
               initials = take 2 (map (\<lambda>p. upper_char (hd p)) parts)
           in \<lparr>ms_id = senderId, ms_address = senderAddress, ms_label = senderLabel,
               ms_initials = or_text initials ''IN'', ms_color = ''#951d2a''\<rparr>))"

section \<open>The target\<close>

record metadata_attachment =
  ma_name :: string
  ma_size :: nat
  ma_type :: string

record send_mail_dto =
  sm_senderId :: string
  sm_to :: "string option"
  sm_recipients :: "string list option"
  sm_isBroadcast :: "bool option"
  sm_subject :: string
  sm_body :: string
  sm_isHtml :: bool
  sm_template :: "string option"
  sm_attachments :: "metadata_attachment list option"

record mail_target =
  tg_toAddress :: string
  tg_targetType :: InternalMailTargetType
  tg_targetUsername :: "string option"

definition redbox_domain :: string where
  "redbox_domain = ''@redbox.cx''"

text \<open>\<open>/^(?:\*|[^@\s]+)@redbox\.cx$/i\<close>.\<close>

definition internal_address :: "string \<Rightarrow> bool" where
  "internal_address a \<longleftrightarrow>
     (let n = length a - length redbox_domain; local_part = take n a in
      to_lower (drop n a) = redbox_domain \<and> local_part \<noteq> [] \<and>
      list_all (\<lambda>c. c \<noteq> CHR ''@'' \<and> \<not> is_space c) local_part)"

definition resolveTargetAddress :: "send_mail_dto \<Rightarrow> http_error + mail_target" where
  "resolveTargetAddress dto =
     (let normalizedTo = map_option (\<lambda>t. to_lower (trim t)) (sm_to dto);
          normalizedRecipients =
            filter (\<lambda>r. r \<noteq> [])
              (map (\<lambda>r. to_lower (trim r)) (case sm_recipients dto of None \<Rightarrow> [] | Some rs \<Rightarrow> rs));
          toAddress =
            (if truthy normalizedTo then the normalizedTo
             else if sm_isBroadcast dto = Some True then ''*@redbox.cx''
             else if length normalizedRecipients = 1 then hd normalizedRecipients
             else [])
      in if toAddress = []
         then Inl (BadRequest (''Internal mail requires either to, one legacy recipient, '' @
           ''or broadcast mode''))
         else if length normalizedRecipients > 1
         then Inl (BadRequest (''Internal mail can only target one specific user or '' @
           ''*@redbox.cx broadcast''))
         else if \<not> internal_address toAddress
         then Inl (BadRequest (''Internal mail can only be sent to *@redbox.cx or '' @
           ''username@redbox.cx''))
         else
           (let localPart = to_lower (hd (split_on (\<lambda>c. c = CHR ''@'') toAddress)) in
            Inr \<lparr>tg_toAddress = toAddress,
              tg_targetType = (if localPart = ''*'' then BROADCAST else TO_USER),
              tg_targetUsername = (if localPart = ''*'' then None else Some localPart)\<rparr>))"

definition resolveRecipientUsers :: "db \<Rightarrow> mail_target \<Rightarrow> http_error + user list" where
  "resolveRecipientUsers d target =
     (if tg_targetType target = BROADCAST
      then Inr (sort_key user_createdAt (filter (\<lambda>u. user_status u \<noteq> DELETED) (users d)))
      else
        (case find (\<lambda>u. Some (user_username u) = tg_targetUsername target \<and> user_status u \<noteq> DELETED)
           (users d) of
           None \<Rightarrow> Inl (NotFound ''Recipient user not found'')
         | Some u \<Rightarrow> Inr [u]))"

section \<open>Shared attachments\<close>

definition MAX_INTERNAL_MAIL_ATTACHMENTS :: nat where
  "MAX_INTERNAL_MAIL_ATTACHMENTS = 10"

definition MAX_INTERNAL_MAIL_ATTACHMENT_SIZE :: nat where
  "MAX_INTERNAL_MAIL_ATTACHMENT_SIZE = 35 * 1024 * 1024"

text \<open>Name, size, type and storage key.\<close>

type_synonym stored_attachment = "string \<times> nat \<times> string \<times> string"

definition stored_key :: "stored_attachment \<Rightarrow> string" where
  "stored_key a = snd (snd (snd a))"

fun deleteStoredAttachments ::
    "('r, 's) platform \<Rightarrow> stored_attachment list \<Rightarrow> ('r, 's) world \<Rightarrow> ('r, 's) world" where
  "deleteStoredAttachments P [] w = w"
| "deleteStoredAttachments P (a # as) w =
     deleteStoredAttachments P as (deleteStorageObjectByKey P (stored_key a) w)"

text \<open>The loop: what is stored when it stops, and why it stops.\<close>

fun store_uploads ::
    "('r, 's) platform \<Rightarrow> attachment_input list \<Rightarrow> stored_attachment list \<Rightarrow> ('r, 's) world \<Rightarrow>
     (http_error + unit) \<times> stored_attachment list \<times> ('r, 's) world" where
  "store_uploads P [] stored w = (Inr (), stored, w)"
| "store_uploads P (a # as) stored w =
     (if ai_size a > MAX_INTERNAL_MAIL_ATTACHMENT_SIZE
      then (Inl (BadRequest ''Attachment can't be larger than 35MB''), stored, w)
      else
        (case storeSharedInternalAttachment P a w of
           (Inl e, w1) \<Rightarrow> (Inl e, stored, w1)
         | (Inr s, w1) \<Rightarrow> store_uploads P as (stored @ [s]) w1))"

definition storeUploadedAttachments ::
    "('r, 's) platform \<Rightarrow> attachment_input list \<Rightarrow> ('r, 's) world \<Rightarrow>
     (stored_attachment list, ('r, 's) world) outcome" where
  "storeUploadedAttachments P uploaded w =
     (if length uploaded > MAX_INTERNAL_MAIL_ATTACHMENTS
      then (Inl (BadRequest ''Internal mail can't have more than 10 attachments''), w)
      else
        (case store_uploads P uploaded [] w of
           (Inl e, stored, w1) \<Rightarrow> (Inl e, deleteStoredAttachments P stored w1)
         | (Inr _, stored, w1) \<Rightarrow> (Inr stored, w1)))"

section \<open>Sending\<close>

text \<open>The attachment rows: those the request only describes, then those that were stored.\<close>

definition attachmentCreateData ::
    "send_mail_dto \<Rightarrow> stored_attachment list \<Rightarrow> (string \<times> nat \<times> string \<times> string option) list" where
  "attachmentCreateData dto stored =
     map (\<lambda>a. (ma_name a, ma_size a, ma_type a, None))
       (case sm_attachments dto of None \<Rightarrow> [] | Some as \<Rightarrow> as) @
     map (\<lambda>(n, s, t, k). (n, s, t, Some k)) stored"

fun createInternalAttachments ::
    "('r, 's) platform \<Rightarrow> string \<Rightarrow> (string \<times> nat \<times> string \<times> string option) list \<Rightarrow>
     ('r, 's) world \<Rightarrow> ('r, 's) world" where
  "createInternalAttachments P mailId [] w = w"
| "createInternalAttachments P mailId ((n, s, t, k) # rows) w =
     (let (i, w1) = randomUUID P w;
          row = \<lparr>iatt_id = i, iatt_internalMailId = mailId, iatt_name = n, iatt_size = s,
            iatt_type = t, iatt_storageKey = k, iatt_createdAt = now w\<rparr>
      in createInternalAttachments P mailId rows
           (w1\<lparr>db := (db w1)\<lparr>internalAttachments := internalAttachments (db w1) @ [row]\<rparr>\<rparr>))"

definition createInternalMail ::
    "('r, 's) platform \<Rightarrow> string \<Rightarrow> mail_sender \<Rightarrow> mail_target \<Rightarrow> send_mail_dto \<Rightarrow>
     (string \<times> nat \<times> string \<times> string option) list \<Rightarrow> ('r, 's) world \<Rightarrow> string \<times> ('r, 's) world" where
  "createInternalMail P adminUserId sender target dto rows w =
     (let (i, w1) = randomUUID P w;
          row = \<lparr>imail_id = i, imail_createdByAdminUserId = Some adminUserId,
            imail_senderId = ms_id sender, imail_senderAddress = ms_address sender,
            imail_senderLabel = ms_label sender, imail_toAddress = tg_toAddress target,
            imail_targetType = tg_targetType target, imail_targetUsername = tg_targetUsername target,
            imail_subject = sm_subject dto, imail_body = sm_body dto, imail_isHtml = sm_isHtml dto,
            imail_template = sm_template dto, imail_createdAt = now w, imail_recalledAt = None,
            imail_recallReason = None, imail_recalledByAdminUserId = None, imail_deletedAt = None,
            imail_deleteReason = None, imail_deletedByAdminUserId = None\<rparr>
      in (i, createInternalAttachments P i rows
               (w1\<lparr>db := (db w1)\<lparr>internalMails := internalMails (db w1) @ [row]\<rparr>\<rparr>)))"

definition createDelivery ::
    "('r, 's) platform \<Rightarrow> string \<Rightarrow> user \<Rightarrow> string \<Rightarrow> ('r, 's) world \<Rightarrow> ('r, 's) world" where
  "createDelivery P internalMailId u mailId w =
     (let (i, w1) = randomUUID P w;
          row = \<lparr>dlv_id = i, dlv_internalMailId = internalMailId, dlv_userId = user_id u,
            dlv_mailId = Some mailId, dlv_deliveredAt = now w, dlv_recalledAt = None\<rparr>
      in w1\<lparr>db := (db w1)\<lparr>deliveries := deliveries (db w1) @ [row]\<rparr>\<rparr>)"

text \<open>The loop over the recipients: its result, the ids delivered so far and the events.\<close>

fun deliver_all ::
    "('r, 's) platform \<Rightarrow> string \<Rightarrow> string \<Rightarrow> send_mail_dto \<Rightarrow> user list \<Rightarrow> ('r, 's) world \<Rightarrow>
     (http_error + unit) \<times> string list \<times> pushes \<times> ('r, 's) world" where
  "deliver_all P internalMailId header dto [] w = (Inr (), [], [], w)"
| "deliver_all P internalMailId header dto (u # us) w =
     (case createInternalInboxMail P u header (sm_subject dto) (sm_body dto) w of
        (Inl e, w1) \<Rightarrow> (Inl e, [], [], w1)
      | (Inr (mailId, events), w1) \<Rightarrow>
          (let (r, ids, more_events, w2) =
                 deliver_all P internalMailId header dto us (createDelivery P internalMailId u mailId w1)
           in (r, mailId # ids, events @ more_events, w2)))"

fun delete_delivered ::
    "('r, 's) platform \<Rightarrow> string option \<Rightarrow> string option \<Rightarrow> string list \<Rightarrow> ('r, 's) world \<Rightarrow>
     pushes \<times> ('r, 's) world" where
  "delete_delivered P eventType reason [] w = ([], w)"
| "delete_delivered P eventType reason (mailId # ids) w =
     (let (r, w1) = deleteMailRecordById P mailId False eventType reason w;
          events = (case r of Inl _ \<Rightarrow> [] | Inr (_, evs) \<Rightarrow> evs);
          (more_events, w2) = delete_delivered P eventType reason ids w1
      in (events @ more_events, w2))"

definition deleteInternalMail :: "string \<Rightarrow> ('r, 's) world \<Rightarrow> ('r, 's) world" where
  "deleteInternalMail i w = w\<lparr>db := delete_internalMails (\<lambda>m. imail_id m = i) (db w)\<rparr>"

fun target_name_of :: "InternalMailTargetType \<Rightarrow> string" where
  "target_name_of BROADCAST = ''broadcast''"
| "target_name_of TO_USER = ''user''"

record send_answer =
  sa_mailId :: string
  sa_toAddress :: string
  sa_recipientCount :: nat
  sa_attachmentCount :: nat
  sa_sharedAttachmentCount :: nat
  sa_isBroadcast :: bool

text \<open>Both \<open>catch\<close> blocks of a failed delivery: the copies, the mail, again the copies (which are
  gone), the stored attachments, again the mail.\<close>

definition undo_send ::
    "('r, 's) platform \<Rightarrow> string \<Rightarrow> string list \<Rightarrow> stored_attachment list \<Rightarrow> ('r, 's) world \<Rightarrow>
     pushes \<times> ('r, 's) world" where
  "undo_send P internalMailId ids stored w =
     (let (events, w1) = delete_delivered P None None ids w;
          w2 = deleteInternalMail internalMailId w1;
          (again, w3) = delete_delivered P None None ids w2;
          w4 = deleteStoredAttachments P stored w3
      in (events @ again, deleteInternalMail internalMailId w4))"

definition sendMail ::
    "('r, 's) platform \<Rightarrow> string \<Rightarrow> send_mail_dto \<Rightarrow> attachment_input list \<Rightarrow> ('r, 's) world \<Rightarrow>
     (http_error + send_answer) \<times> pushes \<times> ('r, 's) world" where
  "sendMail P adminUserId dto uploaded w =
     (case findSenderOrThrow (sm_senderId dto) of
        Inl e \<Rightarrow> (Inl e, [], w)
      | Inr sender \<Rightarrow>
     (case resolveTargetAddress dto of
        Inl e \<Rightarrow> (Inl e, [], w)
      | Inr target \<Rightarrow>
     (case resolveRecipientUsers (db w) target of
        Inl e \<Rightarrow> (Inl e, [], w)
      | Inr recipients \<Rightarrow>
          if recipients = []
          then (Inl (BadRequest ''No recipients available for this internal mail''), [], w)
          else
            (case storeUploadedAttachments P uploaded w of
               (Inl e, w1) \<Rightarrow> (Inl e, [], w1)
             | (Inr stored, w1) \<Rightarrow>
                 (let rows = attachmentCreateData dto stored;
                      (internalMailId, w2) = createInternalMail P adminUserId sender target dto rows w1;
                      (r, ids, events, w3) =
                        deliver_all P internalMailId (buildSenderHeader sender) dto recipients w2
                  in case r of
                       Inl e \<Rightarrow>
                         (let (undone, w4) = undo_send P internalMailId ids stored w3
                          in (Inl e, events @ undone, w4))
                     | Inr _ \<Rightarrow>
                         (Inr \<lparr>sa_mailId = internalMailId, sa_toAddress = tg_toAddress target,
                            sa_recipientCount = length recipients, sa_attachmentCount = length rows,
                            sa_sharedAttachmentCount = length stored,
                            sa_isBroadcast = (tg_targetType target = BROADCAST)\<rparr>,
                          events,
                          w3\<lparr>db := admin_log (now w3) adminUserId None ''internal_mail_sent''
                            (''Internal mail sent to '' @ tg_toAddress target)
                            (JObj [(''internalMailId'', JStr internalMailId),
                              (''toAddress'', JStr (tg_toAddress target)),
                              (''targetType'', JStr (target_name_of (tg_targetType target))),
                              (''recipientCount'', JNum (int (length recipients))),
                              (''attachmentCount'', JNum (int (length rows))),
                              (''sharedAttachmentCount'', JNum (int (length stored)))])
                            (db w3)\<rparr>))))))"

section \<open>Recall and deletion\<close>

definition admin_mail_not_found :: http_error where
  "admin_mail_not_found = NotFound ''Mail not found''"

definition findInternalMailOrThrow :: "db \<Rightarrow> string \<Rightarrow> http_error + internalMail" where
  "findInternalMailOrThrow d mailId =
     (case find (\<lambda>m. imail_id m = mailId) (internalMails d) of
        None \<Rightarrow> Inl admin_mail_not_found | Some m \<Rightarrow> Inr m)"

definition already_deleted :: http_error where
  "already_deleted = BadRequest ''Mail has already been deleted''"

text \<open>The ids are read first; a copy its owner has deleted is tied to no mail any more.\<close>

definition delivered_ids :: "db \<Rightarrow> string \<Rightarrow> string list" where
  "delivered_ids d internalMailId =
     map (\<lambda>v. the (dlv_mailId v))
       (filter (\<lambda>v. dlv_internalMailId v = internalMailId \<and> truthy (dlv_mailId v)) (deliveries d))"

definition recallDeliveredInboxCopies ::
    "('r, 's) platform \<Rightarrow> string \<Rightarrow> ('r, 's) world \<Rightarrow> nat \<times> pushes \<times> ('r, 's) world" where
  "recallDeliveredInboxCopies P internalMailId w =
     (let ids = delivered_ids (db w) internalMailId;
          (events, w1) = delete_delivered P (Some ''mail.recalled'')
            (Some ''Internal mail recalled by admin'') ids w
      in (length ids, events, w1))"

definition mark_recalled :: "string \<Rightarrow> time \<Rightarrow> db \<Rightarrow> db" where
  "mark_recalled internalMailId t d =
     d\<lparr>deliveries := update_where
        (\<lambda>v. dlv_internalMailId v = internalMailId \<and> dlv_recalledAt v = None)
        (\<lambda>v. v\<lparr>dlv_recalledAt := Some t\<rparr>) (deliveries d)\<rparr>"

definition recall_meta :: "internalMail \<Rightarrow> nat \<Rightarrow> json" where
  "recall_meta mail recalledCount =
     JObj [(''internalMailId'', JStr (imail_id mail)), (''toAddress'', JStr (imail_toAddress mail)),
       (''targetType'', JStr (target_name_of (imail_targetType mail))),
       (''recalledCount'', JNum (int recalledCount))]"

definition set_internal :: "string \<Rightarrow> (internalMail \<Rightarrow> internalMail) \<Rightarrow> db \<Rightarrow> db" where
  "set_internal i f d =
     d\<lparr>internalMails := update_where (\<lambda>m. imail_id m = i) f (internalMails d)\<rparr>"

definition recallMail ::
    "('r, 's) platform \<Rightarrow> string \<Rightarrow> string \<Rightarrow> string \<Rightarrow> ('r, 's) world \<Rightarrow>
     (http_error + nat) \<times> pushes \<times> ('r, 's) world" where
  "recallMail P adminUserId mailId reason w =
     (case findInternalMailOrThrow (db w) mailId of
        Inl e \<Rightarrow> (Inl e, [], w)
      | Inr mail \<Rightarrow>
          if imail_deletedAt mail \<noteq> None then (Inl already_deleted, [], w)
          else if imail_recalledAt mail \<noteq> None
          then (Inl (BadRequest ''Mail has already been recalled''), [], w)
          else
            (let (recalledCount, events, w1) = recallDeliveredInboxCopies P (imail_id mail) w;
                 d1 = set_internal (imail_id mail)
                   (\<lambda>m. m\<lparr>imail_recalledAt := Some (now w1), imail_recallReason := Some reason,
                          imail_recalledByAdminUserId := Some adminUserId\<rparr>) (db w1);
                 d2 = mark_recalled (imail_id mail) (now w1) d1;
                 d3 = admin_log (now w1) adminUserId None ''internal_mail_recalled'' reason
                   (recall_meta mail recalledCount) d2
             in (Inr recalledCount, events, w1\<lparr>db := d3\<rparr>)))"

text \<open>The objects of the shared attachments; the rows keep their keys.\<close>

definition deleteSharedAttachmentObjects ::
    "('r, 's) platform \<Rightarrow> string \<Rightarrow> ('r, 's) world \<Rightarrow> ('r, 's) world" where
  "deleteSharedAttachmentObjects P internalMailId w =
     fold (deleteStorageObjectByKey P)
       (map (\<lambda>a. the (iatt_storageKey a))
         (filter (\<lambda>a. iatt_internalMailId a = internalMailId \<and> truthy (iatt_storageKey a))
           (internalAttachments (db w)))) w"

definition deleteReason :: string where
  "deleteReason = ''Deleted by admin''"

definition admin_deleteMail ::
    "('r, 's) platform \<Rightarrow> string \<Rightarrow> string \<Rightarrow> ('r, 's) world \<Rightarrow>
     (http_error + nat) \<times> pushes \<times> ('r, 's) world" where
  "admin_deleteMail P adminUserId mailId w =
     (case findInternalMailOrThrow (db w) mailId of
        Inl e \<Rightarrow> (Inl e, [], w)
      | Inr mail \<Rightarrow>
          if imail_deletedAt mail \<noteq> None then (Inl already_deleted, [], w)
          else
            (let deletedAt = now w;
                 recalled = imail_recalledAt mail \<noteq> None;
                 (recalledCount, events, w1) =
                   (if recalled then (0, [], w) else recallDeliveredInboxCopies P (imail_id mail) w);
                 d1 = set_internal (imail_id mail)
                   (\<lambda>m. let m1 = m\<lparr>imail_deletedAt := Some deletedAt,
                          imail_deleteReason := Some deleteReason,
                          imail_deletedByAdminUserId := Some adminUserId\<rparr>
                        in if recalled then m1
                           else m1\<lparr>imail_recalledAt := Some deletedAt,
                             imail_recallReason := Some deleteReason,
                             imail_recalledByAdminUserId := Some adminUserId\<rparr>) (db w1);
                 d2 = (if recalled then d1 else mark_recalled (imail_id mail) deletedAt d1);
                 d3 = admin_log (now w1) adminUserId None ''internal_mail_deleted'' deleteReason
                   (recall_meta mail recalledCount) d2
             in (Inr recalledCount, events,
                 deleteSharedAttachmentObjects P (imail_id mail) (w1\<lparr>db := d3\<rparr>))))"

section \<open>Attachments and listing\<close>

definition not_downloadable :: http_error where
  "not_downloadable = NotFound ''Attachment not found or not downloadable''"

text \<open>A key whose object is missing is taken out of the row.\<close>

definition admin_downloadAttachment ::
    "('r, 's) platform \<Rightarrow> string \<Rightarrow> string \<Rightarrow> ('r, 's) world \<Rightarrow>
     (bytes \<times> string \<times> string \<times> nat, ('r, 's) world) outcome" where
  "admin_downloadAttachment P mailId attachmentId w =
     (case find (\<lambda>a. iatt_id a = attachmentId \<and> iatt_internalMailId a = mailId \<and>
         list_ex (\<lambda>m. imail_id m = mailId \<and> imail_deletedAt m = None) (internalMails (db w)))
         (internalAttachments (db w)) of
        None \<Rightarrow> (Inl not_downloadable, w)
      | Some attachment \<Rightarrow>
          if \<not> truthy (iatt_storageKey attachment) then (Inl not_downloadable, w)
          else
            (case downloadStorageObjectByKey P (the (iatt_storageKey attachment)) w of
               (Inl e, w1) \<Rightarrow>
                 (case e of
                    NotFound _ \<Rightarrow>
                      (Inl e, w1\<lparr>db := (db w1)\<lparr>internalAttachments := update_where
                         (\<lambda>a. iatt_id a = attachmentId \<and>
                           iatt_storageKey a = iatt_storageKey attachment)
                         (\<lambda>a. a\<lparr>iatt_storageKey := None\<rparr>) (internalAttachments (db w1))\<rparr>\<rparr>)
                  | _ \<Rightarrow> (Inl e, w1))
             | (Inr buffer, w1) \<Rightarrow>
                 (Inr (buffer, iatt_name attachment, iatt_type attachment, iatt_size attachment), w1)))"

record admin_attachment_view =
  aav_id :: string
  aav_name :: string
  aav_size :: nat
  aav_type :: string
  aav_downloadUrl :: "string option"
  aav_isDownloadable :: bool

record admin_mail_view =
  amv_mail :: internalMail
  amv_sender :: mail_sender
  amv_recipients :: "string list"
  amv_isBroadcast :: bool
  amv_attachments :: "admin_attachment_view list"
  amv_canRecall :: bool
  amv_recipientCount :: nat
  amv_activeRecipientCount :: nat
  amv_recalledCount :: nat
  amv_targetType :: string

definition toAdminMailRecord :: "db \<Rightarrow> internalMail \<Rightarrow> admin_mail_view" where
  "toAdminMailRecord d mail =
     (let mine = filter (\<lambda>v. dlv_internalMailId v = imail_id mail) (deliveries d);
          attachments = sort_key iatt_createdAt
            (filter (\<lambda>a. iatt_internalMailId a = imail_id mail) (internalAttachments d))
      in \<lparr>amv_mail = mail,
          amv_sender = toAdminMailSender (imail_senderId mail) (imail_senderAddress mail)
            (imail_senderLabel mail),
          amv_recipients = [imail_toAddress mail],
          amv_isBroadcast = (imail_targetType mail = BROADCAST),
          amv_attachments = map (\<lambda>a.
            \<lparr>aav_id = iatt_id a, aav_name = iatt_name a, aav_size = iatt_size a,
             aav_type = iatt_type a,
             aav_downloadUrl =
               (if truthy (iatt_storageKey a)
                then Some (''/admin/mails/'' @ imail_id mail @ ''/attachments/'' @ iatt_id a) else None),
             aav_isDownloadable = truthy (iatt_storageKey a)\<rparr>) attachments,
          amv_canRecall = (imail_recalledAt mail = None \<and> imail_deletedAt mail = None),
          amv_recipientCount = length mine,
          amv_activeRecipientCount =
            count_where (\<lambda>v. dlv_recalledAt v = None \<and> dlv_mailId v \<noteq> None) mine,
          amv_recalledCount = count_where (\<lambda>v. dlv_recalledAt v \<noteq> None) mine,
          amv_targetType = target_name_of (imail_targetType mail)\<rparr>)"

record admin_mails_query =
  amq_limit :: nat
  amq_offset :: nat
  amq_senderId :: "string option"
  amq_search :: "string option"
  amq_isBroadcast :: "bool option"

definition admin_mails_where ::
    "('r, 's) platform \<Rightarrow> admin_mails_query \<Rightarrow> internalMail \<Rightarrow> bool" where
  "admin_mails_where P q m \<longleftrightarrow> imail_deletedAt m = None \<and>
     (truthy (amq_senderId q) \<longrightarrow> Some (imail_senderId m) = amq_senderId q) \<and>
     (truthy (amq_search q) \<longrightarrow>
       (let searchValue = trim (the (amq_search q)) in
        db_contains P searchValue (imail_subject m) \<or> db_contains P searchValue (imail_body m) \<or>
        db_contains P searchValue (imail_toAddress m) \<or>
        db_contains P searchValue (imail_senderLabel m))) \<and>
     (case amq_isBroadcast q of
        None \<Rightarrow> True
      | Some b \<Rightarrow> imail_targetType m = (if b then BROADCAST else TO_USER))"

definition getMails ::
    "('r, 's) platform \<Rightarrow> admin_mails_query \<Rightarrow> db \<Rightarrow> admin_mail_view listing" where
  "getMails P q d =
     list_page (amq_limit q) (amq_offset q) (toAdminMailRecord d)
       (order_desc imail_createdAt (filter (admin_mails_where P q) (internalMails d)))"

end
