(* ===== verification/Admin_Mail_Properties.thy ===== *)
theory Admin_Mail_Properties
  imports Admin_Mails Mail_Actions
begin

text \<open>
  Internal mail: a send delivers to every recipient or leaves nothing behind, a recall takes back
  every copy that is left, and whatever the administration does is a run of the mailbox.
\<close>

section \<open>Copies\<close>

definition internal_input :: "user \<Rightarrow> string \<Rightarrow> string \<Rightarrow> string \<Rightarrow> mail_input" where
  "internal_input u sender subject body =
     \<lparr>mi_from = sender, mi_to = user_username u @ ''@redbox.cx'', mi_subject = subject,
      mi_content = body, mi_attachments = []\<rparr>"

context object_store
begin

lemma createInternal_cases:
  assumes "store P = S" "createInternalInboxMail P u sender subject body w = (r, w')"
  obtains (refused) st where "r = Inl (Thrown ''PutObject'')" "w' = w\<lparr>objects := st, draws := draws w + 3\<rparr>"
      "\<And>b k. b \<noteq> mailsBucket \<or> k \<noteq> mail_key P (draws w) \<Longrightarrow> obj st b k = obj (objects w) b k"
  | (stored) st where "r = Inr (uuid P (draws w + 4),
        [(user_id u, mail_event_of ''mail.created'' [uuid P (draws w + 4)] ''internal'')])"
      "w' = w\<lparr>db := (db w)\<lparr>mails := mails (db w) @ [stored_row P u (internal_input u sender subject body) w]\<rparr>,
         objects := st, draws := draws w + 5\<rparr>"
      "\<And>b k. b \<noteq> mailsBucket \<or> k \<noteq> mail_key P (draws w) \<Longrightarrow> obj st b k = obj (objects w) b k"
proof -
  obtain r1 w1 where s: "storeMailboxMailForUser P u (internal_input u sender subject body) w = (r1, w1)"
    by fastforce
  have run: "(r, w') = (case (r1, w1) of
      (Inl e, w1) \<Rightarrow> (Inl e, w1)
    | (Inr row, w1) \<Rightarrow>
        (Inr (mail_id row, [(user_id u, mail_event_of ''mail.created'' [mail_id row] ''internal'')]), w1))"
    using assms(2) s by (simp add: createInternalInboxMail_def internal_input_def)
  have keys: "map ai_storageKey (mi_attachments (internal_input u sender subject body)) = map Some []"
    "[] \<notin> set []" "distinct (mail_key P (draws w) # [])"
    by (simp_all add: internal_input_def)
  from assms(1) keys s show thesis
  proof (cases rule: storeMail_cases)
    case (refused st)
    then show thesis using run that(1) [of st] by auto
  next
    case (stored st)
    then show thesis using run that(2) [of st] by (auto simp: stored_db_def internal_input_def)
  qed
qed

end

text \<open>The copies and the delivery rows of a loop over recipients; each takes six draws.\<close>

fun copies ::
    "('r, 's) platform \<Rightarrow> string \<Rightarrow> send_mail_dto \<Rightarrow> user list \<Rightarrow> ('r, 's) world \<Rightarrow> mail_row list" where
  "copies P header dto [] w = []"
| "copies P header dto (u # us) w =
     stored_row P u (internal_input u header (sm_subject dto) (sm_body dto)) w #
     copies P header dto us (w\<lparr>draws := draws w + 6\<rparr>)"

fun delivery_rows ::
    "('r, 's) platform \<Rightarrow> string \<Rightarrow> user list \<Rightarrow> ('r, 's) world \<Rightarrow> internalMailDelivery list" where
  "delivery_rows P internalMailId [] w = []"
| "delivery_rows P internalMailId (u # us) w =
     \<lparr>dlv_id = uuid P (draws w + 5), dlv_internalMailId = internalMailId, dlv_userId = user_id u,
      dlv_mailId = Some (uuid P (draws w + 4)), dlv_deliveredAt = now w, dlv_recalledAt = None\<rparr> #
     delivery_rows P internalMailId us (w\<lparr>draws := draws w + 6\<rparr>)"

lemma copies_cong:
  assumes "draws w = draws w'" "now w = now w'"
  shows "copies P header dto us w = copies P header dto us w'"
  using assms by (induction us arbitrary: w w') (auto simp: stored_row_def)

lemma delivery_rows_cong:
  assumes "draws w = draws w'" "now w = now w'"
  shows "delivery_rows P i us w = delivery_rows P i us w'"
  using assms by (induction us arbitrary: w w') auto

lemma copies_ids:
  "mail_id ` set (copies P header dto us w) \<subseteq> uuid P ` {draws w..<draws w + 6 * length us}"
proof (induction us arbitrary: w)
  case (Cons u us)
  have "uuid P (draws w + 4) \<in> uuid P ` {draws w..<draws w + 6 * length (u # us)}" by simp
  moreover have "uuid P ` {draws w + 6..<draws w + 6 + 6 * length us} \<subseteq>
      uuid P ` {draws w..<draws w + 6 * length (u # us)}" by auto
  ultimately show ?case using Cons [of "w\<lparr>draws := draws w + 6\<rparr>"] by auto
qed simp

lemma copies_simps:
  "map mail_userId (copies P header dto us w) = map user_id us"
  "length (copies P header dto us w) = length us"
  "m \<in> set (copies P header dto us w) \<Longrightarrow> mail_subject m = sm_subject dto \<and> mail_from m = header"
  by (induction us arbitrary: w) (auto simp: stored_row_def internal_input_def)

lemma delivery_rows_simps:
  "map dlv_userId (delivery_rows P i us w) = map user_id us"
  "map dlv_mailId (delivery_rows P i us w) = map (\<lambda>m. Some (mail_id m)) (copies P header dto us w)"
  "v \<in> set (delivery_rows P i us w) \<Longrightarrow> dlv_internalMailId v = i \<and> dlv_recalledAt v = None"
  by (induction us arbitrary: w) auto

definition created_event :: "mail_row \<Rightarrow> string \<times> mail_event" where
  "created_event m = (mail_userId m, mail_event_of ''mail.created'' [mail_id m] ''internal'')"

context object_store
begin

lemma deliver_all_cases:
  assumes "store P = S" "deliver_all P i header dto us w = (r, ids, evs, w')"
  shows "\<exists>k st. k \<le> length us \<and> (r = Inr () \<longleftrightarrow> k = length us) \<and>
    (\<forall>e. r = Inl e \<longrightarrow> e = Thrown ''PutObject'') \<and>
    ids = map mail_id (copies P header dto (take k us) w) \<and>
    evs = map created_event (copies P header dto (take k us) w) \<and>
    w' = w\<lparr>db := (db w)\<lparr>mails := mails (db w) @ copies P header dto (take k us) w,
            deliveries := deliveries (db w) @ delivery_rows P i (take k us) w\<rparr>,
           objects := st, draws := draws w'\<rparr> \<and>
    draws w + 6 * k \<le> draws w' \<and>
    (\<forall>b key. b \<noteq> mailsBucket \<or> key \<notin> mail_key P ` {draws w..<draws w'} \<longrightarrow>
       obj st b key = obj (objects w) b key)"
  using assms(2)
proof (induction us arbitrary: w r ids evs)
  case Nil
  then show ?case by (intro exI [of _ 0] exI [of _ "objects w"]) auto
next
  case (Cons u us)
  obtain r1 w1 where c: "createInternalInboxMail P u header (sm_subject dto) (sm_body dto) w = (r1, w1)"
    by fastforce
  from assms(1) c show ?case
  proof (cases rule: createInternal_cases)
    case (refused st)
    have "mail_key P (draws w) \<in> mail_key P ` {draws w..<draws w + 3}" by simp
    then have "obj st b key = obj (objects w) b key"
      if "b \<noteq> mailsBucket \<or> key \<notin> mail_key P ` {draws w..<draws w + 3}" for b key
      using refused(3) [of b key] that by blast
    moreover have "r = Inl (Thrown ''PutObject'')" "ids = []" "evs = []" "w' = w\<lparr>objects := st, draws := draws w + 3\<rparr>"
      using Cons.prems c refused(1,2) by simp_all
    ultimately show ?thesis
      by (intro exI [of _ 0] exI [of _ st]) simp
  next
    case (stored st)
    define w2 where "w2 = createDelivery P i u (uuid P (draws w + 4)) w1"
    have w2: "w2 = w\<lparr>db := (db w)\<lparr>mails := mails (db w) @
          [stored_row P u (internal_input u header (sm_subject dto) (sm_body dto)) w],
        deliveries := deliveries (db w) @ [\<lparr>dlv_id = uuid P (draws w + 5), dlv_internalMailId = i,
          dlv_userId = user_id u, dlv_mailId = Some (uuid P (draws w + 4)), dlv_deliveredAt = now w,
          dlv_recalledAt = None\<rparr>]\<rparr>, objects := st, draws := draws w + 6\<rparr>"
      using stored(2) by (simp add: w2_def createDelivery_def randomUUID_def)
    obtain r2 ids2 evs2 where rest: "deliver_all P i header dto us w2 = (r2, ids2, evs2, w')"
      "r = r2" "ids = uuid P (draws w + 4) # ids2"
      "evs = (user_id u, mail_event_of ''mail.created'' [uuid P (draws w + 4)] ''internal'') # evs2"
      using Cons.prems c stored(1) by (auto simp: w2_def [symmetric] Let_def split: prod.splits)
    have cong: "copies P header dto us' w2 = copies P header dto us' (w\<lparr>draws := draws w + 6\<rparr>)"
      "delivery_rows P i us' w2 = delivery_rows P i us' (w\<lparr>draws := draws w + 6\<rparr>)" for us'
      by (rule copies_cong delivery_rows_cong; simp add: w2)+
    from Cons.IH [OF rest(1)] obtain k st2 where IH: "k \<le> length us" "r2 = Inr () \<longleftrightarrow> k = length us"
      "\<forall>e. r2 = Inl e \<longrightarrow> e = Thrown ''PutObject''"
      "ids2 = map mail_id (copies P header dto (take k us) w2)"
      "evs2 = map created_event (copies P header dto (take k us) w2)"
      "w' = w2\<lparr>db := (db w2)\<lparr>mails := mails (db w2) @ copies P header dto (take k us) w2,
            deliveries := deliveries (db w2) @ delivery_rows P i (take k us) w2\<rparr>,
           objects := st2, draws := draws w'\<rparr>"
      "draws w2 + 6 * k \<le> draws w'"
      "\<forall>b key. b \<noteq> mailsBucket \<or> key \<notin> mail_key P ` {draws w2..<draws w'} \<longrightarrow>
         obj st2 b key = obj (objects w2) b key"
      by blast
    have "obj st2 b key = obj (objects w) b key"
      if "b \<noteq> mailsBucket \<or> key \<notin> mail_key P ` {draws w..<draws w'}" for b key
    proof -
      have "draws w < draws w'" using IH(7) by (simp add: w2)
      then have "mail_key P (draws w) \<in> mail_key P ` {draws w..<draws w'}" by simp
      moreover have "mail_key P ` {draws w2..<draws w'} \<subseteq> mail_key P ` {draws w..<draws w'}"
        by (auto simp: w2)
      ultimately have "b \<noteq> mailsBucket \<or> key \<notin> mail_key P ` {draws w2..<draws w'}"
        "b \<noteq> mailsBucket \<or> key \<noteq> mail_key P (draws w)"
        using that by auto
      then show ?thesis using IH(8) stored(3) by (simp add: w2)
    qed
    moreover have "w' = w\<lparr>db := (db w)\<lparr>mails := mails (db w) @ copies P header dto (take (Suc k) (u # us)) w,
            deliveries := deliveries (db w) @ delivery_rows P i (take (Suc k) (u # us)) w\<rparr>,
           objects := st2, draws := draws w'\<rparr>"
      using IH(6) unfolding cong by (simp add: w2)
    ultimately show ?thesis
      using IH(1-5,7) rest(2-4) cong
      by (intro exI [of _ "Suc k"] exI [of _ st2]) (simp add: w2 created_event_def)
  qed
qed

end

section \<open>Deletions\<close>

lemma delete_record_db:
  "db (snd (deleteMailRecordById P i False ev why w)) = delete_mails (\<lambda>m. mail_id m = i) (db w)"
proof (cases "mail_of (db w) i")
  case None
  then have "delete_mails (\<lambda>m. mail_id m = i) (db w) = db w"
    by (intro delete_mails_none) (auto simp: mail_of_def find_None_iff)
  then show ?thesis using None by (simp add: deleteMailRecordById_def)
qed (simp add: deleteMailRecordById_def Let_def)

lemma delete_delivered_db:
  "db (snd (delete_delivered P ev why ids w)) = delete_mails (\<lambda>m. mail_id m \<in> set ids) (db w)"
proof (induction ids arbitrary: w)
  case Nil
  then show ?case by (simp add: delete_mails_none)
next
  case (Cons i ids)
  then show ?case
    by (simp add: split_beta Let_def delete_record_db delete_mails_twice)
qed

lemma delete_record_frame:
  "draws (snd (deleteMailRecordById P i b ev why w)) = draws w"
  "now (snd (deleteMailRecordById P i b ev why w)) = now w"
  "redis (snd (deleteMailRecordById P i b ev why w)) = redis w"
  by (simp_all add: deleteMailRecordById_def delete_mail_objects_def Let_def split: option.split)

lemma delete_delivered_frame:
  "draws (snd (delete_delivered P ev why ids w)) = draws w"
  "now (snd (delete_delivered P ev why ids w)) = now w"
  by (induction ids arbitrary: w) (simp_all add: split_beta Let_def delete_record_frame)

lemma deleteStored_frame [simp]:
  "db (deleteStoredAttachments P as w) = db w" "draws (deleteStoredAttachments P as w) = draws w"
  "now (deleteStoredAttachments P as w) = now w"
  by (induction as arbitrary: w) (simp_all add: deleteStorageObjectByKey_def)

text \<open>The rows of the attachments of an internal mail.\<close>

fun internal_attachment_rows ::
    "('r, 's) platform \<Rightarrow> string \<Rightarrow> (string \<times> nat \<times> string \<times> string option) list \<Rightarrow> nat \<Rightarrow> time \<Rightarrow>
     internalMailAttachment list" where
  "internal_attachment_rows P mailId [] n tm = []"
| "internal_attachment_rows P mailId ((x, s, t, k) # rows) n tm =
     \<lparr>iatt_id = uuid P n, iatt_internalMailId = mailId, iatt_name = x, iatt_size = s, iatt_type = t,
      iatt_storageKey = k, iatt_createdAt = tm\<rparr> # internal_attachment_rows P mailId rows (Suc n) tm"

lemma createInternalAttachments_eq:
  "createInternalAttachments P i rows w = w\<lparr>db := (db w)\<lparr>internalAttachments :=
     internalAttachments (db w) @ internal_attachment_rows P i rows (draws w) (now w)\<rparr>,
     draws := draws w + length rows\<rparr>"
  by (induction rows arbitrary: w rule: list.induct) (auto simp: randomUUID_def split: prod.splits)

lemma internal_attachment_rows_simps:
  "a \<in> set (internal_attachment_rows P i rows n tm) \<Longrightarrow>
     iatt_internalMailId a = i \<and> (\<exists>x s t. (x, s, t, iatt_storageKey a) \<in> set rows)"
  "length (internal_attachment_rows P i rows n tm) = length rows"
  by (induction P i rows n tm rule: internal_attachment_rows.induct) (auto, blast+)

text \<open>Storing the uploads touches no table, and no object but those under keys of its own.\<close>

definition shared_key :: "string \<Rightarrow> bool" where
  "shared_key k \<longleftrightarrow> (\<exists>i. k = ''internal_mail_att_'' @ i @ ''.bin'')"

context object_store
begin

lemma storeShared_cases:
  assumes "store P = S" "storeSharedInternalAttachment P a w = (r, w')"
  shows "\<exists>st. w' = w\<lparr>objects := st, draws := Suc (draws w)\<rparr> \<and>
    (\<forall>b k. b \<noteq> mailsBucket \<or> \<not> shared_key k \<longrightarrow> obj st b k = obj (objects w) b k) \<and>
    (\<forall>s. r = Inr s \<longrightarrow> shared_key (stored_key s))"
proof -
  define key where "key = ''internal_mail_att_'' @ uuid P (draws w) @ ''.bin''"
  obtain r1 w1 where p: "put_object P key (ai_content a) (w\<lparr>draws := Suc (draws w)\<rparr>) = (r1, w1)"
    by fastforce
  have key: "shared_key key" unfolding shared_key_def key_def by blast
  then have ne: "\<not> shared_key k \<Longrightarrow> k \<noteq> key" for k by blast
  have run: "storeSharedInternalAttachment P a w = (case (r1, w1) of (Inl e, w2) \<Rightarrow> (Inl e, w2)
      | (Inr _, w2) \<Rightarrow> (Inr (or_text (ai_filename a) ''attachment'', ai_size a,
          or_text (ai_mimetype a) ''application/octet-stream'', key), w2))"
    unfolding storeSharedInternalAttachment_def randomUUID_def Let_def prod.case key_def [symmetric] p
    by (cases r1) simp_all
  from assms(1) p show ?thesis
  proof (cases rule: put_object_cases)
    case (refused st)
    then have "w' = w\<lparr>objects := st, draws := Suc (draws w)\<rparr>" "r = Inl (Thrown ''PutObject'')"
      using run assms(2) by simp_all
    then show ?thesis using refused(3) ne by (intro exI [of _ st]) auto
  next
    case (accepted st)
    then have "w' = w\<lparr>objects := st, draws := Suc (draws w)\<rparr>" "\<forall>s. r = Inr s \<longrightarrow> shared_key (stored_key s)"
      using run assms(2) key by (auto simp: stored_key_def)
    then show ?thesis using accepted(4) ne by (intro exI [of _ st]) auto
  qed
qed

lemma deleteKey_other:
  assumes "store P = S" "shared_key x" "b \<noteq> mailsBucket \<or> \<not> shared_key k"
  shows "obj (objects (deleteStorageObjectByKey P x w)) b k = obj (objects w) b k"
  using delete_all_other [OF assms(1), of b mailsBucket k "[x]"] assms(2,3)
  by (auto simp: deleteStorageObjectByKey_def)

lemma deleteStored_other:
  assumes "store P = S" "\<forall>s \<in> set ss. shared_key (stored_key s)" "b \<noteq> mailsBucket \<or> \<not> shared_key k"
  shows "obj (objects (deleteStoredAttachments P ss w)) b k = obj (objects w) b k"
  using assms(2) by (induction ss arbitrary: w) (simp_all add: deleteKey_other [OF assms(1) _ assms(3)])

lemma store_uploads_cases:
  assumes "store P = S" "store_uploads P as stored w = (r, out, w')"
    and "\<forall>s \<in> set stored. shared_key (stored_key s)"
  shows "db w' = db w \<and> now w' = now w \<and> draws w \<le> draws w' \<and>
    (\<forall>b k. b \<noteq> mailsBucket \<or> \<not> shared_key k \<longrightarrow> obj (objects w') b k = obj (objects w) b k) \<and>
    (\<forall>s \<in> set out. shared_key (stored_key s)) \<and>
    (r = Inr () \<longrightarrow> length out = length stored + length as)"
  using assms(2,3)
proof (induction as arbitrary: stored w)
  case Nil
  then show ?case by auto
next
  case (Cons a as)
  obtain r1 w1 where s: "storeSharedInternalAttachment P a w = (r1, w1)" by fastforce
  obtain st where st: "w1 = w\<lparr>objects := st, draws := Suc (draws w)\<rparr>"
    "\<forall>b k. b \<noteq> mailsBucket \<or> \<not> shared_key k \<longrightarrow> obj st b k = obj (objects w) b k"
    "\<forall>s. r1 = Inr s \<longrightarrow> shared_key (stored_key s)"
    using storeShared_cases [OF assms(1) s] by blast
  show ?case
  proof (cases "MAX_INTERNAL_MAIL_ATTACHMENT_SIZE < ai_size a")
    case True
    then show ?thesis using Cons.prems by auto
  next
    case False
    show ?thesis
    proof (cases r1)
      case (Inl e)
      then show ?thesis using Cons.prems s st False by auto
    next
      case (Inr x)
      then have run: "store_uploads P as (stored @ [x]) w1 = (r, out, w')"
        using Cons.prems s False by simp
      have "\<forall>s \<in> set (stored @ [x]). shared_key (stored_key s)" using Cons.prems(2) st(3) Inr by auto
      from Cons.IH [OF run this] show ?thesis using st(1,2) by auto
    qed
  qed
qed

lemma storeUploaded_cases:
  assumes "store P = S" "storeUploadedAttachments P as w = (r, w')"
  shows "db w' = db w \<and> now w' = now w \<and> draws w \<le> draws w' \<and>
    (\<forall>b k. b \<noteq> mailsBucket \<or> \<not> shared_key k \<longrightarrow> obj (objects w') b k = obj (objects w) b k) \<and>
    (\<forall>out. r = Inr out \<longrightarrow> (\<forall>s \<in> set out. shared_key (stored_key s)) \<and> length out = length as)"
proof -
  obtain r1 out w1 where s: "store_uploads P as [] w = (r1, out, w1)" by (metis prod_cases3)
  show ?thesis
  proof (cases r1)
    case (Inl e)
    then show ?thesis
      using assms(2) s store_uploads_cases [OF assms(1) s] deleteStored_other [OF assms(1), of out]
      by (auto simp: storeUploadedAttachments_def split: if_splits)
  next
    case (Inr u)
    then show ?thesis using assms(2) s store_uploads_cases [OF assms(1) s]
      by (auto simp: storeUploadedAttachments_def split: if_splits)
  qed
qed

end

end
