(* ===== verification/Internal_Mail_System.thy ===== *)
theory Internal_Mail_System
  imports Admin_Mail_Properties
begin

text \<open>
  Internal mail as a system: the operations of the administration between any steps of the mailbox,
  and the invariant of their tables. Deliveries and attachments belong to an internal mail, a
  delivery points to a mail that is there, and a recalled mail has no copy left.
\<close>

section \<open>The tables\<close>

definition imail_ids :: "db \<Rightarrow> string set" where
  "imail_ids d = imail_id ` set (internalMails d)"

definition mail_ids :: "db \<Rightarrow> string set" where
  "mail_ids d = mail_id ` set (mails d)"

definition delivery_ok :: "db \<Rightarrow> internalMailDelivery \<Rightarrow> bool" where
  "delivery_ok d v \<longleftrightarrow> dlv_internalMailId v \<in> imail_ids d \<and>
     (\<forall>i. dlv_mailId v = Some i \<longrightarrow> i \<in> mail_ids d)"

definition taken_back :: "db \<Rightarrow> string \<Rightarrow> bool" where
  "taken_back d i \<longleftrightarrow> (\<forall>v \<in> set (deliveries d). dlv_internalMailId v = i \<longrightarrow>
     dlv_mailId v = None \<and> dlv_recalledAt v \<noteq> None)"

definition internal_ok :: "('r, 's) platform \<Rightarrow> nat \<Rightarrow> db \<Rightarrow> bool" where
  "internal_ok P n d \<longleftrightarrow> distinct (map imail_id (internalMails d)) \<and> imail_ids d \<subseteq> uuid P ` {..<n} \<and>
     (\<forall>v \<in> set (deliveries d). delivery_ok d v) \<and>
     (\<forall>a \<in> set (internalAttachments d). iatt_internalMailId a \<in> imail_ids d \<and>
       (\<forall>k. iatt_storageKey a = Some k \<longrightarrow> shared_key k)) \<and>
     (\<forall>m \<in> set (internalMails d). (imail_deletedAt m \<noteq> None \<longrightarrow> imail_recalledAt m \<noteq> None) \<and>
       (imail_recalledAt m \<noteq> None \<longrightarrow> taken_back d (imail_id m)))"

definition internal_inv ::
    "('r, 's) platform \<Rightarrow> ('s \<Rightarrow> string \<Rightarrow> string \<Rightarrow> bytes option) \<Rightarrow> ('r, 's) world \<Rightarrow> bool" where
  "internal_inv P obj w \<longleftrightarrow> mail_inv P obj w \<and> internal_ok P (draws w) (db w)"

text \<open>What the foreign keys leave of these tables in a step of another part: a delivery whose mail
  is gone points to nothing, a download may drop the key of an attachment.\<close>

definition unlink :: "string set \<Rightarrow> internalMailDelivery \<Rightarrow> internalMailDelivery" where
  "unlink ids v = (case dlv_mailId v of None \<Rightarrow> v | Some i \<Rightarrow> if i \<in> ids then v else v\<lparr>dlv_mailId := None\<rparr>)"

definition foreign_keys :: "db \<Rightarrow> db \<Rightarrow> bool" where
  "foreign_keys d d' \<longleftrightarrow> internalMails d' = internalMails d \<and>
     (\<forall>a' \<in> set (internalAttachments d'). \<exists>a \<in> set (internalAttachments d).
        iatt_internalMailId a' = iatt_internalMailId a \<and>
        (iatt_storageKey a' = None \<or> iatt_storageKey a' = iatt_storageKey a)) \<and>
     deliveries d' = map (unlink (mail_ids d')) (deliveries d)"

lemma unlink_simps [simp]:
  "dlv_internalMailId (unlink X v) = dlv_internalMailId v" "dlv_recalledAt (unlink X v) = dlv_recalledAt v"
  "dlv_mailId (unlink X v) = Some i \<longleftrightarrow> dlv_mailId v = Some i \<and> i \<in> X"
  by (auto simp: unlink_def split: option.splits)

lemma unlink_None [simp]: "dlv_mailId v = None \<Longrightarrow> unlink X v = v"
  by (simp add: unlink_def)

lemma unlink_keep: "dlv_mailId v = None \<or> the (dlv_mailId v) \<in> X \<Longrightarrow> unlink X v = v"
  by (auto simp: unlink_def split: option.splits)

text \<open>Deleting mails through the mailbox is such a step.\<close>

lemma delete_mails_internal [simp]:
  "internalMails (delete_mails p d) = internalMails d"
  "internalAttachments (delete_mails p d) = internalAttachments d"
  by (simp_all add: delete_mails_def Let_def)

lemma delete_mails_foreign:
  assumes "distinct (map mail_id (mails d))" "\<forall>v \<in> set (deliveries d). delivery_ok d v"
  shows "foreign_keys d (delete_mails p d)"
proof -
  have inj: "inj_on mail_id (set (mails d))" using assms(1) by (simp add: distinct_map)
  have gone: "i \<in> set (map mail_id (filter p (mails d))) \<longleftrightarrow> i \<notin> mail_ids (delete_mails p d)" if "i \<in> mail_ids d" for i
    using that inj by (auto simp: mail_ids_def tbl dest: inj_onD)
  have each: "(if case dlv_mailId v of None \<Rightarrow> False | Some i \<Rightarrow> i \<in> set (map mail_id (filter p (mails d)))
      then v\<lparr>dlv_mailId := None\<rparr> else v) = unlink (mail_ids (delete_mails p d)) v"
    if "v \<in> set (deliveries d)" for v
  proof (cases "dlv_mailId v")
    case (Some i)
    then show ?thesis using that assms(2) gone [of i] by (simp add: unlink_def delivery_ok_def)
  qed (simp add: unlink_def)
  have rows: "deliveries (delete_mails p d) = update_where
      (\<lambda>v. case dlv_mailId v of None \<Rightarrow> False | Some i \<Rightarrow> i \<in> set (map mail_id (filter p (mails d))))
      (\<lambda>v. v\<lparr>dlv_mailId := None\<rparr>) (deliveries d)"
    by (simp only: delete_mails_def Let_def) simp
  have "deliveries (delete_mails p d) = map (unlink (mail_ids (delete_mails p d))) (deliveries d)"
    unfolding rows update_where_def by (rule map_cong [OF refl each])
  then show ?thesis by (auto simp: foreign_keys_def)
qed

lemma foreign_keys_ok:
  assumes "internal_ok P n d" "foreign_keys d d'" "n \<le> n'"
  shows "internal_ok P n' d'"
proof -
  have ids: "imail_ids d' = imail_ids d" using assms(2) by (simp add: foreign_keys_def imail_ids_def)
  have "uuid P ` {..<n} \<subseteq> uuid P ` {..<n'}" using assms(3) by auto
  moreover have "delivery_ok d' v'" if "v' \<in> set (deliveries d')" for v'
  proof -
    obtain v where "v \<in> set (deliveries d)" "v' = unlink (mail_ids d') v"
      using assms(2) \<open>v' \<in> set (deliveries d')\<close> by (auto simp: foreign_keys_def)
    then show ?thesis using assms(1) by (simp add: internal_ok_def delivery_ok_def ids)
  qed
  moreover have "\<forall>a \<in> set (internalAttachments d'). iatt_internalMailId a \<in> imail_ids d \<and>
      (\<forall>k. iatt_storageKey a = Some k \<longrightarrow> shared_key k)"
    using assms(1,2) unfolding internal_ok_def foreign_keys_def by (metis option.distinct(1))
  moreover have "taken_back d i \<Longrightarrow> taken_back d' i" for i
    using assms(2) by (auto simp: taken_back_def foreign_keys_def unlink_def split: option.splits)
  ultimately show ?thesis
    using assms(1,2) by (auto simp: internal_ok_def ids foreign_keys_def)
qed

lemma internal_okD:
  assumes "internal_inv P obj w"
  shows "mail_inv P obj w" "internal_ok P (draws w) (db w)" "distinct (map mail_id (mails (db w)))"
    "\<forall>v \<in> set (deliveries (db w)). delivery_ok (db w) v"
  using assms by (simp_all add: internal_inv_def internal_ok_def mail_inv_def mail_tables_ok_def)

section \<open>Recall and deletion\<close>

context object_store
begin

lemma delete_delivered_inv:
  assumes "store P = S" "mail_inv P obj w"
  shows "mail_inv P obj (snd (delete_delivered P ev why ids w))"
  using assms(2)
proof (induction ids arbitrary: w)
  case (Cons i ids)
  then show ?case using remove_inv [OF assms(1) Cons.prems surjective_pairing] by (simp add: split_beta Let_def)
qed simp

lemma recall_copies:
  assumes "store P = S" "internal_inv P obj w" "\<forall>i. uuid P i \<noteq> []"
    and "recallDeliveredInboxCopies P i w = (n, evs, w1)"
  shows "internal_inv P obj w1" "draws w1 = draws w" "now w1 = now w"
    "db w1 = delete_mails (\<lambda>m. mail_id m \<in> set (delivered_ids (db w) i)) (db w)"
    "n = length (delivered_ids (db w) i)"
    "\<forall>v \<in> set (deliveries (db w1)). dlv_internalMailId v = i \<longrightarrow> dlv_mailId v = None"
proof -
  let ?ids = "delivered_ids (db w) i"
  obtain evs' where d: "delete_delivered P (Some ''mail.recalled'') (Some ''Internal mail recalled by admin'') ?ids w = (evs', w1)"
    and n: "n = length ?ids"
    using assms(4) by (auto simp: recallDeliveredInboxCopies_def Let_def split: prod.splits)
  show frame: "draws w1 = draws w" "now w1 = now w"
    using delete_delivered_frame [of P "Some ''mail.recalled''" "Some ''Internal mail recalled by admin''" ?ids w]
    by (simp_all only: d snd_conv)
  show db: "db w1 = delete_mails (\<lambda>m. mail_id m \<in> set ?ids) (db w)"
    using delete_delivered_db [of P "Some ''mail.recalled''" "Some ''Internal mail recalled by admin''" ?ids w]
    by (simp only: d snd_conv)
  have fk: "foreign_keys (db w) (db w1)"
    unfolding db by (rule delete_mails_foreign [OF internal_okD(3,4) [OF assms(2)]])
  show "internal_inv P obj w1"
    using delete_delivered_inv [OF assms(1) internal_okD(1) [OF assms(2)], of "Some ''mail.recalled''"
      "Some ''Internal mail recalled by admin''" ?ids] foreign_keys_ok [OF internal_okD(2) [OF assms(2)] fk order_refl]
    by (simp add: internal_inv_def d frame)
  show "\<forall>v \<in> set (deliveries (db w1)). dlv_internalMailId v = i \<longrightarrow> dlv_mailId v = None"
  proof (intro ballI impI)
    fix v' assume v': "v' \<in> set (deliveries (db w1))" "dlv_internalMailId v' = i"
    then obtain v where v: "v \<in> set (deliveries (db w))" "v' = unlink (mail_ids (db w1)) v"
      using fk by (auto simp: foreign_keys_def)
    show "dlv_mailId v' = None"
    proof (cases "dlv_mailId v")
      case (Some k)
      then have "k \<in> mail_ids (db w)" using v(1) internal_okD(4) [OF assms(2)] by (auto simp: delivery_ok_def)
      then have "k \<in> uuid P ` {..<draws w}"
        using internal_okD(1) [OF assms(2)] by (auto simp: mail_inv_def mail_tables_ok_def mail_ids_def)
      then have "k \<noteq> []" using assms(3) by auto
      then have "k \<in> set ?ids" using v v'(2) Some by (force simp: delivered_ids_def truthy_def)
      then have "k \<notin> mail_ids (db w1)" by (auto simp: db mail_ids_def tbl)
      then show ?thesis using v(2) Some by (simp add: unlink_def)
    qed (use v(2) in simp)
  qed
qed (use assms(4) in \<open>auto simp: recallDeliveredInboxCopies_def Let_def split: prod.splits\<close>)

end

definition recalls_kept :: "db \<Rightarrow> db \<Rightarrow> bool" where
  "recalls_kept d d' \<longleftrightarrow> (\<forall>m \<in> set (internalMails d). imail_recalledAt m \<noteq> None \<longrightarrow>
     (\<exists>m' \<in> set (internalMails d'). imail_id m' = imail_id m \<and> imail_recalledAt m' \<noteq> None))"

lemma recalls_kept_same [simp]:
  "internalMails d' = internalMails d \<Longrightarrow> recalls_kept d d'"
  "internalMails d' = internalMails d @ ms \<Longrightarrow> recalls_kept d d'"
  by (auto simp: recalls_kept_def)

lemma recalls_kept_update:
  assumes "internalMails d' = update_where p f (internalMails d)"
    and "\<And>m. imail_id (f m) = imail_id m" "\<And>m. imail_recalledAt m \<noteq> None \<Longrightarrow> imail_recalledAt (f m) \<noteq> None"
  shows "recalls_kept d d'"
  unfolding recalls_kept_def
proof (intro ballI impI)
  fix m assume m: "m \<in> set (internalMails d)" "imail_recalledAt m \<noteq> None"
  then have "(if p m then f m else m) \<in> set (internalMails d')"
    unfolding assms(1) update_where_def by auto
  then show "\<exists>m' \<in> set (internalMails d'). imail_id m' = imail_id m \<and> imail_recalledAt m' \<noteq> None"
    using m(2) assms(2,3) by (metis (full_types))
qed

text \<open>A mail that is recalled or deleted, once no copy of it is left.\<close>

lemma settle_ok:
  assumes "internal_ok P n d" "\<forall>v \<in> set (deliveries d). dlv_internalMailId v = i \<longrightarrow> dlv_mailId v = None"
    and "mails d' = mails d" "internalAttachments d' = internalAttachments d"
    and "internalMails d' = update_where (\<lambda>m. imail_id m = i) f (internalMails d)"
    and "deliveries d' = update_where (\<lambda>v. dlv_internalMailId v = i \<and> dlv_recalledAt v = None)
      (\<lambda>v. v\<lparr>dlv_recalledAt := Some t\<rparr>) (deliveries d)"
    and "\<And>m. imail_id (f m) = imail_id m"
    and "\<And>m. m \<in> set (internalMails d) \<Longrightarrow> imail_id m = i \<Longrightarrow> imail_recalledAt (f m) \<noteq> None"
  shows "internal_ok P n d'" "taken_back d' i"
proof -
  have ids: "map imail_id (internalMails d') = map imail_id (internalMails d)"
    unfolding assms(5) by (rule map_update_where) (simp add: assms(7))
  then have ids': "imail_ids d' = imail_ids d" unfolding imail_ids_def by (metis list.set_map)
  have rows: "\<exists>v \<in> set (deliveries d). dlv_internalMailId v' = dlv_internalMailId v \<and>
      dlv_mailId v' = dlv_mailId v \<and> (dlv_recalledAt v \<noteq> None \<longrightarrow> dlv_recalledAt v' \<noteq> None) \<and>
      (dlv_internalMailId v = i \<longrightarrow> dlv_recalledAt v' \<noteq> None)" if "v' \<in> set (deliveries d')" for v'
  proof -
    obtain v where "v \<in> set (deliveries d)"
      "v' = (if dlv_internalMailId v = i \<and> dlv_recalledAt v = None then v\<lparr>dlv_recalledAt := Some t\<rparr> else v)"
      using \<open>v' \<in> set (deliveries d')\<close> unfolding assms(6) by (auto simp: update_where_def)
    then show ?thesis by (intro bexI [of _ v]) auto
  qed
  show gone: "taken_back d' i"
    unfolding taken_back_def using rows assms(2) by metis
  have other: "taken_back d' j" if "taken_back d j" for j
    using that rows unfolding taken_back_def by metis
  have dlv: "delivery_ok d' v'" if "v' \<in> set (deliveries d')" for v'
    using rows [OF that] assms(1) unfolding internal_ok_def delivery_ok_def ids' mail_ids_def assms(3) by metis
  have mail: "(imail_deletedAt m' \<noteq> None \<longrightarrow> imail_recalledAt m' \<noteq> None) \<and>
      (imail_recalledAt m' \<noteq> None \<longrightarrow> taken_back d' (imail_id m'))" if "m' \<in> set (internalMails d')" for m'
  proof -
    obtain m where m: "m \<in> set (internalMails d)" "m' = (if imail_id m = i then f m else m)"
      using \<open>m' \<in> set (internalMails d')\<close> unfolding assms(5) by (auto simp: update_where_def)
    then show ?thesis using assms(1,7,8) gone other by (auto simp: internal_ok_def)
  qed
  show "internal_ok P n d'"
    using assms(1) ids dlv mail unfolding internal_ok_def ids' assms(4) by simp
qed

lemma shared_not_drawn: "shared_key k \<Longrightarrow> k \<notin> keys_drawn P m n"
  by (auto simp: shared_key_def keys_drawn_def mail_key_def att_key_def)

lemma find_internal:
  assumes "findInternalMailOrThrow d i = Inr m"
  shows "m \<in> set (internalMails d)" "imail_id m = i"
  using assms by (auto simp: findInternalMailOrThrow_def dest: find_Some_mem split: option.splits)

context object_store
begin

lemma recall_cases:
  assumes "store P = S" "internal_inv P obj w" "\<forall>i. uuid P i \<noteq> []"
    and "recallMail P adminId i why w = (r, evs, w')"
  obtains (refused) e where "r = Inl e" "evs = []" "w' = w"
      "e = admin_mail_not_found \<and> i \<notin> imail_ids (db w) \<or> (\<exists>t. e = BadRequest t) \<and>
        (\<exists>m \<in> set (internalMails (db w)). imail_id m = i \<and> imail_recalledAt m \<noteq> None)"
  | (recalled) m where "m \<in> set (internalMails (db w))" "imail_id m = i" "imail_recalledAt m = None"
      "r = Inr (length (delivered_ids (db w) i))" "internal_inv P obj w'" "taken_back (db w') i"
      "mails (db w') = delete_where (\<lambda>m. mail_id m \<in> set (delivered_ids (db w) i)) (mails (db w))"
      "\<exists>m' \<in> set (internalMails (db w')). imail_id m' = i \<and> imail_recalledAt m' = Some (now w)"
      "recalls_kept (db w) (db w')"
proof (cases "findInternalMailOrThrow (db w) i")
  case (Inl e)
  then have "e = admin_mail_not_found" "i \<notin> imail_ids (db w)"
    by (auto simp: findInternalMailOrThrow_def imail_ids_def find_None_iff split: option.splits)
  then show thesis using assms(4) Inl by (intro refused [of e]) (simp_all add: recallMail_def)
next
  case (Inr m)
  note m = find_internal [OF Inr]
  have inv: "internal_ok P (draws w) (db w)" by (rule internal_okD(2) [OF assms(2)])
  show thesis
  proof (cases "imail_deletedAt m = None \<and> imail_recalledAt m = None")
    case False
    then have "imail_recalledAt m \<noteq> None" using inv m(1) by (auto simp: internal_ok_def)
    then show thesis
      using refused assms(4) Inr m False by (auto simp: recallMail_def already_deleted_def split: if_splits)
  next
    case True
    obtain n evs1 w1 where c: "recallDeliveredInboxCopies P i w = (n, evs1, w1)" by (metis prod_cases3)
    note rc = recall_copies [OF assms(1-3) c]
    define f where "f = (\<lambda>m :: internalMail. m\<lparr>imail_recalledAt := Some (now w1), imail_recallReason := Some why,
      imail_recalledByAdminUserId := Some adminId\<rparr>)"
    have run: "r = Inr n" "w' = w1\<lparr>db := admin_log (now w1) adminId None ''internal_mail_recalled'' why
        (recall_meta m n) (mark_recalled i (now w1) (set_internal i f (db w1)))\<rparr>"
      using assms(4) Inr True c m(2) by (simp_all add: recallMail_def f_def)
    have ok: "internal_ok P (draws w1) (db w')" "taken_back (db w') i"
      by (rule settle_ok [OF internal_okD(2) [OF rc(1)] rc(6), of _ f "now w1"];
        simp add: run(2) admin_log_def createAuditLog_def mark_recalled_def set_internal_def f_def)+
    have "mail_inv P obj w'"
      by (rule mail_inv_keep [OF internal_okD(1) [OF rc(1)]])
        (simp_all add: run(2) admin_log_def createAuditLog_def mark_recalled_def set_internal_def)
    then have "internal_inv P obj w'" using ok(1) by (simp add: internal_inv_def run(2))
    moreover have "mails (db w') = delete_where (\<lambda>m. mail_id m \<in> set (delivered_ids (db w) i)) (mails (db w))"
      by (simp add: run(2) admin_log_def createAuditLog_def mark_recalled_def set_internal_def rc(4))
    moreover have rows: "internalMails (db w') = update_where (\<lambda>m. imail_id m = i) f (internalMails (db w))"
      by (simp add: run(2) admin_log_def createAuditLog_def mark_recalled_def set_internal_def rc(4))
    then have "f m \<in> set (internalMails (db w'))" using m by (auto simp: update_where_def)
    then have "\<exists>m' \<in> set (internalMails (db w')). imail_id m' = i \<and> imail_recalledAt m' = Some (now w)"
      using m(2) rc(3) by (intro bexI [of _ "f m"]) (simp_all add: f_def)
    moreover have "recalls_kept (db w) (db w')" by (rule recalls_kept_update [OF rows]) (simp_all add: f_def)
    moreover have "r = Inr (length (delivered_ids (db w) i))" by (simp only: run(1) rc(5))
    ultimately show thesis using True ok(2) by (intro recalled [OF m]) simp_all
  qed
qed

end

text \<open>Every audit entry leaves the tables of both parts alone.\<close>

lemma admin_log_internal [simp]:
  "internalMails (admin_log t a u ac r m d) = internalMails d"
  "internalAttachments (admin_log t a u ac r m d) = internalAttachments d"
  "deliveries (admin_log t a u ac r m d) = deliveries d"
  by (simp_all add: admin_log_def createAuditLog_def)

lemma set_internal_simps [simp]:
  "internalMails (set_internal i f d) = update_where (\<lambda>m. imail_id m = i) f (internalMails d)"
  "internalAttachments (set_internal i f d) = internalAttachments d"
  "deliveries (set_internal i f d) = deliveries d"
  "mails (set_internal i f d) = mails d" "mailAttachments (set_internal i f d) = mailAttachments d"
  by (simp_all add: set_internal_def)

lemma mark_recalled_simps [simp]:
  "internalMails (mark_recalled i t d) = internalMails d"
  "internalAttachments (mark_recalled i t d) = internalAttachments d"
  "deliveries (mark_recalled i t d) = update_where (\<lambda>v. dlv_internalMailId v = i \<and> dlv_recalledAt v = None)
     (\<lambda>v. v\<lparr>dlv_recalledAt := Some t\<rparr>) (deliveries d)"
  "mails (mark_recalled i t d) = mails d" "mailAttachments (mark_recalled i t d) = mailAttachments d"
  by (simp_all add: mark_recalled_def)

lemma taken_back_marked:
  assumes "taken_back d i"
  shows "update_where (\<lambda>v. dlv_internalMailId v = i \<and> dlv_recalledAt v = None)
     (\<lambda>v. v\<lparr>dlv_recalledAt := Some t\<rparr>) (deliveries d) = deliveries d"
  using assms by (intro update_where_none) (auto simp: taken_back_def)

context object_store
begin

lemma fold_deletes_other:
  assumes "store P = S" "\<forall>x \<in> set ks. shared_key x"
  shows "db (fold (deleteStorageObjectByKey P) ks w) = db w \<and>
    draws (fold (deleteStorageObjectByKey P) ks w) = draws w \<and>
    (\<forall>b k. b \<noteq> mailsBucket \<or> \<not> shared_key k \<longrightarrow>
       obj (objects (fold (deleteStorageObjectByKey P) ks w)) b k = obj (objects w) b k)"
  using assms(2)
proof (induction ks arbitrary: w)
  case (Cons x ks)
  have "db (deleteStorageObjectByKey P x w) = db w" "draws (deleteStorageObjectByKey P x w) = draws w"
    by (simp_all add: deleteStorageObjectByKey_def)
  then show ?case using Cons.IH [of "deleteStorageObjectByKey P x w"] Cons.prems
      deleteKey_other [OF assms(1), of x] by auto
qed simp

lemma mail_inv_others:
  assumes "mail_inv P obj w" "draws w \<le> draws w'" "mails (db w') = mails (db w)"
    "mailAttachments (db w') = mailAttachments (db w)"
    "\<forall>b k. b \<noteq> mailsBucket \<or> \<not> shared_key k \<longrightarrow> obj (objects w') b k = obj (objects w) b k"
  shows "mail_inv P obj w'"
proof (rule mail_inv_keep [OF assms(1,2)])
  fix k assume "k \<in> set (object_keys (db w))"
  then have "k \<in> keys_drawn P 0 (draws w)" using assms(1) by (auto simp: mail_inv_def mail_tables_ok_def)
  then have "\<not> shared_key k" using shared_not_drawn by blast
  then show "obj (objects w') mailsBucket k = obj (objects w) mailsBucket k" using assms(5) by blast
qed (simp_all add: assms(3,4))

lemma shared_deletes_inv:
  assumes "store P = S" "internal_inv P obj w"
  shows "internal_inv P obj (deleteSharedAttachmentObjects P i w)"
proof -
  let ?ks = "map (\<lambda>a. the (iatt_storageKey a)) (filter (\<lambda>a. iatt_internalMailId a = i \<and>
    truthy (iatt_storageKey a)) (internalAttachments (db w)))"
  have "\<forall>k \<in> set ?ks. shared_key k"
    using internal_okD(2) [OF assms(2)] by (auto simp: internal_ok_def truthy_def split: option.splits)
  from fold_deletes_other [OF assms(1) this, of w] show ?thesis
    using assms(2) mail_inv_others [OF internal_okD(1) [OF assms(2)]]
    by (simp add: internal_inv_def deleteSharedAttachmentObjects_def)
qed

lemma shared_deletes_db: "db (deleteSharedAttachmentObjects P i w) = db w"
proof -
  have "db (fold (deleteStorageObjectByKey P) ks w) = db w" for ks
    by (induction ks arbitrary: w) (simp_all add: deleteStorageObjectByKey_def)
  then show ?thesis by (simp add: deleteSharedAttachmentObjects_def)
qed

lemma admin_delete_inv:
  assumes "store P = S" "internal_inv P obj w" "\<forall>i. uuid P i \<noteq> []"
    and "admin_deleteMail P adminId i w = (r, evs, w')"
  shows "internal_inv P obj w' \<and> recalls_kept (db w) (db w')"
proof (cases "\<exists>m. findInternalMailOrThrow (db w) i = Inr m \<and> imail_deletedAt m = None")
  case False
  then show ?thesis using assms(2,4) by (auto simp: admin_deleteMail_def split: sum.splits if_splits)
next
  case True
  then obtain m where m: "findInternalMailOrThrow (db w) i = Inr m" "imail_deletedAt m = None" by blast
  note mem = find_internal [OF m(1)]
  define recalled where "recalled \<longleftrightarrow> imail_recalledAt m \<noteq> None"
  obtain n evs1 w1 where c: "(if recalled then (0, [], w) else recallDeliveredInboxCopies P i w) = (n, evs1, w1)"
    by (metis prod_cases3)
  define f where "f = (\<lambda>m :: internalMail. let m1 = m\<lparr>imail_deletedAt := Some (now w),
      imail_deleteReason := Some deleteReason, imail_deletedByAdminUserId := Some adminId\<rparr>
    in if recalled then m1 else m1\<lparr>imail_recalledAt := Some (now w), imail_recallReason := Some deleteReason,
      imail_recalledByAdminUserId := Some adminId\<rparr>)"
  have w1: "internal_inv P obj w1" "recalled \<Longrightarrow> w1 = w"
    "\<forall>v \<in> set (deliveries (db w1)). dlv_internalMailId v = i \<longrightarrow> dlv_mailId v = None"
    "recalled \<Longrightarrow> taken_back (db w1) i"
  proof -
    have "recalled \<Longrightarrow> taken_back (db w) i"
      using internal_okD(2) [OF assms(2)] mem by (auto simp: internal_ok_def recalled_def)
    then show "internal_inv P obj w1" "recalled \<Longrightarrow> w1 = w"
      "\<forall>v \<in> set (deliveries (db w1)). dlv_internalMailId v = i \<longrightarrow> dlv_mailId v = None"
      "recalled \<Longrightarrow> taken_back (db w1) i"
      using c assms(2) recall_copies [OF assms(1-3), of i n evs1 w1]
      by (auto simp: taken_back_def split: if_splits)
  qed
  define d1 where "d1 = set_internal i f (db w1)"
  define d2 where "d2 = (if recalled then d1 else mark_recalled i (now w) d1)"
  have w': "w' = deleteSharedAttachmentObjects P i (w1\<lparr>db := admin_log (now w1) adminId None
      ''internal_mail_deleted'' deleteReason (recall_meta m n) d2\<rparr>)"
    by (cases recalled) (use assms(4) m(1,2) mem(2) c in
      \<open>simp_all add: admin_deleteMail_def d1_def d2_def f_def recalled_def Let_def\<close>)
  have d2: "deliveries d2 = update_where (\<lambda>v. dlv_internalMailId v = i \<and> dlv_recalledAt v = None)
     (\<lambda>v. v\<lparr>dlv_recalledAt := Some (now w)\<rparr>) (deliveries (db w1))"
    using w1(4) by (simp add: d2_def d1_def taken_back_marked)
  have same: "mails d2 = mails (db w1)" "internalAttachments d2 = internalAttachments (db w1)"
    "mailAttachments d2 = mailAttachments (db w1)"
    "internalMails d2 = update_where (\<lambda>m. imail_id m = i) f (internalMails (db w1))"
    by (simp_all add: d2_def d1_def)
  have f: "imail_id (f x) = imail_id x" for x by (simp add: f_def Let_def)
  have marked: "imail_recalledAt (f x) \<noteq> None" if "x \<in> set (internalMails (db w1))" "imail_id x = i" for x
  proof (cases recalled)
    case True
    have "inj_on imail_id (set (internalMails (db w)))"
      using internal_okD(2) [OF assms(2)] by (simp add: internal_ok_def distinct_map)
    then have "x = m" using that w1(2) [OF True] mem by (auto dest: inj_onD)
    then show ?thesis using True by (simp add: f_def Let_def recalled_def)
  qed (simp add: f_def Let_def)
  let ?w = "w1\<lparr>db := admin_log (now w1) adminId None ''internal_mail_deleted'' deleteReason (recall_meta m n) d2\<rparr>"
  have "internal_ok P (draws w1) (db ?w)"
    by (rule settle_ok(1) [OF internal_okD(2) [OF w1(1)] w1(3), of _ f "now w"])
      (simp_all add: same d2 f marked)
  moreover have "mail_inv P obj ?w"
    by (rule mail_inv_others [OF internal_okD(1) [OF w1(1)]]) (simp_all add: same)
  ultimately have "internal_inv P obj ?w" by (simp add: internal_inv_def)
  then have "internal_inv P obj w'" unfolding w' by (rule shared_deletes_inv [OF assms(1)])
  moreover have "internalMails (db w1) = internalMails (db w)"
    using c recall_copies(4) [OF assms(1-3), of i n evs1 w1] by (auto split: if_splits)
  then have "internalMails (db w') = update_where (\<lambda>m. imail_id m = i) f (internalMails (db w))"
    by (simp add: w' shared_deletes_db same)
  then have "recalls_kept (db w) (db w')" by (rule recalls_kept_update) (simp_all add: f_def Let_def)
  ultimately show ?thesis by simp
qed

lemma admin_download_inv:
  assumes "store P = S" "internal_inv P obj w" "admin_downloadAttachment P i attId w = (r, w')"
  shows "internal_inv P obj w' \<and> internalMails (db w') = internalMails (db w)"
proof -
  define f where "f = (\<lambda>a. a\<lparr>iatt_storageKey := None\<rparr> :: internalMailAttachment)"
  have "\<exists>w1 p. (w' = w1 \<or> w' = w1\<lparr>db := (db w1)\<lparr>internalAttachments :=
      update_where p f (internalAttachments (db w1))\<rparr>\<rparr>) \<and> same_keys obj w w1 \<and> db w1 = db w \<and> draws w1 = draws w"
  proof (cases "find (\<lambda>a. iatt_id a = attId \<and> iatt_internalMailId a = i \<and>
      list_ex (\<lambda>m. imail_id m = i \<and> imail_deletedAt m = None) (internalMails (db w)))
      (internalAttachments (db w))")
    case None
    then have "w' = w" using assms(3) by (simp add: admin_downloadAttachment_def)
    then show ?thesis by (intro exI [of _ w]) simp
  next
    case (Some a)
    obtain r1 w1 where d: "downloadStorageObjectByKey P (the (iatt_storageKey a)) w = (r1, w1)" by fastforce
    have w1: "same_keys obj w w1 \<and> db w1 = db w \<and> draws w1 = draws w"
      using download_cases [OF assms(1) d] by (auto simp: same_keys_def)
    define p where "p = (\<lambda>x :: internalMailAttachment. iatt_id x = attId \<and> iatt_storageKey x = iatt_storageKey a)"
    have "w' = w \<or> w' = w1 \<or> w' = w1\<lparr>db := (db w1)\<lparr>internalAttachments :=
        update_where p f (internalAttachments (db w1))\<rparr>\<rparr>"
      using assms(3) unfolding admin_downloadAttachment_def Some option.case d prod.case f_def p_def
      by (cases r1; simp split: if_splits http_error.splits)
    then show ?thesis using w1 same_keys_refl [of obj w] by blast
  qed
  then obtain w1 p where w': "w' = w1 \<or> w' = w1\<lparr>db := (db w1)\<lparr>internalAttachments :=
      update_where p f (internalAttachments (db w1))\<rparr>\<rparr>"
    and w1: "same_keys obj w w1" "db w1 = db w" "draws w1 = draws w" by blast
  have keep: "internal_inv P obj w''" if "db w'' = db w" "draws w'' = draws w" "same_keys obj w w''" for w''
    using assms(2) that same_keys_inv by (auto simp: internal_inv_def)
  let ?w = "w1\<lparr>db := (db w1)\<lparr>internalAttachments := update_where p f (internalAttachments (db w1))\<rparr>\<rparr>"
  have "foreign_keys (db w1) (db ?w)"
  proof -
    have "unlink (mail_ids (db w1)) v = v" if "v \<in> set (deliveries (db w1))" for v
      using internal_okD(4) [OF assms(2)] w1(2) that
      by (intro unlink_keep) (cases "dlv_mailId v"; auto simp: delivery_ok_def)
    then have "map (unlink (mail_ids (db w1))) (deliveries (db w1)) = deliveries (db w1)"
      by (intro map_idI) simp
    then show ?thesis by (auto simp: foreign_keys_def mail_ids_def tbl f_def)
  qed
  then have "internal_ok P (draws w1) (db ?w)"
    using foreign_keys_ok keep [OF w1(2,3,1)] internal_okD(2) by blast
  moreover have "mail_inv P obj ?w"
    using internal_okD(1) [OF keep [OF w1(2,3,1)]] by (rule same_keys_inv [rotated]) (simp add: same_keys_def)
  ultimately have "internal_inv P obj ?w" by (simp add: internal_inv_def)
  then show ?thesis using w' w1(2) assms(2) keep [OF w1(2,3,1)] by auto
qed

end

section \<open>Sending\<close>

text \<open>A new internal mail with its attachments.\<close>

lemma createInternalMail_cases:
  assumes "createInternalMail P adminId sender target dto rows w = (i, w')"
  obtains row where "i = uuid P (draws w)" "imail_id row = i" "imail_recalledAt row = None"
    "imail_deletedAt row = None"
    "w' = w\<lparr>db := (db w)\<lparr>internalMails := internalMails (db w) @ [row],
         internalAttachments := internalAttachments (db w) @
           internal_attachment_rows P i rows (Suc (draws w)) (now w)\<rparr>,
         draws := Suc (draws w) + length rows\<rparr>"
proof (rule that [of "\<lparr>imail_id = uuid P (draws w), imail_createdByAdminUserId = Some adminId,
    imail_senderId = ms_id sender, imail_senderAddress = ms_address sender, imail_senderLabel = ms_label sender,
    imail_toAddress = tg_toAddress target, imail_targetType = tg_targetType target,
    imail_targetUsername = tg_targetUsername target, imail_subject = sm_subject dto, imail_body = sm_body dto,
    imail_isHtml = sm_isHtml dto, imail_template = sm_template dto, imail_createdAt = now w,
    imail_recalledAt = None, imail_recallReason = None, imail_recalledByAdminUserId = None,
    imail_deletedAt = None, imail_deleteReason = None, imail_deletedByAdminUserId = None\<rparr>"])
qed (use assms in \<open>auto simp: createInternalMail_def Let_def randomUUID_def createInternalAttachments_eq\<close>)

definition sent_db ::
    "db \<Rightarrow> internalMail \<Rightarrow> internalMailAttachment list \<Rightarrow> mail_row list \<Rightarrow> internalMailDelivery list \<Rightarrow> db" where
  "sent_db d row atts new vs =
     d\<lparr>mails := mails d @ new, deliveries := deliveries d @ vs,
       internalMails := internalMails d @ [row], internalAttachments := internalAttachments d @ atts\<rparr>"

text \<open>Taking back what a send has written gives back the tables.\<close>

lemma undo_db:
  assumes "\<forall>m \<in> set new. mail_id m \<notin> mail_ids d" "att_mailId ` set (mailAttachments d) \<subseteq> mail_ids d"
    and "\<forall>v \<in> set (deliveries d). delivery_ok d v" "\<forall>v \<in> set vs. dlv_internalMailId v = imail_id row"
    and "imail_id row \<notin> imail_ids d" "\<forall>a \<in> set atts. iatt_internalMailId a = imail_id row"
    and "\<forall>a \<in> set (internalAttachments d). iatt_internalMailId a \<in> imail_ids d"
  shows "delete_internalMails (\<lambda>m. imail_id m = imail_id row)
    (delete_mails (\<lambda>m. mail_id m \<in> set (map mail_id new)) (sent_db d row atts new vs)) = d"
proof -
  let ?d = "sent_db d row atts new vs" and ?p = "\<lambda>m. mail_id m \<in> set (map mail_id new)"
  have old: "\<not> ?p m" if "m \<in> set (mails d)" for m
    using assms(1) that by (auto simp: mail_ids_def image_iff) metis
  have gone: "map mail_id (filter ?p (mails ?d)) = map mail_id new"
  proof -
    have "filter ?p (mails d) = []" using old by (simp add: filter_empty_conv)
    moreover have "filter ?p new = new" by (simp add: filter_id_conv)
    ultimately show ?thesis by (simp add: sent_db_def)
  qed
  have fresh: "i \<notin> set (map mail_id new)" if "i \<in> mail_ids d" for i
    using assms(1) that by auto
  have ms: "delete_where ?p (mails ?d) = mails d"
    using old by (simp add: sent_db_def delete_where_def filter_id_conv filter_empty_conv)
  have as: "delete_where (\<lambda>a. att_mailId a \<in> set (map mail_id new)) (mailAttachments d) = mailAttachments d"
    using assms(2) fresh unfolding delete_where_def by (intro filter_True) blast
  define f where "f = (\<lambda>v :: internalMailDelivery. v\<lparr>dlv_mailId := None\<rparr>)"
  define q where "q = (\<lambda>v :: internalMailDelivery. case dlv_mailId v of None \<Rightarrow> False | Some i \<Rightarrow> i \<in> set (map mail_id new))"
  have vs: "update_where q f (deliveries d) = deliveries d"
  proof (rule update_where_none)
    fix v assume "v \<in> set (deliveries d)"
    then show "\<not> q v" using assms(3) fresh by (cases "dlv_mailId v") (auto simp: q_def delivery_ok_def)
  qed
  have tables: "delete_mails ?p ?d = d\<lparr>deliveries := deliveries d @ update_where q f vs,
      internalMails := internalMails d @ [row], internalAttachments := internalAttachments d @ atts\<rparr>"
    unfolding delete_mails_def Let_def gone ms f_def [symmetric] q_def [symmetric]
    using as vs by (simp add: sent_db_def tbl)
  have ids: "map imail_id (filter (\<lambda>m. imail_id m = imail_id row) (internalMails d @ [row])) = [imail_id row]"
    using assms(5) by (simp add: imail_ids_def filter_empty_conv image_iff) metis
  have ims: "delete_where (\<lambda>m. imail_id m = imail_id row) (internalMails d @ [row]) = internalMails d"
    using assms(5) by (auto simp: delete_where_def imail_ids_def filter_id_conv) (metis imageI)
  have ds: "delete_where (\<lambda>v. dlv_internalMailId v \<in> set [imail_id row]) (deliveries d @ update_where q f vs) =
      deliveries d"
  proof -
    have "\<forall>v \<in> set (deliveries d). dlv_internalMailId v \<noteq> imail_id row"
      using assms(3,5) by (auto simp: delivery_ok_def)
    moreover have "\<forall>v \<in> set (update_where q f vs). dlv_internalMailId v = imail_id row"
      using assms(4) by (auto simp: tbl f_def)
    ultimately show ?thesis by (simp add: delete_where_def filter_id_conv filter_empty_conv)
  qed
  have ias: "delete_where (\<lambda>a. iatt_internalMailId a \<in> set [imail_id row]) (internalAttachments d @ atts) =
      internalAttachments d"
    using assms(5-7) by (auto simp: delete_where_def filter_id_conv filter_empty_conv)
  show ?thesis
    unfolding tables delete_internalMails_def using ids ims ds ias by (simp add: Let_def)
qed

lemma delete_internalMails_none:
  assumes "i \<notin> imail_ids d"
  shows "delete_internalMails (\<lambda>m. imail_id m = i) d = d"
proof -
  have "filter (\<lambda>m. imail_id m = i) (internalMails d) = []" "delete_where (\<lambda>m. imail_id m = i) (internalMails d) = internalMails d"
    using assms by (auto simp: imail_ids_def filter_empty_conv delete_where_def filter_id_conv)
  then show ?thesis by (simp add: delete_internalMails_def delete_where_def)
qed

context object_store
begin

lemma delete_delivered_other:
  assumes "store P = S" "\<forall>m \<in> set (mails (db w)). mail_id m \<in> set ids \<longrightarrow> k \<notin> set (mail_keys (db w) m)"
  shows "obj (objects (snd (delete_delivered P ev why ids w))) b k = obj (objects w) b k"
  using assms(2)
proof (induction ids arbitrary: w)
  case (Cons i ids)
  let ?w = "snd (deleteMailRecordById P i False ev why w)"
  have first: "obj (objects ?w) b k = obj (objects w) b k"
  proof (cases "mail_of (db w) i")
    case (Some m)
    then have "m \<in> set (mails (db w))" "mail_id m = i" by (auto simp: mail_of_def dest: find_Some_mem)
    then have "k \<notin> set (mail_keys (db w) m)" using Cons.prems by simp
    then show ?thesis
      using Some delete_objects_other [OF assms(1)] by (simp add: deleteMailRecordById_def Let_def)
  qed (simp add: deleteMailRecordById_def)
  have "set (mail_keys (db ?w) m) \<subseteq> set (mail_keys (db w) m)" for m
    unfolding delete_record_db by (auto simp: mail_keys_def attachments_of_def remaining_def tbl)
  then have "\<forall>m \<in> set (mails (db ?w)). mail_id m \<in> set ids \<longrightarrow> k \<notin> set (mail_keys (db ?w) m)"
    using Cons.prems unfolding delete_record_db by (auto simp: tbl)
  from Cons.IH [OF this] first show ?case by (simp add: split_beta Let_def)
qed simp

lemma deliver_all_inv:
  assumes "store P = S" "uuid_ok P" "mail_inv P obj w" "deliver_all P i header dto us w = (r, ids, evs, w')"
  shows "mail_inv P obj w'"
  using assms(3,4)
proof (induction us arbitrary: w r ids evs)
  case (Cons u us)
  obtain r1 w1 where c: "createInternalInboxMail P u header (sm_subject dto) (sm_body dto) w = (r1, w1)"
    by fastforce
  have inv: "mail_inv P obj w1" by (rule createInternal_inv [OF assms(1,2) Cons.prems(1) c])
  show ?case
  proof (cases r1)
    case (Inl e)
    then show ?thesis using Cons.prems c inv by simp
  next
    case (Inr x)
    obtain mailId ev where x: "x = (mailId, ev)" by fastforce
    let ?w = "createDelivery P i u mailId w1"
    obtain r2 ids2 evs2 where "deliver_all P i header dto us ?w = (r2, ids2, evs2, w')"
      using Cons.prems(2) c Inr x by (auto simp: Let_def split: prod.splits)
    moreover have "mail_inv P obj ?w"
      by (rule mail_inv_others [OF inv]) (simp_all add: createDelivery_def randomUUID_def)
    ultimately show ?thesis using Cons.IH by blast
  qed
qed simp

end

lemma rows_shared:
  assumes "\<forall>s \<in> set stored. shared_key (stored_key s)"
    "a \<in> set (internal_attachment_rows P i (attachmentCreateData dto stored) n tm)"
  shows "iatt_internalMailId a = i" "iatt_storageKey a = Some k \<Longrightarrow> shared_key k"
proof -
  obtain x s t where "(x, s, t, iatt_storageKey a) \<in> set (attachmentCreateData dto stored)"
    and "iatt_internalMailId a = i"
    using internal_attachment_rows_simps(1) [OF assms(2)] by blast
  then show "iatt_internalMailId a = i" "iatt_storageKey a = Some k \<Longrightarrow> shared_key k"
    using assms(1) by (auto simp: attachmentCreateData_def stored_key_def)
qed

lemma uuid_fresh:
  assumes "uuid_ok P" "i \<in> uuid P ` {m..<n}" "k \<le> m"
  shows "i \<notin> uuid P ` {..<k}"
  using assms by (auto simp: uuid_inj)

text \<open>The tables while a send is under way.\<close>

lemma sent_ok:
  assumes "internal_ok P n d" "n \<le> n'" "imail_id row \<in> uuid P ` {n..<n'}" "imail_recalledAt row = None" "imail_deletedAt row = None"
    and "uuid_ok P" "\<forall>a \<in> set atts. iatt_internalMailId a = imail_id row \<and> (\<forall>k. iatt_storageKey a = Some k \<longrightarrow> shared_key k)"
    and "\<forall>v \<in> set vs. dlv_internalMailId v = imail_id row" "map dlv_mailId vs = map (\<lambda>m. Some (mail_id m)) new"
  shows "internal_ok P n' (sent_db d row atts new vs)"
proof -
  let ?d = "sent_db d row atts new vs"
  have new: "imail_id row \<notin> imail_ids d"
    using uuid_fresh [OF assms(6,3) order_refl] assms(1) unfolding internal_ok_def by blast
  have ids: "imail_ids ?d = insert (imail_id row) (imail_ids d)" "mail_ids d \<subseteq> mail_ids ?d"
    by (auto simp: sent_db_def imail_ids_def mail_ids_def)
  have "delivery_ok ?d v" if v: "v \<in> set (deliveries ?d)" for v
  proof (cases "v \<in> set vs")
    case True
    then have "dlv_mailId v \<in> Some ` mail_id ` set new"
      using arg_cong [OF assms(9), of set] by (auto simp: image_image)
    then show ?thesis using True assms(8) ids by (auto simp: delivery_ok_def sent_db_def mail_ids_def)
  next
    case False
    then have "v \<in> set (deliveries d)" using v by (simp add: sent_db_def)
    then show ?thesis using assms(1) ids by (auto simp: internal_ok_def delivery_ok_def)
  qed
  moreover have "taken_back ?d i" if "taken_back d i" "i \<in> imail_ids d" for i
    using that assms(8) new by (auto simp: taken_back_def sent_db_def)
  moreover have "imail_ids ?d \<subseteq> uuid P ` {..<n'}"
  proof -
    have "imail_ids d \<subseteq> uuid P ` {..<n}" using assms(1) by (simp add: internal_ok_def)
    moreover have "uuid P ` {..<n} \<subseteq> uuid P ` {..<n'}" "uuid P ` {n..<n'} \<subseteq> uuid P ` {..<n'}" using assms(2) by auto
    ultimately show ?thesis unfolding ids using assms(3) by blast
  qed
  moreover have "distinct (map imail_id (internalMails ?d))"
    using assms(1) new by (simp add: internal_ok_def sent_db_def imail_ids_def)
  moreover have "\<forall>a \<in> set (internalAttachments ?d). iatt_internalMailId a \<in> imail_ids ?d \<and>
      (\<forall>k. iatt_storageKey a = Some k \<longrightarrow> shared_key k)"
    using assms(1,7) unfolding ids by (auto simp: internal_ok_def sent_db_def)
  moreover have "(imail_deletedAt m \<noteq> None \<longrightarrow> imail_recalledAt m \<noteq> None) \<and>
      (imail_recalledAt m \<noteq> None \<longrightarrow> taken_back ?d (imail_id m))" if "m \<in> set (internalMails ?d)" for m
  proof (cases "m = row")
    case False
    then have m: "m \<in> set (internalMails d)" using that by (simp add: sent_db_def)
    then have "imail_id m \<in> imail_ids d" by (simp add: imail_ids_def)
    then show ?thesis using m assms(1) calculation(2) by (simp add: internal_ok_def)
  qed (simp add: assms(4,5))
  ultimately show ?thesis unfolding internal_ok_def by blast
qed

lemma copies_keys:
  "mail_storageKey ` set (copies P header dto us w) \<subseteq> mail_key P ` {draws w..<draws w + 6 * length us}"
proof (induction us arbitrary: w)
  case (Cons u us)
  have "mail_key P (draws w) \<in> mail_key P ` {draws w..<draws w + 6 * length (u # us)}" by simp
  moreover have "mail_key P ` {draws w + 6..<draws w + 6 + 6 * length us} \<subseteq>
      mail_key P ` {draws w..<draws w + 6 * length (u # us)}" by auto
  ultimately show ?case using Cons [of "w\<lparr>draws := draws w + 6\<rparr>"] by auto
qed simp

text \<open>The objects of the mails there were.\<close>

definition objects_kept ::
    "('s \<Rightarrow> string \<Rightarrow> string \<Rightarrow> bytes option) \<Rightarrow> ('r, 's) world \<Rightarrow> ('r, 's) world \<Rightarrow> bool" where
  "objects_kept obj w w' \<longleftrightarrow> (\<forall>k \<in> set (object_keys (db w)).
     obj (objects w') mailsBucket k = obj (objects w) mailsBucket k)"

lemma objects_kept_others:
  assumes "mail_inv P obj w"
    "\<forall>b k. b \<noteq> mailsBucket \<or> \<not> shared_key k \<longrightarrow> obj (objects w') b k = obj (objects w) b k"
  shows "objects_kept obj w w'"
proof -
  have "\<not> shared_key k" if "k \<in> set (object_keys (db w))" for k
    using assms(1) that shared_not_drawn [of k P 0 "draws w"] by (auto simp: mail_inv_def mail_tables_ok_def)
  then show ?thesis using assms(2) by (auto simp: objects_kept_def)
qed

context object_store
begin

lemma undo_send_cases:
  assumes "store P = S" "uuid_ok P" "internal_inv P obj w" "mail_inv P obj w3"
    and db3: "db w3 = sent_db (db w) row atts new vs"
    and row: "imail_id row \<in> uuid P ` {draws w..<n}" "draws w \<le> n"
    and ids: "mail_id ` set new \<subseteq> uuid P ` {n..<n'}" "mail_storageKey ` set new \<subseteq> mail_key P ` {n..<n'}"
    and rows: "\<forall>v \<in> set vs. dlv_internalMailId v = imail_id row" "\<forall>a \<in> set atts. iatt_internalMailId a = imail_id row"
    and stored: "\<forall>s \<in> set stored. shared_key (stored_key s)"
    and undo: "undo_send P (imail_id row) (map mail_id new) stored w3 = (evs, w')"
  shows "db w' = db w" "draws w' = draws w3" "mail_inv P obj w'"
    "k \<in> set (object_keys (db w)) \<Longrightarrow> obj (objects w') mailsBucket k = obj (objects w3) mailsBucket k"
proof -
  let ?i = "imail_id row" and ?ids = "map mail_id new"
  note tables = internal_okD(1) [OF assms(3), unfolded mail_inv_def mail_tables_ok_def]
  note internal = internal_okD(2) [OF assms(3), unfolded internal_ok_def]
  have fresh: "\<forall>m \<in> set new. mail_id m \<notin> mail_ids (db w)"
  proof
    fix m assume "m \<in> set new"
    then have "mail_id m \<in> uuid P ` {n..<n'}" using ids(1) by auto
    then have "mail_id m \<notin> uuid P ` {..<draws w}" using uuid_fresh [OF assms(2) _ row(2)] by blast
    then show "mail_id m \<notin> mail_ids (db w)" using tables by (auto simp: mail_ids_def)
  qed
  have att: "att_mailId ` set (mailAttachments (db w)) \<subseteq> mail_ids (db w)"
    using tables by (simp add: mail_ids_def)
  have none: "?i \<notin> imail_ids (db w)"
    using uuid_fresh [OF assms(2) row(1) order_refl] internal by blast
  obtain e1 wa where a: "delete_delivered P None None ?ids w3 = (e1, wa)" by fastforce
  define wb where "wb = deleteInternalMail ?i wa"
  obtain e2 wc where c: "delete_delivered P None None ?ids wb = (e2, wc)" by fastforce
  define wd where "wd = deleteStoredAttachments P stored wc"
  have w': "w' = deleteInternalMail ?i wd"
    using undo a c by (simp add: undo_send_def wb_def wd_def Let_def)
  have dba: "db wa = delete_mails (\<lambda>m. mail_id m \<in> set ?ids) (db w3)"
    using delete_delivered_db [of P None None ?ids w3] by (simp only: a snd_conv)
  have dbb: "db wb = db w"
    unfolding wb_def deleteInternalMail_def using dba db3
      undo_db [OF fresh att internal_okD(4) [OF assms(3)] rows(1) none rows(2)] internal by simp
  have gone: "\<not> mail_id m \<in> set ?ids" if "m \<in> set (mails (db wb))" for m
    using fresh that unfolding dbb by (auto simp: mail_ids_def image_iff) metis
  have dbc: "db wc = db w"
  proof -
    have "db wc = delete_mails (\<lambda>m. mail_id m \<in> set ?ids) (db wb)"
      using delete_delivered_db [of P None None ?ids wb] by (simp only: c snd_conv)
    also have "\<dots> = db wb" by (rule delete_mails_none) (rule gone)
    finally show ?thesis using dbb by simp
  qed
  show db': "db w' = db w"
    unfolding w' deleteInternalMail_def wd_def
    using delete_internalMails_none [OF none] by (simp add: dbc)
  show d: "draws w' = draws w3"
  proof -
    have "draws wa = draws w3" "draws wc = draws wb"
      using delete_delivered_frame(1) [of P None None ?ids w3] delete_delivered_frame(1) [of P None None ?ids wb]
      by (simp_all only: a c snd_conv)
    then show ?thesis by (simp add: w' wd_def wb_def deleteInternalMail_def)
  qed
  have other: "obj (objects w') mailsBucket k = obj (objects wc) mailsBucket k" if "\<not> shared_key k" for k
    using deleteStored_other [OF assms(1) stored, of mailsBucket k wc] that
    by (simp add: w' wd_def deleteInternalMail_def)
  have again: "obj (objects wc) b k = obj (objects wb) b k" for b k
    using delete_delivered_other [OF assms(1), of wb ?ids k None None b] gone by (simp add: c)
  have wb: "objects wb = objects wa" by (simp add: wb_def deleteInternalMail_def)
  have key: "k \<notin> set (mail_keys (db w3) m)"
    if "k \<in> set (object_keys (db w))" "m \<in> set (mails (db w3))" "mail_id m \<in> set ?ids" for k m
  proof
    assume k: "k \<in> set (mail_keys (db w3) m)"
    have "mail_id m \<notin> mail_ids (db w)" using that(3) fresh by auto
    then have m: "m \<in> set new" using that(2) by (auto simp: db3 sent_db_def mail_ids_def)
    have "attachments_of (db w3) (mail_id m) = []"
      using att fresh m by (auto simp: attachments_of_def db3 sent_db_def filter_empty_conv)
    then have "k = mail_storageKey m" using k by (simp add: mail_keys_def)
    then have "k \<in> mail_key P ` {n..<n'}" using ids(2) m by auto
    moreover have "k \<in> keys_drawn P 0 (draws w)" using tables that(1) by blast
    ultimately show False using row(2) by (auto simp: keys_drawn_iff [OF assms(2)])
  qed
  have kept: "obj (objects w') mailsBucket k = obj (objects w3) mailsBucket k"
    if "k \<in> set (object_keys (db w))" for k
  proof -
    have "\<not> shared_key k" using tables that shared_not_drawn [of k P 0 "draws w"] by blast
    moreover have "obj (objects wa) mailsBucket k = obj (objects w3) mailsBucket k"
      using delete_delivered_other [OF assms(1), of w3 ?ids k None None mailsBucket] key [OF that] by (simp add: a)
    ultimately show ?thesis using other again wb by simp
  qed
  then show "k \<in> set (object_keys (db w)) \<Longrightarrow> obj (objects w') mailsBucket k = obj (objects w3) mailsBucket k" .
  have inva: "mail_inv P obj wa"
    using delete_delivered_inv [OF assms(1,4), of None None ?ids] by (simp add: a)
  show "mail_inv P obj w'"
  proof (rule mail_inv_others [OF inva])
    have "draws w3 = draws wa" using delete_delivered_frame(1) [of P None None ?ids w3] by (simp add: a)
    then show "draws wa \<le> draws w'" using d by simp
    have "mails (db wa) = mails (db wb)" "mailAttachments (db wa) = mailAttachments (db wb)"
      by (simp_all add: wb_def deleteInternalMail_def delete_internalMails_def Let_def)
    then show "mails (db w') = mails (db wa)" "mailAttachments (db w') = mailAttachments (db wa)"
      using db' dbb by simp_all
    show "\<forall>b k. b \<noteq> mailsBucket \<or> \<not> shared_key k \<longrightarrow> obj (objects w') b k = obj (objects wa) b k"
      using deleteStored_other [OF assms(1) stored, of _ _ wc] again wb
      by (simp add: w' wd_def deleteInternalMail_def)
  qed
qed

end

definition sent_as ::
    "send_mail_dto \<Rightarrow> user list \<Rightarrow> string \<Rightarrow> db \<Rightarrow> db \<Rightarrow> mail_row list \<Rightarrow> bool" where
  "sent_as dto us i d d' new \<longleftrightarrow>
     mails d' = mails d @ new \<and> mailAttachments d' = mailAttachments d \<and>
     map mail_userId new = map user_id us \<and> (\<forall>m \<in> set new. mail_subject m = sm_subject dto) \<and>
     (\<exists>vs. deliveries d' = deliveries d @ vs \<and> map dlv_userId vs = map user_id us \<and>
        map dlv_mailId vs = map (\<lambda>m. Some (mail_id m)) new \<and>
        (\<forall>v \<in> set vs. dlv_internalMailId v = i \<and> dlv_recalledAt v = None))"

lemma internal_inv_same:
  assumes "internal_inv P obj w" "db w' = db w" "draws w \<le> draws w'" "mail_inv P obj w'"
  shows "internal_inv P obj w'"
proof -
  have "uuid P ` {..<draws w} \<subseteq> uuid P ` {..<draws w'}" using assms(3) by auto
  then have "internal_ok P (draws w') (db w)"
    using internal_okD(2) [OF assms(1)] unfolding internal_ok_def by (meson subset_trans)
  then show ?thesis using assms(2,4) by (simp add: internal_inv_def)
qed

lemma copies_sent_as:
  assumes "new = copies P header dto us w" "vs = delivery_rows P i us w" "d' = sent_db d row atts new vs"
  shows "sent_as dto us i d d' new"
proof -
  have "map dlv_mailId vs = map (\<lambda>m. Some (mail_id m)) new" "map dlv_userId vs = map user_id us"
    unfolding assms(1,2) by (simp_all add: delivery_rows_simps)
  moreover have "\<forall>v \<in> set vs. dlv_internalMailId v = i \<and> dlv_recalledAt v = None"
    unfolding assms(2) using delivery_rows_simps(3) by blast
  moreover have "map mail_userId new = map user_id us" "\<forall>m \<in> set new. mail_subject m = sm_subject dto"
    unfolding assms(1) by (simp add: copies_simps(1), blast dest: copies_simps(3))
  ultimately show ?thesis unfolding sent_as_def assms(3) by (auto simp: sent_db_def)
qed

context object_store
begin

lemma sendMail_cases:
  assumes "store P = S" "uuid_ok P" "internal_inv P obj w"
    and "sendMail P adminId dto uploaded w = (r, evs, w')"
  obtains (failed) e k where "r = Inl e" "db w' = db w" "internal_inv P obj w'" "objects_kept obj w w'"
  | (sent) target us new ans where "resolveTargetAddress dto = Inr target"
      "resolveRecipientUsers (db w) target = Inr us" "us \<noteq> []" "r = Inr ans"
      "sa_recipientCount ans = length us" "sa_sharedAttachmentCount ans = length uploaded"
      "sent_as dto us (sa_mailId ans) (db w) (db w') new" "evs = map created_event new"
      "internal_inv P obj w'" "objects_kept obj w w'" "sa_mailId ans \<notin> imail_ids (db w)"
      "\<exists>m. internalMails (db w') = internalMails (db w) @ [m] \<and> imail_id m = sa_mailId ans \<and>
         imail_recalledAt m = None \<and> imail_deletedAt m = None"
proof (cases "\<exists>sender target us stored w1. findSenderOrThrow (sm_senderId dto) = Inr sender \<and>
    resolveTargetAddress dto = Inr target \<and> resolveRecipientUsers (db w) target = Inr us \<and> us \<noteq> [] \<and>
    storeUploadedAttachments P uploaded w = (Inr stored, w1)")
  case False
  obtain r1 w1 where u: "storeUploadedAttachments P uploaded w = (r1, w1)" by fastforce
  note st = storeUploaded_cases [OF assms(1) u]
  have "w' = w \<or> w' = w1" "\<exists>e. r = Inl e"
    using assms(4) False u by (auto simp: sendMail_def split: sum.splits if_splits)
  moreover have "objects_kept obj w w" "objects_kept obj w w1"
    using st objects_kept_others [OF internal_okD(1) [OF assms(3)]] by (simp_all add: objects_kept_def [of _ w w])
  moreover have "internal_inv P obj w1"
    using st mail_inv_others [OF internal_okD(1) [OF assms(3)], of w1]
    by (intro internal_inv_same [OF assms(3)]) simp_all
  ultimately show thesis using st assms(3) failed by blast
next
  case True
  then obtain sender target us stored w1 where pre: "findSenderOrThrow (sm_senderId dto) = Inr sender"
    "resolveTargetAddress dto = Inr target" "resolveRecipientUsers (db w) target = Inr us" "us \<noteq> []"
    and u: "storeUploadedAttachments P uploaded w = (Inr stored, w1)" by blast
  from storeUploaded_cases [OF assms(1) u] have w1: "db w1 = db w" "draws w \<le> draws w1"
    "\<forall>b k. b \<noteq> mailsBucket \<or> \<not> shared_key k \<longrightarrow> obj (objects w1) b k = obj (objects w) b k"
    "\<forall>s \<in> set stored. shared_key (stored_key s)" "length stored = length uploaded" by blast+
  define rows where "rows = attachmentCreateData dto stored"
  obtain i w2 where c: "createInternalMail P adminId sender target dto rows w1 = (i, w2)" by fastforce
  obtain r3 ids evs3 w3 where d: "deliver_all P i (buildSenderHeader sender) dto us w2 = (r3, ids, evs3, w3)"
    by (metis prod_cases4)
  define atts where "atts = internal_attachment_rows P i rows (Suc (draws w1)) (now w1)"
  from createInternalMail_cases [OF c] obtain row where i: "i = uuid P (draws w1)" "imail_id row = i"
    and row: "imail_recalledAt row = None" "imail_deletedAt row = None"
    and w2: "w2 = w1\<lparr>db := (db w1)\<lparr>internalMails := internalMails (db w1) @ [row],
      internalAttachments := internalAttachments (db w1) @ atts\<rparr>, draws := Suc (draws w1) + length rows\<rparr>"
    unfolding atts_def by metis
  from deliver_all_cases [OF assms(1) d] obtain k st where k: "k \<le> length us" "r3 = Inr () \<longleftrightarrow> k = length us"
    "ids = map mail_id (copies P (buildSenderHeader sender) dto (take k us) w2)"
    "evs3 = map created_event (copies P (buildSenderHeader sender) dto (take k us) w2)"
    "w3 = w2\<lparr>db := (db w2)\<lparr>mails := mails (db w2) @ copies P (buildSenderHeader sender) dto (take k us) w2,
        deliveries := deliveries (db w2) @ delivery_rows P i (take k us) w2\<rparr>, objects := st, draws := draws w3\<rparr>"
    "draws w2 + 6 * k \<le> draws w3"
    "\<forall>b key. b \<noteq> mailsBucket \<or> key \<notin> mail_key P ` {draws w2..<draws w3} \<longrightarrow> obj st b key = obj (objects w2) b key"
    by blast
  define new where "new = copies P (buildSenderHeader sender) dto (take k us) w2"
  define vs where "vs = delivery_rows P i (take k us) w2"
  note defs = new_def [symmetric] vs_def [symmetric]
  have w3: "w3 = w2\<lparr>db := (db w2)\<lparr>mails := mails (db w2) @ new, deliveries := deliveries (db w2) @ vs\<rparr>,
      objects := st, draws := draws w3\<rparr>"
    using k(5) unfolding defs .
  have db3: "db w3 = sent_db (db w) row atts new vs"
    by (subst w3) (simp add: w2 w1(1) sent_db_def)
  have objs: "objects w3 = st" by (subst k(5)) simp
  have inv1: "mail_inv P obj w1" by (rule mail_inv_others [OF internal_okD(1) [OF assms(3)]]) (simp_all add: w1)
  have inv3: "mail_inv P obj w3"
    by (rule deliver_all_inv [OF assms(1,2) _ d], rule mail_inv_others [OF inv1]) (simp_all add: w2)
  have n: "draws w1 < draws w2" "draws w2 \<le> draws w3" using k(6) by (simp_all add: w2)
  have ri: "imail_id row \<in> uuid P ` {draws w..<draws w2}" using i w1(2) n by simp
  have kept3: "objects_kept obj w w3"
    unfolding objects_kept_def
  proof
    fix key assume key: "key \<in> set (object_keys (db w))"
    then have "key \<in> keys_drawn P 0 (draws w)"
      using internal_okD(1) [OF assms(3)] by (auto simp: mail_inv_def mail_tables_ok_def)
    then have "key \<notin> mail_key P ` {draws w2..<draws w3}" "\<not> shared_key key"
      using w1(2) n shared_not_drawn by (auto simp: keys_drawn_iff [OF assms(2)])
    then show "obj (objects w3) mailsBucket key = obj (objects w) mailsBucket key"
      using k(7) w1(3) by (simp add: objs w2)
  qed
  have atts: "\<forall>a \<in> set atts. iatt_internalMailId a = imail_id row \<and> (\<forall>k. iatt_storageKey a = Some k \<longrightarrow> shared_key k)"
    unfolding atts_def rows_def i(2) using rows_shared [OF w1(4)] by blast
  have vs: "\<forall>v \<in> set vs. dlv_internalMailId v = imail_id row" "map dlv_mailId vs = map (\<lambda>m. Some (mail_id m)) new"
    unfolding vs_def new_def i(2) by (blast dest: delivery_rows_simps(3), simp only: delivery_rows_simps(2))
  show thesis
  proof (cases r3)
    case (Inl e)
    obtain e4 w4 where undo: "undo_send P i ids stored w3 = (e4, w4)" by fastforce
    have run: "r = Inl e" "w' = w4"
      using assms(4) pre(4) unfolding sendMail_def pre(1-3) sum.case u prod.case Let_def rows_def [symmetric]
        c d Inl undo by simp_all
    have storage: "mail_id ` set new \<subseteq> uuid P ` {draws w2..<draws w2 + 6 * length (take k us)}"
      "mail_storageKey ` set new \<subseteq> mail_key P ` {draws w2..<draws w2 + 6 * length (take k us)}"
      unfolding new_def by (rule copies_ids copies_keys)+
    have "draws w \<le> draws w2" using w1(2) n by simp
    note undone = undo_send_cases [OF assms(1-3) inv3 db3 ri this storage vs(1) _ w1(4)]
    have "\<forall>a \<in> set atts. iatt_internalMailId a = imail_id row" using atts by blast
    note undone = undone [OF this, of e4 w4, unfolded i(2), OF undo [unfolded k(3) new_def [symmetric]]]
    have "internal_inv P obj w4"
      using internal_inv_same [OF assms(3) undone(1) _ undone(3)] undone(2) n w1(2) by simp
    moreover have "objects_kept obj w w4" using undone(4) kept3 by (simp add: objects_kept_def)
    ultimately show thesis using failed run undone(1) by blast
  next
    case (Inr x)
    then have k': "take k us = us" using k(2) by simp
    have run: "r = Inr \<lparr>sa_mailId = i, sa_toAddress = tg_toAddress target, sa_recipientCount = length us,
        sa_attachmentCount = length rows, sa_sharedAttachmentCount = length stored,
        sa_isBroadcast = (tg_targetType target = BROADCAST)\<rparr>" "evs = evs3"
      "\<exists>why m. w' = w3\<lparr>db := admin_log (now w3) adminId None ''internal_mail_sent'' why m (db w3)\<rparr>"
      using assms(4) pre(4) unfolding sendMail_def pre(1-3) sum.case u prod.case Let_def rows_def [symmetric]
        c d Inr by auto
    then obtain why m where w': "w' = w3\<lparr>db := admin_log (now w3) adminId None ''internal_mail_sent'' why m (db w3)\<rparr>"
      by blast
    have "internal_ok P (draws w3) (db w3)"
      unfolding db3
      by (rule sent_ok [OF internal_okD(2) [OF assms(3)] _ _ row assms(2) atts vs]) (use ri n w1(2) in auto)
    moreover have "internal_ok P (draws w') (db w')" if "internal_ok P (draws w3) (db w3)"
      using that by (simp add: w' internal_ok_def imail_ids_def delivery_ok_def mail_ids_def taken_back_def)
    moreover have "mail_inv P obj w'" by (rule mail_inv_others [OF inv3]) (simp_all add: w')
    ultimately have inv: "internal_inv P obj w'" by (simp add: internal_inv_def)
    have "sent_as dto us i (db w) (db w3) new"
      by (rule copies_sent_as [OF _ _ db3]) (simp_all only: new_def vs_def k')
    then have "sent_as dto us i (db w) (db w') new" by (simp add: sent_as_def w')
    moreover have "objects_kept obj w w'" using kept3 by (simp add: objects_kept_def w')
    moreover have "i \<notin> imail_ids (db w)"
      using uuid_fresh [OF assms(2) ri order_refl] internal_okD(2) [OF assms(3)] i(2) unfolding internal_ok_def by blast
    moreover have "internalMails (db w') = internalMails (db w) @ [row]" by (simp add: w' db3 sent_db_def)
    ultimately show thesis
      using sent [OF pre(2-4) run(1)] run(2) k(4) inv w1(5) row i(2) by (auto simp: new_def)
  qed
qed

end

section \<open>The system\<close>

inductive internal_step ::
    "('r, 's) platform \<Rightarrow> ('s \<Rightarrow> string \<Rightarrow> string \<Rightarrow> bytes option) \<Rightarrow>
     ('r, 's) world \<Rightarrow> ('r, 's) world \<Rightarrow> bool"
  for P :: "('r, 's) platform" and obj :: "'s \<Rightarrow> string \<Rightarrow> string \<Rightarrow> bytes option" where
  send: "sendMail P adminId dto uploaded w = (r, evs, w') \<Longrightarrow> internal_step P obj w w'"
| recall: "recallMail P adminId i why w = (r, evs, w') \<Longrightarrow> internal_step P obj w w'"
| remove: "admin_deleteMail P adminId i w = (r, evs, w') \<Longrightarrow> internal_step P obj w w'"
| download: "admin_downloadAttachment P i attId w = (r', w') \<Longrightarrow> internal_step P obj w w'"
| mailbox: "mail_step P obj w w' \<Longrightarrow> foreign_keys (db w) (db w') \<Longrightarrow> draws w \<le> draws w' \<Longrightarrow>
    internal_step P obj w w'"

definition internal_init :: "('r, 's) world \<Rightarrow> bool" where
  "internal_init w \<longleftrightarrow> mail_init w \<and> internalMails (db w) = [] \<and> internalAttachments (db w) = [] \<and>
     deliveries (db w) = []"

definition internal_system ::
    "('r, 's) platform \<Rightarrow> ('s \<Rightarrow> string \<Rightarrow> string \<Rightarrow> bytes option) \<Rightarrow>
     ('r, 's) world \<Rightarrow> ('r, 's) world \<Rightarrow> bool" where
  "internal_system P obj w w' \<longleftrightarrow> object_store (store P) obj \<and> uuid_ok P \<and> (\<forall>i. uuid P i \<noteq> []) \<and>
     internal_step P obj w w'"

lemma internal_system_inv:
  assumes "internal_system P obj w w'" "internal_inv P obj w"
  shows "internal_inv P obj w' \<and> recalls_kept (db w) (db w')"
proof -
  have S: "object_store (store P) obj" "uuid_ok P" "\<forall>i. uuid P i \<noteq> []"
    and step: "internal_step P obj w w'"
    using assms(1) by (simp_all add: internal_system_def)
  from step show ?thesis
  proof cases
    case (send adminId dto uploaded r evs)
    from S(1) refl S(2) assms(2) send show ?thesis
      by (cases rule: object_store.sendMail_cases) auto
  next
    case (recall adminId i why r evs)
    from S(1) refl assms(2) S(3) recall show ?thesis
      using assms(2) by (cases rule: object_store.recall_cases) auto
  next
    case (remove adminId i r evs)
    show ?thesis by (rule object_store.admin_delete_inv [OF S(1) refl assms(2) S(3) remove])
  next
    case (download i attId r)
    then show ?thesis using object_store.admin_download_inv [OF S(1) refl assms(2) download] by simp
  next
    case mailbox
    then have "mail_inv P obj w'"
      using object_store.mail_step_inv [OF S(1) refl S(2) internal_okD(1) [OF assms(2)]] by simp
    then show ?thesis
      using foreign_keys_ok [OF internal_okD(2) [OF assms(2)] mailbox(2,3)] mailbox(2)
      by (simp add: internal_inv_def foreign_keys_def)
  qed
qed

interpretation internal_mail: invariant_system internal_init "internal_system P obj" "internal_inv P obj"
  for P :: "('r, 's) platform" and obj
proof
  show "internal_inv P obj w" if "internal_init w" for w :: "('r, 's) world"
    using that mail_init_inv [of w P obj]
    by (simp add: internal_init_def internal_inv_def internal_ok_def imail_ids_def)
  show "internal_inv P obj w'" if "internal_inv P obj w" "internal_system P obj w w'" for w w' :: "('r, 's) world"
    using internal_system_inv [OF that(2,1)] by simp
qed

text \<open>A recalled mail stays recalled, whatever runs afterwards.\<close>

lemma recalled_stays:
  assumes "(internal_system P obj)\<^sup>*\<^sup>* w w'" "internal_inv P obj w"
  shows "internal_inv P obj w' \<and> recalls_kept (db w) (db w')"
  using assms(1)
proof (induction rule: rtranclp_induct)
  case base
  then show ?case using assms(2) by simp
next
  case (step v v')
  then have "internal_inv P obj v'" "recalls_kept (db v) (db v')"
    using internal_system_inv [of P obj v v'] by simp_all
  then show ?case using step.IH unfolding recalls_kept_def by metis
qed

lemma recall_done:
  assumes "object_store (store P) obj" "internal_inv P obj w" "\<forall>i. uuid P i \<noteq> []"
    and "recallMail P adminId i why w = (Inr n, evs, w')"
  shows "internal_inv P obj w'" "n = length (delivered_ids (db w) i)"
    "mails (db w') = delete_where (\<lambda>m. mail_id m \<in> set (delivered_ids (db w) i)) (mails (db w))"
    "\<exists>m \<in> set (internalMails (db w')). imail_id m = i \<and> imail_recalledAt m = Some (now w)"
    "\<exists>m \<in> set (internalMails (db w)). imail_id m = i \<and> imail_recalledAt m = None"
  by (rule object_store.recall_cases [OF assms(1) refl assms(2-4)]; auto)+

lemma recall_refused:
  assumes "object_store (store P) obj" "internal_inv P obj w" "\<forall>i. uuid P i \<noteq> []"
    and "m \<in> set (internalMails (db w))" "imail_recalledAt m \<noteq> None"
  shows "\<exists>e. recallMail P adminId (imail_id m) why w = (Inl (BadRequest e), [], w)"
proof -
  obtain r evs w' where run: "recallMail P adminId (imail_id m) why w = (r, evs, w')" by (metis prod_cases3)
  have only: "x = m" if "x \<in> set (internalMails (db w))" "imail_id x = imail_id m" for x
    using internal_okD(2) [OF assms(2)] assms(4) that by (auto simp: internal_ok_def distinct_map dest: inj_onD)
  show ?thesis
    by (rule object_store.recall_cases [OF assms(1) refl assms(2,3) run])
      (use assms(4,5) run in \<open>auto simp: imail_ids_def dest: only\<close>)
qed

end
