(* ===== verification/Internal_Mail_Properties.thy ===== *)
theory Internal_Mail_Properties
  imports Internal_Mail_System
begin

text \<open>
  What internal mail promises: a send reaches every recipient or leaves nothing behind, and a recall
  is final. The sample run for the witnesses sends one mail to one user.
\<close>

section \<open>Properties\<close>

text \<open>C35. A send delivers to all its recipients or leaves nothing: a failure gives back the tables, a
  success appends one copy and one delivery for each recipient, in the order of the accounts, and
  announces each copy. The mails there were keep their objects.\<close>

theorem send_all_or_nothing:
  assumes "object_store (store P) obj" "uuid_ok P" "reachable internal_init (internal_system P obj) w"
    and "sendMail P adminId dto uploaded w = (r, evs, w')"
  shows "(case r of
      Inl e \<Rightarrow> db w' = db w
    | Inr ans \<Rightarrow> \<exists>target us new. resolveTargetAddress dto = Inr target \<and>
        resolveRecipientUsers (db w) target = Inr us \<and> us \<noteq> [] \<and> sa_recipientCount ans = length us \<and>
        sa_sharedAttachmentCount ans = length uploaded \<and> sa_mailId ans \<notin> imail_ids (db w) \<and>
        sent_as dto us (sa_mailId ans) (db w) (db w') new \<and> evs = map created_event new) \<and>
    objects_kept obj w w'"
  using assms(1) refl assms(2) internal_mail.reachable_inv [OF assms(3)] assms(4)
  by (cases rule: object_store.sendMail_cases) auto

text \<open>C36. A recall takes back every copy that is left and no other mail; from then on, whatever runs, the
  mail has no active recipient, is shown as not recallable, and a second recall fails.\<close>

theorem recalled_mail_gone:
  assumes "reachable internal_init (internal_system P obj) w" "object_store (store P) obj"
    and "\<forall>i. uuid P i \<noteq> []" "recallMail P adminId i why w = (Inr n, evs, w')"
    and "(internal_system P obj)\<^sup>*\<^sup>* w' w''"
  shows "mails (db w') = filter (\<lambda>m. mail_id m \<notin> set (delivered_ids (db w) i)) (mails (db w)) \<and>
    n = length (delivered_ids (db w) i) \<and>
    (\<exists>m \<in> set (internalMails (db w'')). imail_id m = i \<and>
       amv_activeRecipientCount (toAdminMailRecord (db w'') m) = 0 \<and>
       \<not> amv_canRecall (toAdminMailRecord (db w'') m)) \<and>
    (\<exists>e. recallMail P admin2 i why2 w'' = (Inl (BadRequest e), [], w''))"
proof -
  note recalled = recall_done [OF assms(2) internal_mail.reachable_inv [OF assms(1)] assms(3,4)]
  have later: "internal_inv P obj w''" "recalls_kept (db w') (db w'')"
    using recalled_stays [OF assms(5) recalled(1)] by simp_all
  then obtain m where m: "m \<in> set (internalMails (db w''))" "imail_id m = i" "imail_recalledAt m \<noteq> None"
    using recalled(4) unfolding recalls_kept_def by force
  then have "taken_back (db w'') i"
    using internal_okD(2) [OF later(1)] by (auto simp: internal_ok_def)
  then have "amv_activeRecipientCount (toAdminMailRecord (db w'') m) = 0"
    using m(2) by (auto simp: toAdminMailRecord_def taken_back_def count_where_def filter_empty_conv Let_def)
  moreover have "\<not> amv_canRecall (toAdminMailRecord (db w'') m)"
    using m(3) by (simp add: toAdminMailRecord_def Let_def)
  moreover have "\<exists>e. recallMail P admin2 i why2 w'' = (Inl (BadRequest e), [], w'')"
    using recall_refused [OF assms(2) later(1) assms(3) m(1,3)] m(2) by simp
  ultimately show ?thesis using recalled(2,3) m(1,2) by (auto simp: delete_where_def)
qed

section \<open>A sample run\<close>

definition post_platform :: "(kv, mem) platform" where
  "post_platform = mail_platform\<lparr>uuid := (\<lambda>i. CHR ''n'' # unary i)\<rparr>"

lemma post_ok:
  "object_store (store post_platform) mem_obj" "uuid_ok post_platform" "\<forall>i. uuid post_platform i \<noteq> []"
  using mail_store mail_uuid
  by (simp_all add: post_platform_def uuid_ok_def fresh_uuids_def inj_def)

definition post_dto :: send_mail_dto where
  "post_dto = \<lparr>sm_senderId = ''admin'', sm_to = Some ''eve@redbox.cx'', sm_recipients = None,
     sm_isBroadcast = None, sm_subject = ''hi'', sm_body = ''hello'', sm_isHtml = False,
     sm_template = None, sm_attachments = None\<rparr>"

lemma post_target:
  "resolveTargetAddress post_dto =
     Inr \<lparr>tg_toAddress = ''eve@redbox.cx'', tg_targetType = TO_USER, tg_targetUsername = Some ''eve''\<rparr>"
  by code_simp

lemma post_sender: "\<exists>s. findSenderOrThrow (sm_senderId post_dto) = Inr s"
  by (simp add: findSenderOrThrow_def ADMIN_MAIL_SENDERS_def post_dto_def)

lemma post_stored:
  "\<exists>x w'. storeMailboxMailForUser post_platform mail_user
     \<lparr>mi_from = f, mi_to = t, mi_subject = s, mi_content = c, mi_attachments = []\<rparr> w = (Inr x, w')"
  by (simp add: storeMailboxMailForUser_def post_platform_def randomUUID_def randomBytesOf_def Let_def
      put_object_def createMailRow_def split: prod.split)

lemma post_delivered:
  "\<exists>ids evs w'. deliver_all post_platform i header post_dto [mail_user] w = (Inr (), ids, evs, w')"
proof -
  obtain row w' where "storeMailboxMailForUser post_platform mail_user
     \<lparr>mi_from = header, mi_to = user_username mail_user @ ''@redbox.cx'', mi_subject = sm_subject post_dto,
      mi_content = sm_body post_dto, mi_attachments = []\<rparr> w = (Inr row, w')"
    using post_stored by blast
  then show ?thesis by (simp add: createInternalInboxMail_def Let_def)
qed

lemma post_sent: "\<exists>ans evs w'. sendMail post_platform ''a'' post_dto [] mail_w0 = (Inr ans, evs, w')"
proof -
  define target where "target = \<lparr>tg_toAddress = ''eve@redbox.cx'', tg_targetType = TO_USER,
    tg_targetUsername = Some ''eve''\<rparr>"
  obtain sender where s: "findSenderOrThrow (sm_senderId post_dto) = Inr sender" using post_sender by blast
  have t: "resolveTargetAddress post_dto = Inr target" by (simp only: post_target target_def)
  have u: "resolveRecipientUsers (db mail_w0) target = Inr [mail_user]"
    by (simp add: resolveRecipientUsers_def mail_w0_def mail_user_def newUserRow_def target_def)
  have a: "storeUploadedAttachments post_platform [] mail_w0 = (Inr [], mail_w0)"
    by (simp add: storeUploadedAttachments_def)
  obtain i w2 where c: "createInternalMail post_platform ''a'' sender target post_dto
      (attachmentCreateData post_dto []) mail_w0 = (i, w2)" by fastforce
  obtain ids evs w3 where d: "deliver_all post_platform i (buildSenderHeader sender) post_dto [mail_user] w2 =
      (Inr (), ids, evs, w3)" using post_delivered by blast
  show ?thesis
    unfolding sendMail_def s t u a c d sum.case prod.case Let_def by simp
qed

lemma post_reachable: "reachable internal_init (internal_system post_platform mem_obj) mail_w0"
  by (rule reachable.start) (simp add: internal_init_def mail_init_def mail_w0_def empty_db_def)

text \<open>The state after it.\<close>

lemma post_run:
  obtains i w' and m :: internalMail and row :: mail_row and v :: internalMailDelivery where
    "reachable internal_init (internal_system post_platform mem_obj) w'"
    "internalMails (db w') = [m]" "imail_id m = i" "imail_recalledAt m = None" "imail_deletedAt m = None"
    "mails (db w') = [row]" "deliveries (db w') = [v]" "dlv_internalMailId v = i"
    "dlv_mailId v = Some (mail_id row)"
proof -
  obtain ans evs w' where run: "sendMail post_platform ''a'' post_dto [] mail_w0 = (Inr ans, evs, w')"
    using post_sent by blast
  have u: "resolveRecipientUsers (db mail_w0) \<lparr>tg_toAddress = ''eve@redbox.cx'', tg_targetType = TO_USER,
      tg_targetUsername = Some ''eve''\<rparr> = Inr [mail_user]"
    by (simp add: resolveRecipientUsers_def mail_w0_def mail_user_def newUserRow_def)
  have empty: "internalMails (db mail_w0) = []" by (simp add: mail_w0_def empty_db_def)
  have "\<exists>new m. sent_as post_dto [mail_user] (sa_mailId ans) (db mail_w0) (db w') new \<and>
      internalMails (db w') = [m] \<and> imail_id m = sa_mailId ans \<and> imail_recalledAt m = None \<and> imail_deletedAt m = None"
    by (rule object_store.sendMail_cases [OF post_ok(1) refl post_ok(2)
      internal_mail.reachable_inv [OF post_reachable] run]) (use post_target u empty in auto)
  then obtain new m where new: "sent_as post_dto [mail_user] (sa_mailId ans) (db mail_w0) (db w') new"
    and m: "internalMails (db w') = [m]" "imail_id m = sa_mailId ans" "imail_recalledAt m = None"
      "imail_deletedAt m = None" by blast
  from new obtain row where row: "new = [row]" by (auto simp: sent_as_def)
  with new obtain v where v: "deliveries (db w') = [v]" "dlv_internalMailId v = sa_mailId ans"
    "dlv_mailId v = Some (mail_id row)" and rows: "mails (db w') = [row]"
    by (auto simp: sent_as_def mail_w0_facts)
  have reach: "reachable internal_init (internal_system post_platform mem_obj) w'"
    by (rule reachable.step [OF post_reachable])
      (use post_ok internal_step.send [OF run] in \<open>auto simp: internal_system_def\<close>)
  show thesis by (rule that [OF reach m rows v])
qed

theorem send_all_or_nothing_witness:
  "\<exists>ans evs w'. sendMail post_platform ''a'' post_dto [] mail_w0 = (Inr ans, evs, w') \<and>
     sa_recipientCount ans = 1 \<and> map mail_userId (mails (db w')) = [''u''] \<and> length evs = 1"
proof -
  obtain ans evs w' where run: "sendMail post_platform ''a'' post_dto [] mail_w0 = (Inr ans, evs, w')"
    using post_sent by blast
  have u: "resolveRecipientUsers (db mail_w0) \<lparr>tg_toAddress = ''eve@redbox.cx'', tg_targetType = TO_USER,
      tg_targetUsername = Some ''eve''\<rparr> = Inr [mail_user]"
    by (simp add: resolveRecipientUsers_def mail_w0_def mail_user_def newUserRow_def)
  obtain new where new: "sent_as post_dto [mail_user] (sa_mailId ans) (db mail_w0) (db w') new"
    "sa_recipientCount ans = length [mail_user]" "evs = map created_event new"
    using send_all_or_nothing [OF post_ok(1,2) post_reachable run] by (auto simp: post_target u)
  then have "map mail_userId (mails (db w')) = [''u'']" "length evs = 1"
    by (auto simp: sent_as_def mail_w0_facts dest: arg_cong [of _ _ length])
  then show ?thesis using run new(2) by auto
qed

theorem recalled_mail_gone_witness:
  "\<exists>i w' n evs w2 e. mails (db w') \<noteq> [] \<and>
     recallMail post_platform ''a'' i ''wrong list'' w' = (Inr n, evs, w2) \<and> n = 1 \<and> mails (db w2) = [] \<and>
     recallMail post_platform ''a'' i ''again'' w2 = (Inl (BadRequest e), [], w2)"
proof -
  obtain i w' and m :: internalMail and row :: mail_row and v :: internalMailDelivery where run: "reachable internal_init (internal_system post_platform mem_obj) w'"
    "internalMails (db w') = [m]" "imail_id m = i" "imail_recalledAt m = None" "imail_deletedAt m = None"
    "mails (db w') = [row]" "deliveries (db w') = [v]" "dlv_internalMailId v = i"
    "dlv_mailId v = Some (mail_id row)"
    using post_run by metis
  have "findInternalMailOrThrow (db w') i = Inr m"
    by (simp add: findInternalMailOrThrow_def run(2,3))
  then obtain n evs2 w2 where recall:
    "recallMail post_platform ''a'' i ''wrong list'' w' = (Inr n, evs2, w2)"
    by (simp add: recallMail_def run(4,5) split_beta)
  have "mail_id row \<noteq> []"
    using internal_okD(1) [OF internal_mail.reachable_inv [OF run(1)]] run(6)
    by (auto simp: mail_inv_def mail_tables_ok_def post_platform_def)
  then have "delivered_ids (db w') i = [mail_id row]"
    by (simp add: delivered_ids_def run(7-9) truthy_def)
  then have n: "n = 1" "mails (db w2) = []"
    and again: "\<exists>e. recallMail post_platform ''a'' i ''again'' w2 = (Inl (BadRequest e), [], w2)"
    using recalled_mail_gone [OF run(1) post_ok(1,3) recall rtranclp.rtrancl_refl, of "''a''" "''again''"]
    by (simp_all add: run(6))
  obtain e where "recallMail post_platform ''a'' i ''again'' w2 = (Inl (BadRequest e), [], w2)"
    using again by blast
  then show ?thesis
    by (intro exI [of _ i] exI [of _ w'] exI [of _ n] exI [of _ evs2] exI [of _ w2] exI [of _ e])
      (simp add: recall n run(6))
qed

end
