(* ===== verification/Reports.thy ===== *)
theory Reports
  imports Admin_Audit
begin

text \<open>
  \<^verbatim>\<open>ReportsService\<close> (\<^verbatim>\<open>reports/reports.service.ts\<close>) and \<^verbatim>\<open>report-content-password.util.ts\<close>:
  anybody reports an upload, a bin or a bug. The URL parser, the percent decoding and AES-256-GCM of
  the host are arguments; base64url is written out. Logging is left out.
\<close>

section \<open>base64url\<close>

definition base64url_alphabet :: string where
  "base64url_alphabet = ''ABCDEFGHIJKLMNOPQRSTUVWXYZabcdefghijklmnopqrstuvwxyz0123456789-_''"

definition base64url_char :: "nat \<Rightarrow> char" where
  "base64url_char n = base64url_alphabet ! n"

text \<open>The decoder reads both alphabets.\<close>

definition base64_value :: "char \<Rightarrow> nat option" where
  "base64_value c =
     (let c' = (if c = CHR ''+'' then CHR ''-'' else if c = CHR ''/'' then CHR ''_'' else c);
          n = length (takeWhile (\<lambda>x. x \<noteq> c') base64url_alphabet)
      in if n < length base64url_alphabet then Some n else None)"

text \<open>\<open>toString('base64url')\<close>, without padding.\<close>

fun base64url_digits :: "bytes \<Rightarrow> nat list" where
  "base64url_digits [] = []"
| "base64url_digits [a] = [unat a div 4, unat a mod 4 * 16]"
| "base64url_digits [a, b] = [unat a div 4, unat a mod 4 * 16 + unat b div 16, unat b mod 16 * 4]"
| "base64url_digits (a # b # c # bs) =
     (unat a div 4) # (unat a mod 4 * 16 + unat b div 16) # (unat b mod 16 * 4 + unat c div 64) #
     (unat c mod 64) # base64url_digits bs"

definition base64url :: "bytes \<Rightarrow> string" where
  "base64url bs = map base64url_char (base64url_digits bs)"

text \<open>\<open>Buffer.from(text, 'base64url')\<close>: ends at the padding, skips every other character.\<close>

fun bytes_of_digits :: "nat list \<Rightarrow> bytes" where
  "bytes_of_digits (p # q # r # s # ds) =
     word_of_nat (p * 4 + q div 16) # word_of_nat (q mod 16 * 16 + r div 4) #
       word_of_nat (r mod 4 * 64 + s) # bytes_of_digits ds"
| "bytes_of_digits [p, q, r] = [word_of_nat (p * 4 + q div 16), word_of_nat (q mod 16 * 16 + r div 4)]"
| "bytes_of_digits [p, q] = [word_of_nat (p * 4 + q div 16)]"
| "bytes_of_digits _ = []"

definition unbase64url :: "string \<Rightarrow> bytes" where
  "unbase64url s =
     bytes_of_digits (map (the \<circ> base64_value)
       (filter (\<lambda>c. base64_value c \<noteq> None) (takeWhile (\<lambda>c. c \<noteq> CHR ''='') s)))"

section \<open>The password of a report\<close>

text \<open>AES-256-GCM of the host: encryption gives ciphertext and tag, decryption takes key, iv, tag
  and ciphertext and fails on a wrong tag.\<close>

record report_cipher =
  gcm_seal :: "bytes \<Rightarrow> bytes \<Rightarrow> bytes \<Rightarrow> bytes \<times> bytes"
  gcm_open :: "bytes \<Rightarrow> bytes \<Rightarrow> bytes \<Rightarrow> bytes \<Rightarrow> bytes option"

definition getReportPasswordSecret :: "('r, 's) platform \<Rightarrow> http_error + bytes" where
  "getReportPasswordSecret P =
     (case requireEnv P ''REPORT_CONTENT_SECRET'' of
        Inl _ \<Rightarrow> Inl (InternalError ''Report password secret is not configured'')
      | Inr secret \<Rightarrow> Inr (unhex (sha256 P secret)))"

definition encryptReportedContentPassword ::
    "('r, 's) platform \<Rightarrow> report_cipher \<Rightarrow> string \<Rightarrow> ('r, 's) world \<Rightarrow> (string, ('r, 's) world) outcome" where
  "encryptReportedContentPassword P G password w =
     (let (iv, w1) = randomBytesOf P 12 w in
      case getReportPasswordSecret P of
        Inl e \<Rightarrow> (Inl e, w1)
      | Inr key \<Rightarrow>
          (let (encrypted, authTag) = gcm_seal G key iv (utf8 P password)
           in (Inr (base64url iv @ ''.'' @ base64url authTag @ ''.'' @ base64url encrypted), w1)))"

definition nth_part :: "string list \<Rightarrow> nat \<Rightarrow> string" where
  "nth_part ps n = (if n < length ps then ps ! n else [])"

definition decryptReportedContentPassword ::
    "('r, 's) platform \<Rightarrow> report_cipher \<Rightarrow> string option \<Rightarrow> http_error + string option" where
  "decryptReportedContentPassword P G payload =
     (if \<not> truthy payload then Inr None
      else
        (let parts = split_on (\<lambda>c. c = CHR ''.'') (the payload);
             ivPart = nth_part parts 0; authTagPart = nth_part parts 1; encryptedPart = nth_part parts 2
         in if ivPart = [] \<or> authTagPart = [] \<or> encryptedPart = []
            then Inl (InternalError ''Stored report password is invalid'')
            else
              (case getReportPasswordSecret P of
                 Inl e \<Rightarrow> Inl e
               | Inr key \<Rightarrow>
                   (case gcm_open G key (unbase64url ivPart) (unbase64url authTagPart)
                       (unbase64url encryptedPart) of
                      None \<Rightarrow> Inl (Thrown ''decipher.final'')
                    | Some decrypted \<Rightarrow> Inr (Some (utf8_text P decrypted))))))"

section \<open>Links\<close>

text \<open>A parsed URL: \<open>href\<close> is the concatenation of the four texts.\<close>

record url =
  url_origin :: string
  url_pathname :: string
  url_search :: string
  url_hash :: string

definition url_href :: "url \<Rightarrow> string" where
  "url_href u = url_origin u @ url_pathname u @ url_search u @ url_hash u"

text \<open>\<open>new URL(link, base)\<close>, the pairs of \<open>searchParams\<close>, the query that a change of them leaves, and
  \<open>decodeURIComponent\<close>, where \<open>None\<close> is an exception.\<close>

record url_api =
  url_new :: "string \<Rightarrow> string option \<Rightarrow> url option"
  search_pairs :: "string \<Rightarrow> (string \<times> string) list"
  search_text :: "(string \<times> string) list \<Rightarrow> string"
  decodeURIComponent :: "string \<Rightarrow> string option"

definition search_get :: "url_api \<Rightarrow> url \<Rightarrow> string \<Rightarrow> string option" where
  "search_get U u name = map_option snd (find (\<lambda>(n, v). n = name) (search_pairs U (url_search u)))"

definition search_delete :: "url_api \<Rightarrow> url \<Rightarrow> string \<Rightarrow> url" where
  "search_delete U u name =
     u\<lparr>url_search := search_text U (filter (\<lambda>(n, v). n \<noteq> name) (search_pairs U (url_search u)))\<rparr>"

definition local_base :: string where
  "local_base = ''https://redbox.local''"

definition rooted :: "string \<Rightarrow> string" where
  "rooted link = (if take 1 link = ''/'' then link else CHR ''/'' # link)"

definition toUrl :: "url_api \<Rightarrow> string \<Rightarrow> http_error + url" where
  "toUrl U link =
     (case url_new U link None of
        Some u \<Rightarrow> Inr u
      | None \<Rightarrow>
          (case url_new U (rooted link) (Some local_base) of
             Some u \<Rightarrow> Inr u
           | None \<Rightarrow> Inl (BadRequest ''Invalid content link'')))"

definition isAbsoluteUrl :: "url_api \<Rightarrow> string \<Rightarrow> bool" where
  "isAbsoluteUrl U link \<longleftrightarrow> url_new U link None \<noteq> None"

definition link_text :: "bool \<Rightarrow> url \<Rightarrow> string" where
  "link_text absolute u = (if absolute then url_href u else url_pathname u @ url_search u @ url_hash u)"

definition sanitizeContentLink :: "url_api \<Rightarrow> string \<Rightarrow> http_error + string" where
  "sanitizeContentLink U link =
     (let isAbsolute = isAbsoluteUrl U link in
      case toUrl U link of
        Inl e \<Rightarrow> Inl e
      | Inr u \<Rightarrow> Inr (link_text isAbsolute (search_delete U u ''password'')))"

record parsed_link =
  pl_contentType :: ReportedContentType
  pl_contentId :: string
  pl_token :: string

fun decode_all :: "url_api \<Rightarrow> string list \<Rightarrow> http_error + string list" where
  "decode_all U [] = Inr []"
| "decode_all U (s # ss) =
     (case decodeURIComponent U s of
        None \<Rightarrow> Inl (Thrown ''URIError'')
      | Some t \<Rightarrow> (case decode_all U ss of Inl e \<Rightarrow> Inl e | Inr ts \<Rightarrow> Inr (t # ts)))"

fun find_index :: "(string list \<Rightarrow> bool) \<Rightarrow> string list \<Rightarrow> nat option" where
  "find_index p [] = None"
| "find_index p (s # ss) = (if p (s # ss) then Some 0 else map_option Suc (find_index p ss))"

definition with_token ::
    "url_api \<Rightarrow> url \<Rightarrow> ReportedContentType \<Rightarrow> string \<Rightarrow> http_error + parsed_link" where
  "with_token U u type contentId =
     (case search_get U u ''token'' of
        Some t \<Rightarrow>
          (if t \<noteq> [] then Inr \<lparr>pl_contentType = type, pl_contentId = contentId, pl_token = t\<rparr>
           else Inl (BadRequest (if type = FILE
             then ''A share token is required in the reported upload link''
             else ''A share token is required in the reported bin link'')))
      | None \<Rightarrow> Inl (BadRequest (if type = FILE
             then ''A share token is required in the reported upload link''
             else ''A share token is required in the reported bin link'')))"

text \<open>A segment past the end is not truthy, as an empty one.\<close>

definition parse_bins :: "string list \<Rightarrow> http_error + parsed_link" where
  "parse_bins segs =
     (case find_index (\<lambda>ss. take 1 ss = [''bins'']) segs of
        Some i \<Rightarrow>
          (if nth_part segs (i + 1) \<noteq> [] \<and> nth_part segs (i + 2) \<noteq> []
           then Inr \<lparr>pl_contentType = BIN, pl_contentId = nth_part segs (i + 1),
                  pl_token = nth_part segs (i + 2)\<rparr>
           else Inl (BadRequest ''Unsupported content link''))
      | None \<Rightarrow> Inl (BadRequest ''Unsupported content link''))"

definition parse_segments :: "url_api \<Rightarrow> url \<Rightarrow> string list \<Rightarrow> http_error + parsed_link" where
  "parse_segments U u segs =
     (if nth_part segs 0 = ''d'' \<and> nth_part segs 1 \<noteq> [] then with_token U u FILE (nth_part segs 1)
      else if nth_part segs 0 = ''b'' \<and> nth_part segs 1 \<noteq> [] then with_token U u BIN (nth_part segs 1)
      else
        (case find_index (\<lambda>ss. take 2 ss = [''files'', ''download'']) segs of
           Some i \<Rightarrow>
             (if nth_part segs (i + 2) \<noteq> [] then with_token U u FILE (nth_part segs (i + 2))
              else parse_bins segs)
         | None \<Rightarrow> parse_bins segs))"

definition path_parts :: "url \<Rightarrow> string list" where
  "path_parts u = filter (\<lambda>s. s \<noteq> []) (split_on (\<lambda>c. c = CHR ''/'') (url_pathname u))"

definition parseContentLink :: "url_api \<Rightarrow> string \<Rightarrow> http_error + parsed_link" where
  "parseContentLink U link =
     (case toUrl U link of
        Inl e \<Rightarrow> Inl e
      | Inr u \<Rightarrow>
          (case decode_all U (path_parts u) of
             Inl e \<Rightarrow> Inl e
           | Inr segs \<Rightarrow> parse_segments U u segs))"

section \<open>Reporting content\<close>

record content_target =
  ct_contentType :: ReportedContentType
  ct_reportedUserId :: string
  ct_fileId :: "string option"
  ct_binId :: "string option"
  ct_filePasswordHash :: "string option"

definition resolveContentTarget :: "url_api \<Rightarrow> time \<Rightarrow> db \<Rightarrow> string \<Rightarrow> http_error + content_target" where
  "resolveContentTarget U t d link =
     (case parseContentLink U link of
        Inl e \<Rightarrow> Inl e
      | Inr parsedLink \<Rightarrow>
          (case pl_contentType parsedLink of
             FILE \<Rightarrow>
               (case find (\<lambda>f. file_id f = pl_contentId parsedLink \<and>
                   file_shareToken f = pl_token parsedLink) (files d) of
                  None \<Rightarrow> Inl (NotFound ''The reported upload could not be found'')
                | Some f \<Rightarrow>
                    if t > file_expiresAt f then Inl (NotFound ''The reported upload could not be found'')
                    else Inr \<lparr>ct_contentType = FILE, ct_reportedUserId = file_userId f,
                           ct_fileId = Some (file_id f), ct_binId = None,
                           ct_filePasswordHash = file_passwordHash f\<rparr>)
           | BIN \<Rightarrow>
               (case find (\<lambda>b. bin_id b = pl_contentId parsedLink \<and>
                   bin_shareToken b = pl_token parsedLink) (bins d) of
                  None \<Rightarrow> Inl (NotFound ''The reported bin could not be found'')
                | Some b \<Rightarrow>
                    if (case bin_expiresAt b of None \<Rightarrow> False | Some e \<Rightarrow> t > e)
                    then Inl (NotFound ''The reported bin could not be found'')
                    else Inr \<lparr>ct_contentType = BIN, ct_reportedUserId = bin_userId b, ct_fileId = None,
                           ct_binId = Some (bin_id b), ct_filePasswordHash = None\<rparr>)))"

definition assertFileReportPasswordIfRequired ::
    "('r, 's) platform \<Rightarrow> content_target \<Rightarrow> string option \<Rightarrow> http_error + unit" where
  "assertFileReportPasswordIfRequired P target contentPassword =
     (if ct_contentType target \<noteq> FILE \<or> \<not> truthy (ct_filePasswordHash target) then Inr ()
      else if \<not> truthy contentPassword
      then Inl (BadRequest ''Content password is required to report a password-protected file'')
      else if \<not> bcrypt_compare P (the contentPassword) (the (ct_filePasswordHash target))
      then Inl (BadRequest ''Content password is incorrect'')
      else Inr ())"

record content_report_dto =
  rd_link :: string
  rd_reason :: string
  rd_reporterEmail :: "string option"
  rd_contentPassword :: "string option"

definition valid_CreateContentReportDto :: "content_report_dto \<Rightarrow> bool" where
  "valid_CreateContentReportDto dto \<longleftrightarrow> rd_link dto \<noteq> [] \<and> length (rd_link dto) \<le> 1000 \<and>
     rd_reason dto \<noteq> [] \<and> length (rd_reason dto) \<le> 2000 \<and>
     (case rd_reporterEmail dto of None \<Rightarrow> True | Some e \<Rightarrow> length e \<le> 255) \<and>
     (case rd_contentPassword dto of None \<Rightarrow> True | Some p \<Rightarrow> 1 \<le> length p \<and> length p \<le> 100)"

definition resolveSubmittedContentPassword ::
    "url_api \<Rightarrow> content_report_dto \<Rightarrow> string \<Rightarrow> http_error + string option" where
  "resolveSubmittedContentPassword U dto link =
     (let submittedPassword = map_option trim (rd_contentPassword dto) in
      if truthy submittedPassword then Inr submittedPassword
      else
        (case toUrl U link of
           Inl e \<Rightarrow> Inl e
         | Inr u \<Rightarrow>
             (let passwordFromLink = map_option trim (search_get U u ''password'') in
              if \<not> truthy passwordFromLink then Inr None
              else if length (the passwordFromLink) > 100
              then Inl (BadRequest ''Content password must have between 1 and 100 characters'')
              else Inr passwordFromLink)))"

definition optional_email :: "string option \<Rightarrow> string option" where
  "optional_email email =
     (let e = map_option (\<lambda>x. to_lower (trim x)) email in if truthy e then e else None)"

definition sealed_password ::
    "('r, 's) platform \<Rightarrow> report_cipher \<Rightarrow> string option \<Rightarrow> ('r, 's) world \<Rightarrow>
     (string option, ('r, 's) world) outcome" where
  "sealed_password P G contentPassword w =
     (if \<not> truthy contentPassword then (Inr None, w)
      else
        (case encryptReportedContentPassword P G (the contentPassword) w of
           (Inl e, w1) \<Rightarrow> (Inl e, w1)
         | (Inr s, w1) \<Rightarrow> (Inr (Some s), w1)))"

definition report_row ::
    "string \<Rightarrow> time \<Rightarrow> content_report_dto \<Rightarrow> content_target \<Rightarrow> string \<Rightarrow> string option \<Rightarrow> contentReport" where
  "report_row i t dto target sanitizedLink encrypted =
     \<lparr>crep_id = i, crep_contentType = ct_contentType target,
      crep_reportedUserId = ct_reportedUserId target, crep_fileId = ct_fileId target,
      crep_binId = ct_binId target, crep_contentLink = sanitizedLink,
      crep_contentPasswordEncrypted = encrypted, crep_reason = trim (rd_reason dto),
      crep_reporterEmail = optional_email (rd_reporterEmail dto), crep_createdAt = t,
      crep_resolvedAt = None, crep_actionTaken = None, crep_resolvedByAdminUserId = None\<rparr>"

definition createContentReport ::
    "('r, 's) platform \<Rightarrow> report_cipher \<Rightarrow> url_api \<Rightarrow> content_report_dto \<Rightarrow> ('r, 's) world \<Rightarrow>
     (string \<times> time, ('r, 's) world) outcome" where
  "createContentReport P G U dto w =
     (let normalizedLink = trim (rd_link dto) in
      case resolveContentTarget U (now w) (db w) normalizedLink of
        Inl e \<Rightarrow> (Inl e, w)
      | Inr target \<Rightarrow>
     (case resolveSubmittedContentPassword U dto normalizedLink of
        Inl e \<Rightarrow> (Inl e, w)
      | Inr contentPassword \<Rightarrow>
     (case assertFileReportPasswordIfRequired P target contentPassword of
        Inl e \<Rightarrow> (Inl e, w)
      | Inr _ \<Rightarrow>
     (case sanitizeContentLink U normalizedLink of
        Inl e \<Rightarrow> (Inl e, w)
      | Inr sanitizedLink \<Rightarrow>
     (case sealed_password P G contentPassword w of
        (Inl e, w1) \<Rightarrow> (Inl e, w1)
      | (Inr encrypted, w1) \<Rightarrow>
          (let (i, w2) = randomUUID P w1
           in (Inr (i, now w), w2\<lparr>db := (db w2)\<lparr>contentReports := contentReports (db w2) @
                 [report_row i (now w) dto target sanitizedLink encrypted]\<rparr>\<rparr>)))))))"

section \<open>Reporting a bug\<close>

record bug_upload =
  bu_originalname :: string
  bu_mimetype :: string
  bu_size :: nat
  bu_buffer :: bytes

record bug_report_dto =
  br_description :: string
  br_contactEmail :: "string option"

definition allowed_type :: "string \<Rightarrow> bool" where
  "allowed_type mimetype \<longleftrightarrow> take 6 mimetype = ''image/'' \<or> take 6 mimetype = ''video/''"

fun assertBugAttachmentsAreValid :: "bug_upload list \<Rightarrow> http_error + unit" where
  "assertBugAttachmentsAreValid [] = Inr ()"
| "assertBugAttachmentsAreValid (a # as) =
     (if bu_mimetype a = [] then Inl (BadRequest ''Each attachment must include a valid MIME type'')
      else if \<not> allowed_type (bu_mimetype a)
      then Inl (BadRequest ''Bug report attachments must be images or videos'')
      else assertBugAttachmentsAreValid as)"

text \<open>File name, type, size and key.\<close>

type_synonym prepared_attachment = "string \<times> string \<times> nat \<times> string"

definition bug_key :: "string \<Rightarrow> string" where
  "bug_key i = ''bug_reports/'' @ i @ ''.bin''"

text \<open>The loop in the \<open>try\<close> block: how it ends and what is uploaded when it does.\<close>

fun upload_bug_attachments ::
    "('r, 's) platform \<Rightarrow> bug_upload list \<Rightarrow> ('r, 's) world \<Rightarrow>
     (http_error + unit) \<times> prepared_attachment list \<times> ('r, 's) world" where
  "upload_bug_attachments P [] w = (Inr (), [], w)"
| "upload_bug_attachments P (a # as) w =
     (let (i, w1) = randomUUID P w;
          (ok, st) = s3_put (store P) filesBucket (bug_key i) (bu_buffer a) (objects w1);
          w2 = w1\<lparr>objects := st\<rparr>
      in if \<not> ok then (Inl (Thrown ''PutObject''), [], w2)
         else
           (let (r, rest, w3) = upload_bug_attachments P as w2
            in (r, (or_text (bu_originalname a) ''attachment'', bu_mimetype a, bu_size a, bug_key i) # rest,
                w3)))"

definition deleteUploadedBugAttachments ::
    "('r, 's) platform \<Rightarrow> string list \<Rightarrow> ('r, 's) world \<Rightarrow> ('r, 's) world" where
  "deleteUploadedBugAttachments P keys w = w\<lparr>objects := s3_delete_all P filesBucket keys (objects w)\<rparr>"

definition prepared_key :: "prepared_attachment \<Rightarrow> string" where
  "prepared_key a = snd (snd (snd a))"

fun createBugAttachments ::
    "('r, 's) platform \<Rightarrow> string \<Rightarrow> prepared_attachment list \<Rightarrow> ('r, 's) world \<Rightarrow> ('r, 's) world" where
  "createBugAttachments P reportId [] w = w"
| "createBugAttachments P reportId ((n, t, s, k) # as) w =
     (let (i, w1) = randomUUID P w;
          row = \<lparr>batt_id = i, batt_bugReportId = reportId, batt_filename = n, batt_mimetype = t,
            batt_size = s, batt_storageKey = k, batt_createdAt = now w\<rparr>
      in createBugAttachments P reportId as
           (w1\<lparr>db := (db w1)\<lparr>bugAttachments := bugAttachments (db w1) @ [row]\<rparr>\<rparr>))"

definition createBugReport ::
    "('r, 's) platform \<Rightarrow> bug_report_dto \<Rightarrow> bug_upload list \<Rightarrow> ('r, 's) world \<Rightarrow>
     (string \<times> time, ('r, 's) world) outcome" where
  "createBugReport P dto attachments w =
     (case assertBugAttachmentsAreValid attachments of
        Inl e \<Rightarrow> (Inl e, w)
      | Inr _ \<Rightarrow>
          (case upload_bug_attachments P attachments w of
             (Inl e, prepared, w1) \<Rightarrow>
               (Inl e, deleteUploadedBugAttachments P (map prepared_key prepared) w1)
           | (Inr _, prepared, w1) \<Rightarrow>
               (let (i, w2) = randomUUID P w1;
                    row = \<lparr>bug_id = i, bug_description = trim (br_description dto),
                      bug_contactEmail = optional_email (br_contactEmail dto), bug_createdAt = now w,
                      bug_resolvedAt = None, bug_actionTaken = None, bug_resolvedByAdminUserId = None\<rparr>
                in (Inr (i, now w), createBugAttachments P i prepared
                      (w2\<lparr>db := (db w2)\<lparr>bugReports := bugReports (db w2) @ [row]\<rparr>\<rparr>)))))"

end
