(* ===== verification/Admin_Reports.thy ===== *)
theory Admin_Reports
  imports Reports
begin

text \<open>
  \<^verbatim>\<open>AdminReportsService\<close> (\<^verbatim>\<open>admin/reports/admin-reports.service.ts\<close>): the
  reviews of reported content and bugs. A decision about a user or a file goes through
  \<^verbatim>\<open>AdminUsersService\<close>. The ISO texts of the answers are kept as times; the order of the
  archive is by ISO text, which for these texts is the order of the times.
\<close>

section \<open>Counts\<close>

definition is_open_report :: "contentReport \<Rightarrow> bool" where
  "is_open_report r \<longleftrightarrow> crep_resolvedAt r = None"

definition is_open_bug :: "bugReport \<Rightarrow> bool" where
  "is_open_bug r \<longleftrightarrow> bug_resolvedAt r = None"

definition getOpenReportsCount :: "db \<Rightarrow> nat" where
  "getOpenReportsCount d =
     count_where is_open_report (contentReports d) + count_where is_open_bug (bugReports d)"

type_synonym history = "(string \<times> (string \<times> nat) list) list"

definition ADMIN_REPORTS_HISTORY :: history where
  "ADMIN_REPORTS_HISTORY =
     [(''24h'', [(''00:00'', 1), (''12:00'', 0), (''23:59'', 3)]),
      (''7d'', [(''Mon'', 5), (''Tue'', 2), (''Wed'', 0), (''Thu'', 1), (''Fri'', 4), (''Sat'', 0),
        (''Sun'', 3)]),
      (''30d'', [(''Week 1'', 15), (''Week 2'', 10), (''Week 3'', 5), (''Week 4'', 8)]),
      (''total'', [(''Jan'', 45), (''Feb'', 30), (''Mar'', 25), (''Apr'', 38)])]"

record reports_summary =
  rs_openReports :: nat
  rs_contentReportsOpen :: nat
  rs_bugReportsOpen :: nat
  rs_archivedReports :: nat
  rs_history :: history

definition getReportsSummary :: "db \<Rightarrow> reports_summary" where
  "getReportsSummary d =
     (let contentReportsOpen = count_where is_open_report (contentReports d);
          contentReportsArchived = count_where (\<lambda>r. \<not> is_open_report r) (contentReports d);
          bugReportsOpen = count_where is_open_bug (bugReports d);
          bugReportsArchived = count_where (\<lambda>r. \<not> is_open_bug r) (bugReports d)
      in \<lparr>rs_openReports = contentReportsOpen + bugReportsOpen,
          rs_contentReportsOpen = contentReportsOpen, rs_bugReportsOpen = bugReportsOpen,
          rs_archivedReports = contentReportsArchived + bugReportsArchived,
          rs_history = ADMIN_REPORTS_HISTORY\<rparr>)"

section \<open>Open reports\<close>

text \<open>Outside a \<open>try\<close> block: a link that cannot be parsed is a \<open>TypeError\<close>.\<close>

definition admin_toUrl :: "url_api \<Rightarrow> string \<Rightarrow> http_error + url" where
  "admin_toUrl U link =
     (case url_new U link None of
        Some u \<Rightarrow> Inr u
      | None \<Rightarrow>
          (case url_new U (rooted link) (Some local_base) of
             Some u \<Rightarrow> Inr u | None \<Rightarrow> Inl (Thrown ''TypeError'')))"

definition buildReviewLink :: "url_api \<Rightarrow> string \<Rightarrow> http_error + string" where
  "buildReviewLink U link =
     (case admin_toUrl U link of
        Inl e \<Rightarrow> Inl e | Inr u \<Rightarrow> Inr (link_text (isAbsoluteUrl U link) u))"

definition hasDecryptionKey :: "url_api \<Rightarrow> string \<Rightarrow> http_error + bool" where
  "hasDecryptionKey U link =
     (case admin_toUrl U link of Inl e \<Rightarrow> Inl e | Inr u \<Rightarrow> Inr (length (url_hash u) > 1))"

definition decryptContentPasswordForAdmin ::
    "('r, 's) platform \<Rightarrow> report_cipher \<Rightarrow> string option \<Rightarrow> http_error + string option" where
  "decryptContentPasswordForAdmin P G encryptedPassword =
     (if \<not> truthy encryptedPassword then Inr None
      else decryptReportedContentPassword P G encryptedPassword)"

record content_report_view =
  crv_id :: string
  crv_username :: string
  crv_uuid :: string
  crv_joinDate :: time
  crv_timestamp :: time
  crv_link :: string
  crv_reviewLink :: string
  crv_rawLink :: string
  crv_hasDecryptionKey :: bool
  crv_fileSize :: nat
  crv_fileCreationDate :: time
  crv_reason :: string
  crv_reporterEmail :: "string option"
  crv_hasContentPassword :: bool
  crv_contentPassword :: "string option"
  crv_contentPasswordAvailable :: bool
  crv_fileId :: "string option"
  crv_contentType :: string

text \<open>Size and date of the file, or else of the bin, or of nothing.\<close>

definition report_resource :: "db \<Rightarrow> contentReport \<Rightarrow> (nat \<times> time) option" where
  "report_resource d r =
     (case find (\<lambda>f. crep_fileId r = Some (file_id f)) (files d) of
        Some f \<Rightarrow> Some (file_size f, file_createdAt f)
      | None \<Rightarrow>
          map_option (\<lambda>b. (bin_size b, bin_createdAt b))
            (find (\<lambda>b. crep_binId r = Some (bin_id b)) (bins d)))"

definition content_type_name :: "ReportedContentType \<Rightarrow> string" where
  "content_type_name t = (case t of FILE \<Rightarrow> ''file'' | BIN \<Rightarrow> ''bin'')"

definition first_id :: "string option \<Rightarrow> string option \<Rightarrow> string option" where
  "first_id a b = (case a of Some i \<Rightarrow> Some i | None \<Rightarrow> b)"

definition content_report_item ::
    "('r, 's) platform \<Rightarrow> report_cipher \<Rightarrow> url_api \<Rightarrow> db \<Rightarrow> contentReport \<Rightarrow>
     http_error + content_report_view" where
  "content_report_item P G U d r =
     (let resource = report_resource d r; owner = the (user_by_id d (crep_reportedUserId r)) in
      case buildReviewLink U (crep_contentLink r) of
        Inl e \<Rightarrow> Inl e
      | Inr reviewLink \<Rightarrow>
     (case decryptContentPasswordForAdmin P G (crep_contentPasswordEncrypted r) of
        Inl e \<Rightarrow> Inl e
      | Inr contentPassword \<Rightarrow>
     (case hasDecryptionKey U (crep_contentLink r) of
        Inl e \<Rightarrow> Inl e
      | Inr key \<Rightarrow>
          Inr \<lparr>crv_id = crep_id r, crv_username = user_username owner, crv_uuid = user_id owner,
            crv_joinDate = user_createdAt owner, crv_timestamp = crep_createdAt r,
            crv_link = reviewLink, crv_reviewLink = reviewLink, crv_rawLink = crep_contentLink r,
            crv_hasDecryptionKey = key,
            crv_fileSize = (case resource of None \<Rightarrow> 0 | Some (n, t) \<Rightarrow> n),
            crv_fileCreationDate = (case resource of None \<Rightarrow> crep_createdAt r | Some (n, t) \<Rightarrow> t),
            crv_reason = crep_reason r, crv_reporterEmail = crep_reporterEmail r,
            crv_hasContentPassword = truthy (crep_contentPasswordEncrypted r),
            crv_contentPassword = contentPassword,
            crv_contentPasswordAvailable = truthy contentPassword,
            crv_fileId = first_id (crep_fileId r) (crep_binId r),
            crv_contentType = content_type_name (crep_contentType r)\<rparr>)))"

text \<open>\<open>map\<close> over rows: the first exception ends the request.\<close>

fun map_or_fail :: "('a \<Rightarrow> 'e + 'b) \<Rightarrow> 'a list \<Rightarrow> 'e + 'b list" where
  "map_or_fail f [] = Inr []"
| "map_or_fail f (x # xs) =
     (case f x of
        Inl e \<Rightarrow> Inl e
      | Inr y \<Rightarrow> (case map_or_fail f xs of Inl e \<Rightarrow> Inl e | Inr ys \<Rightarrow> Inr (y # ys)))"

record reports_query =
  rq_limit :: nat
  rq_offset :: nat
  rq_status :: "string option"

definition selected_reports :: "reports_query \<Rightarrow> db \<Rightarrow> contentReport list" where
  "selected_reports q d =
     page (rq_offset q) (rq_limit q) (order_desc crep_createdAt
       (filter (\<lambda>r. if rq_status q = Some ''archived'' then \<not> is_open_report r else is_open_report r)
         (contentReports d)))"

definition getContentReports ::
    "('r, 's) platform \<Rightarrow> report_cipher \<Rightarrow> url_api \<Rightarrow> reports_query \<Rightarrow> db \<Rightarrow>
     http_error + content_report_view list" where
  "getContentReports P G U q d = map_or_fail (content_report_item P G U d) (selected_reports q d)"

text \<open>\<open>replace(/\s+/g, ' ')\<close>.\<close>

fun compact_spaces :: "string \<Rightarrow> string" where
  "compact_spaces [] = []"
| "compact_spaces (c # cs) =
     (if is_space c
      then (case cs of
              [] \<Rightarrow> '' ''
            | c' # cs' \<Rightarrow> if is_space c' then compact_spaces cs else CHR '' '' # compact_spaces cs)
      else c # compact_spaces cs)"

definition buildBugReportSubject :: "string \<Rightarrow> string" where
  "buildBugReportSubject description =
     (let compactDescription = trim (compact_spaces description) in
      if compactDescription = [] then ''Bug report''
      else if length compactDescription > 80 then take 77 compactDescription @ ''...''
      else compactDescription)"

record bug_attachment_view =
  bav_id :: string
  bav_filename :: string
  bav_mimetype :: string
  bav_size :: nat
  bav_downloadUrl :: string

record bug_report_view =
  brv_id :: string
  brv_subject :: string
  brv_timestamp :: time
  brv_description :: string
  brv_attachments :: "string list"
  brv_attachmentItems :: "bug_attachment_view list"
  brv_reporterEmail :: "string option"

definition bug_report_item :: "db \<Rightarrow> bugReport \<Rightarrow> bug_report_view" where
  "bug_report_item d r =
     (let attachments = sort_key batt_createdAt
            (filter (\<lambda>a. batt_bugReportId a = bug_id r) (bugAttachments d))
      in \<lparr>brv_id = bug_id r, brv_subject = buildBugReportSubject (bug_description r),
          brv_timestamp = bug_createdAt r, brv_description = bug_description r,
          brv_attachments = map batt_filename attachments,
          brv_attachmentItems = map (\<lambda>a.
            \<lparr>bav_id = batt_id a, bav_filename = batt_filename a, bav_mimetype = batt_mimetype a,
             bav_size = batt_size a,
             bav_downloadUrl = ''/admin/reports/bugs/'' @ bug_id r @ ''/attachments/'' @ batt_id a\<rparr>)
            attachments,
          brv_reporterEmail = bug_contactEmail r\<rparr>)"

definition getBugReports :: "nat \<Rightarrow> nat \<Rightarrow> db \<Rightarrow> bug_report_view list" where
  "getBugReports limit offset d =
     map (bug_report_item d) (page offset limit (order_desc bug_createdAt (filter is_open_bug (bugReports d))))"

section \<open>The archive\<close>

record archived_view =
  arv_id :: string
  arv_originalType :: string
  arv_subject :: string
  arv_timestamp :: time
  arv_resolvedBy :: string
  arv_actionTaken :: string

definition or_default :: "'a option \<Rightarrow> 'a \<Rightarrow> 'a" where
  "or_default v other = (case v of None \<Rightarrow> other | Some x \<Rightarrow> x)"

definition archived_content :: "db \<Rightarrow> contentReport \<Rightarrow> archived_view" where
  "archived_content d r =
     \<lparr>arv_id = crep_id r,
      arv_originalType = (if crep_contentType r = FILE then ''Upload report'' else ''Bin report''),
      arv_subject = crep_contentLink r, arv_timestamp = or_default (crep_resolvedAt r) (crep_createdAt r),
      arv_resolvedBy = or_default (admin_name d (crep_resolvedByAdminUserId r)) ''Admin'',
      arv_actionTaken = or_default (crep_actionTaken r) ''Report resolved''\<rparr>"

definition archived_bug :: "db \<Rightarrow> bugReport \<Rightarrow> archived_view" where
  "archived_bug d r =
     \<lparr>arv_id = bug_id r, arv_originalType = ''Bug report'',
      arv_subject = buildBugReportSubject (bug_description r),
      arv_timestamp = or_default (bug_resolvedAt r) (bug_createdAt r),
      arv_resolvedBy = or_default (admin_name d (bug_resolvedByAdminUserId r)) ''Admin'',
      arv_actionTaken = or_default (bug_actionTaken r) ''Bug report resolved''\<rparr>"

definition getArchivedReports :: "nat \<Rightarrow> nat \<Rightarrow> db \<Rightarrow> archived_view list" where
  "getArchivedReports limit offset d =
     page offset limit (order_desc arv_timestamp
       (map (archived_content d) (filter (\<lambda>r. \<not> is_open_report r) (contentReports d)) @
        map (archived_bug d) (filter (\<lambda>r. \<not> is_open_bug r) (bugReports d))))"

section \<open>Attachments of bug reports\<close>

text \<open>The stream of the object; an answer without a body is not found.\<close>

definition downloadBugReportAttachment ::
    "('r, 's) platform \<Rightarrow> string \<Rightarrow> string \<Rightarrow> ('r, 's) world \<Rightarrow>
     (string \<times> string \<times> bytes, ('r, 's) world) outcome" where
  "downloadBugReportAttachment P reportId attachmentId w =
     (case find (\<lambda>a. batt_id a = attachmentId \<and> batt_bugReportId a = reportId) (bugAttachments (db w)) of
        None \<Rightarrow> (Inl (NotFound ''Bug report attachment not found''), w)
      | Some a \<Rightarrow>
          (let (object, st) = s3_get (store P) filesBucket (batt_storageKey a) (objects w);
               w1 = w\<lparr>objects := st\<rparr>
           in case object of
                None \<Rightarrow> (Inl (Thrown ''GetObject''), w1)
              | Some (None, _) \<Rightarrow> (Inl (NotFound ''Bug report attachment file not found''), w1)
              | Some (Some body, _) \<Rightarrow> (Inr (batt_filename a, batt_mimetype a, body), w1)))"

section \<open>Decisions\<close>

definition report_not_found :: http_error where
  "report_not_found = NotFound ''Report not found''"

definition already_archived :: http_error where
  "already_archived = BadRequest ''Report is already archived''"

definition report_of :: "db \<Rightarrow> string \<Rightarrow> contentReport option" where
  "report_of d reportId = find (\<lambda>r. crep_id r = reportId) (contentReports d)"

definition bug_of :: "db \<Rightarrow> string \<Rightarrow> bugReport option" where
  "bug_of d reportId = find (\<lambda>r. bug_id r = reportId) (bugReports d)"

definition findOpenContentReportOrThrow :: "db \<Rightarrow> string \<Rightarrow> http_error + contentReport" where
  "findOpenContentReportOrThrow d reportId =
     (case report_of d reportId of
        None \<Rightarrow> Inl report_not_found
      | Some r \<Rightarrow> if crep_resolvedAt r \<noteq> None then Inl already_archived else Inr r)"

definition buildContentReportAuditMeta :: "contentReport \<Rightarrow> (string \<times> json) list \<Rightarrow> json" where
  "buildContentReportAuditMeta r extra =
     JObj ([(''reportId'', JStr (crep_id r)),
       (''contentType'', JStr (content_type_name (crep_contentType r))),
       (''contentLink'', JStr (crep_contentLink r)), (''fileId'', json_text (crep_fileId r)),
       (''binId'', json_text (crep_binId r))] @ extra)"

definition buildBugReportAuditMeta :: "bugReport \<Rightarrow> json" where
  "buildBugReportAuditMeta r =
     JObj [(''reportId'', JStr (bug_id r)), (''reportType'', JStr ''bug''),
       (''subject'', JStr (buildBugReportSubject (bug_description r)))]"

definition file_already_deleted :: http_error where
  "file_already_deleted = BadRequest ''Reported file has already been deleted''"

definition bin_already_deleted :: http_error where
  "bin_already_deleted = BadRequest ''Reported bin has already been deleted''"

text \<open>The removal itself; the audit entry follows.\<close>

definition remove_reported ::
    "('r, 's) platform \<Rightarrow> string \<Rightarrow> contentReport \<Rightarrow> string \<Rightarrow> ('r, 's) world \<Rightarrow>
     (unit, ('r, 's) world) outcome" where
  "remove_reported P adminUserId report reason w =
     (case crep_contentType report of
        FILE \<Rightarrow>
          (if \<not> truthy (crep_fileId report) then (Inl file_already_deleted, w)
           else
             (case deleteUserFiles P adminUserId (crep_reportedUserId report)
                 [the (crep_fileId report)] reason w of
                (Inl e, w1) \<Rightarrow> (Inl e, w1)
              | (Inr deleted, w1) \<Rightarrow>
                  if deleted = [] then (Inl file_already_deleted, w1) else (Inr (), w1)))
      | BIN \<Rightarrow>
          (if \<not> truthy (crep_binId report) then (Inl bin_already_deleted, w)
           else
             (let p = (\<lambda>b. Some (bin_id b) = crep_binId report \<and> bin_userId b = crep_reportedUserId report) in
              if filter p (bins (db w)) = [] then (Inl bin_already_deleted, w)
              else (Inr (), w\<lparr>db := delete_bins p (db w)\<rparr>))))"

definition deleteReportedContent ::
    "('r, 's) platform \<Rightarrow> string \<Rightarrow> string \<Rightarrow> string \<Rightarrow> ('r, 's) world \<Rightarrow>
     (unit, ('r, 's) world) outcome" where
  "deleteReportedContent P reportId reason adminUserId w =
     (case findOpenContentReportOrThrow (db w) reportId of
        Inl e \<Rightarrow> (Inl e, w)
      | Inr report \<Rightarrow>
          (case remove_reported P adminUserId report reason w of
             (Inl e, w1) \<Rightarrow> (Inl e, w1)
           | (Inr _, w1) \<Rightarrow>
               (Inr (), w1\<lparr>db := admin_log (now w1) adminUserId (Some (crep_reportedUserId report))
                  ''report_content_deleted'' reason
                  (buildContentReportAuditMeta report
                    [(''deletedContentType'', JStr (content_type_name (crep_contentType report))),
                     (''deletedContentId'', json_text (first_id (crep_fileId report) (crep_binId report)))])
                  (db w1)\<rparr>)))"

record ban_reported_dto =
  bd_reason :: string
  bd_duration :: string
  bd_customDays :: "nat option"

definition json_nat :: "nat option \<Rightarrow> json" where
  "json_nat v = (case v of None \<Rightarrow> JNull | Some n \<Rightarrow> JNum (int n))"

definition banReportedUser ::
    "('r, 's) platform \<Rightarrow> string \<Rightarrow> ban_reported_dto \<Rightarrow> string \<Rightarrow> ('r, 's) world \<Rightarrow>
     (unit, ('r, 's) world) outcome" where
  "banReportedUser P reportId dto adminUserId w =
     (case findOpenContentReportOrThrow (db w) reportId of
        Inl e \<Rightarrow> (Inl e, w)
      | Inr report \<Rightarrow>
          (let durationDays = (if bd_duration dto = ''30d'' then Some 30
                 else if bd_duration dto = ''custom'' then bd_customDays dto else None);
               permanent = (bd_duration dto = ''permanent'')
           in case updateUserStatus P adminUserId (crep_reportedUserId report)
                \<lparr>su_status = Banned, su_reason = bd_reason dto, su_permanent = Some permanent,
                 su_durationDays = durationDays\<rparr> w of
                (Inl e, w1) \<Rightarrow> (Inl e, w1)
              | (Inr _, w1) \<Rightarrow>
                  (Inr (), w1\<lparr>db := admin_log (now w1) adminUserId (Some (crep_reportedUserId report))
                     ''report_user_banned'' (bd_reason dto)
                     (buildContentReportAuditMeta report
                       [(''banDuration'', JStr (bd_duration dto)),
                        (''customDays'', (if bd_duration dto = ''custom'' then json_nat (bd_customDays dto) else JNull)),
                        (''durationDays'', json_nat durationDays), (''permanent'', JBool permanent)])
                     (db w1)\<rparr>)))"

definition set_report :: "string \<Rightarrow> (contentReport \<Rightarrow> contentReport) \<Rightarrow> db \<Rightarrow> db" where
  "set_report i f d = d\<lparr>contentReports := update_where (\<lambda>r. crep_id r = i) f (contentReports d)\<rparr>"

definition set_bug :: "string \<Rightarrow> (bugReport \<Rightarrow> bugReport) \<Rightarrow> db \<Rightarrow> db" where
  "set_bug i f d = d\<lparr>bugReports := update_where (\<lambda>r. bug_id r = i) f (bugReports d)\<rparr>"

definition resolveReport ::
    "string \<Rightarrow> string \<Rightarrow> string \<Rightarrow> ('r, 's) world \<Rightarrow> (unit, ('r, 's) world) outcome" where
  "resolveReport reportId reason adminUserId w =
     (case report_of (db w) reportId of
        Some r \<Rightarrow>
          (if crep_resolvedAt r \<noteq> None then (Inl already_archived, w)
           else
             (Inr (), w\<lparr>db := admin_log (now w) adminUserId (Some (crep_reportedUserId r))
                ''report_resolved'' reason (buildContentReportAuditMeta r [])
                (set_report reportId (\<lambda>r. r\<lparr>crep_resolvedAt := Some (now w),
                   crep_actionTaken := Some reason, crep_resolvedByAdminUserId := Some adminUserId\<rparr>)
                  (db w))\<rparr>))
      | None \<Rightarrow>
          (case bug_of (db w) reportId of
             Some b \<Rightarrow>
               (if bug_resolvedAt b \<noteq> None then (Inl already_archived, w)
                else
                  (Inr (), w\<lparr>db := admin_log (now w) adminUserId None ''bug_report_resolved'' reason
                     (buildBugReportAuditMeta b)
                     (set_bug reportId (\<lambda>b. b\<lparr>bug_resolvedAt := Some (now w),
                        bug_actionTaken := Some reason, bug_resolvedByAdminUserId := Some adminUserId\<rparr>)
                       (db w))\<rparr>))
           | None \<Rightarrow> (Inl report_not_found, w)))"

definition already_open :: http_error where
  "already_open = BadRequest ''Report is already open''"

definition reopenReport ::
    "string \<Rightarrow> string \<Rightarrow> string \<Rightarrow> ('r, 's) world \<Rightarrow> (unit, ('r, 's) world) outcome" where
  "reopenReport reportId reason adminUserId w =
     (case report_of (db w) reportId of
        Some r \<Rightarrow>
          (if crep_resolvedAt r = None then (Inl already_open, w)
           else
             (Inr (), w\<lparr>db := admin_log (now w) adminUserId (Some (crep_reportedUserId r))
                ''report_reopened'' reason (buildContentReportAuditMeta r [])
                (set_report reportId (\<lambda>r. r\<lparr>crep_resolvedAt := None, crep_actionTaken := None,
                   crep_resolvedByAdminUserId := None\<rparr>) (db w))\<rparr>))
      | None \<Rightarrow>
          (case bug_of (db w) reportId of
             Some b \<Rightarrow>
               (if bug_resolvedAt b = None then (Inl already_open, w)
                else
                  (Inr (), w\<lparr>db := admin_log (now w) adminUserId None ''bug_report_reopened'' reason
                     (buildBugReportAuditMeta b)
                     (set_bug reportId (\<lambda>b. b\<lparr>bug_resolvedAt := None, bug_actionTaken := None,
                        bug_resolvedByAdminUserId := None\<rparr>) (db w))\<rparr>))
           | None \<Rightarrow> (Inl report_not_found, w)))"

end
