(* ===== verification/Report_Properties.thy ===== *)
theory Report_Properties
  imports Admin_Reports Mail_Sample
begin

text \<open>
  Reports: what is stored is about content that is there, the link carries no password, the password
  reaches the review as it was submitted; what the review decides about the content happens to it
  alone; archiving and reopening a report are inverse.
\<close>

section \<open>base64url\<close>

lemma alphabet:
  "distinct base64url_alphabet" "length base64url_alphabet = 64"
  "set base64url_alphabet \<inter> {CHR ''='', CHR ''.'', CHR ''+'', CHR ''/''} = {}"
  by (simp_all add: base64url_alphabet_def)

lemma takeWhile_nth: "distinct xs \<Longrightarrow> n < length xs \<Longrightarrow> length (takeWhile (\<lambda>x. x \<noteq> xs ! n) xs) = n"
proof (induction xs arbitrary: n)
  case (Cons x xs)
  then show ?case by (cases n) auto
qed simp

lemma base64url_char_safe:
  assumes "n < 64"
  shows "base64url_char n \<notin> {CHR ''='', CHR ''.'', CHR ''+'', CHR ''/''}"
proof -
  have "base64url_char n \<in> set base64url_alphabet" using assms alphabet(2) by (simp add: base64url_char_def)
  then show ?thesis using alphabet(3) by blast
qed

lemma base64_value_char: "n < 64 \<Longrightarrow> base64_value (base64url_char n) = Some n"
  using base64url_char_safe [of n] takeWhile_nth [OF alphabet(1), of n] alphabet(2)
  by (simp add: base64_value_def base64url_char_def Let_def)

lemma base64url_digits_less: "d \<in> set (base64url_digits bs) \<Longrightarrow> d < 64"
proof (induction bs rule: base64url_digits.induct)
  case (4 a b c bs)
  then show ?case using unat_byte_less [of a] unat_byte_less [of b] unat_byte_less [of c] by auto
next
  case (3 a b)
  then show ?case using unat_byte_less [of a] unat_byte_less [of b] by auto
next
  case (2 a)
  then show ?case using unat_byte_less [of a] by auto
qed simp

lemma three_bytes:
  fixes a b c :: nat
  assumes "a < 256" "b < 256" "c < 256"
  shows "a div 4 * 4 + (a mod 4 * 16 + b div 16) div 16 = a"
    "(a mod 4 * 16 + b div 16) mod 16 * 16 + (b mod 16 * 4 + c div 64) div 4 = b"
    "(b mod 16 * 4 + c div 64) mod 4 * 64 + c mod 64 = c"
proof -
  have "(a mod 4 * 16 + b div 16) div 16 = a mod 4" using assms(2) by (simp add: less_mult_imp_div_less)
  then show "a div 4 * 4 + (a mod 4 * 16 + b div 16) div 16 = a" by simp
  have "(a mod 4 * 16 + b div 16) mod 16 = b div 16"
    using assms(2) by (simp add: mod_less less_mult_imp_div_less)
  moreover have "(b mod 16 * 4 + c div 64) div 4 = b mod 16"
    using assms(3) by (simp add: less_mult_imp_div_less)
  ultimately show "(a mod 4 * 16 + b div 16) mod 16 * 16 + (b mod 16 * 4 + c div 64) div 4 = b" by simp
  have "(b mod 16 * 4 + c div 64) mod 4 = c div 64" using assms(3) by (simp add: less_mult_imp_div_less)
  then show "(b mod 16 * 4 + c div 64) mod 4 * 64 + c mod 64 = c" by simp
qed

lemma bytes_of_digits: "bytes_of_digits (base64url_digits bs) = bs"
proof (induction bs rule: base64url_digits.induct)
  case (4 a b c bs)
  then show ?case
    using three_bytes [OF unat_byte_less [of a] unat_byte_less [of b] unat_byte_less [of c]] by simp
next
  case (3 a b)
  then show ?case using three_bytes [OF unat_byte_less [of a] unat_byte_less [of b], of 0] by simp
next
  case (2 a)
  then show ?case using three_bytes [OF unat_byte_less [of a], of 0 0] by simp
qed simp

lemma unbase64url_base64url [simp]: "unbase64url (base64url bs) = bs"
proof -
  have safe: "c \<noteq> CHR ''='' \<and> base64_value c \<noteq> None" if "c \<in> set (base64url bs)" for c
  proof -
    obtain n where "n < 64" "c = base64url_char n"
      using \<open>c \<in> set (base64url bs)\<close> base64url_digits_less by (auto simp: base64url_def)
    then show ?thesis using base64url_char_safe [of n] base64_value_char by simp
  qed
  have "takeWhile (\<lambda>c. c \<noteq> CHR ''='') (base64url bs) = base64url bs"
    using safe by (intro takeWhile_eq_all_conv [THEN iffD2]) blast
  moreover have "filter (\<lambda>c. base64_value c \<noteq> None) (base64url bs) = base64url bs"
    using safe by (intro filter_True) blast
  moreover have "map (the \<circ> base64_value) (base64url bs) = base64url_digits bs"
    using base64url_digits_less base64_value_char by (auto simp: base64url_def map_idI)
  ultimately show ?thesis by (simp only: unbase64url_def bytes_of_digits)
qed

lemma base64url_nonempty: "base64url bs = [] \<longleftrightarrow> bs = []"
  by (induction bs rule: base64url_digits.induct) (simp_all add: base64url_def)

lemma base64url_no_dot: "CHR ''.'' \<notin> set (base64url bs)"
proof
  assume "CHR ''.'' \<in> set (base64url bs)"
  then obtain n where "n < 64" "CHR ''.'' = base64url_char n"
    using base64url_digits_less by (auto simp: base64url_def)
  then show False using base64url_char_safe [of n] by simp
qed

lemma split_on_append:
  assumes "\<forall>c \<in> set xs. \<not> p c" "p d"
  shows "split_on p (xs @ d # ys) = xs # split_on p ys"
  using assms by (induction xs) auto

lemma split_on_none: "\<forall>c \<in> set xs. \<not> p c \<Longrightarrow> split_on p xs = [xs]"
  by (induction xs) auto

section \<open>The password\<close>

text \<open>What the code relies on of AES-256-GCM: a ciphertext of the length of the text, a tag that is
  not empty, and decryption that undoes encryption.\<close>

definition report_cipher_ok :: "report_cipher \<Rightarrow> bool" where
  "report_cipher_ok G \<longleftrightarrow> (\<forall>key iv data. case gcm_seal G key iv data of (encrypted, tag) \<Rightarrow>
     length encrypted = length data \<and> tag \<noteq> [] \<and> gcm_open G key iv tag encrypted = Some data)"

definition text_encoding :: "('r, 's) platform \<Rightarrow> bool" where
  "text_encoding P \<longleftrightarrow> (\<forall>s. utf8_text P (utf8 P s) = s \<and> (utf8 P s = [] \<longrightarrow> s = []))"

definition random_length :: "('r, 's) platform \<Rightarrow> bool" where
  "random_length P \<longleftrightarrow> (\<forall>i n. length (randomBytes P i n) = n)"

lemma encrypt_then_decrypt:
  assumes "report_cipher_ok G" "text_encoding P" "random_length P" "pw \<noteq> []"
    and "encryptReportedContentPassword P G pw w = (Inr s, w')"
  shows "decryptReportedContentPassword P G (Some s) = Inr (Some pw)" "s \<noteq> []"
    "w' = w\<lparr>draws := Suc (draws w)\<rparr>"
proof -
  obtain key where key: "getReportPasswordSecret P = Inr key"
    using assms(5) by (auto simp: encryptReportedContentPassword_def randomBytesOf_def split: sum.splits)
  define iv where "iv = randomBytes P (draws w) 12"
  obtain encrypted tag where g: "gcm_seal G key iv (utf8 P pw) = (encrypted, tag)" by fastforce
  have s: "s = base64url iv @ ''.'' @ base64url tag @ ''.'' @ base64url encrypted"
    and w': "w' = w\<lparr>draws := Suc (draws w)\<rparr>"
    using assms(5) key g by (auto simp: encryptReportedContentPassword_def randomBytesOf_def iv_def)
  have ok: "length encrypted = length (utf8 P pw)" "tag \<noteq> []" "gcm_open G key iv tag encrypted = Some (utf8 P pw)"
    using assms(1) [unfolded report_cipher_ok_def, rule_format, of "utf8 P pw" key iv] by (simp_all add: g)
  have "utf8 P pw \<noteq> []" using assms(2,4) by (auto simp: text_encoding_def)
  then have ne: "encrypted \<noteq> []" using ok(1) by force
  have iv: "iv \<noteq> []"
    using assms(3) unfolding random_length_def iv_def by (metis list.size(3) zero_neq_numeral)
  have nodot: "\<forall>c \<in> set (base64url bs). \<not> c = CHR ''.''" for bs using base64url_no_dot [of bs] by auto
  have "split_on (\<lambda>c. c = CHR ''.'') s = [base64url iv, base64url tag, base64url encrypted]"
    unfolding s using nodot by (simp add: split_on_append split_on_none)
  then show "decryptReportedContentPassword P G (Some s) = Inr (Some pw)"
    using key ok ne iv assms(2)
    by (simp add: decryptReportedContentPassword_def truthy_def nth_part_def base64url_nonempty text_encoding_def s)
  show "s \<noteq> []" by (simp add: s)
  show "w' = w\<lparr>draws := Suc (draws w)\<rparr>" by (rule w')
qed

section \<open>What a report is about\<close>

lemma with_token_get:
  "with_token U u type i = Inr p \<Longrightarrow>
     pl_contentType p = type \<and> search_get U u ''token'' = Some (pl_token p)"
  by (auto simp: with_token_def split: option.splits if_splits)

lemma parse_bins_type: "parse_bins segs = Inr p \<Longrightarrow> pl_contentType p = BIN"
  by (auto simp: parse_bins_def split: option.splits if_splits)

lemma parse_segments_token:
  assumes "parse_segments U u segs = Inr p" "pl_contentType p = FILE"
  shows "search_get U u ''token'' = Some (pl_token p)"
  using assms by (auto simp: parse_segments_def dest: with_token_get parse_bins_type split: option.splits if_splits)

text \<open>The reported file or bin is there, not expired and belongs to the reported user.\<close>

definition about_file :: "time \<Rightarrow> db \<Rightarrow> content_target \<Rightarrow> file_row \<Rightarrow> bool" where
  "about_file t d c f \<longleftrightarrow> f \<in> set (files d) \<and> t \<le> file_expiresAt f \<and> ct_contentType c = FILE \<and>
     ct_fileId c = Some (file_id f) \<and> ct_binId c = None \<and> ct_reportedUserId c = file_userId f \<and>
     ct_filePasswordHash c = file_passwordHash f"

definition about_bin :: "time \<Rightarrow> db \<Rightarrow> content_target \<Rightarrow> bin_row \<Rightarrow> bool" where
  "about_bin t d c b \<longleftrightarrow> b \<in> set (bins d) \<and> (\<forall>e. bin_expiresAt b = Some e \<longrightarrow> t \<le> e) \<and>
     ct_contentType c = BIN \<and> ct_fileId c = None \<and> ct_binId c = Some (bin_id b) \<and>
     ct_reportedUserId c = bin_userId b"

lemma resolve_target:
  assumes "resolveContentTarget U t d link = Inr c"
  obtains u where "toUrl U link = Inr u"
    "(\<exists>f. about_file t d c f \<and> search_get U u ''token'' = Some (file_shareToken f)) \<or> (\<exists>b. about_bin t d c b)"
proof -
  from assms obtain p where p: "parseContentLink U link = Inr p"
    by (auto simp: resolveContentTarget_def split: sum.splits)
  then obtain u segs where u: "toUrl U link = Inr u" "parse_segments U u segs = Inr p"
    by (auto simp: parseContentLink_def split: sum.splits)
  have "(\<exists>f. about_file t d c f \<and> search_get U u ''token'' = Some (file_shareToken f)) \<or> (\<exists>b. about_bin t d c b)"
  proof (cases "pl_contentType p")
    case FILE
    then obtain f where "find (\<lambda>f. file_id f = pl_contentId p \<and> file_shareToken f = pl_token p) (files d) = Some f"
      "\<not> file_expiresAt f < t" "c = \<lparr>ct_contentType = FILE, ct_reportedUserId = file_userId f,
         ct_fileId = Some (file_id f), ct_binId = None, ct_filePasswordHash = file_passwordHash f\<rparr>"
      using assms p by (auto simp: resolveContentTarget_def split: option.splits if_splits)
    then have "about_file t d c f" "file_shareToken f = pl_token p"
      by (auto simp: about_file_def dest: find_Some_mem)
    then show ?thesis using parse_segments_token [OF u(2) FILE] by auto
  next
    case BIN
    then obtain b where "find (\<lambda>b. bin_id b = pl_contentId p \<and> bin_shareToken b = pl_token p) (bins d) = Some b"
      "\<not> (case bin_expiresAt b of None \<Rightarrow> False | Some e \<Rightarrow> t > e)"
      "c = \<lparr>ct_contentType = BIN, ct_reportedUserId = bin_userId b, ct_fileId = None,
         ct_binId = Some (bin_id b), ct_filePasswordHash = None\<rparr>"
      using assms p by (auto simp: resolveContentTarget_def split: option.splits if_splits)
    then have "about_bin t d c b" by (auto simp: about_bin_def dest: find_Some_mem)
    then show ?thesis by blast
  qed
  then show thesis using that u(1) by blast
qed

text \<open>What is stored of a report, given its target and the submitted password.\<close>

definition stored_report ::
    "('r, 's) platform \<Rightarrow> report_cipher \<Rightarrow> url_api \<Rightarrow> content_report_dto \<Rightarrow> content_target \<Rightarrow>
     string option \<Rightarrow> contentReport \<Rightarrow> bool" where
  "stored_report P G U dto c password row \<longleftrightarrow>
     crep_reportedUserId row = ct_reportedUserId c \<and> crep_contentType row = ct_contentType c \<and>
     crep_fileId row = ct_fileId c \<and> crep_binId row = ct_binId c \<and> crep_resolvedAt row = None \<and>
     sanitizeContentLink U (trim (rd_link dto)) = Inr (crep_contentLink row) \<and>
     decryptReportedContentPassword P G (crep_contentPasswordEncrypted row) = Inr password"

lemma submitted_nonempty:
  "resolveSubmittedContentPassword U dto link = Inr (Some pw) \<Longrightarrow> pw \<noteq> []"
  by (auto simp: resolveSubmittedContentPassword_def truthy_def Let_def split: if_splits sum.splits option.splits)

lemma sealed_password_cases:
  assumes "report_cipher_ok G" "text_encoding P" "random_length P" "\<And>pw. password = Some pw \<Longrightarrow> pw \<noteq> []"
    and "sealed_password P G password w = (r, w')"
  shows "db w' = db w" "r = Inr s \<Longrightarrow> decryptReportedContentPassword P G s = Inr password"
proof -
  show "db w' = db w"
    using assms(5) by (auto simp: sealed_password_def encryptReportedContentPassword_def randomBytesOf_def
        split: if_splits sum.splits prod.splits)
  show "decryptReportedContentPassword P G s = Inr password" if rs: "r = Inr s"
  proof (cases password)
    case None
    then show ?thesis using assms(5) rs by (simp add: sealed_password_def truthy_def decryptReportedContentPassword_def)
  next
    case (Some pw)
    then obtain s' where "encryptReportedContentPassword P G pw w = (Inr s', w')" "s = Some s'"
      using assms(4,5) rs by (auto simp: sealed_password_def truthy_def split: sum.splits prod.splits)
    then show ?thesis using encrypt_then_decrypt(1) [OF assms(1-3)] assms(4) Some by blast
  qed
qed

section \<open>Properties\<close>


lemma trim_idem: "trim (trim s) = trim s"
proof -
  define y where "y = dropWhile is_space s"
  define t where "t = trim s"
  have t: "t = rev (dropWhile is_space (rev y))" by (simp add: t_def y_def trim_def)
  have y: "y = t @ rev (takeWhile is_space (rev y))"
    unfolding t by (metis rev_append rev_rev_ident takeWhile_dropWhile_id)
  have "dropWhile is_space t = t"
  proof (cases t)
    case (Cons c cs)
    then have "dropWhile is_space s = c # (cs @ rev (takeWhile is_space (rev y)))"
      using y by (simp add: y_def)
    then have "\<not> is_space c" by (rule dropWhile_hd_not)
    then show ?thesis using Cons by simp
  qed simp
  then have "trim t = rev (dropWhile is_space (rev t))" by (simp add: trim_def)
  also have "\<dots> = t" unfolding t by simp
  finally show ?thesis by (simp only: t_def)
qed

text \<open>A file whose password starts or ends with a space cannot be reported: the submitted password
  is trimmed before it is compared.\<close>

lemma trimmed_password_refused:
  assumes "\<And>p. bcrypt_compare P p h \<longleftrightarrow> p = pw" "trim pw \<noteq> pw"
    and "resolveContentTarget U (now w) (db w) (trim (rd_link dto)) = Inr c"
    and "ct_contentType c = FILE" "ct_filePasswordHash c = Some h" "h \<noteq> []"
  shows "\<exists>e. createContentReport P G U dto w = (Inl e, w)"
proof -
  have "trim p \<noteq> pw" for p using assms(2) trim_idem [of p] by metis
  then have "password \<noteq> Some pw"
    if "resolveSubmittedContentPassword U dto (trim (rd_link dto)) = Inr password" for password
    using that by (auto simp: resolveSubmittedContentPassword_def Let_def split: if_splits sum.splits)
  then have "\<exists>e. assertFileReportPasswordIfRequired P c password = Inl e"
    if "resolveSubmittedContentPassword U dto (trim (rd_link dto)) = Inr password" for password
    using that assms(1,4-6)
    by (cases password) (auto simp: assertFileReportPasswordIfRequired_def truthy_def)
  then show ?thesis
    using assms(3) by (fastforce simp: createContentReport_def Let_def split: sum.splits)
qed

text \<open>One report of the page whose password does not decrypt, as after a change of the secret, hides
  the whole page.\<close>

lemma map_or_fail_Inl: "x \<in> set xs \<Longrightarrow> f x = Inl e \<Longrightarrow> \<exists>e'. map_or_fail f xs = Inl e'"
  by (induction xs) (auto split: sum.splits)

lemma one_report_hides_page:
  assumes "r \<in> set (selected_reports q d)" "truthy (crep_contentPasswordEncrypted r)"
    and "decryptReportedContentPassword P G (crep_contentPasswordEncrypted r) = Inl e"
  shows "\<exists>e'. getContentReports P G U q d = Inl e'"
proof -
  have "decryptContentPasswordForAdmin P G (crep_contentPasswordEncrypted r) = Inl e"
    using assms(2,3) by (simp add: decryptContentPasswordForAdmin_def)
  note failed = this
  have "\<exists>e'. content_report_item P G U d r = Inl e'"
  proof (cases "buildReviewLink U (crep_contentLink r)")
    case (Inl e')
    then show ?thesis unfolding content_report_item_def Let_def Inl sum.case by blast
  next
    case (Inr link)
    then show ?thesis unfolding content_report_item_def Let_def Inr failed sum.case by blast
  qed
  then obtain e' where "content_report_item P G U d r = Inl e'" by (rule exE)
  then show ?thesis unfolding getContentReports_def by (rule map_or_fail_Inl [OF assms(1)])
qed

text \<open>A malformed escape in the path is an exception, not a bad request.\<close>

lemma decode_all_fails: "s \<in> set ss \<Longrightarrow> decodeURIComponent U s = None \<Longrightarrow> decode_all U ss = Inl (Thrown ''URIError'')"
  by (induction ss) (auto split: option.splits)

lemma malformed_escape_fails:
  assumes "toUrl U (trim (rd_link dto)) = Inr u" "s \<in> set (path_parts u)" "decodeURIComponent U s = None"
  shows "createContentReport P G U dto w = (Inl (Thrown ''URIError''), w)"
  using assms decode_all_fails [OF assms(2,3)]
  by (simp add: createContentReport_def resolveContentTarget_def parseContentLink_def)

section \<open>Decisions\<close>

lemma delete_files_reports:
  "contentReports (delete_files p d) = update_where
     (\<lambda>r. case crep_fileId r of None \<Rightarrow> False | Some i \<Rightarrow> i \<in> set (map file_id (filter p (files d))))
     (\<lambda>r. r\<lparr>crep_fileId := None\<rparr>) (contentReports d)"
  by (simp add: delete_files_def Let_def)

lemma delete_bins_reports:
  "contentReports (delete_bins p d) = update_where
     (\<lambda>r. case crep_binId r of None \<Rightarrow> False | Some i \<Rightarrow> i \<in> set (map bin_id (filter p (bins d))))
     (\<lambda>r. r\<lparr>crep_binId := None\<rparr>) (contentReports d)"
  by (simp add: delete_bins_def Let_def)

lemma admin_audit_tables [simp]:
  "contentReports (admin_audit t a u ac p n why m d) = contentReports d"
  "files (admin_audit t a u ac p n why m d) = files d" "bins (admin_audit t a u ac p n why m d) = bins d"
  "users (admin_audit t a u ac p n why m d) = users d"
  by (simp_all add: admin_audit_def createAuditLog_def appendAudit_def)

definition reported_file :: "contentReport \<Rightarrow> file_row \<Rightarrow> bool" where
  "reported_file r f \<longleftrightarrow> crep_contentType r = FILE \<and> crep_fileId r = Some (file_id f)"

definition reported_bin :: "contentReport \<Rightarrow> bin_row \<Rightarrow> bool" where
  "reported_bin r b \<longleftrightarrow> crep_contentType r = BIN \<and> crep_binId r = Some (bin_id b)"

lemma report_of_update:
  assumes "\<And>r. crep_id (f r) = crep_id r" "report_of d i = Some r"
    and "contentReports d' = update_where p f (contentReports d)"
  shows "report_of d' i = Some (if p r then f r else r)"
  using assms(2) unfolding report_of_def assms(3) by (subst find_update_where) (simp_all add: assms(1))

lemma removed_file:
  assumes "crep_contentType report = FILE" "remove_reported P adminId report why w = (r, w1)"
  shows "case r of
      Inl e \<Rightarrow> w1 = w
    | Inr _ \<Rightarrow> \<exists>i. crep_fileId report = Some i \<and>
        files (db w1) = delete_where (\<lambda>f. file_id f = i \<and> file_userId f = crep_reportedUserId report) (files (db w)) \<and>
        bins (db w1) = bins (db w) \<and> users (db w1) = users (db w) \<and>
        (\<exists>f \<in> set (files (db w)). file_id f = i \<and> file_userId f = crep_reportedUserId report) \<and>
        contentReports (db w1) = update_where (\<lambda>r. crep_fileId r = Some i)
          (\<lambda>r. r\<lparr>crep_fileId := None\<rparr>) (contentReports (db w))"
proof (cases "truthy (crep_fileId report)")
  case False
  then show ?thesis using assms by (auto simp: remove_reported_def)
next
  case True
  then obtain i where i: "crep_fileId report = Some i" by (auto simp: truthy_def split: option.splits)
  let ?p = "\<lambda>f. file_id f = i \<and> file_userId f = crep_reportedUserId report"
  show ?thesis
  proof (cases "findUserOrThrow (db w) (crep_reportedUserId report)")
    case (Inl e)
    then show ?thesis using assms True by (auto simp: remove_reported_def deleteUserFiles_def i)
  next
    case (Inr u)
    show ?thesis
    proof (cases "filter ?p (files (db w)) = []")
      case True
      then show ?thesis
        using assms Inr \<open>truthy _\<close> by (auto simp: remove_reported_def deleteUserFiles_def i Let_def)
    next
      case False
      have ids: "set (map file_id (filter ?p (files (db w)))) = {i}" using False by (auto simp: filter_empty_conv)
      have p: "(\<lambda>f. file_id f \<in> set (map file_id (filter ?p (files (db w)))) \<and>
          file_userId f = crep_reportedUserId report) = ?p" unfolding ids by simp
      define meta where "meta = JObj [(''fileIds'', JList (map JStr (map file_id (filter ?p (files (db w))))))]"
      have q: "(\<lambda>f. file_id f \<in> set [i] \<and> file_userId f = crep_reportedUserId report) = ?p" by simp
      have "\<exists>w2. deleteUserFiles P adminId (crep_reportedUserId report) [i] why w =
          (Inr (map file_id (filter ?p (files (db w)))), w2) \<and>
          db w2 = admin_audit (now w) adminId (crep_reportedUserId report) ''user_files_deleted'' None None why meta
            (delete_files ?p (db w))"
        unfolding deleteUserFiles_def Inr sum.case Let_def q p if_not_P [OF False] meta_def
        by (simp add: deleteS3Objects_frame)
      moreover have "map file_id (filter ?p (files (db w))) \<noteq> []" using False by simp
      ultimately have "r = Inr ()" "db w1 = admin_audit (now w) adminId (crep_reportedUserId report)
          ''user_files_deleted'' None None why meta (delete_files ?p (db w))"
        using assms \<open>truthy _\<close> unfolding remove_reported_def i by (auto simp del: map_is_Nil_conv)
      moreover have "contentReports (delete_files ?p (db w)) = update_where (\<lambda>r. crep_fileId r = Some i)
          (\<lambda>r. r\<lparr>crep_fileId := None\<rparr>) (contentReports (db w))"
        unfolding delete_files_reports ids by (simp add: update_where_def cong: option.case_cong)
          (auto split: option.splits)
      ultimately show ?thesis using False by (auto simp: i filter_empty_conv)
    qed
  qed
qed

lemma removed_bin:
  assumes "crep_contentType report = BIN" "remove_reported P adminId report why w = (r, w1)"
  shows "case r of
      Inl e \<Rightarrow> w1 = w
    | Inr _ \<Rightarrow> \<exists>i. crep_binId report = Some i \<and>
        bins (db w1) = delete_where (\<lambda>b. bin_id b = i \<and> bin_userId b = crep_reportedUserId report) (bins (db w)) \<and>
        files (db w1) = files (db w) \<and> users (db w1) = users (db w) \<and>
        (\<exists>b \<in> set (bins (db w)). bin_id b = i \<and> bin_userId b = crep_reportedUserId report) \<and>
        contentReports (db w1) = update_where (\<lambda>r. crep_binId r = Some i)
          (\<lambda>r. r\<lparr>crep_binId := None\<rparr>) (contentReports (db w))"
proof (cases "truthy (crep_binId report)")
  case False
  then show ?thesis using assms by (auto simp: remove_reported_def)
next
  case True
  then obtain i where i: "crep_binId report = Some i" by (auto simp: truthy_def split: option.splits)
  let ?p = "\<lambda>b. bin_id b = i \<and> bin_userId b = crep_reportedUserId report"
  have p: "(\<lambda>b. Some (bin_id b) = Some i \<and> bin_userId b = crep_reportedUserId report) = ?p" by simp
  note run = assms(2) [unfolded remove_reported_def assms(1) ReportedContentType.case Let_def i p]
  show ?thesis
  proof (cases "filter ?p (bins (db w)) = []")
    case True
    then show ?thesis using run \<open>truthy _\<close> by (auto simp: i)
  next
    case False
    have ids: "set (map bin_id (filter ?p (bins (db w)))) = {i}" using False by (auto simp: filter_empty_conv)
    have "r = Inr ()" "db w1 = delete_bins ?p (db w)" using run \<open>truthy _\<close> False by (auto simp: i)
    moreover have "contentReports (delete_bins ?p (db w)) = update_where (\<lambda>r. crep_binId r = Some i)
        (\<lambda>r. r\<lparr>crep_binId := None\<rparr>) (contentReports (db w))"
      unfolding delete_bins_reports ids by (simp add: update_where_def cong: option.case_cong)
        (auto split: option.splits)
    ultimately show ?thesis using False by (auto simp: i filter_empty_conv)
  qed
qed

lemma find_open_report:
  "findOpenContentReportOrThrow d i = Inr r \<longleftrightarrow> report_of d i = Some r \<and> crep_resolvedAt r = None"
  by (auto simp: findOpenContentReportOrThrow_def split: option.splits)

text \<open>C38. The deletion of reported content removes the reported file or bin of the reported user and
  no other row; the report stays open and loses its reference, so that a second attempt is refused
  and changes nothing. A deletion that is refused leaves the tables as they were.\<close>

theorem reported_content_deleted:
  assumes "deleteReportedContent P rid why adminId w = (r, w')"
  shows "case r of
      Inl e \<Rightarrow> db w' = db w
    | Inr _ \<Rightarrow> \<exists>report. report_of (db w) rid = Some report \<and> crep_resolvedAt report = None \<and>
        files (db w') = delete_where (\<lambda>f. reported_file report f \<and> file_userId f = crep_reportedUserId report)
          (files (db w)) \<and>
        bins (db w') = delete_where (\<lambda>b. reported_bin report b \<and> bin_userId b = crep_reportedUserId report)
          (bins (db w)) \<and>
        users (db w') = users (db w) \<and>
        ((\<exists>f \<in> set (files (db w)). reported_file report f) \<or> (\<exists>b \<in> set (bins (db w)). reported_bin report b)) \<and>
        (\<exists>e. deleteReportedContent P rid why2 admin2 w' = (Inl (BadRequest e), w'))"
proof (cases "\<exists>report w1. findOpenContentReportOrThrow (db w) rid = Inr report \<and>
    remove_reported P adminId report why w = (Inr (), w1)")
  case False
  have "\<exists>e. r = Inl e \<and> db w' = db w"
  proof (cases "findOpenContentReportOrThrow (db w) rid")
    case (Inr report)
    obtain r1 w1 where rm: "remove_reported P adminId report why w = (r1, w1)" by fastforce
    then obtain e where "r1 = Inl e" using False Inr by (cases r1) auto
    then show ?thesis
      using assms Inr rm removed_file [OF _ rm] removed_bin [OF _ rm]
      by (cases "crep_contentType report") (auto simp: deleteReportedContent_def)
  qed (use assms in \<open>auto simp: deleteReportedContent_def\<close>)
  then show ?thesis by auto
next
  case True
  then obtain report w1 where report: "findOpenContentReportOrThrow (db w) rid = Inr report"
    and rm: "remove_reported P adminId report why w = (Inr (), w1)" by blast
  obtain ac m where w': "r = Inr ()" "w' = w1\<lparr>db := admin_log (now w1) adminId (Some (crep_reportedUserId report)) ac why m (db w1)\<rparr>"
    using assms report rm by (auto simp: deleteReportedContent_def)
  have open_report: "report_of (db w) rid = Some report" "crep_resolvedAt report = None"
    using report by (simp_all add: find_open_report)
  show ?thesis
  proof (cases "crep_contentType report")
    case FILE
    from removed_file [OF FILE rm] obtain i where i: "crep_fileId report = Some i"
      "files (db w1) = delete_where (\<lambda>f. file_id f = i \<and> file_userId f = crep_reportedUserId report) (files (db w))"
      "bins (db w1) = bins (db w)" "users (db w1) = users (db w)"
      "\<exists>f \<in> set (files (db w)). file_id f = i \<and> file_userId f = crep_reportedUserId report"
      "contentReports (db w1) = update_where (\<lambda>r. crep_fileId r = Some i) (\<lambda>r. r\<lparr>crep_fileId := None\<rparr>) (contentReports (db w))"
      by auto
    have "report_of (db w') rid = Some (report\<lparr>crep_fileId := None\<rparr>)"
      using report_of_update [OF _ open_report(1), of "\<lambda>r. r\<lparr>crep_fileId := None\<rparr>" "db w'"] i(1,6) by (simp add: w'(2))
    then have "deleteReportedContent P rid why2 admin2 w' = (Inl file_already_deleted, w')"
      using open_report(2) FILE
      by (simp add: deleteReportedContent_def findOpenContentReportOrThrow_def remove_reported_def truthy_def)
    moreover have "delete_where (\<lambda>b. reported_bin report b \<and> bin_userId b = crep_reportedUserId report) (bins (db w)) = bins (db w)"
      using FILE by (simp add: delete_where_def reported_bin_def)
    moreover have "delete_where (\<lambda>x. reported_file report x \<and> file_userId x = crep_reportedUserId report) (files (db w)) =
        delete_where (\<lambda>x. file_id x = i \<and> file_userId x = crep_reportedUserId report) (files (db w))"
      using FILE i(1) unfolding delete_where_def by (intro filter_cong) (auto simp: reported_file_def)
    moreover have "\<exists>x \<in> set (files (db w)). reported_file report x"
      using FILE i(1,5) by (auto simp: reported_file_def)
    ultimately show ?thesis
      unfolding w'(1) sum.case
      by (intro exI [of _ report]) (simp add: open_report i(2-4) w'(2) file_already_deleted_def)
  next
    case BIN
    from removed_bin [OF BIN rm] obtain i where i: "crep_binId report = Some i"
      "bins (db w1) = delete_where (\<lambda>b. bin_id b = i \<and> bin_userId b = crep_reportedUserId report) (bins (db w))"
      "files (db w1) = files (db w)" "users (db w1) = users (db w)"
      "\<exists>b \<in> set (bins (db w)). bin_id b = i \<and> bin_userId b = crep_reportedUserId report"
      "contentReports (db w1) = update_where (\<lambda>r. crep_binId r = Some i) (\<lambda>r. r\<lparr>crep_binId := None\<rparr>) (contentReports (db w))"
      by auto
    have "report_of (db w') rid = Some (report\<lparr>crep_binId := None\<rparr>)"
      using report_of_update [OF _ open_report(1), of "\<lambda>r. r\<lparr>crep_binId := None\<rparr>" "db w'"] i(1,6) by (simp add: w'(2))
    then have "deleteReportedContent P rid why2 admin2 w' = (Inl bin_already_deleted, w')"
      using open_report(2) BIN
      by (simp add: deleteReportedContent_def findOpenContentReportOrThrow_def remove_reported_def truthy_def)
    moreover have "delete_where (\<lambda>f. reported_file report f \<and> file_userId f = crep_reportedUserId report) (files (db w)) = files (db w)"
      using BIN by (simp add: delete_where_def reported_file_def)
    moreover have "delete_where (\<lambda>x. reported_bin report x \<and> bin_userId x = crep_reportedUserId report) (bins (db w)) =
        delete_where (\<lambda>x. bin_id x = i \<and> bin_userId x = crep_reportedUserId report) (bins (db w))"
      using BIN i(1) unfolding delete_where_def by (intro filter_cong) (auto simp: reported_bin_def)
    moreover have "\<exists>x \<in> set (bins (db w)). reported_bin report x"
      using BIN i(1,5) by (auto simp: reported_bin_def)
    ultimately show ?thesis
      unfolding w'(1) sum.case
      by (intro exI [of _ report]) (simp add: open_report i(2-4) w'(2) bin_already_deleted_def)
  qed
qed

lemma update_back:
  assumes "\<And>x. x \<in> set xs \<Longrightarrow> p x \<Longrightarrow> g (f x) = x \<and> p (f x)"
  shows "update_where p g (update_where p f xs) = xs"
  using assms by (induction xs) (auto simp: tbl)

text \<open>Archiving and reopening an open report without a decision gives back the tables but the log, and
  an archived report is archived once.\<close>

lemma archive_reopen:
  assumes "resolveReport rid why adminId w = (Inr (), w1)"
    and "\<forall>r \<in> set (contentReports (db w)). crep_resolvedAt r = None \<longrightarrow>
      crep_actionTaken r = None \<and> crep_resolvedByAdminUserId r = None"
    and "\<forall>b \<in> set (bugReports (db w)). bug_resolvedAt b = None \<longrightarrow>
      bug_actionTaken b = None \<and> bug_resolvedByAdminUserId b = None"
    and "distinct (map crep_id (contentReports (db w)))" "distinct (map bug_id (bugReports (db w)))"
  shows "resolveReport rid why2 admin2 w1 = (Inl already_archived, w1)"
    and "\<exists>w2. reopenReport rid why3 admin3 w1 = (Inr (), w2) \<and>
      contentReports (db w2) = contentReports (db w) \<and> bugReports (db w2) = bugReports (db w)"
proof -
  have "resolveReport rid why2 admin2 w1 = (Inl already_archived, w1) \<and>
    (\<exists>w2. reopenReport rid why3 admin3 w1 = (Inr (), w2) \<and>
      contentReports (db w2) = contentReports (db w) \<and> bugReports (db w2) = bugReports (db w))"
  proof (cases "report_of (db w) rid")
    case (Some r)
    define f where "f = (\<lambda>r :: contentReport. r\<lparr>crep_resolvedAt := Some (now w), crep_actionTaken := Some why,
      crep_resolvedByAdminUserId := Some adminId\<rparr>)"
    define g where "g = (\<lambda>r :: contentReport. r\<lparr>crep_resolvedAt := None, crep_actionTaken := None,
      crep_resolvedByAdminUserId := None\<rparr>)"
    have r: "r \<in> set (contentReports (db w))" "crep_id r = rid" "crep_resolvedAt r = None"
      using Some assms(1) by (auto simp: report_of_def resolveReport_def dest: find_Some_mem split: if_splits)
    obtain m where w1: "w1 = w\<lparr>db := admin_log (now w) adminId (Some (crep_reportedUserId r)) ''report_resolved'' why m
        (set_report rid f (db w))\<rparr>"
      using assms(1) Some r(3) by (auto simp: resolveReport_def f_def)
    have rows: "contentReports (db w1) = update_where (\<lambda>r. crep_id r = rid) f (contentReports (db w))"
      "bugReports (db w1) = bugReports (db w)" by (simp_all add: w1 set_report_def)
    have now1: "report_of (db w1) rid = Some (f r)"
      using report_of_update [OF _ Some rows(1)] r(2) by (simp add: f_def)
    have "x = r" if "x \<in> set (contentReports (db w))" "crep_id x = rid" for x
      using assms(4) r that by (auto simp: distinct_map dest: inj_onD)
    then have "update_where (\<lambda>r. crep_id r = rid) g (contentReports (db w1)) = contentReports (db w)"
      unfolding rows using assms(2) r by (intro update_back) (auto simp: f_def g_def)
    then show ?thesis
      using now1 rows(2) by (auto simp: resolveReport_def reopenReport_def f_def g_def set_report_def)
  next
    case None
    then obtain b where bug: "bug_of (db w) rid = Some b" "bug_resolvedAt b = None"
      using assms(1) by (auto simp: resolveReport_def split: option.splits if_splits)
    define f where "f = (\<lambda>r :: bugReport. r\<lparr>bug_resolvedAt := Some (now w), bug_actionTaken := Some why,
      bug_resolvedByAdminUserId := Some adminId\<rparr>)"
    define g where "g = (\<lambda>r :: bugReport. r\<lparr>bug_resolvedAt := None, bug_actionTaken := None,
      bug_resolvedByAdminUserId := None\<rparr>)"
    have b: "b \<in> set (bugReports (db w))" "bug_id b = rid"
      using bug by (auto simp: bug_of_def dest: find_Some_mem)
    obtain m where w1: "w1 = w\<lparr>db := admin_log (now w) adminId None ''bug_report_resolved'' why m (set_bug rid f (db w))\<rparr>"
      using assms(1) None bug by (auto simp: resolveReport_def f_def)
    have rows: "bugReports (db w1) = update_where (\<lambda>r. bug_id r = rid) f (bugReports (db w))"
      "contentReports (db w1) = contentReports (db w)" by (simp_all add: w1 set_bug_def)
    have now1: "bug_of (db w1) rid = Some (f b)" "report_of (db w1) rid = None"
      using bug(1) None b(2) unfolding bug_of_def report_of_def rows
      by (subst find_update_where, simp_all add: f_def)
    have "x = b" if "x \<in> set (bugReports (db w))" "bug_id x = rid" for x
      using assms(5) b that by (auto simp: distinct_map dest: inj_onD)
    then have "update_where (\<lambda>r. bug_id r = rid) g (bugReports (db w1)) = bugReports (db w)"
      unfolding rows using assms(3) b bug(2) by (intro update_back) (auto simp: f_def g_def)
    then show ?thesis
      using now1 rows(2) by (auto simp: resolveReport_def reopenReport_def f_def g_def set_bug_def)
  qed
  then show "resolveReport rid why2 admin2 w1 = (Inl already_archived, w1)"
    "\<exists>w2. reopenReport rid why3 admin3 w1 = (Inr (), w2) \<and>
      contentReports (db w2) = contentReports (db w) \<and> bugReports (db w2) = bugReports (db w)" by simp_all
qed

section \<open>Samples\<close>

definition report_platform :: "(kv, mem) platform" where
  "report_platform = mail_platform\<lparr>env := (\<lambda>name. if name = ''REPORT_CONTENT_SECRET'' then Some ''k'' else None)\<rparr>"

definition sample_cipher :: report_cipher where
  "sample_cipher = \<lparr>gcm_seal = (\<lambda>key iv data. (data, [1])), gcm_open = (\<lambda>key iv tag data. Some data)\<rparr>"

text \<open>URLs without an authority and without percent encoding.\<close>

fun join_with :: "string \<Rightarrow> string list \<Rightarrow> string" where
  "join_with sep [] = []"
| "join_with sep [s] = s"
| "join_with sep (s # ss) = s @ sep @ join_with sep ss"

definition sample_urls :: url_api where
  "sample_urls =
     \<lparr>url_new = (\<lambda>l base. if base = None then None
        else Some \<lparr>url_origin = local_base, url_pathname = takeWhile (\<lambda>c. c \<noteq> CHR ''?'' \<and> c \<noteq> CHR ''#'') l,
               url_search = takeWhile (\<lambda>c. c \<noteq> CHR ''#'') (dropWhile (\<lambda>c. c \<noteq> CHR ''?'' \<and> c \<noteq> CHR ''#'') l),
               url_hash = dropWhile (\<lambda>c. c \<noteq> CHR ''#'') l\<rparr>),
      search_pairs = (\<lambda>s. map (\<lambda>p. (takeWhile (\<lambda>c. c \<noteq> CHR ''='') p, drop 1 (dropWhile (\<lambda>c. c \<noteq> CHR ''='') p)))
        (filter (\<lambda>p. p \<noteq> []) (split_on (\<lambda>c. c = CHR ''&'') (drop 1 s)))),
      search_text = (\<lambda>ps. if ps = [] then [] else CHR ''?'' # join_with ''&'' (map (\<lambda>(n, v). n @ ''='' @ v) ps)),
      decodeURIComponent = Some\<rparr>"

definition sample_report :: content_report_dto where
  "sample_report = \<lparr>rd_link = ''/d/f1?token=t&password=pw#key'', rd_reason = ''spam'',
     rd_reporterEmail = None, rd_contentPassword = None\<rparr>"

definition reported_sample :: file_row where
  "reported_sample = \<lparr>file_id = ''f1'', file_originalName = [], file_storageName = ''s1'', file_size = 1,
     file_mimetype = [], file_userId = ''u'', file_createdAt = 0, file_expiresAt = 5000,
     file_shareToken = ''t'', file_passwordHash = Some ''$2pw'', file_encryptedFileKey = [], file_fileKeyIv = []\<rparr>"

definition report_w0 :: mem_world where
  "report_w0 = mail_w0\<lparr>db := (db mail_w0)\<lparr>files := [reported_sample]\<rparr>\<rparr>"

lemma sample_links:
  "parseContentLink sample_urls ''/d/f1?token=t&password=pw#key'' =
     Inr \<lparr>pl_contentType = FILE, pl_contentId = ''f1'', pl_token = ''t''\<rparr>"
  "resolveSubmittedContentPassword sample_urls sample_report ''/d/f1?token=t&password=pw#key'' = Inr (Some ''pw'')"
  "sanitizeContentLink sample_urls ''/d/f1?token=t&password=pw#key'' = Inr ''/d/f1?token=t#key''"
  "trim (rd_link sample_report) = ''/d/f1?token=t&password=pw#key''"
  by code_simp+

lemma sample_laws: "report_cipher_ok sample_cipher" "text_encoding report_platform" "random_length report_platform"
  using mail_utf8
  by (auto simp: report_cipher_ok_def sample_cipher_def text_encoding_def utf8_ok_def random_length_def report_platform_def)

lemma sample_reported:
  "\<exists>i t w'. createContentReport report_platform sample_cipher sample_urls sample_report report_w0 = (Inr (i, t), w')"
proof -
  define c where "c = \<lparr>ct_contentType = FILE, ct_reportedUserId = ''u'', ct_fileId = Some ''f1'',
      ct_binId = None, ct_filePasswordHash = Some ''$2pw''\<rparr>"
  have target: "resolveContentTarget sample_urls (now report_w0) (db report_w0) ''/d/f1?token=t&password=pw#key'' = Inr c"
    by (simp add: resolveContentTarget_def sample_links c_def report_w0_def reported_sample_def mail_w0_def)
  have pw: "assertFileReportPasswordIfRequired report_platform c (Some ''pw'') = Inr ()"
    by (simp add: assertFileReportPasswordIfRequired_def truthy_def c_def report_platform_def)
  have "requireEnv report_platform ''REPORT_CONTENT_SECRET'' = Inr ''k''"
    by (simp add: requireEnv_def optionalEnv_def report_platform_def trim_def is_space_def)
  then obtain s w1 where "sealed_password report_platform sample_cipher (Some ''pw'') report_w0 = (Inr s, w1)"
    by (simp add: sealed_password_def truthy_def encryptReportedContentPassword_def randomBytesOf_def
        getReportPasswordSecret_def sample_cipher_def)
  then show ?thesis
    by (simp add: createContentReport_def sample_links target pw randomUUID_def Let_def)
qed


definition sample_report_row :: contentReport where
  "sample_report_row = report_row ''r1'' 5 sample_report \<lparr>ct_contentType = FILE, ct_reportedUserId = ''u'', ct_fileId = Some ''f1'',
      ct_binId = None, ct_filePasswordHash = None\<rparr> ''/d/f1?token=t'' None"

definition report_w1 :: mem_world where
  "report_w1 = report_w0\<lparr>db := (db report_w0)\<lparr>contentReports := [sample_report_row]\<rparr>\<rparr>"

theorem reported_content_deleted_witness:
  "\<exists>w'. deleteReportedContent report_platform ''r1'' ''spam'' ''a'' report_w1 = (Inr (), w') \<and>
     files (db report_w1) = [reported_sample] \<and> files (db w') = [] \<and>
     (\<exists>e. deleteReportedContent report_platform ''r1'' ''again'' ''b'' w' = (Inl (BadRequest e), w'))"
proof -
  have r: "report_of (db report_w1) ''r1'' = Some sample_report_row"
    by (simp add: report_of_def report_w1_def sample_report_row_def report_row_def)
  have u: "findUserOrThrow (db report_w1) ''u'' = Inr mail_user"
    using mail_w0_facts(1) by (simp add: findUserOrThrow_def report_w1_def report_w0_def user_by_id_def)
  obtain w' where run: "deleteReportedContent report_platform ''r1'' ''spam'' ''a'' report_w1 = (Inr (), w')"
    using r u by (simp add: deleteReportedContent_def findOpenContentReportOrThrow_def remove_reported_def
        deleteUserFiles_def truthy_def sample_report_row_def report_row_def report_w1_def report_w0_def
        reported_sample_def Let_def)
  from reported_content_deleted [OF this, of "''again''" "''b''"] r
  have "files (db w') = []"
    "\<exists>e. deleteReportedContent report_platform ''r1'' ''again'' ''b'' w' = (Inl (BadRequest e), w')"
    by (auto simp: sample_report_row_def report_row_def report_w1_def report_w0_def reported_sample_def reported_file_def delete_where_def)
  then show ?thesis using run by (simp add: report_w1_def report_w0_def)
qed

end
