(* ===== verification/Admin_Dashboard.thy ===== *)
theory Admin_Dashboard
  imports Links_Bins Reports
begin

text \<open>
  The dashboard of the administration (\<^verbatim>\<open>admin/dashboard/admin-dashboard.service.ts\<close>), the
  totals it shows (\<^verbatim>\<open>common/dashboard/storage-metrics.ts\<close>) and the rows the processes
  write for it (\<^verbatim>\<open>common/dashboard/runtime-tracker.ts\<close>). A \<open>Date\<close> made by arithmetic is
  an \<open>int\<close> of milliseconds. The calendar of the server's time zone and its file system are
  parameters. Byte totals below \<open>2 ^ 53\<close> are exact as doubles, so quotients by powers of two
  are written as fractions of natural numbers; other products of doubles are written exactly.
\<close>

section \<open>Totals of stored bytes\<close>

record storage_metrics =
  sm_uploadsBytes :: nat
  sm_mailBytes :: nat
  sm_binsBytes :: nat
  sm_totalUsedBytes :: nat

definition made_since :: "int option \<Rightarrow> time \<Rightarrow> bool" where
  "made_since after t = (case after of None \<Rightarrow> True | Some s \<Rightarrow> s \<le> int t)"

definition getLogicalStorageMetrics :: "db \<Rightarrow> int option \<Rightarrow> storage_metrics" where
  "getLogicalStorageMetrics d after =
     (let uploadsBytes = sum_where (\<lambda>f. made_since after (file_createdAt f)) file_size (files d);
          binsBytes = sum_where (\<lambda>b. made_since after (bin_createdAt b)) bin_size (bins d);
          mailBytes =
            sum_where (\<lambda>m. made_since after (mail_createdAt m)) mail_contentSize (mails d)
            + sum_where
                (\<lambda>a. \<exists>m \<in> set (mails d).
                   att_mailId a = mail_id m \<and> made_since after (mail_createdAt m))
                att_size (mailAttachments d)
      in \<lparr>sm_uploadsBytes = uploadsBytes, sm_mailBytes = mailBytes, sm_binsBytes = binsBytes,
          sm_totalUsedBytes = uploadsBytes + mailBytes + binsBytes\<rparr>)"

section \<open>Rows written by the processes\<close>

definition upsertRuntime :: "ServiceRuntimeName \<Rightarrow> time \<Rightarrow> time \<Rightarrow> db \<Rightarrow> db" where
  "upsertRuntime service startedAt t d =
     (if service \<in> srt_service ` set (serviceRuntimes d)
      then d\<lparr>serviceRuntimes :=
               update_where (\<lambda>r. srt_service r = service)
                 (\<lambda>r. r\<lparr>srt_startedAt := startedAt, srt_lastHeartbeatAt := t\<rparr>) (serviceRuntimes d)\<rparr>
      else d\<lparr>serviceRuntimes := serviceRuntimes d @
               [\<lparr>srt_service = service, srt_startedAt = startedAt, srt_lastHeartbeatAt = t\<rparr>]\<rparr>)"

definition captureStorageSnapshot :: "('r, 's) platform \<Rightarrow> ('r, 's) world \<Rightarrow> ('r, 's) world" where
  "captureStorageSnapshot P w =
     (let metrics = getLogicalStorageMetrics (db w) None;
          (newId, w1) = randomUUID P w
      in w1\<lparr>db := (db w1)\<lparr>storageSnapshots := storageSnapshots (db w1) @
           [\<lparr>snap_id = newId, snap_uploadsBytes = sm_uploadsBytes metrics,
             snap_mailBytes = sm_mailBytes metrics, snap_binsBytes = sm_binsBytes metrics,
             snap_totalUsedBytes = sm_totalUsedBytes metrics, snap_recordedAt = now w1\<rparr>]\<rparr>\<rparr>)"

text \<open>What happens at the start of a process; the timers repeat the heartbeat (with the
  \<open>startedAt\<close> of the start) and the snapshot.\<close>

definition startServiceRuntimeHeartbeat ::
    "ServiceRuntimeName \<Rightarrow> ('r, 's) world \<Rightarrow> ('r, 's) world" where
  "startServiceRuntimeHeartbeat service w = w\<lparr>db := upsertRuntime service (now w) (now w) (db w)\<rparr>"

definition startMainAppDashboardTelemetry ::
    "('r, 's) platform \<Rightarrow> ('r, 's) world \<Rightarrow> ('r, 's) world" where
  "startMainAppDashboardTelemetry P w =
     captureStorageSnapshot P (startServiceRuntimeHeartbeat MAIN_APP w)"

section \<open>Ping\<close>

definition HEARTBEAT_STALE_THRESHOLD_MS :: int where
  "HEARTBEAT_STALE_THRESHOLD_MS = 45000"

datatype runtime_status = Unknown | Online | Offline

record runtime_view =
  rtv_status :: runtime_status
  rtv_startedAt :: "time option"
  rtv_lastHeartbeatAt :: "time option"
  rtv_uptimeSeconds :: "int option"

definition mapRuntime :: "time \<Rightarrow> serviceRuntime option \<Rightarrow> runtime_view" where
  "mapRuntime t runtime =
     (case runtime of
        None \<Rightarrow> \<lparr>rtv_status = Unknown, rtv_startedAt = None, rtv_lastHeartbeatAt = None,
                  rtv_uptimeSeconds = None\<rparr>
      | Some r \<Rightarrow>
          (let isOnline = int t - int (srt_lastHeartbeatAt r) \<le> HEARTBEAT_STALE_THRESHOLD_MS
           in \<lparr>rtv_status = (if isOnline then Online else Offline),
               rtv_startedAt = Some (srt_startedAt r),
               rtv_lastHeartbeatAt = Some (srt_lastHeartbeatAt r),
               rtv_uptimeSeconds = Some (max 0 ((int t - int (srt_startedAt r)) div 1000))\<rparr>))"

record ping_view =
  pv_message :: string
  pv_serverTime :: time
  pv_mainApp :: runtime_view
  pv_adminBackend :: runtime_view

definition runtime_of :: "ServiceRuntimeName \<Rightarrow> db \<Rightarrow> serviceRuntime option" where
  "runtime_of service d = find (\<lambda>r. srt_service r = service) (serviceRuntimes d)"

definition getPing :: "('r, 's) world \<Rightarrow> ping_view" where
  "getPing w =
     \<lparr>pv_message = ''pong'', pv_serverTime = now w,
      pv_mainApp = mapRuntime (now w) (runtime_of MAIN_APP (db w)),
      pv_adminBackend = mapRuntime (now w) (runtime_of ADMIN_BACKEND (db w))\<rparr>"

section \<open>Numbers as text\<close>

fun nat_text :: "nat \<Rightarrow> string" where
  "nat_text n = (if n < 10 then [char_of (48 + n)] else nat_text (n div 10) @ [char_of (48 + n mod 10)])"

declare nat_text.simps [simp del]

definition pad2 :: "string \<Rightarrow> string" where
  "pad2 s = (if length s < 2 then replicate (2 - length s) (CHR ''0'') @ s else s)"

text \<open>\<open>(num / den).toFixed(k)\<close> as the number of units of the last place; of two equally near
  ones the larger.\<close>

definition fixed_units :: "nat \<Rightarrow> nat \<Rightarrow> nat \<Rightarrow> nat" where
  "fixed_units k num den = (2 * num * 10 ^ k + den) div (2 * den)"

definition fixed_text :: "nat \<Rightarrow> nat \<Rightarrow> nat \<Rightarrow> string" where
  "fixed_text k num den =
     (let n = fixed_units k num den; frac = nat_text (n mod 10 ^ k)
      in nat_text (n div 10 ^ k) @
         (if k = 0 then [] else ''.'' @ replicate (k - length frac) (CHR ''0'') @ frac))"

text \<open>\<open>Math.floor(Math.log(n) / Math.log(1024))\<close>, with exact logarithms.\<close>

fun log1024 :: "nat \<Rightarrow> nat" where
  "log1024 n = (if n < 1024 then 0 else Suc (log1024 (n div 1024)))"

declare log1024.simps [simp del]

definition byte_units :: "string list" where
  "byte_units = [''B'', ''KB'', ''MB'', ''GB'', ''TB'', ''PB'']"

definition formatBytes :: "nat \<Rightarrow> string" where
  "formatBytes b =
     (if b = 0 then ''0 B''
      else
        (let exponent = min (log1024 b) (length byte_units - 1);
             unit = 1024 ^ exponent;
             decimals = (if exponent = 0 then 0 else if b \<ge> 100 * unit then 0
                         else if b \<ge> 10 * unit then 1 else 2)
         in fixed_text decimals b unit @ '' '' @ byte_units ! exponent))"

text \<open>The value of a chart, in hundredths of a gigabyte.\<close>

definition BYTES_IN_GB :: nat where
  "BYTES_IN_GB = 1024 ^ 3"

definition toChartStorageValue :: "nat \<Rightarrow> nat" where
  "toChartStorageValue b = fixed_units 2 b BYTES_IN_GB"

section \<open>Buckets of the charts\<close>

definition HOUR_MS :: int where
  "HOUR_MS = 60 * 60 * 1000"

definition DAY_MS :: int where
  "DAY_MS = 24 * HOUR_MS"

record calendar =
  cal_startOfDay :: "int \<Rightarrow> int"   \<comment> \<open>\<open>setHours(0, 0, 0, 0)\<close>\<close>
  cal_endOfDay :: "int \<Rightarrow> int"     \<comment> \<open>\<open>setHours(23, 59, 59, 999)\<close>\<close>
  cal_weekday :: "int \<Rightarrow> string"    \<comment> \<open>short, in lower case\<close>
  cal_month :: "int \<Rightarrow> string"
  cal_date :: "int \<Rightarrow> nat"
  cal_year :: "int \<Rightarrow> nat"

record bucket =
  bucket_label :: string
  bucket_at :: int

definition formatWeekdayLabel :: "calendar \<Rightarrow> int \<Rightarrow> string" where
  "formatWeekdayLabel C t = cal_weekday C t"

definition last2 :: "string \<Rightarrow> string" where
  "last2 s = drop (length s - 2) s"

definition formatDateLabel :: "calendar \<Rightarrow> int \<Rightarrow> bool \<Rightarrow> string" where
  "formatDateLabel C t includeYear =
     pad2 (nat_text (cal_date C t)) @ '' '' @ cal_month C t @
     (if includeYear then '' '' @ last2 (nat_text (cal_year C t)) else [])"

definition build24HourBuckets :: "calendar \<Rightarrow> int \<Rightarrow> bucket list" where
  "build24HourBuckets C t =
     map (\<lambda>hour. \<lparr>bucket_label = pad2 (nat_text hour),
                   bucket_at = cal_startOfDay C t + int hour * HOUR_MS\<rparr>) [0, 6, 12, 18, 24]"

definition build7DayBuckets :: "calendar \<Rightarrow> int \<Rightarrow> bucket list" where
  "build7DayBuckets C t =
     map (\<lambda>index. let date = cal_endOfDay C t - (6 - int index) * DAY_MS
                  in \<lparr>bucket_label = formatWeekdayLabel C date, bucket_at = date\<rparr>) [0..<7]"

definition build30DayBuckets :: "calendar \<Rightarrow> int \<Rightarrow> bucket list" where
  "build30DayBuckets C t =
     map (\<lambda>offset. let date = cal_endOfDay C t - offset * DAY_MS
                   in \<lparr>bucket_label = formatDateLabel C date False, bucket_at = date\<rparr>)
       [30, 25, 20, 15, 10, 5, 0]"

text \<open>\<open>Math.round(span * (index / (points - 1)))\<close>; the code calls it with six points.\<close>

definition share_of :: "int \<Rightarrow> nat \<Rightarrow> nat \<Rightarrow> int" where
  "share_of width points index =
     (if points = 1 then width
      else (2 * width * int index + (int points - 1)) div (2 * (int points - 1)))"

definition buildTotalBuckets :: "calendar \<Rightarrow> int \<Rightarrow> int \<Rightarrow> nat \<Rightarrow> bool \<Rightarrow> bucket list" where
  "buildTotalBuckets C startTime endTime points includeYear =
     (let width = max (endTime - startTime) 0 in
      map (\<lambda>index. let date = startTime + share_of width points index
                   in \<lparr>bucket_label = formatDateLabel C date includeYear,
                       bucket_at = (if index = points - 1 then endTime else date)\<rparr>) [0..<points])"

section \<open>The charts\<close>

type_synonym points = "(string \<times> nat) list"

record chart =
  ch_24h :: points
  ch_7d :: points
  ch_30d :: points
  ch_total :: points

text \<open>The loop \<open>while (cursor < timestamps.length && timestamps[cursor] <= bucketTime)\<close>.\<close>

function advance :: "nat list \<Rightarrow> int \<Rightarrow> nat \<Rightarrow> nat" where
  "advance timestamps bucketTime cursor =
     (if cursor < length timestamps \<and> int (timestamps ! cursor) \<le> bucketTime
      then advance timestamps bucketTime (Suc cursor) else cursor)"
  by pat_completeness auto
termination by (relation "measure (\<lambda>(ts, t, c). length ts - c)") auto

declare advance.simps [simp del]

fun buildCumulativeHistory :: "nat list \<Rightarrow> bucket list \<Rightarrow> int \<Rightarrow> nat \<Rightarrow> points" where
  "buildCumulativeHistory timestamps [] t cursor = []"
| "buildCumulativeHistory timestamps (b # bs) t cursor =
     (let bucketTime = min (bucket_at b) t; cursor' = advance timestamps bucketTime cursor
      in (bucket_label b, cursor') # buildCumulativeHistory timestamps bs t cursor')"

function advanceSnapshot ::
    "storageSnapshot list \<Rightarrow> int \<Rightarrow> nat \<times> nat \<Rightarrow> nat \<times> nat" where
  "advanceSnapshot snapshots effectiveTime (cursor, lastKnownBytes) =
     (if cursor < length snapshots \<and> int (snap_recordedAt (snapshots ! cursor)) \<le> effectiveTime
      then advanceSnapshot snapshots effectiveTime
             (Suc cursor, snap_totalUsedBytes (snapshots ! cursor))
      else (cursor, lastKnownBytes))"
  by pat_completeness auto
termination by (relation "measure (\<lambda>(ss, t, c, b). length ss - c)") auto

declare advanceSnapshot.simps [simp del]

fun mapStorageHistory :: "storageSnapshot list \<Rightarrow> bucket list \<Rightarrow> int \<Rightarrow> nat \<times> nat \<Rightarrow> points" where
  "mapStorageHistory snapshots [] t state = []"
| "mapStorageHistory snapshots (b # bs) t state =
     (let state' = advanceSnapshot snapshots (min (bucket_at b) t) state
      in (bucket_label b, toChartStorageValue (snd state')) #
         mapStorageHistory snapshots bs t state')"

definition charts_from :: "calendar \<Rightarrow> int \<Rightarrow> int \<Rightarrow> (bucket list \<Rightarrow> points) \<Rightarrow> chart" where
  "charts_from C first t history =
     \<lparr>ch_24h = history (build24HourBuckets C t), ch_7d = history (build7DayBuckets C t),
      ch_30d = history (build30DayBuckets C t),
      ch_total = history (buildTotalBuckets C first t 6 (cal_year C first \<noteq> cal_year C t))\<rparr>"

definition getStorageHistory :: "calendar \<Rightarrow> nat \<Rightarrow> time \<Rightarrow> db \<Rightarrow> chart" where
  "getStorageHistory C currentTotalUsedBytes t d =
     (let snapshots = sort_key snap_recordedAt (storageSnapshots d);
          fallbackBytes = (case snapshots of [] \<Rightarrow> currentTotalUsedBytes
                           | s # _ \<Rightarrow> snap_totalUsedBytes s);
          firstRecordedAt = (case snapshots of [] \<Rightarrow> t | s # _ \<Rightarrow> snap_recordedAt s)
      in charts_from C (int firstRecordedAt) (int t)
           (\<lambda>buckets. mapStorageHistory snapshots buckets (int t) (0, fallbackBytes)))"

definition getUserGrowthHistory :: "calendar \<Rightarrow> time \<Rightarrow> db \<Rightarrow> chart" where
  "getUserGrowthHistory C t d =
     (let timestamps = map user_createdAt
            (sort_key user_createdAt (filter (\<lambda>u. user_status u \<noteq> DELETED) (users d)));
          firstCreatedAt = (case timestamps of [] \<Rightarrow> t | c # _ \<Rightarrow> c)
      in charts_from C (int firstCreatedAt) (int t)
           (\<lambda>buckets. buildCumulativeHistory timestamps buckets (int t) 0))"

definition getReportsHistory :: "calendar \<Rightarrow> time \<Rightarrow> db \<Rightarrow> chart" where
  "getReportsHistory C t d =
     (let timestamps = sort
            (map crep_createdAt (sort_key crep_createdAt (contentReports d)) @
             map bug_createdAt (sort_key bug_createdAt (bugReports d)));
          firstCreatedAt = (case timestamps of [] \<Rightarrow> int t - 30 * DAY_MS | c # _ \<Rightarrow> int c)
      in charts_from C firstCreatedAt (int t)
           (\<lambda>buckets. buildCumulativeHistory timestamps buckets (int t) 0))"

section \<open>Capacity of the store\<close>

text \<open>Files the process can see: \<open>resolve(process.cwd(), path)\<close>, \<open>existsSync\<close>, the text of a
  file, and blocks and block size of the file system that holds a path (\<open>None\<close>: \<open>statfsSync\<close>
  throws).\<close>

record disk_api =
  dsk_resolve :: "string \<Rightarrow> string"
  dsk_exists :: "string \<Rightarrow> bool"
  dsk_text :: "string \<Rightarrow> string"
  dsk_statfs :: "string \<Rightarrow> (nat \<times> nat) option"

datatype capacity_source = From_env | From_filesystem

record capacity_info =
  cap_totalBytes :: "nat option"
  cap_source :: "capacity_source option"
  cap_path :: "string option"

definition to_upper :: "string \<Rightarrow> string" where
  "to_upper s =
     map (\<lambda>c. let n = (of_char c :: nat) in if 97 \<le> n \<and> n \<le> 122 then char_of (n - 32) else c) s"

text \<open>\<open>/^(\d+(?:\.\d+)?)\s*(B|KB|MB|GB|TB|PB)?$/\<close>: the digits before and after the point, and the
  unit as an exponent of 1024.\<close>

definition unit_exponent :: "string \<Rightarrow> nat option" where
  "unit_exponent u =
     (if u = [] then Some 0
      else map_option fst (find (\<lambda>p. snd p = u) (enumerate 0 byte_units)))"

definition limit_match :: "string \<Rightarrow> (string \<times> string \<times> nat) option" where
  "limit_match s =
     (let whole = takeWhile is_digit s; rest = dropWhile is_digit s;
          dot = (rest \<noteq> [] \<and> hd rest = CHR ''.'');
          frac = (if dot then takeWhile is_digit (tl rest) else []);
          rest' = (if dot then dropWhile is_digit (tl rest) else rest)
      in if whole = [] \<or> dot \<and> frac = [] then None
         else map_option (\<lambda>e. (whole, frac, e)) (unit_exponent (dropWhile is_space rest')))"

definition parseStorageLimitBytes :: "string option \<Rightarrow> nat option" where
  "parseStorageLimitBytes rawValue =
     (if \<not> truthy rawValue then None
      else
        (case limit_match (to_upper (trim (the rawValue))) of
           None \<Rightarrow> None
         | Some (whole, frac, e) \<Rightarrow>
             Some (fixed_units 0 (the (digits_in 10 0 (whole @ frac)) * 1024 ^ e) (10 ^ length frac))))"

text \<open>\<open>a || b || \<dots>\<close> of variables of the environment.\<close>

definition first_set :: "('r, 's) platform \<Rightarrow> string list \<Rightarrow> string option" where
  "first_set P names =
     (case filter (\<lambda>n. truthy (env P n)) names of [] \<Rightarrow> None | n # _ \<Rightarrow> env P n)"

definition word_char :: "char \<Rightarrow> bool" where
  "word_char c \<longleftrightarrow> is_letter c \<or> is_digit c \<or> c = CHR ''_''"

text \<open>\<open>(.+):\/data\b\<close>, greedy: the text before the last \<open>:/data\<close> that ends a word.\<close>

fun before_data :: "string \<Rightarrow> string option" where
  "before_data s =
     (case s of
        [] \<Rightarrow> None
      | c # cs \<Rightarrow>
          (case before_data cs of
             Some p \<Rightarrow> Some (c # p)
           | None \<Rightarrow>
               if take 6 s = '':/data'' \<and> (case drop 6 s of [] \<Rightarrow> True | x # _ \<Rightarrow> \<not> word_char x)
               then Some [] else None))"

declare before_data.simps [simp del]

definition volume_path :: "string \<Rightarrow> string option" where
  "volume_path line =
     (case line of
        [] \<Rightarrow> None
      | c # cs \<Rightarrow>
          if c \<noteq> CHR ''-'' then None
          else
            (case before_data cs of
               None \<Rightarrow> None
             | Some p \<Rightarrow> if trim p = [] then None else Some (trim p)))"

definition strip_quotes :: "string \<Rightarrow> string" where
  "strip_quotes s =
     (let quote = (\<lambda>c. c = CHR 0x22 \<or> c = CHR 0x27);
          s' = (if s \<noteq> [] \<and> quote (hd s) then tl s else s)
      in if s' \<noteq> [] \<and> quote (last s') then butlast s' else s')"

definition compose_line :: "string \<Rightarrow> string" where
  "compose_line line = trim (takeWhile (\<lambda>c. c \<noteq> CHR ''#'') line)"

text \<open>A carriage return before a line feed is white space that \<open>trim\<close> removes.\<close>

definition compose_path :: "string \<Rightarrow> string option" where
  "compose_path content =
     (case find (sublist '':/data'') (map compose_line (split_on (\<lambda>c. c = CHR 0x0A) content)) of
        None \<Rightarrow> None
      | Some line \<Rightarrow> map_option strip_quotes (volume_path line))"

fun first_compose_path :: "disk_api \<Rightarrow> string list \<Rightarrow> string option" where
  "first_compose_path D [] = None"
| "first_compose_path D (f # fs) =
     (if \<not> dsk_exists D f then first_compose_path D fs
      else (case compose_path (dsk_text D f) of
              Some p \<Rightarrow> Some p | None \<Rightarrow> first_compose_path D fs))"

definition getDockerComposeMinioDataPath :: "disk_api \<Rightarrow> string option" where
  "getDockerComposeMinioDataPath D =
     first_compose_path D
       (map (dsk_resolve D)
         [''docker-compose.yaml'', ''../docker-compose.yaml'', ''../../docker-compose.yaml''])"

definition getConfiguredStoragePath :: "('r, 's) platform \<Rightarrow> disk_api \<Rightarrow> string option" where
  "getConfiguredStoragePath P D =
     (case filter (\<lambda>n. optionalEnv P n \<noteq> None)
        [''ADMIN_STORAGE_PATH'', ''MINIO_STORAGE_PATH'', ''MINIO_DATA_PATH'', ''S3_STORAGE_PATH''] of
        n # _ \<Rightarrow> optionalEnv P n
      | [] \<Rightarrow> getDockerComposeMinioDataPath D)"

definition getFilesystemCapacityBytes :: "disk_api \<Rightarrow> string \<Rightarrow> nat option" where
  "getFilesystemCapacityBytes D storagePath =
     (if \<not> dsk_exists D storagePath then None
      else map_option (\<lambda>(blocks, bsize). blocks * bsize) (dsk_statfs D storagePath))"

definition getStorageCapacityInfo :: "('r, 's) platform \<Rightarrow> disk_api \<Rightarrow> capacity_info" where
  "getStorageCapacityInfo P D =
     (case parseStorageLimitBytes
        (first_set P [''ADMIN_STORAGE_LIMIT'', ''STORAGE_LIMIT'', ''ADMIN_STORAGE_LIMIT_BYTES'',
           ''STORAGE_LIMIT_BYTES'']) of
        Some configuredLimit \<Rightarrow>
          \<lparr>cap_totalBytes = Some configuredLimit, cap_source = Some From_env, cap_path = None\<rparr>
      | None \<Rightarrow>
     (case getConfiguredStoragePath P D of
        None \<Rightarrow> \<lparr>cap_totalBytes = None, cap_source = None, cap_path = None\<rparr>
      | Some storagePath \<Rightarrow>
          if storagePath = []
          then \<lparr>cap_totalBytes = None, cap_source = None, cap_path = None\<rparr>
          else
     (case getFilesystemCapacityBytes D storagePath of
        None \<Rightarrow> \<lparr>cap_totalBytes = None, cap_source = None, cap_path = Some storagePath\<rparr>
      | Some detectedLimit \<Rightarrow>
          \<lparr>cap_totalBytes = Some detectedLimit, cap_source = Some From_filesystem,
           cap_path = Some storagePath\<rparr>)))"

section \<open>The dashboard\<close>

definition buildStorageBreakdown :: "storage_metrics \<Rightarrow> nat option \<Rightarrow> (string \<times> nat \<times> string) list" where
  "buildStorageBreakdown m availableBytes =
     [(''Uploads'', toChartStorageValue (sm_uploadsBytes m), ''#951d2a''),
      (''Mail'', toChartStorageValue (sm_mailBytes m), ''#2b2732''),
      (''Bin'', toChartStorageValue (sm_binsBytes m), ''#9ca3af''),
      (''System'', 0, ''#e5e7eb''),
      (''Free'', toChartStorageValue (case availableBytes of None \<Rightarrow> 0 | Some n \<Rightarrow> n), ''#ffffff'')]"

text \<open>The ratio of use is kept as the fraction of natural numbers that it rounds.\<close>

record storage_count =
  sc_percentUsed :: string
  sc_usedAmount :: string
  sc_totalAmount :: string
  sc_totalAvailableBytes :: "nat option"
  sc_availableBytes :: "nat option"
  sc_usageRatio :: "nat \<times> nat"
  sc_limitConfigured :: bool
  sc_capacity :: capacity_info
  sc_current :: storage_metrics
  sc_newUsedLast24hBytes :: nat
  sc_newUsedLast7dBytes :: nat
  sc_newUsedLast30dBytes :: nat
  sc_breakdown :: "(string \<times> nat \<times> string) list"
  sc_history :: chart

definition usage_ratio :: "nat option \<Rightarrow> nat \<Rightarrow> nat \<times> nat" where
  "usage_ratio totalAvailableBytes used =
     (case totalAvailableBytes of
        None \<Rightarrow> (0, 1)
      | Some capacity \<Rightarrow>
          if capacity = 0 then (0, 1) else if used \<ge> capacity then (1, 1) else (used, capacity))"

definition getStorageCount ::
    "('r, 's) platform \<Rightarrow> disk_api \<Rightarrow> calendar \<Rightarrow> ('r, 's) world \<Rightarrow> storage_count" where
  "getStorageCount P D C w =
     (let d = db w;
          last_days = (\<lambda>n. sm_totalUsedBytes
            (getLogicalStorageMetrics d (Some (int (now w) - n * 24 * 60 * 60 * 1000))));
          currentMetrics = getLogicalStorageMetrics d None;
          used = sm_totalUsedBytes currentMetrics;
          storageCapacity = getStorageCapacityInfo P D;
          totalAvailableBytes = cap_totalBytes storageCapacity;
          availableBytes = map_option (\<lambda>n. n - used) totalAvailableBytes;
          ratio = usage_ratio totalAvailableBytes used
      in \<lparr>sc_percentUsed = nat_text (fixed_units 0 (100 * fst ratio) (snd ratio)) @ ''%'',
          sc_usedAmount = formatBytes used,
          sc_totalAmount =
            (case totalAvailableBytes of
               None \<Rightarrow> ''No storage limit configured''
             | Some n \<Rightarrow> ''of '' @ formatBytes n @ '' used''),
          sc_totalAvailableBytes = totalAvailableBytes, sc_availableBytes = availableBytes,
          sc_usageRatio = ratio, sc_limitConfigured = (totalAvailableBytes \<noteq> None),
          sc_capacity = storageCapacity, sc_current = currentMetrics,
          sc_newUsedLast24hBytes = last_days 1, sc_newUsedLast7dBytes = last_days 7,
          sc_newUsedLast30dBytes = last_days 30,
          sc_breakdown = buildStorageBreakdown currentMetrics availableBytes,
          sc_history = getStorageHistory C used (now w) d\<rparr>)"

record dashboard_user_stats =
  dus_totalUsers :: nat
  dus_newLast1d :: nat
  dus_newLast7d :: nat

definition getUserStats :: "time \<Rightarrow> db \<Rightarrow> dashboard_user_stats" where
  "getUserStats t d =
     (let number_since = (\<lambda>s. count_where
            (\<lambda>u. user_status u \<noteq> DELETED \<and> made_since s (user_createdAt u)) (users d))
      in \<lparr>dus_totalUsers = number_since None, dus_newLast1d = number_since (Some (int t - DAY_MS)),
          dus_newLast7d = number_since (Some (int t - 7 * DAY_MS))\<rparr>)"

text \<open>The reports chart stands under six keys of the answer, the growth chart under two.\<close>

record dashboard =
  dash_users :: dashboard_user_stats
  dash_storage :: storage_count
  dash_reportsOpen :: nat
  dash_userGrowth :: chart
  dash_reports :: chart

definition getDashboard ::
    "('r, 's) platform \<Rightarrow> disk_api \<Rightarrow> calendar \<Rightarrow> ('r, 's) world \<Rightarrow> dashboard" where
  "getDashboard P D C w =
     \<lparr>dash_users = getUserStats (now w) (db w),
      dash_storage = getStorageCount P D C w,
      dash_reportsOpen =
        count_where (\<lambda>r. crep_resolvedAt r = None) (contentReports (db w)) +
        count_where (\<lambda>r. bug_resolvedAt r = None) (bugReports (db w)),
      dash_userGrowth = getUserGrowthHistory C (now w) (db w),
      dash_reports = getReportsHistory C (now w) (db w)\<rparr>"

definition getTraffic :: "string \<times> string" where
  "getTraffic = (''Not configured'', ''Traffic tracking not implemented yet'')"

end
