(* ===== verification/Dashboard_Properties.thy ===== *)
theory Dashboard_Properties
  imports Admin_Dashboard "HOL-Library.Multiset"
begin

text \<open>
  The charts of the dashboard against their meaning: the loops with a cursor that runs through
  sorted rows give, at every point, the number of rows made until then (the size last recorded
  until then); and a process that sends its heartbeat is shown online.
\<close>

section \<open>Counting up to a time\<close>

definition count_until :: "nat list \<Rightarrow> int \<Rightarrow> nat" where
  "count_until ts t = length (filter (\<lambda>c. int c \<le> t) ts)"

lemma count_until_mono: "s \<le> t \<Longrightarrow> count_until ts s \<le> count_until ts t"
  by (induction ts) (auto simp: count_until_def)

lemma count_until_le: "count_until ts t \<le> length ts"
  by (simp add: count_until_def)

lemma count_until_sort [simp]: "count_until (sort ts) t = count_until ts t"
  by (simp add: count_until_def filter_sort)

text \<open>In a sorted list the rows until a time are a prefix.\<close>

lemma count_until_nth: "sorted ts \<Longrightarrow> i < length ts \<Longrightarrow> int (ts ! i) \<le> t \<longleftrightarrow> i < count_until ts t"
proof (induction ts arbitrary: i)
  case Nil
  then show ?case by simp
next
  case (Cons a ts)
  show ?case
  proof (cases "int a \<le> t")
    case True
    then show ?thesis using Cons by (cases i) (auto simp: count_until_def)
  next
    case False
    then have "\<forall>c \<in> set (a # ts). \<not> int c \<le> t" using Cons.prems(1) by force
    then show ?thesis using Cons.prems(2) nth_mem [OF Cons.prems(2)]
      by (auto simp: count_until_def filter_empty_conv)
  qed
qed

text \<open>Both loops of the code move the cursor from any earlier place to that prefix's end.\<close>

lemma advance_count:
  assumes "sorted ts" "c \<le> count_until ts t"
  shows "advance ts t c = count_until ts t"
  using assms
proof (induction ts t c rule: advance.induct)
  case (1 ts t c)
  have nth: "c < length ts \<Longrightarrow> int (ts ! c) \<le> t \<longleftrightarrow> c < count_until ts t"
    by (rule count_until_nth [OF "1.prems"(1)])
  show ?case
  proof (cases "c < count_until ts t")
    case True
    then have "c < length ts" using count_until_le [of ts t] by simp
    then show ?thesis using True nth "1.IH" "1.prems" by (subst advance.simps) simp
  next
    case False
    then show ?thesis using "1.prems" nth by (subst advance.simps) auto
  qed
qed

definition known_at :: "nat \<Rightarrow> storageSnapshot list \<Rightarrow> nat \<Rightarrow> nat" where
  "known_at fallback ss c = (if c = 0 then fallback else snap_totalUsedBytes (ss ! (c - 1)))"

lemma advanceSnapshot_count:
  assumes "sorted (map snap_recordedAt ss)" "c \<le> count_until (map snap_recordedAt ss) t"
    and "b = known_at fallback ss c"
  shows "advanceSnapshot ss t (c, b) =
    (count_until (map snap_recordedAt ss) t, known_at fallback ss (count_until (map snap_recordedAt ss) t))"
  using assms
proof (induction ss t "(c, b)" arbitrary: c b rule: advanceSnapshot.induct)
  case (1 ss t c b)
  let ?n = "count_until (map snap_recordedAt ss) t"
  have nth: "c < length ss \<Longrightarrow> int (snap_recordedAt (ss ! c)) \<le> t \<longleftrightarrow> c < ?n"
    using count_until_nth [OF "1.prems"(1), of c t] by simp
  show ?case
  proof (cases "c < ?n")
    case True
    then have c: "c < length ss" using count_until_le [of "map snap_recordedAt ss" t] by simp
    then show ?thesis using True nth "1.hyps" "1.prems"
      by (subst advanceSnapshot.simps) (simp add: known_at_def)
  next
    case False
    then show ?thesis using "1.prems" nth by (subst advanceSnapshot.simps) auto
  qed
qed

section \<open>Whole charts\<close>

definition times_ordered :: "int \<Rightarrow> bucket list \<Rightarrow> bool" where
  "times_ordered t bs \<longleftrightarrow> sorted (map (\<lambda>b. min (bucket_at b) t) bs)"

lemma cumulative_counts:
  assumes "sorted ts" "times_ordered t bs"
    and "\<forall>b \<in> set bs. c \<le> count_until ts (min (bucket_at b) t)"
  shows "buildCumulativeHistory ts bs t c =
    map (\<lambda>b. (bucket_label b, count_until ts (min (bucket_at b) t))) bs"
  using assms(2,3)
proof (induction bs arbitrary: c)
  case Nil
  then show ?case by simp
next
  case (Cons b bs)
  have "times_ordered t bs" using Cons.prems(1) by (simp add: times_ordered_def)
  moreover have "\<forall>b' \<in> set bs. count_until ts (min (bucket_at b) t) \<le> count_until ts (min (bucket_at b') t)"
    using Cons.prems(1) by (auto simp: times_ordered_def intro!: count_until_mono)
  ultimately show ?case using Cons by (simp add: Let_def advance_count [OF assms(1)])
qed

text \<open>The size recorded last until a time, or the fallback.\<close>

definition recorded_until :: "nat \<Rightarrow> storageSnapshot list \<Rightarrow> int \<Rightarrow> nat" where
  "recorded_until fallback ss t =
     (case filter (\<lambda>s. int (snap_recordedAt s) \<le> t) ss of
        [] \<Rightarrow> fallback | x # xs \<Rightarrow> snap_totalUsedBytes (last (x # xs)))"

lemma filter_sorted_take:
  assumes "sorted (map snap_recordedAt ss)"
  shows "filter (\<lambda>s. int (snap_recordedAt s) \<le> t) ss = take (count_until (map snap_recordedAt ss) t) ss"
  using assms
proof (induction ss)
  case Nil
  then show ?case by simp
next
  case (Cons a ss)
  have "\<not> int (snap_recordedAt a) \<le> t \<Longrightarrow> \<forall>s \<in> set ss. \<not> int (snap_recordedAt s) \<le> t"
    using Cons.prems by force
  then show ?case using Cons
    by (auto simp: count_until_def filter_empty_conv filter_map o_def)
qed

lemma recorded_until_known:
  assumes "sorted (map snap_recordedAt ss)"
  shows "recorded_until fallback ss t = known_at fallback ss (count_until (map snap_recordedAt ss) t)"
proof -
  let ?n = "count_until (map snap_recordedAt ss) t"
  have n: "?n \<le> length ss" using count_until_le [of "map snap_recordedAt ss" t] by simp
  show ?thesis
  proof (cases "take ?n ss")
    case Nil
    then show ?thesis using n by (auto simp: recorded_until_def known_at_def filter_sorted_take [OF assms])
  next
    case (Cons x xs)
    then have "?n \<noteq> 0" "ss \<noteq> []" by (auto intro: gr0I)
    then have "last (x # xs) = ss ! (?n - 1)"
      using n by (simp add: last_conv_nth flip: Cons)
    then show ?thesis using Cons \<open>?n \<noteq> 0\<close>
      by (simp add: recorded_until_def known_at_def filter_sorted_take [OF assms])
  qed
qed

lemma storage_history_recorded:
  assumes "sorted (map snap_recordedAt ss)" "times_ordered t bs"
    and "\<forall>b \<in> set bs. c \<le> count_until (map snap_recordedAt ss) (min (bucket_at b) t)"
  shows "mapStorageHistory ss bs t (c, known_at fallback ss c) =
    map (\<lambda>b. (bucket_label b, toChartStorageValue (recorded_until fallback ss (min (bucket_at b) t)))) bs"
  using assms(2,3)
proof (induction bs arbitrary: c)
  case Nil
  then show ?case by simp
next
  case (Cons b bs)
  let ?n = "\<lambda>b. count_until (map snap_recordedAt ss) (min (bucket_at b) t)"
  have "times_ordered t bs" using Cons.prems(1) by (simp add: times_ordered_def)
  moreover have "\<forall>b' \<in> set bs. ?n b \<le> ?n b'"
    using Cons.prems(1) by (auto simp: times_ordered_def intro!: count_until_mono)
  ultimately show ?case using Cons.IH [of "?n b"] Cons.prems(2)
    by (simp add: Let_def advanceSnapshot_count [OF assms(1) _ refl] recorded_until_known [OF assms(1)])
qed

section \<open>The times of the buckets ascend\<close>

lemma buckets_24h_ordered: "times_ordered t (build24HourBuckets C s)"
  by (simp add: times_ordered_def build24HourBuckets_def HOUR_MS_def min_def)

lemma buckets_7d_ordered: "times_ordered t (build7DayBuckets C s)"
  by (simp add: times_ordered_def build7DayBuckets_def Let_def DAY_MS_def HOUR_MS_def min_def upt_rec)

lemma buckets_30d_ordered: "times_ordered t (build30DayBuckets C s)"
  by (simp add: times_ordered_def build30DayBuckets_def Let_def DAY_MS_def HOUR_MS_def min_def)

lemma buckets_total_ordered: "times_ordered t (buildTotalBuckets C s t 6 y)"
proof (cases "s \<le> t")
  case True
  then have mono: "share_of (t - s) 6 i \<le> share_of (t - s) 6 j" if "i \<le> j" for i j
    using that by (auto simp: share_of_def intro!: zdiv_mono1 mult_left_mono)
  have zero: "share_of (t - s) 6 0 = 0" by (simp add: share_of_def)
  have "0 \<le> share_of (t - s) 6 i" for i
    using mono [of 0 i] zero by simp
  moreover note zero
  moreover have "share_of (t - s) 6 5 = t - s" by (simp add: share_of_def)
  ultimately show ?thesis using True
    by (auto simp: times_ordered_def buildTotalBuckets_def Let_def upt_rec
        intro!: min.coboundedI1 mono)
qed (simp add: times_ordered_def buildTotalBuckets_def Let_def share_of_def upt_rec)

lemmas buckets_ordered = buckets_24h_ordered buckets_7d_ordered buckets_30d_ordered buckets_total_ordered

lemma charts_from_cong:
  assumes "\<And>bs. times_ordered t bs \<Longrightarrow> h bs = h' bs"
  shows "charts_from C first t h = charts_from C first t h'"
  by (simp add: charts_from_def assms buckets_ordered)

section \<open>What the charts mean\<close>

text \<open>A chart that shows at every point how many of the rows were made until then (at most until
  now), from the first of them on.\<close>

definition growth_chart :: "calendar \<Rightarrow> int \<Rightarrow> time \<Rightarrow> nat list \<Rightarrow> chart" where
  "growth_chart C start t ts =
     charts_from C (if ts = [] then start else int (Min (set ts))) (int t)
       (map (\<lambda>b. (bucket_label b, count_until ts (min (bucket_at b) (int t)))))"

lemma sort_Nil_iff [simp]: "sort_key f ts = [] \<longleftrightarrow> ts = []"
  by (metis length_sort length_0_conv)

lemma hd_sort: "ts \<noteq> [] \<Longrightarrow> \<exists>xs. sort ts = Min (set ts) # xs" for ts :: "nat list"
proof -
  assume "ts \<noteq> []"
  then obtain x xs where s: "sort ts = x # xs" by (cases "sort ts") auto
  then have "set ts = insert x (set xs)" by (metis set_sort list.simps(15))
  moreover have "\<forall>y \<in> set xs. x \<le> y" using sorted_sort [of ts] s by simp
  ultimately have "Min (set ts) = x" by (auto intro!: Min_eqI)
  then show ?thesis using s by simp
qed

lemma growth_by_cursor:
  "charts_from C (case sort ts of [] \<Rightarrow> start | c # _ \<Rightarrow> int c) (int t)
     (\<lambda>bs. buildCumulativeHistory (sort ts) bs (int t) 0) = growth_chart C start t ts"
proof -
  have first: "(case sort ts of [] \<Rightarrow> start | c # _ \<Rightarrow> int c) =
      (if ts = [] then start else int (Min (set ts)))"
    using hd_sort [of ts] by (cases ts) (auto split: list.splits)
  show ?thesis unfolding growth_chart_def first
    by (rule charts_from_cong) (simp add: cumulative_counts)
qed

text \<open>At every point the chart of the storage shows the size last recorded until then; before the
  first record, the first size recorded; and with no record, the current size.\<close>

definition storage_chart :: "calendar \<Rightarrow> nat \<Rightarrow> time \<Rightarrow> storageSnapshot list \<Rightarrow> chart" where
  "storage_chart C current t ss =
     charts_from C (if ss = [] then int t else int (snap_recordedAt (hd ss))) (int t)
       (map (\<lambda>b. (bucket_label b, toChartStorageValue
          (recorded_until (if ss = [] then current else snap_totalUsedBytes (hd ss)) ss
             (min (bucket_at b) (int t))))))"

lemma storage_by_cursor:
  assumes "sorted (map snap_recordedAt ss)"
  shows "charts_from C (int (case ss of [] \<Rightarrow> t | s # _ \<Rightarrow> snap_recordedAt s)) (int t)
      (\<lambda>bs. mapStorageHistory ss bs (int t)
        (0, case ss of [] \<Rightarrow> current | s # _ \<Rightarrow> snap_totalUsedBytes s)) =
    storage_chart C current t ss"
proof -
  have "mapStorageHistory ss bs (int t) (0, f) =
      map (\<lambda>b. (bucket_label b, toChartStorageValue (recorded_until f ss (min (bucket_at b) (int t))))) bs"
    if "times_ordered (int t) bs" for bs f
    using storage_history_recorded [of ss "int t" bs 0 f] assms that by (simp add: known_at_def)
  then have "charts_from C s (int t) (\<lambda>bs. mapStorageHistory ss bs (int t) (0, f)) =
      charts_from C s (int t) (map (\<lambda>b. (bucket_label b, toChartStorageValue
        (recorded_until f ss (min (bucket_at b) (int t))))))" for s f
    by (rule charts_from_cong)
  then show ?thesis
    by (cases ss) (simp_all add: storage_chart_def del: sort_Nil_iff)
qed

text \<open>C40. The charts of the dashboard, computed by one pass with a cursor over rows sorted by the
  database, are the counts of the unsorted tables: the users that are not deleted, the reports of
  both kinds, and the sizes recorded, each until the time of the point and at most until now.\<close>

theorem dashboard_history_exact:
  "getUserGrowthHistory C t d =
     growth_chart C (int t) t (map user_createdAt (filter (\<lambda>u. user_status u \<noteq> DELETED) (users d))) \<and>
   getReportsHistory C t d =
     growth_chart C (int t - 30 * DAY_MS) t
       (map crep_createdAt (contentReports d) @ map bug_createdAt (bugReports d)) \<and>
   getStorageHistory C current t d =
     storage_chart C current t (sort_key snap_recordedAt (storageSnapshots d))"
proof (intro conjI)
  let ?us = "filter (\<lambda>u. user_status u \<noteq> DELETED) (users d)"
  have sorted: "map f (sort_key f xs) = sort (map f xs)" for f :: "'a \<Rightarrow> nat" and xs
    by (rule sym, rule properties_for_sort) simp_all
  have "int (case ts of [] \<Rightarrow> t | c # _ \<Rightarrow> c) = (case ts of [] \<Rightarrow> int t | c # _ \<Rightarrow> int c)" for ts
    by (cases ts) simp_all
  then show "getUserGrowthHistory C t d = growth_chart C (int t) t (map user_createdAt ?us)"
    by (simp only: getUserGrowthHistory_def Let_def sorted growth_by_cursor)
  have "sort (sort xs @ sort ys) = sort (xs @ ys)" for xs ys :: "nat list"
    by (rule properties_for_sort) simp_all
  then show "getReportsHistory C t d = growth_chart C (int t - 30 * DAY_MS) t
       (map crep_createdAt (contentReports d) @ map bug_createdAt (bugReports d))"
    by (simp only: getReportsHistory_def Let_def sorted growth_by_cursor)
  show "getStorageHistory C current t d =
     storage_chart C current t (sort_key snap_recordedAt (storageSnapshots d))"
    by (simp only: getStorageHistory_def Let_def) (rule storage_by_cursor, simp)
qed

section \<open>Heartbeats and snapshots\<close>

text \<open>A process that wrote its heartbeat within the last 45 seconds is online, with the uptime
  since its start; one heartbeat every 15 seconds leaves room for two that fail.\<close>

lemma runtime_of_upsert:
  "runtime_of s (upsertRuntime s startedAt t d) =
     Some \<lparr>srt_service = s, srt_startedAt = startedAt, srt_lastHeartbeatAt = t\<rparr>"
proof (cases "runtime_of s d")
  case None
  then have "s \<notin> srt_service ` set (serviceRuntimes d)"
    by (auto simp: runtime_of_def find_None_iff)
  then show ?thesis using None by (simp add: runtime_of_def upsertRuntime_def find_append)
next
  case (Some r)
  then have "s \<in> srt_service ` set (serviceRuntimes d)" "srt_service r = s"
    by (auto simp: runtime_of_def find_Some_iff)
  then show ?thesis using Some
    by (cases r) (simp add: runtime_of_def upsertRuntime_def find_update_where)
qed

lemma runtime_of_upsert_other:
  assumes "s' \<noteq> s"
  shows "runtime_of s' (upsertRuntime s startedAt t d) = runtime_of s' d"
proof -
  have "find (\<lambda>r. srt_service r = s') (update_where (\<lambda>r. srt_service r = s) f rs) =
      find (\<lambda>r. srt_service r = s') rs"
    if "\<And>r. srt_service (f r) = srt_service r" for f and rs :: "serviceRuntime list"
    by (induction rs) (use assms that in \<open>auto simp: update_where_def\<close>)
  then show ?thesis using assms by (auto simp: runtime_of_def upsertRuntime_def find_append split: option.splits)
qed

lemma heartbeat_online:
  assumes "srt_lastHeartbeatAt r \<le> t" "srt_startedAt r \<le> t"
  shows "rtv_status (mapRuntime t (Some r)) = Online \<longleftrightarrow> t \<le> srt_lastHeartbeatAt r + 45000"
    and "rtv_uptimeSeconds (mapRuntime t (Some r)) = Some (int ((t - srt_startedAt r) div 1000))"
  using assms
  by (auto simp: mapRuntime_def HEARTBEAT_STALE_THRESHOLD_MS_def Let_def zdiv_int of_nat_diff)

lemma started_main_app_online:
  "rtv_status (pv_mainApp (getPing (startMainAppDashboardTelemetry P w))) = Online"
proof -
  let ?w = "startMainAppDashboardTelemetry P w"
  have "runtime_of MAIN_APP (db ?w) = runtime_of MAIN_APP (upsertRuntime MAIN_APP (now w) (now w) (db w))"
    "now ?w = now w"
    by (simp_all add: startMainAppDashboardTelemetry_def captureStorageSnapshot_def
        startServiceRuntimeHeartbeat_def randomUUID_def Let_def runtime_of_def)
  then show ?thesis
    by (simp add: getPing_def runtime_of_upsert mapRuntime_def HEARTBEAT_STALE_THRESHOLD_MS_def Let_def)
qed

text \<open>A snapshot records the total of the moment, and the chart shows it from then on.\<close>

lemma snapshot_is_total:
  "\<exists>i. storageSnapshots (db (captureStorageSnapshot P w)) = storageSnapshots (db w) @
     [\<lparr>snap_id = i, snap_uploadsBytes = sm_uploadsBytes (getLogicalStorageMetrics (db w) None),
       snap_mailBytes = sm_mailBytes (getLogicalStorageMetrics (db w) None),
       snap_binsBytes = sm_binsBytes (getLogicalStorageMetrics (db w) None),
       snap_totalUsedBytes = sm_totalUsedBytes (getLogicalStorageMetrics (db w) None),
       snap_recordedAt = now w\<rparr>]"
  by (simp add: captureStorageSnapshot_def randomUUID_def Let_def)

section \<open>Capacity\<close>

text \<open>The amounts of the panel fit together: what is used and what is free add up to the capacity
  until it is full, and the ratio is that of the two.\<close>

lemma storage_amounts:
  assumes "sc_totalAvailableBytes s = Some n" "s = getStorageCount P D C w"
  shows "sm_totalUsedBytes (sc_current s) \<le> n \<Longrightarrow>
      sm_totalUsedBytes (sc_current s) + the (sc_availableBytes s) = n"
    and "n < sm_totalUsedBytes (sc_current s) \<Longrightarrow>
      sc_availableBytes s = Some 0 \<and> (n \<noteq> 0 \<longrightarrow> sc_usageRatio s = (1, 1))"
    and "sm_totalUsedBytes (sc_current s) =
      sm_uploadsBytes (sc_current s) + sm_mailBytes (sc_current s) + sm_binsBytes (sc_current s)"
  using assms by (auto simp: getStorageCount_def Let_def usage_ratio_def getLogicalStorageMetrics_def)

text \<open>A configured limit wins over the file system.\<close>

lemma configured_limit_wins:
  assumes "env P ''ADMIN_STORAGE_LIMIT'' = Some raw" "raw \<noteq> []"
    and "parseStorageLimitBytes (Some raw) = Some n"
  shows "getStorageCapacityInfo P D = \<lparr>cap_totalBytes = Some n, cap_source = Some From_env, cap_path = None\<rparr>"
  using assms by (simp add: getStorageCapacityInfo_def first_set_def truthy_def)

end
