(* ===== verification/Admin_Invites.thy ===== *)
theory Admin_Invites
  imports Admin_Audit Admin_Dashboard Account_Properties
begin

text \<open>
  \<^verbatim>\<open>AdminInvitesService\<close> (\<^verbatim>\<open>admin/invites/admin-invites.service.ts\<close>): invite codes
  an administrator issues, with any number of uses, and what they mean for the registration of
  accounts. The bounds of the DTOs are those of \<^verbatim>\<open>admin/dto/invites.dto.ts\<close>. Dates of the
  answers are kept as times.
\<close>

section \<open>Requests\<close>

record invite_codes_query =
  icq_search :: "string option"
  icq_isValid :: "bool option"
  icq_limit :: nat
  icq_offset :: nat

record create_invite_dto =
  cid_code :: "string option"
  cid_usage :: int
  cid_isValid :: "bool option"

text \<open>\<open>[A-Za-z0-9_-]+(?:-[A-Za-z0-9_-]+)*\<close>: as the class holds the hyphen, the group adds nothing.\<close>

definition invite_code_char :: "char \<Rightarrow> bool" where
  "invite_code_char c \<longleftrightarrow> is_letter c \<or> is_digit c \<or> c = CHR ''_'' \<or> c = CHR ''-''"

definition valid_CreateAdminInviteCodeDto :: "create_invite_dto \<Rightarrow> bool" where
  "valid_CreateAdminInviteCodeDto dto \<longleftrightarrow>
     1 \<le> cid_usage dto \<and> cid_usage dto \<le> 100000 \<and>
     (case cid_code dto of
        None \<Rightarrow> True
      | Some c \<Rightarrow> c \<noteq> [] \<and> length c \<le> 50 \<and> list_all invite_code_char c)"

section \<open>Listing\<close>

record invite_view =
  ivv_id :: string
  ivv_code :: string
  ivv_usage :: int
  ivv_isValid :: bool
  ivv_createdAt :: time
  ivv_createdByUser :: "(string \<times> string) option"
  ivv_createdByAdmin :: "(string \<times> string) option"

definition admin_owned :: "string \<Rightarrow> inviteCode \<Rightarrow> bool" where
  "admin_owned adminUserId i \<longleftrightarrow>
     invite_isAdminCreated i \<and> invite_createdByAdminUserId i = Some adminUserId"

definition invites_where ::
    "('r, 's) platform \<Rightarrow> string \<Rightarrow> invite_codes_query \<Rightarrow> inviteCode \<Rightarrow> bool" where
  "invites_where P adminUserId q i \<longleftrightarrow>
     admin_owned adminUserId i \<and>
     (truthy (icq_search q) \<longrightarrow> db_contains P (trim (the (icq_search q))) (invite_code i)) \<and>
     (case icq_isValid q of None \<Rightarrow> True | Some v \<Rightarrow> invite_isValid i = v)"

definition invite_item :: "db \<Rightarrow> inviteCode \<Rightarrow> invite_view" where
  "invite_item d i =
     \<lparr>ivv_id = invite_id i, ivv_code = invite_code i, ivv_usage = invite_usage i,
      ivv_isValid = invite_isValid i, ivv_createdAt = invite_createdAt i,
      ivv_createdByUser =
        (case invite_userId i of
           None \<Rightarrow> None | Some uid \<Rightarrow> map_option (\<lambda>u. (user_id u, user_username u)) (user_by_id d uid)),
      ivv_createdByAdmin =
        (case invite_createdByAdminUserId i of
           None \<Rightarrow> None
         | Some aid \<Rightarrow>
             map_option (\<lambda>a. (adm_id a, adm_username a)) (find (\<lambda>a. adm_id a = aid) (adminUsers d)))\<rparr>"

definition getInviteCodes ::
    "('r, 's) platform \<Rightarrow> string \<Rightarrow> invite_codes_query \<Rightarrow> db \<Rightarrow> invite_view listing" where
  "getInviteCodes P adminUserId q d =
     list_page (icq_limit q) (icq_offset q) (invite_item d)
       (order_desc invite_createdAt (filter (invites_where P adminUserId q) (inviteCodes d)))"

section \<open>Issuing a code\<close>

text \<open>An empty text is a missing one; the random code is the draw that follows.\<close>

definition normalizeOrCreateCode ::
    "('r, 's) platform \<Rightarrow> string option \<Rightarrow> ('r, 's) world \<Rightarrow> (string, ('r, 's) world) outcome" where
  "normalizeOrCreateCode P code w =
     (let normalizedCode = map_option trim code in
      if \<not> truthy normalizedCode
      then (let (raw, w1) = randomBytesOf P 8 w in (Inr (''RB-'' @ upperHex raw), w1))
      else if length (the normalizedCode) > 50
      then (Inl (BadRequest ''Invite code can't be longer than 50 characters''), w)
      else (Inr (the normalizedCode), w))"

definition int_text :: "int \<Rightarrow> string" where
  "int_text n = (if n < 0 then ''-'' @ nat_text (nat (- n)) else nat_text (nat n))"

record created_invite =
  civ_id :: string
  civ_code :: string
  civ_usage :: int
  civ_isValid :: bool
  civ_createdAt :: time

definition created_of :: "inviteCode \<Rightarrow> created_invite" where
  "created_of i =
     \<lparr>civ_id = invite_id i, civ_code = invite_code i, civ_usage = invite_usage i,
      civ_isValid = invite_isValid i, civ_createdAt = invite_createdAt i\<rparr>"

definition quoted_code :: "string \<Rightarrow> string" where
  "quoted_code code = ''Invite code '' @ [CHR 0x22] @ code @ [CHR 0x22]"

definition createInviteCode ::
    "('r, 's) platform \<Rightarrow> string \<Rightarrow> create_invite_dto \<Rightarrow> ('r, 's) world \<Rightarrow>
     (created_invite, ('r, 's) world) outcome" where
  "createInviteCode P adminUserId dto w =
     (case normalizeOrCreateCode P (cid_code dto) w of
        (Inl e, w1) \<Rightarrow> (Inl e, w1)
      | (Inr code, w1) \<Rightarrow>
          (let (newId, w2) = randomUUID P w1;
               isValid = (case cid_isValid dto of None \<Rightarrow> True | Some v \<Rightarrow> v);
               row = \<lparr>invite_id = newId, invite_code = code, invite_usage = cid_usage dto,
                 invite_isValid = isValid, invite_userId = None,
                 invite_createdByAdminUserId = Some adminUserId, invite_isAdminCreated = True,
                 invite_createdAt = now w\<rparr>
           in if code \<in> invite_code ` set (inviteCodes (db w2))
              then (Inl (Conflict ''Invite code already exists''), w2)
              else
                (Inr (created_of row),
                 w2\<lparr>db := admin_log (now w) adminUserId None ''admin_invite_code_created''
                   (quoted_code code @ '' created with '' @ int_text (cid_usage dto) @ '' uses'')
                   (JObj [(''inviteCodeId'', JStr newId), (''code'', JStr code),
                      (''usage'', JNum (cid_usage dto)), (''isValid'', JBool isValid)])
                   ((db w2)\<lparr>inviteCodes := inviteCodes (db w2) @ [row]\<rparr>)\<rparr>)))"

definition createRandomInviteCode ::
    "('r, 's) platform \<Rightarrow> string \<Rightarrow> int \<Rightarrow> bool option \<Rightarrow> ('r, 's) world \<Rightarrow>
     (created_invite, ('r, 's) world) outcome" where
  "createRandomInviteCode P adminUserId usage isValid w =
     createInviteCode P adminUserId
       \<lparr>cid_code = None, cid_usage = usage, cid_isValid = isValid\<rparr> w"

section \<open>Revoking a code\<close>

definition invite_not_found :: http_error where
  "invite_not_found = NotFound ''Admin invite code not found''"

definition own_invite :: "string \<Rightarrow> string \<Rightarrow> db \<Rightarrow> inviteCode option" where
  "own_invite adminUserId inviteCodeId d =
     find (\<lambda>i. invite_id i = inviteCodeId \<and> admin_owned adminUserId i) (inviteCodes d)"

definition deleteInviteCode ::
    "string \<Rightarrow> string \<Rightarrow> ('r, 's) world \<Rightarrow> (string \<times> string, ('r, 's) world) outcome" where
  "deleteInviteCode adminUserId inviteCodeId w =
     (case own_invite adminUserId inviteCodeId (db w) of
        None \<Rightarrow> (Inl invite_not_found, w)
      | Some i \<Rightarrow>
          (Inr (invite_id i, invite_code i),
           w\<lparr>db := admin_log (now w) adminUserId None ''admin_invite_code_deleted''
             (quoted_code (invite_code i) @ '' deleted/revoked'')
             (JObj [(''inviteCodeId'', JStr (invite_id i)), (''code'', JStr (invite_code i)),
                (''usage'', JNum (invite_usage i)), (''isValid'', JBool (invite_isValid i))])
             ((db w)\<lparr>inviteCodes :=
                delete_where (\<lambda>j. invite_id j = invite_id i) (inviteCodes (db w))\<rparr>)\<rparr>))"

definition updateInviteCodeValidity ::
    "string \<Rightarrow> string \<Rightarrow> bool \<Rightarrow> ('r, 's) world \<Rightarrow> (created_invite, ('r, 's) world) outcome" where
  "updateInviteCodeValidity adminUserId inviteCodeId isValid w =
     (case own_invite adminUserId inviteCodeId (db w) of
        None \<Rightarrow> (Inl invite_not_found, w)
      | Some i \<Rightarrow>
          (Inr (created_of (i\<lparr>invite_isValid := isValid\<rparr>)),
           w\<lparr>db := admin_log (now w) adminUserId None
             (if isValid then ''admin_invite_code_enabled'' else ''admin_invite_code_disabled'')
             (quoted_code (invite_code i) @ (if isValid then '' enabled'' else '' disabled''))
             (JObj [(''inviteCodeId'', JStr (invite_id i)), (''code'', JStr (invite_code i)),
                (''previousIsValid'', JBool (invite_isValid i)), (''newIsValid'', JBool isValid),
                (''usage'', JNum (invite_usage i))])
             ((db w)\<lparr>inviteCodes :=
                update_where (\<lambda>j. invite_id j = invite_id i) (\<lambda>j. j\<lparr>invite_isValid := isValid\<rparr>)
                  (inviteCodes (db w))\<rparr>)\<rparr>))"

section \<open>Codes of administrators belong to no account\<close>

text \<open>The rows of the table: ids and codes are unique, and no user owns a code of an
  administrator. Each operation keeps this, and is a step of the account system that changes no
  account.\<close>

definition invites_ok :: "db \<Rightarrow> bool" where
  "invites_ok d \<longleftrightarrow>
     distinct (map invite_id (inviteCodes d)) \<and> distinct (map invite_code (inviteCodes d)) \<and>
     (\<forall>i \<in> set (inviteCodes d). invite_isAdminCreated i \<longrightarrow> invite_userId i = None)"

lemma own_invite_Some:
  "own_invite a k d = Some i \<Longrightarrow> i \<in> set (inviteCodes d) \<and> invite_id i = k \<and> admin_owned a i"
  by (auto simp: own_invite_def find_Some_iff)

lemma own_invite_other: "invites_ok d \<Longrightarrow> own_invite a k d = Some i \<Longrightarrow> own_invite b k d = None" if "b \<noteq> a"
proof -
  assume ok: "invites_ok d" and i: "own_invite a k d = Some i"
  have "\<not> admin_owned b j" if j: "j \<in> set (inviteCodes d)" "invite_id j = k" for j
  proof -
    have "j = i" using ok own_invite_Some [OF i] j
      by (auto simp: invites_ok_def distinct_map dest: inj_onD)
    then show ?thesis using own_invite_Some [OF i] \<open>b \<noteq> a\<close> by (simp add: admin_owned_def)
  qed
  then show ?thesis by (auto simp: own_invite_def find_None_iff)
qed

lemma createInviteCode_effect:
  assumes "createInviteCode P a dto w = (Inr v, w')"
  obtains row where "v = created_of row" "inviteCodes (db w') = inviteCodes (db w) @ [row]"
    "invite_code row \<notin> invite_code ` set (inviteCodes (db w))" "admin_owned a row"
    "invite_userId row = None" "invite_usage row = cid_usage dto"
    "invite_isValid row = (case cid_isValid dto of None \<Rightarrow> True | Some v \<Rightarrow> v)"
    "users (db w') = users (db w)" "deletionRequests (db w') = deletionRequests (db w)"
    "restrictions (db w') = restrictions (db w)" "draws w \<le> draws w'"
    "case cid_code dto of Some c \<Rightarrow> trim c \<noteq> [] \<longrightarrow> invite_code row = trim c | None \<Rightarrow> True"
  using assms
  by (auto simp: createInviteCode_def normalizeOrCreateCode_def Let_def randomBytesOf_def
      randomUUID_def truthy_def admin_owned_def split: if_splits option.splits prod.splits)

lemma createInviteCode_error:
  "createInviteCode P a dto w = (Inl e, w') \<Longrightarrow> db w' = db w \<and> draws w \<le> draws w'"
  by (auto simp: createInviteCode_def normalizeOrCreateCode_def Let_def randomBytesOf_def
      randomUUID_def split: if_splits option.splits)

lemma deleteInviteCode_effect:
  assumes "deleteInviteCode a k w = (Inr v, w')"
  obtains i where "own_invite a k (db w) = Some i" "v = (k, invite_code i)"
    "inviteCodes (db w') = delete_where (\<lambda>j. invite_id j = k) (inviteCodes (db w))"
    "users (db w') = users (db w)" "deletionRequests (db w') = deletionRequests (db w)"
    "restrictions (db w') = restrictions (db w)" "draws w' = draws w"
  using assms own_invite_Some [of a k "db w"]
  by (auto simp: deleteInviteCode_def split: option.splits)

lemma updateInviteCodeValidity_effect:
  assumes "updateInviteCodeValidity a k b w = (Inr v, w')"
  obtains i where "own_invite a k (db w) = Some i"
    "inviteCodes (db w') = update_where (\<lambda>j. invite_id j = k) (\<lambda>j. j\<lparr>invite_isValid := b\<rparr>) (inviteCodes (db w))"
    "users (db w') = users (db w)" "deletionRequests (db w') = deletionRequests (db w)"
    "restrictions (db w') = restrictions (db w)" "draws w' = draws w"
  using assms own_invite_Some [of a k "db w"]
  by (auto simp: updateInviteCodeValidity_def split: option.splits)

lemma invites_ok_create:
  assumes "invites_ok (db w)" "createInviteCode P a dto w = (Inr v, w')"
    and "civ_id v \<notin> invite_id ` set (inviteCodes (db w))"
  shows "invites_ok (db w')"
proof -
  from assms(2) obtain row where "v = created_of row" "inviteCodes (db w') = inviteCodes (db w) @ [row]"
    "invite_code row \<notin> invite_code ` set (inviteCodes (db w))" "invite_userId row = None"
    by (rule createInviteCode_effect)
  then show ?thesis using assms(1,3) by (auto simp: invites_ok_def created_of_def)
qed

lemma invites_ok_delete: "invites_ok d \<Longrightarrow> invites_ok (d\<lparr>inviteCodes := delete_where p (inviteCodes d)\<rparr>)"
  by (auto simp: invites_ok_def delete_where_def distinct_map_filter)

lemma invites_ok_validity:
  "invites_ok d \<Longrightarrow>
   invites_ok (d\<lparr>inviteCodes := update_where p (\<lambda>j. j\<lparr>invite_isValid := b\<rparr>) (inviteCodes d)\<rparr>)"
  by (auto simp: invites_ok_def map_update_where tbl)

text \<open>None of the three changes an account or what an account owns: each is a step the account
  system allows to its environment.\<close>

lemma createInviteCode_step: "account_step P w (snd (createInviteCode P a dto w))"
proof (cases "createInviteCode P a dto w")
  case (Pair r w')
  show ?thesis
  proof (cases r)
    case (Inl e)
    then show ?thesis using Pair createInviteCode_error [of P a dto w e w']
      by (auto intro!: account_step.environment)
  next
    case (Inr v)
    with Pair have "createInviteCode P a dto w = (Inr v, w')" by simp
    then show ?thesis
      by (rule createInviteCode_effect)
        (auto simp: Pair code_count_def count_where_def intro!: account_step.environment)
  qed
qed

lemma code_count_delete_admin:
  assumes "invites_ok d" "own_invite a k d = Some i"
  defines "p \<equiv> \<lambda>uid j. invite_userId j = Some uid"
  shows "count_where (p uid) (delete_where (\<lambda>j. invite_id j = k) (inviteCodes d)) =
    count_where (p uid) (inviteCodes d)"
proof -
  have "\<not> p uid j" if "j \<in> set (inviteCodes d)" "invite_id j = k" for j
  proof -
    have "j = i" using assms(1) own_invite_Some [OF assms(2)] that
      by (auto simp: invites_ok_def distinct_map dest: inj_onD)
    then show ?thesis using assms(1) own_invite_Some [OF assms(2)]
      by (auto simp: invites_ok_def admin_owned_def p_def)
  qed
  then have "filter (p uid) (delete_where (\<lambda>j. invite_id j = k) (inviteCodes d)) = filter (p uid) (inviteCodes d)"
    by (auto simp: delete_where_def intro!: filter_cong)
  then show ?thesis by (simp add: count_where_def)
qed

lemma deleteInviteCode_step:
  assumes "invites_ok (db w)"
  shows "account_step P w (snd (deleteInviteCode a k w))"
proof (cases "own_invite a k (db w)")
  case None
  then show ?thesis by (auto simp: deleteInviteCode_def intro!: account_step.environment)
next
  case (Some i)
  then obtain v w' where e: "deleteInviteCode a k w = (Inr v, w')"
    by (auto simp: deleteInviteCode_def)
  then show ?thesis
    by (rule deleteInviteCode_effect)
      (auto simp: e code_count_def code_count_delete_admin [OF assms] intro!: account_step.environment)
qed

lemma updateInviteCodeValidity_step: "account_step P w (snd (updateInviteCodeValidity a k b w))"
proof (cases "own_invite a k (db w)")
  case None
  then show ?thesis by (auto simp: updateInviteCodeValidity_def intro!: account_step.environment)
next
  case (Some i)
  then obtain v w' where e: "updateInviteCodeValidity a k b w = (Inr v, w')"
    by (auto simp: updateInviteCodeValidity_def)
  then show ?thesis
    by (rule updateInviteCodeValidity_effect)
      (auto simp: e code_count_def count_where_def filter_update_where tbl intro!: account_step.environment)
qed

section \<open>What a code admits\<close>

lemma no_key: "k \<notin> f ` set xs \<Longrightarrow> find (\<lambda>x. f x = k \<and> Q x) xs = None"
  by (auto simp: find_None_iff)

lemma register_refused:
  "inviteUsable (db w) (reg_inviteCode dto) = Inl e \<Longrightarrow> register P dto w = (Inl e, w)"
  by (simp add: register_def)

text \<open>C39. A code an administrator creates opens registration exactly while it is valid: as soon as
  its creator disables or deletes it, whoever presents it is refused and nothing changes, whatever
  number of uses it had left. No other administrator can disable or delete it, a second code of the
  same text is refused, and neither operation touches an account.\<close>

theorem admin_code_revocable:
  assumes "invites_ok (db w)" "createInviteCode P a dto w = (Inr v, w1)"
    and "civ_id v \<notin> invite_id ` set (inviteCodes (db w))" "0 < cid_usage dto"
  shows "(is_ok (inviteUsable (db w1) (civ_code v), w1) \<longleftrightarrow> cid_isValid dto \<noteq> Some False) \<and>
    (\<exists>r w2. updateInviteCodeValidity a (civ_id v) False w1 = (Inr r, w2) \<and> users (db w2) = users (db w) \<and>
      (reg_inviteCode reg = civ_code v \<longrightarrow> register P reg w2 = (Inl invalid_invite, w2))) \<and>
    (\<exists>w2. deleteInviteCode a (civ_id v) w1 = (Inr (civ_id v, civ_code v), w2) \<and>
      inviteCodes (db w2) = inviteCodes (db w) \<and> users (db w2) = users (db w) \<and>
      (reg_inviteCode reg = civ_code v \<longrightarrow> register P reg w2 = (Inl invalid_invite, w2))) \<and>
    (b \<noteq> a \<longrightarrow> updateInviteCodeValidity b (civ_id v) x w1 = (Inl invite_not_found, w1) \<and>
      deleteInviteCode b (civ_id v) w1 = (Inl invite_not_found, w1))"
    (is "?opens \<and> ?off \<and> ?gone \<and> (b \<noteq> a \<longrightarrow> ?others)")
proof -
  obtain row where row: "v = created_of row" "inviteCodes (db w1) = inviteCodes (db w) @ [row]"
    "invite_code row \<notin> invite_code ` set (inviteCodes (db w))" "admin_owned a row"
    "invite_usage row = cid_usage dto"
    "invite_isValid row = (case cid_isValid dto of None \<Rightarrow> True | Some v \<Rightarrow> v)"
    "users (db w1) = users (db w)"
    using assms(2) by (rule createInviteCode_effect)
  have new: "invite_id row \<notin> invite_id ` set (inviteCodes (db w))"
    using assms(3) by (simp add: row(1) created_of_def)
  have find: "find (\<lambda>j. invite_code j = invite_code row) (inviteCodes (db w)) = None"
    using no_key [OF row(3), of "\<lambda>_. True"] by simp
  have v: "civ_id v = invite_id row" "civ_code v = invite_code row"
    by (simp_all add: row(1) created_of_def)
  have own: "own_invite a (invite_id row) (db w1) = Some row"
    using no_key [OF new] row(4) by (simp add: own_invite_def row(2) find_append)
  have opens: ?opens
    using assms(4) by (auto simp: inviteUsable_def invite_by_code_def row(2,5,6) v
        find_append find split: option.splits)
  have refused: "reg_inviteCode reg = civ_code v \<longrightarrow> register P reg w2 = (Inl invalid_invite, w2)"
    if "inviteUsable (db w2) (civ_code v) = Inl invalid_invite" for w2
    using that register_refused [of w2 reg] by simp
  obtain r w2 where off: "updateInviteCodeValidity a (civ_id v) False w1 = (Inr r, w2)"
    by (simp add: updateInviteCodeValidity_def own v)
  then obtain "users (db w2) = users (db w)" "inviteUsable (db w2) (civ_code v) = Inl invalid_invite"
    by (rule updateInviteCodeValidity_effect)
      (simp add: row(2,7) inviteUsable_def invite_by_code_def v find_append find find_update_where
        update_where_append update_where_Cons update_where_Nil)
  then have off: ?off using off refused by blast
  have keep: "delete_where (\<lambda>j. invite_id j = invite_id row) (inviteCodes (db w)) = inviteCodes (db w)"
    using new by (auto simp: delete_where_def filter_id_conv image_iff)
  obtain w3 where gone: "deleteInviteCode a (civ_id v) w1 = (Inr (civ_id v, civ_code v), w3)"
    by (simp add: deleteInviteCode_def own v)
  then obtain "users (db w3) = users (db w)" "inviteCodes (db w3) = inviteCodes (db w)"
    "inviteUsable (db w3) (civ_code v) = Inl invalid_invite"
    by (rule deleteInviteCode_effect)
      (use keep in \<open>simp add: row(2,7) inviteUsable_def invite_by_code_def v find delete_where_def\<close>)
  then have gone: ?gone using gone refused by blast
  have ?others if "b \<noteq> a"
    using own_invite_other [OF that invites_ok_create [OF assms(1-3)] own, folded v]
    by (simp add: updateInviteCodeValidity_def deleteInviteCode_def)
  with opens off gone show ?thesis by blast
qed

definition sample_invite_dto :: create_invite_dto where
  "sample_invite_dto = \<lparr>cid_code = Some ''NEW-1'', cid_usage = 5, cid_isValid = None\<rparr>"

theorem admin_code_revocable_witness:
  "\<exists>v w1 :: demo_world. \<exists>w2.
     createInviteCode demo_platform ''adm'' sample_invite_dto sample_w1 = (Inr v, w1) \<and>
     civ_code v = ''NEW-1'' \<and> is_ok (inviteUsable (db w1) ''NEW-1'', w1) \<and>
     deleteInviteCode ''adm'' (civ_id v) w1 = (Inr (civ_id v, ''NEW-1''), w2) \<and>
     register demo_platform (sample_dto\<lparr>reg_inviteCode := ''NEW-1''\<rparr>) w2 = (Inl invalid_invite, w2) \<and>
     updateInviteCodeValidity ''eve'' (civ_id v) False w1 = (Inl invite_not_found, w1)"
proof -
  let ?reg = "sample_dto\<lparr>reg_inviteCode := ''NEW-1''\<rparr>"
  have trim: "trim ''NEW-1'' = ''NEW-1''" by code_simp
  obtain v w1 where made: "createInviteCode demo_platform ''adm'' sample_invite_dto sample_w1 = (Inr v, w1)"
    "civ_code v = ''NEW-1''" "civ_id v = unary 0"
    by (simp add: createInviteCode_def normalizeOrCreateCode_def sample_invite_dto_def trim truthy_def
        randomUUID_def sample_simps created_of_def)
  have ok: "invites_ok (db sample_w1)" by (simp add: invites_ok_def sample_simps)
  have new: "civ_id v \<notin> invite_id ` set (inviteCodes (db sample_w1))"
    by (simp add: made(3) sample_simps unary_def)
  have "0 < cid_usage sample_invite_dto" by (simp add: sample_invite_dto_def)
  note C = admin_code_revocable [OF ok made(1) new this]
  have "is_ok (inviteUsable (db w1) ''NEW-1'', w1)"
    using C by (simp add: made(2) sample_invite_dto_def)
  moreover obtain w2 where "deleteInviteCode ''adm'' (civ_id v) w1 = (Inr (civ_id v, ''NEW-1''), w2)"
    "register demo_platform ?reg w2 = (Inl invalid_invite, w2)"
    using C [of ?reg] by (auto simp: made(2))
  moreover have "updateInviteCodeValidity ''eve'' (civ_id v) False w1 = (Inl invite_not_found, w1)"
    using C [of _ "''eve''" False] by simp
  ultimately show ?thesis using made by blast
qed

end
