(* ===== verification/Link_Bin_Properties.thy ===== *)
theory Link_Bin_Properties
  imports Mail_Sample Links_Bins
begin

text \<open>
  Short links and bins: a link gets the first of eight drawn codes that is free and resolves to its
  address, the limits from the environment, who reads a bin, and the way of a bin from its creation
  to the list of its owner and to a reader.
\<close>

section \<open>Short codes\<close>

definition codes :: "db \<Rightarrow> string set" where
  "codes d = set (map link_shortCode (links d))"

text \<open>The code of the \<open>k\<close>-th attempt; an attempt also draws the id of the row.\<close>

definition code_drawn :: "('r, 's) platform \<Rightarrow> ('r, 's) world \<Rightarrow> nat \<Rightarrow> string" where
  "code_drawn P w k = hex (randomBytes P (draws w + 2 * k) SHORT_CODE_BYTES)"

lemma linkAttempts_cases:
  assumes "linkAttempts P uid url n w = (r, w')"
  obtains (made) k row where "r = Inr row" "k < n" "code_drawn P w k \<notin> codes (db w)"
      "\<forall>j < k. code_drawn P w j \<in> codes (db w)" "link_shortCode row = code_drawn P w k"
      "link_originalUrl row = url" "link_userId row = uid"
      "db w' = (db w)\<lparr>links := links (db w) @ [row]\<rparr>" "draws w' = draws w + 2 * Suc k"
  | (taken) "r = Inl no_short_code" "\<forall>j < n. code_drawn P w j \<in> codes (db w)" "db w' = db w"
      "draws w' = draws w + 2 * n"
proof -
  have "(\<exists>k row. r = Inr row \<and> k < n \<and> code_drawn P w k \<notin> codes (db w) \<and>
      (\<forall>j < k. code_drawn P w j \<in> codes (db w)) \<and> link_shortCode row = code_drawn P w k \<and>
      link_originalUrl row = url \<and> link_userId row = uid \<and>
      db w' = (db w)\<lparr>links := links (db w) @ [row]\<rparr> \<and> draws w' = draws w + 2 * Suc k) \<or>
    (r = Inl no_short_code \<and> (\<forall>j < n. code_drawn P w j \<in> codes (db w)) \<and> db w' = db w \<and>
      draws w' = draws w + 2 * n)"
    using assms
  proof (induction n arbitrary: w)
    case (Suc n)
    let ?code = "code_drawn P w 0"
    define w2 where "w2 = w\<lparr>draws := draws w + 2\<rparr>"
    have next_code: "code_drawn P w2 j = code_drawn P w (Suc j)" for j
      by (simp add: code_drawn_def w2_def algebra_simps)
    show ?case
    proof (cases "?code \<in> codes (db w)")
      case True
      have run: "linkAttempts P uid url (Suc n) w = linkAttempts P uid url n w2"
        using True by (simp add: createShortCode_def randomBytesOf_def insertLink_def randomUUID_def
            code_drawn_def codes_def isUniqueConflict_def w2_def Let_def)
      have first: "(\<forall>j < Suc m. code_drawn P w j \<in> codes (db w)) \<longleftrightarrow>
          (\<forall>j < m. code_drawn P w2 j \<in> codes (db w))" for m
        using True unfolding next_code by (auto simp: less_Suc_eq_0_disj)
      have db2: "db w2 = db w" "draws w2 = draws w + 2" by (simp_all add: w2_def)
      from Suc.IH [OF Suc.prems [unfolded run], unfolded db2, folded first, unfolded next_code]
      show ?thesis
      proof (elim disjE exE conjE)
        fix k row
        assume "r = Inr row" "k < n" "code_drawn P w (Suc k) \<notin> codes (db w)"
          "\<forall>j < Suc k. code_drawn P w j \<in> codes (db w)" "link_shortCode row = code_drawn P w (Suc k)"
          "link_originalUrl row = url" "link_userId row = uid"
          "db w' = (db w)\<lparr>links := links (db w) @ [row]\<rparr>" "draws w' = draws w + 2 + 2 * Suc k"
        then show ?thesis by (intro disjI1 exI [of _ "Suc k"] exI [of _ row]) simp
      qed simp
    next
      case False
      then show ?thesis
        using Suc.prems
        by (auto simp: createShortCode_def randomBytesOf_def insertLink_def randomUUID_def
            code_drawn_def codes_def Let_def intro!: exI [of _ "0 :: nat"])
    qed
  qed simp
  then show thesis using that by blast
qed

text \<open>A link is created with the first free one of the eight codes drawn for it; it resolves to its
  address, every other code resolves as before, and codes stay unique. Where nothing is created, either
  the limit was reached or all eight codes were taken, and no table changes.\<close>

theorem link_created_resolves:
  assumes "distinct (map link_shortCode (links (db w)))" "createLink P uid url w = (r, w')"
  shows "case r of
      Inr row \<Rightarrow> links (db w') = links (db w) @ [row] \<and> link_userId row = uid \<and>
        getOriginalUrl (db w') (link_shortCode row) = Inr url \<and>
        (\<forall>code. code \<noteq> link_shortCode row \<longrightarrow> getOriginalUrl (db w') code = getOriginalUrl (db w) code) \<and>
        distinct (map link_shortCode (links (db w'))) \<and>
        (\<exists>k < 8. link_shortCode row = code_drawn P w k \<and> (\<forall>j < k. code_drawn P w j \<in> codes (db w)))
    | Inl e \<Rightarrow> db w' = db w \<and>
        (if reached (length (links_of (db w) uid)) (limit_from_env P ''LINK_LIMIT'' 25) then e = link_limit
         else e = no_short_code \<and> (\<forall>k < 8. code_drawn P w k \<in> codes (db w)))"
proof (cases "reached (length (links_of (db w) uid)) (limit_from_env P ''LINK_LIMIT'' 25)")
  case True
  then show ?thesis using assms(2) by (auto simp: createLink_def)
next
  case False
  then have "linkAttempts P uid url 8 w = (r, w')"
    using assms(2) by (simp add: createLink_def MAX_SHORT_CODE_ATTEMPTS_def)
  then show ?thesis
  proof (cases rule: linkAttempts_cases)
    case (made k row)
    have new: "find (\<lambda>l. link_shortCode l = link_shortCode row) (links (db w)) = None"
      using made(3,5) unfolding codes_def find_None_iff by (metis imageI list.set_map)
    have "getOriginalUrl (db w') (link_shortCode row) = Inr url"
      using new made(6,8) by (simp add: getOriginalUrl_def find_append)
    moreover have "getOriginalUrl (db w') code = getOriginalUrl (db w) code"
      if "code \<noteq> link_shortCode row" for code
      using that made(8) by (auto simp: getOriginalUrl_def find_append split: option.split)
    moreover have "distinct (map link_shortCode (links (db w')))"
      using assms(1) made(3,5,8) by (auto simp: codes_def)
    ultimately show ?thesis using made by auto
  qed (use False in auto)
qed

lemma mail_w0_links: "links (db mail_w0) = []" "bins (db mail_w0) = []"
  by (simp_all add: mail_w0_def empty_db_def)

lemma sample_link:
  "\<exists>row w'. createLink mail_platform ''u'' ''x'' mail_w0 = (Inr row, w')"
proof -
  have e: "(8 :: nat) = Suc (Suc (Suc (Suc (Suc (Suc (Suc (Suc 0)))))))" by simp
  show ?thesis
    by (simp add: createLink_def links_of_def mail_w0_links limit_from_env_def reached_def
        MAX_SHORT_CODE_ATTEMPTS_def e createShortCode_def randomBytesOf_def insertLink_def
        randomUUID_def Let_def)
qed

theorem link_created_resolves_witness:
  "\<exists>row w'. createLink mail_platform ''u'' ''x'' mail_w0 = (Inr row, w') \<and>
     getOriginalUrl (db w') (link_shortCode row) = Inr ''x''"
proof -
  obtain row w' where c: "createLink mail_platform ''u'' ''x'' mail_w0 = (Inr row, w')"
    using sample_link by blast
  have d: "distinct (map link_shortCode (links (db mail_w0)))" by (simp add: mail_w0_links)
  show ?thesis using link_created_resolves [OF d c] c by auto
qed

section \<open>Limits that are not numbers\<close>

lemma not_link_limit: "no_short_code \<noteq> link_limit"
  by (simp add: no_short_code_def link_limit_def)

text \<open>A limit that is configured as a whole number is kept: who has not more links or bins than it
  has not more after a further call. A limit whose text is not a number is no limit: no number of links
  or bins is refused.\<close>

theorem limits_from_environment:
  assumes "env P ''LINK_LIMIT'' = Some t" "env P ''BIN_LIMIT'' = Some t'"
  shows "(js_number t = Dec (int n) 0 \<longrightarrow> length (links_of (db w) uid) \<le> n \<longrightarrow>
      length (links_of (db (snd (createLink P uid url w))) uid) \<le> n) \<and>
    (js_number t' = Dec (int n) 0 \<longrightarrow> length (bins_of (db w) uid) \<le> n \<longrightarrow>
      length (bins_of (db (snd (createBin P uid dto w))) uid) \<le> n) \<and>
    (js_number t = NaN \<longrightarrow> fst (createLink P uid url w) \<noteq> Inl link_limit) \<and>
    (js_number t' = NaN \<longrightarrow> fst (createBin P uid dto w) \<noteq> Inl bin_limit)"
proof (intro conjI impI)
  assume n: "js_number t = Dec (int n) 0" "length (links_of (db w) uid) \<le> n"
  obtain r w' where c: "createLink P uid url w = (r, w')" by fastforce
  show "length (links_of (db (snd (createLink P uid url w))) uid) \<le> n"
  proof (cases "length (links_of (db w) uid) = n")
    case True
    then show ?thesis using n(1) by (simp add: createLink_def limit_from_env_def assms(1) reached_def)
  next
    case False
    then have "linkAttempts P uid url 8 w = (r, w')"
      using n c by (simp add: createLink_def limit_from_env_def assms(1) reached_def MAX_SHORT_CODE_ATTEMPTS_def)
    then have "length (links_of (db w') uid) \<le> Suc (length (links_of (db w) uid))"
      by (cases rule: linkAttempts_cases) (simp_all add: links_of_def)
    then show ?thesis using False n(2) c by simp
  qed
next
  assume n: "js_number t' = Dec (int n) 0" "length (bins_of (db w) uid) \<le> n"
  show "length (bins_of (db (snd (createBin P uid dto w))) uid) \<le> n"
  proof (cases "length (bins_of (db w) uid) = n")
    case True
    then show ?thesis using n(1)
      by (simp add: createBin_def limit_from_env_def assms(2) reached_def split: sum.split)
  next
    case False
    have "length (bins_of (db (snd (createBin P uid dto w))) uid) \<le> Suc (length (bins_of (db w) uid))"
      by (auto simp: createBin_def bins_of_def randomBytesOf_def randomUUID_def hashUploadPassword_def
          Let_def split: sum.split)
    then show ?thesis using False n(2) by simp
  qed
next
  assume n: "js_number t = NaN"
  obtain r w' where "linkAttempts P uid url 8 w = (r, w')" by fastforce
  then have "r \<noteq> Inl link_limit" using not_link_limit by (cases rule: linkAttempts_cases) auto
  then show "fst (createLink P uid url w) \<noteq> Inl link_limit"
    using n \<open>linkAttempts P uid url 8 w = (r, w')\<close>
    by (simp add: createLink_def limit_from_env_def assms(1) reached_def MAX_SHORT_CODE_ATTEMPTS_def)
next
  assume n: "js_number t' = NaN"
  have "getMasterKeyForUser P uid w \<noteq> Inl bin_limit"
    by (auto simp: getMasterKeyForUser_def session_expired_def bin_limit_def
        split: option.split rtext.split)
  then show "fst (createBin P uid dto w) \<noteq> Inl bin_limit"
    using n by (auto simp: createBin_def limit_from_env_def assms(2) reached_def Let_def
        split: sum.split prod.split)
qed

definition wordy_platform :: "(kv, mem) platform" where
  "wordy_platform = mail_platform\<lparr>env := (\<lambda>_. Some ''25 links'')\<rparr>"

definition sample_bin_dto :: create_bin_dto where
  "sample_bin_dto = \<lparr>cb_content = ''cipher'', cb_size = 6, cb_title = None, cb_password = Some ''pw'',
     cb_expiresIn = Some ''1h'', cb_binKey = ''ab''\<rparr>"

theorem limits_from_environment_witness:
  "fst (createLink wordy_platform ''u'' ''x'' mail_w0) \<noteq> Inl link_limit \<and>
   fst (createBin wordy_platform ''u'' sample_bin_dto mail_w0) \<noteq> Inl bin_limit"
proof -
  have e: "env wordy_platform x = Some ''25 links''" for x by (simp add: wordy_platform_def)
  have "js_number ''25 links'' = NaN" by code_simp
  then show ?thesis using limits_from_environment [OF e e] by blast
qed

section \<open>Bins\<close>

lemma assertBinPassword_frame:
  "assertBinPassword P b pw ip w = (r, w') \<Longrightarrow> db w' = db w"
  by (auto simp: assertBinPassword_def Let_def split: if_splits sum.splits prod.splits)

lemma assertBinPassword_Inr:
  "assertBinPassword P b pw ip w = (Inr (), w') \<Longrightarrow> truthy (bin_passwordHash b) \<Longrightarrow>
     truthy pw \<and> bcrypt_compare P (the pw) (the (bin_passwordHash b))"
  by (auto simp: assertBinPassword_def Let_def split: if_splits sum.splits prod.splits)

text \<open>The content of a bin goes only to a caller with its token, before its expiry, and with its
  password if it has one, and reading changes no table. A request that finds the bin expired removes
  exactly that bin; every other refusal leaves all bins.\<close>

theorem bin_gate:
  assumes "distinct (map bin_id (bins (db w)))" "getBinContent P i token pw ip w = (r, w')"
  shows "case r of
      Inr view \<Rightarrow> (\<exists>b \<in> set (bins (db w)). bin_id b = i \<and> bin_shareToken b = token \<and>
        \<not> bin_expired (now w) b \<and> bc_content view = bin_content b \<and>
        (truthy (bin_passwordHash b) \<longrightarrow> truthy pw \<and> bcrypt_compare P (the pw) (the (bin_passwordHash b)))) \<and>
        db w' = db w
    | Inl e \<Rightarrow> bins (db w') =
        filter (\<lambda>b. \<not> (bin_id b = i \<and> bin_shareToken b = token \<and> bin_expired (now w) b)) (bins (db w))"
proof (cases "find (\<lambda>b. bin_id b = i) (bins (db w))")
  case None
  then have "\<forall>b \<in> set (bins (db w)). bin_id b \<noteq> i" by (auto simp: find_None_iff)
  then have "filter (\<lambda>b. \<not> (bin_id b = i \<and> bin_shareToken b = token \<and> bin_expired (now w) b))
      (bins (db w)) = bins (db w)" by (simp add: filter_id_conv)
  then show ?thesis using assms(2) None by (auto simp: getBinContent_def)
next
  case (Some b)
  then have b: "b \<in> set (bins (db w))" "bin_id b = i" by (auto dest: find_Some_mem)
  have only: "x = b" if "x \<in> set (bins (db w))" "bin_id x = i" for x
    using assms(1) b that by (auto simp: distinct_map dest: inj_onD)
  have gone: "filter (\<lambda>x. \<not> (bin_id x = i \<and> bin_shareToken x = token \<and> bin_expired (now w) x))
      (bins (db w)) = (if bin_shareToken b = token \<and> bin_expired (now w) b
        then delete_where (\<lambda>x. bin_id x = i) (bins (db w)) else bins (db w))"
    unfolding delete_where_def using only by (auto simp: filter_id_conv intro!: filter_cong)
  show ?thesis
  proof (cases "bin_shareToken b = token \<and> \<not> bin_expired (now w) b")
    case True
    obtain r1 w1 where a: "assertBinPassword P b pw ip w = (r1, w1)" by fastforce
    then have "db w' = db w" using assms(2) Some True assertBinPassword_frame [OF a]
      by (auto simp: getBinContent_def bin_expired_def split: sum.splits if_splits)
    then show ?thesis
      using assms(2) Some True a b gone assertBinPassword_Inr [of P b pw ip w w1]
      by (auto simp: getBinContent_def bin_expired_def split: sum.splits if_splits)
  next
    case False
    then show ?thesis using assms(2) Some gone
      by (auto simp: getBinContent_def delete_bin_def bin_expired_def split: if_splits)
  qed
qed

text \<open>The bin of the sample run.\<close>

definition bin_w1 :: mem_world where
  "bin_w1 = snd (createBin mail_platform ''u'' sample_bin_dto mail_w0)"

lemma sample_bin:
  "\<exists>b. createBin mail_platform ''u'' sample_bin_dto mail_w0 = (Inr b, bin_w1) \<and> bins (db bin_w1) = [b] \<and>
     bin_id b = unary 3 \<and> bin_shareToken b = unary 4 \<and> bin_expiresAt b = Some 3601000 \<and>
     redis bin_w1 = redis mail_w0"
proof -
  have k: "getMasterKeyForUser mail_platform ''u'' mail_w0 = Inr (unhex ''6b'')"
    by (simp add: getMasterKeyForUser_def redis_get_def mail_w0_def del: unhex.simps)
  have e: "unary 3 = unary (Suc (Suc (Suc 0)))" "unary 4 = unary (Suc (Suc (Suc (Suc 0))))"
    by (simp_all add: eval_nat_numeral)
  show ?thesis
    unfolding bin_w1_def e
    by (simp add: createBin_def k bins_of_def mail_w0_links limit_from_env_def reached_def
        randomBytesOf_def randomUUID_def hashUploadPassword_def sample_bin_dto_def truthy_def
        binExpiration_def mail_w0_facts Let_def)
qed

theorem bin_gate_witness:
  "\<exists>r w'. getBinContent mail_platform (unary 3) ''no'' None ''ip'' bin_w1 = (Inl r, w') \<and>
     bins (db w') = bins (db bin_w1)"
proof -
  obtain b where b: "bins (db bin_w1) = [b]" "bin_id b = unary 3" "bin_shareToken b = unary 4"
    using sample_bin by blast
  obtain r w' where g: "getBinContent mail_platform (unary 3) ''no'' None ''ip'' bin_w1 = (r, w')"
    by fastforce
  have d: "distinct (map bin_id (bins (db bin_w1)))" using b by simp
  have n: "unary 4 \<noteq> ''no''"
  proof
    assume "unary 4 = ''no''"
    then have "CHR ''n'' \<in> set (unary 4)" by simp
    then show False by (simp add: unary_def)
  qed
  show ?thesis using bin_gate [OF d g] b g n by (cases r) auto
qed

lemma createBin_stored:
  assumes "fresh_uuids P" "bin_id ` set (bins (db w)) \<subseteq> uuid P ` {..<draws w}"
    and run: "createBin P uid dto w = (Inr b, w1)"
  obtains mk iv i where "getMasterKeyForUser P uid w = Inr mk" "bins (db w1) = bins (db w) @ [b]"
    "find (\<lambda>x. bin_id x = bin_id b) (bins (db w1)) = Some b"
    "bin_passwordHash b = (if truthy (cb_password dto)
      then Some (bcrypt_hash P i (the (cb_password dto)) 12) else None)"
    "bin_content b = cb_content dto" "bin_userId b = uid" "bin_binKeyIv b = hex iv"
    "bin_encryptedBinKey b = hex (aes_cbc_encrypt P mk iv (utf8 P (cb_binKey dto)))"
proof -
  obtain mk where mk: "getMasterKeyForUser P uid w = Inr mk"
    using run by (auto simp: createBin_def split: sum.splits)
  obtain iv ph w3 where h: "hashUploadPassword P (cb_password dto) (w\<lparr>draws := Suc (draws w)\<rparr>) = (ph, w3)"
    "iv = randomBytes P (draws w) 16" by fastforce
  have ph: "ph = (if truthy (cb_password dto)
      then Some (bcrypt_hash P (Suc (draws w)) (the (cb_password dto)) 12) else None)"
    "draws w \<le> draws w3" "db w3 = db w" "now w3 = now w"
    using h(1) by (auto simp: hashUploadPassword_def split: if_splits)
  have b: "bin_id b = uuid P (draws w3)" "bin_passwordHash b = ph" "bin_content b = cb_content dto"
    "bin_userId b = uid" "bin_binKeyIv b = hex iv"
    "bin_encryptedBinKey b = hex (aes_cbc_encrypt P mk iv (utf8 P (cb_binKey dto)))"
    and w1: "bins (db w1) = bins (db w) @ [b]"
    using run mk h ph(3) by (auto simp: createBin_def randomBytesOf_def randomUUID_def Let_def split: if_splits)
  have "bin_id b \<notin> bin_id ` set (bins (db w))"
  proof
    assume "bin_id b \<in> bin_id ` set (bins (db w))"
    then obtain i where "i < draws w" "uuid P (draws w3) = uuid P i" using assms(2) b(1) by auto
    then show False using assms(1) ph(2) fresh_uuids_neq [of P "draws w3" i] by simp
  qed
  then have "find (\<lambda>x. bin_id x = bin_id b) (bins (db w)) = None"
    unfolding find_None_iff by (metis imageI)
  then have "find (\<lambda>x. bin_id x = bin_id b) (bins (db w1)) = Some b"
    by (simp add: w1 find_append)
  then show thesis using that [OF mk w1 _ _ b(3-6)] b(2) ph(1) by simp
qed

text \<open>A bin is read with its token and password exactly as it was stored, until it expires, unless
  too many wrong passwords were tried; and as long as the same master key is in Redis, the owner's list
  shows the share link with the key given at creation.\<close>

lemma bin_roundtrip:
  assumes "cipher_ok P" "utf8_ok P" "bcrypt_ok P" "fresh_uuids P"
    and ids: "bin_id ` set (bins (db w)) \<subseteq> uuid P ` {..<draws w}"
    and run: "createBin P uid dto w = (Inr b, w1)" and later: "db w2 = db w1"
  shows "(case fst (getBinContent P (bin_id b) (bin_shareToken b) (cb_password dto) ip w2) of
      Inr view \<Rightarrow> \<not> bin_expired (now w2) b \<and> bc_content view = cb_content dto
    | Inl e \<Rightarrow> if bin_expired (now w2) b then e = NotFound ''Bin has expired''
        else \<exists>t. e = too_many_attempts t) \<and>
    (getMasterKeyForUser P uid w2 = getMasterKeyForUser P uid w \<longrightarrow>
      (\<exists>us. getUserBins P uid w2 = Inr us \<and> (\<exists>u \<in> set us. ub_id u = bin_id b \<and>
        ub_shareLink u = ''/b/'' @ bin_id b @ ''?token='' @ bin_shareToken b @ ''#'' @ cb_binKey dto)))"
proof -
  obtain mk iv i where mk: "getMasterKeyForUser P uid w = Inr mk" and w1: "bins (db w1) = bins (db w) @ [b]"
    and stored: "find (\<lambda>x. bin_id x = bin_id b) (bins (db w1)) = Some b"
    and ph: "bin_passwordHash b = (if truthy (cb_password dto)
      then Some (bcrypt_hash P i (the (cb_password dto)) 12) else None)"
    and b: "bin_content b = cb_content dto" "bin_userId b = uid" "bin_binKeyIv b = hex iv"
      "bin_encryptedBinKey b = hex (aes_cbc_encrypt P mk iv (utf8 P (cb_binKey dto)))"
    by (rule createBin_stored [OF assms(4) ids run])
  have found: "find (\<lambda>x. bin_id x = bin_id b) (bins (db w2)) = Some b"
    by (simp add: later stored)
  obtain r w4 where a: "assertBinPassword P b (cb_password dto) ip w2 = (r, w4)" by fastforce
  have pass: "r = Inr () \<or> (\<exists>t. r = Inl (too_many_attempts t))"
  proof (cases "truthy (bin_passwordHash b)")
    case True
    then have t: "truthy (cb_password dto)"
      "bcrypt_compare P (the (cb_password dto)) (the (bin_passwordHash b))"
      using ph assms(3) by (auto simp: truthy_def bcrypt_ok_def split: if_splits)
    show ?thesis using a t True
      by (auto simp: assertBinPassword_def assertAvailable_def Let_def split: option.splits if_splits)
  next
    case False
    then show ?thesis using a by (simp add: assertBinPassword_def)
  qed
  have read: "case fst (getBinContent P (bin_id b) (bin_shareToken b) (cb_password dto) ip w2) of
      Inr view \<Rightarrow> \<not> bin_expired (now w2) b \<and> bc_content view = cb_content dto
    | Inl e \<Rightarrow> if bin_expired (now w2) b then e = NotFound ''Bin has expired''
        else \<exists>t. e = too_many_attempts t"
    using found a pass b(1)
    by (auto simp: getBinContent_def bin_expired_def split: sum.splits if_splits)
  have "binKeyOf P mk b = cb_binKey dto"
    using assms(1,2) by (simp add: binKeyOf_def b(3,4) cipher_ok_def utf8_ok_def)
  then have "ub_id (toUserBin P mk b) = bin_id b \<and> ub_shareLink (toUserBin P mk b) =
      ''/b/'' @ bin_id b @ ''?token='' @ bin_shareToken b @ ''#'' @ cb_binKey dto"
    by (simp add: toUserBin_def)
  moreover have "b \<in> set (bins_of (db w2) uid)" by (simp add: bins_of_def later w1 b(2))
  ultimately have "getMasterKeyForUser P uid w2 = getMasterKeyForUser P uid w \<longrightarrow>
      (\<exists>us. getUserBins P uid w2 = Inr us \<and> (\<exists>u \<in> set us. ub_id u = bin_id b \<and>
        ub_shareLink u = ''/b/'' @ bin_id b @ ''?token='' @ bin_shareToken b @ ''#'' @ cb_binKey dto))"
    using mk by (auto simp: getUserBins_def)
  with read show ?thesis by blast
qed

end
