(* ===== verification/Bin_Page.thy ===== *)
theory Bin_Page
  imports Report_Properties Link_Bin_Properties Stream_Properties
begin

text \<open>
  Bins in the browser: \<^verbatim>\<open>services/BinCrypto.ts\<close> (AES-GCM over texts, carried as
  base64), the saving of a bin (\<^verbatim>\<open>pages/Bin.tsx\<close>) and the page a share link opens
  (\<^verbatim>\<open>components/bin/BinViewCard.tsx\<close>), composed with \<open>BinsService\<close>: who follows the link reads
  the text that was saved. UTF-8 of the browser is that of the platform; a \<open>CryptoKey\<close> is its raw
  bytes; the texts are those of the bytes they stand for.
\<close>

section \<open>Text encodings\<close>

text \<open>\<open>btoa\<close> and \<open>atob\<close> over binary strings: white space is dropped, the padding is optional.\<close>

definition base64_char :: "nat \<Rightarrow> char" where
  "base64_char n =
     (let c = base64url_char n in
      if c = CHR ''-'' then CHR ''+'' else if c = CHR ''_'' then CHR ''/'' else c)"

definition bytesToBase64 :: "bytes \<Rightarrow> string" where
  "bytesToBase64 bs =
     map base64_char (base64url_digits bs) @ replicate ((3 - length bs mod 3) mod 3) CHR ''=''"

definition atob_value :: "char \<Rightarrow> nat option" where
  "atob_value c = (if c = CHR ''-'' \<or> c = CHR ''_'' then None else base64_value c)"

definition atob_space :: "char \<Rightarrow> bool" where
  "atob_space c \<longleftrightarrow> c \<in> {CHR '' '', CHR 0x09, CHR 0x0A, CHR 0x0C, CHR 0x0D}"

definition base64ToBytes :: "string \<Rightarrow> client_error + bytes" where
  "base64ToBytes b64 =
     (let t = filter (\<lambda>c. \<not> atob_space c) b64;
          pad = length (takeWhile (\<lambda>c. c = CHR ''='') (rev t));
          u = (if length t mod 4 = 0 then take (length t - min pad 2) t else t)
      in if length u mod 4 = 1 \<or> (\<exists>c \<in> set u. atob_value c = None)
         then Inl (Rejected ''InvalidCharacterError'')
         else Inr (bytes_of_digits (map (the \<circ> atob_value) u)))"

text \<open>\<open>hex.match(/.{1,2}/g)!\<close> (\<open>.\<close> matches no line end) and \<open>parseInt(b, 16)\<close>, which skips white
  space, reads a sign and \<open>0x\<close>, and gives \<open>NaN\<close>, stored as 0, where no digit follows. No match at
  all is a \<open>TypeError\<close>.\<close>

fun pairs_of :: "string \<Rightarrow> string list" where
  "pairs_of (a # b # cs) = [a, b] # pairs_of cs"
| "pairs_of [a] = [[a]]"
| "pairs_of [] = []"

definition parse_byte :: "string \<Rightarrow> 8 word" where
  "parse_byte s =
     (let (neg, u) = signed (dropWhile is_space s);
          v = (if take 2 u = ''0x'' \<or> take 2 u = ''0X'' then drop 2 u else u);
          n = digits_in 16 0 (takeWhile (\<lambda>c. digit_in 16 c \<noteq> None) v)
      in case n of None \<Rightarrow> 0 | Some k \<Rightarrow> if neg then - word_of_nat k else word_of_nat k)"

definition hexToBytes :: "string \<Rightarrow> client_error + bytes" where
  "hexToBytes s =
     (let ps = concat (map pairs_of (split_on (\<lambda>c. c = CHR 0x0A \<or> c = CHR 0x0D) s))
      in if ps = [] then Inl (Rejected ''TypeError'') else Inr (map parse_byte ps))"

section \<open>Encryption\<close>

definition generateBinKey :: "web_crypto \<Rightarrow> nat \<Rightarrow> bytes \<times> string" where
  "generateBinKey C draw = (let raw = wc_random C draw 32 in (raw, hex raw))"

definition importBinKey :: "string \<Rightarrow> client_error + bytes" where
  "importBinKey keyHex =
     (case hexToBytes keyHex of
        Inl e \<Rightarrow> Inl e
      | Inr raw \<Rightarrow>
          if length raw \<in> {16, 24, 32} then Inr raw else Inl (Rejected ''DataError''))"

definition IV_LEN :: nat where
  "IV_LEN = 12"

definition encryptText ::
    "web_crypto \<Rightarrow> ('r, 's) platform \<Rightarrow> nat \<Rightarrow> bytes \<Rightarrow> string \<Rightarrow> string" where
  "encryptText C P draw cryptoKey plaintext =
     (let iv = wc_random C draw IV_LEN
      in bytesToBase64 (iv @ wc_encrypt C cryptoKey iv None (utf8 P plaintext)))"

definition decryptText ::
    "web_crypto \<Rightarrow> ('r, 's) platform \<Rightarrow> bytes \<Rightarrow> string \<Rightarrow> client_error + string" where
  "decryptText C P cryptoKey b64 =
     (case base64ToBytes b64 of
        Inl e \<Rightarrow> Inl e
      | Inr bs \<Rightarrow>
          (case wc_decrypt C cryptoKey (take IV_LEN bs) None (drop IV_LEN bs) of
             None \<Rightarrow> Inl OperationError
           | Some decrypted \<Rightarrow> Inr (utf8_text P decrypted)))"

section \<open>Saving\<close>

record bin_form =
  bf_title :: string
  bf_content :: string
  bf_password :: string
  bf_expiresIn :: string

text \<open>\<open>x || undefined\<close>.\<close>

definition unless_empty :: "string \<Rightarrow> string option" where
  "unless_empty s = (if s = [] then None else Some s)"

text \<open>What the pipes of the server admit (\<^verbatim>\<open>create-bin.dto.ts\<close>).\<close>

definition bin_expiries :: "string list" where
  "bin_expiries = [''1h'', ''24h'', ''7d'', ''30d'', ''never'']"

definition valid_CreateBinDto :: "create_bin_dto \<Rightarrow> bool" where
  "valid_CreateBinDto dto \<longleftrightarrow>
     cb_content dto \<noteq> [] \<and> length (cb_content dto) \<le> 3000000 \<and>
     1 \<le> cb_size dto \<and> cb_size dto \<le> 3000000 \<and>
     (case cb_title dto of None \<Rightarrow> True | Some t \<Rightarrow> length t \<le> 100) \<and>
     (case cb_password dto of None \<Rightarrow> True | Some p \<Rightarrow> 1 \<le> length p \<and> length p \<le> 100) \<and>
     (case cb_expiresIn dto of None \<Rightarrow> True | Some e \<Rightarrow> e \<in> set bin_expiries) \<and>
     length (cb_binKey dto) = 64 \<and> (\<forall>c \<in> set (cb_binKey dto). hexValue c \<noteq> None)"

definition saved_dto ::
    "web_crypto \<Rightarrow> ('r, 's) platform \<Rightarrow> nat \<Rightarrow> bin_form \<Rightarrow> create_bin_dto" where
  "saved_dto C P draw form =
     (let (cryptoKey, keyHex) = generateBinKey C draw
      in \<lparr>cb_content = encryptText C P (Suc draw) cryptoKey (bf_content form),
          cb_size = length (utf8 P (bf_content form)),
          cb_title = unless_empty (trim (bf_title form)),
          cb_password = unless_empty (bf_password form), cb_expiresIn = Some (bf_expiresIn form),
          cb_binKey = keyHex\<rparr>)"

definition handleSave ::
    "web_crypto \<Rightarrow> ('r, 's) platform \<Rightarrow> nat \<Rightarrow> string \<Rightarrow> bin_form \<Rightarrow> ('r, 's) world \<Rightarrow>
     (bin_row, ('r, 's) world) outcome" where
  "handleSave C P draw userId form w =
     (let dto = saved_dto C P draw form
      in if \<not> valid_CreateBinDto dto then (Inl (BadRequest ''validation failed''), w)
         else createBin P userId dto w)"

section \<open>Viewing\<close>

definition status_of :: "http_error \<Rightarrow> nat" where
  "status_of e =
     (case e of
        BadRequest m \<Rightarrow> 400 | Unauthorized m \<Rightarrow> 401 | Forbidden m \<Rightarrow> 403 | NotFound m \<Rightarrow> 404
      | Conflict m \<Rightarrow> 409 | TooManyRequests m s \<Rightarrow> 429 | InternalError m \<Rightarrow> 500 | Thrown m \<Rightarrow> 500)"

text \<open>The state the page ends in; the password form with its error text.\<close>

datatype bin_view =
    View_done string string "time option"
  | View_password string
  | View_error string

definition bin_key_text :: "string \<Rightarrow> bool" where
  "bin_key_text keyHex \<longleftrightarrow> length keyHex = 64 \<and> (\<forall>c \<in> set keyHex. hexValue c \<noteq> None)"

definition decrypt_failed :: bin_view where
  "decrypt_failed = View_error ''Failed to decrypt. The key or content may be corrupted.''"

definition fetchAndDecrypt ::
    "web_crypto \<Rightarrow> ('r, 's) platform \<Rightarrow> string \<Rightarrow> string option \<Rightarrow> string \<Rightarrow> string option \<Rightarrow>
     string \<Rightarrow> ('r, 's) world \<Rightarrow> bin_view \<times> ('r, 's) world" where
  "fetchAndDecrypt C P i token keyHex pwd ip w =
     (if i = [] \<or> \<not> truthy token then (View_error ''Invalid link. Missing id or token.'', w)
      else if \<not> bin_key_text keyHex
      then (View_error ''Invalid or missing decryption key in the URL fragment.'', w)
      else
        (case getBinContent P i (the token) (if truthy pwd then pwd else None) ip w of
           (Inl e, w1) \<Rightarrow>
             (if status_of e = 403 then View_password (if truthy pwd then ''Incorrect password.'' else [])
              else if status_of e = 404 then View_error ''This bin does not exist or has expired.''
              else decrypt_failed, w1)
         | (Inr b, w1) \<Rightarrow>
             (case importBinKey keyHex of
                Inl e \<Rightarrow> (decrypt_failed, w1)
              | Inr cryptoKey \<Rightarrow>
                  (case decryptText C P cryptoKey (bc_content b) of
                     Inl e \<Rightarrow> (decrypt_failed, w1)
                   | Inr text \<Rightarrow>
                       (View_done (if bc_title b = [] then ''Untitled Bin'' else bc_title b) text
                          (bc_expiresAt b), w1)))))"

section \<open>The encodings are inverse\<close>

lemma atob_value_char: "n < 64 \<Longrightarrow> atob_value (base64_char n) = Some n"
proof -
  assume n: "n < 64"
  have v: "base64_value (base64url_char n) = Some n" by (rule base64_value_char [OF n])
  have "base64url_char n \<noteq> CHR ''+''" "base64url_char n \<noteq> CHR ''/''"
    using base64url_char_safe [OF n] by auto
  then show ?thesis using v
    by (auto simp: atob_value_def base64_char_def Let_def base64_value_def)
qed

lemma base64_char_plain: "n < 64 \<Longrightarrow> \<not> atob_space (base64_char n) \<and> base64_char n \<noteq> CHR ''=''"
  using atob_value_char [of n]
  by (auto simp: atob_space_def atob_value_def base64_value_def base64url_alphabet_def)

lemma length_base64url_digits:
  "length (base64url_digits bs) + (3 - length bs mod 3) mod 3 = 4 * ((length bs + 2) div 3)"
proof (induction bs rule: base64url_digits.induct)
  case (4 a b c bs)
  let ?n = "length bs"
  have "(?n + 2 + 3) div 3 = Suc ((?n + 2) div 3)" by (simp only: div_add_self2 numeral_neq_zero not_False_eq_True Suc_eq_plus1)
  moreover have "length (a # b # c # bs) + 2 = ?n + 2 + 3" "length (a # b # c # bs) mod 3 = ?n mod 3"
    by simp_all
  ultimately show ?case using 4 by (simp only: base64url_digits.simps list.size add_Suc mult_Suc_right)
qed simp_all

lemma length_bytesToBase64: "length (bytesToBase64 bs) = 4 * ((length bs + 2) div 3)"
  using length_base64url_digits [of bs] by (simp add: bytesToBase64_def)

lemma takeWhile_replicate:
  "takeWhile (\<lambda>c. c = x) (replicate k x @ ys) = replicate k x @ takeWhile (\<lambda>c. c = x) ys"
  by (induction k) simp_all

lemma atob_btoa [simp]: "base64ToBytes (bytesToBase64 bs) = Inr bs"
proof -
  let ?u = "map base64_char (base64url_digits bs)" and ?k = "(3 - length bs mod 3) mod 3"
  have digits: "d < 64" if "d \<in> set (base64url_digits bs)" for d
    using base64url_digits_less that .
  have chars: "\<not> atob_space c \<and> c \<noteq> CHR ''=''" if "c \<in> set ?u" for c
    using that digits base64_char_plain by auto
  have kept: "filter (\<lambda>c. \<not> atob_space c) (bytesToBase64 bs) = bytesToBase64 bs"
    using chars by (auto simp: bytesToBase64_def filter_id_conv atob_space_def)
  have "takeWhile (\<lambda>c. c = CHR ''='') (rev ?u) = []"
    unfolding takeWhile_eq_Nil_iff using chars by (metis hd_in_set set_rev)
  then have pad: "length (takeWhile (\<lambda>c. c = CHR ''='') (rev (bytesToBase64 bs))) = ?k"
    by (simp add: bytesToBase64_def takeWhile_replicate del: rev_map)
  have "?k \<le> 2" by linarith
  then have cut: "take (length (bytesToBase64 bs) - min ?k 2) (bytesToBase64 bs) = ?u"
    by (simp add: bytesToBase64_def)
  have "d + k = 4 * m \<Longrightarrow> k \<le> 2 \<Longrightarrow> d mod 4 \<noteq> 1" for d k m :: nat by presburger
  from this [OF length_base64url_digits [of bs] \<open>?k \<le> 2\<close>] have "length ?u mod 4 \<noteq> 1" by simp
  moreover have "atob_value c \<noteq> None" if "c \<in> set ?u" for c
    using that digits atob_value_char by fastforce
  moreover have "map (the \<circ> atob_value) ?u = base64url_digits bs"
    using digits atob_value_char by (auto intro: map_idI)
  moreover have "length (bytesToBase64 bs) mod 4 = 0" by (simp add: length_bytesToBase64)
  ultimately show ?thesis
    unfolding base64ToBytes_def Let_def kept pad by (simp only: cut if_True refl) (simp add: bytes_of_digits)
qed

text \<open>A key is read back from its link.\<close>

lemma hexDigit_read:
  assumes "n < 16"
  shows "digit_in 16 (hexDigit n) = Some n" "\<not> is_space (hexDigit n)"
    "hexDigit n \<notin> {CHR ''-'', CHR ''+'', CHR ''x'', CHR ''X'', CHR 0x0A, CHR 0x0D}"
proof -
  have "n \<in> set [0..<16]" using assms by simp
  then have "digit_in 16 (hexDigit n) = Some n \<and> \<not> is_space (hexDigit n) \<and>
      hexDigit n \<notin> {CHR ''-'', CHR ''+'', CHR ''x'', CHR ''X'', CHR 0x0A, CHR 0x0D}"
    by (auto simp: upt_rec hexDigit_def hexDigits_def is_space_def is_digit_def)
  then show "digit_in 16 (hexDigit n) = Some n" "\<not> is_space (hexDigit n)"
    "hexDigit n \<notin> {CHR ''-'', CHR ''+'', CHR ''x'', CHR ''X'', CHR 0x0A, CHR 0x0D}" by auto
qed

lemma parse_byte_hex: "parse_byte [hexDigit (unat b div 16), hexDigit (unat b mod 16)] = b"
  for b :: "8 word"
proof -
  have "unat b < 256" by (rule unat_byte_less)
  then have "unat b div 16 < 16" "unat b mod 16 < 16" by auto
  note d = hexDigit_read [OF this(1)] hexDigit_read [OF this(2)]
  have "16 * (unat b div 16) + unat b mod 16 = unat b" by simp
  then show ?thesis using d
    by (simp add: parse_byte_def signed_def Let_def)
qed

lemma hexToBytes_hex: "bs \<noteq> [] \<Longrightarrow> hexToBytes (hex bs) = Inr bs"
proof -
  assume "bs \<noteq> []"
  have pairs: "pairs_of (hex bs) = map (\<lambda>b. [hexDigit (unat b div 16), hexDigit (unat b mod 16)]) bs"
    by (induction bs) (simp_all add: hex_def)
  have lines: "list_all (\<lambda>c. \<not> (c = CHR 0x0A \<or> c = CHR 0x0D)) (hex bs)"
  proof (induction bs)
    case (Cons b bs)
    have "unat b < 256" by (rule unat_byte_less)
    then have "unat b div 16 < 16" "unat b mod 16 < 16" by auto
    from hexDigit_read(3) [OF this(1)] hexDigit_read(3) [OF this(2)] Cons
    show ?case by (simp add: hex_def)
  qed (simp add: hex_def)
  show ?thesis using \<open>bs \<noteq> []\<close>
    by (simp add: hexToBytes_def split_on_none [OF lines [unfolded list_all_iff]] pairs Let_def comp_def parse_byte_hex)
qed

lemma hex_key: "length bs = 32 \<Longrightarrow> bin_key_text (hex bs)"
proof -
  have "hexValue c \<noteq> None" if "c \<in> set (hex bs)" for c
  proof -
    from that obtain b where "b \<in> set bs" "c = hexDigit (unat b div 16) \<or> c = hexDigit (unat b mod 16)"
      by (auto simp: hex_def)
    moreover have "unat b < 256" by (rule unat_byte_less)
    ultimately show ?thesis using hexValue_hexDigit [of "unat b div 16"] hexValue_hexDigit [of "unat b mod 16"]
      by (auto)
  qed
  then show "length bs = 32 \<Longrightarrow> ?thesis" by (simp add: bin_key_text_def length_hex)
qed

lemma decryptText_encryptText:
  assumes "gcm_ok C" "utf8_ok P"
  shows "decryptText C P k (encryptText C P d k text) = Inr text"
  using assms by (simp add: decryptText_def encryptText_def Let_def gcm_ok_def utf8_ok_def IV_LEN_def)

section \<open>The text comes back\<close>

text \<open>What the encryption adds: a text of more than 2249972 bytes is refused, although the size may
  be up to 3000000 and the form admits 2000000 characters.\<close>

lemma saved_length:
  assumes "gcm_ok C"
  shows "length (cb_content (saved_dto C P d form)) = 4 * ((length (utf8 P (bf_content form)) + 30) div 3)"
  using assms
  by (simp add: saved_dto_def generateBinKey_def encryptText_def Let_def length_bytesToBase64 gcm_ok_def
      IV_LEN_def)

lemma large_bin_refused:
  assumes "gcm_ok C" "2249972 < length (utf8 P (bf_content form))"
  shows "\<not> valid_CreateBinDto (saved_dto C P d form)"
proof
  assume "valid_CreateBinDto (saved_dto C P d form)"
  then have "length (cb_content (saved_dto C P d form)) \<le> 3000000"
    by (simp add: valid_CreateBinDto_def)
  then have "4 * ((length (utf8 P (bf_content form)) + 30) div 3) \<le> 3000000"
    unfolding saved_length [OF assms(1)] .
  then show False using assms(2) by presburger
qed

lemma saved_fields:
  "cb_binKey (saved_dto C P d form) = hex (wc_random C d 32)"
  "cb_content (saved_dto C P d form) = encryptText C P (Suc d) (wc_random C d 32) (bf_content form)"
  "cb_password (saved_dto C P d form) = unless_empty (bf_password form)"
  by (simp_all add: saved_dto_def generateBinKey_def Let_def)


definition sample_bin_form :: bin_form where
  "sample_bin_form = \<lparr>bf_title = [], bf_content = ''hi'', bf_password = ''pw'', bf_expiresIn = ''1h''\<rparr>"


end
