(* ===== verification/Spec2Isabelle.thy ===== *)
theory Spec2Isabelle
  imports Upload_Properties Download_Properties Mail_Actions Event_Properties Stream_Properties Worker_Properties Guard_Properties Client_Ip Blog_Properties Internal_Mail_Properties Report_Properties Dashboard_Properties Admin_Invites Bin_Page
begin

text \<open>
  \<^bold>\<open>RedBox.\<close> A service for encrypted files, mail, text bins and short links: a NestJS backend
  (\<^verbatim>\<open>src/apps/backend\<close>) over PostgreSQL (Prisma), Redis and an S3 store (MinIO), an
  administration API in a second process of the same sources, and a React front end
  (\<^verbatim>\<open>src/apps/frontend\<close>) that encrypts and decrypts files in the browser. This development
  models the services of the backend and the cryptographic and streaming code of the front end.

  \<^bold>\<open>How the code is modelled.\<close> A row of a table is a record of \<open>Schema\<close>, the database the record
  \<open>db\<close> of lists of rows, with the referential actions of \<^verbatim>\<open>prisma/schema.prisma\<close> written out.
  \<open>world\<close> (in \<open>Platform\<close>) is the state of the backend: database, Redis, object store, clock and the
  number of random values drawn. A handler maps arguments and a world to \<open>outcome\<close>: an exception
  (\<open>http_error\<close>, one constructor per Nest exception, \<open>Thrown\<close> for what answers 500) or a value,
  with the world it leaves; what an exception leaves behind stays, except inside a transaction.
  Everything outside the repository is an argument: the record \<open>platform\<close> (Redis commands, S3
  commands, UUIDs, random bytes, bcrypt, scrypt, AES, RSA, JWT, UTF-8, the environment, the calendar
  of \<open>date-fns\<close>), \<open>web_crypto\<close> of the browser, \<open>url_api\<close>, \<open>report_cipher\<close>, \<open>disk_api\<close>,
  \<open>calendar\<close>. What a theorem needs of it is a hypothesis of that theorem (\<open>fresh_uuids\<close>,
  \<open>cipher_ok\<close>, \<open>gcm_ok\<close>, \<open>opens_only_chunks\<close>, \<open>report_cipher_ok\<close>, the laws of \<open>redis_server\<close> and
  \<open>object_store\<close>), and its witness gives an instance.

  \<^bold>\<open>The theories.\<close>

  \<^item> \<open>Prelude\<close>: outcomes, loops of awaits, tables, the locale \<open>invariant_system\<close>. \<open>Schema\<close>: the
    tables. \<open>Bytes\<close>: bytes and hex. \<open>Redis_Store\<close>: the Redis commands, the locale \<open>redis_server\<close>
    and its interpretation on a key-value store with expiry. \<open>Platform\<close>: the platform, the world,
    the environment (\<^verbatim>\<open>common/config/env.ts\<close>). \<open>Object_Store\<close>: the locale
    \<open>object_store\<close> and its interpretation on an S3 store in memory.
  \<^item> Rate limits. \<open>Rate_Limit\<close>: \<open>RateLimitService\<close> (windows, attempts, concurrent streams).
    \<open>Rate_Guard\<close>, \<open>Guard_Properties\<close>: \<open>RateLimitGuard\<close> and the wrapper of event streams.
    \<open>Client_Ip\<close>: the address a request is counted under, behind trusted proxies
    (\<^verbatim>\<open>common/http/client-ip.ts\<close>).
  \<^item> Accounts. \<open>User_Lifecycle\<close>: \<open>UsersService\<close>; \<open>Admin_Users\<close>: \<open>AdminUsersService\<close>; \<open>Auth\<close>:
    \<open>AuthService\<close>, \<open>InternalAuthService\<close>, \<open>AdminAuthService\<close> and the token strategies.
    \<open>Lifecycle_Invariant\<close>, \<open>Account_System\<close> and \<open>Account_Steps\<close>: the invariant of accounts,
    deletion requests, restrictions and invite codes, kept by every operation, and the step
    relation \<open>account_step\<close>. \<open>Account_Properties\<close>: what holds in every reachable state.
    \<open>Admin_Invites\<close>: \<open>AdminInvitesService\<close> and what its codes admit.
  \<^item> Files. \<open>File_Geometry\<close> (sizes and chunk counts), \<open>Upload\<close> and \<open>File_Access\<close>: \<open>FilesService\<close>
    and the chunk guard. \<open>Upload_System\<close>, \<open>File_Steps\<close>: the service as a system whose steps
    interleave the parts of a chunk request with everything else. \<open>File_Sample\<close>: a run for the
    witnesses. \<open>File_Properties\<close>, \<open>Upload_Properties\<close>, \<open>Download_Properties\<close>: quota, completeness,
    cancellation, starts, download gate, password guesses, share links, clean-up.
  \<^item> Mail. \<open>Mail_Address\<close>: aliases and addresses; \<open>Mailbox\<close>, \<open>Mail_Service\<close>: \<open>MailService\<close>;
    \<open>Mail_Steps\<close>, \<open>Mail_Invariant\<close>: rows and stored objects agree in every reachable state of
    mailbox, accounts and other services; \<open>Mail_Sample\<close>, \<open>Mail_Properties\<close>, \<open>Mail_Actions\<close>.
    \<open>Admin_Mails\<close>, \<open>Admin_Mail_Properties\<close>, \<open>Internal_Mail_System\<close>, \<open>Internal_Mail_Properties\<close>:
    \<open>AdminMailsService\<close>, which writes into the mailboxes and recalls what it wrote.
  \<^item> Links and bins: \<open>Links_Bins\<close>, \<open>Link_Bin_Properties\<close>. Events and notifications:
    \<open>Event_Hubs\<close>, \<open>Notifications\<close>, \<open>Event_Properties\<close> (delivery refines the list of open
    streams).
  \<^item> Administration. \<open>Admin_Audit\<close>: the audit log; \<open>Blog\<close>, \<open>Blog_Properties\<close>: posts with their
    text in the store; \<open>Reports\<close>, \<open>Admin_Reports\<close>, \<open>Report_Properties\<close>: reports of content and
    bugs and their review; \<open>Admin_Dashboard\<close>, \<open>Dashboard_Properties\<close>: totals, charts, heartbeats.
  \<^item> Browser. \<open>File_Crypto\<close>: the encryption of a file by chunks; \<open>Stream_Download\<close>: the decryption
    of a network stream; \<open>Stream_Refinement\<close>: the same read off the bytes alone, and the proof that
    the loop does that; \<open>Download_Client\<close>: metadata and file names; \<open>Stream_Properties\<close>.
    \<open>Download_Worker\<close>, \<open>Worker_Invariant\<close>, \<open>Worker_Properties\<close>: the service worker
    (\<^verbatim>\<open>public/__redbox_download/sw.js\<close>) over all messages, requests and timers.

  \<^bold>\<open>What the lemmas show.\<close> Each system (accounts, files, mailbox, internal mail, blog, service worker)
  has a step relation, an invariant, one lemma per operation that keeps it, and an interpretation of
  \<open>invariant_system\<close> on that relation; the properties are read off the invariant in every
  reachable state. The other components have lemmas for each branch of an operation (\<open>_cases\<close>,
  \<open>_effect\<close>) and properties over them: round trips (what is stored, sent, encrypted, reported is
  read back), gates (who is let in, exactly), bounds (quota, guesses, windows, limits), errors
  (what a failed operation leaves), equivalences (an iterated, batched or incremental computation
  against the plain one). Properties about defects state them as theorems: a cancelled upload that
  a late chunk revives, an invite code used twice, an upload that can never complete, a mail archived
  in bulk that stays in the spam folder, a notification delivered twice, an abandoned stream that
  keeps its counter.

  \<^bold>\<open>Bounds and fuel.\<close> No definition takes fuel. The scan of Redis and the listings of the store are
  loops whose end depends on the replies, so they are \<open>partial_function (option)\<close>, and a theorem
  gives the condition under which they return; all other loops end by their structure or a measure.
  Limits (chunk and file sizes, active uploads, windows, sessions of the
  worker) are the constants of the code.

  \<^bold>\<open>Not modelled, or modelled coarser than the code.\<close> Log output. Concurrent calls of
  \<open>Promise.all\<close> run in the order they are written. Equality of texts in the database is equality
  (no collation); \<open>contains\<close> is a parameter. Failures of the database connection and of Redis are
  left out. Some interpolated numbers in messages are shortened. A completed upload is finalised in
  one step after its parts. The MIME parser gives a record of its result; JSON texts in Redis and in
  columns are values; ISO texts are kept as times; ids of audit rows are left out; \<open>trim\<close> removes the
  ASCII white space. \<open>Number()\<close> and quotients are exact, without rounding to doubles. Streams are
  finite lists; progress reports and the heartbeats of event streams are messages or left out. The
  acquisition of a stream's counters settles in one step. In \<open>atomic_store\<close> a refused command
  leaves no change. Liveness of the worker assumes distinct download ids. The steps of internal
  mail that delete users or mails do so through the foreign keys (\<open>foreign_keys\<close>). Controllers and
  modules (decorators and calls of the services), the pages, forms, hooks and thin HTTP wrappers of
  the front end, seed data and generated clients are outside the model.
\<close>

end
